(* ===== verification/Prelude.thy ===== *)
theory Prelude
  imports Main "HOL-Library.Word" "HOL-Library.Char_ord" "HOL-Library.List_Lexorder"
begin

text \<open>
  Shared vocabulary of the development: the error values of the proxy, results and
  state-passing computations, the model of Rust strings (UTF-8 byte sequences) and the
  lemma collections the component theories use.

  Conventions.  A Rust \<open>String\<close> is the list of its UTF-8 bytes, so \<open>length\<close> is
  \<open>str::len\<close> and \<open>char_count\<close> is \<open>str::chars().count()\<close>.  A \<open>u64\<close> is a
  \<open>64 word\<close>, a \<open>usize\<close> length is a \<open>nat\<close>.  Error messages are the texts of the
  \<open>format!\<close> calls; the text a foreign library contributes to a message (the \<open>{e}\<close> of a
  parser or crypto error) is left out, as no decision of the program depends on it.
\<close>

section \<open>Lemma collections\<close>

named_theorems result_simps \<open>unfolding of results and computations\<close>
named_theorems str_simps \<open>facts about the string functions\<close>
named_theorems map_simps \<open>facts about ordered maps\<close>
named_theorems state_simps \<open>facts about the session state\<close>
named_theorems svc_simps \<open>definitions of the micro-services\<close>

section \<open>Errors and results\<close>

type_synonym u64 = "64 word"
type_synonym u16 = "16 word"

text \<open>The variants of the shared error type that the sources construct or match on.\<close>

datatype error =
    ErrConfig string
  | ErrAuthn string
  | ErrState string
  | ErrNoBoundEndpoint string
  | ErrUnknownModule string
  | ErrInternal string
  | ErrCrypto string
  | ErrBadRequest string

fun is_config_error :: "error \<Rightarrow> bool" where
  "is_config_error (ErrConfig _) = True"
| "is_config_error _ = False"

fun is_authn_error :: "error \<Rightarrow> bool" where
  "is_authn_error (ErrAuthn _) = True"
| "is_authn_error _ = False"

type_synonym 'a result = "error + 'a"

text \<open>\<open>Option::ok_or\<close> and the \<open>?\<close> operator on results.\<close>

definition ok_or :: "'a option \<Rightarrow> error \<Rightarrow> 'a result" where
  "ok_or x e = (case x of None \<Rightarrow> Inl e | Some v \<Rightarrow> Inr v)"

definition bind_result :: "'a result \<Rightarrow> ('a \<Rightarrow> 'b result) \<Rightarrow> 'b result" where
  "bind_result r k = (case r of Inl e \<Rightarrow> Inl e | Inr v \<Rightarrow> k v)"

definition is_ok :: "'a result \<Rightarrow> bool" where
  "is_ok r = (case r of Inl _ \<Rightarrow> False | Inr _ \<Rightarrow> True)"

lemma ok_or_simps [simp]:
  "ok_or None e = Inl e" "ok_or (Some v) e = Inr v"
  by (simp_all add: ok_or_def)

lemma ok_or_eq_Inr [simp]: "ok_or x e = Inr v \<longleftrightarrow> x = Some v"
  by (cases x) auto

lemma bind_result_simps [simp]:
  "bind_result (Inl e) k = Inl e" "bind_result (Inr v) k = k v"
  by (simp_all add: bind_result_def)

lemma bind_result_eq_Inr: "bind_result r k = Inr y \<longleftrightarrow> (\<exists>v. r = Inr v \<and> k v = Inr y)"
  by (cases r) auto

lemma bind_result_eq_Inl:
  "bind_result r k = Inl e \<longleftrightarrow> r = Inl e \<or> (\<exists>v. r = Inr v \<and> k v = Inl e)"
  by (cases r) auto

lemma is_ok_simps [simp]: "is_ok (Inr v)" "\<not> is_ok (Inl e)"
  by (simp_all add: is_ok_def)

lemma is_ok_iff: "is_ok r \<longleftrightarrow> (\<exists>v. r = Inr v)"
  by (cases r) auto

text \<open>Collecting an iterator of results: the first error wins.\<close>

fun traverse :: "('a \<Rightarrow> 'b result) \<Rightarrow> 'a list \<Rightarrow> 'b list result" where
  "traverse f [] = Inr []"
| "traverse f (x # xs) =
     bind_result (f x) (\<lambda>y. bind_result (traverse f xs) (\<lambda>ys. Inr (y # ys)))"

lemma traverse_Inr_map: "traverse f xs = Inr ys \<Longrightarrow> map f xs = map Inr ys"
  by (induction xs arbitrary: ys) (auto simp: bind_result_eq_Inr)

lemma traverse_Inl_ex: "traverse f xs = Inl e \<Longrightarrow> \<exists>x \<in> set xs. f x = Inl e"
  by (induction xs) (auto simp: bind_result_eq_Inl)

lemma traverse_length: "traverse f xs = Inr ys \<Longrightarrow> length ys = length xs"
  by (induction xs arbitrary: ys) (auto simp: bind_result_eq_Inr)

lemma traverse_pure [simp]: "traverse (\<lambda>x. Inr (f x)) xs = Inr (map f xs)"
  by (induction xs) auto

lemma traverse_member: "traverse f xs = Inr ys \<Longrightarrow> x \<in> set xs \<Longrightarrow> \<exists>y. f x = Inr y"
  by (induction xs arbitrary: ys) (auto simp: bind_result_eq_Inr)

text \<open>A left fold that stops at the first error: a \<open>for\<close> loop with \<open>?\<close> in its body.\<close>

fun fold_result :: "('a \<Rightarrow> 's \<Rightarrow> 's result) \<Rightarrow> 'a list \<Rightarrow> 's \<Rightarrow> 's result" where
  "fold_result f [] s = Inr s"
| "fold_result f (x # xs) s = bind_result (f x s) (fold_result f xs)"

lemma fold_result_inv:
  assumes "fold_result f xs s = Inr s'" and "I s"
    and "\<And>x s s'. x \<in> set xs \<Longrightarrow> f x s = Inr s' \<Longrightarrow> I s \<Longrightarrow> I s'"
  shows "I s'"
  using assms by (induction xs arbitrary: s) (auto simp: bind_result_eq_Inr)

lemma fold_result_append:
  "fold_result f (xs @ ys) s = bind_result (fold_result f xs s) (fold_result f ys)"
  by (induction xs arbitrary: s) (auto simp: bind_result_def split: sum.splits)

section \<open>Computations over a state\<close>

text \<open>
  A handler that may fail and that mutates a state returns the result and the state at the
  point where it stopped: an early return with an error keeps the mutations made so far.
\<close>

type_synonym ('s, 'a) flow = "'s \<Rightarrow> 'a result \<times> 's"

definition bind_flow :: "('s, 'a) flow \<Rightarrow> ('a \<Rightarrow> ('s, 'b) flow) \<Rightarrow> ('s, 'b) flow" where
  "bind_flow m k s = (case m s of (Inl e, s') \<Rightarrow> (Inl e, s') | (Inr v, s') \<Rightarrow> k v s')"

lemma run_result: "is_ok (fst p) \<Longrightarrow> \<exists>r s'. p = (Inr r, s')"
  by (metis is_ok_iff prod.collapse)

lemma bind_flow_Inl: "m s = (Inl e, s') \<Longrightarrow> bind_flow m k s = (Inl e, s')"
  by (simp add: bind_flow_def)

lemma bind_flow_Inr: "m s = (Inr v, s') \<Longrightarrow> bind_flow m k s = k v s'"
  by (simp add: bind_flow_def)

lemma bind_flow_eq_Inr:
  "bind_flow m k s = (Inr y, t) \<longleftrightarrow> (\<exists>v s'. m s = (Inr v, s') \<and> k v s' = (Inr y, t))"
  by (auto simp: bind_flow_def split: prod.splits sum.splits)

lemma bind_flow_eq_Inl:
  "bind_flow m k s = (Inl e, t) \<longleftrightarrow>
     m s = (Inl e, t) \<or> (\<exists>v s'. m s = (Inr v, s') \<and> k v s' = (Inl e, t))"
  by (auto simp: bind_flow_def split: prod.splits sum.splits)

section \<open>Options and lists\<close>

text \<open>\<open>Option::or_else\<close>, \<open>Option::filter\<close>, \<open>Iterator::find_map\<close>, \<open>Iterator::position\<close>.\<close>

definition or_else :: "'a option \<Rightarrow> 'a option \<Rightarrow> 'a option" where
  "or_else x y = (case x of None \<Rightarrow> y | Some v \<Rightarrow> Some v)"

definition opt_filter :: "('a \<Rightarrow> bool) \<Rightarrow> 'a option \<Rightarrow> 'a option" where
  "opt_filter p x = (case x of None \<Rightarrow> None | Some v \<Rightarrow> if p v then Some v else None)"

definition unwrap_or :: "'a \<Rightarrow> 'a option \<Rightarrow> 'a" where
  "unwrap_or d x = (case x of None \<Rightarrow> d | Some v \<Rightarrow> v)"

lemma or_else_simps [simp]:
  "or_else None y = y" "or_else (Some v) y = Some v" "or_else x None = x"
  by (simp_all add: or_else_def split: option.splits)

lemma or_else_eq_None [simp]: "or_else x y = None \<longleftrightarrow> x = None \<and> y = None"
  by (cases x) auto

lemma opt_filter_simps [simp]:
  "opt_filter p None = None" "opt_filter p (Some v) = (if p v then Some v else None)"
  by (simp_all add: opt_filter_def)

lemma unwrap_or_simps [simp]: "unwrap_or d None = d" "unwrap_or d (Some v) = v"
  by (simp_all add: unwrap_or_def)

fun find_map :: "('a \<Rightarrow> 'b option) \<Rightarrow> 'a list \<Rightarrow> 'b option" where
  "find_map f [] = None"
| "find_map f (x # xs) = (case f x of None \<Rightarrow> find_map f xs | Some y \<Rightarrow> Some y)"

fun position :: "('a \<Rightarrow> bool) \<Rightarrow> 'a list \<Rightarrow> nat option" where
  "position p [] = None"
| "position p (x # xs) = (if p x then Some 0 else map_option Suc (position p xs))"

lemma find_map_None_iff: "find_map f xs = None \<longleftrightarrow> (\<forall>x \<in> set xs. f x = None)"
  by (induction xs) (auto split: option.splits)

lemma find_map_SomeD: "find_map f xs = Some y \<Longrightarrow> \<exists>x \<in> set xs. f x = Some y"
  by (induction xs) (auto split: option.splits)

lemma position_None_iff: "position p xs = None \<longleftrightarrow> (\<forall>x \<in> set xs. \<not> p x)"
  by (induction xs) auto

lemma position_SomeD:
  "position p xs = Some i \<Longrightarrow> i < length xs \<and> p (xs ! i) \<and> (\<forall>j < i. \<not> p (xs ! j))"
  by (induction xs arbitrary: i) (auto split: if_splits simp: nth_Cons split: nat.splits)

lemma find_append:
  "List.find p (xs @ ys) = (case List.find p xs of Some x \<Rightarrow> Some x | None \<Rightarrow> List.find p ys)"
  by (induction xs) auto

text \<open>\<open>Vec::contains\<close> then \<open>push\<close>: order preserving insertion without duplicates.\<close>

definition push_new :: "'a list \<Rightarrow> 'a \<Rightarrow> 'a list" where
  "push_new xs x = (if x \<in> set xs then xs else xs @ [x])"

definition push_all_new :: "'a list \<Rightarrow> 'a list \<Rightarrow> 'a list" where
  "push_all_new xs ys = foldl push_new xs ys"

lemma set_push_new [simp]: "set (push_new xs x) = insert x (set xs)"
  by (auto simp: push_new_def)

lemma distinct_push_new [simp]: "distinct (push_new xs x) = distinct xs"
  by (auto simp: push_new_def)

lemma set_push_all_new [simp]: "set (push_all_new xs ys) = set xs \<union> set ys"
  unfolding push_all_new_def by (induction ys arbitrary: xs) auto

lemma distinct_push_all_new [simp]: "distinct (push_all_new xs ys) = distinct xs"
  unfolding push_all_new_def by (induction ys arbitrary: xs) auto

lemma push_all_new_Nil2 [simp]: "push_all_new xs [] = xs"
  by (simp add: push_all_new_def)

lemma push_all_new_prefix: "\<exists>zs. push_all_new xs ys = xs @ zs"
proof (induction ys arbitrary: xs)
  case (Cons y ys)
  obtain zs where zs: "foldl push_new (push_new xs y) ys = push_new xs y @ zs"
    using Cons.IH[of "push_new xs y"] by (auto simp: push_all_new_def)
  then show ?case by (cases "y \<in> set xs") (auto simp: push_new_def push_all_new_def)
qed (auto simp: push_all_new_def)

lemma push_all_new_distinct_id:
  "distinct (xs @ ys) \<Longrightarrow> push_all_new xs ys = xs @ ys"
proof (induction ys arbitrary: xs)
  case (Cons y ys)
  have "push_new xs y = xs @ [y]" using Cons.prems by (simp add: push_new_def)
  then show ?case using Cons.IH[of "xs @ [y]"] Cons.prems by (simp add: push_all_new_def)
qed (simp add: push_all_new_def)

lemma push_all_new_subset: "set ys \<subseteq> set xs \<Longrightarrow> push_all_new xs ys = xs"
  unfolding push_all_new_def by (induction ys) (auto simp: push_new_def)

end
