(* ===== verification/Rust_Str.thy ===== *)
theory Rust_Str
  imports Prelude "HOL-Library.Sublist"
begin

text \<open>
  The \<open>str\<close> operations of the Rust standard library that the sources use, on UTF-8 byte
  sequences: decimal rendering, searching, splitting, trimming, case folding and the
  classification of characters, with the facts the components rely on (decimal numerals are
  injective and free of separators, splitting and joining are inverse, trimming is idempotent).
\<close>

section \<open>Characters\<close>

definition byte :: "char \<Rightarrow> nat" where
  "byte c = of_char c"

definition is_ascii_control :: "char \<Rightarrow> bool" where
  "is_ascii_control c \<longleftrightarrow> byte c < 32 \<or> byte c = 127"

definition is_ascii_digit :: "char \<Rightarrow> bool" where
  "is_ascii_digit c \<longleftrightarrow> 48 \<le> byte c \<and> byte c \<le> 57"

definition is_ascii_alpha :: "char \<Rightarrow> bool" where
  "is_ascii_alpha c \<longleftrightarrow> (65 \<le> byte c \<and> byte c \<le> 90) \<or> (97 \<le> byte c \<and> byte c \<le> 122)"

definition ascii_lower :: "char \<Rightarrow> char" where
  "ascii_lower c = (if 65 \<le> byte c \<and> byte c \<le> 90 then char_of (byte c + 32) else c)"

definition ascii_upper :: "char \<Rightarrow> char" where
  "ascii_upper c = (if 97 \<le> byte c \<and> byte c \<le> 122 then char_of (byte c - 32) else c)"

definition to_ascii_lowercase :: "string \<Rightarrow> string" where
  "to_ascii_lowercase s = map ascii_lower s"

definition to_ascii_uppercase :: "string \<Rightarrow> string" where
  "to_ascii_uppercase s = map ascii_upper s"

definition eq_ignore_ascii_case :: "string \<Rightarrow> string \<Rightarrow> bool" where
  "eq_ignore_ascii_case s t \<longleftrightarrow> to_ascii_lowercase s = to_ascii_lowercase t"

text \<open>\<open>chars().count()\<close>: every byte of a UTF-8 string but the continuation bytes
  \<open>0b10xxxxxx\<close> starts a character.\<close>

definition char_count :: "string \<Rightarrow> nat" where
  "char_count s = length (filter (\<lambda>c. byte c div 64 \<noteq> 2) s)"

lemma char_count_le: "char_count s \<le> length s"
  by (simp add: char_count_def)

lemma length_to_ascii_lowercase [simp]: "length (to_ascii_lowercase s) = length s"
  by (simp add: to_ascii_lowercase_def)

section \<open>Decimal rendering\<close>

definition digit_char :: "nat \<Rightarrow> char" where
  "digit_char d = char_of (48 + d)"

fun show_nat :: "nat \<Rightarrow> string" where
  "show_nat n = (if n < 10 then [digit_char n] else show_nat (n div 10) @ [digit_char (n mod 10)])"

declare show_nat.simps [simp del]

definition read_nat :: "string \<Rightarrow> nat" where
  "read_nat s = foldl (\<lambda>a c. 10 * a + (byte c - 48)) 0 s"

definition show_int :: "int \<Rightarrow> string" where
  "show_int i = (if i < 0 then CHR ''-'' # show_nat (nat (- i)) else show_nat (nat i))"

lemma byte_digit_char: "d < 10 \<Longrightarrow> byte (digit_char d) = 48 + d"
  by (simp add: byte_def digit_char_def)

lemma is_ascii_digit_digit_char: "d < 10 \<Longrightarrow> is_ascii_digit (digit_char d)"
  by (simp add: is_ascii_digit_def byte_digit_char)

lemma show_nat_digits: "c \<in> set (show_nat n) \<Longrightarrow> is_ascii_digit c"
proof (induction n rule: show_nat.induct)
  case (1 n)
  then show ?case
    by (cases "n < 10")
       (auto simp: show_nat.simps[of n] is_ascii_digit_digit_char)
qed

lemma show_nat_nonempty [simp]: "show_nat n \<noteq> []"
  by (subst show_nat.simps) simp

lemma read_show_nat [simp]: "read_nat (show_nat n) = n"
proof (induction n rule: show_nat.induct)
  case (1 n)
  show ?case
  proof (cases "n < 10")
    case True
    then show ?thesis by (simp add: show_nat.simps[of n] read_nat_def byte_digit_char)
  next
    case False
    then have "read_nat (show_nat (n div 10)) = n div 10" using "1.IH" by simp
    with False show ?thesis
      by (simp add: show_nat.simps[of n] byte_digit_char) (simp add: read_nat_def byte_digit_char)
  qed
qed

lemma show_nat_inj: "show_nat m = show_nat n \<longleftrightarrow> m = n"
  using read_show_nat by metis

text \<open>A decimal length followed by a separator is read back unambiguously.\<close>

lemma digits_sep_unique:
  assumes "xs @ c # ys = xs' @ c # ys'"
    and "\<forall>d \<in> set xs. is_ascii_digit d" "\<forall>d \<in> set xs'. is_ascii_digit d"
    and "\<not> is_ascii_digit c"
  shows "xs = xs' \<and> ys = ys'"
proof -
  have tw: "takeWhile is_ascii_digit (zs @ c # us) = zs" if "\<forall>d \<in> set zs. is_ascii_digit d" for zs us
    using that assms(4) by (induction zs) auto
  have "xs = xs'" using tw[OF assms(2), of ys] tw[OF assms(3), of ys'] assms(1) by simp
  with assms(1) show ?thesis by simp
qed

lemma show_nat_sep_unique:
  assumes "show_nat m @ CHR '':'' # xs = show_nat n @ CHR '':'' # ys"
  shows "m = n \<and> xs = ys"
proof -
  have "\<not> is_ascii_digit CHR '':''" by (simp add: is_ascii_digit_def byte_def)
  from digits_sep_unique[OF assms _ _ this] show ?thesis
    using show_nat_digits show_nat_inj by blast
qed

section \<open>Prefixes, suffixes, searching\<close>

definition starts_with :: "string \<Rightarrow> string \<Rightarrow> bool" where
  "starts_with p s \<longleftrightarrow> take (length p) s = p"

definition strip_prefix :: "string \<Rightarrow> string \<Rightarrow> string option" where
  "strip_prefix p s = (if starts_with p s then Some (drop (length p) s) else None)"

definition trim_start_char :: "char \<Rightarrow> string \<Rightarrow> string" where
  "trim_start_char c s = dropWhile (\<lambda>x. x = c) s"

definition trim_end_char :: "char \<Rightarrow> string \<Rightarrow> string" where
  "trim_end_char c s = rev (dropWhile (\<lambda>x. x = c) (rev s))"

lemma starts_with_append [simp]: "starts_with p (p @ s)"
  by (simp add: starts_with_def)

lemma starts_with_iff: "starts_with p s \<longleftrightarrow> (\<exists>t. s = p @ t)"
proof
  assume "starts_with p s"
  then have "s = p @ drop (length p) s"
    unfolding starts_with_def by (metis append_take_drop_id)
  then show "\<exists>t. s = p @ t" by blast
qed auto

lemma strip_prefix_append [simp]: "strip_prefix p (p @ s) = Some s"
  by (simp add: strip_prefix_def)

lemma strip_prefix_Some_iff: "strip_prefix p s = Some t \<longleftrightarrow> s = p @ t"
  by (auto simp: strip_prefix_def starts_with_iff)

lemma strip_prefix_None_iff: "strip_prefix p s = None \<longleftrightarrow> \<not> starts_with p s"
  by (simp add: strip_prefix_def)

lemma trim_start_char_hd: "trim_start_char c s \<noteq> [] \<Longrightarrow> hd (trim_start_char c s) \<noteq> c"
  unfolding trim_start_char_def using hd_dropWhile[of "\<lambda>x. x = c" s] by simp

section \<open>Splitting\<close>

text \<open>\<open>split_once\<close>, \<open>split(c)\<close> and \<open>rsplit(c).next()\<close>.\<close>

fun split_once :: "char \<Rightarrow> string \<Rightarrow> (string \<times> string) option" where
  "split_once c [] = None"
| "split_once c (x # xs) =
     (if x = c then Some ([], xs)
      else map_option (\<lambda>(a, b). (x # a, b)) (split_once c xs))"

fun split_pred :: "(char \<Rightarrow> bool) \<Rightarrow> string \<Rightarrow> string list" where
  "split_pred p [] = [[]]"
| "split_pred p (x # xs) =
     (if p x then [] # split_pred p xs
      else (case split_pred p xs of [] \<Rightarrow> [[x]] | w # ws \<Rightarrow> (x # w) # ws))"

definition split_char :: "char \<Rightarrow> string \<Rightarrow> string list" where
  "split_char c s = split_pred (\<lambda>x. x = c) s"

definition after_last :: "char \<Rightarrow> string \<Rightarrow> string" where
  "after_last c s = rev (takeWhile (\<lambda>x. x \<noteq> c) (rev s))"

definition before_first :: "char \<Rightarrow> string \<Rightarrow> string" where
  "before_first c s = takeWhile (\<lambda>x. x \<noteq> c) s"

definition join_with :: "string \<Rightarrow> string list \<Rightarrow> string" where
  "join_with sep ws = (case ws of [] \<Rightarrow> [] | w # rest \<Rightarrow> w @ concat (map (\<lambda>v. sep @ v) rest))"

lemma split_once_None_iff: "split_once c s = None \<longleftrightarrow> c \<notin> set s"
  by (induction s) auto

lemma split_once_SomeD: "split_once c s = Some (a, b) \<Longrightarrow> s = a @ c # b \<and> c \<notin> set a"
  by (induction s arbitrary: a b) (auto split: if_splits)

lemma split_once_append: "c \<notin> set a \<Longrightarrow> split_once c (a @ c # b) = Some (a, b)"
  by (induction a) auto

lemma split_pred_nonempty [simp]: "split_pred p s \<noteq> []"
  by (induction s) (auto split: list.splits)

lemma split_pred_parts: "w \<in> set (split_pred p s) \<Longrightarrow> \<forall>x \<in> set w. \<not> p x \<and> x \<in> set s"
proof (induction s arbitrary: w)
  case (Cons x xs)
  show ?case
  proof (cases "p x")
    case True
    with Cons show ?thesis by auto
  next
    case False
    then show ?thesis using Cons by (cases "split_pred p xs") fastforce+
  qed
qed simp

lemma split_pred_no_sep: "\<forall>x \<in> set s. \<not> p x \<Longrightarrow> split_pred p s = [s]"
  by (induction s) auto

lemma split_pred_append_sep:
  "\<forall>x \<in> set s. \<not> p x \<Longrightarrow> p c \<Longrightarrow> split_pred p (s @ c # t) = s # split_pred p t"
  by (induction s) auto

lemma hd_split_char: "hd (split_char c s) = before_first c s"
proof (induction s)
  case (Cons x xs)
  then show ?case
    by (cases "split_pred (\<lambda>x. x = c) xs") (auto simp: split_char_def before_first_def)
qed (simp add: split_char_def before_first_def)

lemma split_join:
  assumes "ws \<noteq> []" "\<forall>w \<in> set ws. c \<notin> set w"
  shows "split_char c (join_with [c] ws) = ws"
  using assms
proof (induction ws)
  case (Cons w ws)
  show ?case
  proof (cases ws)
    case Nil
    then show ?thesis using Cons.prems
      by (auto simp: split_char_def join_with_def intro!: split_pred_no_sep)
  next
    case (Cons v vs)
    have "join_with [c] (w # ws) = w @ c # join_with [c] ws"
      by (simp add: join_with_def Cons)
    moreover have "split_char c (join_with [c] ws) = ws"
      using Cons.IH Cons.prems Cons by (simp add: local.Cons(1))
    moreover have "split_pred (\<lambda>x. x = c) (w @ c # join_with [c] ws)
        = w # split_pred (\<lambda>x. x = c) (join_with [c] ws)"
      using Cons.prems by (intro split_pred_append_sep) auto
    ultimately show ?thesis by (simp add: split_char_def)
  qed
qed simp

lemma before_first_no_sep: "c \<notin> set (before_first c s)"
  unfolding before_first_def by (metis (mono_tags, lifting) set_takeWhileD)

lemma after_last_no_sep: "c \<notin> set (after_last c s)"
  unfolding after_last_def by (metis (mono_tags, lifting) set_rev set_takeWhileD)

lemma after_last_id: "c \<notin> set s \<Longrightarrow> after_last c s = s"
proof -
  assume "c \<notin> set s"
  then have "takeWhile (\<lambda>x. x \<noteq> c) (rev s) = rev s" by (auto simp: takeWhile_eq_all_conv)
  then show ?thesis unfolding after_last_def by (metis rev_rev_ident)
qed

lemma after_last_append: "c \<notin> set t \<Longrightarrow> after_last c (s @ c # t) = t"
  by (simp add: after_last_def takeWhile_append)

lemma before_first_append: "c \<notin> set s \<Longrightarrow> before_first c (s @ c # t) = s"
  by (simp add: before_first_def takeWhile_append)

section \<open>Trimming\<close>

text \<open>
  \<open>str::trim\<close> strips the Unicode \<open>White_Space\<close> characters.  \<open>ws_len s\<close> is the number of
  bytes of the white-space character \<open>s\<close> starts with, 0 when there is none; \<open>ws_len_rev\<close> is
  the same for the last character of a reversed string.
\<close>

definition ws_ascii :: "char \<Rightarrow> bool" where
  "ws_ascii c \<longleftrightarrow> (9 \<le> byte c \<and> byte c \<le> 13) \<or> byte c = 32"

definition ws_wide :: "nat list \<Rightarrow> bool" where
  "ws_wide bs \<longleftrightarrow> bs = [194, 133] \<or> bs = [194, 160] \<or> bs = [225, 154, 128]
     \<or> (length bs = 3 \<and> take 2 bs = [226, 128]
        \<and> (128 \<le> bs ! 2 \<and> bs ! 2 \<le> 138 \<or> bs ! 2 = 168 \<or> bs ! 2 = 169 \<or> bs ! 2 = 175))
     \<or> bs = [226, 129, 159] \<or> bs = [227, 128, 128]"

definition ws_len :: "string \<Rightarrow> nat" where
  "ws_len s = (if s = [] then 0 else if ws_ascii (hd s) then 1
     else if 2 \<le> length s \<and> ws_wide (map byte (take 2 s)) then 2
     else if 3 \<le> length s \<and> ws_wide (map byte (take 3 s)) then 3 else 0)"

definition ws_len_rev :: "string \<Rightarrow> nat" where
  "ws_len_rev s = (if s = [] then 0 else if ws_ascii (hd s) then 1
     else if 2 \<le> length s \<and> ws_wide (map byte (rev (take 2 s))) then 2
     else if 3 \<le> length s \<and> ws_wide (map byte (rev (take 3 s))) then 3 else 0)"

lemma ws_len_le: "ws_len s \<le> length s"
  by (cases s) (auto simp: ws_len_def)

lemma ws_len_rev_le: "ws_len_rev s \<le> length s"
  by (cases s) (auto simp: ws_len_rev_def)

function trim_start :: "string \<Rightarrow> string" where
  "trim_start s = (if ws_len s = 0 then s else trim_start (drop (ws_len s) s))"
  by pat_completeness auto
termination
  by (relation "measure length") (auto simp: ws_len_def split: if_splits)

function trim_rev :: "string \<Rightarrow> string" where
  "trim_rev s = (if ws_len_rev s = 0 then s else trim_rev (drop (ws_len_rev s) s))"
  by pat_completeness auto
termination
  by (relation "measure length") (auto simp: ws_len_rev_def split: if_splits)

declare trim_start.simps [simp del] trim_rev.simps [simp del]

definition trim :: "string \<Rightarrow> string" where
  "trim s = rev (trim_rev (rev (trim_start s)))"

definition has_whitespace :: "string \<Rightarrow> bool" where
  "has_whitespace s \<longleftrightarrow> (\<exists>i \<in> set [0..<length s]. ws_len (drop i s) > 0)"

lemma trim_start_fixed: "ws_len (trim_start s) = 0"
  by (induction s rule: trim_start.induct) (subst trim_start.simps, simp)

lemma trim_rev_fixed: "ws_len_rev (trim_rev s) = 0"
  by (induction s rule: trim_rev.induct) (subst trim_rev.simps, simp)

lemma trim_start_id: "ws_len s = 0 \<Longrightarrow> trim_start s = s"
  by (subst trim_start.simps) simp

lemma trim_rev_id: "ws_len_rev s = 0 \<Longrightarrow> trim_rev s = s"
  by (subst trim_rev.simps) simp

lemma trim_id: "ws_len s = 0 \<Longrightarrow> ws_len_rev (rev s) = 0 \<Longrightarrow> trim s = s"
  by (simp add: trim_def trim_start_id trim_rev_id)

lemma trim_start_suffix: "\<exists>p. s = p @ trim_start s"
proof (induction s rule: trim_start.induct)
  case (1 s)
  show ?case
  proof (cases "ws_len s = 0")
    case True
    then show ?thesis by (simp add: trim_start_id)
  next
    case False
    with 1 obtain p where "drop (ws_len s) s = p @ trim_start (drop (ws_len s) s)" by auto
    moreover have "trim_start s = trim_start (drop (ws_len s) s)"
      using False by (simp add: trim_start.simps[of s])
    ultimately have "s = (take (ws_len s) s @ p) @ trim_start s"
      by (metis append.assoc append_take_drop_id)
    then show ?thesis by blast
  qed
qed

lemma trim_rev_suffix: "\<exists>p. s = p @ trim_rev s"
proof (induction s rule: trim_rev.induct)
  case (1 s)
  show ?case
  proof (cases "ws_len_rev s = 0")
    case True
    then show ?thesis by (simp add: trim_rev_id)
  next
    case False
    with 1 obtain p where "drop (ws_len_rev s) s = p @ trim_rev (drop (ws_len_rev s) s)" by auto
    moreover have "trim_rev s = trim_rev (drop (ws_len_rev s) s)"
      using False by (simp add: trim_rev.simps[of s])
    ultimately have "s = (take (ws_len_rev s) s @ p) @ trim_rev s"
      by (metis append.assoc append_take_drop_id)
    then show ?thesis by blast
  qed
qed

lemma trim_infix: "\<exists>p q. s = p @ trim s @ q"
proof -
  obtain p where p: "s = p @ trim_start s" using trim_start_suffix by blast
  obtain q where "rev (trim_start s) = q @ trim_rev (rev (trim_start s))"
    using trim_rev_suffix by blast
  then have "trim_start s = trim s @ rev q"
    unfolding trim_def by (metis rev_append rev_rev_ident)
  with p show ?thesis by metis
qed

lemma set_trim_subset: "set (trim s) \<subseteq> set s"
  using trim_infix[of s] by (metis Un_upper1 Un_upper2 set_append subset_trans)

section \<open>Debug rendering\<close>

text \<open>
  \<open>{:?}\<close> of a string: quoted, with the quote, the backslash and the ASCII control
  characters escaped.  (The standard library also escapes some non-ASCII characters; only the
  text of error messages is concerned.)
\<close>

definition hex_digit :: "nat \<Rightarrow> char" where
  "hex_digit n = ''0123456789abcdef'' ! (n mod 16)"

definition hex_byte :: "char \<Rightarrow> string" where
  "hex_byte c = [hex_digit (byte c div 16), hex_digit (byte c mod 16)]"

definition debug_char :: "char \<Rightarrow> string" where
  "debug_char c =
     (if byte c = 34 then [char_of (92::nat), c]
      else if byte c = 92 then [c, c]
      else if byte c = 10 then [char_of (92::nat), CHR ''n'']
      else if byte c = 13 then [char_of (92::nat), CHR ''r'']
      else if byte c = 9 then [char_of (92::nat), CHR ''t'']
      else if byte c = 0 then [char_of (92::nat), CHR ''0'']
      else if is_ascii_control c then
        [char_of (92::nat), CHR ''u'', CHR ''{''] @
        (if byte c < 16 then [hex_digit (byte c)] else hex_byte c) @ [CHR ''}'']
      else [c])"

definition debug_str :: "string \<Rightarrow> string" where
  "debug_str s = [char_of (34::nat)] @ concat (map debug_char s) @ [char_of (34::nat)]"

text \<open>Lowercase hexadecimal rendering of a byte string (\<open>{:x}\<close> of a digest).\<close>

definition hex :: "string \<Rightarrow> string" where
  "hex bs = concat (map hex_byte bs)"

lemma length_hex [simp]: "length (hex bs) = 2 * length bs"
  unfolding hex_def by (induction bs) (simp_all add: hex_byte_def)

lemma hex_digit_inj: "m < 16 \<Longrightarrow> n < 16 \<Longrightarrow> hex_digit m = hex_digit n \<Longrightarrow> m = n"
proof -
  assume a: "m < 16" "n < 16" "hex_digit m = hex_digit n"
  have "distinct ''0123456789abcdef''" by simp
  with a show "m = n"
    unfolding hex_digit_def by (simp add: nth_eq_iff_index_eq)
qed

lemma hex_byte_inj: "hex_byte a = hex_byte b \<Longrightarrow> a = b"
proof -
  assume h: "hex_byte a = hex_byte b"
  have "byte a div 16 < 16" "byte b div 16 < 16"
    by (simp_all add: byte_def div_less_iff_less_mult)
  with h have "byte a div 16 = byte b div 16" "byte a mod 16 = byte b mod 16"
    by (auto simp: hex_byte_def intro: hex_digit_inj)
  then have "byte a = byte b" by (metis div_mult_mod_eq)
  then show "a = b" by (simp add: byte_def of_char_eq_iff)
qed

lemma hex_inj: "hex xs = hex ys \<Longrightarrow> xs = ys"
proof (induction xs arbitrary: ys)
  case Nil
  then show ?case by (cases ys) (auto simp: hex_def hex_byte_def)
next
  case (Cons x xs)
  then obtain y ys' where ys: "ys = y # ys'" by (cases ys) (auto simp: hex_def hex_byte_def)
  have "hex_byte x @ hex xs = hex_byte y @ hex ys'" using Cons.prems ys by (simp add: hex_def)
  moreover have "length (hex_byte x) = length (hex_byte y)" by (simp add: hex_byte_def)
  ultimately show ?case using Cons.IH ys hex_byte_inj by auto
qed

end
