(* ===== verification/Ordered_Map.thy ===== *)
theory Ordered_Map
  imports Rust_Str
begin

text \<open>
  The interface of the key-value containers of the program as the locale \<open>key_map\<close>, its
  extension \<open>sorted_key_map\<close> for containers whose iteration order is the key order, and the
  model of \<open>BTreeMap\<close>: the list of its entries in strictly increasing key order, with one
  operation per method the sources call.  \<open>HashMap\<close>s whose order is never observed are modelled
  by the same type.
\<close>

section \<open>The interface\<close>

locale key_map =
  fixes emp :: "'m"
    and get :: "'m \<Rightarrow> 'k \<Rightarrow> 'v option"
    and ins :: "'k \<Rightarrow> 'v \<Rightarrow> 'm \<Rightarrow> 'm"
    and del :: "'k \<Rightarrow> 'm \<Rightarrow> 'm"
    and invar :: "'m \<Rightarrow> bool"
  assumes get_emp: "get emp k = None"
    and get_ins: "invar m \<Longrightarrow> get (ins k v m) k' = (if k' = k then Some v else get m k')"
    and get_del: "invar m \<Longrightarrow> get (del k m) k' = (if k' = k then None else get m k')"
    and invar_emp: "invar emp"
    and invar_ins: "invar m \<Longrightarrow> invar (ins k v m)"
    and invar_del: "invar m \<Longrightarrow> invar (del k m)"
begin

definition of_list :: "('k \<times> 'v) list \<Rightarrow> 'm" where
  "of_list xs = foldl (\<lambda>m (k, v). ins k v m) emp xs"

lemma invar_foldl_ins: "invar m \<Longrightarrow> invar (foldl (\<lambda>m (k, v). ins k v m) m xs)"
  by (induction xs arbitrary: m) (auto simp: invar_ins)

lemma get_foldl_ins:
  "invar m \<Longrightarrow> get (foldl (\<lambda>m (k, v). ins k v m) m xs) k =
     (case map_of (rev xs) k of None \<Rightarrow> get m k | Some v \<Rightarrow> Some v)"
proof (induction xs arbitrary: m)
  case (Cons x xs)
  obtain a b where x: "x = (a, b)" by (cases x)
  show ?case using Cons.IH[of "ins a b m"] Cons.prems x
    by (auto simp: invar_ins get_ins map_add_def split: option.splits)
qed simp

lemma invar_of_list: "invar (of_list xs)"
  by (simp add: of_list_def invar_foldl_ins invar_emp)

text \<open>Collecting pairs: the last pair with a key wins.\<close>

lemma get_of_list: "get (of_list xs) k = map_of (rev xs) k"
  by (simp add: of_list_def get_foldl_ins invar_emp get_emp split: option.splits)

lemma get_ins_same: "invar m \<Longrightarrow> get (ins k v m) k = Some v"
  by (simp add: get_ins)

lemma get_ins_other: "invar m \<Longrightarrow> k' \<noteq> k \<Longrightarrow> get (ins k v m) k' = get m k'"
  by (simp add: get_ins)

lemma get_ins_commute:
  "invar m \<Longrightarrow> k \<noteq> l \<Longrightarrow> get (ins k v (ins l w m)) x = get (ins l w (ins k v m)) x"
  by (simp add: get_ins invar_ins)

lemma get_del_ins: "invar m \<Longrightarrow> get (del k (ins k v m)) x = get (del k m) x"
  by (simp add: get_ins get_del invar_ins)

end

locale sorted_key_map = key_map emp get ins del invar
  for emp :: "'m" and get :: "'m \<Rightarrow> 'k::linorder \<Rightarrow> 'v option"
    and ins :: "'k \<Rightarrow> 'v \<Rightarrow> 'm \<Rightarrow> 'm" and del :: "'k \<Rightarrow> 'm \<Rightarrow> 'm" and invar :: "'m \<Rightarrow> bool" +
  fixes keys :: "'m \<Rightarrow> 'k list"
  assumes keys_sorted: "invar m \<Longrightarrow> sorted_wrt (<) (keys m)"
    and keys_get: "invar m \<Longrightarrow> k \<in> set (keys m) \<longleftrightarrow> get m k \<noteq> None"
begin

lemma keys_distinct: "invar m \<Longrightarrow> distinct (keys m)"
  using keys_sorted strict_sorted_iff by blast

text \<open>Two maps with the same lookups are iterated in the same key order.\<close>

lemma keys_determined:
  assumes "invar m" "invar n" "\<And>k. get m k = get n k"
  shows "keys m = keys n"
proof -
  have "set (keys n) = set (keys m)"
    by (auto simp: keys_get[OF assms(1)] keys_get[OF assms(2)] assms(3))
  from strict_sorted_equal[OF keys_sorted[OF assms(1)] keys_sorted[OF assms(2)] this]
  show ?thesis by (rule sym)
qed

end

section \<open>BTreeMap\<close>

type_synonym ('k, 'v) bmap = "('k \<times> 'v) list"
type_synonym 'v smap = "(string, 'v) bmap"
type_synonym attrs = "string list smap"

abbreviation bm_get :: "('k, 'v) bmap \<Rightarrow> 'k \<Rightarrow> 'v option" where
  "bm_get m \<equiv> map_of m"

definition bm_keys :: "('k, 'v) bmap \<Rightarrow> 'k list" where
  "bm_keys m = map fst m"

definition bm_wf :: "('k::linorder, 'v) bmap \<Rightarrow> bool" where
  "bm_wf m \<longleftrightarrow> sorted_wrt (<) (bm_keys m)"

fun bm_insert :: "'k::linorder \<Rightarrow> 'v \<Rightarrow> ('k, 'v) bmap \<Rightarrow> ('k, 'v) bmap" where
  "bm_insert k v [] = [(k, v)]"
| "bm_insert k v ((k', v') # m) =
     (if k < k' then (k, v) # (k', v') # m
      else if k = k' then (k, v) # m
      else (k', v') # bm_insert k v m)"

definition bm_remove :: "'k \<Rightarrow> ('k, 'v) bmap \<Rightarrow> ('k, 'v) bmap" where
  "bm_remove k m = filter (\<lambda>e. fst e \<noteq> k) m"

definition bm_retain :: "('k \<Rightarrow> 'v \<Rightarrow> bool) \<Rightarrow> ('k, 'v) bmap \<Rightarrow> ('k, 'v) bmap" where
  "bm_retain p m = filter (\<lambda>e. p (fst e) (snd e)) m"

definition bm_map_values :: "('v \<Rightarrow> 'w) \<Rightarrow> ('k, 'v) bmap \<Rightarrow> ('k, 'w) bmap" where
  "bm_map_values f m = map (\<lambda>e. (fst e, f (snd e))) m"

text \<open>\<open>get_mut\<close> followed by an in-place update, and \<open>entry().or_insert()\<close>.\<close>

definition bm_update :: "'k \<Rightarrow> ('v \<Rightarrow> 'v) \<Rightarrow> ('k, 'v) bmap \<Rightarrow> ('k, 'v) bmap" where
  "bm_update k f m = map (\<lambda>e. (fst e, if fst e = k then f (snd e) else snd e)) m"

definition bm_or_insert :: "'k::linorder \<Rightarrow> 'v \<Rightarrow> ('k, 'v) bmap \<Rightarrow> ('k, 'v) bmap" where
  "bm_or_insert k v m = (case bm_get m k of None \<Rightarrow> bm_insert k v m | Some _ \<Rightarrow> m)"

definition bm_of_list :: "('k::linorder \<times> 'v) list \<Rightarrow> ('k, 'v) bmap" where
  "bm_of_list xs = foldl (\<lambda>m (k, v). bm_insert k v m) [] xs"

lemma bm_wf_Nil [simp]: "bm_wf []"
  by (simp add: bm_wf_def bm_keys_def)

lemma bm_wf_Cons: "bm_wf ((k, v) # m) \<longleftrightarrow> (\<forall>k' \<in> fst ` set m. k < k') \<and> bm_wf m"
  by (auto simp: bm_wf_def bm_keys_def)

lemma bm_wf_distinct: "bm_wf m \<Longrightarrow> distinct (map fst m)"
  unfolding bm_wf_def bm_keys_def using strict_sorted_iff by blast

lemma bm_get_insert [map_simps]:
  "bm_wf m \<Longrightarrow> bm_get (bm_insert k v m) k' = (if k' = k then Some v else bm_get m k')"
  by (induction k v m rule: bm_insert.induct) (auto simp: bm_wf_Cons)

lemma fst_set_insert: "fst ` set (bm_insert k v m) = insert k (fst ` set m)"
  by (induction k v m rule: bm_insert.induct) auto

lemma bm_wf_insert [simp]: "bm_wf m \<Longrightarrow> bm_wf (bm_insert k v m)"
  by (induction k v m rule: bm_insert.induct) (auto simp: bm_wf_Cons fst_set_insert)

lemma bm_wf_filter: "bm_wf m \<Longrightarrow> bm_wf (filter p m)"
  by (induction m) (auto simp: bm_wf_Cons)

lemma bm_wf_remove [simp]: "bm_wf m \<Longrightarrow> bm_wf (bm_remove k m)"
  by (simp add: bm_remove_def bm_wf_filter)

lemma bm_wf_retain [simp]: "bm_wf m \<Longrightarrow> bm_wf (bm_retain p m)"
  by (simp add: bm_retain_def bm_wf_filter)

lemma bm_get_remove [map_simps]:
  "bm_get (bm_remove k m) k' = (if k' = k then None else bm_get m k')"
  by (induction m) (auto simp: bm_remove_def)

lemma bm_get_retain [map_simps]:
  "bm_wf m \<Longrightarrow> bm_get (bm_retain p m) k =
     (case bm_get m k of None \<Rightarrow> None | Some v \<Rightarrow> if p k v then Some v else None)"
proof (induction m)
  case (Cons e m)
  obtain a b where e: "e = (a, b)" by (cases e)
  have "bm_get m a = None" using Cons.prems e by (auto simp: bm_wf_Cons map_of_eq_None_iff)
  with Cons e show ?case
    by (auto simp: bm_retain_def bm_wf_Cons map_of_eq_None_iff split: option.splits)
qed (simp add: bm_retain_def)

lemma bm_get_map_values [map_simps]: "bm_get (bm_map_values f m) k = map_option f (bm_get m k)"
  by (induction m) (auto simp: bm_map_values_def)

lemma bm_keys_map_values [simp]: "bm_keys (bm_map_values f m) = bm_keys m"
  by (simp add: bm_keys_def bm_map_values_def)

lemma bm_wf_map_values [simp]: "bm_wf (bm_map_values f m) = bm_wf m"
  by (simp add: bm_wf_def)

lemma bm_get_update [map_simps]:
  "bm_get (bm_update k f m) k' = (if k' = k then map_option f (bm_get m k) else bm_get m k')"
  by (induction m) (auto simp: bm_update_def)

lemma bm_keys_update [simp]: "bm_keys (bm_update k f m) = bm_keys m"
  by (simp add: bm_keys_def bm_update_def)

lemma bm_wf_update [simp]: "bm_wf (bm_update k f m) = bm_wf m"
  by (simp add: bm_wf_def)

lemma bm_wf_or_insert [simp]: "bm_wf m \<Longrightarrow> bm_wf (bm_or_insert k v m)"
  by (simp add: bm_or_insert_def split: option.splits)

lemma bm_get_or_insert [map_simps]:
  "bm_wf m \<Longrightarrow> bm_get (bm_or_insert k v m) k' =
     (if k' = k then Some (unwrap_or v (bm_get m k)) else bm_get m k')"
  by (auto simp: bm_or_insert_def bm_get_insert split: option.splits)

lemma bm_get_SomeI: "bm_wf m \<Longrightarrow> (k, v) \<in> set m \<Longrightarrow> bm_get m k = Some v"
  using bm_wf_distinct map_of_is_SomeI by metis

lemma in_set_bm_keys: "k \<in> set (bm_keys m) \<longleftrightarrow> bm_get m k \<noteq> None"
  by (auto simp: bm_keys_def map_of_eq_None_iff)

interpretation bm: sorted_key_map "[] :: ('k::linorder, 'v) bmap" map_of bm_insert bm_remove bm_wf
    bm_keys
proof (unfold_locales, goal_cases)
  case 7 then show ?case by (simp add: bm_wf_def)
next
  case 8 then show ?case by (simp add: in_set_bm_keys)
qed (simp_all add: bm_get_insert bm_get_remove)

text \<open>A map is determined by its lookups.\<close>

lemma bm_entries: "distinct (map fst m) \<Longrightarrow> map (\<lambda>k. (k, the (bm_get m k))) (bm_keys m) = m"
  by (auto simp: bm_keys_def comp_def intro!: map_idI)

lemma bm_eqI:
  assumes "bm_wf m" "bm_wf n" "\<And>k. bm_get m k = bm_get n k"
  shows "m = n"
proof -
  have "map (\<lambda>k. (k, the (bm_get m k))) (bm_keys m) = map (\<lambda>k. (k, the (bm_get n k))) (bm_keys n)"
    using bm.keys_determined[OF assms] assms(3) by simp
  then show ?thesis by (simp only: bm_entries bm_wf_distinct assms(1,2))
qed

lemma bm_of_list_eq: "bm_of_list = bm.of_list"
  by (simp add: fun_eq_iff bm_of_list_def bm.of_list_def)

lemma bm_get_of_list [map_simps]: "bm_get (bm_of_list xs) k = map_of (rev xs) k"
  by (simp add: bm_of_list_eq bm.get_of_list)

lemma bm_wf_of_list [simp]: "bm_wf (bm_of_list xs)"
  by (simp add: bm_of_list_eq bm.invar_of_list)

lemma bm_insert_idem: "bm_wf m \<Longrightarrow> bm_get m k = Some v \<Longrightarrow> bm_insert k v m = m"
  by (rule bm_eqI) (auto simp: bm_get_insert)

text \<open>A loop over an ordered map that stores each entry under its own key.\<close>

lemma bm_get_foldl_insert:
  "bm_wf m \<Longrightarrow> bm_get (foldl (\<lambda>m (k, v). bm_insert k v m) m xs) k =
     (case map_of (rev xs) k of None \<Rightarrow> bm_get m k | Some v \<Rightarrow> Some v)"
  by (rule bm.get_foldl_ins)

lemma map_of_rev_distinct: "distinct (map fst xs) \<Longrightarrow> map_of (rev xs) = map_of xs"
proof -
  assume d: "distinct (map fst xs)"
  then have "distinct (map fst (rev xs))" by (simp add: rev_map[symmetric])
  then show ?thesis using d by (simp add: map_of_inject_set)
qed

end
