(* ===== verification/Json.thy ===== *)
theory Json
  imports Ordered_Map "HOL-Library.Monad_Syntax"
begin

text \<open>
  JSON values as the sources build and inspect them.  \<open>serde_json\<close> is compiled with
  \<open>preserve_order\<close>, so an object is the list of its entries in insertion order: inserting an
  existing key replaces its value in place, a new key goes to the end, and removing a key moves the
  last entry into its place.  A number is an integer or the bit pattern of a finite \<open>f64\<close>.
  The decoders are those of the derived \<open>Deserialize\<close> implementations, with \<open>None\<close> for
  an error (a struct is read from an object; unknown fields are ignored).
\<close>

section \<open>Values\<close>

datatype json_number = NInt int | NFloat u64

datatype json =
    JNull
  | JBool bool
  | JNumber json_number
  | JString string
  | JArray "json list"
  | JObject "(string \<times> json) list"

type_synonym jmap = "(string \<times> json) list"

fun as_str :: "json \<Rightarrow> string option" where
  "as_str (JString s) = Some s"
| "as_str _ = None"

fun as_bool :: "json \<Rightarrow> bool option" where
  "as_bool (JBool b) = Some b"
| "as_bool _ = None"

fun as_array :: "json \<Rightarrow> json list option" where
  "as_array (JArray xs) = Some xs"
| "as_array _ = None"

fun as_object :: "json \<Rightarrow> jmap option" where
  "as_object (JObject m) = Some m"
| "as_object _ = None"

lemma as_str_Some [simp]: "as_str v = Some s \<longleftrightarrow> v = JString s"
  by (cases v) auto

lemma as_array_Some [simp]: "as_array v = Some xs \<longleftrightarrow> v = JArray xs"
  by (cases v) auto

lemma as_object_Some [simp]: "as_object v = Some m \<longleftrightarrow> v = JObject m"
  by (cases v) auto

definition is_object :: "json \<Rightarrow> bool" where
  "is_object v \<longleftrightarrow> as_object v \<noteq> None"

lemma is_object_JObject [simp]: "is_object (JObject m)"
  by (simp add: is_object_def)

lemma is_objectE: "is_object v \<Longrightarrow> (\<And>m. v = JObject m \<Longrightarrow> P) \<Longrightarrow> P"
  by (cases v) (auto simp: is_object_def)

section \<open>Objects\<close>

abbreviation jm_get :: "('k \<times> 'v) list \<Rightarrow> 'k \<Rightarrow> 'v option" where
  "jm_get m \<equiv> map_of m"

definition jm_wf :: "('k \<times> 'v) list \<Rightarrow> bool" where
  "jm_wf m \<longleftrightarrow> distinct (map fst m)"

fun jm_insert :: "'k \<Rightarrow> 'v \<Rightarrow> ('k \<times> 'v) list \<Rightarrow> ('k \<times> 'v) list" where
  "jm_insert k v [] = [(k, v)]"
| "jm_insert k v ((k', v') # m) =
     (if k' = k then (k, v) # m else (k', v') # jm_insert k v m)"

text \<open>\<open>swap_remove\<close>: the last entry takes the place of the removed one.\<close>

fun jm_remove :: "'k \<Rightarrow> ('k \<times> 'v) list \<Rightarrow> ('k \<times> 'v) list" where
  "jm_remove k [] = []"
| "jm_remove k (e # m) =
     (if fst e = k then (if m = [] then [] else last m # butlast m) else e # jm_remove k m)"

definition jm_of_list :: "('k \<times> 'v) list \<Rightarrow> ('k \<times> 'v) list" where
  "jm_of_list xs = foldl (\<lambda>m (k, v). jm_insert k v m) [] xs"

lemma jm_wf_Nil [simp]: "jm_wf []"
  by (simp add: jm_wf_def)

lemma jm_get_insert: "jm_get (jm_insert k v m) k' = (if k' = k then Some v else jm_get m k')"
  by (induction k v m rule: jm_insert.induct) auto

lemma fst_set_jm_insert: "fst ` set (jm_insert k v m) = insert k (fst ` set m)"
  by (induction k v m rule: jm_insert.induct) auto

lemma jm_wf_insert [simp]: "jm_wf m \<Longrightarrow> jm_wf (jm_insert k v m)"
  by (induction k v m rule: jm_insert.induct) (auto simp: jm_wf_def fst_set_jm_insert)

lemma set_jm_remove: "jm_wf m \<Longrightarrow> set (jm_remove k m) = {e \<in> set m. fst e \<noteq> k}"
proof (induction k m rule: jm_remove.induct)
  case (2 k e m)
  show ?case
  proof (cases "fst e = k")
    case True
    have "set (last m # butlast m) = set m" if "m \<noteq> []"
      using that by (cases m rule: rev_cases) auto
    with True 2 show ?thesis by (auto simp: jm_wf_def image_iff)
  next
    case False
    with 2 show ?thesis by (auto simp: jm_wf_def)
  qed
qed simp

lemma jm_wf_remove [simp]: "jm_wf m \<Longrightarrow> jm_wf (jm_remove k m)"
proof (induction k m rule: jm_remove.induct)
  case (2 k e m)
  have "distinct (map fst (last m # butlast m))" if "m \<noteq> []" "distinct (map fst m)"
    using that by (cases m rule: rev_cases) auto
  with 2 show ?case by (auto simp: jm_wf_def set_jm_remove[unfolded jm_wf_def] image_iff)
qed simp

lemma jm_get_remove:
  assumes "jm_wf m"
  shows "jm_get (jm_remove k m) k' = (if k' = k then None else jm_get m k')"
proof -
  have w: "distinct (map fst m)" "distinct (map fst (jm_remove k m))"
    using assms jm_wf_remove[OF assms, of k] by (simp_all add: jm_wf_def)
  have "jm_get (jm_remove k m) k' = Some v \<longleftrightarrow> k' \<noteq> k \<and> jm_get m k' = Some v" for v
    using w set_jm_remove[OF assms, of k] by (auto simp: map_of_eq_Some_iff)
  then show ?thesis by (metis not_None_eq)
qed

interpretation jm: key_map "[] :: ('k \<times> 'v) list" map_of jm_insert jm_remove jm_wf
  by unfold_locales (simp_all add: jm_get_insert jm_get_remove)

lemma jm_insert_new: "k \<notin> fst ` set m \<Longrightarrow> jm_insert k v m = m @ [(k, v)]"
  by (induction k v m rule: jm_insert.induct) auto

lemma jm_foldl_insert_new:
  "distinct (map fst (m @ xs)) \<Longrightarrow> foldl (\<lambda>m (k, v). jm_insert k v m) m xs = m @ xs"
proof (induction xs arbitrary: m)
  case (Cons x xs)
  obtain k v where x: "x = (k, v)" by (cases x)
  have "jm_insert k v m = m @ [x]" using Cons.prems x by (intro jm_insert_new[of k m v, simplified x[symmetric]]) auto
  then show ?case using Cons.IH[of "m @ [x]"] Cons.prems x by simp
qed simp

lemma jm_of_list_distinct: "jm_wf xs \<Longrightarrow> jm_of_list xs = xs"
  using jm_foldl_insert_new[of "[]" xs] by (simp add: jm_of_list_def jm_wf_def)

definition json_field :: "string \<Rightarrow> json \<Rightarrow> json option" where
  "json_field k v = Option.bind (as_object v) (\<lambda>m. jm_get m k)"

lemma json_field_object [simp]: "json_field k (JObject m) = jm_get m k"
  by (simp add: json_field_def)

section \<open>String lists\<close>

definition json_strings :: "string list \<Rightarrow> json" where
  "json_strings xs = JArray (map JString xs)"

definition strings_of :: "json \<Rightarrow> string list" where
  "strings_of v = (case as_array v of None \<Rightarrow> [] | Some xs \<Rightarrow> List.map_filter as_str xs)"

lemma strings_of_json_strings [simp]: "strings_of (json_strings xs) = xs"
  by (induction xs) (auto simp: strings_of_def json_strings_def map_filter_simps)

section \<open>Encoding and decoding\<close>

definition enc_opt_str :: "string option \<Rightarrow> json" where
  "enc_opt_str x = (case x of None \<Rightarrow> JNull | Some s \<Rightarrow> JString s)"

definition enc_attrs :: "attrs \<Rightarrow> json" where
  "enc_attrs m = JObject (map (\<lambda>(k, vs). (k, json_strings vs)) m)"

fun dec_all :: "(json \<Rightarrow> 'a option) \<Rightarrow> json list \<Rightarrow> 'a list option" where
  "dec_all f [] = Some []"
| "dec_all f (x # xs) = do { y \<leftarrow> f x; ys \<leftarrow> dec_all f xs; Some (y # ys) }"

definition dec_opt_str :: "json \<Rightarrow> string option option" where
  "dec_opt_str v = (case v of JNull \<Rightarrow> Some None | JString s \<Rightarrow> Some (Some s) | _ \<Rightarrow> None)"

definition dec_strings :: "json \<Rightarrow> string list option" where
  "dec_strings v = Option.bind (as_array v) (dec_all as_str)"

fun dec_entries :: "(json \<Rightarrow> 'a option) \<Rightarrow> jmap \<Rightarrow> (string \<times> 'a) list option" where
  "dec_entries f [] = Some []"
| "dec_entries f ((k, v) # m) = do { y \<leftarrow> f v; ys \<leftarrow> dec_entries f m; Some ((k, y) # ys) }"

definition dec_bmap :: "(json \<Rightarrow> 'a option) \<Rightarrow> json \<Rightarrow> 'a smap option" where
  "dec_bmap f v = do { m \<leftarrow> as_object v; es \<leftarrow> dec_entries f m; Some (bm_of_list es) }"

definition dec_attrs :: "json \<Rightarrow> attrs option" where
  "dec_attrs v = dec_bmap dec_strings v"

text \<open>A field with \<open>#[serde(default)]\<close>, and a required one.\<close>

definition dec_default :: "(json \<Rightarrow> 'a option) \<Rightarrow> 'a \<Rightarrow> string \<Rightarrow> jmap \<Rightarrow> 'a option" where
  "dec_default f d k m = (case jm_get m k of None \<Rightarrow> Some d | Some v \<Rightarrow> f v)"

definition dec_required :: "(json \<Rightarrow> 'a option) \<Rightarrow> string \<Rightarrow> jmap \<Rightarrow> 'a option" where
  "dec_required f k m = (case jm_get m k of None \<Rightarrow> None | Some v \<Rightarrow> f v)"

text \<open>An optional JSON value (null is none) and integers within a range.\<close>

definition dec_opt_json :: "json \<Rightarrow> json option option" where
  "dec_opt_json v = Some (if v = JNull then None else Some v)"

definition dec_int :: "int \<Rightarrow> int \<Rightarrow> json \<Rightarrow> int option" where
  "dec_int lo hi v = (case v of JNumber (NInt i) \<Rightarrow> if lo \<le> i \<and> i \<le> hi then Some i else None | _ \<Rightarrow> None)"

definition dec_u64 :: "json \<Rightarrow> u64 option" where
  "dec_u64 v = map_option word_of_int (dec_int 0 18446744073709551615 v)"

definition dec_opt_u64 :: "json \<Rightarrow> u64 option option" where
  "dec_opt_u64 v = (if v = JNull then Some None else map_option Some (dec_u64 v))"

definition dec_i64 :: "json \<Rightarrow> int option" where
  "dec_i64 v = dec_int (- 9223372036854775808) 9223372036854775807 v"

lemma dec_all_map [simp]: "(\<And>x. f (g x) = Some x) \<Longrightarrow> dec_all f (map g xs) = Some xs"
  by (induction xs) auto

lemma dec_strings_json_strings [simp]: "dec_strings (json_strings xs) = Some xs"
  by (simp add: dec_strings_def json_strings_def)

lemma dec_opt_str_enc [simp]: "dec_opt_str (enc_opt_str x) = Some x"
  by (cases x) (auto simp: dec_opt_str_def enc_opt_str_def)

lemma dec_entries_enc:
  "(\<And>x. f (g x) = Some x) \<Longrightarrow> dec_entries f (map (\<lambda>(k, v). (k, g v)) m) = Some m"
  by (induction m) auto

lemma bm_of_list_id: "bm_wf m \<Longrightarrow> bm_of_list m = m"
  by (rule bm_eqI) (auto simp: bm_get_of_list map_of_rev_distinct bm_wf_distinct)

lemma dec_bmap_enc:
  "bm_wf m \<Longrightarrow> (\<And>x. f (g x) = Some x) \<Longrightarrow>
     dec_bmap f (JObject (map (\<lambda>(k, v). (k, g v)) m)) = Some m"
  by (simp add: dec_bmap_def dec_entries_enc bm_of_list_id)

lemma dec_attrs_enc [simp]: "bm_wf m \<Longrightarrow> dec_attrs (enc_attrs m) = Some m"
  by (simp add: dec_attrs_def enc_attrs_def dec_bmap_enc)

lemma dec_bmap_wf: "dec_bmap f v = Some m \<Longrightarrow> bm_wf m"
  by (auto simp: dec_bmap_def bind_eq_Some_conv)

end
