(* ===== verification/Internal_Data.thy ===== *)
theory Internal_Data
  imports Json
begin

text \<open>
  The protocol-agnostic data model of \<open>internal.rs\<close>: what frontends, micro-services and
  backends exchange, with its JSON form (the derived serde implementations), which the discovery
  and step-up services store in the session state.
\<close>

section \<open>Data\<close>

record auth_information =
  ai_class_ref :: "string option"
  ai_timestamp :: "string option"
  ai_issuer :: "string option"

datatype subject_type = Persistent | Transient | Public | Pairwise

record internal_data =
  id_auth_info :: auth_information
  id_requester :: "string option"
  id_requester_name :: "string list"
  id_subject_id :: "string option"
  id_subject_type :: subject_type
  id_attributes :: attrs
  id_force_authn :: bool
  id_is_passive :: bool

definition auth_info_default :: auth_information where
  "auth_info_default = \<lparr> ai_class_ref = None, ai_timestamp = None, ai_issuer = None \<rparr>"

definition internal_default :: internal_data where
  "internal_default =
     \<lparr> id_auth_info = auth_info_default, id_requester = None, id_requester_name = [],
       id_subject_id = None, id_subject_type = Persistent, id_attributes = [],
       id_force_authn = False, id_is_passive = False \<rparr>"

definition internal_request :: "string \<Rightarrow> internal_data" where
  "internal_request r = internal_default\<lparr> id_requester := Some r \<rparr>"

definition attr_first :: "internal_data \<Rightarrow> string \<Rightarrow> string option" where
  "attr_first d name =
     (case bm_get (id_attributes d) name of
        None \<Rightarrow> None | Some [] \<Rightarrow> None | Some (v # _) \<Rightarrow> Some v)"

definition set_attr :: "string \<Rightarrow> string \<Rightarrow> internal_data \<Rightarrow> internal_data" where
  "set_attr name v d = d\<lparr> id_attributes := bm_insert name [v] (id_attributes d) \<rparr>"

definition data_wf :: "internal_data \<Rightarrow> bool" where
  "data_wf d \<longleftrightarrow> bm_wf (id_attributes d)"

lemma data_wf_default [simp]: "data_wf internal_default"
  by (simp add: data_wf_def internal_default_def)

lemma data_wf_set_attr [simp]: "data_wf d \<Longrightarrow> data_wf (set_attr n v d)"
  by (simp add: data_wf_def set_attr_def)

lemma attr_first_set_attr:
  "data_wf d \<Longrightarrow> attr_first (set_attr n v d) m = (if m = n then Some v else attr_first d m)"
  by (simp add: attr_first_def set_attr_def data_wf_def bm_get_insert)

lemma attr_first_SomeD:
  "attr_first d n = Some v \<Longrightarrow> \<exists>vs. bm_get (id_attributes d) n = Some (v # vs)"
  by (auto simp: attr_first_def split: option.splits list.splits)

section \<open>JSON form\<close>

fun subject_type_name :: "subject_type \<Rightarrow> string" where
  "subject_type_name Persistent = ''persistent''"
| "subject_type_name Transient = ''transient''"
| "subject_type_name Public = ''public''"
| "subject_type_name Pairwise = ''pairwise''"

definition dec_subject_type :: "json \<Rightarrow> subject_type option" where
  "dec_subject_type v = Option.bind (as_str v) (\<lambda>s.
     if s = ''persistent'' then Some Persistent
     else if s = ''transient'' then Some Transient
     else if s = ''public'' then Some Public
     else if s = ''pairwise'' then Some Pairwise else None)"

text \<open>\<open>skip_serializing_if = "Option::is_none"\<close> leaves the field out.\<close>

definition skip_none :: "string \<Rightarrow> string option \<Rightarrow> jmap" where
  "skip_none k x = (case x of None \<Rightarrow> [] | Some s \<Rightarrow> [(k, JString s)])"

definition enc_auth_info :: "auth_information \<Rightarrow> json" where
  "enc_auth_info a = JObject
     (skip_none ''auth_class_ref'' (ai_class_ref a) @
      skip_none ''timestamp'' (ai_timestamp a) @
      skip_none ''issuer'' (ai_issuer a))"

definition dec_auth_info :: "json \<Rightarrow> auth_information option" where
  "dec_auth_info v = do {
     m \<leftarrow> as_object v;
     c \<leftarrow> dec_default dec_opt_str None ''auth_class_ref'' m;
     t \<leftarrow> dec_default dec_opt_str None ''timestamp'' m;
     i \<leftarrow> dec_default dec_opt_str None ''issuer'' m;
     Some \<lparr> ai_class_ref = c, ai_timestamp = t, ai_issuer = i \<rparr> }"

definition enc_internal :: "internal_data \<Rightarrow> json" where
  "enc_internal d = JObject
     ([(''auth_info'', enc_auth_info (id_auth_info d))] @
      skip_none ''requester'' (id_requester d) @
      (if id_requester_name d = [] then []
       else [(''requester_name'', json_strings (id_requester_name d))]) @
      skip_none ''subject_id'' (id_subject_id d) @
      [(''subject_type'', JString (subject_type_name (id_subject_type d))),
       (''attributes'', enc_attrs (id_attributes d)),
       (''force_authn'', JBool (id_force_authn d)),
       (''is_passive'', JBool (id_is_passive d))])"

definition dec_internal :: "json \<Rightarrow> internal_data option" where
  "dec_internal v = do {
     m \<leftarrow> as_object v;
     ai \<leftarrow> dec_default dec_auth_info auth_info_default ''auth_info'' m;
     r \<leftarrow> dec_default dec_opt_str None ''requester'' m;
     rn \<leftarrow> dec_default dec_strings [] ''requester_name'' m;
     s \<leftarrow> dec_default dec_opt_str None ''subject_id'' m;
     st \<leftarrow> dec_default dec_subject_type Persistent ''subject_type'' m;
     at \<leftarrow> dec_default dec_attrs [] ''attributes'' m;
     fa \<leftarrow> dec_default as_bool False ''force_authn'' m;
     ip \<leftarrow> dec_default as_bool False ''is_passive'' m;
     Some \<lparr> id_auth_info = ai, id_requester = r, id_requester_name = rn, id_subject_id = s,
            id_subject_type = st, id_attributes = at, id_force_authn = fa, id_is_passive = ip \<rparr> }"

lemma dec_subject_type_name [simp]: "dec_subject_type (JString (subject_type_name t)) = Some t"
  by (cases t) (auto simp: dec_subject_type_def)

lemma map_of_skip_none [simp]:
  "map_of (skip_none k x) k' = (if k' = k then map_option JString x else None)"
  by (auto simp: skip_none_def split: option.splits)

lemma dec_default_skip:
  "jm_get m k = map_option JString x \<Longrightarrow> dec_default dec_opt_str None k m = Some x"
  by (cases x) (auto simp: dec_default_def dec_opt_str_def)

lemma dec_default_Some: "jm_get m k = Some v \<Longrightarrow> dec_default f d k m = f v"
  by (simp add: dec_default_def)

lemma dec_auth_info_enc [simp]: "dec_auth_info (enc_auth_info a) = Some a"
  by (simp add: dec_auth_info_def enc_auth_info_def map_add_def
      dec_default_skip[where x = "ai_class_ref a"] dec_default_skip[where x = "ai_timestamp a"]
      dec_default_skip[where x = "ai_issuer a"] split: option.splits)

lemma dec_default_strings:
  "jm_get m k = (if xs = [] then None else Some (json_strings xs)) \<Longrightarrow>
     dec_default dec_strings [] k m = Some xs"
  by (auto simp: dec_default_def split: if_splits)

definition internal_fields :: "internal_data \<Rightarrow> jmap" where
  "internal_fields d = the (as_object (enc_internal d))"

lemma jm_get_append: "jm_get (xs @ ys) k = (case jm_get xs k of None \<Rightarrow> jm_get ys k | Some v \<Rightarrow> Some v)"
  by (simp add: map_add_def)

lemma internal_fields_get:
  "jm_get (internal_fields d) ''auth_info'' = Some (enc_auth_info (id_auth_info d))"
  "jm_get (internal_fields d) ''requester'' = map_option JString (id_requester d)"
  "jm_get (internal_fields d) ''requester_name'' =
     (if id_requester_name d = [] then None else Some (json_strings (id_requester_name d)))"
  "jm_get (internal_fields d) ''subject_id'' = map_option JString (id_subject_id d)"
  "jm_get (internal_fields d) ''subject_type'' = Some (JString (subject_type_name (id_subject_type d)))"
  "jm_get (internal_fields d) ''attributes'' = Some (enc_attrs (id_attributes d))"
  "jm_get (internal_fields d) ''force_authn'' = Some (JBool (id_force_authn d))"
  "jm_get (internal_fields d) ''is_passive'' = Some (JBool (id_is_passive d))"
  by (simp_all add: internal_fields_def enc_internal_def jm_get_append del: map_of_append
      split: option.splits)

lemma dec_internal_enc: "data_wf d \<Longrightarrow> dec_internal (enc_internal d) = Some d"
proof -
  assume w: "data_wf d"
  have e: "enc_internal d = JObject (internal_fields d)"
    by (simp add: internal_fields_def enc_internal_def)
  show ?thesis using w
    by (simp add: dec_internal_def e internal_fields_get data_wf_def dec_default_Some
        dec_default_skip[where x = "id_requester d"] dec_default_skip[where x = "id_subject_id d"]
        dec_default_strings[where xs = "id_requester_name d"])
qed

lemma dec_default_attrs_wf: "dec_default dec_attrs [] k m = Some a \<Longrightarrow> bm_wf a"
  by (auto simp: dec_default_def dec_attrs_def dest: dec_bmap_wf split: option.splits)

lemma dec_internal_wf: "dec_internal v = Some d \<Longrightarrow> data_wf d"
  by (auto simp: dec_internal_def bind_eq_Some_conv data_wf_def dest: dec_default_attrs_wf)

end
