(* ===== verification/State_Store.thy ===== *)
theory State_Store
  imports Internal_Data
begin

text \<open>
  The session state of \<open>state.rs\<close> (\<open>State\<close>): a two-level store of JSON values addressed by a
  namespace and a key, with the issue time of the envelope it came from and the flag that clears
  the cookie.  The locale \<open>namespaced_store\<close> states what its clients (the proxy and the
  services that suspend a flow) rely on; \<open>flow_slot\<close> is the use the suspending services make of
  it: one value saved under a namespace of their own, loaded on return, dropped once consumed.
\<close>

section \<open>The interface\<close>

locale namespaced_store =
  fixes get :: "'s \<Rightarrow> string \<Rightarrow> string \<Rightarrow> 'v option"
    and set_val :: "string \<Rightarrow> string \<Rightarrow> 'v \<Rightarrow> 's \<Rightarrow> 's"
    and clear :: "string \<Rightarrow> 's \<Rightarrow> 's"
    and invar :: "'s \<Rightarrow> bool"
  assumes get_set: "invar s \<Longrightarrow>
      get (set_val n k v s) n' k' = (if n' = n \<and> k' = k then Some v else get s n' k')"
    and get_clear: "invar s \<Longrightarrow> get (clear n s) n' k = (if n' = n then None else get s n' k)"
    and invar_set: "invar s \<Longrightarrow> invar (set_val n k v s)"
    and invar_clear: "invar s \<Longrightarrow> invar (clear n s)"
begin

lemma get_set_same: "invar s \<Longrightarrow> get (set_val n k v s) n k = Some v"
  by (simp add: get_set)

lemma get_set_other_ns: "invar s \<Longrightarrow> n' \<noteq> n \<Longrightarrow> get (set_val n k v s) n' k' = get s n' k'"
  by (simp add: get_set)

lemma get_clear_same: "invar s \<Longrightarrow> get (clear n s) n k = None"
  by (simp add: get_clear)

lemma get_clear_other: "invar s \<Longrightarrow> n' \<noteq> n \<Longrightarrow> get (clear n s) n' k = get s n' k"
  by (simp add: get_clear)

lemma clear_after_set: "invar s \<Longrightarrow> get (clear n (set_val n k v s)) n' k' = get (clear n s) n' k'"
  by (simp add: get_clear get_set invar_set)

text \<open>A sequence of writes to other namespaces leaves a value in place.\<close>

lemma get_fold_other_ns:
  assumes "invar s" "\<forall>w \<in> set ws. fst w \<noteq> n"
  shows "get (fold (\<lambda>(n', k', v) s. set_val n' k' v s) ws s) n k = get s n k"
  using assms
proof (induction ws arbitrary: s)
  case (Cons w ws)
  obtain n' k' v where w: "w = (n', k', v)" by (cases w)
  with Cons show ?case by (auto simp: invar_set get_set)
qed simp

end

locale flow_slot = namespaced_store get set_val clear invar
  for get :: "'s \<Rightarrow> string \<Rightarrow> string \<Rightarrow> 'v option"
    and set_val :: "string \<Rightarrow> string \<Rightarrow> 'v \<Rightarrow> 's \<Rightarrow> 's"
    and clear :: "string \<Rightarrow> 's \<Rightarrow> 's"
    and invar :: "'s \<Rightarrow> bool" +
  fixes slot_ns :: "'svc \<Rightarrow> string"
    and slot_key :: string
    and reserved :: "string \<Rightarrow> bool"
  assumes slot_private: "\<not> reserved (slot_ns c)"
begin

lemma saved_loaded: "invar s \<Longrightarrow> get (set_val (slot_ns c) slot_key v s) (slot_ns c) slot_key = Some v"
  by (rule get_set_same)

lemma consumed_once: "invar s \<Longrightarrow> get (clear (slot_ns c) s) (slot_ns c) slot_key = None"
  by (rule get_clear_same)

lemma save_keeps_reserved: "invar s \<Longrightarrow> reserved n \<Longrightarrow> get (set_val (slot_ns c) k v s) n k' = get s n k'"
  using slot_private by (intro get_set_other_ns) auto

lemma consume_keeps_reserved: "invar s \<Longrightarrow> reserved n \<Longrightarrow> get (clear (slot_ns c) s) n k' = get s n k'"
  using slot_private by (intro get_clear_other) auto

end

section \<open>State\<close>

record session =
  st_data :: jmap
  st_issued_at :: "u64 option"
  st_delete :: bool

definition state_new :: session where
  "state_new = \<lparr> st_data = [], st_issued_at = None, st_delete = False \<rparr>"

definition state_get :: "session \<Rightarrow> string \<Rightarrow> json option" where
  "state_get s ns = jm_get (st_data s) ns"

definition get_value :: "session \<Rightarrow> string \<Rightarrow> string \<Rightarrow> json option" where
  "get_value s ns key =
     Option.bind (jm_get (st_data s) ns) (\<lambda>v. Option.bind (as_object v) (\<lambda>m. jm_get m key))"

definition get_str :: "session \<Rightarrow> string \<Rightarrow> string \<Rightarrow> string option" where
  "get_str s ns key =
     Option.bind (jm_get (st_data s) ns) (\<lambda>v. Option.bind (as_object v) (\<lambda>m.
       Option.bind (jm_get m key) as_str))"

text \<open>The namespace is created when absent; a namespace that is not an object is left alone.\<close>

definition set_value :: "string \<Rightarrow> string \<Rightarrow> json \<Rightarrow> session \<Rightarrow> session" where
  "set_value ns key v s =
     (case jm_get (st_data s) ns of
        None \<Rightarrow> s\<lparr> st_data := jm_insert ns (JObject (jm_insert key v [])) (st_data s) \<rparr>
      | Some old \<Rightarrow>
          (case as_object old of
             None \<Rightarrow> s
           | Some obj \<Rightarrow> s\<lparr> st_data := jm_insert ns (JObject (jm_insert key v obj)) (st_data s) \<rparr>))"

definition set_str :: "string \<Rightarrow> string \<Rightarrow> string \<Rightarrow> session \<Rightarrow> session" where
  "set_str ns key v s = set_value ns key (JString v) s"

definition clear_namespace :: "string \<Rightarrow> session \<Rightarrow> session" where
  "clear_namespace ns s = s\<lparr> st_data := jm_remove ns (st_data s) \<rparr>"

text \<open>Every namespace is an object: what the operations establish and keep.\<close>

definition state_wf :: "session \<Rightarrow> bool" where
  "state_wf s \<longleftrightarrow> jm_wf (st_data s) \<and> (\<forall>e \<in> set (st_data s). is_object (snd e))"

lemma state_wf_new [simp]: "state_wf state_new"
  by (simp add: state_wf_def state_new_def)

lemma state_new_get [simp]: "get_value state_new ns k = None" "get_str state_new ns k = None"
  by (simp_all add: get_value_def get_str_def state_new_def)

lemma get_str_value: "get_str s ns k = Option.bind (get_value s ns k) as_str"
  by (simp add: get_str_def get_value_def split: Option.bind_split)

lemma state_wf_get: "state_wf s \<Longrightarrow> jm_get (st_data s) ns = Some v \<Longrightarrow> is_object v"
  by (fastforce simp: state_wf_def dest: map_of_SomeD)

lemma set_jm_insert: "set (jm_insert k v m) \<subseteq> insert (k, v) (set m)"
  by (induction k v m rule: jm_insert.induct) auto

lemma state_wf_set_value [simp]: "state_wf s \<Longrightarrow> state_wf (set_value ns k v s)"
  using set_jm_insert
  by (fastforce simp: set_value_def state_wf_def split: option.splits)

lemma state_wf_set_str [simp]: "state_wf s \<Longrightarrow> state_wf (set_str ns k v s)"
  by (simp add: set_str_def)

lemma state_wf_clear [simp]: "state_wf s \<Longrightarrow> state_wf (clear_namespace ns s)"
  by (auto simp: clear_namespace_def state_wf_def set_jm_remove)

lemma get_value_set_value [state_simps]:
  assumes "state_wf s"
  shows "get_value (set_value n k v s) n' k' =
           (if n' = n \<and> k' = k then Some v else get_value s n' k')"
proof (cases "jm_get (st_data s) n")
  case None
  then show ?thesis by (auto simp: set_value_def get_value_def jm_get_insert)
next
  case (Some old)
  with assms obtain obj where "old = JObject obj"
    using state_wf_get by (metis is_objectE)
  with Some show ?thesis by (auto simp: set_value_def get_value_def jm_get_insert)
qed

lemma get_value_clear [state_simps]:
  "state_wf s \<Longrightarrow> get_value (clear_namespace n s) n' k = (if n' = n then None else get_value s n' k)"
  by (simp add: clear_namespace_def get_value_def jm_get_remove state_wf_def)

lemma get_str_set_str [state_simps]:
  "state_wf s \<Longrightarrow> get_str (set_str n k v s) n' k' =
     (if n' = n \<and> k' = k then Some v else get_str s n' k')"
  by (simp add: get_str_value set_str_def get_value_set_value)

lemma get_str_set_value_other [state_simps]:
  "state_wf s \<Longrightarrow> n' \<noteq> n \<Longrightarrow> get_str (set_value n k v s) n' k' = get_str s n' k'"
  by (simp add: get_str_value get_value_set_value)

lemma get_str_clear [state_simps]:
  "state_wf s \<Longrightarrow> get_str (clear_namespace n s) n' k = (if n' = n then None else get_str s n' k)"
  by (simp add: get_str_value get_value_clear)

interpretation st: namespaced_store get_value set_value clear_namespace state_wf
  by unfold_locales (simp_all add: get_value_set_value get_value_clear)

text \<open>Handlers cannot reach the issue time: no operation of the state map changes it.\<close>

lemma issued_at_ops [simp]:
  "st_issued_at (set_value ns k v s) = st_issued_at s"
  "st_issued_at (set_str ns k w s) = st_issued_at s"
  "st_issued_at (clear_namespace ns s) = st_issued_at s"
  by (simp_all add: set_str_def set_value_def clear_namespace_def split: option.splits)

lemma delete_ops [simp]:
  "st_delete (set_value ns k v s) = st_delete s"
  "st_delete (set_str ns k w s) = st_delete s"
  "st_delete (clear_namespace ns s) = st_delete s"
  by (simp_all add: set_str_def set_value_def clear_namespace_def split: option.splits)

lemma state_wf_delete [simp]: "state_wf (s\<lparr> st_delete := b \<rparr>) = state_wf s"
  by (simp add: state_wf_def)

lemma get_delete [simp]:
  "get_value (s\<lparr> st_delete := b \<rparr>) ns k = get_value s ns k"
  "get_str (s\<lparr> st_delete := b \<rparr>) ns k = get_str s ns k"
  by (simp_all add: get_value_def get_str_def)

end
