(* ===== verification/Sealer.thy ===== *)
theory Sealer
  imports State_Store
begin

text \<open>
  \<open>StateSealer\<close> of \<open>state.rs\<close>: the session state sealed into an encrypted cookie.  The
  cryptography (HKDF, JWE), the DEFLATE codec and the JSON text of the envelope are foreign code
  and form the parameter record \<open>crypto_lib\<close>; \<open>crypto_ok\<close> states their documented behaviour.
  The clock is passed as the seconds since the epoch, the JWE initialisation vector as a string.
  The theorems: what \<open>seal\<close> emits is read back by \<open>unseal\<close>, also across key rotation; a
  cookie that \<open>seal\<close> accepts fits the browser's limit and inflates; the lifetime of a flow is
  an absolute bound that resealing does not extend; everything else reads as a fresh session.
\<close>

section \<open>Constants and foreign functions\<close>

definition DEFAULT_TTL_SECONDS :: u64 where "DEFAULT_TTL_SECONDS = 1800"
definition MAX_COOKIE_BYTES :: nat where "MAX_COOKIE_BYTES = 4096"
definition ENVELOPE_VERSION :: nat where "ENVELOPE_VERSION = 1"
definition PLAINTEXT_TAG_DEFLATE :: char where "PLAINTEXT_TAG_DEFLATE = CHR 0x02"
definition MAX_INFLATED_BYTES :: nat where "MAX_INFLATED_BYTES = 64 * 1024"
definition MAX_IAT_SKEW_SECONDS :: u64 where "MAX_IAT_SKEW_SECONDS = 60"
definition HKDF_SALT :: string where "HKDF_SALT = ''tunnelbana-state-cookie-v1''"
definition HKDF_INFO :: string where "HKDF_INFO = ''tunnelbana state seal: dir+A256GCM''"
definition HOST_PREFIX :: string where "HOST_PREFIX = ''__Host-''"

record envelope =
  ev_v :: nat
  ev_iat :: u64
  ev_data :: jmap

record crypto_lib =
  cl_hkdf :: "string \<Rightarrow> string \<Rightarrow> string \<Rightarrow> string"
  cl_encrypt :: "string \<Rightarrow> string \<Rightarrow> string \<Rightarrow> string option"
  cl_decrypt :: "string \<Rightarrow> string \<Rightarrow> string option"
  cl_deflate :: "string \<Rightarrow> string option"
  cl_inflate :: "nat \<Rightarrow> string \<Rightarrow> string option"
  cl_to_json :: "envelope \<Rightarrow> string option"
  cl_of_json :: "string \<Rightarrow> envelope option"

text \<open>
  The documented behaviour relied on: a JWE opens under the key it was sealed with and no other,
  is never empty and has no \<open>;\<close> (the base64url alphabet); inflating at most \<open>n\<close> bytes of a
  deflated string gives its first \<open>n\<close> bytes; the JSON text of an envelope parses back.
\<close>

definition crypto_ok :: "crypto_lib \<Rightarrow> bool" where
  "crypto_ok lib \<longleftrightarrow>
     (\<forall>k iv p t. cl_encrypt lib k iv p = Some t \<longrightarrow>
        cl_decrypt lib k t = Some p \<and> (\<forall>k'. k' \<noteq> k \<longrightarrow> cl_decrypt lib k' t = None) \<and>
        t \<noteq> [] \<and> CHR '';'' \<notin> set t) \<and>
     (\<forall>x y n. cl_deflate lib x = Some y \<longrightarrow> cl_inflate lib n y = Some (take n x)) \<and>
     (\<forall>e j. cl_to_json lib e = Some j \<longrightarrow> cl_of_json lib j = Some e)"

definition derive_key :: "crypto_lib \<Rightarrow> string \<Rightarrow> string" where
  "derive_key lib secret = cl_hkdf lib HKDF_SALT secret HKDF_INFO"

definition compress_envelope :: "crypto_lib \<Rightarrow> string \<Rightarrow> string result" where
  "compress_envelope lib json =
     (case cl_deflate lib json of
        None \<Rightarrow> Inl (ErrState ''state compression failed: '')
      | Some d \<Rightarrow> Inr (PLAINTEXT_TAG_DEFLATE # d))"

definition inflate_envelope :: "crypto_lib \<Rightarrow> string \<Rightarrow> string option" where
  "inflate_envelope lib deflated =
     (case cl_inflate lib (MAX_INFLATED_BYTES + 1) deflated of
        None \<Rightarrow> None
      | Some json \<Rightarrow> if length json > MAX_INFLATED_BYTES then None else Some json)"

text \<open>Seconds since the epoch, 0 for a clock before it.\<close>

definition now_unix :: "int \<Rightarrow> u64" where
  "now_unix t = (if t < 0 then 0 else word_of_int t)"

definition saturating_sub :: "u64 \<Rightarrow> u64 \<Rightarrow> u64" where
  "saturating_sub a b = (if b \<le> a then a - b else 0)"

lemma unat_saturating_sub: "unat (saturating_sub a b) = unat a - unat b"
  by (simp add: saturating_sub_def unat_sub word_le_nat_alt not_le)

lemma crypto_okD:
  assumes "crypto_ok lib"
  shows "cl_encrypt lib k iv p = Some t \<Longrightarrow> cl_decrypt lib k t = Some p"
    and "cl_encrypt lib k iv p = Some t \<Longrightarrow> k' \<noteq> k \<Longrightarrow> cl_decrypt lib k' t = None"
    and "cl_encrypt lib k iv p = Some t \<Longrightarrow> t \<noteq> [] \<and> CHR '';'' \<notin> set t"
    and "cl_deflate lib x = Some y \<Longrightarrow> cl_inflate lib n y = Some (take n x)"
    and "cl_to_json lib e = Some j \<Longrightarrow> cl_of_json lib j = Some e"
  using assms by (auto simp: crypto_ok_def)

lemma inflate_compress:
  assumes "crypto_ok lib" "compress_envelope lib json = Inr p" "length json \<le> MAX_INFLATED_BYTES"
  shows "\<exists>d. p = PLAINTEXT_TAG_DEFLATE # d \<and> inflate_envelope lib d = Some json"
proof -
  from assms(2) obtain d where d: "cl_deflate lib json = Some d" "p = PLAINTEXT_TAG_DEFLATE # d"
    by (auto simp: compress_envelope_def split: option.splits)
  have "cl_inflate lib (MAX_INFLATED_BYTES + 1) d = Some json"
    using crypto_okD(4)[OF assms(1) d(1)] assms(3) by simp
  with d(2) assms(3) show ?thesis by (auto simp: inflate_envelope_def)
qed

section \<open>The sealer\<close>

record sealer =
  sl_keys :: "string list"
  sl_raw_cookie_name :: string
  sl_cookie_name :: string
  sl_secure :: bool
  sl_same_site :: string
  sl_ttl :: "u64 option"
  sl_max_cookie_bytes :: nat

definition recompute_name :: "sealer \<Rightarrow> sealer" where
  "recompute_name s =
     (let base = unwrap_or (sl_raw_cookie_name s) (strip_prefix HOST_PREFIX (sl_raw_cookie_name s))
      in s\<lparr> sl_cookie_name := (if sl_secure s then HOST_PREFIX @ base else base) \<rparr>)"

definition sealer_new :: "crypto_lib \<Rightarrow> string \<Rightarrow> string \<Rightarrow> sealer" where
  "sealer_new lib secret raw = recompute_name
     \<lparr> sl_keys = [derive_key lib secret], sl_raw_cookie_name = raw, sl_cookie_name = raw,
       sl_secure = True, sl_same_site = ''None'', sl_ttl = Some DEFAULT_TTL_SECONDS,
       sl_max_cookie_bytes = MAX_COOKIE_BYTES \<rparr>"

definition with_secure :: "bool \<Rightarrow> sealer \<Rightarrow> sealer" where
  "with_secure b s = recompute_name (s\<lparr> sl_secure := b \<rparr>)"

definition with_same_site :: "string \<Rightarrow> sealer \<Rightarrow> sealer" where
  "with_same_site v s = s\<lparr> sl_same_site := v \<rparr>"

definition with_ttl_seconds :: "u64 option \<Rightarrow> sealer \<Rightarrow> sealer" where
  "with_ttl_seconds ttl s = s\<lparr> sl_ttl := opt_filter (\<lambda>t. 0 < t) ttl \<rparr>"

definition with_previous_secrets :: "crypto_lib \<Rightarrow> string list \<Rightarrow> sealer \<Rightarrow> sealer" where
  "with_previous_secrets lib secrets s =
     s\<lparr> sl_keys := sl_keys s @ map (derive_key lib) (filter (\<lambda>x. x \<noteq> []) secrets) \<rparr>"

definition cookie_header :: "sealer \<Rightarrow> string \<Rightarrow> int option \<Rightarrow> string" where
  "cookie_header s value max_age = join_with ''; ''
     ([sl_cookie_name s @ ''='' @ value, ''Path=/'', ''HttpOnly'', ''SameSite='' @ sl_same_site s] @
      (if sl_secure s then [''Secure''] else []) @
      (case max_age of None \<Rightarrow> [] | Some age \<Rightarrow> [''Max-Age='' @ show_int age]))"

definition clear_cookie :: "sealer \<Rightarrow> string" where
  "clear_cookie s = cookie_header s [] (Some 0)"

definition decode_envelope :: "crypto_lib \<Rightarrow> sealer \<Rightarrow> u64 \<Rightarrow> string \<Rightarrow> session" where
  "decode_envelope lib s now plaintext =
     (let json = (case plaintext of
                    [] \<Rightarrow> None
                  | c # rest \<Rightarrow>
                      if c = CHR ''{'' then Some plaintext
                      else if c = PLAINTEXT_TAG_DEFLATE then inflate_envelope lib rest
                      else None)
      in case Option.bind json (cl_of_json lib) of
           None \<Rightarrow> state_new
         | Some e \<Rightarrow>
             if ev_v e \<noteq> ENVELOPE_VERSION then state_new
             else if (case sl_ttl s of
                        None \<Rightarrow> False
                      | Some ttl \<Rightarrow> ev_iat e > now + MAX_IAT_SKEW_SECONDS
                                    \<or> saturating_sub now (ev_iat e) \<ge> ttl) then state_new
             else \<lparr> st_data = ev_data e, st_issued_at = Some (ev_iat e), st_delete = False \<rparr>)"

definition unseal :: "crypto_lib \<Rightarrow> sealer \<Rightarrow> u64 \<Rightarrow> string option \<Rightarrow> session" where
  "unseal lib s now cookie_value =
     (case cookie_value of
        None \<Rightarrow> state_new
      | Some token \<Rightarrow>
          if token = [] then state_new
          else (case find_map (\<lambda>key. cl_decrypt lib key token) (sl_keys s) of
                  None \<Rightarrow> state_new
                | Some plaintext \<Rightarrow> decode_envelope lib s now plaintext))"

text \<open>\<open>keys[0]\<close> of an empty vector would panic; the sealer always has a key.\<close>

definition seal :: "crypto_lib \<Rightarrow> sealer \<Rightarrow> u64 \<Rightarrow> string \<Rightarrow> session \<Rightarrow> string result" where
  "seal lib s now iv st =
     (if st_delete st then Inr (clear_cookie s)
      else
        let issued_at = unwrap_or now (st_issued_at st);
            e = \<lparr> ev_v = ENVELOPE_VERSION, ev_iat = issued_at, ev_data = st_data st \<rparr>
        in bind_result (ok_or (cl_to_json lib e) (ErrInternal [])) (\<lambda>json.
           if length json > MAX_INFLATED_BYTES then
             Inl (ErrState (''state envelope is '' @ show_nat (length json) @ '' bytes, exceeds the '' @
               show_nat MAX_INFLATED_BYTES @ ''-byte inflation cap; '' @
               ''reduce the amount of state stored in the flow''))
           else bind_result (compress_envelope lib json) (\<lambda>plaintext.
           case sl_keys s of
             [] \<Rightarrow> Inl (ErrInternal ''index out of bounds'')
           | key # _ \<Rightarrow>
               bind_result (ok_or (cl_encrypt lib key iv plaintext) (ErrState ''seal failed: '')) (\<lambda>token.
               let pair_len = length (sl_cookie_name s) + 1 + length token in
               if pair_len > sl_max_cookie_bytes s then
                 Inl (ErrState (''sealed state cookie is '' @ show_nat pair_len @
                   '' bytes, exceeds the '' @ show_nat (sl_max_cookie_bytes s) @
                   '' byte limit; reduce the amount of state stored in the flow''))
               else
                 let max_age = map_option (\<lambda>ttl.
                       sint (saturating_sub ttl (saturating_sub now issued_at))) (sl_ttl s)
                 in Inr (cookie_header s token max_age)))))"

text \<open>What the browser keeps of a \<open>Set-Cookie\<close> header: the value of its first pair.\<close>

definition cookie_token :: "string \<Rightarrow> string" where
  "cookie_token h =
     (case split_once CHR ''='' (before_first CHR '';'' h) of None \<Rightarrow> [] | Some (_, v) \<Rightarrow> v)"

definition sealer_wf :: "sealer \<Rightarrow> bool" where
  "sealer_wf s \<longleftrightarrow> sl_keys s \<noteq> [] \<and> CHR ''='' \<notin> set (sl_cookie_name s) \<and> CHR '';'' \<notin> set (sl_cookie_name s)"

section \<open>Reading back what was sealed\<close>

text \<open>The freshness rule \<open>unseal\<close> applies to an issue time.\<close>

definition fresh :: "sealer \<Rightarrow> u64 \<Rightarrow> u64 \<Rightarrow> bool" where
  "fresh s iat now = (case sl_ttl s of None \<Rightarrow> True
     | Some ttl \<Rightarrow> \<not> (iat > now + MAX_IAT_SKEW_SECONDS) \<and> saturating_sub now iat < ttl)"

lemma tag_not_brace [simp]: "PLAINTEXT_TAG_DEFLATE \<noteq> CHR ''{''"
  by (simp add: PLAINTEXT_TAG_DEFLATE_def)

lemma cookie_header_pair:
  "\<exists>rest. cookie_header s v a = sl_cookie_name s @ CHR ''='' # v @ CHR '';'' # rest"
  by (simp add: cookie_header_def join_with_def)

lemma cookie_token_header:
  assumes "sealer_wf s" "CHR '';'' \<notin> set v"
  shows "cookie_token (cookie_header s v a) = v"
proof -
  obtain rest where r: "cookie_header s v a = sl_cookie_name s @ CHR ''='' # v @ CHR '';'' # rest"
    using cookie_header_pair by blast
  have "before_first CHR '';'' (cookie_header s v a) = sl_cookie_name s @ CHR ''='' # v"
    using assms before_first_append[of "CHR '';''" "sl_cookie_name s @ CHR ''='' # v" rest]
    by (simp add: r sealer_wf_def)
  moreover have "split_once CHR ''='' (sl_cookie_name s @ CHR ''='' # v) = Some (sl_cookie_name s, v)"
    using assms by (intro split_once_append) (simp add: sealer_wf_def)
  ultimately show ?thesis by (simp add: cookie_token_def)
qed

definition sealed_envelope :: "session \<Rightarrow> u64 \<Rightarrow> envelope" where
  "sealed_envelope st now =
     \<lparr> ev_v = ENVELOPE_VERSION, ev_iat = unwrap_or now (st_issued_at st), ev_data = st_data st \<rparr>"

lemma seal_InrE:
  assumes "seal lib s now iv st = Inr h" "\<not> st_delete st"
  obtains json p key ks token a where
    "cl_to_json lib (sealed_envelope st now) = Some json" "length json \<le> MAX_INFLATED_BYTES"
    "compress_envelope lib json = Inr p" "sl_keys s = key # ks"
    "cl_encrypt lib key iv p = Some token"
    "length (sl_cookie_name s) + 1 + length token \<le> sl_max_cookie_bytes s"
    "h = cookie_header s token a"
  using assms
  by (cases "sl_keys s") (auto simp: seal_def Let_def bind_result_eq_Inr sealed_envelope_def
      split: if_splits)

lemma find_map_unique:
  assumes "k \<in> set ks" "f k = Some y" "\<And>k'. k' \<noteq> k \<Longrightarrow> f k' = None"
  shows "find_map f ks = Some y"
  using assms
proof (induction ks)
  case (Cons x xs)
  then show ?case by (cases "x = k") auto
qed simp

lemma decode_sealed:
  assumes "crypto_ok lib" "cl_to_json lib (sealed_envelope st t) = Some json"
    "length json \<le> MAX_INFLATED_BYTES" "compress_envelope lib json = Inr p"
  shows "decode_envelope lib s now p =
    (if fresh s (unwrap_or t (st_issued_at st)) now
     then \<lparr> st_data = st_data st, st_issued_at = Some (unwrap_or t (st_issued_at st)),
            st_delete = False \<rparr> else state_new)"
proof -
  obtain d where d: "p = PLAINTEXT_TAG_DEFLATE # d" "inflate_envelope lib d = Some json"
    using inflate_compress[OF assms(1,4,3)] by blast
  have "cl_of_json lib json = Some (sealed_envelope st t)"
    using crypto_okD(5)[OF assms(1,2)] .
  with d show ?thesis
    by (auto simp: decode_envelope_def Let_def sealed_envelope_def fresh_def not_less
        split: option.splits)
qed

lemma unseal_sealed:
  assumes lib: "crypto_ok lib" and wf: "sealer_wf s"
    and seal: "seal lib s t iv st = Inr h" and live: "\<not> st_delete st"
    and key: "hd (sl_keys s) \<in> set (sl_keys s')"
  shows "unseal lib s' now (Some (cookie_token h)) =
    (if fresh s' (unwrap_or t (st_issued_at st)) now
     then \<lparr> st_data = st_data st, st_issued_at = Some (unwrap_or t (st_issued_at st)),
            st_delete = False \<rparr> else state_new)"
proof -
  from seal live obtain json p key ks token a where s:
    "cl_to_json lib (sealed_envelope st t) = Some json" "length json \<le> MAX_INFLATED_BYTES"
    "compress_envelope lib json = Inr p" "sl_keys s = key # ks"
    "cl_encrypt lib key iv p = Some token" "h = cookie_header s token a"
    by (rule seal_InrE)
  have tok: "cookie_token h = token" "token \<noteq> []"
    using s(6) crypto_okD(3)[OF lib s(5)] cookie_token_header[OF wf] by auto
  have "find_map (\<lambda>k. cl_decrypt lib k token) (sl_keys s') = Some p"
    using key s(4) crypto_okD(1,2)[OF lib s(5)] by (intro find_map_unique[of key]) auto
  then show ?thesis
    using tok decode_sealed[OF lib s(1,2,3)] by (simp add: unseal_def)
qed

definition envelope_text :: "crypto_lib \<Rightarrow> string \<Rightarrow> string option" where
  "envelope_text lib plaintext = (case plaintext of [] \<Rightarrow> None
     | c # rest \<Rightarrow> if c = CHR ''{'' then Some plaintext
                   else if c = PLAINTEXT_TAG_DEFLATE then inflate_envelope lib rest else None)"

lemma decode_envelope_sound:
  assumes "decode_envelope lib s now p = st" "st \<noteq> state_new"
  shows "\<exists>j e. envelope_text lib p = Some j \<and> cl_of_json lib j = Some e \<and>
           ev_v e = ENVELOPE_VERSION \<and> fresh s (ev_iat e) now \<and>
           st = \<lparr> st_data = ev_data e, st_issued_at = Some (ev_iat e), st_delete = False \<rparr>"
proof -
  let ?r = "Option.bind (envelope_text lib p) (cl_of_json lib)"
  have d: "decode_envelope lib s now p = (case ?r of None \<Rightarrow> state_new
    | Some e \<Rightarrow> if ev_v e \<noteq> ENVELOPE_VERSION then state_new
        else if \<not> fresh s (ev_iat e) now then state_new
        else \<lparr> st_data = ev_data e, st_issued_at = Some (ev_iat e), st_delete = False \<rparr>)"
    by (auto simp: decode_envelope_def envelope_text_def fresh_def not_less Let_def
        split: option.split)
  with assms obtain e where "?r = Some e" by (cases ?r) auto
  with d assms show ?thesis by (fastforce simp: bind_eq_Some_conv split: if_splits)
qed

lemma unseal_delete [simp]: "\<not> st_delete (unseal lib s now c)"
  by (auto simp: unseal_def decode_envelope_def state_new_def Let_def split: option.splits)

section \<open>The store as the proxy uses it\<close>

text \<open>
  The interface between the proxy and the sealer: a state put into a cookie is the state
  loaded from it while the flow is live, and a fresh one afterwards.
\<close>

locale cookie_store =
  fixes ok :: "'k \<Rightarrow> bool"
    and put :: "'k \<Rightarrow> u64 \<Rightarrow> string \<Rightarrow> session \<Rightarrow> string result"
    and tok :: "string \<Rightarrow> string"
    and load :: "'k \<Rightarrow> u64 \<Rightarrow> string option \<Rightarrow> session"
    and live :: "'k \<Rightarrow> u64 \<Rightarrow> u64 \<Rightarrow> bool"
  assumes load_put: "ok k \<Longrightarrow> put k t iv st = Inr h \<Longrightarrow> \<not> st_delete st \<Longrightarrow>
      load k now (Some (tok h)) =
        (if live k (unwrap_or t (st_issued_at st)) now
         then \<lparr> st_data = st_data st, st_issued_at = Some (unwrap_or t (st_issued_at st)),
                st_delete = False \<rparr> else state_new)"
    and load_none: "load k now None = state_new"
begin

lemma load_put_get:
  assumes "ok k" "put k t iv st = Inr h" "\<not> st_delete st"
    "live k (unwrap_or t (st_issued_at st)) now"
  shows "get_value (load k now (Some (tok h))) n key = get_value st n key"
    and "get_str (load k now (Some (tok h))) n key = get_str st n key"
  using load_put[OF assms(1-3), of now] assms(4) by (simp_all add: get_value_def get_str_def)

lemma load_put_issued:
  assumes "ok k" "put k t iv st = Inr h" "\<not> st_delete st"
    "load k now (Some (tok h)) \<noteq> state_new"
  shows "st_issued_at (load k now (Some (tok h))) = Some (unwrap_or t (st_issued_at st))"
    and "live k (unwrap_or t (st_issued_at st)) now"
  using load_put[OF assms(1-3), of now] assms(4) by (auto split: if_splits)

text \<open>Two hops: a flow loaded, changed and put again is still dated by its first put.\<close>

lemma reload_put_issued:
  assumes "ok k" "put k t iv st = Inr h" "\<not> st_delete st" "st_issued_at st = None"
    and l: "load k now (Some (tok h)) = st1" "st1 \<noteq> state_new"
    and "put k t' iv' st2 = Inr h'" "\<not> st_delete st2" "st_issued_at st2 = st_issued_at st1"
    and "load k now' (Some (tok h')) \<noteq> state_new"
  shows "live k t now'"
  using load_put_issued[OF assms(1-3), of now] load_put_issued(2)[OF assms(1,7,8), of now']
    assms by auto

end

type_synonym cookie_jar = "crypto_lib \<times> sealer"

fun jar_ok :: "cookie_jar \<Rightarrow> bool" where
  "jar_ok (lib, s) \<longleftrightarrow> crypto_ok lib \<and> sealer_wf s"

fun jar_seal :: "cookie_jar \<Rightarrow> u64 \<Rightarrow> string \<Rightarrow> session \<Rightarrow> string result" where
  "jar_seal (lib, s) t iv st = seal lib s t iv st"

fun jar_unseal :: "cookie_jar \<Rightarrow> u64 \<Rightarrow> string option \<Rightarrow> session" where
  "jar_unseal (lib, s) t c = unseal lib s t c"

fun jar_live :: "cookie_jar \<Rightarrow> u64 \<Rightarrow> u64 \<Rightarrow> bool" where
  "jar_live (lib, s) i t = fresh s i t"

interpretation jar: cookie_store jar_ok jar_seal cookie_token jar_unseal jar_live
proof (unfold_locales, goal_cases)
  case (1 k t iv st h now)
  obtain lib s where k: "k = (lib, s)" by (cases k)
  with 1 have "crypto_ok lib" "sealer_wf s" "seal lib s t iv st = Inr h" "\<not> st_delete st" by auto
  then show ?case using k unseal_sealed[of lib s t iv st h s now] by (simp add: sealer_wf_def)
next
  case (2 k now)
  then show ?case by (cases k) (simp add: unseal_def)
qed

section \<open>Flows across many responses\<close>

text \<open>
  The tokens of one flow: the first is sealed from a state that was never in a cookie, each
  later one from a state some request unsealed and its handlers changed (they cannot change the
  issue time).  Any instance with the same keys may do each step, at any time.
\<close>

inductive flow_token :: "crypto_lib \<Rightarrow> sealer \<Rightarrow> u64 \<Rightarrow> string \<Rightarrow> bool" for lib s where
  started: "flow_token lib s t (cookie_token h)"
    if "st_issued_at st = None" "\<not> st_delete st" "seal lib s t iv st = Inr h"
| resealed: "flow_token lib s t0 (cookie_token h)"
    if "flow_token lib s t0 tok" "unseal lib s now (Some tok) \<noteq> state_new"
       "st_issued_at st = st_issued_at (unseal lib s now (Some tok))" "\<not> st_delete st"
       "seal lib s t iv st = Inr h"

lemma flow_token_dated:
  assumes "jar_ok (lib, s)" "flow_token lib s t0 tok"
  shows "unseal lib s now (Some tok) = state_new \<or>
    (st_issued_at (unseal lib s now (Some tok)) = Some t0 \<and> fresh s t0 now)"
  using assms(2)
proof (induction arbitrary: now rule: flow_token.induct)
  case (started st t iv h)
  then show ?case using jar.load_put_issued[OF assms(1), of t iv st h now] by auto
next
  case (resealed t0 tok now1 st t iv h)
  then have i: "st_issued_at st = Some t0" by metis
  show ?case using jar.load_put_issued[OF assms(1), of t iv st h now] resealed(4,5) i by auto
qed

end
