(* ===== verification/Request_Context.thy ===== *)
theory Request_Context
  imports State_Store
begin

text \<open>
  The request context of \<open>context.rs\<close>: the inbound request, the routing decisions, the
  session state and the request-local decorations.  The record is used through its extensible
  scheme: the extension stands for everything outside the context a handler reads or changes
  (clock, network, caches).
\<close>

section \<open>Requests and responses\<close>

record http_request =
  rq_path :: string
  rq_method :: string
  rq_uri :: string
  rq_query_pairs :: "(string \<times> string) list"
  rq_query :: "string smap"
  rq_form_pairs :: "(string \<times> string) list"
  rq_form :: "string smap"
  rq_body :: string
  rq_headers :: "string smap"
  rq_cookies :: "string smap"

record response =
  rs_status :: u16
  rs_headers :: "(string \<times> string) list"
  rs_body :: string

text \<open>The response constructors and the status of an error come from the HTTP library.\<close>

record http_lib =
  hl_text :: "u16 \<Rightarrow> string \<Rightarrow> response"
  hl_redirect :: "string \<Rightarrow> response"
  hl_status_hint :: "error \<Rightarrow> u16"

section \<open>Keys\<close>

definition STATE_KEY_BASE :: string where "STATE_KEY_BASE = ''TUNNELBANA_BASE''"
definition KEY_REQUESTER :: string where "KEY_REQUESTER = ''requester''"
definition KEY_TARGET_FRONTEND :: string where "KEY_TARGET_FRONTEND = ''target_frontend''"
definition KEY_NAME_ID_FORMAT :: string where "KEY_NAME_ID_FORMAT = ''name_id_format''"
definition KEY_TARGET_ENTITYID :: string where "KEY_TARGET_ENTITYID = ''target_entity_id''"
definition KEY_ERROR_REDIRECT :: string where "KEY_ERROR_REDIRECT = ''error_redirect''"
definition KEY_INTERACTION_REQUIRED :: string where
  "KEY_INTERACTION_REQUIRED = ''interaction_required''"
definition KEY_REQUESTED_ACCR :: string where "KEY_REQUESTED_ACCR = ''requested_accr''"
definition KEY_REQUESTED_ACCR_COMPARISON :: string where
  "KEY_REQUESTED_ACCR_COMPARISON = ''requested_accr_comparison''"
definition KEY_TARGET_AUTHN_CONTEXT_CLASS_REF :: string where
  "KEY_TARGET_AUTHN_CONTEXT_CLASS_REF = ''target_authn_context_class_ref''"
definition KEY_TARGET_ACCR_COMPARISON :: string where
  "KEY_TARGET_ACCR_COMPARISON = ''target_accr_comparison''"
definition KEY_PROVIDER_SCOPES :: string where "KEY_PROVIDER_SCOPES = ''provider_scopes''"
definition KEY_PROVIDER_ASSURANCE_CERTIFICATIONS :: string where
  "KEY_PROVIDER_ASSURANCE_CERTIFICATIONS = ''provider_assurance_certifications''"
definition KEY_PROVIDER_ENTITY_CATEGORIES :: string where
  "KEY_PROVIDER_ENTITY_CATEGORIES = ''provider_entity_categories''"
definition KEY_MFA_STEPUP_ACCOUNTS :: string where
  "KEY_MFA_STEPUP_ACCOUNTS = ''mfa_stepup_accounts''"
definition KEY_REQUESTER_ENTITY_CATEGORIES :: string where
  "KEY_REQUESTER_ENTITY_CATEGORIES = ''requester_entity_categories''"
definition KEY_REQUESTER_ASSURANCE_CERTIFICATIONS :: string where
  "KEY_REQUESTER_ASSURANCE_CERTIFICATIONS = ''requester_assurance_certifications''"
definition KEY_STEPUP_INITIAL_POLICY :: string where
  "KEY_STEPUP_INITIAL_POLICY = ''stepup_initial_policy''"

lemmas key_defs = STATE_KEY_BASE_def KEY_REQUESTER_def KEY_TARGET_FRONTEND_def
  KEY_NAME_ID_FORMAT_def KEY_TARGET_ENTITYID_def KEY_ERROR_REDIRECT_def
  KEY_INTERACTION_REQUIRED_def KEY_REQUESTED_ACCR_def KEY_REQUESTED_ACCR_COMPARISON_def
  KEY_TARGET_AUTHN_CONTEXT_CLASS_REF_def KEY_TARGET_ACCR_COMPARISON_def
  KEY_PROVIDER_SCOPES_def KEY_PROVIDER_ASSURANCE_CERTIFICATIONS_def
  KEY_PROVIDER_ENTITY_CATEGORIES_def KEY_MFA_STEPUP_ACCOUNTS_def
  KEY_REQUESTER_ENTITY_CATEGORIES_def KEY_REQUESTER_ASSURANCE_CERTIFICATIONS_def
  KEY_STEPUP_INITIAL_POLICY_def

section \<open>Context\<close>

record req_context =
  cx_request :: http_request
  cx_target_backend :: "string option"
  cx_target_frontend :: "string option"
  cx_state :: session
  cx_decorations :: "json smap"

definition context_new :: "http_request \<Rightarrow> session \<Rightarrow> 'w \<Rightarrow> 'w req_context_scheme" where
  "context_new request state w =
     \<lparr> cx_request = request, cx_target_backend = None, cx_target_frontend = None,
       cx_state = state, cx_decorations = [], \<dots> = w \<rparr>"

definition cx_path :: "'w req_context_scheme \<Rightarrow> string" where
  "cx_path c = rq_path (cx_request c)"

definition decorate :: "string \<Rightarrow> json \<Rightarrow> 'w req_context_scheme \<Rightarrow> 'w req_context_scheme" where
  "decorate key v c = c\<lparr> cx_decorations := bm_insert key v (cx_decorations c) \<rparr>"

definition decoration :: "'w req_context_scheme \<Rightarrow> string \<Rightarrow> json option" where
  "decoration c key = bm_get (cx_decorations c) key"

definition mark_interaction_required :: "'w req_context_scheme \<Rightarrow> 'w req_context_scheme" where
  "mark_interaction_required c = decorate KEY_INTERACTION_REQUIRED (JBool True) c"

definition interaction_required :: "'w req_context_scheme \<Rightarrow> bool" where
  "interaction_required c =
     unwrap_or False (Option.bind (decoration c KEY_INTERACTION_REQUIRED) as_bool)"

definition set_requester :: "string \<Rightarrow> 'w req_context_scheme \<Rightarrow> 'w req_context_scheme" where
  "set_requester r c = c\<lparr> cx_state := set_str STATE_KEY_BASE KEY_REQUESTER r (cx_state c) \<rparr>"

definition requester :: "'w req_context_scheme \<Rightarrow> string option" where
  "requester c = get_str (cx_state c) STATE_KEY_BASE KEY_REQUESTER"

definition with_state :: "(session \<Rightarrow> session) \<Rightarrow> 'w req_context_scheme \<Rightarrow> 'w req_context_scheme" where
  "with_state f c = c\<lparr> cx_state := f (cx_state c) \<rparr>"

text \<open>The virtual IdP of a flow: the frontend of this request, else the one in the state.\<close>

definition virtual_idp :: "'w req_context_scheme \<Rightarrow> string option" where
  "virtual_idp c =
     or_else (cx_target_frontend c) (get_str (cx_state c) STATE_KEY_BASE KEY_TARGET_FRONTEND)"

definition context_wf :: "'w req_context_scheme \<Rightarrow> bool" where
  "context_wf c \<longleftrightarrow> state_wf (cx_state c) \<and> bm_wf (cx_decorations c)"

lemma context_new_simps [simp]:
  "cx_request (context_new r s w) = r" "cx_target_backend (context_new r s w) = None"
  "cx_target_frontend (context_new r s w) = None" "cx_state (context_new r s w) = s"
  "cx_decorations (context_new r s w) = []" "req_context.more (context_new r s w) = w"
  by (simp_all add: context_new_def)

lemma context_wf_new [simp]: "context_wf (context_new r s w) = state_wf s"
  by (simp add: context_wf_def)

lemma context_wf_decorate [simp]: "context_wf c \<Longrightarrow> context_wf (decorate k v c)"
  by (simp add: context_wf_def decorate_def)

lemma context_wf_requester [simp]: "context_wf c \<Longrightarrow> context_wf (set_requester r c)"
  by (simp add: context_wf_def set_requester_def)

lemma decoration_decorate:
  "context_wf c \<Longrightarrow> decoration (decorate k v c) k' = (if k' = k then Some v else decoration c k')"
  by (simp add: decoration_def decorate_def context_wf_def bm_get_insert)

lemma decorate_frame [simp]:
  "cx_request (decorate k v c) = cx_request c"
  "cx_target_backend (decorate k v c) = cx_target_backend c"
  "cx_target_frontend (decorate k v c) = cx_target_frontend c"
  "cx_state (decorate k v c) = cx_state c"
  "req_context.more (decorate k v c) = req_context.more c"
  by (simp_all add: decorate_def)

lemma set_requester_frame [simp]:
  "cx_request (set_requester r c) = cx_request c"
  "cx_target_backend (set_requester r c) = cx_target_backend c"
  "cx_target_frontend (set_requester r c) = cx_target_frontend c"
  "cx_decorations (set_requester r c) = cx_decorations c"
  "req_context.more (set_requester r c) = req_context.more c"
  by (simp_all add: set_requester_def)

lemma requester_set_requester: "context_wf c \<Longrightarrow> requester (set_requester r c) = Some r"
  by (simp add: requester_def set_requester_def context_wf_def get_str_set_str)

lemma interaction_required_mark:
  "context_wf c \<Longrightarrow> interaction_required (mark_interaction_required c)"
  by (simp add: interaction_required_def mark_interaction_required_def decoration_decorate)

definition decoration_strings :: "'w req_context_scheme \<Rightarrow> string \<Rightarrow> string list" where
  "decoration_strings c key = (case decoration c key of None \<Rightarrow> [] | Some v \<Rightarrow> strings_of v)"

section \<open>The world outside\<close>

definition with_world :: "'w \<Rightarrow> 'w req_context_scheme \<Rightarrow> 'w req_context_scheme" where
  "with_world w ctx = req_context.extend (req_context.truncate ctx) w"

lemma with_world_frame [simp]:
  "cx_request (with_world w c) = cx_request c" "cx_target_backend (with_world w c) = cx_target_backend c"
  "cx_target_frontend (with_world w c) = cx_target_frontend c" "cx_state (with_world w c) = cx_state c"
  "cx_decorations (with_world w c) = cx_decorations c" "req_context.more (with_world w c) = w"
  by (simp_all add: with_world_def req_context.defs)

text \<open>A call that reads and changes only the world, and one that only computes.\<close>

definition in_world :: "('w \<Rightarrow> 'a \<times> 'w) \<Rightarrow> 'w req_context_scheme \<Rightarrow> 'a \<times> 'w req_context_scheme" where
  "in_world f ctx = (case f (req_context.more ctx) of (x, w) \<Rightarrow> (x, with_world w ctx))"

definition lift_result :: "'a result \<Rightarrow> ('s, 'a) flow" where
  "lift_result r s = (r, s)"

lemma in_world_eq: "in_world f c = (x, c') \<longleftrightarrow> (\<exists>w. f (req_context.more c) = (x, w) \<and> c' = with_world w c)"
  by (auto simp: in_world_def split: prod.splits)

lemma lift_result_eq: "lift_result r s = (x, s') \<longleftrightarrow> r = x \<and> s' = s"
  by (auto simp: lift_result_def)

lemma with_world_again [simp]:
  "with_world w (with_world w' c) = with_world w c" "with_world (req_context.more c) c = c"
  by (simp_all add: with_world_def req_context.defs)

lemma with_state_frame [simp]:
  "cx_request (with_state f c) = cx_request c" "cx_target_backend (with_state f c) = cx_target_backend c"
  "cx_target_frontend (with_state f c) = cx_target_frontend c" "cx_state (with_state f c) = f (cx_state c)"
  "cx_decorations (with_state f c) = cx_decorations c" "req_context.more (with_state f c) = req_context.more c"
  by (simp_all add: with_state_def)

lemma decoration_frame [simp]:
  "decoration (with_world w c) k = decoration c k" "decoration (with_state f c) k = decoration c k"
  by (simp_all add: decoration_def)

end
