(* ===== verification/Attributes.thy ===== *)
theory Attributes
  imports Ordered_Map Rust_Str
begin

text \<open>
  The attribute mapper of \<open>attributes.rs\<close>: the normalized map, the conversion in both
  directions and the composition of subject ids.  Shown: what each conversion yields name by
  name, that internal values are free of duplicates, and that converting out and in again is the
  identity for a map without ambiguous external names.
\<close>

section \<open>Model\<close>

record profile_attribute =
  pa_names :: "string list"
  pa_oid :: "string option"
  pa_friendly_name :: "string option"

datatype profile_mapping = Names "string list" | Detailed profile_attribute

fun normalize :: "profile_mapping \<Rightarrow> profile_attribute" where
  "normalize (Names names) = \<lparr> pa_names = names, pa_oid = None, pa_friendly_name = None \<rparr>"
| "normalize (Detailed d) = d"

record attribute_map =
  am_attributes :: "profile_mapping smap smap"
  am_user_id_from_attrs :: "string list"
  am_user_id_to_attr :: "string option"

record attribute_mapper =
  mp_attributes :: "profile_attribute smap smap"
  mp_user_id_from_attrs :: "string list"
  mp_user_id_to_attr :: "string option"

definition mapper_new :: "attribute_map \<Rightarrow> attribute_mapper" where
  "mapper_new am =
     \<lparr> mp_attributes = bm_map_values (bm_map_values normalize) (am_attributes am),
       mp_user_id_from_attrs = am_user_id_from_attrs am,
       mp_user_id_to_attr = am_user_id_to_attr am \<rparr>"

definition profile_mappings :: "attribute_mapper \<Rightarrow> profile_attribute smap smap" where
  "profile_mappings mp = mp_attributes mp"

definition lookup_mapping :: "attribute_mapper \<Rightarrow> string \<Rightarrow> string \<Rightarrow> profile_attribute option" where
  "lookup_mapping mp profile internal_name =
     Option.bind (bm_get (mp_attributes mp) internal_name) (\<lambda>profiles. bm_get profiles profile)"

text \<open>The external keys of a mapping in the order they are tried.\<close>

definition mapping_keys :: "profile_attribute \<Rightarrow> string list" where
  "mapping_keys pa = pa_names pa @ (case pa_oid pa of None \<Rightarrow> [] | Some x \<Rightarrow> [x]) @
     (case pa_friendly_name pa of None \<Rightarrow> [] | Some x \<Rightarrow> [x])"

definition external_names :: "attribute_mapper \<Rightarrow> string \<Rightarrow> string set" where
  "external_names mp profile = \<Union> (set (map (\<lambda>(_, profiles).
     case bm_get profiles profile of None \<Rightarrow> {} | Some pa \<Rightarrow> set (mapping_keys pa)) (mp_attributes mp)))"

definition collect_values :: "attrs \<Rightarrow> string list \<Rightarrow> string list" where
  "collect_values external keys =
     foldl (\<lambda>values ext. case bm_get external ext of None \<Rightarrow> values | Some vals \<Rightarrow> push_all_new values vals)
       [] keys"

definition to_internal :: "attribute_mapper \<Rightarrow> string \<Rightarrow> attrs \<Rightarrow> attrs" where
  "to_internal mp profile external =
     foldl (\<lambda>internal (name, profiles).
       case bm_get profiles profile of
         None \<Rightarrow> internal
       | Some pa \<Rightarrow>
           (let values = collect_values external (mapping_keys pa)
            in if values \<noteq> [] then bm_insert name values internal else internal)) [] (mp_attributes mp)"

definition from_internal :: "attribute_mapper \<Rightarrow> string \<Rightarrow> attrs \<Rightarrow> attrs" where
  "from_internal mp profile internal =
     foldl (\<lambda>external (name, values).
       case lookup_mapping mp profile name of
         None \<Rightarrow> external
       | Some pa \<Rightarrow> (case pa_names pa of [] \<Rightarrow> external | canonical # _ \<Rightarrow> bm_insert canonical values external))
       [] internal"

definition first_value :: "attrs \<Rightarrow> string \<Rightarrow> string option" where
  "first_value m name = (case bm_get m name of Some (v # _) \<Rightarrow> Some v | _ \<Rightarrow> None)"

fun all_some :: "'a option list \<Rightarrow> 'a list option" where
  "all_some [] = Some []"
| "all_some (None # xs) = None"
| "all_some (Some x # xs) = map_option ((#) x) (all_some xs)"

definition compose_subject_id :: "attribute_mapper \<Rightarrow> attrs \<Rightarrow> string option" where
  "compose_subject_id mp internal =
     (if mp_user_id_from_attrs mp = [] then None
      else map_option (join_with '':'') (all_some (map (first_value internal) (mp_user_id_from_attrs mp))))"

definition mapper_wf :: "attribute_mapper \<Rightarrow> bool" where
  "mapper_wf mp \<longleftrightarrow> bm_wf (mp_attributes mp)"

section \<open>The way in\<close>

lemma foldl_collect:
  "set (foldl (\<lambda>values ext. case bm_get external ext of None \<Rightarrow> values
       | Some vals \<Rightarrow> push_all_new values vals) vs keys) =
     set vs \<union> {v. \<exists>k \<in> set keys. \<exists>ws. bm_get external k = Some ws \<and> v \<in> set ws}"
  "distinct (foldl (\<lambda>values ext. case bm_get external ext of None \<Rightarrow> values
       | Some vals \<Rightarrow> push_all_new values vals) vs keys) = distinct vs"
  by (induction keys arbitrary: vs) (auto split: option.splits)

lemma set_collect_values:
  "set (collect_values external keys) = {v. \<exists>k \<in> set keys. \<exists>ws. bm_get external k = Some ws \<and> v \<in> set ws}"
  by (simp add: collect_values_def foldl_collect(1))

lemma distinct_collect_values: "distinct (collect_values external keys)"
  by (simp add: collect_values_def foldl_collect(2))

lemma push_all_new_remdups: "push_all_new [] vs = rev (remdups (rev vs))"
proof (induction vs rule: rev_induct)
  case (snoc x vs)
  have "push_all_new [] (vs @ [x]) = push_new (push_all_new [] vs) x" by (simp add: push_all_new_def)
  with snoc show ?case by (simp add: push_new_def)
qed simp

lemma collect_values_single:
  assumes "k \<in> set keys" "bm_get external k = Some ws"
    and "\<And>k'. k' \<in> set keys \<Longrightarrow> k' \<noteq> k \<Longrightarrow> bm_get external k' = None"
  shows "collect_values external keys = rev (remdups (rev ws))"
proof -
  let ?f = "\<lambda>values ext. case bm_get external ext of None \<Rightarrow> values | Some vals \<Rightarrow> push_all_new values vals"
  have skip: "foldl ?f vs keys' = vs"
    if "set keys' \<subseteq> set keys" "set ws \<subseteq> set vs" for vs keys'
    using that
  proof (induction keys' arbitrary: vs)
    case (Cons x xs)
    then have "?f vs x = vs" using assms(2) assms(3)[of x] by (cases "x = k") (auto simp: push_all_new_subset)
    with Cons show ?case by simp
  qed simp
  have "foldl ?f [] keys' = push_all_new [] ws" if "set keys' \<subseteq> set keys" "k \<in> set keys'" for keys'
    using that
  proof (induction keys')
    case (Cons x xs)
    show ?case
    proof (cases "x = k")
      case True
      with Cons.prems assms(2) skip[of xs "push_all_new [] ws"] show ?thesis by simp
    next
      case False
      with assms(3)[of x] Cons.prems have "bm_get external x = None" by simp
      with Cons False show ?thesis by simp
    qed
  qed simp
  then have "collect_values external keys = push_all_new [] ws" unfolding collect_values_def using assms(1) by blast
  then show ?thesis by (simp only: push_all_new_remdups)
qed

lemma to_internal_get:
  assumes "mapper_wf mp"
  shows "bm_wf (to_internal mp profile external)"
    and "bm_get (to_internal mp profile external) name =
      (case lookup_mapping mp profile name of None \<Rightarrow> None
       | Some pa \<Rightarrow> (let vs = collect_values external (mapping_keys pa) in if vs \<noteq> [] then Some vs else None))"
proof -
  let ?f = "\<lambda>internal (name, profiles).
       case bm_get profiles profile of
         None \<Rightarrow> internal
       | Some pa \<Rightarrow>
           (let values = collect_values external (mapping_keys pa)
            in if values \<noteq> [] then bm_insert name values internal else internal)"
  have gen: "bm_wf (foldl ?f m es) \<and> bm_get (foldl ?f m es) name =
      (case bm_get es name of None \<Rightarrow> bm_get m name
       | Some profiles \<Rightarrow> (case bm_get profiles profile of None \<Rightarrow> bm_get m name
          | Some pa \<Rightarrow> (let vs = collect_values external (mapping_keys pa)
              in if vs \<noteq> [] then Some vs else bm_get m name)))"
    if "bm_wf m" "distinct (map fst es)" for m es
    using that
  proof (induction es arbitrary: m)
    case (Cons e es)
    obtain n ps where e: "e = (n, ps)" by (cases e)
    have wf: "bm_wf (?f m e)" using Cons.prems(1) e by (auto simp: Let_def split: option.split)
    have "bm_get es n = None" using Cons.prems(2) e by (simp add: map_of_eq_None_iff)
    with Cons.IH[OF wf] Cons.prems e show ?case
      by (cases "n = name") (auto simp: Let_def bm_get_insert split: option.splits)
  qed simp
  from gen[of "[]" "mp_attributes mp"] assms
  show "bm_wf (to_internal mp profile external)"
    and "bm_get (to_internal mp profile external) name =
      (case lookup_mapping mp profile name of None \<Rightarrow> None
       | Some pa \<Rightarrow> (let vs = collect_values external (mapping_keys pa) in if vs \<noteq> [] then Some vs else None))"
    by (auto simp: to_internal_def mapper_wf_def bm_wf_distinct lookup_mapping_def Let_def split: option.splits)
qed

text \<open>
  An internal attribute holds exactly the values found under any of its external names,
  OID or friendly name, each once; an attribute without values is absent.
\<close>

theorem to_internal_collects_all:
  assumes "mapper_wf mp" "lookup_mapping mp profile name = Some pa"
  shows "case bm_get (to_internal mp profile external) name of
      None \<Rightarrow> \<forall>k \<in> set (mapping_keys pa). bm_get external k \<in> {None, Some []}
    | Some vs \<Rightarrow> vs \<noteq> [] \<and> distinct vs \<and>
        set vs = {v. \<exists>k \<in> set (mapping_keys pa). \<exists>ws. bm_get external k = Some ws \<and> v \<in> set ws}"
proof (cases "collect_values external (mapping_keys pa) = []")
  case True
  then have "set (collect_values external (mapping_keys pa)) = {}" by simp
  then have "\<forall>k \<in> set (mapping_keys pa). \<forall>ws. bm_get external k = Some ws \<longrightarrow> ws = []"
    unfolding set_collect_values by (metis (mono_tags, lifting) empty_iff list.set_sel(1) mem_Collect_eq)
  then have "\<forall>k \<in> set (mapping_keys pa). bm_get external k \<in> {None, Some []}"
    by (metis insertCI not_None_eq)
  with True assms show ?thesis by (simp add: to_internal_get)
next
  case False
  with assms show ?thesis
    by (simp add: to_internal_get set_collect_values distinct_collect_values)
qed

section \<open>The way out\<close>

definition canonical_name :: "attribute_mapper \<Rightarrow> string \<Rightarrow> string \<Rightarrow> string option" where
  "canonical_name mp profile name =
     (case lookup_mapping mp profile name of
        None \<Rightarrow> None
      | Some pa \<Rightarrow> (case pa_names pa of [] \<Rightarrow> None | c # _ \<Rightarrow> Some c))"

lemma from_internal_eq:
  "from_internal mp profile internal =
     bm_of_list (List.map_filter (\<lambda>(name, vs). map_option (\<lambda>c. (c, vs)) (canonical_name mp profile name)) internal)"
proof -
  have "foldl (\<lambda>external (name, values).
       case lookup_mapping mp profile name of
         None \<Rightarrow> external
       | Some pa \<Rightarrow> (case pa_names pa of [] \<Rightarrow> external | canonical # _ \<Rightarrow> bm_insert canonical values external))
       m internal =
     foldl (\<lambda>m (k, v). bm_insert k v m) m
       (List.map_filter (\<lambda>(name, vs). map_option (\<lambda>c. (c, vs)) (canonical_name mp profile name)) internal)" for m
    by (induction internal arbitrary: m)
       (auto simp: map_filter_simps canonical_name_def split: option.splits list.splits)
  then show ?thesis by (simp add: from_internal_def bm_of_list_def)
qed

text \<open>No external key of one attribute is the canonical name of another.\<close>

definition unambiguous :: "attribute_mapper \<Rightarrow> string \<Rightarrow> string list \<Rightarrow> bool" where
  "unambiguous mp profile names \<longleftrightarrow>
     (\<forall>i. \<forall>j \<in> set names. \<forall>pa c. lookup_mapping mp profile i = Some pa \<longrightarrow> canonical_name mp profile j = Some c \<longrightarrow>
        c \<in> set (mapping_keys pa) \<longrightarrow> i = j)"

lemma from_internal_get:
  assumes "bm_wf internal" "unambiguous mp profile (bm_keys internal)"
  shows "bm_get internal j = Some vs \<Longrightarrow> canonical_name mp profile j = Some c \<Longrightarrow>
           bm_get (from_internal mp profile internal) c = Some vs"
    and "bm_get (from_internal mp profile internal) c = Some ws \<Longrightarrow>
           \<exists>j. bm_get internal j = Some ws \<and> canonical_name mp profile j = Some c"
proof -
  let ?g = "\<lambda>(name, vs). map_option (\<lambda>c. (c, vs)) (canonical_name mp profile name)"
  let ?out = "List.map_filter ?g internal"
  have in_out: "(c, vs) \<in> set ?out \<longleftrightarrow> (\<exists>j. (j, vs) \<in> set internal \<and> canonical_name mp profile j = Some c)" for c vs
    by (force simp: List.map_filter_def)
  have own: "\<exists>pa. lookup_mapping mp profile j = Some pa \<and> c \<in> set (mapping_keys pa)"
    if "canonical_name mp profile j = Some c" for j c
    using that by (auto simp: canonical_name_def mapping_keys_def split: option.splits list.splits)
  have inj: "i = j" if "i \<in> set (bm_keys internal)" "j \<in> set (bm_keys internal)"
      "canonical_name mp profile i = Some c" "canonical_name mp profile j = Some c" for i j c
    using own[OF that(3)] that assms(2) unfolding unambiguous_def by blast
  have dist: "distinct (map fst xs)" if "distinct (map fst ys)" "set ys \<subseteq> set internal"
      "xs = List.map_filter ?g ys" for xs and ys :: "(string \<times> string list) list"
    using that
  proof (induction ys arbitrary: xs)
    case (Cons y ys)
    obtain n v where y: "y = (n, v)" by (cases y)
    have ih: "distinct (map fst (List.map_filter ?g ys))" using Cons by simp
    show ?case
    proof (cases "canonical_name mp profile n")
      case None with Cons.prems(3) y ih show ?thesis by (simp add: map_filter_simps)
    next
      case (Some c)
      have "c \<notin> fst ` set (List.map_filter ?g ys)"
      proof
        assume "c \<in> fst ` set (List.map_filter ?g ys)"
        then obtain n' v' where n': "(n', v') \<in> set ys" "canonical_name mp profile n' = Some c"
          by (auto simp: List.map_filter_def split: option.splits)
        then have "n' = n" using inj[of n' n c] Some Cons.prems(2) y by (force simp: bm_keys_def)
        with n' Cons.prems(1) y show False by (force)
      qed
      with Cons.prems(3) y ih Some show ?thesis by (simp add: map_filter_simps)
    qed
  qed (simp add: map_filter_simps)
  have d: "distinct (map fst ?out)"
    by (rule dist[of internal]) (simp_all add: bm_wf_distinct[OF assms(1)])
  have get: "bm_get (from_internal mp profile internal) c = map_of ?out c" for c
    unfolding from_internal_eq bm_get_of_list by (simp only: map_of_rev_distinct[OF d])
  show "bm_get (from_internal mp profile internal) c = Some vs"
    if "bm_get internal j = Some vs" "canonical_name mp profile j = Some c"
    unfolding get using in_out[of c vs] that map_of_SomeD[OF that(1)] d by (auto intro: map_of_is_SomeI)
  show "\<exists>j. bm_get internal j = Some ws \<and> canonical_name mp profile j = Some c"
    if "bm_get (from_internal mp profile internal) c = Some ws"
    using map_of_SomeD[OF that[unfolded get]] in_out bm_get_SomeI[OF assms(1)] by blast
qed

text \<open>
  C40. Round trip.  When the mapping is unambiguous on the attributes at hand (no external key of one
  attribute is the canonical name another of them is released under), converting them to a profile and
  back yields exactly those that have a canonical name in the profile and at least one value, each
  with its values in order, repetitions of a value dropped.  So attributes that all have a name, and
  non-empty lists of distinct values, come back unchanged.
\<close>

theorem attribute_round_trip:
  assumes wf: "mapper_wf mp" "bm_wf attrs" and un: "unambiguous mp profile (bm_keys attrs)"
  shows "(\<forall>i. bm_get (to_internal mp profile (from_internal mp profile attrs)) i =
      (case bm_get attrs i of None \<Rightarrow> None
       | Some vs \<Rightarrow> if canonical_name mp profile i \<noteq> None \<and> vs \<noteq> [] then Some (rev (remdups (rev vs))) else None)) \<and>
    ((\<forall>(name, vs) \<in> set attrs. canonical_name mp profile name \<noteq> None \<and> vs \<noteq> [] \<and> distinct vs) \<longrightarrow>
      to_internal mp profile (from_internal mp profile attrs) = attrs)"
proof -
  let ?out = "from_internal mp profile attrs"
  note out = from_internal_get[OF wf(2) un]
  have other: "bm_get ?out k = None"
    if pa: "lookup_mapping mp profile i = Some pa" "k \<in> set (mapping_keys pa)"
      and no: "bm_get attrs i = None \<or> canonical_name mp profile i \<noteq> Some k" for i k pa
  proof (rule ccontr)
    assume "bm_get ?out k \<noteq> None"
    then obtain j ws where j: "bm_get attrs j = Some ws" "canonical_name mp profile j = Some k"
      using out(2) by blast
    then have "i = j" using un pa in_set_bm_keys[of j attrs] unfolding unambiguous_def by blast
    with j no show False by simp
  qed
  have get: "bm_get (to_internal mp profile ?out) i =
      (case bm_get attrs i of None \<Rightarrow> None
       | Some vs \<Rightarrow> if canonical_name mp profile i \<noteq> None \<and> vs \<noteq> [] then Some (rev (remdups (rev vs))) else None)" for i
  proof (cases "bm_get attrs i \<noteq> None \<and> canonical_name mp profile i \<noteq> None")
    case True
    then obtain vs c where c: "bm_get attrs i = Some vs" "canonical_name mp profile i = Some c" by blast
    then obtain pa where pa: "lookup_mapping mp profile i = Some pa" "c \<in> set (mapping_keys pa)"
      by (auto simp: canonical_name_def mapping_keys_def split: option.splits list.splits)
    have "collect_values ?out (mapping_keys pa) = rev (remdups (rev vs))"
      using other[OF pa(1)] c(2) by (intro collect_values_single[OF pa(2) out(1)[OF c]]) simp
    with c pa(1) show ?thesis by (simp add: to_internal_get(2)[OF wf(1)])
  next
    case False
    have "set (collect_values ?out (mapping_keys pa)) = {}" if "lookup_mapping mp profile i = Some pa" for pa
      using other[OF that] False unfolding set_collect_values by fastforce
    with False show ?thesis by (cases "lookup_mapping mp profile i") (auto simp: to_internal_get(2)[OF wf(1)] split: option.splits)
  qed
  have "to_internal mp profile ?out = attrs"
    if "\<forall>(name, vs) \<in> set attrs. canonical_name mp profile name \<noteq> None \<and> vs \<noteq> [] \<and> distinct vs"
  proof (rule bm_eqI[OF to_internal_get(1)[OF wf(1)] wf(2)])
    fix i show "bm_get (to_internal mp profile ?out) i = bm_get attrs i"
      using that by (cases "bm_get attrs i") (auto simp: get distinct_remdups_id dest!: map_of_SomeD)
  qed
  with get show ?thesis by blast
qed

section \<open>Witnesses\<close>

text \<open>One attribute, reachable under a SAML name, its OID and its friendly name.\<close>

definition toy_mail :: profile_attribute where
  "toy_mail = \<lparr> pa_names = [''urn:mail''], pa_oid = Some ''1.2'', pa_friendly_name = Some ''mail'' \<rparr>"

definition toy_mapper :: attribute_mapper where
  "toy_mapper = \<lparr> mp_attributes = [(''mail'', [(''saml'', toy_mail)])],
     mp_user_id_from_attrs = [''mail''], mp_user_id_to_attr = None \<rparr>"

lemma toy_mapper_lookup: "lookup_mapping toy_mapper ''saml'' n = (if n = ''mail'' then Some toy_mail else None)"
  by (simp add: lookup_mapping_def toy_mapper_def)

lemma toy_mapper_wf: "mapper_wf toy_mapper"
  by (simp add: mapper_wf_def toy_mapper_def bm_wf_def bm_keys_def)

theorem to_internal_collects_all_witness:
  "set (unwrap_or [] (bm_get (to_internal toy_mapper ''saml'' [(''1.2'', [''a'']), (''mail'', [''b''])]) ''mail''))
     = {''a'', ''b''}"
proof -
  let ?ext = "[(''1.2'', [''a'']), (''mail'', [''b''])]"
  have set_eq: "{v. \<exists>k \<in> set (mapping_keys toy_mail). \<exists>ws. bm_get ?ext k = Some ws \<and> v \<in> set ws} = {''a'', ''b''}"
    by (auto simp: mapping_keys_def toy_mail_def)
  have some: "bm_get (to_internal toy_mapper ''saml'' ?ext) ''mail'' = Some [''a'', ''b'']" by code_simp
  have look: "lookup_mapping toy_mapper ''saml'' ''mail'' = Some toy_mail" by (simp add: toy_mapper_lookup)
  from to_internal_collects_all[OF toy_mapper_wf look, of ?ext, unfolded some option.case set_eq]
  show ?thesis unfolding some by simp
qed

theorem attribute_round_trip_witness:
  "bm_get (to_internal toy_mapper ''saml'' (from_internal toy_mapper ''saml'' [(''mail'', [''a'', ''b'', ''a''])])) ''mail''
     = Some [''a'', ''b'']"
proof -
  have "unambiguous toy_mapper ''saml'' (bm_keys [(''mail'', [''a'', ''b'', ''a''])])"
    by (simp add: unambiguous_def toy_mapper_lookup bm_keys_def)
  moreover have "bm_wf [(''mail'', [''a'', ''b'', ''a''])]" by (simp add: bm_wf_def bm_keys_def)
  ultimately show ?thesis
    using attribute_round_trip[OF toy_mapper_wf, of "[(''mail'', [''a'', ''b'', ''a''])]" "''saml''"]
    by (simp add: canonical_name_def toy_mapper_lookup toy_mail_def)
qed

end
