(* ===== verification/Plugin.thy ===== *)
theory Plugin
  imports Request_Context Attributes
begin

text \<open>
  The plugin interface of \<open>plugin.rs\<close>: routes, the actions handlers return, the traits
  \<open>Frontend\<close>, \<open>Backend\<close> and \<open>MicroService\<close> as records of their methods, the build
  context and the constructor registry.  A method takes the mutable context as the state of a
  computation that may fail.  The regex engine is the parameter record \<open>regex_lib\<close>; a compiled
  regex is represented by its pattern.
\<close>

section \<open>Routes\<close>

record regex_lib =
  rx_compiles :: "string \<Rightarrow> bool"
  rx_is_match :: "string \<Rightarrow> string \<Rightarrow> bool"
  rx_replace_all :: "string \<Rightarrow> string \<Rightarrow> string \<Rightarrow> string"

datatype matcher = Exact string | Regex string

record route =
  ro_matcher :: matcher
  ro_id :: string

definition route_exact :: "string \<Rightarrow> string \<Rightarrow> route" where
  "route_exact path i = \<lparr> ro_matcher = Exact path, ro_id = i \<rparr>"

text \<open>A pattern that does not compile panics: \<open>None\<close>.\<close>

definition route_new :: "regex_lib \<Rightarrow> string \<Rightarrow> string \<Rightarrow> route option" where
  "route_new rx pattern i =
     (let anchored = (if starts_with ''^'' pattern then pattern else ''^'' @ pattern @ ''$'')
      in if rx_compiles rx anchored then Some \<lparr> ro_matcher = Regex anchored, ro_id = i \<rparr> else None)"

definition route_matches :: "regex_lib \<Rightarrow> route \<Rightarrow> string \<Rightarrow> bool" where
  "route_matches rx r path =
     (case ro_matcher r of Exact p \<Rightarrow> p = path | Regex re \<Rightarrow> rx_is_match rx re path)"

section \<open>Actions\<close>

datatype frontend_action = FRespond response | StartAuth internal_data "string option"
datatype backend_action = BRespond response | AuthResponse internal_data
datatype ms_action = MRespond response | ResumeRequest internal_data | ResumeResponse internal_data
datatype ms_reply = Continue internal_data | RRespond response

section \<open>Traits\<close>

type_synonym ('w, 'a) handler = "('w req_context_scheme, 'a) flow"

record 'w frontend =
  fe_name :: string
  fe_register :: "string list \<Rightarrow> route list"
  fe_handle :: "string \<Rightarrow> ('w, frontend_action) handler"
  fe_render :: "internal_data \<Rightarrow> ('w, response) handler"
  fe_error :: "error \<Rightarrow> ('w, response) handler"

record 'w backend =
  be_name :: string
  be_register :: "route list"
  be_start_auth :: "internal_data \<Rightarrow> ('w, response) handler"
  be_handle :: "string \<Rightarrow> ('w, backend_action) handler"

text \<open>
  A micro-service; \<open>ms_action_override\<close> is present when the service overrides
  \<open>process_response_action\<close>.
\<close>

record 'w micro_service =
  ms_name :: string
  ms_request :: "internal_data \<Rightarrow> ('w, internal_data) handler"
  ms_response :: "internal_data \<Rightarrow> ('w, internal_data) handler"
  ms_action_override :: "(internal_data \<Rightarrow> ('w, ms_reply) handler) option"
  ms_register :: "route list"
  ms_handle :: "string \<Rightarrow> ('w, ms_action) handler"

definition ms_default :: "string \<Rightarrow> 'w micro_service" where
  "ms_default name =
     \<lparr> ms_name = name,
       ms_request = (\<lambda>data ctx. (Inr data, ctx)),
       ms_response = (\<lambda>data ctx. (Inr data, ctx)),
       ms_action_override = None,
       ms_register = [],
       ms_handle = (\<lambda>_ ctx. (Inl (ErrNoBoundEndpoint ''micro-service endpoint not implemented''), ctx)) \<rparr>"

definition ms_response_action :: "'w micro_service \<Rightarrow> internal_data \<Rightarrow> ('w, ms_reply) handler" where
  "ms_response_action ms data =
     (case ms_action_override ms of
        Some f \<Rightarrow> f data
      | None \<Rightarrow> (\<lambda>ctx. case ms_response ms data ctx of
            (Inl e, ctx') \<Rightarrow> (Inl e, ctx') | (Inr d, ctx') \<Rightarrow> (Inr (Continue d), ctx')))"

text \<open>A service that only transforms data on one of the two paths.\<close>

definition request_service ::
    "string \<Rightarrow> (internal_data \<Rightarrow> ('w, internal_data) handler) \<Rightarrow> 'w micro_service" where
  "request_service name f = (ms_default name)\<lparr> ms_request := f \<rparr>"

definition response_service ::
    "string \<Rightarrow> (internal_data \<Rightarrow> ('w, internal_data) handler) \<Rightarrow> 'w micro_service" where
  "response_service name f = (ms_default name)\<lparr> ms_response := f \<rparr>"

lemma response_service_action:
  "ms_response_action (response_service name f) data ctx =
     (case f data ctx of (Inl e, ctx') \<Rightarrow> (Inl e, ctx') | (Inr d, ctx') \<Rightarrow> (Inr (Continue d), ctx'))"
  by (simp add: ms_response_action_def response_service_def ms_default_def)

lemma request_service_passes:
  "ms_request (response_service name f) data ctx = (Inr data, ctx)"
  "ms_response_action (request_service name f) data ctx = (Inr (Continue data), ctx)"
  by (simp_all add: response_service_def request_service_def ms_default_def ms_response_action_def)

section \<open>Build context and registry\<close>

record build_context =
  bx_name :: string
  bx_base_url :: string
  bx_config :: json
  bx_attribute_mapper :: attribute_mapper
  bx_secret :: string
  bx_previous_secrets :: "string list"

definition module_base :: "build_context \<Rightarrow> string" where
  "module_base bx = trim_end_char CHR ''/'' (bx_base_url bx) @ ''/'' @ bx_name bx"

definition parse_config :: "(json \<Rightarrow> 'c option) \<Rightarrow> build_context \<Rightarrow> 'c result" where
  "parse_config dec bx = ok_or (dec (bx_config bx)) (ErrConfig (''plugin '' @ bx_name bx @ '': ''))"

type_synonym 'p ctor = "build_context \<Rightarrow> 'p result"

record 'w registry =
  rg_frontends :: "'w frontend ctor smap"
  rg_backends :: "'w backend ctor smap"
  rg_microservices :: "'w micro_service ctor smap"

definition registry_new :: "'w registry" where
  "registry_new = \<lparr> rg_frontends = [], rg_backends = [], rg_microservices = [] \<rparr>"

definition register_frontend :: "string \<Rightarrow> 'w frontend ctor \<Rightarrow> 'w registry \<Rightarrow> 'w registry" where
  "register_frontend kind c r = r\<lparr> rg_frontends := bm_insert kind c (rg_frontends r) \<rparr>"

definition register_backend :: "string \<Rightarrow> 'w backend ctor \<Rightarrow> 'w registry \<Rightarrow> 'w registry" where
  "register_backend kind c r = r\<lparr> rg_backends := bm_insert kind c (rg_backends r) \<rparr>"

definition register_microservice :: "string \<Rightarrow> 'w micro_service ctor \<Rightarrow> 'w registry \<Rightarrow> 'w registry" where
  "register_microservice kind c r = r\<lparr> rg_microservices := bm_insert kind c (rg_microservices r) \<rparr>"

definition build_frontend :: "'w registry \<Rightarrow> string \<Rightarrow> build_context \<Rightarrow> 'w frontend result" where
  "build_frontend r kind bx =
     bind_result (ok_or (bm_get (rg_frontends r) kind) (ErrUnknownModule (''frontend type '' @ kind)))
       (\<lambda>c. c bx)"

definition build_backend :: "'w registry \<Rightarrow> string \<Rightarrow> build_context \<Rightarrow> 'w backend result" where
  "build_backend r kind bx =
     bind_result (ok_or (bm_get (rg_backends r) kind) (ErrUnknownModule (''backend type '' @ kind)))
       (\<lambda>c. c bx)"

definition build_microservice :: "'w registry \<Rightarrow> string \<Rightarrow> build_context \<Rightarrow> 'w micro_service result" where
  "build_microservice r kind bx =
     bind_result (ok_or (bm_get (rg_microservices r) kind)
       (ErrUnknownModule (''microservice type '' @ kind))) (\<lambda>c. c bx)"

definition registry_wf :: "'w registry \<Rightarrow> bool" where
  "registry_wf r \<longleftrightarrow> bm_wf (rg_frontends r) \<and> bm_wf (rg_backends r) \<and> bm_wf (rg_microservices r)"

lemma registry_wf_ops [simp]:
  "registry_wf registry_new"
  "registry_wf r \<Longrightarrow> registry_wf (register_frontend k f r)"
  "registry_wf r \<Longrightarrow> registry_wf (register_backend k b r)"
  "registry_wf r \<Longrightarrow> registry_wf (register_microservice k m r)"
  by (simp_all add: registry_wf_def registry_new_def register_frontend_def register_backend_def
      register_microservice_def)

lemma build_registered:
  "registry_wf r \<Longrightarrow> build_frontend (register_frontend k f r) k bx = f bx"
  "registry_wf r \<Longrightarrow> build_backend (register_backend k b r) k bx = b bx"
  "registry_wf r \<Longrightarrow> build_microservice (register_microservice k m r) k bx = m bx"
  by (simp_all add: registry_wf_def build_frontend_def register_frontend_def build_backend_def
      register_backend_def build_microservice_def register_microservice_def bm_get_insert)

end
