(* ===== verification/Router.thy ===== *)
theory Router
  imports Plugin
begin

text \<open>
  The router of \<open>router.rs\<close>: literal routes in a map (the first registrant of a path wins),
  regex routes in a list scanned after a miss.  \<open>linear_scan\<close> is the reference the module's
  documentation names: the first matching endpoint in registration order.
\<close>

section \<open>Model\<close>

datatype module_kind = FrontendKind | MicroServiceKind | BackendKind

text \<open>Kinds are ordered by the precedence the proxy registers them in.\<close>

instantiation module_kind :: linorder
begin

fun kind_rank :: "module_kind \<Rightarrow> nat" where
  "kind_rank FrontendKind = 0"
| "kind_rank MicroServiceKind = 1"
| "kind_rank BackendKind = 2"

definition less_eq_module_kind :: "module_kind \<Rightarrow> module_kind \<Rightarrow> bool" where
  "less_eq_module_kind a b \<longleftrightarrow> kind_rank a \<le> kind_rank b"

definition less_module_kind :: "module_kind \<Rightarrow> module_kind \<Rightarrow> bool" where
  "less_module_kind a b \<longleftrightarrow> kind_rank a < kind_rank b"

lemma kind_rank_inj: "kind_rank a = kind_rank b \<longleftrightarrow> a = b"
  by (cases a; cases b) simp_all

instance
  by standard (auto simp: less_eq_module_kind_def less_module_kind_def kind_rank_inj)

end

record endpoint_data =
  ed_kind :: module_kind
  ed_module :: string
  ed_route_id :: string

record router =
  rt_exact :: "endpoint_data smap"
  rt_regexes :: "(string \<times> endpoint_data) list"

definition router_new :: router where
  "router_new = \<lparr> rt_exact = [], rt_regexes = [] \<rparr>"

definition add_route :: "module_kind \<Rightarrow> string \<Rightarrow> route \<Rightarrow> router \<Rightarrow> router" where
  "add_route kind module r rt =
     (let d = \<lparr> ed_kind = kind, ed_module = module, ed_route_id = ro_id r \<rparr>
      in case ro_matcher r of
           Exact path \<Rightarrow> rt\<lparr> rt_exact := bm_or_insert path d (rt_exact rt) \<rparr>
         | Regex re \<Rightarrow> rt\<lparr> rt_regexes := rt_regexes rt @ [(re, d)] \<rparr>)"

definition router_add :: "module_kind \<Rightarrow> string \<Rightarrow> route list \<Rightarrow> router \<Rightarrow> router" where
  "router_add kind module routes rt = fold (add_route kind module) routes rt"

definition resolve :: "regex_lib \<Rightarrow> router \<Rightarrow> string \<Rightarrow> endpoint_data option" where
  "resolve rx rt path =
     (case bm_get (rt_exact rt) path of
        Some d \<Rightarrow> Some d
      | None \<Rightarrow> map_option snd (List.find (\<lambda>e. rx_is_match rx (fst e) path) (rt_regexes rt)))"

section \<open>The reference: registrations in order\<close>

type_synonym registration = "module_kind \<times> string \<times> route list"

definition add_all :: "registration list \<Rightarrow> router \<Rightarrow> router" where
  "add_all regs rt = fold (\<lambda>(k, m, rs). router_add k m rs) regs rt"

definition endpoints :: "registration list \<Rightarrow> (matcher \<times> endpoint_data) list" where
  "endpoints regs = concat (map (\<lambda>(k, m, rs).
     map (\<lambda>r. (ro_matcher r, \<lparr> ed_kind = k, ed_module = m, ed_route_id = ro_id r \<rparr>)) rs) regs)"

fun matcher_hits :: "regex_lib \<Rightarrow> matcher \<Rightarrow> string \<Rightarrow> bool" where
  "matcher_hits rx (Exact p) path = (p = path)"
| "matcher_hits rx (Regex re) path = rx_is_match rx re path"

definition linear_scan :: "regex_lib \<Rightarrow> (matcher \<times> endpoint_data) list \<Rightarrow> string \<Rightarrow> endpoint_data option" where
  "linear_scan rx eps path = map_option snd (List.find (\<lambda>e. matcher_hits rx (fst e) path) eps)"

fun is_exact :: "matcher \<Rightarrow> bool" where
  "is_exact (Exact _) = True"
| "is_exact (Regex _) = False"

text \<open>The state of a router as a view of the endpoints added so far.\<close>

definition router_view :: "router \<Rightarrow> (matcher \<times> endpoint_data) list \<Rightarrow> bool" where
  "router_view rt eps \<longleftrightarrow> bm_wf (rt_exact rt) \<and>
     (\<forall>p. bm_get (rt_exact rt) p = map_option snd (List.find (\<lambda>e. fst e = Exact p) eps)) \<and>
     rt_regexes rt = List.map_filter (\<lambda>(m, d). case m of Exact _ \<Rightarrow> None | Regex re \<Rightarrow> Some (re, d)) eps"

lemma router_view_new: "router_view router_new []"
  by (simp add: router_view_def router_new_def map_filter_simps)

lemma map_filter_append: "List.map_filter f (xs @ ys) = List.map_filter f xs @ List.map_filter f ys"
  by (induction xs) (auto simp: map_filter_simps split: option.splits)

lemma router_view_add_route:
  assumes "router_view rt eps"
  shows "router_view (add_route k m r rt)
    (eps @ [(ro_matcher r, \<lparr> ed_kind = k, ed_module = m, ed_route_id = ro_id r \<rparr>)])"
proof (cases "ro_matcher r")
  case (Exact p)
  with assms show ?thesis
    by (auto simp: router_view_def add_route_def bm_get_or_insert find_append map_filter_append
        map_filter_simps unwrap_or_def split: option.splits)
next
  case (Regex re)
  with assms show ?thesis
    by (auto simp: router_view_def add_route_def find_append map_filter_append map_filter_simps
        split: option.splits)
qed

lemma router_view_add:
  "router_view rt eps \<Longrightarrow> router_view (router_add k m rs rt) (eps @ endpoints [(k, m, rs)])"
proof (induction rs arbitrary: rt eps)
  case (Cons r rs)
  from Cons.IH[OF router_view_add_route[OF Cons.prems, of k m r]] show ?case
    by (simp add: router_add_def endpoints_def)
qed (simp add: router_add_def endpoints_def)

lemma router_view_add_all:
  "router_view rt eps \<Longrightarrow> router_view (add_all regs rt) (eps @ endpoints regs)"
proof (induction regs arbitrary: rt eps)
  case (Cons reg regs)
  obtain k m rs where reg: "reg = (k, m, rs)" by (cases reg)
  from Cons.IH[OF router_view_add[OF Cons.prems, of k m rs]] show ?case
    by (simp add: add_all_def endpoints_def reg)
qed (simp add: add_all_def endpoints_def)

lemma find_regexes:
  "map_option snd (List.find (\<lambda>e. rx_is_match rx (fst e) path)
     (List.map_filter (\<lambda>(m, d). case m of Exact _ \<Rightarrow> None | Regex re \<Rightarrow> Some (re, d)) eps)) =
   map_option snd (List.find (\<lambda>e. \<not> is_exact (fst e) \<and> matcher_hits rx (fst e) path) eps)"
proof (induction eps)
  case (Cons e eps)
  obtain m d where "e = (m, d)" by (cases e)
  with Cons show ?case by (cases m) (auto simp: map_filter_simps)
qed (simp add: map_filter_simps)

lemma resolve_view:
  assumes "router_view rt eps"
  shows "resolve rx rt path =
    or_else (linear_scan rx (filter (\<lambda>e. is_exact (fst e)) eps) path)
            (linear_scan rx (filter (\<lambda>e. \<not> is_exact (fst e)) eps) path)"
proof -
  have hit: "(fst e = Exact path) = (is_exact (fst e) \<and> matcher_hits rx (fst e) path)"
    for e :: "matcher \<times> endpoint_data" by (cases "fst e") auto
  have ff: "List.find q (filter p xs) = List.find (\<lambda>x. p x \<and> q x) xs"
    for p q and xs :: "(matcher \<times> endpoint_data) list" by (induction xs) auto
  show ?thesis
    using assms by (simp add: resolve_def router_view_def linear_scan_def ff find_regexes hit
        or_else_def split: option.splits)
qed

lemma linear_scan_SomeD:
  "linear_scan rx eps path = Some d \<Longrightarrow> \<exists>i < length eps. eps ! i = (fst (eps ! i), d) \<and>
     matcher_hits rx (fst (eps ! i)) path \<and> (\<forall>j < i. \<not> matcher_hits rx (fst (eps ! j)) path)"
proof -
  assume "linear_scan rx eps path = Some d"
  then obtain e where "List.find (\<lambda>e. matcher_hits rx (fst e) path) eps = Some e" "snd e = d"
    by (auto simp: linear_scan_def)
  then obtain i where "i < length eps" "matcher_hits rx (fst (eps ! i)) path" "e = eps ! i"
      "\<forall>j < i. \<not> matcher_hits rx (fst (eps ! j)) path"
    by (auto simp: find_Some_iff)
  with \<open>snd e = d\<close> show ?thesis by (intro exI[of _ i]) (simp add: prod_eq_iff)
qed

end
