(* ===== verification/Proxy.thy ===== *)
theory Proxy
  imports Sealer Router
begin

text \<open>
  The orchestrator of \<open>proxy.rs\<close>: load the state, route, dispatch to a frontend, a
  micro-service endpoint or a backend, run the request or the response chain, save the state.
  The HTTP library, the cryptography, the regex engine, the clock and the random source are the
  fields of \<open>proxy_env\<close>; the clock and the random source read the world of the context.
\<close>

section \<open>Assembly\<close>

record 'w proxy_env =
  en_http :: http_lib
  en_crypto :: crypto_lib
  en_regex :: regex_lib
  en_clock :: "'w \<Rightarrow> int"
  en_iv :: "'w \<Rightarrow> string"

record 'w proxy =
  px_frontends :: "'w frontend smap"
  px_backends :: "'w backend smap"
  px_microservices :: "'w micro_service list"
  px_router :: router
  px_sealer :: sealer
  px_default_backend :: "string option"

definition registrations ::
    "'w frontend list \<Rightarrow> 'w backend list \<Rightarrow> 'w micro_service list \<Rightarrow> registration list" where
  "registrations fs bs ms =
     map (\<lambda>f. (FrontendKind, fe_name f, fe_register f (map be_name bs))) fs @
     map (\<lambda>m. (MicroServiceKind, ms_name m, ms_register m)) ms @
     map (\<lambda>b. (BackendKind, be_name b, be_register b)) bs"

definition proxy_new ::
    "'w frontend list \<Rightarrow> 'w backend list \<Rightarrow> 'w micro_service list \<Rightarrow> sealer \<Rightarrow> 'w proxy" where
  "proxy_new fs bs ms s =
     \<lparr> px_frontends = bm_of_list (map (\<lambda>f. (fe_name f, f)) fs),
       px_backends = bm_of_list (map (\<lambda>b. (be_name b, b)) bs),
       px_microservices = ms,
       px_router = add_all (registrations fs bs ms) router_new,
       px_sealer = s,
       px_default_backend = (case map be_name bs of [] \<Rightarrow> None | n # _ \<Rightarrow> Some n) \<rparr>"

section \<open>The two chains\<close>

fun request_chain :: "'w micro_service list \<Rightarrow> internal_data \<Rightarrow> ('w, internal_data) handler" where
  "request_chain [] data = (\<lambda>ctx. (Inr data, ctx))"
| "request_chain (m # ms) data = bind_flow (ms_request m data) (request_chain ms)"

text \<open>A response chain ends with the data to render or with the response of a service.\<close>

fun response_chain ::
    "'w micro_service list \<Rightarrow> internal_data \<Rightarrow> ('w, response + internal_data) handler" where
  "response_chain [] data = (\<lambda>ctx. (Inr (Inr data), ctx))"
| "response_chain (m # ms) data = bind_flow (ms_response_action m data) (\<lambda>a.
     case a of Continue next \<Rightarrow> response_chain ms next | RRespond http \<Rightarrow> (\<lambda>ctx. (Inr (Inl http), ctx)))"

definition select_backend ::
    "'w proxy \<Rightarrow> string option \<Rightarrow> 'w req_context_scheme \<Rightarrow> string option" where
  "select_backend px pinned ctx =
     or_else pinned (or_else (cx_target_backend ctx) (px_default_backend px))"

definition finish_request ::
    "'w proxy \<Rightarrow> internal_data \<Rightarrow> nat \<Rightarrow> string option \<Rightarrow> ('w, response) handler" where
  "finish_request px request start_index pinned =
     bind_flow (request_chain (drop start_index (px_microservices px)) request) (\<lambda>request ctx.
       case select_backend px pinned ctx of
         None \<Rightarrow> (Inl (ErrConfig ''no backend configured''), ctx)
       | Some name \<Rightarrow>
           (let ctx' = ctx\<lparr> cx_target_backend := Some name \<rparr>
            in case bm_get (px_backends px) name of
                 None \<Rightarrow> (Inl (ErrUnknownModule name), ctx')
               | Some b \<Rightarrow> be_start_auth b request ctx'))"

definition finish_response ::
    "'w proxy \<Rightarrow> internal_data \<Rightarrow> nat \<Rightarrow> ('w, response) handler" where
  "finish_response px response start_index =
     bind_flow (response_chain (drop start_index (px_microservices px)) response) (\<lambda>r ctx.
       case r of
         Inl http \<Rightarrow> (Inr http, ctx)
       | Inr data \<Rightarrow>
           (case virtual_idp ctx of
              None \<Rightarrow> (Inl (ErrState ''no originating frontend in state''), ctx)
            | Some name \<Rightarrow>
                (let ctx' = ctx\<lparr> cx_target_frontend := Some name \<rparr>
                 in case bm_get (px_frontends px) name of
                      None \<Rightarrow> (Inl (ErrUnknownModule name), ctx')
                    | Some f \<Rightarrow> bind_flow (fe_render f data) (\<lambda>rendered c.
                        (Inr rendered, with_state (\<lambda>s. s\<lparr> st_delete := True \<rparr>) c)) ctx')))"

section \<open>Dispatch\<close>

definition dispatch_frontend :: "'w proxy \<Rightarrow> string \<Rightarrow> string \<Rightarrow> ('w, response) handler" where
  "dispatch_frontend px module route_id ctx =
     (let ctx = ctx\<lparr> cx_target_frontend := Some module \<rparr>
      in case bm_get (px_frontends px) module of
           None \<Rightarrow> (Inl (ErrUnknownModule module), ctx)
         | Some f \<Rightarrow> bind_flow (fe_handle f route_id) (\<lambda>a.
             case a of
               FRespond r \<Rightarrow> (\<lambda>ctx. (Inr r, ctx))
             | StartAuth request target_backend \<Rightarrow> (\<lambda>ctx.
                 let ctx = (case id_requester request of None \<Rightarrow> ctx | Some r \<Rightarrow> set_requester r ctx);
                     ctx = with_state (set_str STATE_KEY_BASE KEY_TARGET_FRONTEND module) ctx
                 in finish_request px request 0 target_backend ctx)) ctx)"

definition dispatch_backend :: "'w proxy \<Rightarrow> string \<Rightarrow> string \<Rightarrow> ('w, response) handler" where
  "dispatch_backend px module route_id ctx =
     (let ctx = ctx\<lparr> cx_target_backend := Some module \<rparr>
      in case bm_get (px_backends px) module of
           None \<Rightarrow> (Inl (ErrUnknownModule module), ctx)
         | Some b \<Rightarrow> bind_flow (be_handle b route_id) (\<lambda>a.
             case a of
               BRespond r \<Rightarrow> (\<lambda>ctx. (Inr r, ctx))
             | AuthResponse response \<Rightarrow> (\<lambda>ctx.
                 case or_else (get_str (cx_state ctx) STATE_KEY_BASE KEY_TARGET_FRONTEND)
                        (cx_target_frontend ctx) of
                   None \<Rightarrow> (Inl (ErrState ''no originating frontend in state''), ctx)
                 | Some name \<Rightarrow>
                     (let ctx = ctx\<lparr> cx_target_frontend := Some name \<rparr>;
                          response = (if id_requester response = None
                                      then response\<lparr> id_requester := requester ctx \<rparr> else response)
                      in finish_response px response 0 ctx))) ctx)"

definition dispatch_microservice :: "'w proxy \<Rightarrow> string \<Rightarrow> string \<Rightarrow> ('w, response) handler" where
  "dispatch_microservice px module route_id ctx =
     (case position (\<lambda>m. ms_name m = module) (px_microservices px) of
        None \<Rightarrow> (Inl (ErrUnknownModule module), ctx)
      | Some idx \<Rightarrow> bind_flow (ms_handle (px_microservices px ! idx) route_id) (\<lambda>a.
          case a of
            MRespond r \<Rightarrow> (\<lambda>ctx. (Inr r, ctx))
          | ResumeRequest request \<Rightarrow> (\<lambda>ctx.
              case virtual_idp ctx of
                None \<Rightarrow> (Inl (ErrState ''resume without an originating frontend''), ctx)
              | Some name \<Rightarrow>
                  (let ctx = ctx\<lparr> cx_target_frontend := Some name \<rparr>;
                       ctx = with_state (set_str STATE_KEY_BASE KEY_TARGET_FRONTEND name) ctx;
                       ctx = (case id_requester request of None \<Rightarrow> ctx | Some r \<Rightarrow> set_requester r ctx)
                   in finish_request px request (idx + 1) None ctx))
          | ResumeResponse response \<Rightarrow> finish_response px response (idx + 1)) ctx)"

definition dispatch :: "regex_lib \<Rightarrow> 'w proxy \<Rightarrow> ('w, response) handler" where
  "dispatch rx px ctx =
     (case resolve rx (px_router px) (cx_path ctx) of
        None \<Rightarrow> (Inl (ErrNoBoundEndpoint (cx_path ctx)), ctx)
      | Some m \<Rightarrow>
          (case ed_kind m of
             FrontendKind \<Rightarrow> dispatch_frontend px (ed_module m) (ed_route_id m) ctx
           | BackendKind \<Rightarrow> dispatch_backend px (ed_module m) (ed_route_id m) ctx
           | MicroServiceKind \<Rightarrow> dispatch_microservice px (ed_module m) (ed_route_id m) ctx))"

section \<open>Errors\<close>

definition redirect_rest :: "string \<Rightarrow> string option" where
  "redirect_rest url = find_map (\<lambda>scheme.
     if length scheme \<le> length url \<and> eq_ignore_ascii_case (take (length scheme) url) scheme
     then Some (drop (length scheme) url) else None) [''https://'', ''http://'']"

definition is_valid_error_redirect :: "string \<Rightarrow> bool" where
  "is_valid_error_redirect url =
     (case redirect_rest url of
        Some rest \<Rightarrow> rest \<noteq> [] \<and> \<not> list_ex (\<lambda>c. is_ascii_control c \<or> c = CHR '' '') url
      | None \<Rightarrow> False)"

definition render_error ::
    "http_lib \<Rightarrow> 'w proxy \<Rightarrow> error \<Rightarrow> 'w req_context_scheme \<Rightarrow> response \<times> 'w req_context_scheme" where
  "render_error http px e ctx =
     (case opt_filter is_valid_error_redirect
             (Option.bind (decoration ctx KEY_ERROR_REDIRECT) as_str) of
        Some url \<Rightarrow> (hl_redirect http url, ctx)
      | None \<Rightarrow>
          (let generic = hl_text http (hl_status_hint http e) ''request failed''
           in case Option.bind (virtual_idp ctx) (bm_get (px_frontends px)) of
                None \<Rightarrow> (generic, ctx)
              | Some f \<Rightarrow>
                  (case fe_error f e ctx of
                     (Inr r, ctx') \<Rightarrow> (r, ctx')
                   | (Inl _, ctx') \<Rightarrow> (generic, ctx'))))"

section \<open>A request\<close>

definition push_header :: "string \<Rightarrow> string \<Rightarrow> response \<Rightarrow> response" where
  "push_header k v r = r\<lparr> rs_headers := rs_headers r @ [(k, v)] \<rparr>"

definition attach_cookie ::
    "'w proxy_env \<Rightarrow> sealer \<Rightarrow> response \<Rightarrow> 'w req_context_scheme \<Rightarrow> response" where
  "attach_cookie env s response ctx =
     (let now = now_unix (en_clock env (req_context.more ctx)); iv = en_iv env (req_context.more ctx)
      in case seal (en_crypto env) s now iv (cx_state ctx) of
           Inr cookie \<Rightarrow> push_header ''set-cookie'' cookie response
         | Inl _ \<Rightarrow>
             (let response = hl_text (en_http env) 500 ''request failed''
              in case seal (en_crypto env) s now iv (state_new\<lparr> st_delete := True \<rparr>) of
                   Inr cookie \<Rightarrow> push_header ''set-cookie'' cookie response
                 | Inl _ \<Rightarrow> response))"

definition load_context ::
    "'w proxy_env \<Rightarrow> 'w proxy \<Rightarrow> http_request \<Rightarrow> 'w \<Rightarrow> 'w req_context_scheme" where
  "load_context env px request w =
     context_new request
       (unseal (en_crypto env) (px_sealer px) (now_unix (en_clock env w))
          (bm_get (rq_cookies request) (sl_cookie_name (px_sealer px)))) w"

definition handle_request ::
    "'w proxy_env \<Rightarrow> 'w proxy \<Rightarrow> http_request \<Rightarrow> 'w \<Rightarrow> response \<times> 'w req_context_scheme" where
  "handle_request env px request w =
     (case dispatch (en_regex env) px (load_context env px request w) of
        (Inr r, ctx) \<Rightarrow> (r, ctx)
      | (Inl e, ctx) \<Rightarrow> render_error (en_http env) px e ctx)"

definition run :: "'w proxy_env \<Rightarrow> 'w proxy \<Rightarrow> http_request \<Rightarrow> 'w \<Rightarrow> response \<times> 'w" where
  "run env px request w =
     (case handle_request env px request w of
        (response, ctx) \<Rightarrow> (attach_cookie env (px_sealer px) response ctx, req_context.more ctx))"

end
