(* ===== verification/Proxy_Flow.thy ===== *)
theory Proxy_Flow
  imports Proxy
begin

text \<open>
  Lemmas and properties of the orchestrator.  A relation between the context before and after a
  handler that the orchestrator's own updates respect (locale \<open>context_frame\<close>) lifts from the
  plugins to a whole request; it is used for the well-formedness of the context, for the issue
  time of the flow and for the inbound request.  The properties follow a login across its two
  legs, the resumption of suspended chains, the errors and the cookie of each response.
\<close>

section \<open>Frames\<close>

definition preserves ::
    "('w req_context_scheme \<Rightarrow> 'w req_context_scheme \<Rightarrow> bool) \<Rightarrow> ('w, 'a) handler \<Rightarrow> bool" where
  "preserves R h \<longleftrightarrow> (\<forall>c r c'. h c = (r, c') \<longrightarrow> R c c')"

lemma preservesD: "preserves R h \<Longrightarrow> h c = (r, c') \<Longrightarrow> R c c'"
  by (auto simp: preserves_def)

lemma preservesI: "(\<And>c r c'. h c = (r, c') \<Longrightarrow> R c c') \<Longrightarrow> preserves R h"
  by (auto simp: preserves_def)

definition plugins_preserve ::
    "('w req_context_scheme \<Rightarrow> 'w req_context_scheme \<Rightarrow> bool) \<Rightarrow> 'w proxy \<Rightarrow> bool" where
  "plugins_preserve R px \<longleftrightarrow>
     (\<forall>f \<in> snd ` set (px_frontends px). (\<forall>i. preserves R (fe_handle f i)) \<and>
        (\<forall>d. preserves R (fe_render f d)) \<and> (\<forall>e. preserves R (fe_error f e))) \<and>
     (\<forall>b \<in> snd ` set (px_backends px). (\<forall>d. preserves R (be_start_auth b d)) \<and>
        (\<forall>i. preserves R (be_handle b i))) \<and>
     (\<forall>m \<in> set (px_microservices px). (\<forall>d. preserves R (ms_request m d)) \<and>
        (\<forall>d. preserves R (ms_response_action m d)) \<and> (\<forall>i. preserves R (ms_handle m i)))"

lemma bm_get_in_values: "bm_get m k = Some v \<Longrightarrow> v \<in> snd ` set m"
  by (force dest: map_of_SomeD)

lemma preserve_frontend:
  assumes "plugins_preserve R px" "bm_get (px_frontends px) n = Some f"
  shows "preserves R (fe_handle f i)" "preserves R (fe_render f d)" "preserves R (fe_error f e)"
  using assms(1) bm_get_in_values[OF assms(2)] by (auto simp: plugins_preserve_def)

lemma preserve_backend:
  assumes "plugins_preserve R px" "bm_get (px_backends px) n = Some b"
  shows "preserves R (be_start_auth b d)" "preserves R (be_handle b i)"
  using assms(1) bm_get_in_values[OF assms(2)] by (auto simp: plugins_preserve_def)

lemma preserve_service:
  assumes "plugins_preserve R px" "m \<in> set (px_microservices px)"
  shows "preserves R (ms_request m d)" "preserves R (ms_response_action m d)"
    "preserves R (ms_handle m i)"
  using assms by (auto simp: plugins_preserve_def)

locale context_frame =
  fixes R :: "'w req_context_scheme \<Rightarrow> 'w req_context_scheme \<Rightarrow> bool"
  assumes R_refl: "R c c"
    and R_trans: "R a b \<Longrightarrow> R b c \<Longrightarrow> R a c"
    and R_backend: "R c (c\<lparr> cx_target_backend := tb \<rparr>)"
    and R_frontend: "R c (c\<lparr> cx_target_frontend := tf \<rparr>)"
    and R_base: "R c (with_state (set_str STATE_KEY_BASE k v) c)"
    and R_delete: "R c (with_state (\<lambda>s. s\<lparr> st_delete := True \<rparr>) c)"
begin

lemma pure: "preserves R (\<lambda>c. (r, c))"
  by (simp add: preserves_def R_refl)

lemma bind: "preserves R m \<Longrightarrow> (\<And>v. preserves R (k v)) \<Longrightarrow> preserves R (bind_flow m k)"
  unfolding preserves_def bind_flow_def
  by (fastforce split: prod.splits sum.splits intro: R_trans)

lemma pre_step: "(\<And>c. R c (g c)) \<Longrightarrow> preserves R h \<Longrightarrow> preserves R (\<lambda>c. h (g c))"
  unfolding preserves_def by (blast intro: R_trans)

lemma requester_step: "R c (set_requester r c)"
  using R_base[of c KEY_REQUESTER r] by (simp add: set_requester_def with_state_def)

lemma chain_request:
  "\<forall>m \<in> set ms. \<forall>d. preserves R (ms_request m d) \<Longrightarrow> preserves R (request_chain ms d)"
  by (induction ms arbitrary: d) (auto intro: pure bind)

lemma chain_response:
  "\<forall>m \<in> set ms. \<forall>d. preserves R (ms_response_action m d) \<Longrightarrow> preserves R (response_chain ms d)"
proof (induction ms arbitrary: d)
  case (Cons m ms)
  show ?case unfolding response_chain.simps
    using Cons by (intro bind) (auto split: ms_reply.split intro: pure)
qed (simp add: pure)

lemma request_part:
  assumes "plugins_preserve R px"
  shows "preserves R (finish_request px d i pin)"
  unfolding finish_request_def
proof (rule bind)
  show "preserves R (request_chain (drop i (px_microservices px)) d)"
    using preserve_service[OF assms] by (intro chain_request) (auto dest: in_set_dropD)
next
  fix v
  show "preserves R (\<lambda>ctx. case select_backend px pin ctx of
         None \<Rightarrow> (Inl (ErrConfig ''no backend configured''), ctx)
       | Some name \<Rightarrow>
           (let ctx' = ctx\<lparr> cx_target_backend := Some name \<rparr>
            in case bm_get (px_backends px) name of
                 None \<Rightarrow> (Inl (ErrUnknownModule name), ctx')
               | Some b \<Rightarrow> be_start_auth b v ctx'))" (is "preserves R ?h")
  proof (rule preservesI)
    fix c r c' assume h: "?h c = (r, c')"
    show "R c c'"
    proof (cases "select_backend px pin c")
      case None then show ?thesis using h R_refl by simp
    next
      case (Some name)
      show ?thesis
      proof (cases "bm_get (px_backends px) name")
        case None then show ?thesis using h Some R_backend by (auto simp: Let_def)
      next
        case b: (Some b)
        from h Some b have "be_start_auth b v (c\<lparr> cx_target_backend := Some name \<rparr>) = (r, c')"
          by (simp add: Let_def)
        then show ?thesis
          using preserve_backend(1)[OF assms b] R_backend R_trans by (blast dest: preservesD)
      qed
    qed
  qed
qed

lemma render_part:
  "plugins_preserve R px \<Longrightarrow> bm_get (px_frontends px) n = Some f \<Longrightarrow>
   preserves R (bind_flow (fe_render f d) (\<lambda>rendered c.
     (Inr rendered, with_state (\<lambda>s. s\<lparr> st_delete := True \<rparr>) c)))"
  by (intro bind preserve_frontend(2)) (auto simp: preserves_def R_delete)

lemma response_part:
  assumes "plugins_preserve R px"
  shows "preserves R (finish_response px d i)"
  unfolding finish_response_def
proof (rule bind)
  show "preserves R (response_chain (drop i (px_microservices px)) d)"
    using preserve_service[OF assms] by (intro chain_response) (auto dest: in_set_dropD)
next
  fix v
  show "preserves R (\<lambda>ctx. case v of
         Inl http \<Rightarrow> (Inr http, ctx)
       | Inr data \<Rightarrow>
           (case virtual_idp ctx of
              None \<Rightarrow> (Inl (ErrState ''no originating frontend in state''), ctx)
            | Some name \<Rightarrow>
                (let ctx' = ctx\<lparr> cx_target_frontend := Some name \<rparr>
                 in case bm_get (px_frontends px) name of
                      None \<Rightarrow> (Inl (ErrUnknownModule name), ctx')
                    | Some f \<Rightarrow> bind_flow (fe_render f data) (\<lambda>rendered c.
                        (Inr rendered, with_state (\<lambda>s. s\<lparr> st_delete := True \<rparr>) c)) ctx')))"
    (is "preserves R ?h")
  proof (cases v)
    case (Inl http) then show ?thesis by (simp add: pure)
  next
    case (Inr data)
    show ?thesis
    proof (rule preservesI)
      fix c r c' assume h: "?h c = (r, c')"
      show "R c c'"
      proof (cases "virtual_idp c")
        case None then show ?thesis using h Inr R_refl by simp
      next
        case (Some name)
        show ?thesis
        proof (cases "bm_get (px_frontends px) name")
          case None then show ?thesis using h Inr Some R_frontend by (auto simp: Let_def)
        next
          case f: (Some f)
          from preservesD[OF render_part[OF assms f]] h Inr Some f
          have "R (c\<lparr> cx_target_frontend := Some name \<rparr>) c'" by (simp add: Let_def)
          then show ?thesis using R_frontend R_trans by blast
        qed
      qed
    qed
  qed
qed

text \<open>The updates of the base namespace before the request chain starts or resumes.\<close>

lemma set_opt_requester: "R c (case r of None \<Rightarrow> c | Some x \<Rightarrow> set_requester x c)"
  using R_refl requester_step by (simp split: option.split)

lemma frontend_part:
  assumes "plugins_preserve R px"
  shows "preserves R (dispatch_frontend px module i)"
proof (rule preservesI)
  fix c r c' assume h: "dispatch_frontend px module i c = (r, c')"
  let ?c = "c\<lparr> cx_target_frontend := Some module \<rparr>"
  show "R c c'"
  proof (cases "bm_get (px_frontends px) module")
    case None then show ?thesis using h R_frontend by (auto simp: dispatch_frontend_def Let_def)
  next
    case (Some f)
    let ?k = "\<lambda>a. case a of
               FRespond r \<Rightarrow> (\<lambda>ctx. (Inr r, ctx))
             | StartAuth request target_backend \<Rightarrow> (\<lambda>ctx.
                 finish_request px request 0 target_backend
                   (with_state (set_str STATE_KEY_BASE KEY_TARGET_FRONTEND module)
                     (case id_requester request of None \<Rightarrow> ctx | Some r \<Rightarrow> set_requester r ctx)))"
    have k: "preserves R (?k a)" for a
    proof (cases a)
      case (FRespond x) then show ?thesis by (simp add: pure)
    next
      case (StartAuth d tb)
      have u: "R x (with_state (set_str STATE_KEY_BASE KEY_TARGET_FRONTEND module)
                     (case id_requester d of None \<Rightarrow> x | Some r \<Rightarrow> set_requester r x))" for x
        by (rule R_trans[OF set_opt_requester R_base])
      show ?thesis unfolding StartAuth frontend_action.case
        by (rule pre_step[OF u request_part[OF assms]])
    qed
    have "preserves R (bind_flow (fe_handle f i) ?k)"
      by (intro bind preserve_frontend[OF assms Some] k)
    moreover have "bind_flow (fe_handle f i) ?k ?c = (r, c')"
      using h Some by (simp add: dispatch_frontend_def Let_def)
    ultimately show ?thesis using R_frontend R_trans by (blast dest: preservesD)
  qed
qed

lemma backend_part:
  assumes "plugins_preserve R px"
  shows "preserves R (dispatch_backend px module i)"
proof (rule preservesI)
  fix c r c' assume h: "dispatch_backend px module i c = (r, c')"
  let ?c = "c\<lparr> cx_target_backend := Some module \<rparr>"
  show "R c c'"
  proof (cases "bm_get (px_backends px) module")
    case None then show ?thesis using h R_backend by (auto simp: dispatch_backend_def Let_def)
  next
    case (Some b)
    obtain x c1 where b: "be_handle b i ?c = (x, c1)" by fastforce
    have c1: "R c c1" using preservesD[OF preserve_backend(2)[OF assms Some] b] R_backend R_trans by blast
    have *: "finish_response px d 0 (c1\<lparr> cx_target_frontend := n \<rparr>) = (y, c2) \<Longrightarrow> R c c2" for d n y c2
      using preservesD[OF response_part[OF assms]] R_trans[OF R_trans[OF c1 R_frontend]] by blast
    show ?thesis
    proof (cases "\<exists>d. x = Inr (AuthResponse d)")
      case True
      then obtain d where "x = Inr (AuthResponse d)" ..
      with h Some b c1 * show ?thesis
        by (auto simp: dispatch_backend_def Let_def bind_flow_def split: option.splits if_splits)
    next
      case False
      with h Some b c1 show ?thesis
        by (auto simp: dispatch_backend_def Let_def bind_flow_def split: sum.splits backend_action.splits)
    qed
  qed
qed

lemma service_part:
  assumes "plugins_preserve R px"
  shows "preserves R (dispatch_microservice px module i)"
proof (rule preservesI)
  fix c r c' assume h: "dispatch_microservice px module i c = (r, c')"
  show "R c c'"
  proof (cases "position (\<lambda>m. ms_name m = module) (px_microservices px)")
    case None then show ?thesis using h R_refl by (auto simp: dispatch_microservice_def)
  next
    case (Some n)
    have m: "px_microservices px ! n \<in> set (px_microservices px)" using position_SomeD[OF Some] by simp
    obtain x c1 where b: "ms_handle (px_microservices px ! n) i c = (x, c1)" by fastforce
    have c1: "R c c1" using preservesD[OF preserve_service(3)[OF assms m] b] .
    have resume: "finish_request px d (n + 1) None (case q of None \<Rightarrow> with_state
          (set_str STATE_KEY_BASE KEY_TARGET_FRONTEND k) (c1\<lparr> cx_target_frontend := t \<rparr>)
        | Some z \<Rightarrow> set_requester z (with_state (set_str STATE_KEY_BASE KEY_TARGET_FRONTEND k)
            (c1\<lparr> cx_target_frontend := t \<rparr>))) = (y, c2) \<Longrightarrow> R c c2" for d q k t y c2
      using preservesD[OF request_part[OF assms]] R_trans[OF R_trans[OF R_trans[OF c1 R_frontend] R_base]
        set_opt_requester] R_trans by (meson)
    show ?thesis
    proof (cases x)
      case (Inl e) with h Some b c1 show ?thesis by (auto simp: dispatch_microservice_def bind_flow_def)
    next
      case (Inr a)
      show ?thesis
      proof (cases a)
        case (MRespond z) with h Some b c1 Inr show ?thesis
          by (auto simp: dispatch_microservice_def bind_flow_def)
      next
        case (ResumeRequest d)
        with h Some b c1 Inr show ?thesis
          using resume by (auto simp: dispatch_microservice_def bind_flow_def Let_def split: option.splits)
      next
        case (ResumeResponse d)
        with h Some b Inr have "finish_response px d (n + 1) c1 = (r, c')"
          by (simp add: dispatch_microservice_def bind_flow_def)
        then show ?thesis using preservesD[OF response_part[OF assms]] R_trans[OF c1] by blast
      qed
    qed
  qed
qed

lemma dispatch_frame:
  "plugins_preserve R px \<Longrightarrow> preserves R (dispatch rx px)"
  using frontend_part backend_part service_part R_refl
  unfolding preserves_def dispatch_def
  by (fastforce split: option.splits module_kind.splits)

lemma error_frame:
  assumes "plugins_preserve R px" "render_error http px e c = (resp, c')"
  shows "R c c'"
proof (cases "Option.bind (virtual_idp c) (bm_get (px_frontends px))")
  case None
  then show ?thesis using assms(2) R_refl by (auto simp: render_error_def split: option.splits)
next
  case (Some f)
  then obtain n where "bm_get (px_frontends px) n = Some f" by (cases "virtual_idp c") auto
  then show ?thesis
    using assms(2) Some R_refl preservesD[OF preserve_frontend(3)[OF assms(1)]]
    by (fastforce simp: render_error_def Let_def split: option.splits sum.splits prod.splits)
qed

lemma request_frame:
  assumes "plugins_preserve R px" "handle_request env px rq w = (resp, c)"
  shows "R (load_context env px rq w) c"
proof -
  obtain x c1 where d: "dispatch (en_regex env) px (load_context env px rq w) = (x, c1)" by fastforce
  have c1: "R (load_context env px rq w) c1" using preservesD[OF dispatch_frame[OF assms(1)] d] .
  show ?thesis
    using assms(2) d c1 R_trans[OF c1] error_frame[OF assms(1)]
    by (cases x) (auto simp: handle_request_def)
qed

end

section \<open>The frames used\<close>

text \<open>
  The issue time is a private field that no handler can write; the well-formedness of the
  context is kept by its operations; the inbound request is read only.
\<close>

definition same_issue :: "'w req_context_scheme \<Rightarrow> 'w req_context_scheme \<Rightarrow> bool" where
  "same_issue c c' \<longleftrightarrow> st_issued_at (cx_state c') = st_issued_at (cx_state c)"

definition keeps_wf :: "'w req_context_scheme \<Rightarrow> 'w req_context_scheme \<Rightarrow> bool" where
  "keeps_wf c c' \<longleftrightarrow> (context_wf c \<longrightarrow> context_wf c')"

lemma context_wf_updates [simp]:
  "context_wf (c\<lparr> cx_target_backend := b \<rparr>) = context_wf c"
  "context_wf (c\<lparr> cx_target_frontend := f \<rparr>) = context_wf c"
  "context_wf c \<Longrightarrow> context_wf (with_state (set_str n k v) c)"
  "context_wf c \<Longrightarrow> context_wf (with_state (set_value n k x) c)"
  "context_wf c \<Longrightarrow> context_wf (with_state (clear_namespace n) c)"
  "context_wf (with_state (\<lambda>s. s\<lparr> st_delete := d \<rparr>) c) = context_wf c"
  by (simp_all add: context_wf_def with_state_def)

interpretation issue: context_frame same_issue
  by unfold_locales (simp_all add: same_issue_def with_state_def)

interpretation wf: context_frame keeps_wf
  by unfold_locales (simp_all add: keeps_wf_def)

text \<open>
  What a service on the way to a backend does with the flow's base data: it keeps the
  originating frontend and the requester, and it does not end the session.
\<close>

definition keeps_base :: "'w req_context_scheme \<Rightarrow> 'w req_context_scheme \<Rightarrow> bool" where
  "keeps_base c c' \<longleftrightarrow> (context_wf c \<longrightarrow> context_wf c' \<and>
     (\<forall>k. get_value (cx_state c') STATE_KEY_BASE k = get_value (cx_state c) STATE_KEY_BASE k) \<and>
     st_delete (cx_state c') = st_delete (cx_state c) \<and>
     cx_target_frontend c' = cx_target_frontend c)"

lemma keeps_base_refl: "keeps_base c c"
  by (simp add: keeps_base_def)

lemma keeps_base_trans: "keeps_base a b \<Longrightarrow> keeps_base b c \<Longrightarrow> keeps_base a c"
  by (simp add: keeps_base_def)

lemma keeps_base_bind:
  "preserves keeps_base m \<Longrightarrow> (\<And>v. preserves keeps_base (k v)) \<Longrightarrow> preserves keeps_base (bind_flow m k)"
  unfolding preserves_def bind_flow_def
  by (fastforce split: prod.splits sum.splits intro: keeps_base_trans)

lemma keeps_base_pure: "preserves keeps_base (\<lambda>c. (r, c))"
  by (simp add: preserves_def keeps_base_refl)

lemma keeps_base_chain:
  "\<forall>m \<in> set ms. \<forall>d. preserves keeps_base (ms_request m d) \<Longrightarrow> preserves keeps_base (request_chain ms d)"
  by (induction ms arbitrary: d) (auto intro: keeps_base_pure keeps_base_bind)

lemma keeps_base_steps:
  "keeps_base c (decorate k v c)"
  "keeps_base c (c\<lparr> cx_target_backend := tb \<rparr>)"
  "ns \<noteq> STATE_KEY_BASE \<Longrightarrow> keeps_base c (with_state (set_value ns k v) c)"
  "ns \<noteq> STATE_KEY_BASE \<Longrightarrow> keeps_base c (with_state (set_str ns k u) c)"
  "ns \<noteq> STATE_KEY_BASE \<Longrightarrow> keeps_base c (with_state (clear_namespace ns) c)"
  by (auto simp: keeps_base_def with_state_def context_wf_def get_value_set_value get_value_clear
      set_str_def decorate_def)

text \<open>The plugins of the way to a backend and back keep the base data.\<close>

definition base_kept :: "'w proxy \<Rightarrow> bool" where
  "base_kept px \<longleftrightarrow>
     (\<forall>m \<in> set (px_microservices px). \<forall>d. preserves keeps_base (ms_request m d)) \<and>
     (\<forall>b \<in> snd ` set (px_backends px).
        (\<forall>d. preserves keeps_base (be_start_auth b d)) \<and> (\<forall>i. preserves keeps_base (be_handle b i)))"

lemma base_kept_backend:
  assumes "base_kept px" "bm_get (px_backends px) n = Some b"
  shows "preserves keeps_base (be_start_auth b d)" "preserves keeps_base (be_handle b i)"
  using assms(1) bm_get_in_values[OF assms(2)] by (auto simp: base_kept_def)

lemma keeps_base_finish_request:
  assumes "base_kept px" "finish_request px d i pin c = (Inr r, c')"
  shows "keeps_base c c'"
proof -
  have ch: "preserves keeps_base (request_chain (drop i (px_microservices px)) d)"
    using assms(1) by (intro keeps_base_chain) (auto simp: base_kept_def dest: in_set_dropD)
  from assms(2) obtain d1 c1 where c1: "request_chain (drop i (px_microservices px)) d c = (Inr d1, c1)"
    and rest: "(case select_backend px pin c1 of
         None \<Rightarrow> (Inl (ErrConfig ''no backend configured''), c1)
       | Some name \<Rightarrow>
           (let ctx' = c1\<lparr> cx_target_backend := Some name \<rparr>
            in case bm_get (px_backends px) name of
                 None \<Rightarrow> (Inl (ErrUnknownModule name), ctx')
               | Some b \<Rightarrow> be_start_auth b d1 ctx')) = (Inr r, c')"
    by (auto simp: finish_request_def bind_flow_eq_Inr)
  from rest obtain n b where "bm_get (px_backends px) n = Some b"
      "be_start_auth b d1 (c1\<lparr> cx_target_backend := Some n \<rparr>) = (Inr r, c')"
    by (auto simp: Let_def split: option.splits)
  then have "keeps_base (c1\<lparr> cx_target_backend := Some n \<rparr>) c'"
    using base_kept_backend(1)[OF assms(1)] by (blast dest: preservesD)
  then show ?thesis
    using preservesD[OF ch c1] keeps_base_steps(2) keeps_base_trans by blast
qed

end
