(* ===== verification/Fixtures.thy ===== *)
theory Fixtures
  imports Proxy_Flow
begin

text \<open>
  Concrete instances of the parameters of the model, used by the witnesses: a cipher that tags
  the plaintext with its key, an identity codec, a JSON printer for a finite table of envelopes,
  a literal regex engine, and a proxy of one frontend and one backend.
\<close>

section \<open>Cryptography\<close>

definition toy_encrypt :: "string \<Rightarrow> string \<Rightarrow> string \<Rightarrow> string option" where
  "toy_encrypt k iv p =
     (if CHR '';'' \<in> set k \<union> set p then None else Some (show_nat (length k) @ CHR '':'' # k @ p))"

definition toy_decrypt :: "string \<Rightarrow> string \<Rightarrow> string option" where
  "toy_decrypt k t = strip_prefix (show_nat (length k) @ CHR '':'' # k) t"

definition toy_to_json :: "envelope list \<Rightarrow> envelope \<Rightarrow> string option" where
  "toy_to_json es e = map_option (\<lambda>i. CHR ''{'' # show_nat i) (position (\<lambda>x. x = e) es)"

definition toy_crypto :: "envelope list \<Rightarrow> crypto_lib" where
  "toy_crypto es =
     \<lparr> cl_hkdf = (\<lambda>salt secret info. secret), cl_encrypt = toy_encrypt, cl_decrypt = toy_decrypt,
       cl_deflate = Some, cl_inflate = (\<lambda>n x. Some (take n x)),
       cl_to_json = toy_to_json es,
       cl_of_json = (\<lambda>j. List.find (\<lambda>e. toy_to_json es e = Some j) es) \<rparr>"

lemma toy_encryptD:
  assumes "toy_encrypt k iv p = Some t"
  shows "toy_decrypt k t = Some p" "k' \<noteq> k \<Longrightarrow> toy_decrypt k' t = None" "t \<noteq> []" "CHR '';'' \<notin> set t"
proof -
  have t: "t = show_nat (length k) @ CHR '':'' # k @ p" "CHR '';'' \<notin> set k \<union> set p"
    using assms by (auto simp: toy_encrypt_def split: if_splits)
  show "toy_decrypt k t = Some p"
    unfolding toy_decrypt_def t strip_prefix_Some_iff by simp
  show "toy_decrypt k' t = None" if "k' \<noteq> k"
  proof (rule ccontr)
    assume "toy_decrypt k' t \<noteq> None"
    then obtain q where "show_nat (length k) @ CHR '':'' # k @ p = show_nat (length k') @ CHR '':'' # k' @ q"
      unfolding toy_decrypt_def t using strip_prefix_Some_iff by fastforce
    from show_nat_sep_unique[OF this] that show False by auto
  qed
  have digit: "CHR '';'' \<notin> set (show_nat n)" for n
    using show_nat_digits[of _ n] by (fastforce simp: is_ascii_digit_def byte_def)
  show "t \<noteq> []" "CHR '';'' \<notin> set t" using t digit by auto
qed

lemma toy_json_roundtrip:
  assumes "toy_to_json es e = Some j"
  shows "List.find (\<lambda>e. toy_to_json es e = Some j) es = Some e"
proof -
  from assms obtain i where i: "position (\<lambda>x. x = e) es = Some i" "j = CHR ''{'' # show_nat i"
    by (auto simp: toy_to_json_def)
  have that: "e' = e" if "toy_to_json es e' = Some j" for e'
  proof -
    from that i obtain i' where "position (\<lambda>x. x = e') es = Some i'" "show_nat i' = show_nat i"
      by (auto simp: toy_to_json_def)
    then have "position (\<lambda>x. x = e') es = Some i" by (simp add: show_nat_inj)
    then show ?thesis using position_SomeD[OF i(1)] by (auto dest: position_SomeD)
  qed
  moreover have "e \<in> set es" using position_SomeD[OF i(1)] by (auto dest: nth_mem)
  ultimately show ?thesis
  proof (cases "List.find (\<lambda>e. toy_to_json es e = Some j) es")
    case None
    with \<open>e \<in> set es\<close> assms show ?thesis by (auto simp: find_None_iff)
  next
    case (Some e')
    then have "toy_to_json es e' = Some j" by (auto simp: find_Some_iff)
    with that Some show ?thesis by simp
  qed
qed

lemma toy_crypto_ok: "crypto_ok (toy_crypto es)"
  using toy_encryptD toy_json_roundtrip by (auto simp: crypto_ok_def toy_crypto_def)

section \<open>A small proxy\<close>

definition toy_http :: http_lib where
  "toy_http =
     \<lparr> hl_text = (\<lambda>st b. \<lparr> rs_status = st, rs_headers = [(''content-type'', ''text/plain'')], rs_body = b \<rparr>),
       hl_redirect = (\<lambda>u. \<lparr> rs_status = 303, rs_headers = [(''location'', u)], rs_body = [] \<rparr>),
       hl_status_hint = (\<lambda>e. case e of ErrAuthn _ \<Rightarrow> 401 | ErrNoBoundEndpoint _ \<Rightarrow> 404 | _ \<Rightarrow> 500) \<rparr>"

definition toy_regex :: regex_lib where
  "toy_regex = \<lparr> rx_compiles = (\<lambda>p. True), rx_is_match = (\<lambda>p s. p = s),
     rx_replace_all = (\<lambda>p r s. if p = s then r else s) \<rparr>"

definition toy_base :: jmap where
  "toy_base = [(STATE_KEY_BASE, JObject [(KEY_REQUESTER, JString ''rp''), (KEY_TARGET_FRONTEND, JString ''fe'')])]"

definition toy_envelopes :: "envelope list" where
  "toy_envelopes = [\<lparr> ev_v = 1, ev_iat = 100, ev_data = toy_base \<rparr>]"

definition toy_env :: "int proxy_env" where
  "toy_env = \<lparr> en_http = toy_http, en_crypto = toy_crypto toy_envelopes, en_regex = toy_regex,
     en_clock = (\<lambda>w. w), en_iv = (\<lambda>w. ''iv'') \<rparr>"

definition toy_sealer :: sealer where
  "toy_sealer = sealer_new (toy_crypto toy_envelopes) ''secret'' ''state''"

definition toy_login :: internal_data where
  "toy_login = internal_default\<lparr> id_requester := Some ''rp'' \<rparr>"

definition toy_answer :: internal_data where
  "toy_answer = internal_default\<lparr> id_subject_id := Some ''alice'' \<rparr>"

definition toy_frontend :: "int frontend" where
  "toy_frontend =
     \<lparr> fe_name = ''fe'', fe_register = (\<lambda>_. [route_exact ''fe/login'' ''login'']),
       fe_handle = (\<lambda>_ c. (Inr (StartAuth toy_login None), c)),
       fe_render = (\<lambda>d c. (Inr (hl_text toy_http 200 (unwrap_or [] (id_requester d))), c)),
       fe_error = (\<lambda>e c. (Inl e, c)) \<rparr>"

definition toy_backend :: "int backend" where
  "toy_backend =
     \<lparr> be_name = ''be'', be_register = [route_exact ''be/acs'' ''acs''],
       be_start_auth = (\<lambda>d c. (Inr (hl_redirect toy_http ''https://idp.example/''), c)),
       be_handle = (\<lambda>_ c. (Inr (AuthResponse toy_answer), c)) \<rparr>"

definition toy_proxy :: "int proxy" where
  "toy_proxy = proxy_new [toy_frontend] [toy_backend] [] toy_sealer"

definition toy_request :: "string \<Rightarrow> string smap \<Rightarrow> http_request" where
  "toy_request path cookies =
     \<lparr> rq_path = path, rq_method = ''GET'', rq_uri = CHR ''/'' # path, rq_query_pairs = [], rq_query = [],
       rq_form_pairs = [], rq_form = [], rq_body = [], rq_headers = [], rq_cookies = cookies \<rparr>"

definition toy_token :: string where
  "toy_token = show_nat 6 @ '':secret'' @ PLAINTEXT_TAG_DEFLATE # ''{0''"

definition toy_header :: string where
  "toy_header = cookie_header toy_sealer toy_token (Some 1800)"

lemma toy_jar: "jar_ok (en_crypto toy_env, px_sealer toy_proxy)"
proof -
  have "sealer_wf toy_sealer" by code_simp
  then show ?thesis by (simp add: toy_env_def toy_crypto_ok toy_proxy_def proxy_new_def)
qed

lemma toy_plugins:
  "px_frontends toy_proxy = [(''fe'', toy_frontend)]" "px_backends toy_proxy = [(''be'', toy_backend)]"
  "px_microservices toy_proxy = []"
  by (simp_all add: toy_proxy_def proxy_new_def bm_of_list_def toy_frontend_def toy_backend_def)

lemma toy_base_kept: "base_kept toy_proxy"
  by (simp add: base_kept_def toy_plugins toy_backend_def keeps_base_pure)

lemma toy_same_issue: "plugins_preserve same_issue toy_proxy"
  by (simp add: plugins_preserve_def toy_plugins toy_frontend_def toy_backend_def issue.pure)

definition toy_rq1 :: http_request where "toy_rq1 = toy_request ''fe/login'' []"
definition toy_rq2 :: http_request where
  "toy_rq2 = toy_request ''be/acs'' [(sl_cookie_name toy_sealer, cookie_token toy_header)]"

definition toy_leg1 :: "int req_context_scheme" where
  "toy_leg1 = \<lparr> cx_request = toy_rq1, cx_target_backend = Some ''be'', cx_target_frontend = Some ''fe'',
     cx_state = \<lparr> st_data = toy_base, st_issued_at = None, st_delete = False \<rparr>,
     cx_decorations = [], \<dots> = 100 \<rparr>"

lemma toy_routes:
  "resolve toy_regex (px_router toy_proxy) ''fe/login'' =
     Some \<lparr> ed_kind = FrontendKind, ed_module = ''fe'', ed_route_id = ''login'' \<rparr>"
  "resolve toy_regex (px_router toy_proxy) ''be/acs'' =
     Some \<lparr> ed_kind = BackendKind, ed_module = ''be'', ed_route_id = ''acs'' \<rparr>"
  by code_simp+

lemma toy_dispatch1:
  "dispatch toy_regex toy_proxy (load_context toy_env toy_proxy toy_rq1 100) =
     (Inr (hl_redirect toy_http ''https://idp.example/''), toy_leg1)"
  by code_simp

lemma toy_sealer_fields [simp]:
  "sl_keys toy_sealer = [''secret'']" "sl_ttl toy_sealer = Some 1800"
  "sl_cookie_name toy_sealer = ''__Host-state''" "sl_max_cookie_bytes toy_sealer = 4096"
  by (simp_all add: toy_sealer_def sealer_new_def recompute_name_def derive_key_def toy_crypto_def
      DEFAULT_TTL_SECONDS_def MAX_COOKIE_BYTES_def HOST_PREFIX_def Let_def strip_prefix_def starts_with_def)

lemma toy_seal_steps:
  "toy_to_json toy_envelopes \<lparr> ev_v = 1, ev_iat = 100, ev_data = toy_base \<rparr> = Some ''{0''"
  "toy_encrypt ''secret'' ''iv'' (PLAINTEXT_TAG_DEFLATE # ''{0'') = Some toy_token"
  "length toy_token = 11" "CHR '';'' \<notin> set toy_token"
  by code_simp+

lemma toy_seal1:
  "seal (en_crypto toy_env) (px_sealer toy_proxy) 100 ''iv'' (cx_state toy_leg1) = Inr toy_header"
  using toy_seal_steps
  by (simp add: seal_def toy_leg1_def toy_env_def toy_proxy_def proxy_new_def toy_crypto_def
      ENVELOPE_VERSION_def MAX_INFLATED_BYTES_def compress_envelope_def Let_def saturating_sub_def
      toy_header_def)

text \<open>A context at the start of a request.\<close>

definition toy_ctx :: "int req_context_scheme" where
  "toy_ctx = context_new toy_rq1 state_new 100"

text \<open>The build context of a service with a given configuration.\<close>

definition toy_build :: "json \<Rightarrow> build_context" where
  "toy_build cfg = \<lparr> bx_name = ''svc'', bx_base_url = ''https://p'', bx_config = cfg,
     bx_attribute_mapper = \<lparr> mp_attributes = [], mp_user_id_from_attrs = [], mp_user_id_to_attr = None \<rparr>,
     bx_secret = ''s'', bx_previous_secrets = [] \<rparr>"

end
