(* ===== verification/Login_Flow.thy ===== *)
theory Login_Flow
  imports Fixtures
begin

text \<open>
  The properties of the orchestrator: the cookie of every response, the two legs of a login, the
  lifetime of a flow, suspension and resumption, completion, errors and routing precedence.
\<close>

section \<open>The cookie of a response\<close>

lemma seal_deleted: "st_delete st \<Longrightarrow> seal lib s now iv st = Inr (clear_cookie s)"
  by (simp add: seal_def)

lemma run_split:
  assumes "handle_request env px rq w = (r, ctx)"
  shows "run env px rq w = (attach_cookie env (px_sealer px) r ctx, req_context.more ctx)"
  using assms by (simp add: run_def)

lemma attach_cookie_cases:
  "attach_cookie env s r ctx =
     (case seal (en_crypto env) s (now_unix (en_clock env (req_context.more ctx)))
             (en_iv env (req_context.more ctx)) (cx_state ctx) of
        Inr h \<Rightarrow> push_header ''set-cookie'' h r
      | Inl _ \<Rightarrow> push_header ''set-cookie'' (clear_cookie s) (hl_text (en_http env) 500 ''request failed''))"
  by (simp add: attach_cookie_def Let_def seal_deleted split: sum.split)

lemma clear_cookie_token:
  "sealer_wf s \<Longrightarrow> cookie_token (clear_cookie s) = []"
  by (simp add: clear_cookie_def cookie_token_header)

lemma unseal_empty [simp]: "unseal lib s now (Some []) = state_new"
  by (simp add: unseal_def)

lemma seal_cookie_fits:
  assumes "jar_ok (lib, s)" "seal lib s t iv st = Inr h" "\<not> st_delete st"
  shows "length (sl_cookie_name s) + 1 + length (cookie_token h) \<le> sl_max_cookie_bytes s"
proof -
  obtain key p token a where "cl_encrypt lib key iv p = Some token" "h = cookie_header s token a"
      "length (sl_cookie_name s) + 1 + length token \<le> sl_max_cookie_bytes s"
    using seal_InrE[OF assms(2,3)] by metis
  then show ?thesis using cookie_token_header[of s] crypto_okD(3)[of lib] assms(1) by simp
qed

text \<open>What a cookie header holds of a session: its data, for as long as the flow is live.\<close>

definition holds_session :: "cookie_jar \<Rightarrow> u64 \<Rightarrow> session \<Rightarrow> string \<Rightarrow> bool" where
  "holds_session k t st h \<longleftrightarrow> (\<forall>now. jar_live k (unwrap_or t (st_issued_at st)) now \<longrightarrow>
     st_data (jar_unseal k now (Some (cookie_token h))) = st_data st)"

text \<open>
  C32. Every response of the proxy ends in a \<open>set-cookie\<close> header: the clear cookie when the
  session is over, the state after the request sealed within the size limit otherwise; when it
  cannot be sealed, the whole response becomes a generic 500 with the clear cookie.
\<close>

theorem run_always_sets_cookie:
  assumes "jar_ok (en_crypto env, px_sealer px)"
    and "handle_request env px rq w = (resp, ctx)"
  shows "\<exists>h base. fst (run env px rq w) = push_header ''set-cookie'' h base \<and>
    (if st_delete (cx_state ctx) then h = clear_cookie (px_sealer px) \<and> base = resp
     else (h = clear_cookie (px_sealer px) \<and> base = hl_text (en_http env) 500 ''request failed'') \<or>
          (base = resp \<and>
           length (sl_cookie_name (px_sealer px)) + 1 + length (cookie_token h) \<le> sl_max_cookie_bytes (px_sealer px) \<and>
           holds_session (en_crypto env, px_sealer px)
             (now_unix (en_clock env (req_context.more ctx))) (cx_state ctx) h))"
proof (cases "seal (en_crypto env) (px_sealer px) (now_unix (en_clock env (req_context.more ctx)))
    (en_iv env (req_context.more ctx)) (cx_state ctx)")
  case (Inl e)
  then have "\<not> st_delete (cx_state ctx)" by (auto simp: seal_deleted)
  with Inl show ?thesis using assms(2) by (auto simp: run_split attach_cookie_cases)
next
  case (Inr h)
  show ?thesis
  proof (cases "st_delete (cx_state ctx)")
    case True
    then show ?thesis using assms(2) by (auto simp: run_split attach_cookie_cases seal_deleted)
  next
    case False
    from Inr have j: "jar_seal (en_crypto env, px_sealer px)
        (now_unix (en_clock env (req_context.more ctx)))
        (en_iv env (req_context.more ctx)) (cx_state ctx) = Inr h" by simp
    have "holds_session (en_crypto env, px_sealer px)
        (now_unix (en_clock env (req_context.more ctx))) (cx_state ctx) h"
      unfolding holds_session_def using jar.load_put[OF assms(1) j False] by simp
    with False Inr seal_cookie_fits[OF assms(1) Inr False] show ?thesis
      by (auto simp: run_split[OF assms(2)] attach_cookie_cases)
  qed
qed

section \<open>The two legs of a login\<close>

text \<open>The first leg: a frontend endpoint starts authentication and the request succeeds.\<close>

lemma start_records_base:
  assumes "context_wf c" "id_requester d = Some r"
  shows "requester (with_state (set_str STATE_KEY_BASE KEY_TARGET_FRONTEND f) (set_requester r c)) = Some r"
    and "get_str (cx_state (with_state (set_str STATE_KEY_BASE KEY_TARGET_FRONTEND f) (set_requester r c)))
           STATE_KEY_BASE KEY_TARGET_FRONTEND = Some f"
    and "context_wf (with_state (set_str STATE_KEY_BASE KEY_TARGET_FRONTEND f) (set_requester r c))"
  using assms by (simp_all add: requester_def with_state_def set_requester_def context_wf_def
      get_str_set_str KEY_REQUESTER_def KEY_TARGET_FRONTEND_def)

lemma keeps_base_get_str:
  "keeps_base c c' \<Longrightarrow> context_wf c \<Longrightarrow> get_str (cx_state c') STATE_KEY_BASE k = get_str (cx_state c) STATE_KEY_BASE k"
  by (simp add: keeps_base_def get_str_value)

lemma first_leg:
  assumes kept: "base_kept px"
    and route: "resolve rx (px_router px) (cx_path c) =
      Some \<lparr> ed_kind = FrontendKind, ed_module = f, ed_route_id = i \<rparr>"
    and fe: "bm_get (px_frontends px) f = Some fe"
    and start: "fe_handle fe i (c\<lparr> cx_target_frontend := Some f \<rparr>) = (Inr (StartAuth d tb), c1)"
    and wf: "context_wf c1" and req: "id_requester d = Some r"
    and ok: "dispatch rx px c = (Inr resp, c2)"
  shows "context_wf c2" "requester c2 = Some r"
    "get_str (cx_state c2) STATE_KEY_BASE KEY_TARGET_FRONTEND = Some f"
    "st_delete (cx_state c2) = st_delete (cx_state c1)"
proof -
  let ?c = "with_state (set_str STATE_KEY_BASE KEY_TARGET_FRONTEND f) (set_requester r c1)"
  have "finish_request px d 0 tb ?c = (Inr resp, c2)"
    using ok route fe start req
    by (simp add: dispatch_def dispatch_frontend_def Let_def bind_flow_def)
  then have k: "keeps_base ?c c2" by (rule keeps_base_finish_request[OF kept])
  note b = start_records_base[OF wf req, of f]
  show "context_wf c2" "requester c2 = Some r"
    "get_str (cx_state c2) STATE_KEY_BASE KEY_TARGET_FRONTEND = Some f"
    using k b keeps_base_get_str[OF k b(3)] by (simp_all add: keeps_base_def requester_def)
  show "st_delete (cx_state c2) = st_delete (cx_state c1)"
    using k b(3) by (simp add: keeps_base_def with_state_def set_requester_def)
qed

text \<open>
  C1. A login survives the round trip through the browser: when a frontend starts a flow for a
  requester and the response cookie comes back, while live, with the answer of a backend, the
  response chain runs with that requester and that frontend, whatever the services in between
  stored.
\<close>

theorem login_round_trip:
  assumes jar: "jar_ok (en_crypto env, px_sealer px)" and kept: "base_kept px"
    and route1: "resolve (en_regex env) (px_router px) (rq_path rq1) =
      Some \<lparr> ed_kind = FrontendKind, ed_module = f, ed_route_id = i \<rparr>"
    and fe: "bm_get (px_frontends px) f = Some fe"
    and start: "fe_handle fe i ((load_context env px rq1 w)\<lparr> cx_target_frontend := Some f \<rparr>)
      = (Inr (StartAuth d tb), c1)"
    and wf: "context_wf c1" "\<not> st_delete (cx_state c1)" and req: "id_requester d = Some r"
    and leg1: "dispatch (en_regex env) px (load_context env px rq1 w) = (Inr resp, c2)"
    and seal: "seal (en_crypto env) (px_sealer px) t iv (cx_state c2) = Inr h"
    and cookie: "bm_get (rq_cookies rq2) (sl_cookie_name (px_sealer px)) = Some (cookie_token h)"
    and live: "fresh (px_sealer px) (unwrap_or t (st_issued_at (cx_state c2))) (now_unix (en_clock env w2))"
    and route2: "resolve (en_regex env) (px_router px) (rq_path rq2) =
      Some \<lparr> ed_kind = BackendKind, ed_module = b, ed_route_id = j \<rparr>"
    and be: "bm_get (px_backends px) b = Some back"
    and answer: "be_handle back j ((load_context env px rq2 w2)\<lparr> cx_target_backend := Some b \<rparr>)
      = (Inr (AuthResponse a), c3)"
    and anon: "id_requester a = None"
  shows "dispatch (en_regex env) px (load_context env px rq2 w2) =
    finish_response px (a\<lparr> id_requester := Some r \<rparr>) 0 (c3\<lparr> cx_target_frontend := Some f \<rparr>)"
proof -
  let ?c = "load_context env px rq2 w2"
  have p1: "cx_path (load_context env px rq1 w) = rq_path rq1" by (simp add: load_context_def cx_path_def)
  note leg = first_leg[OF kept route1[folded p1] fe start wf(1) req leg1]
  have live2: "\<not> st_delete (cx_state c2)" using leg(4) wf(2) by simp
  have st: "cx_state ?c = \<lparr> st_data = st_data (cx_state c2),
      st_issued_at = Some (unwrap_or t (st_issued_at (cx_state c2))), st_delete = False \<rparr>"
    using jar.load_put[OF jar, of t iv "cx_state c2" h] seal live2 live cookie
    by (simp add: load_context_def)
  have same: "get_str (cx_state ?c) n k = get_str (cx_state c2) n k" for n k
    by (simp add: st get_str_def)
  have wfc: "context_wf ?c"
    using leg(1) st by (simp add: context_wf_def state_wf_def load_context_def)
  have kb: "keeps_base (?c\<lparr> cx_target_backend := Some b \<rparr>) c3"
    using base_kept_backend(2)[OF kept be] answer by (blast dest: preservesD)
  have g: "get_str (cx_state c3) STATE_KEY_BASE k = get_str (cx_state c2) STATE_KEY_BASE k" for k
    using keeps_base_get_str[OF kb] wfc same by simp
  have "requester (c3\<lparr> cx_target_frontend := Some f \<rparr>) = Some r"
    using leg(2) g by (simp add: requester_def)
  moreover have "cx_path ?c = rq_path rq2" by (simp add: load_context_def cx_path_def)
  ultimately show ?thesis
    using route2 be answer anon g leg(3)
    by (simp add: dispatch_def dispatch_backend_def Let_def bind_flow_def)
qed

section \<open>The lifetime of a flow\<close>

lemma push_header_eqD: "push_header k v r = push_header k v' r' \<Longrightarrow> v = v'"
  by (cases r; cases r') (simp add: push_header_def)

text \<open>
  C6. Each request of a flow returns a cookie that is readable only while the flow's first
  cookie is fresh: no number of intermediate requests extends the lifetime of a flow.
\<close>

theorem flow_lifetime_absolute:
  assumes jar: "jar_ok (en_crypto env, px_sealer px)"
    and plugins: "plugins_preserve same_issue px"
    and flow: "flow_token (en_crypto env) (px_sealer px) t0 tok"
    and cookie: "bm_get (rq_cookies rq) (sl_cookie_name (px_sealer px)) = Some tok"
    and loaded: "unseal (en_crypto env) (px_sealer px) (now_unix (en_clock env w)) (Some tok) \<noteq> state_new"
    and resp: "fst (run env px rq w) = push_header ''set-cookie'' h base"
    and readable: "unseal (en_crypto env) (px_sealer px) now (Some (cookie_token h)) \<noteq> state_new"
  shows "flow_token (en_crypto env) (px_sealer px) t0 (cookie_token h) \<and> fresh (px_sealer px) t0 now"
proof -
  obtain r ctx where rc: "handle_request env px rq w = (r, ctx)" by fastforce
  have iss: "st_issued_at (cx_state ctx) =
      st_issued_at (unseal (en_crypto env) (px_sealer px) (now_unix (en_clock env w)) (Some tok))"
    using issue.request_frame[OF plugins rc] cookie by (simp add: same_issue_def load_context_def)
  let ?t = "now_unix (en_clock env (req_context.more ctx))"
  let ?iv = "en_iv env (req_context.more ctx)"
  have clear: "cookie_token (clear_cookie (px_sealer px)) = []"
    using jar clear_cookie_token by simp
  have "seal (en_crypto env) (px_sealer px) ?t ?iv (cx_state ctx) = Inr h \<and> \<not> st_delete (cx_state ctx)"
  proof (cases "seal (en_crypto env) (px_sealer px) ?t ?iv (cx_state ctx)")
    case (Inl e)
    then have "h = clear_cookie (px_sealer px)"
      using resp push_header_eqD by (fastforce simp: run_split[OF rc] attach_cookie_cases)
    with readable clear show ?thesis by simp
  next
    case (Inr h')
    then have "h' = h" using resp push_header_eqD by (fastforce simp: run_split[OF rc] attach_cookie_cases)
    with Inr readable clear show ?thesis by (auto simp: seal_deleted)
  qed
  then have "flow_token (en_crypto env) (px_sealer px) t0 (cookie_token h)"
    using flow_token.resealed[OF flow loaded iss] by blast
  with flow_token_dated[OF jar this, of now] readable show ?thesis by simp
qed

section \<open>Suspension and resumption\<close>

lemma request_chain_append:
  "request_chain (xs @ ys) d = bind_flow (request_chain xs d) (request_chain ys)"
proof (induction xs arbitrary: d)
  case (Cons x xs)
  then show ?case by (auto simp: bind_flow_def fun_eq_iff split: prod.split sum.split)
qed (simp add: bind_flow_def fun_eq_iff)

lemma bind_flow_assoc: "bind_flow (bind_flow m k) l = bind_flow m (\<lambda>v. bind_flow (k v) l)"
  by (auto simp: bind_flow_def fun_eq_iff split: prod.split sum.split)

text \<open>
  The request chain can be cut anywhere: running the first services and then finishing from
  the next index is running the whole chain from the start, errors included.
\<close>

theorem request_chain_resumable:
  "finish_request px d i pin =
     bind_flow (request_chain (take n (drop i (px_microservices px))) d)
       (\<lambda>d'. finish_request px d' (i + n) pin)"
proof -
  have "drop i (px_microservices px) = take n (drop i (px_microservices px)) @ drop (i + n) (px_microservices px)"
    by (metis append_take_drop_id drop_drop add.commute)
  then have "request_chain (drop i (px_microservices px)) d = bind_flow
      (request_chain (take n (drop i (px_microservices px))) d)
      (request_chain (drop (i + n) (px_microservices px)))"
    by (metis request_chain_append)
  then show ?thesis by (simp add: finish_request_def bind_flow_assoc)
qed

text \<open>
  C33. A resumed request runs only the services after the one that resumes it: what the earlier
  services, and the resuming one, do to requests and responses has no influence.
\<close>

theorem resume_skips_earlier_services:
  assumes names: "map ms_name pre' = map ms_name pre" and nonempty: "pre \<noteq> []"
    and module: "ms_name (last pre) = module" "module \<notin> ms_name ` set (butlast pre)"
    and same_handle: "ms_handle (last pre') = ms_handle (last pre)"
  shows "dispatch_microservice (px\<lparr> px_microservices := pre' @ rest \<rparr>) module i =
         dispatch_microservice (px\<lparr> px_microservices := pre @ rest \<rparr>) module i"
proof -
  have pos: "position (\<lambda>m. ms_name m = module) (ps @ rest) = Some (length ps - 1)"
    if "ps \<noteq> []" "ms_name (last ps) = module" "module \<notin> ms_name ` set (butlast ps)"
    for ps :: "'w micro_service list" and rest
    using that by (induction ps) (auto split: if_splits)
  have len: "length pre' = length pre" using names map_eq_imp_length_eq by blast
  have ne: "pre' \<noteq> []" using len nonempty by auto
  have last: "ms_name (last pre') = module"
    using names module(1) nonempty ne by (metis last_map)
  have "ms_name ` set (butlast pre') = ms_name ` set (butlast pre)"
    using names by (metis image_set map_butlast)
  then have p': "position (\<lambda>m. ms_name m = module) (pre' @ rest) = Some (length pre - 1)"
    using pos[OF ne last] module(2) len by simp
  have p: "position (\<lambda>m. ms_name m = module) (pre @ rest) = Some (length pre - 1)"
    using pos[OF nonempty module] by simp
  obtain l where l: "length pre = Suc l" using nonempty by (cases pre) auto
  have nth: "(pre' @ rest) ! l = last pre'" "(pre @ rest) ! l = last pre"
    using nonempty ne len l by (simp_all add: nth_append last_conv_nth)
  have fin: "finish_request (px\<lparr> px_microservices := pre' @ rest \<rparr>) d (l + 1) None =
        finish_request (px\<lparr> px_microservices := pre @ rest \<rparr>) d (l + 1) None"
    "finish_response (px\<lparr> px_microservices := pre' @ rest \<rparr>) d (l + 1) =
     finish_response (px\<lparr> px_microservices := pre @ rest \<rparr>) d (l + 1)" for d
    using len l by (simp_all add: finish_request_def finish_response_def select_backend_def
        cong: option.case_cong sum.case_cong)
  have q: "position (\<lambda>m. ms_name m = module) (pre' @ rest) = Some l"
    "position (\<lambda>m. ms_name m = module) (pre @ rest) = Some l"
    using p p' l by simp_all
  have services: "px_microservices (px\<lparr> px_microservices := ms \<rparr>) = ms" for ms by simp
  show ?thesis
    by (intro ext) (simp only: dispatch_microservice_def services q option.case nth same_handle fin)
qed

section \<open>Completion\<close>

text \<open>
  A flow whose response reaches the frontend's rendering ends with the clear cookie; one
  that a service interrupts leaves the context, and so the cookie, to the interrupting service.
\<close>

theorem completed_flow_clears_cookie:
  assumes "finish_response px d i c = (Inr resp, c')"
    and "response_chain (drop i (px_microservices px)) d c = (Inr x, c1)"
  shows "case x of
      Inr _ \<Rightarrow> attach_cookie env s resp c' = push_header ''set-cookie'' (clear_cookie s) resp
    | Inl http \<Rightarrow> resp = http \<and> c' = c1"
proof (cases x)
  case (Inl http)
  then show ?thesis using assms by (simp add: finish_response_def bind_flow_def)
next
  case (Inr d')
  with assms have "st_delete (cx_state c')"
    by (auto simp: finish_response_def bind_flow_def with_state_def Let_def
        split: option.splits prod.splits sum.splits)
  with Inr show ?thesis by (simp add: attach_cookie_cases seal_deleted)
qed

section \<open>Errors\<close>

lemma lower_schemes [simp]:
  "to_ascii_lowercase ''https://'' = ''https://''" "to_ascii_lowercase ''http://'' = ''http://''"
  by (simp_all add: to_ascii_lowercase_def ascii_lower_def byte_def)

lemma redirect_rest_SomeD:
  assumes "redirect_rest url = Some rest"
  shows "\<exists>scheme. url = scheme @ rest \<and> to_ascii_lowercase scheme \<in> {''https://'', ''http://''}"
proof -
  obtain p where p: "p \<in> set [''https://'', ''http://'']"
    and "(if length p \<le> length url \<and> eq_ignore_ascii_case (take (length p) url) p
          then Some (drop (length p) url) else None) = Some rest"
    using find_map_SomeD[OF assms[unfolded redirect_rest_def]] by blast
  then have e: "to_ascii_lowercase (take (length p) url) = to_ascii_lowercase p"
      and rest: "rest = drop (length p) url"
    by (simp_all add: eq_ignore_ascii_case_def split: if_split_asm)
  have "to_ascii_lowercase p = p" using p lower_schemes by (metis set_ConsD empty_iff empty_set)
  with e p have "to_ascii_lowercase (take (length p) url) \<in> {''https://'', ''http://''}" by simp
  with rest show ?thesis by (intro exI[of _ "take (length p) url"]) simp
qed

lemma redirect_rest_SomeI:
  assumes "to_ascii_lowercase scheme \<in> {''https://'', ''http://''}"
  shows "redirect_rest (scheme @ rest) = Some rest"
proof (cases "to_ascii_lowercase scheme = ''https://''")
  case True
  then have "length scheme = 8" unfolding to_ascii_lowercase_def by (auto dest: arg_cong[of _ _ length])
  then show ?thesis unfolding redirect_rest_def by (simp add: eq_ignore_ascii_case_def True)
next
  case False
  with assms have h: "to_ascii_lowercase scheme = ''http://''" by simp
  then have l: "length scheme = 7" unfolding to_ascii_lowercase_def by (auto dest: arg_cong[of _ _ length])
  have "\<not> eq_ignore_ascii_case (take 8 (scheme @ rest)) ''https://''"
  proof
    assume "eq_ignore_ascii_case (take 8 (scheme @ rest)) ''https://''"
    then have "take 7 (to_ascii_lowercase (take 8 (scheme @ rest))) = take 7 (to_ascii_lowercase ''https://'')"
      by (simp add: eq_ignore_ascii_case_def)
    then have "to_ascii_lowercase scheme = take 7 (to_ascii_lowercase ''https://'')"
      using l by (simp add: to_ascii_lowercase_def take_map)
    with h show False by simp
  qed
  with l show ?thesis unfolding redirect_rest_def by (simp add: eq_ignore_ascii_case_def h)
qed

text \<open>
  An error redirect goes to an absolute http or https URL with something after the scheme
  and holds no byte that could end the \<open>Location\<close> header or the URL in it.
\<close>

theorem error_redirect_valid_iff:
  "is_valid_error_redirect url \<longleftrightarrow>
     (\<exists>scheme rest. url = scheme @ rest \<and> rest \<noteq> [] \<and>
        to_ascii_lowercase scheme \<in> {''https://'', ''http://''}) \<and>
     (\<forall>c \<in> set url. \<not> is_ascii_control c \<and> c \<noteq> CHR '' '')"
proof
  assume "is_valid_error_redirect url"
  then show "(\<exists>scheme rest. url = scheme @ rest \<and> rest \<noteq> [] \<and>
        to_ascii_lowercase scheme \<in> {''https://'', ''http://''}) \<and>
     (\<forall>c \<in> set url. \<not> is_ascii_control c \<and> c \<noteq> CHR '' '')"
    by (auto simp: is_valid_error_redirect_def list_ex_iff split: option.splits
        dest!: redirect_rest_SomeD)
next
  assume a: "(\<exists>scheme rest. url = scheme @ rest \<and> rest \<noteq> [] \<and>
        to_ascii_lowercase scheme \<in> {''https://'', ''http://''}) \<and>
     (\<forall>c \<in> set url. \<not> is_ascii_control c \<and> c \<noteq> CHR '' '')"
  then obtain scheme rest where "url = scheme @ rest" "rest \<noteq> []"
    "to_ascii_lowercase scheme \<in> {''https://'', ''http://''}" by blast
  then have "redirect_rest url = Some rest" "rest \<noteq> []" using redirect_rest_SomeI by blast+
  with a show "is_valid_error_redirect url" by (auto simp: is_valid_error_redirect_def list_ex_iff)
qed

theorem error_redirect_valid_iff_witness:
  "is_valid_error_redirect ''HTTPS://a.b/c'' \<and> \<not> is_valid_error_redirect ''https://''"
proof -
  have lower: "to_ascii_lowercase ''HTTPS://'' = ''https://''" by code_simp
  have ok: "\<forall>c \<in> set ''HTTPS://a.b/c''. \<not> is_ascii_control c \<and> c \<noteq> CHR '' ''" by code_simp
  have "(\<exists>scheme rest. ''HTTPS://a.b/c'' = scheme @ rest \<and> rest \<noteq> [] \<and>
        to_ascii_lowercase scheme \<in> {''https://'', ''http://''})"
    by (rule exI[of _ "''HTTPS://''"], rule exI[of _ "''a.b/c''"])
       (simp only: lower append.simps insertI1 simp_thms list.distinct)
  from conjI[OF this ok] have "is_valid_error_redirect ''HTTPS://a.b/c''"
    unfolding error_redirect_valid_iff .
  moreover have "\<not> is_valid_error_redirect ''https://''" by code_simp
  ultimately show ?thesis by blast
qed

text \<open>
  C34. What a client sees of an error: a redirect to a valid URL, the rendering of a registered
  frontend, or a body that depends on nothing but the status of the error.
\<close>

theorem error_response_discloses_nothing:
  assumes "render_error http px e c = (resp, c')"
  shows "(\<exists>url. resp = hl_redirect http url \<and> is_valid_error_redirect url \<and>
            decoration c KEY_ERROR_REDIRECT = Some (JString url)) \<or>
    (\<exists>f \<in> snd ` set (px_frontends px). fe_error f e c = (Inr resp, c')) \<or>
    resp = hl_text http (hl_status_hint http e) ''request failed''"
proof (cases "opt_filter is_valid_error_redirect (Option.bind (decoration c KEY_ERROR_REDIRECT) as_str)")
  case (Some url)
  then have "is_valid_error_redirect url" "Option.bind (decoration c KEY_ERROR_REDIRECT) as_str = Some url"
    by (auto simp: opt_filter_def split: option.splits if_splits)
  then have "decoration c KEY_ERROR_REDIRECT = Some (JString url)"
    by (auto simp: bind_eq_Some_conv elim: as_str.elims)
  with Some \<open>is_valid_error_redirect url\<close> assms show ?thesis by (auto simp: render_error_def)
next
  case None
  show ?thesis
  proof (cases "Option.bind (virtual_idp c) (bm_get (px_frontends px))")
    case None': None
    with None assms show ?thesis by (simp add: render_error_def Let_def)
  next
    case (Some f)
    then obtain n where "bm_get (px_frontends px) n = Some f" by (cases "virtual_idp c") auto
    with None Some assms show ?thesis
      by (auto simp: render_error_def Let_def dest: bm_get_in_values split: prod.splits sum.splits)
  qed
qed

section \<open>Routing precedence\<close>

lemma proxy_view: "router_view (px_router (proxy_new fs bs ms s)) (endpoints (registrations fs bs ms))"
  using router_view_add_all[OF router_view_new] by (simp add: proxy_new_def)

text \<open>
  Routing is the first matching literal endpoint in registration order, else the first
  matching regex endpoint; the endpoints are those of the frontends, then of the micro-services,
  then of the backends.
\<close>

theorem proxy_routes_in_order:
  "resolve rx (px_router (proxy_new fs bs ms s)) path =
     or_else (linear_scan rx (filter (\<lambda>e. is_exact (fst e)) (endpoints (registrations fs bs ms))) path)
             (linear_scan rx (filter (\<lambda>e. \<not> is_exact (fst e)) (endpoints (registrations fs bs ms))) path)"
  by (rule resolve_view[OF proxy_view])

lemma endpoints_kinds:
  "map (\<lambda>e. ed_kind (snd e)) (endpoints regs) = concat (map (\<lambda>(k, m, rs). map (\<lambda>r. k) rs) regs)"
  by (induction regs) (auto simp: endpoints_def)

lemma registrations_sorted:
  "sorted (map (\<lambda>e. ed_kind (snd e)) (endpoints (registrations fs bs ms)))"
proof -
  have k: "FrontendKind \<le> x" "x \<le> BackendKind" for x
    by (cases x; simp add: less_eq_module_kind_def)+
  have c: "sorted (concat (map (\<lambda>(k, m, rs). map (\<lambda>r. k) rs) (map (\<lambda>y. (z, g y, h y)) ys)))"
    for z :: module_kind and g :: "'x \<Rightarrow> string" and h :: "'x \<Rightarrow> route list" and ys
    by (induction ys) (auto simp: sorted_append map_replicate_const)
  show ?thesis unfolding endpoints_kinds registrations_def map_append concat_append
    by (auto simp: sorted_append c[simplified] k)
qed

text \<open>
  When several modules register the same literal path, the endpoint of the kind with the
  highest precedence answers: a frontend before a micro-service before a backend.
\<close>

theorem literal_path_precedence:
  assumes "e \<in> set (endpoints (registrations fs bs ms))" "fst e = Exact path"
  shows "\<exists>d. resolve rx (px_router (proxy_new fs bs ms s)) path = Some d \<and> ed_kind d \<le> ed_kind (snd e)"
proof -
  let ?eps = "endpoints (registrations fs bs ms)"
  have view: "bm_get (rt_exact (px_router (proxy_new fs bs ms s))) path =
      map_option snd (List.find (\<lambda>e. fst e = Exact path) ?eps)"
    using proxy_view[of fs bs ms s] by (simp add: router_view_def)
  obtain j where j: "j < length ?eps" "e = ?eps ! j" using assms(1) by (auto simp: in_set_conv_nth)
  obtain e0 where e0: "List.find (\<lambda>e. fst e = Exact path) ?eps = Some e0"
    using assms find_None_iff[of "\<lambda>e. fst e = Exact path" ?eps] by blast
  then obtain i where i: "i < length ?eps" "e0 = ?eps ! i" "\<forall>k < i. fst (?eps ! k) \<noteq> Exact path"
    by (auto simp: find_Some_iff)
  have "i \<le> j" using i(3) j(2) assms(2) not_le by blast
  then have "map (\<lambda>e. ed_kind (snd e)) ?eps ! i \<le> map (\<lambda>e. ed_kind (snd e)) ?eps ! j"
    using j(1) by (intro sorted_nth_mono[OF registrations_sorted]) simp_all
  then have "ed_kind (snd e0) \<le> ed_kind (snd e)"
    by (simp only: nth_map[OF i(1)] nth_map[OF j(1)] i(2) j(2))
  moreover have "resolve rx (px_router (proxy_new fs bs ms s)) path = Some (snd e0)"
    using view e0 by (simp add: resolve_def)
  ultimately show ?thesis by blast
qed

lemma resolve_in_endpoints:
  assumes "router_view rt eps" "resolve rx rt path = Some d"
  shows "\<exists>m. (m, d) \<in> set eps"
proof -
  have scan: "\<exists>m. (m, d) \<in> set (filter p eps)" if "linear_scan rx (filter p eps) path = Some d" for p
    using linear_scan_SomeD[OF that] by (metis nth_mem)
  have "linear_scan rx (filter (\<lambda>e. is_exact (fst e)) eps) path = Some d \<or>
      linear_scan rx (filter (\<lambda>e. \<not> is_exact (fst e)) eps) path = Some d"
    using assms(2) unfolding resolve_view[OF assms(1)] or_else_def by (auto split: option.splits)
  then show ?thesis using scan by fastforce
qed

text \<open>
  No route dangles: the module a path resolves to is one the proxy holds, so dispatch does
  not fail with an unknown frontend, backend or micro-service.
\<close>

theorem resolved_module_exists:
  assumes "resolve rx (px_router (proxy_new fs bs ms s)) path = Some d"
  shows "case ed_kind d of
      FrontendKind \<Rightarrow> bm_get (px_frontends (proxy_new fs bs ms s)) (ed_module d) \<noteq> None
    | MicroServiceKind \<Rightarrow> position (\<lambda>m. ms_name m = ed_module d) (px_microservices (proxy_new fs bs ms s)) \<noteq> None
    | BackendKind \<Rightarrow> bm_get (px_backends (proxy_new fs bs ms s)) (ed_module d) \<noteq> None"
  proof -
  obtain m where "(m, d) \<in> set (endpoints (registrations fs bs ms))"
    using assms resolve_in_endpoints[OF proxy_view] by blast
  then show ?thesis
    by (auto simp: endpoints_def registrations_def proxy_new_def bm_get_of_list position_None_iff
        map_of_eq_None_iff image_image)
qed

section \<open>Witnesses\<close>

text \<open>A login through the small proxy: started at 100, answered at 200.\<close>

definition toy_loaded1 :: "int req_context_scheme" where
  "toy_loaded1 = context_new toy_rq1 state_new 100"

definition toy_loaded2 :: "int req_context_scheme" where
  "toy_loaded2 = context_new toy_rq2 \<lparr> st_data = toy_base, st_issued_at = Some 100, st_delete = False \<rparr> 200"

lemma toy_token_header: "cookie_token toy_header = toy_token"
  using toy_jar toy_seal_steps(4)
  by (simp add: toy_header_def cookie_token_header toy_proxy_def proxy_new_def)

lemma toy_load1: "load_context toy_env toy_proxy toy_rq1 100 = toy_loaded1"
  by (simp add: load_context_def toy_rq1_def toy_request_def toy_loaded1_def unseal_def)

lemma toy_px_sealer: "px_sealer toy_proxy = toy_sealer" "en_regex toy_env = toy_regex" "en_http toy_env = toy_http"
  "en_clock toy_env = (\<lambda>w. w)" "en_iv toy_env = (\<lambda>w. ''iv'')"
  by (simp_all add: toy_proxy_def proxy_new_def toy_env_def)

lemma toy_fresh: "fresh toy_sealer 100 200" "jar_live (lib, toy_sealer) 100 200"
  by (simp_all add: fresh_def MAX_IAT_SKEW_SECONDS_def saturating_sub_def)

lemma toy_cookie2: "bm_get (rq_cookies toy_rq2) (sl_cookie_name (px_sealer toy_proxy)) = Some (cookie_token toy_header)"
  by (simp add: toy_rq2_def toy_request_def toy_px_sealer)

lemma toy_unseal2:
  "unseal (en_crypto toy_env) (px_sealer toy_proxy) 200 (Some (cookie_token toy_header)) =
     \<lparr> st_data = toy_base, st_issued_at = Some 100, st_delete = False \<rparr>"
  using jar.load_put[OF toy_jar, of 100 "''iv''" "cx_state toy_leg1" toy_header 200] toy_seal1 toy_fresh
  by (simp add: toy_leg1_def toy_px_sealer)

lemma toy_load2: "load_context toy_env toy_proxy toy_rq2 200 = toy_loaded2"
  using toy_unseal2 unfolding load_context_def toy_cookie2
  by (simp add: toy_loaded2_def toy_px_sealer now_unix_def)

lemma toy_handle1: "handle_request toy_env toy_proxy toy_rq1 100 =
    (hl_redirect toy_http ''https://idp.example/'', toy_leg1)"
  using toy_dispatch1 by (simp add: handle_request_def toy_px_sealer)

lemma toy_run1: "run toy_env toy_proxy toy_rq1 100 =
    (push_header ''set-cookie'' toy_header (hl_redirect toy_http ''https://idp.example/''), 100)"
  using toy_seal1
  by (simp add: run_split[OF toy_handle1] attach_cookie_cases toy_px_sealer now_unix_def toy_leg1_def)

theorem run_always_sets_cookie_witness:
  "\<exists>h base. fst (run toy_env toy_proxy toy_rq1 100) = push_header ''set-cookie'' h base \<and>
     holds_session (en_crypto toy_env, px_sealer toy_proxy) 100 (cx_state toy_leg1) h"
proof -
  have s: "\<not> st_delete (cx_state toy_leg1)" "now_unix (en_clock toy_env (req_context.more toy_leg1)) = 100"
    by (simp_all add: toy_leg1_def toy_px_sealer now_unix_def)
  have ne: "push_header ''set-cookie'' (clear_cookie (px_sealer toy_proxy))
      (hl_text (en_http toy_env) 500 ''request failed'') \<noteq> fst (run toy_env toy_proxy toy_rq1 100)"
    by (simp add: toy_run1 push_header_def toy_http_def toy_px_sealer)
  show ?thesis using run_always_sets_cookie[OF toy_jar toy_handle1] s ne by auto
qed

lemma toy_start: "fe_handle toy_frontend ''login'' c = (Inr (StartAuth toy_login None), c)"
  "be_handle toy_backend ''acs'' c = (Inr (AuthResponse toy_answer), c)"
  by (simp_all add: toy_frontend_def toy_backend_def)

lemma toy_paths: "rq_path toy_rq1 = ''fe/login''" "rq_path toy_rq2 = ''be/acs''"
  by (simp_all add: toy_rq1_def toy_rq2_def toy_request_def)

lemma state_new_live: "\<not> st_delete state_new"
  by (simp add: state_new_def)

theorem login_round_trip_witness:
  "dispatch (en_regex toy_env) toy_proxy toy_loaded2 =
     finish_response toy_proxy (toy_answer\<lparr> id_requester := Some ''rp'' \<rparr>) 0
       (toy_loaded2\<lparr> cx_target_backend := Some ''be'', cx_target_frontend := Some ''fe'' \<rparr>)"
  using login_round_trip[OF toy_jar toy_base_kept, of toy_rq1 "''fe''" "''login''" toy_frontend 100
      toy_login None "toy_loaded1\<lparr> cx_target_frontend := Some ''fe'' \<rparr>" "''rp''"
      "hl_redirect toy_http ''https://idp.example/''" toy_leg1 100 "''iv''" toy_header toy_rq2 200
      "''be''" "''acs''" toy_backend toy_answer "toy_loaded2\<lparr> cx_target_backend := Some ''be'' \<rparr>"]
    toy_seal1 toy_cookie2 toy_dispatch1 toy_routes
  by (simp add: toy_px_sealer toy_paths toy_plugins toy_load1 toy_load2 toy_start
      toy_login_def toy_answer_def internal_default_def toy_loaded1_def toy_leg1_def toy_fresh now_unix_def
      state_new_live)

text \<open>A second request of the same flow, at 200: its cookie still dates from 100.\<close>

definition toy_rq3 :: http_request where
  "toy_rq3 = toy_request ''fe/login'' [(''__Host-state'', toy_token)]"

definition toy_leg3 :: "int req_context_scheme" where
  "toy_leg3 = \<lparr> cx_request = toy_rq3, cx_target_backend = Some ''be'', cx_target_frontend = Some ''fe'',
     cx_state = \<lparr> st_data = toy_base, st_issued_at = Some 100, st_delete = False \<rparr>,
     cx_decorations = [], \<dots> = 200 \<rparr>"

lemma toy_dispatch3:
  "dispatch toy_regex toy_proxy (context_new toy_rq3
     \<lparr> st_data = toy_base, st_issued_at = Some 100, st_delete = False \<rparr> 200) =
     (Inr (hl_redirect toy_http ''https://idp.example/''), toy_leg3)"
  by code_simp

lemma toy_handle3: "handle_request toy_env toy_proxy toy_rq3 200 =
    (hl_redirect toy_http ''https://idp.example/'', toy_leg3)"
  using toy_dispatch3 toy_unseal2
  by (simp add: handle_request_def toy_px_sealer load_context_def toy_rq3_def toy_request_def
      toy_token_header now_unix_def)

definition toy_header3 :: string where
  "toy_header3 = cookie_header toy_sealer toy_token (Some 1700)"

lemma toy_seal3:
  "seal (en_crypto toy_env) toy_sealer 200 ''iv'' (cx_state toy_leg3) = Inr toy_header3"
  using toy_seal_steps
  by (simp add: seal_def toy_leg3_def toy_env_def toy_crypto_def
      ENVELOPE_VERSION_def MAX_INFLATED_BYTES_def compress_envelope_def Let_def saturating_sub_def
      toy_header3_def)

theorem flow_lifetime_absolute_witness:
  "flow_token (en_crypto toy_env) (px_sealer toy_proxy) 100 (cookie_token toy_header3) \<and>
   fresh (px_sealer toy_proxy) 100 1800"
proof (rule flow_lifetime_absolute[OF toy_jar toy_same_issue, of 100 "cookie_token toy_header" toy_rq3 200
      toy_header3 "hl_redirect toy_http ''https://idp.example/''"])
  show "flow_token (en_crypto toy_env) (px_sealer toy_proxy) 100 (cookie_token toy_header)"
    by (rule flow_token.started[OF _ _ toy_seal1]) (simp_all add: toy_leg1_def)
  show "fst (run toy_env toy_proxy toy_rq3 200) =
      push_header ''set-cookie'' toy_header3 (hl_redirect toy_http ''https://idp.example/'')"
    using toy_seal3
    by (simp add: run_split[OF toy_handle3] attach_cookie_cases toy_px_sealer now_unix_def toy_leg3_def)
  show "unseal (en_crypto toy_env) (px_sealer toy_proxy) 1800 (Some (cookie_token toy_header3)) \<noteq> state_new"
    using jar.load_put[OF toy_jar, of 200 "''iv''" "cx_state toy_leg3" toy_header3 1800] toy_seal3
    by (simp add: toy_leg3_def toy_px_sealer fresh_def MAX_IAT_SKEW_SECONDS_def saturating_sub_def
        state_new_def)
qed (simp_all add: toy_rq3_def toy_request_def toy_token_header toy_px_sealer now_unix_def
      toy_unseal2[simplified toy_px_sealer toy_token_header] state_new_def)

theorem resume_skips_earlier_services_witness:
  "dispatch_microservice (toy_proxy\<lparr> px_microservices := [(ms_default ''a'')\<lparr> ms_request := (\<lambda>d c. (Inl (ErrAuthn ''no''), c)) \<rparr>] @ [ms_default ''b''] \<rparr>) ''a'' ''r'' =
   dispatch_microservice (toy_proxy\<lparr> px_microservices := [ms_default ''a''] @ [ms_default ''b''] \<rparr>) ''a'' ''r''"
  by (rule resume_skips_earlier_services) (simp_all add: ms_default_def)

theorem completed_flow_clears_cookie_witness:
  "attach_cookie toy_env toy_sealer (hl_text toy_http 200 ''rp'')
     (with_state (\<lambda>s. s\<lparr> st_delete := True \<rparr>) (toy_loaded2\<lparr> cx_target_frontend := Some ''fe'' \<rparr>)) =
   push_header ''set-cookie'' (clear_cookie toy_sealer) (hl_text toy_http 200 ''rp'')"
  using completed_flow_clears_cookie[of toy_proxy toy_login 0 "toy_loaded2\<lparr> cx_target_frontend := Some ''fe'' \<rparr>"
      "hl_text toy_http 200 ''rp''"
      "with_state (\<lambda>s. s\<lparr> st_delete := True \<rparr>) (toy_loaded2\<lparr> cx_target_frontend := Some ''fe'' \<rparr>)"
      "Inr toy_login" "toy_loaded2\<lparr> cx_target_frontend := Some ''fe'' \<rparr>" toy_env toy_sealer]
  by (simp add: finish_response_def bind_flow_def toy_plugins virtual_idp_def toy_frontend_def toy_login_def)

theorem error_response_discloses_nothing_witness:
  "hl_text toy_http 401 ''request failed'' \<noteq> hl_redirect toy_http ''javascript:x'' \<and>
   (\<exists>c. fst (render_error toy_http toy_proxy (ErrAuthn ''secret detail'')
       (decorate KEY_ERROR_REDIRECT (JString ''javascript:x'') toy_loaded2)) =
     hl_text toy_http 401 ''request failed'')"
proof -
  let ?c = "decorate KEY_ERROR_REDIRECT (JString ''javascript:x'') toy_loaded2"
  have j: "\<not> is_valid_error_redirect ''javascript:x''" by code_simp
  have d: "decoration ?c KEY_ERROR_REDIRECT = Some (JString ''javascript:x'')"
    by (simp add: decoration_decorate toy_loaded2_def context_wf_def state_wf_def toy_base_def jm_wf_def)
  obtain r c' where rc: "render_error toy_http toy_proxy (ErrAuthn ''secret detail'') ?c = (r, c')" by fastforce
  from error_response_discloses_nothing[OF rc] j d have "r = hl_text toy_http 401 ''request failed''"
    by (auto simp: toy_plugins toy_frontend_def toy_http_def)
  with rc show ?thesis by (simp add: toy_http_def)
qed

theorem literal_path_precedence_witness:
  "\<exists>d. resolve toy_regex (px_router (proxy_new [toy_frontend] [toy_backend] [] toy_sealer)) ''be/acs'' = Some d
     \<and> ed_kind d \<le> BackendKind"
  using literal_path_precedence[of "(Exact ''be/acs'', \<lparr> ed_kind = BackendKind, ed_module = ''be'', ed_route_id = ''acs'' \<rparr>)"
      "[toy_frontend]" "[toy_backend]" "[]" "''be/acs''" toy_regex toy_sealer]
  by (simp add: endpoints_def registrations_def toy_backend_def toy_frontend_def route_exact_def)

theorem resolved_module_exists_witness:
  "bm_get (px_backends (proxy_new [toy_frontend] [toy_backend] [] toy_sealer)) ''be'' \<noteq> None"
  using resolved_module_exists[of toy_regex "[toy_frontend]" "[toy_backend]" "[]" toy_sealer "''be/acs''"]
    toy_routes(2) by (simp add: toy_proxy_def)

end
