(* ===== verification/Config.thy ===== *)
theory Config
  imports Json Rust_Str Sealer
begin

text \<open>
  Configuration loading of \<open>config.rs\<close>: environment interpolation, the typed configuration with
  its defaults, include files, validation, and the conversion of plugin tables to JSON.  The TOML
  text parser, the file system and the process environment are parameters.  Shown: what
  interpolation does to a template, the exact conditions under which a configuration is valid,
  and that a parse error names a position without showing the source.
\<close>

section \<open>TOML values\<close>

datatype toml =
    TString string
  | TInteger int
  | TFloat u64
  | TBoolean bool
  | TDatetime string
  | TArray "toml list"
  | TTable "(string \<times> toml) list"

type_synonym ttable = "(string \<times> toml) list"

text \<open>\<open>serde_json::Number::from_f64\<close> refuses infinities and NaN: exponent bits all ones.\<close>

definition f64_finite :: "u64 \<Rightarrow> bool" where
  "f64_finite b \<longleftrightarrow> unat b div 2 ^ 52 mod 2 ^ 11 \<noteq> 2 ^ 11 - 1"

fun toml_to_json :: "toml \<Rightarrow> json" where
  "toml_to_json (TString s) = JString s"
| "toml_to_json (TInteger i) = JNumber (NInt i)"
| "toml_to_json (TFloat f) = (if f64_finite f then JNumber (NFloat f) else JNull)"
| "toml_to_json (TBoolean b) = JBool b"
| "toml_to_json (TDatetime d) = JString d"
| "toml_to_json (TArray xs) = JArray (map toml_to_json xs)"
| "toml_to_json (TTable t) = JObject (jm_of_list (map (\<lambda>(k, v). (k, toml_to_json v)) t))"

section \<open>Typed configuration\<close>

record logging_config =
  lc_level :: string
  lc_format :: string

record python_config =
  py_module_path :: string
  py_venv :: "string option"
  py_max_concurrent_calls :: nat
  py_call_timeout_seconds :: nat

record plugin_config =
  pc_kind :: string
  pc_name :: string
  pc_config :: toml
  pc_include :: "string option"

record tls_config =
  tls_cert_path :: string
  tls_key_path :: string

record proxy_config =
  cf_base_url :: string
  cf_state_encryption_key :: string
  cf_previous_keys :: "string list"
  cf_cookie_name :: string
  cf_cookie_secure :: bool
  cf_cookie_same_site :: string
  cf_state_cookie_max_age :: nat
  cf_connect_timeout :: nat
  cf_read_timeout :: nat
  cf_request_timeout :: nat
  cf_max_response_bytes :: nat
  cf_attributes :: "string option"
  cf_cache_dir :: "string option"
  cf_index_html :: "string option"
  cf_logging :: logging_config
  cf_tls :: "tls_config option"
  cf_python :: "python_config option"
  cf_frontends :: "plugin_config list"
  cf_backends :: "plugin_config list"
  cf_microservices :: "plugin_config list"

definition default_level :: string where "default_level = ''info''"
definition default_format :: string where "default_format = ''pretty''"
definition default_cookie_name :: string where "default_cookie_name = ''TUNNELBANA_STATE''"
definition default_cookie_same_site :: string where "default_cookie_same_site = ''None''"
definition default_state_cookie_max_age :: nat where
  "default_state_cookie_max_age = unat DEFAULT_TTL_SECONDS"
definition default_http_connect_timeout :: nat where "default_http_connect_timeout = 10"
definition default_http_read_timeout :: nat where "default_http_read_timeout = 15"
definition default_http_request_timeout :: nat where "default_http_request_timeout = 30"
definition default_http_max_response_bytes :: nat where
  "default_http_max_response_bytes = 8 * 1024 * 1024"
definition default_python_max_concurrent_calls :: nat where "default_python_max_concurrent_calls = 16"
definition default_python_call_timeout :: nat where "default_python_call_timeout = 30"
definition MIN_STATE_KEY_LEN :: nat where "MIN_STATE_KEY_LEN = 32"

definition logging_default :: logging_config where
  "logging_default = \<lparr> lc_level = default_level, lc_format = default_format \<rparr>"

section \<open>Decoding\<close>

fun toml_str :: "toml \<Rightarrow> string option" where
  "toml_str (TString s) = Some s"
| "toml_str _ = None"

fun toml_bool :: "toml \<Rightarrow> bool option" where
  "toml_bool (TBoolean b) = Some b"
| "toml_bool _ = None"

text \<open>A TOML integer is an \<open>i64\<close>; a negative one does not fit an unsigned field.\<close>

fun toml_unsigned :: "toml \<Rightarrow> nat option" where
  "toml_unsigned (TInteger i) = (if 0 \<le> i then Some (nat i) else None)"
| "toml_unsigned _ = None"

fun toml_table :: "toml \<Rightarrow> ttable option" where
  "toml_table (TTable t) = Some t"
| "toml_table _ = None"

fun all_options :: "('a \<Rightarrow> 'b option) \<Rightarrow> 'a list \<Rightarrow> 'b list option" where
  "all_options f [] = Some []"
| "all_options f (x # xs) = do { y \<leftarrow> f x; ys \<leftarrow> all_options f xs; Some (y # ys) }"

definition toml_list :: "(toml \<Rightarrow> 'a option) \<Rightarrow> toml \<Rightarrow> 'a list option" where
  "toml_list f v = (case v of TArray xs \<Rightarrow> all_options f xs | _ \<Rightarrow> None)"

definition tf_required :: "(toml \<Rightarrow> 'a option) \<Rightarrow> string \<Rightarrow> ttable \<Rightarrow> 'a option" where
  "tf_required f k t = Option.bind (map_of t k) f"

definition tf_default :: "(toml \<Rightarrow> 'a option) \<Rightarrow> 'a \<Rightarrow> string \<Rightarrow> ttable \<Rightarrow> 'a option" where
  "tf_default f d k t = (case map_of t k of None \<Rightarrow> Some d | Some v \<Rightarrow> f v)"

definition tf_optional :: "(toml \<Rightarrow> 'a option) \<Rightarrow> string \<Rightarrow> ttable \<Rightarrow> 'a option option" where
  "tf_optional f k t = (case map_of t k of None \<Rightarrow> Some None | Some v \<Rightarrow> map_option Some (f v))"

definition deny_unknown :: "string list \<Rightarrow> ttable \<Rightarrow> unit option" where
  "deny_unknown known t = (if set (map fst t) \<subseteq> set known then Some () else None)"

definition dec_logging :: "toml \<Rightarrow> logging_config option" where
  "dec_logging v = do {
     t \<leftarrow> toml_table v;
     level \<leftarrow> tf_default toml_str default_level ''level'' t;
     fmt \<leftarrow> tf_default toml_str default_format ''format'' t;
     Some \<lparr> lc_level = level, lc_format = fmt \<rparr> }"

definition dec_python :: "toml \<Rightarrow> python_config option" where
  "dec_python v = do {
     t \<leftarrow> toml_table v;
     deny_unknown [''module_path'', ''venv'', ''max_concurrent_calls'', ''call_timeout_seconds''] t;
     path \<leftarrow> tf_required toml_str ''module_path'' t;
     venv \<leftarrow> tf_optional toml_str ''venv'' t;
     calls \<leftarrow> tf_default toml_unsigned default_python_max_concurrent_calls ''max_concurrent_calls'' t;
     timeout \<leftarrow> tf_default toml_unsigned default_python_call_timeout ''call_timeout_seconds'' t;
     Some \<lparr> py_module_path = path, py_venv = venv, py_max_concurrent_calls = calls,
            py_call_timeout_seconds = timeout \<rparr> }"

definition dec_plugin :: "toml \<Rightarrow> plugin_config option" where
  "dec_plugin v = do {
     t \<leftarrow> toml_table v;
     kind \<leftarrow> tf_required toml_str ''type'' t;
     name \<leftarrow> tf_required toml_str ''name'' t;
     config \<leftarrow> tf_default Some (TTable []) ''config'' t;
     inc \<leftarrow> tf_optional toml_str ''include'' t;
     Some \<lparr> pc_kind = kind, pc_name = name, pc_config = config, pc_include = inc \<rparr> }"

definition dec_tls :: "toml \<Rightarrow> tls_config option" where
  "dec_tls v = do {
     t \<leftarrow> toml_table v;
     deny_unknown [''cert_path'', ''key_path''] t;
     cert \<leftarrow> tf_required toml_str ''cert_path'' t;
     key \<leftarrow> tf_required toml_str ''key_path'' t;
     Some \<lparr> tls_cert_path = cert, tls_key_path = key \<rparr> }"

definition dec_proxy_config :: "toml \<Rightarrow> proxy_config option" where
  "dec_proxy_config v = do {
     t \<leftarrow> toml_table v;
     base \<leftarrow> tf_required toml_str ''base_url'' t;
     key \<leftarrow> tf_required toml_str ''state_encryption_key'' t;
     prev \<leftarrow> tf_default (toml_list toml_str) [] ''previous_state_encryption_keys'' t;
     cname \<leftarrow> tf_default toml_str default_cookie_name ''cookie_name'' t;
     csec \<leftarrow> tf_default toml_bool True ''cookie_secure'' t;
     csame \<leftarrow> tf_default toml_str default_cookie_same_site ''cookie_same_site'' t;
     age \<leftarrow> tf_default toml_unsigned default_state_cookie_max_age ''state_cookie_max_age'' t;
     ct \<leftarrow> tf_default toml_unsigned default_http_connect_timeout ''http_connect_timeout_seconds'' t;
     rt \<leftarrow> tf_default toml_unsigned default_http_read_timeout ''http_read_timeout_seconds'' t;
     qt \<leftarrow> tf_default toml_unsigned default_http_request_timeout ''http_request_timeout_seconds'' t;
     mb \<leftarrow> tf_default toml_unsigned default_http_max_response_bytes ''http_max_response_bytes'' t;
     att \<leftarrow> tf_optional toml_str ''attributes'' t;
     cdir \<leftarrow> tf_optional toml_str ''cache_dir'' t;
     idx \<leftarrow> tf_optional toml_str ''index_html'' t;
     logging \<leftarrow> tf_default dec_logging logging_default ''logging'' t;
     tls \<leftarrow> tf_optional dec_tls ''tls'' t;
     py \<leftarrow> tf_optional dec_python ''python'' t;
     fs \<leftarrow> tf_default (toml_list dec_plugin) [] ''frontend'' t;
     bs \<leftarrow> tf_default (toml_list dec_plugin) [] ''backend'' t;
     ms \<leftarrow> tf_default (toml_list dec_plugin) [] ''microservice'' t;
     Some \<lparr> cf_base_url = base, cf_state_encryption_key = key, cf_previous_keys = prev,
       cf_cookie_name = cname, cf_cookie_secure = csec, cf_cookie_same_site = csame,
       cf_state_cookie_max_age = age, cf_connect_timeout = ct, cf_read_timeout = rt,
       cf_request_timeout = qt, cf_max_response_bytes = mb, cf_attributes = att, cf_cache_dir = cdir,
       cf_index_html = idx, cf_logging = logging, cf_tls = tls, cf_python = py, cf_frontends = fs,
       cf_backends = bs, cf_microservices = ms \<rparr> }"

section \<open>Environment interpolation\<close>

definition name_char :: "char \<Rightarrow> bool" where
  "name_char c \<longleftrightarrow> is_ascii_alpha c \<or> is_ascii_digit c \<or> c = CHR ''_''"

definition env_name :: "string \<Rightarrow> bool" where
  "env_name s \<longleftrightarrow> s \<noteq> [] \<and> \<not> is_ascii_digit (hd s) \<and> (\<forall>c \<in> set s. name_char c)"

text \<open>A match of \<open>\$\{([A-Za-z_][A-Za-z0-9_]*)\}\<close> at the start of the text.\<close>

definition match_env :: "string \<Rightarrow> (string \<times> string) option" where
  "match_env s =
     (case strip_prefix ''${'' s of
        None \<Rightarrow> None
      | Some t \<Rightarrow>
          (let name = takeWhile name_char t; rest = dropWhile name_char t
           in case rest of
                c # rest' \<Rightarrow> if c = CHR ''}'' \<and> env_name name then Some (name, rest') else None
              | [] \<Rightarrow> None))"

lemma match_env_SomeD:
  assumes "match_env s = Some (n, r)"
  shows "s = ''${'' @ n @ CHR ''}'' # r \<and> env_name n"
proof -
  from assms obtain t where t: "strip_prefix ''${'' s = Some t" by (cases "strip_prefix ''${'' s") (auto simp: match_env_def)
  obtain c rest where r: "dropWhile name_char t = c # rest"
    using assms t by (cases "dropWhile name_char t") (auto simp: match_env_def Let_def)
  with assms t have "c = CHR ''}''" "n = takeWhile name_char t" "r = rest" "env_name n"
    by (simp_all add: match_env_def Let_def split: if_split_asm)
  then show ?thesis using t r by (metis strip_prefix_Some_iff takeWhile_dropWhile_id)
qed

lemma match_env_shorter: "match_env s = Some (n, r) \<Longrightarrow> length r < length s"
  by (drule match_env_SomeD) simp

function interpolate_env :: "(string \<Rightarrow> string option) \<Rightarrow> string \<Rightarrow> string result" where
  "interpolate_env env [] = Inr []"
| "interpolate_env env (c # s) =
     (case match_env (c # s) of
        None \<Rightarrow> bind_result (interpolate_env env s) (\<lambda>out. Inr (c # out))
      | Some (name, rest) \<Rightarrow>
          bind_result (ok_or (env name) (ErrConfig (''environment variable '' @ name @
              '' referenced by the configuration is not set'')))
            (\<lambda>value. bind_result (interpolate_env env rest) (\<lambda>out. Inr (value @ out))))"
  by pat_completeness auto
termination
  by (relation "measure (length o snd)") (auto dest: match_env_shorter)

section \<open>Positions\<close>

text \<open>One-based line and column of a byte offset.\<close>

definition newline :: char where "newline = CHR 0x0A"

definition line_col :: "string \<Rightarrow> nat \<Rightarrow> nat \<times> nat" where
  "line_col source offset =
     (let before = take (min offset (length source)) source
      in (length (filter (\<lambda>c. c = newline) before) + 1, length (after_last newline before) + 1))"

record toml_error =
  te_message :: string
  te_span :: "nat option"

definition toml_parse_error :: "string \<Rightarrow> toml_error \<Rightarrow> string" where
  "toml_parse_error source e =
     (case te_span e of
        Some start \<Rightarrow> (case line_col source start of (line, column) \<Rightarrow>
          te_message e @ '' at line '' @ show_nat line @ '', column '' @ show_nat column)
      | None \<Rightarrow> te_message e)"

section \<open>Loading\<close>

text \<open>
  The world a configuration is loaded from: the environment, the files, the TOML text parser
  and the error it reports for a value of the wrong type.
\<close>

record config_env =
  ce_var :: "string \<Rightarrow> string option"
  ce_read :: "string \<Rightarrow> string option"
  ce_parse :: "string \<Rightarrow> toml_error + toml"
  ce_type_error :: "string \<Rightarrow> toml_error"

definition parse_typed :: "config_env \<Rightarrow> string \<Rightarrow> toml_error + proxy_config" where
  "parse_typed ce s =
     (case ce_parse ce s of
        Inl e \<Rightarrow> Inl e
      | Inr v \<Rightarrow> (case dec_proxy_config v of None \<Rightarrow> Inl (ce_type_error ce s) | Some cfg \<Rightarrow> Inr cfg))"

text \<open>\<open>Path::join\<close> and \<open>Path::parent\<close> on Unix.\<close>

definition path_join :: "string \<Rightarrow> string \<Rightarrow> string" where
  "path_join base p =
     (if starts_with ''/'' p \<or> base = [] then p
      else if last base = CHR ''/'' then base @ p else base @ ''/'' @ p)"

definition path_parent :: "string \<Rightarrow> string option" where
  "path_parent p =
     (let t = trim_end_char CHR ''/'' p
      in if t = [] then None
         else (let dir = take (length t - length (after_last CHR ''/'' t)) t;
                   trimmed = trim_end_char CHR ''/'' dir
               in if dir \<noteq> [] \<and> trimmed = [] then Some ''/'' else Some trimmed))"

definition resolve_include :: "config_env \<Rightarrow> string \<Rightarrow> plugin_config \<Rightarrow> plugin_config result" where
  "resolve_include ce base_dir p =
     (case pc_include p of
        None \<Rightarrow> Inr p
      | Some inc \<Rightarrow>
          (let path = path_join base_dir inc
           in bind_result (ok_or (ce_read ce path) (ErrConfig (''reading include '' @ path @ '': '')))
                (\<lambda>raw. bind_result (interpolate_env (ce_var ce) raw)
                (\<lambda>text. case ce_parse ce text of
                    Inl e \<Rightarrow> Inl (ErrConfig (''parsing include '' @ path @ '': '' @ toml_parse_error text e))
                  | Inr v \<Rightarrow> Inr (p\<lparr> pc_config := v \<rparr>)))))"

definition resolve_includes :: "config_env \<Rightarrow> string \<Rightarrow> proxy_config \<Rightarrow> proxy_config result" where
  "resolve_includes ce base_dir cfg =
     bind_result (traverse (resolve_include ce base_dir) (cf_frontends cfg)) (\<lambda>fs.
     bind_result (traverse (resolve_include ce base_dir) (cf_backends cfg)) (\<lambda>bs.
     bind_result (traverse (resolve_include ce base_dir) (cf_microservices cfg)) (\<lambda>ms.
       Inr (cfg\<lparr> cf_frontends := fs, cf_backends := bs, cf_microservices := ms \<rparr>))))"

section \<open>Validation\<close>

definition check :: "bool \<Rightarrow> string \<Rightarrow> unit result" where
  "check bad msg = (if bad then Inl (ErrConfig msg) else Inr ())"

fun check_previous :: "nat \<Rightarrow> string list \<Rightarrow> unit result" where
  "check_previous i [] = Inr ()"
| "check_previous i (key # keys) =
     bind_result (check (length key < MIN_STATE_KEY_LEN)
       (''previous_state_encryption_keys['' @ show_nat i @ ''] must be at least '' @
        show_nat MIN_STATE_KEY_LEN @ '' bytes of high-entropy secret (got '' @
        show_nat (length key) @ '' bytes)'')) (\<lambda>_. check_previous (i + 1) keys)"

fun check_names :: "string list \<Rightarrow> string list \<Rightarrow> unit result" where
  "check_names seen [] = Inr ()"
| "check_names seen (n # ns) =
     bind_result (check (n \<in> set seen) (''duplicate microservice name: '' @ n)) (\<lambda>_. check_names (n # seen) ns)"

definition validate_python :: "python_config \<Rightarrow> unit result" where
  "validate_python py =
     bind_result (check (trim (py_module_path py) = []) ''python.module_path must not be empty'') (\<lambda>_.
     bind_result (case py_venv py of None \<Rightarrow> Inr ()
                  | Some venv \<Rightarrow> check (trim venv = []) ''python.venv must not be empty'') (\<lambda>_.
     bind_result (check (py_max_concurrent_calls py = 0)
                  ''python.max_concurrent_calls must be greater than zero'') (\<lambda>_.
     check (py_call_timeout_seconds py = 0) ''python.call_timeout_seconds must be greater than zero'')))"

definition validate :: "proxy_config \<Rightarrow> unit result" where
  "validate cfg =
     bind_result (case cf_tls cfg of None \<Rightarrow> Inr ()
                  | Some tls \<Rightarrow> check (trim (tls_cert_path tls) = [] \<or> trim (tls_key_path tls) = [])
                      ''tls.cert_path and tls.key_path must not be empty'') (\<lambda>_.
     bind_result (check (cf_base_url cfg = []) ''base_url must be set'') (\<lambda>_.
     bind_result (check (cf_state_encryption_key cfg = []) ''state_encryption_key must be set'') (\<lambda>_.
     bind_result (check (to_ascii_lowercase (cf_cookie_same_site cfg) \<notin> {''none'', ''lax'', ''strict''})
       (''cookie_same_site must be one of None, Lax, or Strict (got '' @ debug_str (cf_cookie_same_site cfg) @ '')'')) (\<lambda>_.
     bind_result (check (length (cf_state_encryption_key cfg) < MIN_STATE_KEY_LEN)
       (''state_encryption_key must be at least '' @ show_nat MIN_STATE_KEY_LEN @
        '' bytes of high-entropy secret (got '' @ show_nat (length (cf_state_encryption_key cfg)) @ '' bytes)'')) (\<lambda>_.
     bind_result (check_previous 0 (cf_previous_keys cfg)) (\<lambda>_.
     bind_result (check (cf_connect_timeout cfg = 0 \<or> cf_read_timeout cfg = 0 \<or> cf_request_timeout cfg = 0)
       ''outbound HTTP timeouts must be greater than zero'') (\<lambda>_.
     bind_result (check (cf_max_response_bytes cfg = 0)
       ''http_max_response_bytes must be greater than zero'') (\<lambda>_.
     bind_result (check (list_ex (\<lambda>p. pc_kind p = ''python'') (cf_microservices cfg) \<and> cf_python cfg = None)
       ''[python] is required when a microservice has type = \"python\"'') (\<lambda>_.
     bind_result (case cf_python cfg of None \<Rightarrow> Inr () | Some py \<Rightarrow> validate_python py) (\<lambda>_.
     check_names [] (map pc_name (cf_microservices cfg))))))))))))"

definition config_from_str :: "config_env \<Rightarrow> string \<Rightarrow> proxy_config result" where
  "config_from_str ce s =
     bind_result (interpolate_env (ce_var ce) s) (\<lambda>text.
     case parse_typed ce text of
       Inl e \<Rightarrow> Inl (ErrConfig (''parsing config: '' @ toml_parse_error text e))
     | Inr cfg \<Rightarrow> bind_result (validate cfg) (\<lambda>_. Inr cfg))"

definition config_load :: "config_env \<Rightarrow> string \<Rightarrow> proxy_config result" where
  "config_load ce path =
     (let base_dir = unwrap_or ''.'' (path_parent path)
      in bind_result (ok_or (ce_read ce path) (ErrConfig (''reading '' @ path @ '': ''))) (\<lambda>raw.
         bind_result (interpolate_env (ce_var ce) raw) (\<lambda>text.
         case parse_typed ce text of
           Inl e \<Rightarrow> Inl (ErrConfig (''parsing '' @ path @ '': '' @ toml_parse_error text e))
         | Inr cfg \<Rightarrow>
             bind_result (resolve_includes ce base_dir cfg) (\<lambda>cfg.
             bind_result (validate cfg) (\<lambda>_. Inr cfg)))))"

section \<open>What interpolation does to a template\<close>

text \<open>A configuration text as its author sees it: literal parts and variables.\<close>

datatype segment = Lit string | Var string

fun seg_text :: "segment \<Rightarrow> string" where
  "seg_text (Lit s) = s"
| "seg_text (Var n) = ''${'' @ n @ ''}''"

fun seg_ok :: "segment \<Rightarrow> bool" where
  "seg_ok (Lit s) = (CHR ''$'' \<notin> set s)"
| "seg_ok (Var n) = env_name n"

definition missing_var :: "string \<Rightarrow> error" where
  "missing_var n = ErrConfig (''environment variable '' @ n @ '' referenced by the configuration is not set'')"

fun seg_value :: "(string \<Rightarrow> string option) \<Rightarrow> segment \<Rightarrow> string result" where
  "seg_value env (Lit s) = Inr s"
| "seg_value env (Var n) = ok_or (env n) (missing_var n)"

lemma match_env_Var:
  assumes "env_name n"
  shows "match_env (''${'' @ n @ ''}'' @ s) = Some (n, s)"
proof -
  have all: "\<forall>c \<in> set n. name_char c" using assms by (simp add: env_name_def)
  have brace: "\<not> name_char CHR ''}''"
    by (simp add: name_char_def is_ascii_alpha_def is_ascii_digit_def byte_def)
  have "takeWhile name_char (n @ CHR ''}'' # s) = n" "dropWhile name_char (n @ CHR ''}'' # s) = CHR ''}'' # s"
    using all brace by (simp_all add: takeWhile_append2 dropWhile_append2)
  moreover have "strip_prefix ''${'' (''${'' @ n @ ''}'' @ s) = Some (n @ CHR ''}'' # s)"
    unfolding strip_prefix_Some_iff by simp
  ultimately show ?thesis using assms by (simp add: match_env_def Let_def)
qed

lemma match_env_not_dollar: "c \<noteq> CHR ''$'' \<Longrightarrow> match_env (c # s) = None"
proof (rule ccontr)
  assume c: "c \<noteq> CHR ''$''" "match_env (c # s) \<noteq> None"
  then obtain n r where "match_env (c # s) = Some (n, r)" by auto
  with c(1) show False by (auto dest: match_env_SomeD)
qed

lemma interpolate_lit:
  "CHR ''$'' \<notin> set s \<Longrightarrow> interpolate_env env (s @ t) = bind_result (interpolate_env env t) (\<lambda>out. Inr (s @ out))"
proof (induction s)
  case Nil then show ?case by (cases "interpolate_env env t") auto
next
  case (Cons c s)
  then have "match_env (c # s @ t) = None" by (intro match_env_not_dollar) auto
  with Cons show ?case by (cases "interpolate_env env t") auto
qed

lemma interpolate_var:
  assumes "env_name n"
  shows "interpolate_env env (''${'' @ n @ ''}'' @ t) =
    bind_result (ok_or (env n) (missing_var n)) (\<lambda>v. bind_result (interpolate_env env t) (\<lambda>out. Inr (v @ out)))"
  using match_env_Var[OF assms, of t] by (simp add: missing_var_def)

text \<open>
  Interpolation substitutes exactly the variables of the template: literal text is copied,
  a value is inserted as it is and not scanned again, and the first unset variable is the error,
  so that no secret can silently become empty.
\<close>

theorem interpolation_of_template:
  assumes "\<forall>g \<in> set segs. seg_ok g"
  shows "interpolate_env env (concat (map seg_text segs)) =
    bind_result (traverse (seg_value env) segs) (\<lambda>vs. Inr (concat vs))"
  using assms
proof (induction segs)
  case (Cons g segs)
  then have ih: "interpolate_env env (concat (map seg_text segs)) =
      bind_result (traverse (seg_value env) segs) (\<lambda>vs. Inr (concat vs))" by simp
  show ?case
  proof (cases g)
    case (Lit s)
    with Cons.prems have "CHR ''$'' \<notin> set s" by simp
    from interpolate_lit[OF this, of env "concat (map seg_text segs)"] Lit ih show ?thesis
      by (cases "traverse (seg_value env) segs") auto
  next
    case (Var n)
    with Cons.prems have "env_name n" by simp
    from interpolate_var[OF this, of env "concat (map seg_text segs)"] Var ih show ?thesis
      by (cases "env n"; cases "traverse (seg_value env) segs") auto
  qed
qed simp

definition toy_vars :: "string \<Rightarrow> string option" where
  "toy_vars = map_of [(''KEY'', ''a${KEY}b'')]"

theorem interpolation_of_template_witness:
  "interpolate_env toy_vars ''k = ${KEY};'' = Inr ''k = a${KEY}b;''"
proof -
  have "env_name ''KEY''"
    by (simp add: env_name_def name_char_def is_ascii_alpha_def is_ascii_digit_def byte_def)
  then show ?thesis
    using interpolation_of_template[of "[Lit ''k = '', Var ''KEY'', Lit '';'']" toy_vars]
    by (simp add: toy_vars_def)
qed

section \<open>Which configurations are valid\<close>

lemma check_ok [simp]: "check b m = Inr () \<longleftrightarrow> \<not> b"
  by (simp add: check_def)

lemma bind_unit: "bind_result r (\<lambda>_. k) = Inr () \<longleftrightarrow> r = Inr () \<and> k = Inr ()" for r :: "unit result"
  by (cases r) auto

lemma check_previous_ok: "check_previous i keys = Inr () \<longleftrightarrow> (\<forall>k \<in> set keys. MIN_STATE_KEY_LEN \<le> length k)"
  by (induction keys arbitrary: i) (auto simp: bind_unit)

lemma check_names_ok: "check_names seen ns = Inr () \<longleftrightarrow> distinct ns \<and> set ns \<inter> set seen = {}"
  by (induction ns arbitrary: seen) (auto simp: bind_unit)

definition python_ok :: "python_config \<Rightarrow> bool" where
  "python_ok py \<longleftrightarrow> trim (py_module_path py) \<noteq> [] \<and> (\<forall>v. py_venv py = Some v \<longrightarrow> trim v \<noteq> []) \<and>
     0 < py_max_concurrent_calls py \<and> 0 < py_call_timeout_seconds py"

lemma validate_python_ok: "validate_python py = Inr () \<longleftrightarrow> python_ok py"
  by (auto simp: validate_python_def python_ok_def bind_unit split: option.split)

text \<open>
  A configuration is accepted exactly when its secrets (also those kept for rotation) have at
  least 32 bytes, the cookie policy is a known one, no limit is zero, TLS and Python are complete,
  and the micro-service names are distinct.
\<close>

theorem validate_iff:
  "validate cfg = Inr () \<longleftrightarrow>
     (\<forall>tls. cf_tls cfg = Some tls \<longrightarrow> trim (tls_cert_path tls) \<noteq> [] \<and> trim (tls_key_path tls) \<noteq> []) \<and>
     cf_base_url cfg \<noteq> [] \<and>
     to_ascii_lowercase (cf_cookie_same_site cfg) \<in> {''none'', ''lax'', ''strict''} \<and>
     (\<forall>k \<in> set (cf_state_encryption_key cfg # cf_previous_keys cfg). 32 \<le> length k) \<and>
     0 < cf_connect_timeout cfg \<and> 0 < cf_read_timeout cfg \<and> 0 < cf_request_timeout cfg \<and>
     0 < cf_max_response_bytes cfg \<and>
     ((\<exists>p \<in> set (cf_microservices cfg). pc_kind p = ''python'') \<longrightarrow> cf_python cfg \<noteq> None) \<and>
     (\<forall>py. cf_python cfg = Some py \<longrightarrow> python_ok py) \<and>
     distinct (map pc_name (cf_microservices cfg))"
proof -
  have tls: "(case cf_tls cfg of None \<Rightarrow> Inr () | Some tls \<Rightarrow>
        check (trim (tls_cert_path tls) = [] \<or> trim (tls_key_path tls) = []) m) = Inr () \<longleftrightarrow>
      (\<forall>tls. cf_tls cfg = Some tls \<longrightarrow> trim (tls_cert_path tls) \<noteq> [] \<and> trim (tls_key_path tls) \<noteq> [])" for m
    by (cases "cf_tls cfg") auto
  have py: "(case cf_python cfg of None \<Rightarrow> Inr () | Some py \<Rightarrow> validate_python py) = Inr () \<longleftrightarrow>
      (\<forall>py. cf_python cfg = Some py \<longrightarrow> python_ok py)"
    by (cases "cf_python cfg") (auto simp: validate_python_ok)
  have key: "0 < MIN_STATE_KEY_LEN" "MIN_STATE_KEY_LEN = 32" by (simp_all add: MIN_STATE_KEY_LEN_def)
  show ?thesis
    unfolding validate_def bind_unit tls py check_ok check_previous_ok check_names_ok
    using key by (auto simp: list_ex_iff)
qed

definition toy_config :: proxy_config where
  "toy_config = \<lparr> cf_base_url = ''https://p'', cf_state_encryption_key = replicate 32 CHR ''k'',
     cf_previous_keys = [], cf_cookie_name = default_cookie_name, cf_cookie_secure = True,
     cf_cookie_same_site = ''None'', cf_state_cookie_max_age = 1800, cf_connect_timeout = 10,
     cf_read_timeout = 15, cf_request_timeout = 30, cf_max_response_bytes = 1024, cf_attributes = None,
     cf_cache_dir = None, cf_index_html = None, cf_logging = logging_default, cf_tls = None, cf_python = None,
     cf_frontends = [], cf_backends = [], cf_microservices = [] \<rparr>"

theorem validate_iff_witness:
  "validate toy_config = Inr () \<and>
   validate (toy_config\<lparr> cf_previous_keys := [''short''] \<rparr>) \<noteq> Inr ()"
proof -
  have l: "to_ascii_lowercase ''None'' = ''none''" by code_simp
  show ?thesis unfolding validate_iff by (simp add: toy_config_def l)
qed

section \<open>Parse errors do not show the source\<close>

text \<open>The source with every byte that is not a line end blanked.\<close>

definition blank :: "string \<Rightarrow> string" where
  "blank s = map (\<lambda>c. if c = newline then newline else CHR '' '') s"

lemma blank_simps [simp]: "length (blank s) = length s" "take n (blank s) = blank (take n s)"
  by (simp_all add: blank_def take_map)

lemma blank_lines: "length (filter (\<lambda>c. c = newline) (blank s)) = length (filter (\<lambda>c. c = newline) s)"
  by (induction s) (auto simp: blank_def newline_def)

lemma after_last_snoc: "after_last c (s @ [x]) = (if x = c then [] else after_last c s @ [x])"
proof (cases "x = c")
  case True
  then show ?thesis using after_last_append[of c "[]" s] by simp
next
  case False
  show ?thesis
  proof (cases "c \<in> set s")
    case True
    then obtain a b where "s = a @ c # b" "c \<notin> set b" by (meson split_list_last)
    with False show ?thesis using after_last_append[of c "b @ [x]" a] after_last_append[of c b a] by simp
  next
    case False': False
    with False show ?thesis by (simp add: after_last_id)
  qed
qed

lemma blank_last_line: "length (after_last newline (blank s)) = length (after_last newline s)"
proof (induction s rule: rev_induct)
  case (snoc x s)
  have "blank (s @ [x]) = blank s @ [if x = newline then newline else CHR '' '']" by (simp add: blank_def)
  moreover have "CHR '' '' \<noteq> newline" by (simp add: newline_def)
  ultimately show ?case using snoc by (auto simp: after_last_snoc)
qed (simp add: blank_def)

text \<open>
  The text of a parse error depends on the source only through its line structure: two
  sources that differ in anything but their line ends give the same message, so the secrets that
  interpolation put into the source do not reach the logs.
\<close>

theorem parse_error_hides_source:
  "toml_parse_error source e = toml_parse_error (blank source) e"
  by (simp add: toml_parse_error_def line_col_def Let_def blank_lines blank_last_line split: option.split)

lemma config_from_str_valid: "config_from_str ce s = Inr cfg \<Longrightarrow> validate cfg = Inr ()"
  unfolding config_from_str_def bind_result_eq_Inr
  by (elim exE conjE) (auto simp: bind_result_eq_Inr split: sum.split_asm)

lemma config_load_valid: "config_load ce path = Inr cfg \<Longrightarrow> validate cfg = Inr ()"
  unfolding config_load_def Let_def bind_result_eq_Inr
  by (elim exE conjE) (auto simp: bind_result_eq_Inr split: sum.split_asm)

end
