(* ===== verification/Server.thy ===== *)
theory Server
  imports Login_Flow Config
begin

text \<open>
  The binary: \<open>main.rs\<close> (assembling the proxy from the configuration, adapting requests),
  \<open>reqwest_client.rs\<close> (bounded fetches) and \<open>tls.rs\<close> (loading and renewing the TLS identity).
  The HTTP server and client, the URL decoder, the plugin constructors and rustls are parameters.
\<close>

section \<open>Requests\<close>

text \<open>What the HTTP server hands over; header values that are not visible ASCII are \<open>None\<close>.\<close>

record server_request =
  sr_path :: string
  sr_method :: string
  sr_query_string :: string
  sr_headers :: "(string \<times> string option) list"
  sr_scheme :: string
  sr_host :: string
  sr_uri :: string
  sr_body :: string

definition parse_cookies :: "string \<Rightarrow> string smap" where
  "parse_cookies header =
     foldl (\<lambda>m part. case split_once CHR ''='' (trim part) of
              None \<Rightarrow> m
            | Some (k, v) \<Rightarrow> bm_insert (trim k) (trim v) m) [] (split_char CHR '';'' header)"

definition build_request_data ::
    "(string \<Rightarrow> (string \<times> string) list) \<Rightarrow> (string \<Rightarrow> bool) \<Rightarrow> server_request \<Rightarrow> http_request" where
  "build_request_data form_parse is_utf8 req =
     (let query_pairs = form_parse (sr_query_string req);
          headers = foldl (\<lambda>m (name, value). case value of
                 None \<Rightarrow> m | Some v \<Rightarrow> bm_insert (to_ascii_lowercase name) v m) [] (sr_headers req);
          is_form = (case bm_get headers ''content-type'' of
                 None \<Rightarrow> False | Some c \<Rightarrow> starts_with ''application/x-www-form-urlencoded'' c);
          form_pairs = (if is_form then form_parse (if is_utf8 (sr_body req) then sr_body req else [])
                        else [])
      in \<lparr> rq_path = trim_start_char CHR ''/'' (sr_path req),
           rq_method = to_ascii_uppercase (sr_method req),
           rq_uri = sr_scheme req @ ''://'' @ sr_host req @ sr_uri req,
           rq_query_pairs = query_pairs, rq_query = bm_of_list query_pairs,
           rq_form_pairs = form_pairs, rq_form = bm_of_list form_pairs,
           rq_body = sr_body req, rq_headers = headers,
           rq_cookies = parse_cookies (unwrap_or [] (bm_get headers ''cookie'')) \<rparr>)"

definition resolve_sibling :: "string \<Rightarrow> string \<Rightarrow> string" where
  "resolve_sibling config_path rel =
     (if starts_with ''/'' rel then rel
      else path_join (unwrap_or ''.'' (path_parent config_path)) rel)"

text \<open>The path of the attribute map is used as it is given.\<close>

definition resolve_path :: "proxy_config \<Rightarrow> string \<Rightarrow> string" where
  "resolve_path cfg path = path"

text \<open>The page at the root: the configured file or the built-in one; an unreadable file is fatal.\<close>

definition load_index_page :: "string \<Rightarrow> (string \<Rightarrow> string option) \<Rightarrow> proxy_config \<Rightarrow> string \<Rightarrow> string + string" where
  "load_index_page default_page read cfg config_path =
     (case cf_index_html cfg of
        None \<Rightarrow> Inr default_page
      | Some rel \<Rightarrow>
          (let path = resolve_sibling config_path rel
           in case read path of None \<Rightarrow> Inl (''reading index_html '' @ path @ '': '') | Some html \<Rightarrow> Inr html))"

section \<open>Assembling the proxy\<close>

definition load_mapper ::
    "(string \<Rightarrow> string option) \<Rightarrow> (string \<Rightarrow> attribute_map option) \<Rightarrow> proxy_config \<Rightarrow> attribute_mapper result" where
  "load_mapper read parse_map cfg =
     (case cf_attributes cfg of
        None \<Rightarrow> Inr \<lparr> mp_attributes = [], mp_user_id_from_attrs = [], mp_user_id_to_attr = None \<rparr>
      | Some path \<Rightarrow>
          bind_result (ok_or (read (resolve_path cfg path)) (ErrInternal [])) (\<lambda>text.
          bind_result (ok_or (parse_map text) (ErrConfig ''attribute map: '')) (\<lambda>am. Inr (mapper_new am))))"

definition make_ctx :: "proxy_config \<Rightarrow> attribute_mapper \<Rightarrow> plugin_config \<Rightarrow> build_context" where
  "make_ctx cfg mapper p =
     \<lparr> bx_name = pc_name p, bx_base_url = cf_base_url cfg, bx_config = toml_to_json (pc_config p),
       bx_attribute_mapper = mapper, bx_secret = cf_state_encryption_key cfg,
       bx_previous_secrets = cf_previous_keys cfg \<rparr>"

definition config_sealer :: "crypto_lib \<Rightarrow> proxy_config \<Rightarrow> sealer" where
  "config_sealer lib cfg =
     (let ttl = (if cf_state_cookie_max_age cfg = 0 then None else Some (of_nat (cf_state_cookie_max_age cfg)))
      in with_previous_secrets lib (cf_previous_keys cfg)
           (with_ttl_seconds ttl
             (with_same_site (cf_cookie_same_site cfg)
               (with_secure (cf_cookie_secure cfg)
                 (sealer_new lib (cf_state_encryption_key cfg) (cf_cookie_name cfg))))))"

text \<open>The registry already holds the Python constructor when Python is configured.\<close>

definition build_proxy ::
    "crypto_lib \<Rightarrow> 'w registry \<Rightarrow> attribute_mapper result \<Rightarrow> proxy_config \<Rightarrow> 'w proxy result" where
  "build_proxy lib registry mapper cfg =
     bind_result mapper (\<lambda>mapper.
     bind_result (traverse (\<lambda>p. build_frontend registry (pc_kind p) (make_ctx cfg mapper p)) (cf_frontends cfg)) (\<lambda>fs.
     bind_result (traverse (\<lambda>p. build_backend registry (pc_kind p) (make_ctx cfg mapper p)) (cf_backends cfg)) (\<lambda>bs.
     bind_result (traverse (\<lambda>p. build_microservice registry (pc_kind p) (make_ctx cfg mapper p)) (cf_microservices cfg)) (\<lambda>ms.
       Inr (proxy_new fs bs ms (config_sealer lib cfg))))))"

section \<open>Bounded fetches\<close>

record fetch_response =
  fr_status :: u16
  fr_body :: string
  fr_content_type :: "string option"

text \<open>A response as the HTTP client streams it: \<open>None\<close> is a failed read.\<close>

record fetch_stream =
  fs_status :: u16
  fs_content_type :: "string option"
  fs_content_length :: "nat option"
  fs_chunks :: "string option list"

definition too_large :: "nat \<Rightarrow> error" where
  "too_large limit = ErrInternal (''outbound response exceeds '' @ show_nat limit @ '' byte limit'')"

definition append_bounded :: "nat \<Rightarrow> string \<Rightarrow> string \<Rightarrow> string result" where
  "append_bounded limit chunk body =
     (if length body + length chunk \<le> limit then Inr (body @ chunk) else Inl (too_large limit))"

fun read_chunks :: "nat \<Rightarrow> string option list \<Rightarrow> string \<Rightarrow> string result" where
  "read_chunks limit [] body = Inr body"
| "read_chunks limit (None # cs) body = Inl (ErrInternal ''reading body: '')"
| "read_chunks limit (Some chunk # cs) body =
     bind_result (append_bounded limit chunk body) (read_chunks limit cs)"

definition into_fetch :: "nat \<Rightarrow> fetch_stream \<Rightarrow> fetch_response result" where
  "into_fetch limit resp =
     (if (case fs_content_length resp of None \<Rightarrow> False | Some n \<Rightarrow> n > limit) then Inl (too_large limit)
      else bind_result (read_chunks limit (fs_chunks resp) []) (\<lambda>body.
        Inr \<lparr> fr_status = fs_status resp, fr_body = body, fr_content_type = fs_content_type resp \<rparr>))"

text \<open>
  The two calls of the client, with the settings it is built from; sending is the HTTP library, and so
  is the text of an error (\<open>show_error\<close>).  Redirects are never followed.
\<close>

record client_limits =
  cl_connect_timeout :: nat
  cl_read_timeout :: nat
  cl_request_timeout :: nat
  cl_max_response_bytes :: nat

definition client_of_config :: "proxy_config \<Rightarrow> client_limits" where
  "client_of_config cfg =
     \<lparr> cl_connect_timeout = cf_connect_timeout cfg, cl_read_timeout = cf_read_timeout cfg,
       cl_request_timeout = cf_request_timeout cfg, cl_max_response_bytes = cf_max_response_bytes cfg \<rparr>"

definition request_error :: "(error \<Rightarrow> string) \<Rightarrow> string \<Rightarrow> string \<Rightarrow> error \<Rightarrow> error" where
  "request_error show_error method url e = ErrInternal (method @ '' '' @ url @ '': '' @ show_error e)"

definition fetched ::
    "(error \<Rightarrow> string) \<Rightarrow> string \<Rightarrow> string \<Rightarrow> client_limits \<Rightarrow> (string + fetch_stream) \<times> 'w \<Rightarrow> fetch_response result \<times> 'w" where
  "fetched show_error method url limits sent =
     (case sent of
        (Inl e, w) \<Rightarrow> (Inl (ErrInternal (method @ '' '' @ url @ '': '' @ e)), w)
      | (Inr resp, w) \<Rightarrow> (map_sum (request_error show_error method url) id (into_fetch (cl_max_response_bytes limits) resp), w))"

definition http_get ::
    "(error \<Rightarrow> string) \<Rightarrow> (client_limits \<Rightarrow> string \<Rightarrow> 'w \<Rightarrow> (string + fetch_stream) \<times> 'w) \<Rightarrow> client_limits \<Rightarrow> string \<Rightarrow>
      'w \<Rightarrow> fetch_response result \<times> 'w" where
  "http_get show_error send limits url w = fetched show_error ''GET'' url limits (send limits url w)"

definition http_post_form ::
    "(error \<Rightarrow> string) \<Rightarrow>
      (client_limits \<Rightarrow> string \<Rightarrow> (string \<times> string) list \<Rightarrow> (string \<times> string) list \<Rightarrow> 'w \<Rightarrow> (string + fetch_stream) \<times> 'w) \<Rightarrow>
      client_limits \<Rightarrow> string \<Rightarrow> (string \<times> string) list \<Rightarrow> (string \<times> string) list \<Rightarrow> 'w \<Rightarrow> fetch_response result \<times> 'w" where
  "http_post_form show_error send limits url form headers w =
     fetched show_error ''POST'' url limits (send limits url form headers w)"

section \<open>The TLS identity\<close>

text \<open>
  The certificate and key parsers: a PEM file gives a sequence of items or fails at an item.
\<close>

record ('c, 'k, 'i) tls_lib =
  tl_read :: "string \<Rightarrow> string option"
  tl_certs :: "string \<Rightarrow> 'c option list"
  tl_parsed :: "'c \<Rightarrow> bool"
  tl_keys :: "string \<Rightarrow> 'k option list"
  tl_from_der :: "'c list \<Rightarrow> 'k \<Rightarrow> 'i option"
  tl_keys_match :: "'i \<Rightarrow> bool"

definition invalid :: "string \<Rightarrow> string \<Rightarrow> string" where
  "invalid path message = path @ '': '' @ message"

definition read_file :: "('c, 'k, 'i) tls_lib \<Rightarrow> string \<Rightarrow> string + string" where
  "read_file lib path =
     (case tl_read lib path of None \<Rightarrow> Inl (''reading TLS file '' @ path @ '': '') | Some s \<Rightarrow> Inr s)"

fun sequence_opt :: "'a option list \<Rightarrow> 'a list option" where
  "sequence_opt [] = Some []"
| "sequence_opt (None # xs) = None"
| "sequence_opt (Some x # xs) = map_option ((#) x) (sequence_opt xs)"

fun scan_keys :: "string \<Rightarrow> 'k option list \<Rightarrow> 'k option \<Rightarrow> string + 'k option" where
  "scan_keys path [] key = Inr key"
| "scan_keys path (None # items) key = Inl (invalid path ''invalid private-key PEM'')"
| "scan_keys path (Some k # items) key =
     (if key \<noteq> None then Inl (invalid path ''expected exactly one private key'')
      else scan_keys path items (Some k))"

definition load_identity :: "('c, 'k, 'i) tls_lib \<Rightarrow> string \<Rightarrow> string \<Rightarrow> string + 'i" where
  "load_identity lib cert_path key_path =
     (case read_file lib cert_path of Inl e \<Rightarrow> Inl e
      | Inr cert_pem \<Rightarrow>
     (case sequence_opt (tl_certs lib cert_pem) of None \<Rightarrow> Inl (invalid cert_path ''invalid certificate PEM'')
      | Some certs \<Rightarrow>
        if certs = [] then Inl (invalid cert_path ''no certificates found'')
        else if \<not> list_all (tl_parsed lib) certs then Inl (invalid cert_path ''invalid X.509 certificate'')
        else
     (case read_file lib key_path of Inl e \<Rightarrow> Inl e
      | Inr key_pem \<Rightarrow>
     (case scan_keys key_path (tl_keys lib key_pem) None of Inl e \<Rightarrow> Inl e
      | Inr None \<Rightarrow> Inl (invalid key_path ''no supported unencrypted private key found'')
      | Inr (Some key) \<Rightarrow>
     (case tl_from_der lib certs key of
        None \<Rightarrow> Inl (invalid key_path ''invalid private key or certificate/key mismatch'')
      | Some identity \<Rightarrow>
          if tl_keys_match lib identity then Inr identity
          else Inl (invalid key_path ''cannot verify certificate/key match''))))))"

record 'i reloadable_tls =
  rl_cert_path :: string
  rl_key_path :: string
  rl_identity :: 'i

definition tls_new :: "('c, 'k, 'i) tls_lib \<Rightarrow> string \<Rightarrow> tls_config \<Rightarrow> string \<Rightarrow> string + 'i reloadable_tls" where
  "tls_new lib cwd config config_path =
     (let cert_path = path_join cwd (resolve_sibling config_path (tls_cert_path config));
          key_path = path_join cwd (resolve_sibling config_path (tls_key_path config))
      in case load_identity lib cert_path key_path of Inl e \<Rightarrow> Inl e
         | Inr i \<Rightarrow> Inr \<lparr> rl_cert_path = cert_path, rl_key_path = key_path, rl_identity = i \<rparr>)"

definition tls_reload :: "('c, 'k, 'i) tls_lib \<Rightarrow> 'i reloadable_tls \<Rightarrow> (string + unit) \<times> 'i reloadable_tls" where
  "tls_reload lib t =
     (case load_identity lib (rl_cert_path t) (rl_key_path t) of
        Inl e \<Rightarrow> (Inl e, t)
      | Inr i \<Rightarrow> (Inr (), t\<lparr> rl_identity := i \<rparr>))"

text \<open>The renewal loop: each signal finds the files as they are at that moment.\<close>

definition reload_on_hup :: "('c, 'k, 'i) tls_lib list \<Rightarrow> 'i reloadable_tls \<Rightarrow> 'i reloadable_tls" where
  "reload_on_hup hups t = foldl (\<lambda>t lib. snd (tls_reload lib t)) t hups"

section \<open>Cookies\<close>

text \<open>A cookie pair as a browser returns it.\<close>

definition cookie_pair_ok :: "string \<times> string \<Rightarrow> bool" where
  "cookie_pair_ok p \<longleftrightarrow> CHR '';'' \<notin> set (fst p) \<and> CHR ''='' \<notin> set (fst p) \<and> CHR '';'' \<notin> set (snd p) \<and>
     trim (fst p) = fst p \<and> trim (snd p) = snd p \<and>
     trim (fst p @ ''='' @ snd p) = fst p @ ''='' @ snd p \<and>
     trim ('' '' @ fst p @ ''='' @ snd p) = fst p @ ''='' @ snd p"

lemma split_char_sep:
  "c \<notin> set s \<Longrightarrow> split_char c (s @ c # t) = s # split_char c t"
  unfolding split_char_def by (rule split_pred_append_sep) auto

lemma split_cookie_header:
  assumes "ps \<noteq> []" "\<forall>p \<in> set ps. CHR '';'' \<notin> set p"
  shows "split_char CHR '';'' (join_with ''; '' ps) = hd ps # map (\<lambda>p. CHR '' '' # p) (tl ps)"
proof -
  have gen: "split_char CHR '';'' (s @ concat (map (\<lambda>v. ''; '' @ v) qs)) = s # map (\<lambda>p. CHR '' '' # p) qs"
    if "CHR '';'' \<notin> set s" "\<forall>p \<in> set qs. CHR '';'' \<notin> set p" for s qs
    using that
  proof (induction qs arbitrary: s)
    case Nil
    then show ?case by (auto simp: split_char_def intro!: split_pred_no_sep)
  next
    case (Cons q qs)
    have "split_char CHR '';'' (s @ concat (map (\<lambda>v. ''; '' @ v) (q # qs))) =
        s # split_char CHR '';'' ((CHR '' '' # q) @ concat (map (\<lambda>v. ''; '' @ v) qs))"
      using split_char_sep[OF Cons.prems(1), of "(CHR '' '' # q) @ concat (map (\<lambda>v. ''; '' @ v) qs)"] by simp
    also have "\<dots> = s # (CHR '' '' # q) # map (\<lambda>p. CHR '' '' # p) qs"
      using Cons.IH[of "CHR '' '' # q"] Cons.prems(2) by simp
    finally show ?case by simp
  qed
  from assms show ?thesis by (cases ps) (simp_all add: join_with_def gen)
qed

text \<open>
  The cookies of a request are those the browser holds: parsing the \<open>Cookie\<close> header it
  builds gives, for every name, the last value stored under that name.
\<close>

theorem cookie_header_round_trip:
  assumes "\<forall>p \<in> set ps. cookie_pair_ok p"
  shows "bm_get (parse_cookies (join_with ''; '' (map (\<lambda>(k, v). k @ ''='' @ v) ps))) name = map_of (rev ps) name"
proof (cases "ps = []")
  case True
  have "trim [] = []" using set_trim_subset[of "[]"] by simp
  with True show ?thesis by (simp add: parse_cookies_def join_with_def split_char_def)
next
  case False
  let ?f = "\<lambda>m part. case split_once CHR ''='' (trim part) of None \<Rightarrow> m
            | Some (k, v) \<Rightarrow> bm_insert (trim k) (trim v) m"
  let ?pair = "\<lambda>(k, v). k @ ''='' @ v"
  have step: "?f m part = (case p of (k, v) \<Rightarrow> bm_insert k v m)"
    if "cookie_pair_ok p" "part \<in> {?pair p, CHR '' '' # ?pair p}" for m part p
  proof -
    obtain k v where p: "p = (k, v)" by (cases p)
    have "trim part = k @ CHR ''='' # v" using that p by (auto simp: cookie_pair_ok_def)
    moreover have "split_once CHR ''='' (k @ CHR ''='' # v) = Some (k, v)"
      using that(1) p by (intro split_once_append) (simp add: cookie_pair_ok_def)
    ultimately show ?thesis using that(1) p by (simp add: cookie_pair_ok_def)
  qed
  have fold: "foldl ?f m parts = foldl (\<lambda>m (k, v). bm_insert k v m) m qs"
    if "\<forall>q \<in> set qs. cookie_pair_ok q" "list_all2 (\<lambda>part q. part \<in> {?pair q, CHR '' '' # ?pair q}) parts qs" for m parts qs
    using that(2,1)
  proof (induction arbitrary: m rule: list_all2_induct)
    case (Cons part parts q qs)
    then show ?case using step[of q part m] by simp
  qed simp
  have parts: "split_char CHR '';'' (join_with ''; '' (map ?pair ps)) =
      hd (map ?pair ps) # map (\<lambda>p. CHR '' '' # p) (tl (map ?pair ps))"
    using False assms by (intro split_cookie_header) (auto simp: cookie_pair_ok_def)
  have "list_all2 (\<lambda>part q. part \<in> {?pair q, CHR '' '' # ?pair q})
      (hd (map ?pair ps) # map (\<lambda>p. CHR '' '' # p) (tl (map ?pair ps))) ps"
    using False by (cases ps) (simp_all add: list_all2_map1 list_all2_refl)
  from fold[OF assms this] show ?thesis
    unfolding parse_cookies_def parts
    by (simp add: bm_get_of_list[symmetric] bm_of_list_def)
qed

theorem cookie_header_round_trip_witness:
  "bm_get (parse_cookies ''a=1; __Host-state=x=y; a=2'') ''__Host-state'' = Some ''x=y''"
proof -
  have "cookie_pair_ok (''a'', ''1'')" "cookie_pair_ok (''__Host-state'', ''x=y'')" "cookie_pair_ok (''a'', ''2'')"
    by code_simp+
  then show ?thesis
    using cookie_header_round_trip[of "[(''a'', ''1''), (''__Host-state'', ''x=y''), (''a'', ''2'')]" "''__Host-state''"]
    by (simp add: join_with_def)
qed

section \<open>The sealer of a configuration\<close>

lemma with_secure_fields [simp]:
  "sl_keys (with_secure b s) = sl_keys s" "sl_ttl (with_secure b s) = sl_ttl s"
  "sl_cookie_name (with_secure b s) =
     (let base = unwrap_or (sl_raw_cookie_name s) (strip_prefix HOST_PREFIX (sl_raw_cookie_name s))
      in if b then HOST_PREFIX @ base else base)"
  by (simp_all add: with_secure_def recompute_name_def Let_def)

lemma sealer_new_fields [simp]:
  "sl_keys (sealer_new lib k n) = [derive_key lib k]" "sl_raw_cookie_name (sealer_new lib k n) = n"
  by (simp_all add: sealer_new_def recompute_name_def Let_def)

lemma config_sealer_keys:
  "sl_keys (config_sealer lib cfg) =
     derive_key lib (cf_state_encryption_key cfg) # map (derive_key lib) (filter (\<lambda>x. x \<noteq> []) (cf_previous_keys cfg))"
  by (simp add: config_sealer_def with_previous_secrets_def with_ttl_seconds_def with_same_site_def)

lemma config_sealer_name:
  "sl_cookie_name (config_sealer lib cfg) =
     (let base = unwrap_or (cf_cookie_name cfg) (strip_prefix HOST_PREFIX (cf_cookie_name cfg))
      in if cf_cookie_secure cfg then HOST_PREFIX @ base else base)"
  by (simp add: config_sealer_def with_previous_secrets_def with_ttl_seconds_def with_same_site_def)

lemma config_sealer_wf:
  assumes "CHR ''='' \<notin> set (cf_cookie_name cfg)" "CHR '';'' \<notin> set (cf_cookie_name cfg)"
  shows "sealer_wf (config_sealer lib cfg)"
proof -
  have "set (unwrap_or n (strip_prefix HOST_PREFIX n)) \<subseteq> set n" for n
    by (cases "strip_prefix HOST_PREFIX n") (auto simp: strip_prefix_Some_iff)
  then have "set (sl_cookie_name (config_sealer lib cfg)) \<subseteq> set HOST_PREFIX \<union> set (cf_cookie_name cfg)"
    by (auto simp: config_sealer_name Let_def split: if_splits)
  then show ?thesis using assms by (auto simp: sealer_wf_def config_sealer_keys HOST_PREFIX_def)
qed

text \<open>
  C35. Key rotation keeps sessions: a cookie sealed under one valid configuration is read, with
  all its state, under a later valid configuration that keeps the old secret among its previous
  keys, whatever else changed in between.
\<close>

theorem rotation_keeps_sessions:
  assumes "crypto_ok lib" "CHR ''='' \<notin> set (cf_cookie_name old)" "CHR '';'' \<notin> set (cf_cookie_name old)"
    and "validate new = Inr ()" "cf_state_encryption_key old \<in> set (cf_state_encryption_key new # cf_previous_keys new)"
    and "seal lib (config_sealer lib old) t iv st = Inr h" "\<not> st_delete st"
    and "fresh (config_sealer lib new) (unwrap_or t (st_issued_at st)) now"
  shows "st_data (unseal lib (config_sealer lib new) now (Some (cookie_token h))) = st_data st"
proof -
  have "\<forall>k \<in> set (cf_previous_keys new). 32 \<le> length k"
    using assms(4) by (simp add: validate_def bind_unit check_previous_ok MIN_STATE_KEY_LEN_def)
  then have "\<forall>k \<in> set (cf_previous_keys new). k \<noteq> []" by auto
  then have "derive_key lib (cf_state_encryption_key old) \<in> set (sl_keys (config_sealer lib new))"
    using assms(5) by (auto simp: config_sealer_keys)
  then show ?thesis
    using unseal_sealed[OF assms(1) config_sealer_wf[OF assms(2,3)] assms(6,7), of "config_sealer lib new" now] assms(8)
    by (simp add: config_sealer_keys)
qed

text \<open>
  C2. Nothing but an authentic, unexpired cookie opens a session: a state other than the fresh
  one comes from an envelope that one of the configured keys decrypts, of the current version,
  within the lifetime, and it is exactly the state in that envelope.
\<close>

theorem unseal_only_authentic:
  assumes "unseal lib s now cookie \<noteq> state_new"
  shows "\<exists>token key p j e. cookie = Some token \<and> key \<in> set (sl_keys s) \<and> cl_decrypt lib key token = Some p \<and>
    envelope_text lib p = Some j \<and> cl_of_json lib j = Some e \<and> ev_v e = ENVELOPE_VERSION \<and>
    fresh s (ev_iat e) now \<and>
    unseal lib s now cookie = \<lparr> st_data = ev_data e, st_issued_at = Some (ev_iat e), st_delete = False \<rparr>"
proof -
  from assms obtain token p where tp: "cookie = Some token" "find_map (\<lambda>key. cl_decrypt lib key token) (sl_keys s) = Some p"
      "unseal lib s now cookie = decode_envelope lib s now p"
    by (auto simp: unseal_def split: option.splits if_splits)
  obtain key where "key \<in> set (sl_keys s)" "cl_decrypt lib key token = Some p" using find_map_SomeD[OF tp(2)] by blast
  with tp decode_envelope_sound[OF tp(3)[symmetric] assms] show ?thesis by blast
qed

definition toy_rotated :: proxy_config where
  "toy_rotated = toy_config\<lparr> cf_state_encryption_key := replicate 32 CHR ''n'',
     cf_previous_keys := [replicate 32 CHR ''k''], cf_cookie_name := ''other'' \<rparr>"

theorem rotation_keeps_sessions_witness:
  "\<exists>h. seal (toy_crypto toy_envelopes) (config_sealer (toy_crypto toy_envelopes) toy_config) 100 ''iv'' (cx_state toy_leg1) = Inr h \<and>
     st_data (unseal (toy_crypto toy_envelopes) (config_sealer (toy_crypto toy_envelopes) toy_rotated) 200
       (Some (cookie_token h))) = toy_base"
proof -
  let ?lib = "toy_crypto toy_envelopes"
  have keys: "sl_keys (config_sealer ?lib toy_config) = [replicate 32 CHR ''k'']"
    by (simp add: config_sealer_keys derive_key_def toy_crypto_def toy_config_def)
  have name: "length (sl_cookie_name (config_sealer ?lib toy_config)) = 23"
    by (simp add: config_sealer_name toy_config_def default_cookie_name_def HOST_PREFIX_def strip_prefix_def
        starts_with_def)
  have fields: "sl_max_cookie_bytes (config_sealer ?lib c) = 4096" "sl_ttl (config_sealer ?lib toy_rotated) = Some 1800" for c
    by (simp_all add: config_sealer_def with_previous_secrets_def with_ttl_seconds_def with_same_site_def
        with_secure_def recompute_name_def sealer_new_def Let_def MAX_COOKIE_BYTES_def toy_rotated_def toy_config_def)
  have enc: "toy_encrypt (replicate 32 CHR ''k'') ''iv'' (PLAINTEXT_TAG_DEFLATE # ''{0'') =
      Some (show_nat 32 @ CHR '':'' # replicate 32 CHR ''k'' @ PLAINTEXT_TAG_DEFLATE # ''{0'')"
    by (simp add: toy_encrypt_def PLAINTEXT_TAG_DEFLATE_def)
  have len: "length (show_nat 32) = 2" by code_simp
  obtain h where h: "seal ?lib (config_sealer ?lib toy_config) 100 ''iv'' (cx_state toy_leg1) = Inr h"
    using toy_seal_steps(1) keys name fields(1)[of toy_config] enc len
    by (simp add: seal_def toy_leg1_def toy_crypto_def ENVELOPE_VERSION_def MAX_INFLATED_BYTES_def
        compress_envelope_def Let_def)
  have l: "to_ascii_lowercase ''None'' = ''none''" by code_simp
  have v: "validate toy_rotated = Inr ()"
    unfolding validate_def bind_unit check_ok check_previous_ok check_names_ok
    by (simp add: toy_rotated_def toy_config_def l MIN_STATE_KEY_LEN_def)
  have "st_data (unseal ?lib (config_sealer ?lib toy_rotated) 200 (Some (cookie_token h))) = st_data (cx_state toy_leg1)"
    by (rule rotation_keeps_sessions[OF toy_crypto_ok _ _ v _ h])
       (simp_all add: toy_config_def default_cookie_name_def toy_rotated_def toy_leg1_def fresh_def fields(2)[unfolded toy_rotated_def]
          fields(2)[unfolded toy_rotated_def toy_config_def default_cookie_name_def, simplified]
          MAX_IAT_SKEW_SECONDS_def saturating_sub_def)
  with h show ?thesis by (auto simp: toy_leg1_def)
qed

theorem unseal_only_authentic_witness:
  "\<exists>token key p j e. Some (cookie_token toy_header) = Some token \<and> key \<in> set (sl_keys toy_sealer) \<and>
     cl_decrypt (en_crypto toy_env) key token = Some p \<and>
     envelope_text (en_crypto toy_env) p = Some j \<and> cl_of_json (en_crypto toy_env) j = Some e \<and>
     fresh toy_sealer (ev_iat e) 200"
  using unseal_only_authentic[of "en_crypto toy_env" toy_sealer 200 "Some (cookie_token toy_header)"]
    toy_unseal2 by (auto simp: toy_px_sealer state_new_def)

section \<open>Fetches\<close>

fun total_body :: "string option list \<Rightarrow> string option" where
  "total_body [] = Some []"
| "total_body (None # cs) = None"
| "total_body (Some c # cs) = map_option ((@) c) (total_body cs)"

lemma read_chunks_ok:
  "length body \<le> limit \<Longrightarrow> read_chunks limit cs body = Inr b \<longleftrightarrow>
     (\<exists>rest. total_body cs = Some rest \<and> b = body @ rest \<and> length b \<le> limit)"
proof (induction cs arbitrary: body)
  case (Cons c cs)
  show ?case
  proof (cases c)
    case (Some chunk)
    with Cons.IH[of "body @ chunk"] show ?thesis
      by (cases "total_body cs") (auto simp: append_bounded_def bind_result_eq_Inr)
  qed simp
qed auto

text \<open>
  An outbound fetch returns exactly the bytes of the response and never more than the
  configured limit, whether or not the peer announced its length.
\<close>

theorem fetch_bounded_iff:
  "into_fetch limit resp = Inr r \<longleftrightarrow>
     (\<forall>n. fs_content_length resp = Some n \<longrightarrow> n \<le> limit) \<and>
     (\<exists>body. total_body (fs_chunks resp) = Some body \<and> length body \<le> limit \<and>
        r = \<lparr> fr_status = fs_status resp, fr_body = body, fr_content_type = fs_content_type resp \<rparr>)"
proof -
  have "into_fetch limit resp = Inr r \<longleftrightarrow>
      (case fs_content_length resp of None \<Rightarrow> True | Some n \<Rightarrow> n \<le> limit) \<and>
      (\<exists>body. read_chunks limit (fs_chunks resp) [] = Inr body \<and>
        r = \<lparr> fr_status = fs_status resp, fr_body = body, fr_content_type = fs_content_type resp \<rparr>)"
    by (auto simp: into_fetch_def bind_result_eq_Inr not_less split: option.splits)
  then show ?thesis using read_chunks_ok[of "[]" limit "fs_chunks resp"] by (auto split: option.split)
qed

theorem fetch_bounded_iff_witness:
  "into_fetch 4 \<lparr> fs_status = 200, fs_content_type = None, fs_content_length = None, fs_chunks = [Some ''ab'', Some ''cd''] \<rparr>
     = Inr \<lparr> fr_status = 200, fr_body = ''abcd'', fr_content_type = None \<rparr> \<and>
   into_fetch 3 \<lparr> fs_status = 200, fs_content_type = None, fs_content_length = None, fs_chunks = [Some ''ab'', Some ''cd''] \<rparr>
     \<noteq> Inr \<lparr> fr_status = 200, fr_body = ''abcd'', fr_content_type = None \<rparr>"
  unfolding fetch_bounded_iff by simp

section \<open>Renewal\<close>

text \<open>
  The identity the server presents is always a complete, validated one: after any sequence
  of renewals it is the result of the last load that succeeded, or the initial one; failed
  renewals change nothing.
\<close>

theorem tls_identity_is_last_valid_load:
  "rl_identity (reload_on_hup hups t) =
     last (rl_identity t # List.map_filter
       (\<lambda>lib. case load_identity lib (rl_cert_path t) (rl_key_path t) of Inl _ \<Rightarrow> None | Inr i \<Rightarrow> Some i) hups)"
proof (induction hups arbitrary: t)
  case (Cons lib hups)
  show ?case
  proof (cases "load_identity lib (rl_cert_path t) (rl_key_path t)")
    case (Inl e)
    with Cons show ?thesis by (simp add: reload_on_hup_def tls_reload_def map_filter_simps)
  next
    case (Inr i)
    with Cons[of "t\<lparr> rl_identity := i \<rparr>"] show ?thesis
      by (simp add: reload_on_hup_def tls_reload_def map_filter_simps)
  qed
qed (simp add: reload_on_hup_def map_filter_simps)

text \<open>What a load vouches for.\<close>

lemma load_identity_valid:
  assumes "load_identity lib cert_path key_path = Inr i"
  shows "tl_keys_match lib i \<and> (\<exists>pem certs kpem key. tl_read lib cert_path = Some pem \<and>
     sequence_opt (tl_certs lib pem) = Some certs \<and> certs \<noteq> [] \<and> (\<forall>c \<in> set certs. tl_parsed lib c) \<and>
     tl_read lib key_path = Some kpem \<and> tl_keys lib kpem = [Some key] \<and> tl_from_der lib certs key = Some i)"
proof -
  have scan_some: "scan_keys p items (Some x) = Inr y \<Longrightarrow> items = [] \<and> y = Some x" for p items x y
    by (cases items; cases "hd items") auto
  have scan: "scan_keys p items None = Inr (Some k) \<Longrightarrow> items = [Some k]" for p items k
    by (cases items; cases "hd items") (auto dest: scan_some)
  from assms show ?thesis
    by (auto simp: load_identity_def read_file_def list_all_iff dest!: scan
        split: sum.splits option.splits if_splits)
qed

end
