(* ===== verification/Ttl_Cache.thy ===== *)
theory Ttl_Cache
  imports Ordered_Map
begin

text \<open>
  The TTL cache of \<open>cache.rs\<close>.  Every operation reads the clock before it takes the lock, so
  each takes its own \<open>now\<close>; a history is the sequence of operations in lock order.  A poisoned
  lock is a flag of the state.  The locale \<open>check_and_set\<close> states the contract of the atomic
  check-and-set that replay protection rests on; its main lemma is that a key accepted once is
  not accepted again before it expires.
\<close>

section \<open>The contract of a check-and-set\<close>

fun cas_run :: "('t \<Rightarrow> 'k \<Rightarrow> 'd \<Rightarrow> 's \<Rightarrow> bool \<times> 's) \<Rightarrow> ('t \<times> 'k \<times> 'd) list \<Rightarrow> 's \<Rightarrow> bool list \<times> 's" where
  "cas_run cas [] s = ([], s)"
| "cas_run cas ((t, k, d) # h) s =
     (case cas t k d s of (b, s') \<Rightarrow> (case cas_run cas h s' of (bs, s'') \<Rightarrow> (b # bs, s'')))"

lemma cas_run_length: "length (fst (cas_run cas h s)) = length h"
  by (induction h arbitrary: s) (auto split: prod.splits, metis fst_conv)

lemma cas_run_take: "fst (cas_run cas (take n h) s) = take n (fst (cas_run cas h s))"
proof (induction h arbitrary: n s)
  case (Cons x h)
  obtain t k d where x: "x = (t, k, d)" by (cases x)
  obtain b s' where "cas t k d s = (b, s')" by fastforce
  with Cons.IH[of _ s'] x show ?case by (cases n) (auto split: prod.split, metis fst_conv)
qed simp

locale check_and_set =
  fixes cas :: "'t :: linorder \<Rightarrow> 'k \<Rightarrow> 'd \<Rightarrow> 's \<Rightarrow> bool \<times> 's"
    and held :: "'s \<Rightarrow> 't \<Rightarrow> 'k \<Rightarrow> bool"
    and expiry :: "'t \<Rightarrow> 'd \<Rightarrow> 't"
    and invar :: "'s \<Rightarrow> bool"
  assumes accepted_held:
      "invar s \<Longrightarrow> cas t k d s = (True, s') \<Longrightarrow> t \<le> u \<Longrightarrow> u < expiry t d \<Longrightarrow> held s' u k"
    and held_rejected: "invar s \<Longrightarrow> held s t k \<Longrightarrow> cas t k d s = (False, s)"
    and held_stays: "invar s \<Longrightarrow> held s u k \<Longrightarrow> cas t k' d s = (b, s') \<Longrightarrow> t \<le> u \<Longrightarrow> held s' u k"
    and invar_cas: "invar s \<Longrightarrow> cas t k d s = (b, s') \<Longrightarrow> invar s'"
begin

lemma rejected_while_held:
  assumes "invar s" "held s u k" "\<forall>x \<in> set h. fst x \<le> u" "j < length h"
    "fst (snd (h ! j)) = k" "fst (h ! j) = u"
  shows "\<not> fst (cas_run cas h s) ! j"
  using assms
proof (induction h arbitrary: s j)
  case (Cons x h)
  obtain t k' d where x: "x = (t, k', d)" by (cases x)
  obtain b s' where c: "cas t k' d s = (b, s')" by fastforce
  have s': "invar s'" "held s' u k"
    using invar_cas[OF Cons.prems(1) c] held_stays[OF Cons.prems(1,2) c] Cons.prems(3) x by auto
  show ?case
  proof (cases j)
    case 0
    with Cons.prems x have "t = u" "k' = k" by auto
    with held_rejected[OF Cons.prems(1,2), of d] c have "\<not> b" by simp
    with 0 x c show ?thesis by (auto split: prod.split)
  next
    case (Suc i)
    with Cons.IH[OF s', of i] Cons.prems x c show ?thesis by (auto split: prod.split)
  qed
qed simp

text \<open>Two accepted attempts for one key: the second is not before the first expired.\<close>

lemma accepted_once:
  assumes "invar s" "sorted (map fst h)" "i < j" "j < length h"
    "fst (cas_run cas h s) ! i" "fst (cas_run cas h s) ! j" "fst (snd (h ! i)) = fst (snd (h ! j))"
  shows "expiry (fst (h ! i)) (snd (snd (h ! i))) \<le> fst (h ! j)"
  using assms
proof (induction h arbitrary: s i j)
  case (Cons x h)
  obtain t k d where x: "x = (t, k, d)" by (cases x)
  obtain b s' where c: "cas t k d s = (b, s')" by fastforce
  have inv: "invar s'" using invar_cas[OF Cons.prems(1) c] .
  have res: "fst (cas_run cas (x # h) s) = b # fst (cas_run cas h s')"
    using x c by (simp split: prod.split)
  obtain j' where j: "j = Suc j'" using Cons.prems(3) by (cases j) auto
  have j': "j' < length h" using Cons.prems(4) j by simp
  show ?case
  proof (cases i)
    case (Suc i')
    with Cons.IH[OF inv, of i' j'] Cons.prems j res show ?thesis by simp
  next
    case 0
    let ?u = "fst (h ! j')"
    show ?thesis
    proof (rule ccontr)
      assume "\<not> ?thesis"
      with 0 x j have lt: "?u < expiry t d" by simp
      have le: "t \<le> ?u" using Cons.prems(2) x j' by (auto dest: nth_mem)
      have "b" using Cons.prems(5) 0 res by simp
      with accepted_held[OF Cons.prems(1), of t k d s' ?u] c le lt have held: "held s' ?u k" by simp
      have pre: "\<forall>y \<in> set (take (Suc j') h). fst y \<le> ?u"
      proof
        fix y assume "y \<in> set (take (Suc j') h)"
        then obtain l where l: "l < Suc j'" "l < length h" "y = h ! l" by (auto simp: in_set_conv_nth)
        have "sorted (map fst h)" using Cons.prems(2) by simp
        from sorted_nth_mono[OF this, of l j'] l j' show "fst y \<le> ?u" by simp
      qed
      have same: "fst (cas_run cas h s') ! j' = fst (cas_run cas (take (Suc j') h) s') ! j'"
        by (simp add: cas_run_take)
      have "\<not> fst (cas_run cas (take (Suc j') h) s') ! j'"
        using pre j' Cons.prems(7) 0 x j
        by (intro rejected_while_held[OF inv held]) auto
      with same Cons.prems(6) j res show False by simp
    qed
  qed
qed simp

end

section \<open>The cache\<close>

definition PRUNE_FLOOR :: nat where "PRUNE_FLOOR = 1024"
definition USIZE_MAX :: nat where "USIZE_MAX = 2 ^ 64 - 1"

record 'v cache_entry =
  ce_value :: 'v
  ce_expires_at :: u64

record 'v ttl_cache =
  tc_inner :: "'v cache_entry smap"
  tc_default_ttl :: u64
  tc_prune_at :: nat
  tc_poisoned :: bool

definition saturating_add :: "u64 \<Rightarrow> u64 \<Rightarrow> u64" where
  "saturating_add a b = (if a + b < a then - 1 else a + b)"

definition saturating_mul2 :: "nat \<Rightarrow> nat" where
  "saturating_mul2 n = min (n * 2) USIZE_MAX"

definition cache_new :: "u64 \<Rightarrow> 'v ttl_cache" where
  "cache_new ttl = \<lparr> tc_inner = [], tc_default_ttl = ttl, tc_prune_at = PRUNE_FLOOR, tc_poisoned = False \<rparr>"

definition cache_len :: "'v ttl_cache \<Rightarrow> nat" where
  "cache_len c = (if tc_poisoned c then 0 else length (tc_inner c))"

definition drop_expired :: "u64 \<Rightarrow> 'v cache_entry smap \<Rightarrow> 'v cache_entry smap" where
  "drop_expired now m = bm_retain (\<lambda>_ e. ce_expires_at e > now) m"

definition prune_expired :: "u64 \<Rightarrow> 'v ttl_cache \<Rightarrow> 'v ttl_cache" where
  "prune_expired now c = (if tc_poisoned c then c else c\<lparr> tc_inner := drop_expired now (tc_inner c) \<rparr>)"

definition cache_get :: "u64 \<Rightarrow> 'v ttl_cache \<Rightarrow> string \<Rightarrow> 'v option" where
  "cache_get now c key =
     (if tc_poisoned c then None
      else case bm_get (tc_inner c) key of
             None \<Rightarrow> None
           | Some e \<Rightarrow> if ce_expires_at e > now then Some (ce_value e) else None)"

definition maybe_prune :: "u64 \<Rightarrow> 'v ttl_cache \<Rightarrow> 'v ttl_cache" where
  "maybe_prune now c =
     (if length (tc_inner c) \<ge> tc_prune_at c
      then (let m = drop_expired now (tc_inner c)
            in c\<lparr> tc_inner := m, tc_prune_at := max (saturating_mul2 (length m)) PRUNE_FLOOR \<rparr>)
      else c)"

definition cache_store :: "u64 \<Rightarrow> string \<Rightarrow> 'v \<Rightarrow> u64 \<Rightarrow> 'v ttl_cache \<Rightarrow> 'v ttl_cache" where
  "cache_store now key v ttl c = maybe_prune now
     (c\<lparr> tc_inner := bm_insert key \<lparr> ce_value = v, ce_expires_at = saturating_add now ttl \<rparr> (tc_inner c) \<rparr>)"

definition put_with_ttl :: "u64 \<Rightarrow> string \<Rightarrow> 'v \<Rightarrow> u64 \<Rightarrow> 'v ttl_cache \<Rightarrow> 'v ttl_cache" where
  "put_with_ttl now key v ttl c = (if tc_poisoned c then c else cache_store now key v ttl c)"

definition cache_put :: "u64 \<Rightarrow> string \<Rightarrow> 'v \<Rightarrow> 'v ttl_cache \<Rightarrow> 'v ttl_cache" where
  "cache_put now key v c = put_with_ttl now key v (tc_default_ttl c) c"

definition put_if_absent :: "u64 \<Rightarrow> string \<Rightarrow> 'v \<Rightarrow> u64 \<Rightarrow> 'v ttl_cache \<Rightarrow> bool \<times> 'v ttl_cache" where
  "put_if_absent now key v ttl c =
     (if tc_poisoned c then (False, c)
      else if (case bm_get (tc_inner c) key of None \<Rightarrow> False | Some e \<Rightarrow> ce_expires_at e > now)
      then (False, c)
      else (True, cache_store now key v ttl c))"

definition expiring_within :: "u64 \<Rightarrow> u64 \<Rightarrow> 'v ttl_cache \<Rightarrow> string list" where
  "expiring_within now window c =
     (if tc_poisoned c then []
      else map fst (filter (\<lambda>(k, e). ce_expires_at e \<le> now + window) (tc_inner c)))"

text \<open>The snapshot file holds the entries; reading and writing it is the caller's.\<close>

definition persist :: "'v ttl_cache \<Rightarrow> 'v cache_entry smap option" where
  "persist c = (if tc_poisoned c then None else Some (tc_inner c))"

definition cache_load :: "u64 \<Rightarrow> 'v cache_entry smap \<Rightarrow> 'v ttl_cache \<Rightarrow> 'v ttl_cache" where
  "cache_load now snapshot c =
     (if tc_poisoned c then c
      else c\<lparr> tc_inner := foldl (\<lambda>m (k, e). if ce_expires_at e > now then bm_insert k e m else m)
                           (tc_inner c) snapshot \<rparr>)"

definition cache_wf :: "'v ttl_cache \<Rightarrow> bool" where
  "cache_wf c \<longleftrightarrow> bm_wf (tc_inner c) \<and> PRUNE_FLOOR \<le> tc_prune_at c"

section \<open>Invariant and functional behaviour\<close>

lemma saturating_add_le: "a \<le> saturating_add a b"
  by (auto simp: saturating_add_def not_less)

lemma bm_wf_drop_expired [simp]: "bm_wf m \<Longrightarrow> bm_wf (drop_expired now m)"
  by (simp add: drop_expired_def)

lemma drop_expired_get:
  "bm_wf m \<Longrightarrow> bm_get (drop_expired now m) k =
     (case bm_get m k of None \<Rightarrow> None | Some e \<Rightarrow> if ce_expires_at e > now then Some e else None)"
  by (simp add: drop_expired_def bm_get_retain split: option.split)

lemma cache_wf_new [simp]: "cache_wf (cache_new ttl)"
  by (simp add: cache_wf_def cache_new_def)

lemma cache_wf_maybe_prune: "cache_wf c \<Longrightarrow> cache_wf (maybe_prune now c)"
  by (simp add: cache_wf_def maybe_prune_def Let_def)

lemma cache_wf_store: "cache_wf c \<Longrightarrow> cache_wf (cache_store now k v ttl c)"
  unfolding cache_store_def by (rule cache_wf_maybe_prune) (simp add: cache_wf_def)

lemma cache_wf_ops:
  "cache_wf c \<Longrightarrow> cache_wf (put_with_ttl now k v ttl c)"
  "cache_wf c \<Longrightarrow> cache_wf (prune_expired now c)"
  "cache_wf c \<Longrightarrow> cache_wf (snd (put_if_absent now k v ttl c))"
  by (auto simp: put_with_ttl_def prune_expired_def put_if_absent_def cache_wf_store)
     (simp add: cache_wf_def)

lemma poisoned_maybe_prune [simp]: "tc_poisoned (maybe_prune now c) = tc_poisoned c"
  by (simp add: maybe_prune_def Let_def)

lemma poisoned_store [simp]: "tc_poisoned (cache_store now k v ttl c) = tc_poisoned c"
  by (simp add: cache_store_def)

lemma maybe_prune_get:
  "cache_wf c \<Longrightarrow> now \<le> u \<Longrightarrow> cache_get u (maybe_prune now c) k = cache_get u c k"
  by (auto simp: maybe_prune_def cache_get_def cache_wf_def drop_expired_get Let_def split: option.splits)

text \<open>Sweeping is invisible: a store followed by a lookup at or after its time.\<close>

lemma cache_get_store:
  assumes "cache_wf c" "\<not> tc_poisoned c" "now \<le> u"
  shows "cache_get u (cache_store now k v ttl c) k' =
    (if k' = k then (if u < saturating_add now ttl then Some v else None) else cache_get u c k')"
proof -
  let ?c = "c\<lparr> tc_inner := bm_insert k \<lparr> ce_value = v, ce_expires_at = saturating_add now ttl \<rparr> (tc_inner c) \<rparr>"
  have "cache_wf ?c" using assms(1) by (simp add: cache_wf_def)
  from maybe_prune_get[OF this assms(3), of k'] show ?thesis
    using assms(1,2) by (simp add: cache_store_def cache_get_def cache_wf_def bm_get_insert)
qed

text \<open>A key that \<open>put_if_absent\<close> refuses: an entry not yet expired, or a poisoned lock.\<close>

definition entry_held :: "'v ttl_cache \<Rightarrow> u64 \<Rightarrow> string \<Rightarrow> bool" where
  "entry_held c now k \<longleftrightarrow> tc_poisoned c \<or>
     (case bm_get (tc_inner c) k of None \<Rightarrow> False | Some e \<Rightarrow> ce_expires_at e > now)"

lemma entry_held_get: "\<not> tc_poisoned c \<Longrightarrow> entry_held c now k \<longleftrightarrow> cache_get now c k \<noteq> None"
  by (auto simp: entry_held_def cache_get_def split: option.splits)

lemma put_if_absent_held: "put_if_absent now k v ttl c =
    (if entry_held c now k then (False, c) else (True, cache_store now k v ttl c))"
  by (simp add: put_if_absent_def entry_held_def)

definition cache_cas :: "u64 \<Rightarrow> string \<Rightarrow> 'v \<times> u64 \<Rightarrow> 'v ttl_cache \<Rightarrow> bool \<times> 'v ttl_cache" where
  "cache_cas now k d c = put_if_absent now k (fst d) (snd d) c"

interpretation cache: check_and_set cache_cas entry_held "\<lambda>t d. saturating_add t (snd d)" cache_wf
proof (unfold_locales, goal_cases)
  case (1 s t k d s' u)
  then have np: "\<not> tc_poisoned s" and s': "s' = cache_store t k (fst d) (snd d) s"
    by (auto simp: cache_cas_def put_if_absent_held entry_held_def split: if_splits)
  show ?case using cache_get_store[OF 1(1) np 1(3), of k] 1(4) np
    by (subst entry_held_get) (simp_all add: s')
next
  case (2 s t k d)
  then show ?case by (simp add: cache_cas_def put_if_absent_held)
next
  case (3 s u k t k' d b s')
  show ?case
  proof (cases "entry_held s t k'")
    case True with 3 show ?thesis by (simp add: cache_cas_def put_if_absent_held)
  next
    case False
    then have np: "\<not> tc_poisoned s" by (simp add: entry_held_def)
    have s': "s' = cache_store t k' (fst d) (snd d) s"
      using False 3(3) by (simp add: cache_cas_def put_if_absent_held)
    have "k \<noteq> k'"
      using 3(2,4) False np by (auto simp: entry_held_def split: option.splits)
    then show ?thesis
      using 3(2) np cache_get_store[OF 3(1) np 3(4), of k' "fst d" "snd d" k]
      by (simp add: entry_held_get s')
  qed
next
  case (4 s t k d b s')
  then show ?case using cache_wf_ops(3)[OF 4(1), of t k "fst d" "snd d"] by (simp add: cache_cas_def)
qed

section \<open>Refinement\<close>

text \<open>
  The abstract cache is the map of the values a reader can still see at a given time; sweeping
  does not exist in it.
\<close>

definition live_map :: "u64 \<Rightarrow> 'v ttl_cache \<Rightarrow> string \<Rightarrow> 'v option" where
  "live_map now c = (\<lambda>k. cache_get now c k)"

definition abs_put :: "u64 \<Rightarrow> u64 \<Rightarrow> string \<Rightarrow> 'v \<Rightarrow> u64 \<Rightarrow> (string \<Rightarrow> 'v option) \<Rightarrow> string \<Rightarrow> 'v option" where
  "abs_put u now k v ttl m = m(k := if u < saturating_add now ttl then Some v else None)"

text \<open>
  C7. The cache implements a map of live values: at any later time a reader sees exactly what a
  plain map would hold after the same operation, whether or not the operation swept the table.
\<close>

theorem cache_refines_live_map:
  assumes "cache_wf c" "\<not> tc_poisoned c" "now \<le> u"
  shows "live_map u (put_with_ttl now k v ttl c) = abs_put u now k v ttl (live_map u c) \<and>
    live_map u (prune_expired now c) = live_map u c \<and>
    (if live_map now c k \<noteq> None then put_if_absent now k v ttl c = (False, c)
     else fst (put_if_absent now k v ttl c) \<and>
       live_map u (snd (put_if_absent now k v ttl c)) = abs_put u now k v ttl (live_map u c))"
proof (intro conjI)
  have store: "live_map u (cache_store now k v ttl c) = abs_put u now k v ttl (live_map u c)"
    using cache_get_store[OF assms] by (auto simp: live_map_def abs_put_def fun_eq_iff)
  then show "live_map u (put_with_ttl now k v ttl c) = abs_put u now k v ttl (live_map u c)"
    using assms(2) by (simp add: put_with_ttl_def)
  show "live_map u (prune_expired now c) = live_map u c"
    using assms by (auto simp: live_map_def prune_expired_def cache_get_def cache_wf_def
        drop_expired_get fun_eq_iff split: option.splits)
  show "if live_map now c k \<noteq> None then put_if_absent now k v ttl c = (False, c)
     else fst (put_if_absent now k v ttl c) \<and>
       live_map u (snd (put_if_absent now k v ttl c)) = abs_put u now k v ttl (live_map u c)"
    using assms(2) store by (simp add: put_if_absent_held entry_held_get live_map_def)
qed

theorem cache_refines_live_map_witness:
  "live_map 150 (put_with_ttl 100 ''k'' (7 :: nat) 60 (cache_new 0)) ''k'' = Some 7"
  using cache_refines_live_map[of "cache_new 0 :: nat ttl_cache" 100 150 "''k''" 7 60]
  by (simp add: cache_new_def cache_wf_def abs_put_def saturating_add_def)

section \<open>Size\<close>

definition live_count :: "u64 \<Rightarrow> 'v ttl_cache \<Rightarrow> nat" where
  "live_count now c = length (drop_expired now (tc_inner c))"

text \<open>At most \<open>bound\<close> live entries: the table stays under the watermark, the watermark under
  the floor or twice that number.\<close>

definition size_ok :: "nat \<Rightarrow> 'v ttl_cache \<Rightarrow> bool" where
  "size_ok bound c \<longleftrightarrow> length (tc_inner c) < tc_prune_at c \<and> tc_prune_at c \<le> max PRUNE_FLOOR (2 * bound)"

lemma size_ok_maybe_prune:
  assumes "tc_prune_at c \<le> max PRUNE_FLOOR (2 * bound)" "live_count now c \<le> bound" "2 * bound < 2 ^ 64"
  shows "size_ok bound (maybe_prune now c)"
proof (cases "length (tc_inner c) \<ge> tc_prune_at c")
  case True
  let ?n = "length (drop_expired now (tc_inner c))"
  have n: "?n \<le> bound" using assms(2) by (simp add: live_count_def)
  then have "saturating_mul2 ?n = 2 * ?n"
    using assms(3) by (simp add: saturating_mul2_def USIZE_MAX_def)
  with True n show ?thesis by (auto simp: size_ok_def maybe_prune_def Let_def PRUNE_FLOOR_def)
next
  case False
  with assms(1) show ?thesis by (simp add: size_ok_def maybe_prune_def)
qed

text \<open>The inserts of a history; refused ones change nothing.\<close>

definition store_all :: "(u64 \<times> string \<times> 'v \<times> u64) list \<Rightarrow> 'v ttl_cache \<Rightarrow> 'v ttl_cache" where
  "store_all h c = foldl (\<lambda>c (now, k, v, ttl). snd (put_if_absent now k v ttl c)) c h"

definition inserted :: "u64 \<Rightarrow> string \<Rightarrow> 'v \<Rightarrow> u64 \<Rightarrow> 'v ttl_cache \<Rightarrow> 'v ttl_cache" where
  "inserted now k v ttl c =
     c\<lparr> tc_inner := bm_insert k \<lparr> ce_value = v, ce_expires_at = saturating_add now ttl \<rparr> (tc_inner c) \<rparr>"

text \<open>
  Memory is bounded by the live keys: whatever keys clients send, a cache fed through the
  check-and-set never holds more than 1024 entries or twice the number of keys that are live at
  a time.
\<close>

theorem cache_memory_bounded:
  assumes "2 * bound < 2 ^ 64"
    and "\<And>pre now k v ttl post. h = pre @ (now, k, v, ttl) # post \<Longrightarrow>
        live_count now (inserted now k v ttl (store_all pre (cache_new d))) \<le> bound"
  shows "length (tc_inner (store_all h (cache_new d))) < max PRUNE_FLOOR (2 * bound)"
proof -
  have "size_ok bound (store_all h (cache_new d))"
    using assms(2)
  proof (induction h rule: rev_induct)
    case Nil
    show ?case by (simp add: size_ok_def store_all_def cache_new_def PRUNE_FLOOR_def)
  next
    case (snoc x h)
    obtain now k v ttl where x: "x = (now, k, v, ttl)" by (cases x)
    have ih: "size_ok bound (store_all h (cache_new d))"
    proof (rule snoc.IH)
      fix pre now k v ttl post assume "h = pre @ (now, k, v, ttl) # post"
      then show "live_count now (inserted now k v ttl (store_all pre (cache_new d))) \<le> bound"
        using snoc.prems[of pre now k v ttl "post @ [x]"] by simp
    qed
    have lc: "live_count now (inserted now k v ttl (store_all h (cache_new d))) \<le> bound"
      using snoc.prems[of h now k v ttl "[]"] x by simp
    have "size_ok bound (cache_store now k v ttl (store_all h (cache_new d)))"
      using size_ok_maybe_prune[OF _ lc assms(1)] ih
      by (simp add: cache_store_def inserted_def size_ok_def)
    with ih x show ?case by (simp add: store_all_def put_if_absent_held)
  qed
  then show ?thesis by (auto simp: size_ok_def)
qed

lemma length_bm_insert: "length (bm_insert k x m) \<le> Suc (length m)"
  by (induction k x m rule: bm_insert.induct) auto

lemma store_all_length: "length (tc_inner (store_all h (cache_new d))) \<le> length h"
proof (induction h rule: rev_induct)
  case (snoc x h)
  obtain now k v ttl where x: "x = (now, k, v, ttl)" by (cases x)
  have "length (tc_inner (cache_store now k v ttl c)) \<le> Suc (length (tc_inner c))" for c :: "'a ttl_cache"
    using length_bm_insert[of k _ "tc_inner c"]
    by (auto simp: cache_store_def maybe_prune_def drop_expired_def bm_retain_def Let_def
        intro: order_trans[OF length_filter_le])
  from this[of "store_all h (cache_new d)"] snoc x show ?case
    by (auto simp: store_all_def put_if_absent_held split: if_splits)
qed (simp add: store_all_def cache_new_def)

theorem cache_memory_bounded_witness:
  "length (tc_inner (store_all [(100, ''a'', (), 60), (200, ''b'', (), 60)] (cache_new 0))) < max PRUNE_FLOOR (2 * 2)"
proof (rule cache_memory_bounded)
  fix pre post and now ttl :: u64 and k :: string and v :: unit
  assume h: "[(100, ''a'', (), 60), (200, ''b'', (), 60)] = pre @ (now, k, v, ttl) # post"
  then have "length pre \<le> 1" by (cases pre; cases "tl pre") auto
  then have "Suc (length (tc_inner (store_all pre (cache_new 0 :: unit ttl_cache)))) \<le> 2"
    using store_all_length[of pre 0] by linarith
  then show "live_count now (inserted now k v ttl (store_all pre (cache_new 0))) \<le> 2"
    using length_bm_insert[of k "\<lparr> ce_value = v, ce_expires_at = saturating_add now ttl \<rparr>"
        "tc_inner (store_all pre (cache_new 0 :: unit ttl_cache))"]
    by (auto simp: live_count_def inserted_def drop_expired_def bm_retain_def
        intro!: order_trans[OF length_filter_le])
qed simp

section \<open>Persistence\<close>

lemma load_get:
  assumes "bm_wf m" "distinct (map fst s)"
  shows "bm_wf (foldl (\<lambda>m (k, e). if p e then bm_insert k e m else m) m s) \<and>
    bm_get (foldl (\<lambda>m (k, e). if p e then bm_insert k e m else m) m s) x =
      (case map_of s x of Some e \<Rightarrow> if p e then Some e else bm_get m x | None \<Rightarrow> bm_get m x)"
  using assms
proof (induction s arbitrary: m)
  case (Cons y s)
  obtain k e where y: "y = (k, e)" by (cases y)
  have "map_of s k = None" using Cons.prems(2) y by (simp add: map_of_eq_None_iff)
  with Cons y show ?case by (auto simp: bm_get_insert split: option.splits)
qed simp

text \<open>
  A cache that is written to disk and loaded by a fresh process answers every lookup from
  the time of loading on as the old one would.
\<close>

theorem persisted_cache_reloads:
  assumes "cache_wf c" "persist c = Some snapshot" "now \<le> u"
  shows "cache_get u (cache_load now snapshot (cache_new ttl)) k = cache_get u c k"
proof -
  have s: "snapshot = tc_inner c" "\<not> tc_poisoned c" "bm_wf snapshot"
    using assms(1,2) by (auto simp: persist_def cache_wf_def split: if_splits)
  show ?thesis
    using load_get[OF bm_wf_Nil bm_wf_distinct[OF s(3)], of "\<lambda>e. ce_expires_at e > now" k] assms(3) s(1,2)
    by (auto simp: cache_get_def cache_load_def cache_new_def split: option.splits)
qed

theorem persisted_cache_reloads_witness:
  "cache_get 150 (cache_load 120 [(''k'', \<lparr> ce_value = (7 :: nat), ce_expires_at = 160 \<rparr>)] (cache_new 30)) ''k'' = Some 7"
  using persisted_cache_reloads[of "(cache_new 30)\<lparr> tc_inner := [(''k'', \<lparr> ce_value = (7 :: nat), ce_expires_at = 160 \<rparr>)] \<rparr>"
      "[(''k'', \<lparr> ce_value = 7, ce_expires_at = 160 \<rparr>)]" 120 150 30 "''k''"]
  by (simp add: cache_new_def cache_wf_def persist_def cache_get_def bm_wf_Cons)

end
