(* ===== verification/Dpop_Replay.thy ===== *)
theory Dpop_Replay
  imports Prelude Rust_Str Ttl_Cache
begin

text \<open>
  DPoP replay protection of \<open>dpop.rs\<close>: the replay store over the TTL cache and the runtime built
  from the frontend's settings.  The nonce key derivation (HMAC, base64url) is a parameter.
\<close>

definition MAX_JTI_LEN :: nat where "MAX_JTI_LEN = 256"

type_synonym replay_store = "unit ttl_cache"

definition replay_store_new :: "u64 \<Rightarrow> replay_store" where
  "replay_store_new ttl = cache_new ttl"

definition record_jti :: "u64 \<Rightarrow> string \<Rightarrow> u64 \<Rightarrow> replay_store \<Rightarrow> bool \<times> replay_store" where
  "record_jti now jti ttl s =
     (if length jti > MAX_JTI_LEN then (False, s) else put_if_absent now jti () ttl s)"

record dpop_settings =
  ds_enabled :: bool
  ds_proof_max_age :: int
  ds_require_nonce :: bool
  ds_nonce_lifetime :: int

definition default_proof_max_age :: int where "default_proof_max_age = 300"
definition default_nonce_lifetime :: int where "default_nonce_lifetime = 300"

definition dpop_default :: dpop_settings where
  "dpop_default = \<lparr> ds_enabled = False, ds_proof_max_age = default_proof_max_age,
     ds_require_nonce = False, ds_nonce_lifetime = default_nonce_lifetime \<rparr>"

record dpop_runtime =
  dr_proof_max_age :: int
  dr_require_nonce :: bool
  dr_nonce_lifetime :: int
  dr_nonce_secret :: string
  dr_store :: replay_store

definition build_runtime ::
    "(string \<Rightarrow> string \<Rightarrow> string) \<Rightarrow> dpop_settings \<Rightarrow> string \<Rightarrow> string \<Rightarrow> dpop_runtime option result" where
  "build_runtime mac_b64 ds secret instance_name =
     (if \<not> ds_enabled ds then Inr None
      else if ds_proof_max_age ds \<le> 0 then Inl (ErrConfig ''dpop.proof_max_age_secs must be positive'')
      else Inr (Some
        \<lparr> dr_proof_max_age = ds_proof_max_age ds, dr_require_nonce = ds_require_nonce ds,
          dr_nonce_lifetime = ds_nonce_lifetime ds,
          dr_nonce_secret = mac_b64 secret (''tunnelbana-dpop-nonce-v1:'' @ instance_name),
          dr_store = replay_store_new (word_of_int (max (ds_proof_max_age ds) 0)) \<rparr>))"

section \<open>Replays\<close>

lemma record_jti_cas:
  "length jti \<le> MAX_JTI_LEN \<Longrightarrow> record_jti now jti ttl s = cache_cas now jti ((), ttl) s"
  by (simp add: record_jti_def cache_cas_def)

interpretation replay: check_and_set record_jti entry_held saturating_add cache_wf
proof (unfold_locales, goal_cases)
  case (1 s t k d s' u)
  then have "length k \<le> MAX_JTI_LEN" by (auto simp: record_jti_def split: if_splits)
  with 1 show ?case using cache.accepted_held[of s t k "((), d)" s' u] by (simp add: record_jti_cas)
next
  case (2 s t k d)
  then show ?case using cache.held_rejected[of s t k "((), d)"]
    by (cases "length k \<le> MAX_JTI_LEN") (auto simp: record_jti_def cache_cas_def)
next
  case (3 s u k t k' d b s')
  then show ?case using cache.held_stays[of s u k t k' "((), d)" b s']
    by (cases "length k' \<le> MAX_JTI_LEN") (auto simp: record_jti_def cache_cas_def)
next
  case (4 s t k d b s')
  then show ?case using cache.invar_cas[of s t k "((), d)" b s']
    by (cases "length k \<le> MAX_JTI_LEN") (auto simp: record_jti_def cache_cas_def)
qed

text \<open>
  C31. A DPoP proof identifier is accepted at most once per window: in any history of proofs
  whose clock does not run backwards, two accepted proofs with the same \<open>jti\<close> are at least the
  first one's window apart, whatever other identifiers were recorded and swept in between.
\<close>

theorem jti_accepted_once_per_window:
  assumes "sorted (map fst h)" "i < j" "j < length h"
    and "fst (cas_run record_jti h (replay_store_new d)) ! i"
    and "fst (cas_run record_jti h (replay_store_new d)) ! j"
    and "fst (snd (h ! i)) = fst (snd (h ! j))"
  shows "saturating_add (fst (h ! i)) (snd (snd (h ! i))) \<le> fst (h ! j)"
  using assms by (intro replay.accepted_once[of "replay_store_new d"]) (auto simp: replay_store_new_def)

definition toy_proofs :: "(u64 \<times> string \<times> u64) list" where
  "toy_proofs = [(100, ''a'', 60), (120, ''a'', 60), (130, ''b'', 60), (160, ''a'', 60)]"

theorem jti_accepted_once_per_window_witness:
  "fst (cas_run record_jti toy_proofs (replay_store_new 60)) = [True, False, True, True] \<and>
   saturating_add 100 60 \<le> (160 :: u64)"
proof -
  have r: "fst (cas_run record_jti toy_proofs (replay_store_new 60)) = [True, False, True, True]"
    by (simp add: toy_proofs_def replay_store_new_def cache_new_def record_jti_def MAX_JTI_LEN_def
        put_if_absent_def cache_store_def maybe_prune_def PRUNE_FLOOR_def saturating_add_def)
  then show ?thesis
    using jti_accepted_once_per_window[of toy_proofs 0 3 60] by (simp add: toy_proofs_def)
qed

text \<open>An enabled runtime never has a window of zero.\<close>

lemma build_runtime_window:
  "build_runtime mac ds secret n = Inr (Some rt) \<Longrightarrow> 0 < dr_proof_max_age rt"
  by (auto simp: build_runtime_def split: if_splits)

lemma overlong_jti_rejected: "length jti > MAX_JTI_LEN \<Longrightarrow> record_jti now jti ttl s = (False, s)"
  by (simp add: record_jti_def)

end
