(* ===== verification/Release_Services.thy ===== *)
theory Release_Services
  imports Fixtures
begin

text \<open>
  The response services that decide what leaves the proxy: \<open>static_attributes\<close> and
  \<open>filter_attributes\<close> (\<open>policy.rs\<close>), \<open>filter_attribute_values\<close> and \<open>rename_attributes\<close>
  (\<open>values.rs\<close>), \<open>attribute_authorization\<close> (\<open>authorization.rs\<close>), with the lookup \<open>level\<close> of
  \<open>mod.rs\<close>.  The locale \<open>attribute_service\<close> is the contract they share: such a service changes
  nothing but the attributes, and never the context.
\<close>

section \<open>Shared\<close>

text \<open>Exact key, else the empty key, else \<open>default\<close>.\<close>

definition level :: "'a smap \<Rightarrow> string \<Rightarrow> 'a option" where
  "level m key = or_else (bm_get m key) (or_else (bm_get m []) (bm_get m ''default''))"

definition dec_opt :: "(json \<Rightarrow> 'a option) \<Rightarrow> json \<Rightarrow> 'a option option" where
  "dec_opt f v = (case v of JNull \<Rightarrow> Some None | _ \<Rightarrow> map_option Some (f v))"

definition dec_list :: "(json \<Rightarrow> 'a option) \<Rightarrow> json \<Rightarrow> 'a list option" where
  "dec_list f v = Option.bind (as_array v) (dec_all f)"

definition requester_or_empty :: "internal_data \<Rightarrow> string" where
  "requester_or_empty d = unwrap_or [] (id_requester d)"

definition issuer_or_empty :: "internal_data \<Rightarrow> string" where
  "issuer_or_empty d = unwrap_or [] (ai_issuer (id_auth_info d))"

section \<open>The contract\<close>

definition attribute_ms ::
    "string \<Rightarrow> ('w req_context_scheme \<Rightarrow> internal_data \<Rightarrow> internal_data result) \<Rightarrow> 'w micro_service" where
  "attribute_ms name f = response_service name (\<lambda>d ctx. (f ctx d, ctx))"

text \<open>A response service that keeps the parties of the flow and the context.\<close>

locale response_transform =
  fixes process :: "'cfg \<Rightarrow> 'w req_context_scheme \<Rightarrow> internal_data \<Rightarrow> internal_data result"
  assumes keeps_parties:
      "process c ctx d = Inr d' \<Longrightarrow> id_requester d' = id_requester d \<and> id_auth_info d' = id_auth_info d"
    and keeps_data_wf: "data_wf d \<Longrightarrow> process c ctx d = Inr d' \<Longrightarrow> data_wf d'"
begin

text \<open>What later services and the frontend select their policies by.\<close>

lemma keeps_selectors:
  assumes "process c ctx d = Inr d'"
  shows "requester_or_empty d' = requester_or_empty d" "issuer_or_empty d' = issuer_or_empty d"
  using keeps_parties[OF assms] by (simp_all add: requester_or_empty_def issuer_or_empty_def)

lemma service_frame:
  assumes "\<And>x. R x x"
  shows "preserves R (ms_request (attribute_ms n (process c)) d)"
    "preserves R (ms_response_action (attribute_ms n (process c)) d)"
    "preserves R (ms_handle (attribute_ms n (process c)) i)"
  using assms by (auto simp: preserves_def attribute_ms_def ms_response_action_def
      response_service_def ms_default_def split: sum.splits)

lemma service_keeps_base: "preserves keeps_base (ms_request (attribute_ms n (process c)) d)"
  by (rule service_frame(1)) (rule keeps_base_refl)

end

text \<open>One that changes the attributes only.\<close>

lemma unchanged_attributes [simp]: "\<exists>m. d = d\<lparr> id_attributes := m \<rparr>"
  by (rule exI[of _ "id_attributes d"]) simp

locale attribute_service =
  fixes process :: "'cfg \<Rightarrow> 'w req_context_scheme \<Rightarrow> internal_data \<Rightarrow> internal_data result"
  assumes only_attributes: "process c ctx d = Inr d' \<Longrightarrow> \<exists>m. d' = d\<lparr> id_attributes := m \<rparr>"
    and attributes_wf: "bm_wf (id_attributes d) \<Longrightarrow> process c ctx d = Inr d' \<Longrightarrow> bm_wf (id_attributes d')"
begin

lemma keeps_subject:
  assumes "process c ctx d = Inr d'"
  shows "id_subject_id d' = id_subject_id d" "id_subject_type d' = id_subject_type d"
  using only_attributes[OF assms] by auto

end

sublocale attribute_service \<subseteq> transform: response_transform process
proof
  fix c ctx d d' assume p: "process c ctx d = Inr d'"
  show "id_requester d' = id_requester d \<and> id_auth_info d' = id_auth_info d"
    using only_attributes[OF p] by auto
  show "data_wf d \<Longrightarrow> data_wf d'" using attributes_wf[OF _ p] by (simp add: data_wf_def)
qed

section \<open>Static attributes\<close>

definition dec_static :: "json \<Rightarrow> attrs option" where
  "dec_static v = Option.bind (as_object v) (dec_default dec_attrs [] ''attributes'')"

definition static_response :: "attrs \<Rightarrow> 'w req_context_scheme \<Rightarrow> internal_data \<Rightarrow> internal_data result" where
  "static_response fixed_attrs ctx d =
     Inr (d\<lparr> id_attributes := foldl (\<lambda>m (k, v). bm_or_insert k v m) (id_attributes d) fixed_attrs \<rparr>)"

definition static_build :: "build_context \<Rightarrow> 'w micro_service result" where
  "static_build bx = bind_result (parse_config dec_static bx) (\<lambda>cfg.
     Inr (attribute_ms (bx_name bx) (static_response cfg)))"

section \<open>Allow lists\<close>

record filter_config =
  fl_allowed :: "string list option"
  fl_policy :: "string list option smap"
  fl_passthrough :: bool

definition dec_policy_entry :: "json \<Rightarrow> string list option option" where
  "dec_policy_entry v = Option.bind (as_object v) (dec_default (dec_opt dec_strings) None ''allowed'')"

definition dec_filter :: "json \<Rightarrow> filter_config option" where
  "dec_filter v = do {
     m \<leftarrow> as_object v;
     allowed \<leftarrow> dec_default (dec_opt dec_strings) None ''allowed'' m;
     policy \<leftarrow> dec_default (dec_bmap dec_policy_entry) [] ''policy'' m;
     passthrough \<leftarrow> dec_default as_bool False ''passthrough_unmatched'' m;
     Some \<lparr> fl_allowed = allowed, fl_policy = policy, fl_passthrough = passthrough \<rparr> }"

definition filter_response :: "filter_config \<Rightarrow> 'w req_context_scheme \<Rightarrow> internal_data \<Rightarrow> internal_data result" where
  "filter_response cfg ctx d =
     (let allowed = (case level (fl_policy cfg) (requester_or_empty d) of
                       Some policy \<Rightarrow> policy | None \<Rightarrow> fl_allowed cfg)
      in case allowed of
           Some names \<Rightarrow> Inr (d\<lparr> id_attributes := bm_retain (\<lambda>k _. k \<in> set names) (id_attributes d) \<rparr>)
         | None \<Rightarrow> if \<not> fl_passthrough cfg then Inr (d\<lparr> id_attributes := [] \<rparr>) else Inr d)"

definition filter_build :: "build_context \<Rightarrow> 'w micro_service result" where
  "filter_build bx = bind_result (parse_config dec_filter bx) (\<lambda>cfg.
     case List.find (\<lambda>e. snd e = None) (fl_policy cfg) of
       Some (who, _) \<Rightarrow> Inl (ErrConfig (''filter_attributes '' @ bx_name bx @ '': policy entry '' @
         debug_str who @ '' must set allowed (use [] to drop everything)''))
     | None \<Rightarrow> Inr (attribute_ms (bx_name bx) (filter_response cfg)))"

section \<open>Value filters\<close>

datatype filter_spec = Pattern string | Typed "string smap"

type_synonym value_filters = "string smap smap smap"

definition dec_filter_spec :: "json \<Rightarrow> filter_spec option" where
  "dec_filter_spec v = (case v of JString s \<Rightarrow> Some (Pattern s) | _ \<Rightarrow> map_option Typed (dec_bmap as_str v))"

definition compile_filter :: "regex_lib \<Rightarrow> string \<Rightarrow> filter_spec \<Rightarrow> string result" where
  "compile_filter rx name spec =
     bind_result (case spec of
         Pattern p \<Rightarrow> Inr p
       | Typed m \<Rightarrow> (case m of
           [(kind, v)] \<Rightarrow> if kind = ''regexp'' then Inr v
             else Inl (ErrConfig (''filter_attribute_values '' @ name @ '': unsupported filter type '' @ debug_str kind))
         | (kind, v) # _ \<Rightarrow> if kind \<noteq> ''regexp''
             then Inl (ErrConfig (''filter_attribute_values '' @ name @ '': unsupported filter type '' @ debug_str kind))
             else Inl (ErrConfig (''filter_attribute_values '' @ name @ '': a filter needs exactly one regexp''))
         | [] \<Rightarrow> Inl (ErrConfig (''filter_attribute_values '' @ name @ '': a filter needs exactly one regexp''))))
       (\<lambda>pattern. if rx_compiles rx pattern then Inr pattern
          else Inl (ErrConfig (''filter_attribute_values '' @ name @ '': bad pattern '' @ debug_str pattern @ '': '')))"

text \<open>Compiling every value of a map, in key order.\<close>

definition traverse_map :: "('a \<Rightarrow> 'b result) \<Rightarrow> 'a smap \<Rightarrow> 'b smap result" where
  "traverse_map f m = traverse (\<lambda>(k, v). bind_result (f v) (\<lambda>w. Inr (k, w))) m"

definition compile_filters :: "regex_lib \<Rightarrow> string \<Rightarrow> filter_spec smap smap smap \<Rightarrow> value_filters result" where
  "compile_filters rx name raw = traverse_map (traverse_map (traverse_map (compile_filter rx name))) raw"

definition apply_filter :: "regex_lib \<Rightarrow> string \<times> string \<Rightarrow> attrs \<Rightarrow> attrs" where
  "apply_filter rx f m =
     (case f of (attr, regex) \<Rightarrow>
        if attr = [] then bm_map_values (filter (rx_is_match rx regex)) m
        else bm_update attr (filter (rx_is_match rx regex)) m)"

definition apply_filters :: "regex_lib \<Rightarrow> string smap \<Rightarrow> attrs \<Rightarrow> attrs" where
  "apply_filters rx filters m = foldl (\<lambda>m f. apply_filter rx f m) m filters"

definition default_keys :: "string \<Rightarrow> string list" where
  "default_keys k = (if k \<noteq> [] then [[], k] else [[]])"

text \<open>The filters that apply to a provider and requester, in order.\<close>

definition selected_filters :: "value_filters \<Rightarrow> string \<Rightarrow> string \<Rightarrow> string smap list" where
  "selected_filters filters provider who =
     concat (map (\<lambda>pk. case bm_get filters pk of None \<Rightarrow> []
       | Some by_requester \<Rightarrow> List.map_filter (bm_get by_requester) (default_keys who)) (default_keys provider))"

definition values_response ::
    "regex_lib \<Rightarrow> value_filters \<Rightarrow> 'w req_context_scheme \<Rightarrow> internal_data \<Rightarrow> internal_data result" where
  "values_response rx filters ctx d =
     Inr (d\<lparr> id_attributes := foldl (\<lambda>m fs. apply_filters rx fs m) (id_attributes d)
       (selected_filters filters (issuer_or_empty d) (requester_or_empty d)) \<rparr>)"

definition values_build :: "regex_lib \<Rightarrow> build_context \<Rightarrow> 'w micro_service result" where
  "values_build rx bx =
     bind_result (parse_config (\<lambda>v. Option.bind (as_object v)
       (dec_default (dec_bmap (dec_bmap (dec_bmap dec_filter_spec))) [] ''attribute_filters'')) bx) (\<lambda>raw.
     bind_result (compile_filters rx (bx_name bx) raw) (\<lambda>filters.
       Inr (attribute_ms (bx_name bx) (values_response rx filters))))"

section \<open>Renaming\<close>

definition rename_one :: "attrs \<Rightarrow> string \<times> string \<Rightarrow> attrs" where
  "rename_one m r =
     (case r of (old, new) \<Rightarrow>
        (case bm_get m old of
           None \<Rightarrow> m
         | Some vs \<Rightarrow> bm_update new (\<lambda>ws. ws @ vs) (bm_or_insert new [] (bm_remove old m))))"

definition rename_response :: "string smap \<Rightarrow> 'w req_context_scheme \<Rightarrow> internal_data \<Rightarrow> internal_data result" where
  "rename_response renames ctx d = Inr (d\<lparr> id_attributes := foldl rename_one (id_attributes d) renames \<rparr>)"

definition rename_build :: "build_context \<Rightarrow> 'w micro_service result" where
  "rename_build bx =
     bind_result (parse_config (\<lambda>v. Option.bind (as_object v) (dec_default (dec_bmap as_str) [] ''rename'')) bx)
       (\<lambda>renames. Inr (attribute_ms (bx_name bx) (rename_response renames)))"

section \<open>Authorization\<close>

type_synonym authz_rules = "string list smap smap smap"

record authz_config =
  az_name :: string
  az_allow :: authz_rules
  az_deny :: authz_rules
  az_force_allow :: bool
  az_force_deny :: bool

definition compile_authz :: "regex_lib \<Rightarrow> string \<Rightarrow> authz_rules \<Rightarrow> authz_rules result" where
  "compile_authz rx name raw = traverse_map (traverse_map (traverse_map (traverse (\<lambda>p.
     if rx_compiles rx p then Inr p
     else Inl (ErrConfig (''attribute_authorization '' @ name @ '': bad pattern '' @ debug_str p @ '': '')))))) raw"

definition authz_rules_for :: "authz_rules \<Rightarrow> string \<Rightarrow> string \<Rightarrow> string list smap option" where
  "authz_rules_for rules who provider =
     Option.bind (level rules who) (\<lambda>by_provider. level by_provider provider)"

definition any_match :: "regex_lib \<Rightarrow> string list \<Rightarrow> string list \<Rightarrow> bool" where
  "any_match rx regexes vs = list_ex (\<lambda>v. list_ex (\<lambda>r. rx_is_match rx r v) regexes) vs"

definition allow_violated :: "regex_lib \<Rightarrow> bool \<Rightarrow> attrs \<Rightarrow> string \<times> string list \<Rightarrow> bool" where
  "allow_violated rx force m rule =
     (case bm_get m (fst rule) of Some vs \<Rightarrow> \<not> any_match rx (snd rule) vs | None \<Rightarrow> force)"

definition deny_violated :: "regex_lib \<Rightarrow> bool \<Rightarrow> attrs \<Rightarrow> string \<times> string list \<Rightarrow> bool" where
  "deny_violated rx force m rule =
     (case bm_get m (fst rule) of Some vs \<Rightarrow> any_match rx (snd rule) vs | None \<Rightarrow> force)"

definition authz_response ::
    "regex_lib \<Rightarrow> authz_config \<Rightarrow> 'w req_context_scheme \<Rightarrow> internal_data \<Rightarrow> internal_data result" where
  "authz_response rx az ctx d =
     (let who = requester_or_empty d; provider = issuer_or_empty d;
          denied = Inl (ErrAuthn (''attribute_authorization '' @ az_name az @ '': permission denied''))
      in if (case authz_rules_for (az_allow az) who provider of None \<Rightarrow> False
             | Some rules \<Rightarrow> list_ex (allow_violated rx (az_force_allow az) (id_attributes d)) rules) then denied
         else if (case authz_rules_for (az_deny az) who provider of None \<Rightarrow> False
             | Some rules \<Rightarrow> list_ex (deny_violated rx (az_force_deny az) (id_attributes d)) rules) then denied
         else Inr d)"

definition dec_authz :: "string \<Rightarrow> json \<Rightarrow> authz_config option" where
  "dec_authz name v = do {
     m \<leftarrow> as_object v;
     allow \<leftarrow> dec_default (dec_bmap (dec_bmap (dec_bmap dec_strings))) [] ''attribute_allow'' m;
     deny \<leftarrow> dec_default (dec_bmap (dec_bmap (dec_bmap dec_strings))) [] ''attribute_deny'' m;
     fa \<leftarrow> dec_default as_bool False ''force_attributes_presence_on_allow'' m;
     fd \<leftarrow> dec_default as_bool False ''force_attributes_presence_on_deny'' m;
     Some \<lparr> az_name = name, az_allow = allow, az_deny = deny, az_force_allow = fa, az_force_deny = fd \<rparr> }"

definition authz_build :: "regex_lib \<Rightarrow> build_context \<Rightarrow> 'w micro_service result" where
  "authz_build rx bx =
     bind_result (parse_config (dec_authz (bx_name bx)) bx) (\<lambda>az.
     bind_result (compile_authz rx (bx_name bx) (az_allow az)) (\<lambda>allow.
     bind_result (compile_authz rx (bx_name bx) (az_deny az)) (\<lambda>deny.
       Inr (attribute_ms (bx_name bx) (authz_response rx (az\<lparr> az_allow := allow, az_deny := deny \<rparr>))))))"

section \<open>The contract holds\<close>

lemma bm_wf_foldl: "bm_wf m \<Longrightarrow> (\<And>m x. bm_wf m \<Longrightarrow> bm_wf (f m x)) \<Longrightarrow> bm_wf (foldl f m xs)"
  by (induction xs arbitrary: m) auto

lemma bm_wf_or_insert_pair [simp]: "bm_wf m \<Longrightarrow> bm_wf (case e of (k, v) \<Rightarrow> bm_or_insert k v m)"
  by (cases e) simp

lemma bm_wf_rename_one [simp]: "bm_wf m \<Longrightarrow> bm_wf (rename_one m r)"
  by (cases r) (auto simp: rename_one_def split: option.splits)

lemma apply_filter_keys [simp]: "bm_keys (apply_filter rx f m) = bm_keys m"
  by (cases f) (simp add: apply_filter_def)

lemma apply_filters_keys [simp]: "bm_keys (apply_filters rx fs m) = bm_keys m"
  unfolding apply_filters_def by (induction fs arbitrary: m) auto

interpretation static: attribute_service static_response
  by unfold_locales (auto simp: static_response_def intro!: bm_wf_foldl)

interpretation allow_list: attribute_service filter_response
  by unfold_locales (auto simp: filter_response_def Let_def split: option.splits if_splits)

interpretation value_filter: attribute_service "values_response rx" for rx
proof unfold_locales
  fix c ctx d d' assume "bm_wf (id_attributes d)" "values_response rx c ctx d = Inr d'"
  moreover have "bm_keys (foldl (\<lambda>m fs. apply_filters rx fs m) m xs) = bm_keys m" for m xs
    by (induction xs arbitrary: m) auto
  ultimately show "bm_wf (id_attributes d')" by (auto simp: values_response_def bm_wf_def)
qed (auto simp: values_response_def)

interpretation rename: attribute_service rename_response
  by unfold_locales (auto simp: rename_response_def intro!: bm_wf_foldl)

interpretation authz: attribute_service "authz_response rx" for rx
  by unfold_locales (auto simp: authz_response_def Let_def split: option.splits if_splits)

section \<open>Properties\<close>

lemma level_Some: "bm_get m key = Some v \<Longrightarrow> level m key = Some v"
  by (simp add: level_def)

text \<open>What may be released to a requester: \<open>None\<close> is everything.\<close>

definition release_set :: "filter_config \<Rightarrow> string \<Rightarrow> string set option" where
  "release_set cfg who =
     (case (case level (fl_policy cfg) who of Some policy \<Rightarrow> policy | None \<Rightarrow> fl_allowed cfg) of
        Some names \<Rightarrow> Some (set names)
      | None \<Rightarrow> if fl_passthrough cfg then None else Some {})"

text \<open>
  The allow list is exact: an attribute leaves with its values unchanged when it is released
  to the requester and not at all otherwise, and a requester nobody configured gets nothing
  unless pass-through is switched on.
\<close>

theorem filter_releases_exactly:
  assumes "bm_wf (id_attributes d)"
  shows "\<exists>d'. filter_response cfg ctx d = Inr d' \<and>
    bm_get (id_attributes d') name =
      (case release_set cfg (requester_or_empty d) of
         None \<Rightarrow> bm_get (id_attributes d) name
       | Some names \<Rightarrow> if name \<in> names then bm_get (id_attributes d) name else None)"
proof -
  have retain: "bm_get (bm_retain (\<lambda>k _. k \<in> S) (id_attributes d)) name =
      (if name \<in> S then bm_get (id_attributes d) name else None)" for S
    using assms by (simp add: bm_get_retain split: option.split)
  show ?thesis
    by (cases "case level (fl_policy cfg) (requester_or_empty d) of Some policy \<Rightarrow> policy | None \<Rightarrow> fl_allowed cfg")
       (auto simp: filter_response_def release_set_def retain)
qed

theorem filter_releases_exactly_witness:
  "\<exists>d'. filter_response \<lparr> fl_allowed = None, fl_policy = [(''sp'', Some [''mail''])], fl_passthrough = False \<rparr>
      toy_ctx
      (internal_default\<lparr> id_requester := Some ''sp'', id_attributes := [(''mail'', [''a@b'']), (''uid'', [''a''])] \<rparr>) = Inr d' \<and>
    bm_get (id_attributes d') ''uid'' = None"
proof -
  have "bm_wf [(''mail'', [''a@b'']), (''uid'', [''a''])]" by code_simp
  then show ?thesis
    using filter_releases_exactly[of "internal_default\<lparr> id_requester := Some ''sp'', id_attributes := [(''mail'', [''a@b'']), (''uid'', [''a''])] \<rparr>"
        "\<lparr> fl_allowed = None, fl_policy = [(''sp'', Some [''mail''])], fl_passthrough = False \<rparr>" toy_ctx "''uid''"]
    by (simp add: release_set_def level_def requester_or_empty_def)
qed

text \<open>What a value must satisfy to stay: every selected filter on its attribute or on all.\<close>

definition value_passes :: "regex_lib \<Rightarrow> string smap list \<Rightarrow> string \<Rightarrow> string \<Rightarrow> bool" where
  "value_passes rx fss attr v \<longleftrightarrow>
     (\<forall>fs \<in> set fss. \<forall>(a, regex) \<in> set fs. a = [] \<or> a = attr \<longrightarrow> rx_is_match rx regex v)"

lemma apply_filters_get:
  "bm_get (apply_filters rx fs m) attr = map_option (filter (value_passes rx [fs] attr)) (bm_get m attr)"
  unfolding apply_filters_def
proof (induction fs arbitrary: m)
  case Nil
  then show ?case by (simp add: value_passes_def option.map_ident)
next
  case (Cons f fs)
  obtain a r where f: "f = (a, r)" by (cases f)
  have "bm_get (apply_filter rx f m) attr =
      map_option (filter (\<lambda>v. a = [] \<or> a = attr \<longrightarrow> rx_is_match rx r v)) (bm_get m attr)"
    by (cases "bm_get m attr") (auto simp: apply_filter_def f bm_get_map_values bm_get_update)
  then show ?case
    using Cons.IH[of "apply_filter rx f m"] f
    by (auto simp: option.map_comp comp_def value_passes_def intro!: arg_cong2[of _ _ _ _ map_option] ext filter_cong)
qed

lemma values_response_get:
  "bm_get (foldl (\<lambda>m fs. apply_filters rx fs m) m fss) attr =
     map_option (filter (value_passes rx fss attr)) (bm_get m attr)"
proof (induction fss arbitrary: m)
  case Nil
  then show ?case by (simp add: value_passes_def option.map_ident)
next
  case (Cons fs fss)
  then show ?case
    by (auto simp: apply_filters_get option.map_comp comp_def value_passes_def
        intro!: arg_cong2[of _ _ _ _ map_option] ext filter_cong)
qed

text \<open>
  Value filtering keeps, in order, exactly the values that match every filter selected for
  the provider and the requester, defaults included; it adds and removes no attribute.
\<close>

theorem value_filter_keeps_matching:
  "\<exists>d'. values_response rx filters ctx d = Inr d' \<and>
     bm_keys (id_attributes d') = bm_keys (id_attributes d) \<and>
     bm_get (id_attributes d') attr = map_option
       (filter (value_passes rx (selected_filters filters (issuer_or_empty d) (requester_or_empty d)) attr))
       (bm_get (id_attributes d) attr)"
proof -
  have "bm_keys (foldl (\<lambda>m fs. apply_filters rx fs m) m xs) = bm_keys m" for m xs
    by (induction xs arbitrary: m) auto
  then show ?thesis by (simp add: values_response_def values_response_get)
qed

text \<open>
  The entry a two-level rule table governs a party with, spelled out key by key: the party's own
  entry, else the wildcard entry under the empty key, else the one under \<open>default\<close>.
\<close>

definition governs :: "'a smap \<Rightarrow> string \<Rightarrow> 'a \<Rightarrow> bool" where
  "governs m key v \<longleftrightarrow>
     bm_get m key = Some v \<or>
     bm_get m key = None \<and> bm_get m [] = Some v \<or>
     bm_get m key = None \<and> bm_get m [] = None \<and> bm_get m ''default'' = Some v"

definition governing_rules :: "authz_rules \<Rightarrow> internal_data \<Rightarrow> string list smap \<Rightarrow> bool" where
  "governing_rules rules d rs \<longleftrightarrow>
     (\<exists>by_provider. governs rules (unwrap_or [] (id_requester d)) by_provider \<and>
        governs by_provider (unwrap_or [] (ai_issuer (id_auth_info d))) rs)"

lemma level_governs: "level m key = Some v \<longleftrightarrow> governs m key v"
  by (auto simp: level_def governs_def or_else_def split: option.splits)

lemma authz_rules_governing:
  "authz_rules_for rules (requester_or_empty d) (issuer_or_empty d) = Some rs \<longleftrightarrow> governing_rules rules d rs"
  by (auto simp: authz_rules_for_def governing_rules_def level_governs bind_eq_Some_conv requester_or_empty_def issuer_or_empty_def)

text \<open>
  C30. Authorization is decided exactly by the rules of the most specific requester, and under it of
  the most specific provider: at each of the two levels the party's own entry if there is one, else
  the wildcard entry, else the default one, and with no entry at a level nothing is checked.  Access
  is granted, with the data unchanged, when every allow rule has a matching value and no deny rule
  has one, absent attributes counting as configured; otherwise it is refused.
\<close>

theorem authorization_decision:
  "(authz_response rx az ctx d = Inr d \<longleftrightarrow>
     (\<forall>rules. governing_rules (az_allow az) d rules \<longrightarrow>
        (\<forall>(attr, res) \<in> set rules. case bm_get (id_attributes d) attr of
           None \<Rightarrow> \<not> az_force_allow az
         | Some vs \<Rightarrow> \<exists>v \<in> set vs. \<exists>r \<in> set res. rx_is_match rx r v)) \<and>
     (\<forall>rules. governing_rules (az_deny az) d rules \<longrightarrow>
        (\<forall>(attr, res) \<in> set rules. case bm_get (id_attributes d) attr of
           None \<Rightarrow> \<not> az_force_deny az
         | Some vs \<Rightarrow> \<forall>v \<in> set vs. \<forall>r \<in> set res. \<not> rx_is_match rx r v))) \<and>
   (authz_response rx az ctx d \<noteq> Inr d \<longrightarrow>
     authz_response rx az ctx d = Inl (ErrAuthn (''attribute_authorization '' @ az_name az @ '': permission denied'')))"
proof -
  have allow: "\<not> list_ex (allow_violated rx f m) rules \<longleftrightarrow> (\<forall>(attr, res) \<in> set rules. case bm_get m attr of
           None \<Rightarrow> \<not> f | Some vs \<Rightarrow> \<exists>v \<in> set vs. \<exists>r \<in> set res. rx_is_match rx r v)" for f m rules
    by (auto simp: list_ex_iff allow_violated_def any_match_def split: option.splits; fastforce)
  have deny: "\<not> list_ex (deny_violated rx f m) rules \<longleftrightarrow> (\<forall>(attr, res) \<in> set rules. case bm_get m attr of
           None \<Rightarrow> \<not> f | Some vs \<Rightarrow> \<forall>v \<in> set vs. \<forall>r \<in> set res. \<not> rx_is_match rx r v)" for f m rules
    by (auto simp: list_ex_iff deny_violated_def any_match_def split: option.splits; fastforce)
  show ?thesis
    unfolding authz_response_def Let_def allow[symmetric] deny[symmetric] authz_rules_governing[symmetric]
    by (cases "authz_rules_for (az_allow az) (requester_or_empty d) (issuer_or_empty d)";
        cases "authz_rules_for (az_deny az) (requester_or_empty d) (issuer_or_empty d)") simp_all
qed

text \<open>The entry of the requester refuses what the wildcard would grant.\<close>

definition toy_authz :: authz_config where
  "toy_authz = \<lparr> az_name = ''a'', az_allow = [([], [([], [])]), (''sp'', [([], [(''role'', [''staff''])])])], az_deny = [],
     az_force_allow = True, az_force_deny = False \<rparr>"

theorem authorization_decision_witness:
  "authz_response toy_regex toy_authz toy_ctx (internal_default\<lparr> id_requester := Some ''sp'' \<rparr>) =
     Inl (ErrAuthn ''attribute_authorization a: permission denied'')"
proof -
  let ?d = "internal_default\<lparr> id_requester := Some ''sp'' \<rparr>"
  have r: "governing_rules (az_allow toy_authz) ?d [(''role'', [''staff''])]" "az_force_allow toy_authz"
      "bm_get (id_attributes ?d) ''role'' = None"
    by (simp_all add: toy_authz_def governing_rules_def governs_def internal_default_def auth_info_default_def)
  note dec = authorization_decision[of toy_regex toy_authz toy_ctx ?d]
  have "authz_response toy_regex toy_authz toy_ctx ?d \<noteq> Inr ?d"
    unfolding dec[THEN conjunct1] using r by fastforce
  from dec[THEN conjunct2, rule_format, OF this] show ?thesis by (simp add: toy_authz_def)
qed

end
