(* ===== verification/Identifier_Services.thy ===== *)
theory Identifier_Services
  imports Release_Services
begin

text \<open>
  The response services that derive identifiers: \<open>nameid\<close> (\<open>nameid.rs\<close>), \<open>pairwiseid\<close>
  (\<open>pairwiseid.rs\<close>), \<open>primary_identifier\<close> (\<open>primary_identifier.rs\<close>), \<open>hasher\<close>
  (\<open>hasher.rs\<close>) and \<open>legacy_eptid\<close> (\<open>legacy_eptid.rs\<close>).  The digests are the parameter
  \<open>hash_lib\<close>, the SAML NameID format URNs the parameter \<open>saml_formats\<close>, the form encoder of
  the error redirect a parameter.  Shown: which framings are injective (and that the legacy one
  is not), that a hasher never works without a salt and never panics.
\<close>

record hash_lib =
  hs_md5 :: "string \<Rightarrow> string"
  hs_sha256 :: "string \<Rightarrow> string"
  hs_sha512 :: "string \<Rightarrow> string"
  hs_hmac_sha256 :: "string \<Rightarrow> string \<Rightarrow> string"

record saml_formats =
  nf_transient :: string
  nf_unspecified :: string
  nf_persistent :: string
  nf_email :: string

section \<open>nameid\<close>

definition nameid_response ::
    "saml_formats \<Rightarrow> string \<Rightarrow> 'w req_context_scheme \<Rightarrow> internal_data \<Rightarrow> internal_data result" where
  "nameid_response nf name ctx d =
     (case get_str (cx_state ctx) STATE_KEY_BASE KEY_NAME_ID_FORMAT of
        None \<Rightarrow> Inr d
      | Some fmt \<Rightarrow>
          if fmt = nf_transient nf \<or> fmt = nf_unspecified nf then Inr (d\<lparr> id_subject_type := Transient \<rparr>)
          else if fmt = nf_persistent nf then
            bind_result (ok_or (attr_first d ''pairwise-id'') (ErrAuthn (''nameid '' @ name @
                '': no pairwise-id to use as persistent NameID'')))
              (\<lambda>pairwise. Inr (d\<lparr> id_subject_id := Some (before_first CHR ''@'' pairwise),
                                id_subject_type := Persistent \<rparr>))
          else if fmt = nf_email nf then
            bind_result (ok_or (attr_first d ''mail'') (ErrAuthn (''nameid '' @ name @
                '': no mail to use as emailAddress NameID'')))
              (\<lambda>mail. Inr (d\<lparr> id_subject_id := Some mail, id_subject_type := Persistent \<rparr>))
          else Inr d)"

definition nameid_build :: "saml_formats \<Rightarrow> build_context \<Rightarrow> 'w micro_service result" where
  "nameid_build nf bx = Inr (attribute_ms (bx_name bx) (nameid_response nf (bx_name bx)))"

section \<open>pairwiseid\<close>

datatype framing = Legacy | V1

record pairwise_config =
  pw_name :: string
  pw_salt :: string
  pw_framing :: framing

definition dec_pairwise :: "json \<Rightarrow> (string \<times> string option) option" where
  "dec_pairwise v = do {
     m \<leftarrow> as_object v;
     salt \<leftarrow> dec_required as_str ''pairwise_salt'' m;
     fr \<leftarrow> dec_default dec_opt_str None ''framing'' m;
     Some (salt, fr) }"

definition pairwise_configure :: "build_context \<Rightarrow> pairwise_config result" where
  "pairwise_configure bx = bind_result (parse_config dec_pairwise bx) (\<lambda>(salt, fr).
     if salt = [] then Inl (ErrConfig (''pairwiseid '' @ bx_name bx @ '': pairwise_salt must not be empty''))
     else bind_result (case fr of
         None \<Rightarrow> Inr Legacy
       | Some f \<Rightarrow> if f = ''legacy'' then Inr Legacy else if f = ''v1'' then Inr V1
           else Inl (ErrConfig (''pairwiseid '' @ bx_name bx @ '': unknown framing '' @ debug_str f @
                  '' (expected \"legacy\" or \"v1\")'')))
       (\<lambda>framing. Inr \<lparr> pw_name = bx_name bx, pw_salt = salt, pw_framing = framing \<rparr>))"

definition pairwise_input :: "framing \<Rightarrow> string \<Rightarrow> string \<Rightarrow> string" where
  "pairwise_input fr relying_party subject_id =
     (case fr of
        Legacy \<Rightarrow> relying_party @ ''-'' @ subject_id
      | V1 \<Rightarrow> ''tbpwid-v1:'' @ show_nat (length relying_party) @ '':'' @ relying_party @ '':'' @ subject_id)"

definition pairwise_id :: "hash_lib \<Rightarrow> pairwise_config \<Rightarrow> string \<Rightarrow> string \<Rightarrow> string" where
  "pairwise_id hs pw relying_party subject_id =
     hex (hs_hmac_sha256 hs (pw_salt pw) (pairwise_input (pw_framing pw) relying_party subject_id)) @
     ''@'' @ after_last CHR ''@'' subject_id"

definition pairwise_response ::
    "hash_lib \<Rightarrow> pairwise_config \<Rightarrow> 'w req_context_scheme \<Rightarrow> internal_data \<Rightarrow> internal_data result" where
  "pairwise_response hs pw ctx d =
     bind_result (ok_or (attr_first d ''subject-id'') (ErrAuthn (''pairwiseid '' @ pw_name pw @
         '': no subject-id attribute to derive a pairwise id'')))
       (\<lambda>subject_id. Inr (set_attr ''pairwise-id'' (pairwise_id hs pw (requester_or_empty d) subject_id) d))"

definition pairwise_build :: "hash_lib \<Rightarrow> build_context \<Rightarrow> 'w micro_service result" where
  "pairwise_build hs bx = bind_result (pairwise_configure bx) (\<lambda>pw.
     Inr (attribute_ms (bx_name bx) (pairwise_response hs pw)))"

section \<open>primary_identifier\<close>

record candidate =
  cd_attribute_names :: "string list"
  cd_name_id_format :: "string option"
  cd_add_scope :: "string option"

record pid_overrides =
  po_candidates :: "candidate list option"
  po_primary :: "string option"
  po_clear :: "bool option"
  po_replace :: "bool option"
  po_on_error :: "string option"
  po_ignore :: bool

record pid_config =
  pi_name :: string
  pi_candidates :: "candidate list"
  pi_primary :: "string option"
  pi_clear :: bool
  pi_replace :: bool
  pi_on_error :: "string option"
  pi_overrides :: "pid_overrides smap"

record effective =
  ef_candidates :: "candidate list"
  ef_primary :: string
  ef_clear :: bool
  ef_replace :: bool
  ef_on_error :: "string option"
  ef_ignore :: bool

definition dec_candidate :: "json \<Rightarrow> candidate option" where
  "dec_candidate v = do {
     m \<leftarrow> as_object v;
     names \<leftarrow> dec_required dec_strings ''attribute_names'' m;
     fmt \<leftarrow> dec_default dec_opt_str None ''name_id_format'' m;
     scope \<leftarrow> dec_default dec_opt_str None ''add_scope'' m;
     Some \<lparr> cd_attribute_names = names, cd_name_id_format = fmt, cd_add_scope = scope \<rparr> }"

definition dec_pid_overrides :: "json \<Rightarrow> pid_overrides option" where
  "dec_pid_overrides v = do {
     m \<leftarrow> as_object v;
     cs \<leftarrow> dec_default (dec_opt (dec_list dec_candidate)) None ''ordered_identifier_candidates'' m;
     p \<leftarrow> dec_default dec_opt_str None ''primary_identifier'' m;
     cl \<leftarrow> dec_default (dec_opt as_bool) None ''clear_input_attributes'' m;
     rp \<leftarrow> dec_default (dec_opt as_bool) None ''replace_subject_id'' m;
     oe \<leftarrow> dec_default dec_opt_str None ''on_error'' m;
     ig \<leftarrow> dec_default as_bool False ''ignore'' m;
     Some \<lparr> po_candidates = cs, po_primary = p, po_clear = cl, po_replace = rp, po_on_error = oe, po_ignore = ig \<rparr> }"

definition dec_pid_config :: "string \<Rightarrow> json \<Rightarrow> pid_config option" where
  "dec_pid_config name v = do {
     m \<leftarrow> as_object v;
     cs \<leftarrow> dec_required (dec_list dec_candidate) ''ordered_identifier_candidates'' m;
     p \<leftarrow> dec_default dec_opt_str None ''primary_identifier'' m;
     cl \<leftarrow> dec_default as_bool False ''clear_input_attributes'' m;
     rp \<leftarrow> dec_default as_bool False ''replace_subject_id'' m;
     oe \<leftarrow> dec_default dec_opt_str None ''on_error'' m;
     ov \<leftarrow> dec_default (dec_bmap dec_pid_overrides) [] ''override'' m;
     Some \<lparr> pi_name = name, pi_candidates = cs, pi_primary = p, pi_clear = cl, pi_replace = rp,
            pi_on_error = oe, pi_overrides = ov \<rparr> }"

definition pid_configure :: "build_context \<Rightarrow> pid_config result" where
  "pid_configure bx = bind_result (parse_config (dec_pid_config (bx_name bx)) bx) (\<lambda>cfg.
     if pi_candidates cfg = [] then Inl (ErrConfig (''primary_identifier '' @ bx_name bx @
       '': ordered_identifier_candidates must not be empty''))
     else Inr cfg)"

definition subject_type_matches :: "string \<Rightarrow> subject_type \<Rightarrow> bool" where
  "subject_type_matches fmt t \<longleftrightarrow> fmt = subject_type_name t \<or> after_last CHR '':'' fmt = subject_type_name t"

definition apply_override :: "pid_overrides \<Rightarrow> effective \<Rightarrow> effective" where
  "apply_override ov e =
     \<lparr> ef_candidates = unwrap_or (ef_candidates e) (po_candidates ov),
       ef_primary = unwrap_or (ef_primary e) (po_primary ov),
       ef_clear = unwrap_or (ef_clear e) (po_clear ov),
       ef_replace = unwrap_or (ef_replace e) (po_replace ov),
       ef_on_error = or_else (po_on_error ov) (ef_on_error e),
       ef_ignore = (ef_ignore e \<or> po_ignore ov) \<rparr>"

definition apply_override_for :: "pid_overrides smap \<Rightarrow> string \<Rightarrow> effective \<Rightarrow> effective" where
  "apply_override_for ovs key e =
     (if key = [] then e else case bm_get ovs key of None \<Rightarrow> e | Some ov \<Rightarrow> apply_override ov e)"

definition effective_for :: "pid_config \<Rightarrow> string \<Rightarrow> string \<Rightarrow> effective" where
  "effective_for cfg who issuer =
     apply_override_for (pi_overrides cfg) who
       (apply_override_for (pi_overrides cfg) issuer
         \<lparr> ef_candidates = pi_candidates cfg, ef_primary = unwrap_or ''uid'' (pi_primary cfg),
           ef_clear = pi_clear cfg, ef_replace = pi_replace cfg, ef_on_error = pi_on_error cfg,
           ef_ignore = False \<rparr>)"

text \<open>The values of a candidate's attributes, \<open>None\<close> when one is missing.\<close>

fun attribute_values :: "internal_data \<Rightarrow> string option \<Rightarrow> string list \<Rightarrow> string list \<Rightarrow> string list option" where
  "attribute_values d fmt [] vs = Some vs"
| "attribute_values d fmt (name # names) vs =
     (if name = ''name_id'' then
        (case id_subject_id d of
           None \<Rightarrow> None
         | Some subject \<Rightarrow>
             if (case fmt of None \<Rightarrow> False | Some f \<Rightarrow> subject_type_matches f (id_subject_type d))
             then attribute_values d fmt names (if subject \<in> set vs then vs else vs @ [subject])
             else None)
      else (case attr_first d name of
              None \<Rightarrow> None | Some v \<Rightarrow> attribute_values d fmt names (vs @ [v])))"

definition candidate_values :: "internal_data \<Rightarrow> candidate \<Rightarrow> string list option" where
  "candidate_values d c =
     Option.bind (attribute_values d (cd_name_id_format c) (cd_attribute_names c) []) (\<lambda>vs.
       case cd_add_scope c of
         None \<Rightarrow> Some vs
       | Some scope \<Rightarrow>
           if scope = ''issuer_entityid''
           then map_option (\<lambda>i. vs @ [i]) (ai_issuer (id_auth_info d))
           else Some (vs @ [scope]))"

definition frame_values :: "string list \<Rightarrow> string" where
  "frame_values vs = ''tbpid-v1:'' @ show_nat (length vs) @ '':'' @
     concat (map (\<lambda>v. show_nat (length v) @ '':'' @ v) vs)"

definition construct :: "candidate list \<Rightarrow> internal_data \<Rightarrow> string option" where
  "construct cs d = find_map (\<lambda>c. case candidate_values d c of
     None \<Rightarrow> None | Some [] \<Rightarrow> None | Some vs \<Rightarrow> Some (frame_values vs)) cs"

definition pid_response ::
    "((string \<times> string) list \<Rightarrow> string) \<Rightarrow> pid_config \<Rightarrow> internal_data \<Rightarrow> ('w, internal_data) handler" where
  "pid_response form_encode cfg d ctx =
     (let who = requester_or_empty d; issuer = issuer_or_empty d; eff = effective_for cfg who issuer
      in if ef_ignore eff then (Inr d, ctx)
         else case construct (ef_candidates eff) d of
           None \<Rightarrow>
             (case ef_on_error eff of
                Some url \<Rightarrow>
                  (Inl (ErrAuthn (''primary_identifier '' @ pi_name cfg @ '': no identifier could be constructed'')),
                   decorate KEY_ERROR_REDIRECT
                     (JString (url @ ''?'' @ form_encode [(''sp'', who), (''idp'', issuer)])) ctx)
              | None \<Rightarrow> (Inr d, ctx))
         | Some identifier \<Rightarrow>
             (let d1 = (if ef_clear eff then d\<lparr> id_attributes := [] \<rparr> else d);
                  d2 = set_attr (ef_primary eff) identifier d1;
                  d3 = (if ef_replace eff then d2\<lparr> id_subject_id := Some identifier \<rparr> else d2)
              in (Inr d3, ctx)))"

definition pid_build ::
    "((string \<times> string) list \<Rightarrow> string) \<Rightarrow> build_context \<Rightarrow> 'w micro_service result" where
  "pid_build form_encode bx = bind_result (pid_configure bx) (\<lambda>cfg.
     Inr (response_service (bx_name bx) (pid_response form_encode cfg)))"

section \<open>hasher\<close>

record raw_entry =
  re_salt :: "string option"
  re_alg :: "string option"
  re_allow_md5 :: "bool option"
  re_subject_id :: "bool option"
  re_attributes :: "string list option"

datatype hash_alg = Md5 | Sha256 | Sha512

record hasher_entry =
  he_salt :: string
  he_alg :: hash_alg
  he_subject_id :: bool
  he_attributes :: "string list"

definition dec_raw_entry :: "json \<Rightarrow> raw_entry option" where
  "dec_raw_entry v = do {
     m \<leftarrow> as_object v;
     salt \<leftarrow> dec_default dec_opt_str None ''salt'' m;
     alg \<leftarrow> dec_default dec_opt_str None ''alg'' m;
     md5 \<leftarrow> dec_default (dec_opt as_bool) None ''allow_legacy_md5'' m;
     sid \<leftarrow> dec_default (dec_opt as_bool) None ''subject_id'' m;
     at \<leftarrow> dec_default (dec_opt dec_strings) None ''attributes'' m;
     Some \<lparr> re_salt = salt, re_alg = alg, re_allow_md5 = md5, re_subject_id = sid, re_attributes = at \<rparr> }"

definition parse_alg :: "string \<Rightarrow> string \<Rightarrow> bool \<Rightarrow> hash_alg result" where
  "parse_alg s name allow_legacy_md5 =
     (if s = ''md5'' then
        (if allow_legacy_md5 then Inr Md5
         else Inl (ErrConfig (''hasher '' @ name @ '': alg=md5 requires allow_legacy_md5 = true'')))
      else if s = ''sha256'' then Inr Sha256
      else if s = ''sha512'' then Inr Sha512
      else Inl (ErrConfig (''hasher '' @ name @ '': unsupported alg: '' @ s)))"

definition hash_data :: "hash_lib \<Rightarrow> hash_alg \<Rightarrow> string \<Rightarrow> string \<Rightarrow> string" where
  "hash_data hs alg salt v =
     hex (case alg of Md5 \<Rightarrow> hs_md5 hs (v @ salt) | Sha256 \<Rightarrow> hs_sha256 hs (v @ salt) | Sha512 \<Rightarrow> hs_sha512 hs (v @ salt))"

text \<open>One requester's entry, with the defaults of the empty key filled in.\<close>

definition hasher_entry_of :: "string \<Rightarrow> raw_entry \<Rightarrow> string \<Rightarrow> string \<Rightarrow> raw_entry \<Rightarrow> hasher_entry result" where
  "hasher_entry_of name defaults default_salt who entry =
     bind_result (case re_salt entry of
         Some salt \<Rightarrow> if salt \<noteq> [] then Inr salt
           else Inl (ErrConfig (''hasher '' @ name @ '': empty salt for requester '' @ debug_str who))
       | None \<Rightarrow> Inr default_salt) (\<lambda>salt.
     bind_result (parse_alg (unwrap_or (unwrap_or ''sha512'' (re_alg defaults)) (re_alg entry)) name
         (unwrap_or (unwrap_or False (re_allow_md5 defaults)) (re_allow_md5 entry))) (\<lambda>alg.
       Inr \<lparr> he_salt = salt, he_alg = alg,
             he_subject_id = unwrap_or (unwrap_or True (re_subject_id defaults)) (re_subject_id entry),
             he_attributes = unwrap_or (unwrap_or [] (re_attributes defaults)) (re_attributes entry) \<rparr>))"

definition hasher_configure :: "build_context \<Rightarrow> hasher_entry smap result" where
  "hasher_configure bx = bind_result (parse_config (dec_bmap dec_raw_entry) bx) (\<lambda>raw.
     bind_result (ok_or (bm_get raw []) (ErrConfig (''hasher '' @ bx_name bx @ '': missing default (\"\") section''))) (\<lambda>defaults.
     bind_result (ok_or (opt_filter (\<lambda>s. s \<noteq> []) (re_salt defaults))
         (ErrConfig (''hasher '' @ bx_name bx @ '': default section needs a salt''))) (\<lambda>default_salt.
     bind_result (parse_alg (unwrap_or ''sha512'' (re_alg defaults)) (bx_name bx) (unwrap_or False (re_allow_md5 defaults))) (\<lambda>_.
     traverse (\<lambda>(who, entry). bind_result (hasher_entry_of (bx_name bx) defaults default_salt who entry)
         (\<lambda>e. Inr (who, e))) raw))))"

text \<open>\<open>expect\<close> on a missing default entry would panic: an internal error here.\<close>

definition hasher_response ::
    "hash_lib \<Rightarrow> hasher_entry smap \<Rightarrow> 'w req_context_scheme \<Rightarrow> internal_data \<Rightarrow> internal_data result" where
  "hasher_response hs entries ctx d =
     (case or_else (bm_get entries (requester_or_empty d)) (bm_get entries []) of
        None \<Rightarrow> Inl (ErrInternal ''default entry enforced at build time'')
      | Some e \<Rightarrow>
          (let h = hash_data hs (he_alg e) (he_salt e);
               d1 = (if he_subject_id e then d\<lparr> id_subject_id := map_option h (id_subject_id d) \<rparr> else d)
           in Inr (d1\<lparr> id_attributes := foldl (\<lambda>m a. bm_update a (map h) m) (id_attributes d1) (he_attributes e) \<rparr>)))"

definition hasher_build :: "hash_lib \<Rightarrow> build_context \<Rightarrow> 'w micro_service result" where
  "hasher_build hs bx = bind_result (hasher_configure bx) (\<lambda>entries.
     Inr (attribute_ms (bx_name bx) (hasher_response hs entries)))"

section \<open>legacy_eptid\<close>

record eptid_config =
  ep_name :: string
  ep_idp_entity_id :: string
  ep_secret :: string
  ep_source_attribute :: string
  ep_source_subject_id :: bool
  ep_sp_entity_id :: "string option"
  ep_requesters :: "string list"
  ep_target_attribute :: string
  ep_release_attribute :: bool
  ep_set_subject_id :: bool
  ep_allow_md5 :: bool

definition dec_eptid :: "string \<Rightarrow> json \<Rightarrow> eptid_config option" where
  "dec_eptid name v = do {
     m \<leftarrow> as_object v;
     idp \<leftarrow> dec_required as_str ''idp_entity_id'' m;
     secret \<leftarrow> dec_required as_str ''secret'' m;
     src \<leftarrow> dec_default as_str ''subject-id'' ''source_attribute'' m;
     ssub \<leftarrow> dec_default as_bool False ''source_subject_id'' m;
     sp \<leftarrow> dec_default dec_opt_str None ''sp_entity_id'' m;
     rqs \<leftarrow> dec_default dec_strings [] ''requesters'' m;
     tgt \<leftarrow> dec_default as_str ''edupersontargetedid'' ''target_attribute'' m;
     rel \<leftarrow> dec_default as_bool True ''release_attribute'' m;
     set_sub \<leftarrow> dec_default as_bool False ''set_subject_id'' m;
     md5 \<leftarrow> dec_default as_bool False ''allow_legacy_md5'' m;
     Some \<lparr> ep_name = name, ep_idp_entity_id = idp, ep_secret = secret, ep_source_attribute = src,
       ep_source_subject_id = ssub, ep_sp_entity_id = sp, ep_requesters = rqs, ep_target_attribute = tgt,
       ep_release_attribute = rel, ep_set_subject_id = set_sub, ep_allow_md5 = md5 \<rparr> }"

definition eptid_configure :: "build_context \<Rightarrow> eptid_config result" where
  "eptid_configure bx = bind_result (parse_config (dec_eptid (bx_name bx)) bx) (\<lambda>cfg.
     let err = (\<lambda>msg. Inl (ErrConfig (''legacy_eptid '' @ bx_name bx @ '': '' @ msg)))
     in if \<not> ep_allow_md5 cfg then err ''PySAML2 MD5 compatibility requires allow_legacy_md5 = true''
        else if ep_idp_entity_id cfg = [] then err ''idp_entity_id must not be empty''
        else if ep_secret cfg = [] then err ''secret must not be empty''
        else if ep_source_attribute cfg = [] \<and> \<not> ep_source_subject_id cfg then err ''source_attribute must not be empty''
        else if ep_target_attribute cfg = [] \<and> ep_release_attribute cfg
          then err ''target_attribute must not be empty when release_attribute = true''
        else if \<not> ep_release_attribute cfg \<and> \<not> ep_set_subject_id cfg
          then err ''enable release_attribute, set_subject_id, or both''
        else Inr cfg)"

definition eptid_make :: "hash_lib \<Rightarrow> eptid_config \<Rightarrow> string \<Rightarrow> string \<Rightarrow> string" where
  "eptid_make hs cfg sp_entity_id user_id =
     ep_idp_entity_id cfg @ ''!'' @ sp_entity_id @ ''!'' @ hex (hs_md5 hs (user_id @ sp_entity_id @ ep_secret cfg))"

definition eptid_response ::
    "hash_lib \<Rightarrow> eptid_config \<Rightarrow> 'w req_context_scheme \<Rightarrow> internal_data \<Rightarrow> internal_data result" where
  "eptid_response hs cfg ctx d =
     (if ep_requesters cfg \<noteq> [] \<and>
         (case id_requester d of None \<Rightarrow> True | Some r \<Rightarrow> r \<notin> set (ep_requesters cfg)) then Inr d
      else bind_result (ok_or (or_else (ep_sp_entity_id cfg) (id_requester d))
             (ErrAuthn (''legacy_eptid '' @ ep_name cfg @ '': no requester/SP entityID available''))) (\<lambda>sp.
           bind_result (if ep_source_subject_id cfg
               then ok_or (id_subject_id d) (ErrAuthn (''legacy_eptid '' @ ep_name cfg @ '': no subject_id available''))
               else ok_or (attr_first d (ep_source_attribute cfg)) (ErrAuthn (''legacy_eptid '' @ ep_name cfg @
                 '': missing source attribute '' @ ep_source_attribute cfg))) (\<lambda>user_id.
             let eptid = eptid_make hs cfg sp user_id;
                 d1 = (if ep_release_attribute cfg then set_attr (ep_target_attribute cfg) eptid d else d)
             in Inr (if ep_set_subject_id cfg
                     then d1\<lparr> id_subject_id := Some eptid, id_subject_type := Persistent \<rparr> else d1))))"

definition eptid_build :: "hash_lib \<Rightarrow> build_context \<Rightarrow> 'w micro_service result" where
  "eptid_build hs bx = bind_result (eptid_configure bx) (\<lambda>cfg.
     Inr (attribute_ms (bx_name bx) (eptid_response hs cfg)))"

section \<open>Framings\<close>

lemma hex_no_at: "CHR ''@'' \<notin> set (hex s)"
proof -
  have that: "hex_digit n \<noteq> CHR ''@''" if "n < 16" for n
  proof -
    have "n \<in> set [0..<16]" using that by simp
    moreover have "list_all (\<lambda>n. hex_digit n \<noteq> CHR ''@'') [0..<16]" by code_simp
    ultimately show ?thesis by (simp add: list_all_iff)
  qed
  have "CHR ''@'' \<notin> set (hex_byte c)" for c
  proof -
    have "byte c div 16 < 16" "byte c mod 16 < 16" by (simp_all add: byte_def div_less_iff_less_mult)
    then have "hex_digit (byte c div 16) \<noteq> CHR ''@''" "hex_digit (byte c mod 16) \<noteq> CHR ''@''"
      using that by blast+
    then show ?thesis by (auto simp: hex_byte_def)
  qed
  then show ?thesis by (auto simp: hex_def)
qed

lemma pairwise_input_V1_inj:
  assumes "pairwise_input V1 r s = pairwise_input V1 r' s'"
  shows "r = r' \<and> s = s'"
proof -
  from assms have "show_nat (length r) @ CHR '':'' # (r @ '':'' @ s) = show_nat (length r') @ CHR '':'' # (r' @ '':'' @ s')"
    by (simp add: pairwise_input_def)
  from show_nat_sep_unique[OF this] show ?thesis by auto
qed

text \<open>
  C39. With the \<open>v1\<close> framing two different (requester, subject) pairs get the same pairwise
  identifier only through a collision of HMAC-SHA256 itself.
\<close>

theorem pairwise_v1_unlinkable:
  assumes "pw_framing pw = V1" "pairwise_id hs pw r s = pairwise_id hs pw r' s'" "(r, s) \<noteq> (r', s')"
  shows "\<exists>x y. x \<noteq> y \<and> hs_hmac_sha256 hs (pw_salt pw) x = hs_hmac_sha256 hs (pw_salt pw) y"
proof -
  let ?h = "\<lambda>r s. hs_hmac_sha256 hs (pw_salt pw) (pairwise_input (pw_framing pw) r s)"
  from assms(2) have "hex (?h r s) @ CHR ''@'' # after_last CHR ''@'' s = hex (?h r' s') @ CHR ''@'' # after_last CHR ''@'' s'"
    by (simp add: pairwise_id_def)
  then have "before_first CHR ''@'' (hex (?h r s) @ CHR ''@'' # after_last CHR ''@'' s) =
      before_first CHR ''@'' (hex (?h r' s') @ CHR ''@'' # after_last CHR ''@'' s')" by (rule arg_cong)
  then have "hex (?h r s) = hex (?h r' s')" by (simp add: before_first_append hex_no_at)
  then have "?h r s = ?h r' s'" by (rule hex_inj)
  moreover have "pairwise_input (pw_framing pw) r s \<noteq> pairwise_input (pw_framing pw) r' s'"
  proof
    assume "pairwise_input (pw_framing pw) r s = pairwise_input (pw_framing pw) r' s'"
    then have "pairwise_input V1 r s = pairwise_input V1 r' s'" by (simp only: assms(1))
    from pairwise_input_V1_inj[OF this] assms(3) show False by simp
  qed
  ultimately show ?thesis by blast
qed

text \<open>
  The legacy framing is ambiguous, as its documentation warns: a pair of different
  requesters and subjects gets one identifier whatever the MAC is.
\<close>

theorem pairwise_legacy_collides:
  "\<exists>r s r' s'. r \<noteq> r' \<and> s \<noteq> s' \<and>
     (\<forall>hs pw. pairwise_id hs (pw\<lparr> pw_framing := Legacy \<rparr>) r (s @ ''@x'') =
        pairwise_id hs (pw\<lparr> pw_framing := Legacy \<rparr>) r' (s' @ ''@x''))"
  by (rule exI[of _ "''a-b''"], rule exI[of _ "''c''"], rule exI[of _ "''a''"], rule exI[of _ "''b-c''"])
     (simp add: pairwise_id_def pairwise_input_def after_last_def)

lemma frames_inj:
  "concat (map (\<lambda>v. show_nat (length v) @ '':'' @ v) vs) = concat (map (\<lambda>v. show_nat (length v) @ '':'' @ v) ws) \<Longrightarrow>
     length vs = length ws \<Longrightarrow> vs = ws"
proof (induction vs arbitrary: ws)
  case (Cons v vs)
  then obtain w ws' where ws: "ws = w # ws'" by (cases ws) auto
  let ?c = "\<lambda>xs. concat (map (\<lambda>v. show_nat (length v) @ '':'' @ v) xs)"
  from Cons.prems(1) ws have "show_nat (length v) @ CHR '':'' # (v @ ?c vs) = show_nat (length w) @ CHR '':'' # (w @ ?c ws')"
    by simp
  from show_nat_sep_unique[OF this] have "v = w" "?c vs = ?c ws'" by auto
  with Cons ws show ?case by simp
qed simp

text \<open>
  Primary identifiers are framed injectively: equal identifiers come from equal lists of
  component values, so no raw value an identity provider sends can imitate another subject's
  composed identifier.
\<close>

theorem primary_identifier_injective: "frame_values vs = frame_values ws \<longleftrightarrow> vs = ws"
proof
  let ?c = "\<lambda>xs. concat (map (\<lambda>v. show_nat (length v) @ '':'' @ v) xs)"
  assume "frame_values vs = frame_values ws"
  then have "show_nat (length vs) @ CHR '':'' # ?c vs = show_nat (length ws) @ CHR '':'' # ?c ws"
    by (simp add: frame_values_def)
  from show_nat_sep_unique[OF this] show "vs = ws" using frames_inj by blast
qed simp

text \<open>
  The identifier is the framed value list of the first candidate that is complete and not
  empty; there is none only when every candidate misses a value.
\<close>

theorem construct_first_complete:
  "case construct cs d of
     Some i \<Rightarrow> \<exists>pre c post vs. cs = pre @ c # post \<and> candidate_values d c = Some vs \<and> vs \<noteq> [] \<and>
         i = frame_values vs \<and> (\<forall>c' \<in> set pre. candidate_values d c' \<in> {None, Some []})
   | None \<Rightarrow> \<forall>c \<in> set cs. candidate_values d c \<in> {None, Some []}"
proof (induction cs)
  case (Cons c cs)
  show ?case
  proof (cases "candidate_values d c \<in> {None, Some []}")
    case True
    then have e: "construct (c # cs) d = construct cs d" by (auto simp: construct_def)
    show ?thesis
    proof (cases "construct cs d")
      case None with Cons True e show ?thesis by auto
    next
      case (Some i)
      with Cons obtain pre c' post vs where "cs = pre @ c' # post" "candidate_values d c' = Some vs" "vs \<noteq> []"
          "i = frame_values vs" "\<forall>c'' \<in> set pre. candidate_values d c'' \<in> {None, Some []}" by auto
      then have "c # cs = (c # pre) @ c' # post \<and> candidate_values d c' = Some vs \<and> vs \<noteq> [] \<and>
         i = frame_values vs \<and> (\<forall>c'' \<in> set (c # pre). candidate_values d c'' \<in> {None, Some []})"
        using True by simp
      then show ?thesis unfolding e Some option.case by blast
    qed
  next
    case False
    then obtain v vs where v: "candidate_values d c = Some (v # vs)"
      by (cases "candidate_values d c") (auto simp: neq_Nil_conv)
    then have "construct (c # cs) d = Some (frame_values (v # vs))" by (simp add: construct_def)
    moreover have "c # cs = [] @ c # cs \<and> candidate_values d c = Some (v # vs) \<and> v # vs \<noteq> [] \<and>
         frame_values (v # vs) = frame_values (v # vs) \<and> (\<forall>c'' \<in> set []. candidate_values d c'' \<in> {None, Some []})"
      using v by simp
    ultimately show ?thesis by (simp only: option.case) blast
  qed
qed (simp add: construct_def)

text \<open>The first candidate misses its attribute, the second frames the name id.\<close>

definition toy_candidates :: "candidate list" where
  "toy_candidates =
     [\<lparr> cd_attribute_names = [''eppn''], cd_name_id_format = None, cd_add_scope = None \<rparr>,
      \<lparr> cd_attribute_names = [''mail''], cd_name_id_format = None, cd_add_scope = Some ''s'' \<rparr>]"

theorem construct_first_complete_witness:
  "\<exists>pre c post vs. toy_candidates = pre @ c # post \<and>
     candidate_values (internal_default\<lparr> id_attributes := [(''mail'', [''a@b''])] \<rparr>) c = Some vs \<and>
     frame_values [''a@b'', ''s''] = frame_values vs"
proof -
  have "construct toy_candidates (internal_default\<lparr> id_attributes := [(''mail'', [''a@b''])] \<rparr>) =
      Some (frame_values [''a@b'', ''s''])" by code_simp
  with construct_first_complete[of toy_candidates "internal_default\<lparr> id_attributes := [(''mail'', [''a@b''])] \<rparr>"]
  show ?thesis by auto
qed

section \<open>The contract holds\<close>

lemma bm_wf_foldl_update: "bm_wf m \<Longrightarrow> bm_wf (foldl (\<lambda>m a. bm_update a f m) m xs)"
  by (induction xs arbitrary: m) auto

interpretation pairwise: attribute_service "pairwise_response hs" for hs
  by unfold_locales (auto simp: pairwise_response_def bind_result_eq_Inr set_attr_def)

interpretation nameid: response_transform "nameid_response nf" for nf
  by unfold_locales (auto simp: nameid_response_def bind_result_eq_Inr data_wf_def split: option.splits if_splits)

interpretation hasher: response_transform "hasher_response hs" for hs
  by unfold_locales (auto simp: hasher_response_def data_wf_def bm_wf_foldl_update Let_def split: option.splits if_splits)

interpretation eptid: response_transform "eptid_response hs" for hs
  by unfold_locales (auto simp: eptid_response_def bind_result_eq_Inr data_wf_def set_attr_def Let_def split: if_splits)

section \<open>The hasher\<close>

lemma traverse_entries:
  "traverse (\<lambda>(k, v). bind_result (f k v) (\<lambda>e. Inr (k, e))) m = Inr m' \<Longrightarrow>
     map fst m' = map fst m \<and> (\<forall>(k, e) \<in> set m'. \<exists>v. (k, v) \<in> set m \<and> f k v = Inr e)"
proof (induction m arbitrary: m')
  case (Cons x m)
  then show ?case by (cases x) (fastforce simp: bind_result_eq_Inr)
qed simp

lemma hasher_configureD:
  assumes "hasher_configure bx = Inr entries"
  shows "bm_wf entries" "bm_get entries [] \<noteq> None" "\<forall>(who, e) \<in> set entries. he_salt e \<noteq> []"
proof -
  from assms obtain raw defaults ds where raw: "parse_config (dec_bmap dec_raw_entry) bx = Inr raw"
    "bm_get raw [] = Some defaults" "opt_filter (\<lambda>s. s \<noteq> []) (re_salt defaults) = Some ds"
    "traverse (\<lambda>(who, entry). bind_result (hasher_entry_of (bx_name bx) defaults ds who entry)
         (\<lambda>e. Inr (who, e))) raw = Inr entries"
    by (auto simp: hasher_configure_def bind_result_eq_Inr)
  have wf: "bm_wf raw" using raw(1) by (auto simp: parse_config_def dest: dec_bmap_wf)
  have ds: "ds \<noteq> []" using raw(3) by (auto simp: opt_filter_def split: option.splits if_splits)
  note tr = traverse_entries[OF raw(4)]
  show "bm_wf entries" using tr wf by (simp add: bm_wf_def bm_keys_def)
  have "[] \<in> fst ` set raw" using raw(2) by (force dest: map_of_SomeD)
  then have "[] \<in> set (map fst entries)" using tr by (metis list.set_map)
  then show "bm_get entries [] \<noteq> None" by (simp add: map_of_eq_None_iff)
  have "he_salt e \<noteq> []" if "hasher_entry_of (bx_name bx) defaults ds who v = Inr e" for who v e
    using that ds by (auto simp: hasher_entry_of_def bind_result_eq_Inr split: option.splits if_splits)
  then show "\<forall>(who, e) \<in> set entries. he_salt e \<noteq> []" using tr by blast
qed

lemma hasher_attributes:
  "bm_get (foldl (\<lambda>m a. bm_update a (map h) m) m names) k =
     map_option ((map h) ^^ (length (filter (\<lambda>a. a = k) names))) (bm_get m k)"
proof (induction names arbitrary: m)
  case Nil
  then show ?case by (simp add: option.map_ident)
next
  case (Cons a names)
  show ?case using Cons[of "bm_update a (map h) m"]
    by (cases "bm_get m k") (auto simp: bm_get_update funpow_swap1)
qed

text \<open>
  A configured hasher always answers: every requester has an entry with a salt that is not
  empty, the identifier and the listed attributes leave as salted digests and nothing else changes.
\<close>

theorem hasher_hashes_salted:
  assumes "hasher_configure bx = Inr entries"
  shows "\<exists>e d'. e \<in> snd ` set entries \<and> he_salt e \<noteq> [] \<and> hasher_response hs entries ctx d = Inr d' \<and>
    id_subject_id d' = (if he_subject_id e then map_option (hash_data hs (he_alg e) (he_salt e)) (id_subject_id d)
                        else id_subject_id d) \<and>
    (\<forall>a. bm_get (id_attributes d') a =
       map_option ((map (hash_data hs (he_alg e) (he_salt e))) ^^ (length (filter (\<lambda>x. x = a) (he_attributes e))))
         (bm_get (id_attributes d) a))"
proof -
  note c = hasher_configureD[OF assms]
  obtain e where e: "or_else (bm_get entries (requester_or_empty d)) (bm_get entries []) = Some e"
    using c(2) by (cases "bm_get entries (requester_or_empty d)") auto
  then have "e \<in> snd ` set entries"
    by (cases "bm_get entries (requester_or_empty d)") (auto dest: bm_get_in_values)
  moreover from this c(3) have "he_salt e \<noteq> []" by auto
  ultimately show ?thesis using e
    by (auto simp: hasher_response_def Let_def hasher_attributes intro!: exI[of _ e])
qed

definition toy_hash :: hash_lib where
  "toy_hash = \<lparr> hs_md5 = rev, hs_sha256 = id, hs_sha512 = id, hs_hmac_sha256 = (\<lambda>k x. []) \<rparr>"

definition toy_entries :: "hasher_entry smap" where
  "toy_entries = [([], \<lparr> he_salt = ''x'', he_alg = Sha512, he_subject_id = True, he_attributes = [] \<rparr>)]"

theorem hasher_hashes_salted_witness:
  "\<exists>d'. hasher_response toy_hash toy_entries toy_ctx
      (internal_default\<lparr> id_subject_id := Some ''alice'' \<rparr>) = Inr d' \<and>
    id_subject_id d' = Some (hash_data toy_hash Sha512 ''x'' ''alice'')"
proof -
  have "hasher_configure (toy_build (JObject [([], JObject [(''salt'', JString ''x'')])])) = Inr toy_entries"
    by code_simp
  from hasher_hashes_salted[OF this, of toy_hash toy_ctx "internal_default\<lparr> id_subject_id := Some ''alice'' \<rparr>"]
  show ?thesis by (auto simp: toy_entries_def)
qed

text \<open>Witness of the pairwise property: a MAC that ignores its input collides.\<close>

theorem pairwise_v1_unlinkable_witness:
  "\<exists>x y. x \<noteq> y \<and> hs_hmac_sha256 toy_hash ''k'' x = hs_hmac_sha256 toy_hash ''k'' y"
  using pairwise_v1_unlinkable[of "\<lparr> pw_name = ''p'', pw_salt = ''k'', pw_framing = V1 \<rparr>" toy_hash
      "''a-b''" "''c@x''" "''a''" "''b-c@x''"]
  by (simp add: pairwise_id_def toy_hash_def after_last_def)

section \<open>The primary identifier service\<close>

text \<open>
  An override for the service provider decides over one for the identity provider, and that
  one over the defaults, setting by setting; either can switch the service off.
\<close>

theorem sp_override_wins:
  assumes "who \<noteq> []" "issuer \<noteq> []" "bm_get (pi_overrides cfg) who = Some sp"
    and "bm_get (pi_overrides cfg) issuer = Some idp"
  shows "ef_candidates (effective_for cfg who issuer) =
      unwrap_or (unwrap_or (pi_candidates cfg) (po_candidates idp)) (po_candidates sp) \<and>
    ef_primary (effective_for cfg who issuer) =
      unwrap_or (unwrap_or (unwrap_or ''uid'' (pi_primary cfg)) (po_primary idp)) (po_primary sp) \<and>
    ef_on_error (effective_for cfg who issuer) = or_else (po_on_error sp) (or_else (po_on_error idp) (pi_on_error cfg)) \<and>
    ef_ignore (effective_for cfg who issuer) = (po_ignore idp \<or> po_ignore sp)"
  using assms by (simp add: effective_for_def apply_override_for_def apply_override_def)

lemma pid_keeps_base_response:
  "preserves keeps_base (pid_response enc cfg d)"
  by (auto simp: preserves_def pid_response_def Let_def keeps_base_refl keeps_base_steps
      split: if_splits option.splits)

theorem sp_override_wins_witness:
  "ef_primary (effective_for \<lparr> pi_name = ''p'', pi_candidates = [], pi_primary = None, pi_clear = False,
      pi_replace = False, pi_on_error = None,
      pi_overrides = [(''idp'', \<lparr> po_candidates = None, po_primary = Some ''a'', po_clear = None, po_replace = None,
                                 po_on_error = None, po_ignore = False \<rparr>),
                      (''sp'', \<lparr> po_candidates = None, po_primary = Some ''b'', po_clear = None, po_replace = None,
                                po_on_error = None, po_ignore = False \<rparr>)] \<rparr> ''sp'' ''idp'') = ''b''"
  using sp_override_wins[of "''sp''" "''idp''" "\<lparr> pi_name = ''p'', pi_candidates = [], pi_primary = None, pi_clear = False,
      pi_replace = False, pi_on_error = None,
      pi_overrides = [(''idp'', \<lparr> po_candidates = None, po_primary = Some ''a'', po_clear = None, po_replace = None,
                                 po_on_error = None, po_ignore = False \<rparr>),
                      (''sp'', \<lparr> po_candidates = None, po_primary = Some ''b'', po_clear = None, po_replace = None,
                                po_on_error = None, po_ignore = False \<rparr>)] \<rparr>"]
  by simp

end
