(* ===== verification/Discovery.thy ===== *)
theory Discovery
  imports Release_Services
begin

text \<open>
  The service \<open>disco_to_target_issuer\<close> of \<open>disco.rs\<close>: it keeps a snapshot of the request in the
  session while the browser visits an external discovery service, and resumes the request when the
  browser returns with the chosen issuer.  The JSON printer that measures the snapshot is a
  parameter.  Shown: the snapshot is resumed unchanged and consumed once, and the issuer it is
  resumed with is one the configuration allows for the requester.
\<close>

section \<open>Configuration\<close>

definition KEY_SNAPSHOT :: string where "KEY_SNAPSHOT = ''snapshot''"
definition DISCO_NAMESPACE_PREFIX :: string where "DISCO_NAMESPACE_PREFIX = ''disco_to_target_issuer:''"
definition PARAM_ENTITY_ID :: string where "PARAM_ENTITY_ID = ''entityID''"
definition MAX_ENTITY_ID_LEN :: nat where "MAX_ENTITY_ID_LEN = 1024"
definition MAX_SNAPSHOT_BYTES :: nat where "MAX_SNAPSHOT_BYTES = 2048"

definition is_valid_entity_id :: "string \<Rightarrow> bool" where
  "is_valid_entity_id v \<longleftrightarrow>
     v \<noteq> [] \<and> char_count v \<le> MAX_ENTITY_ID_LEN \<and> \<not> list_ex is_ascii_control v"

record raw_disco =
  rd_endpoints :: "string list"
  rd_allowed :: "string list smap option"
  rd_allow_any :: bool

definition dec_disco :: "json \<Rightarrow> raw_disco option" where
  "dec_disco v = do {
     m \<leftarrow> as_object v;
     eps \<leftarrow> dec_required dec_strings ''disco_endpoints'' m;
     allowed \<leftarrow> dec_default (dec_opt (dec_bmap dec_strings)) None ''allowed_issuers'' m;
     any \<leftarrow> dec_default as_bool False ''allow_any_issuer'' m;
     Some \<lparr> rd_endpoints = eps, rd_allowed = allowed, rd_allow_any = any \<rparr> }"

record disco =
  di_name :: string
  di_endpoints :: "string list"
  di_allowed :: "string list smap option"

definition state_namespace :: "disco \<Rightarrow> string" where
  "state_namespace di = DISCO_NAMESPACE_PREFIX @ di_name di"

text \<open>One entry of \<open>disco_endpoints\<close>, and one of \<open>allowed_issuers\<close>.\<close>

definition disco_endpoint :: "string \<Rightarrow> string \<Rightarrow> string result" where
  "disco_endpoint name path =
     (let path = trim_start_char CHR ''/'' path
      in if path = [] \<or> has_whitespace path \<or> CHR ''?'' \<in> set path
         then Inl (ErrConfig (''disco_to_target_issuer '' @ name @ '': disco_endpoints entries must be '' @
           ''non-empty literal paths without whitespace or query strings''))
         else Inr path)"

definition check_issuers :: "string \<Rightarrow> string \<times> string list \<Rightarrow> unit result" where
  "check_issuers name e =
     (case e of (who, issuers) \<Rightarrow>
        if issuers = [] then
          Inl (ErrConfig (''disco_to_target_issuer '' @ name @ '': allowed_issuers for requester '' @
            debug_str who @ '' must not be empty''))
        else if list_ex (\<lambda>i. \<not> is_valid_entity_id i) issuers then
          Inl (ErrConfig (''disco_to_target_issuer '' @ name @ '': allowed_issuers entries for requester '' @
            debug_str who @ '' must be non-empty, at most '' @ show_nat MAX_ENTITY_ID_LEN @
            '' characters, and contain no ASCII control characters''))
        else Inr ())"

definition disco_configure :: "build_context \<Rightarrow> disco result" where
  "disco_configure bx =
     bind_result (parse_config dec_disco bx) (\<lambda>cfg.
     if rd_endpoints cfg = [] then
       Inl (ErrConfig (''disco_to_target_issuer '' @ bx_name bx @ '': disco_endpoints must not be empty''))
     else bind_result (traverse (disco_endpoint (bx_name bx)) (rd_endpoints cfg)) (\<lambda>eps.
     bind_result (case (rd_allowed cfg, rd_allow_any cfg) of
         (Some m, False) \<Rightarrow>
           if m = [] then Inl (ErrConfig (''disco_to_target_issuer '' @ bx_name bx @
             '': allowed_issuers must not be empty''))
           else bind_result (traverse (check_issuers (bx_name bx)) m) (\<lambda>_. Inr ())
       | (None, True) \<Rightarrow> Inr ()
       | _ \<Rightarrow> Inl (ErrConfig (''disco_to_target_issuer '' @ bx_name bx @ '': configure exactly one of '' @
           ''allowed_issuers (enumerated issuers) or allow_any_issuer = true (rely on backend metadata '' @
           ''verification)'')))
       (\<lambda>_. Inr \<lparr> di_name = bx_name bx, di_endpoints = eps, di_allowed = rd_allowed cfg \<rparr>)))"

section \<open>Suspending and resuming\<close>

definition disco_snapshot :: "string option \<Rightarrow> internal_data \<Rightarrow> json" where
  "disco_snapshot tf d = JObject [(''target_frontend'', enc_opt_str tf), (''internal_data'', enc_internal d)]"

definition disco_request ::
    "(json \<Rightarrow> string) \<Rightarrow> disco \<Rightarrow> internal_data \<Rightarrow> ('w, internal_data) handler" where
  "disco_request print di d ctx =
     (let snapshot = disco_snapshot (cx_target_frontend ctx) d; size = length (print snapshot)
      in if size > MAX_SNAPSHOT_BYTES then
           (Inl (ErrAuthn (''discovery snapshot of '' @ show_nat size @ '' bytes exceeds the '' @
              show_nat MAX_SNAPSHOT_BYTES @ ''-byte state-cookie budget'')), ctx)
         else (Inr d, with_state (set_value (state_namespace di) KEY_SNAPSHOT snapshot) ctx))"

definition issuer_allowed :: "disco \<Rightarrow> internal_data \<Rightarrow> string \<Rightarrow> bool" where
  "issuer_allowed di request issuer =
     (case di_allowed di of
        None \<Rightarrow> True
      | Some allowed \<Rightarrow>
          (case Option.bind (id_requester request) (level allowed) of
             None \<Rightarrow> False
           | Some issuers \<Rightarrow> list_ex (\<lambda>a. a = issuer) issuers))"

definition disco_handle :: "disco \<Rightarrow> string \<Rightarrow> ('w, ms_action) handler" where
  "disco_handle di route_id ctx =
     (case opt_filter is_valid_entity_id (bm_get (rq_query (cx_request ctx)) PARAM_ENTITY_ID) of
        None \<Rightarrow> (Inl (ErrAuthn ''no valid entityID in the discovery response''), ctx)
      | Some issuer \<Rightarrow>
      (case get_value (cx_state ctx) (state_namespace di) KEY_SNAPSHOT of
         None \<Rightarrow> (Inl (ErrAuthn ''no discovery flow in progress''), ctx)
       | Some snapshot \<Rightarrow>
           (let target_frontend = Option.bind (json_field ''target_frontend'' snapshot) as_str
            in case Option.bind (json_field ''internal_data'' snapshot) dec_internal of
                 None \<Rightarrow> (Inl (ErrState ''invalid discovery snapshot''),
                          with_state (clear_namespace (state_namespace di)) ctx)
               | Some request \<Rightarrow>
                   if \<not> issuer_allowed di request issuer then
                     (Inl (ErrAuthn ''discovery response issuer is not in allowed_issuers for this requester''), ctx)
                   else
                     (let ctx = with_state (clear_namespace (state_namespace di)) ctx;
                          ctx = ctx\<lparr> cx_target_frontend := target_frontend \<rparr>;
                          ctx = decorate KEY_TARGET_ENTITYID (JString issuer) ctx
                      in (Inr (ResumeRequest request), ctx)))))"

definition disco_ms :: "(json \<Rightarrow> string) \<Rightarrow> disco \<Rightarrow> 'w micro_service" where
  "disco_ms print di = (ms_default (di_name di))
     \<lparr> ms_request := disco_request print di,
       ms_register := map (\<lambda>p. route_exact p p) (di_endpoints di),
       ms_handle := disco_handle di \<rparr>"

definition disco_build :: "(json \<Rightarrow> string) \<Rightarrow> build_context \<Rightarrow> 'w micro_service result" where
  "disco_build print bx = bind_result (disco_configure bx) (\<lambda>di. Inr (disco_ms print di))"

section \<open>The slot in the session\<close>

text \<open>The namespace of an instance is never the base namespace of the proxy.\<close>

interpretation disco_slot: flow_slot get_value set_value clear_namespace state_wf
    state_namespace KEY_SNAPSHOT "\<lambda>n. n = STATE_KEY_BASE"
  by unfold_locales (simp add: state_namespace_def DISCO_NAMESPACE_PREFIX_def STATE_KEY_BASE_def)

lemma disco_requestD:
  assumes "disco_request print di d ctx = (Inr d', ctx')"
  shows "d' = d" "ctx' = with_state (set_value (state_namespace di) KEY_SNAPSHOT
      (disco_snapshot (cx_target_frontend ctx) d)) ctx"
    "length (print (disco_snapshot (cx_target_frontend ctx) d)) \<le> MAX_SNAPSHOT_BYTES"
  using assms by (auto simp: disco_request_def Let_def split: if_split_asm)

lemma disco_handle_ResumeD:
  assumes "disco_handle di i c = (Inr a, c')"
  shows "\<exists>issuer snapshot request. bm_get (rq_query (cx_request c)) PARAM_ENTITY_ID = Some issuer \<and>
    is_valid_entity_id issuer \<and> get_value (cx_state c) (state_namespace di) KEY_SNAPSHOT = Some snapshot \<and>
    Option.bind (json_field ''internal_data'' snapshot) dec_internal = Some request \<and>
    issuer_allowed di request issuer \<and> a = ResumeRequest request \<and>
    c' = decorate KEY_TARGET_ENTITYID (JString issuer)
      ((with_state (clear_namespace (state_namespace di)) c)
        \<lparr> cx_target_frontend := Option.bind (json_field ''target_frontend'' snapshot) as_str \<rparr>)"
  using assms by (auto simp: disco_handle_def Let_def opt_filter_def split: option.splits if_split_asm)

lemma snapshot_fields:
  "Option.bind (json_field ''target_frontend'' (disco_snapshot tf d)) as_str = tf"
  "data_wf d \<Longrightarrow> Option.bind (json_field ''internal_data'' (disco_snapshot tf d)) dec_internal = Some d"
  by (cases tf) (simp_all add: disco_snapshot_def enc_opt_str_def dec_internal_enc)

text \<open>
  C36. Suspend and resume: the request that discovery suspended comes back unchanged, with the
  frontend it came from and the chosen issuer as its target, while the rest of the session stays
  as it is and the snapshot is gone, so that the same return cannot be played twice.
\<close>

theorem discovery_round_trip:
  assumes sus: "disco_request print di d c = (Inr d', c1)" and wf: "data_wf d" "state_wf (cx_state c)"
    and state: "cx_state c2 = cx_state c1" and decs: "bm_wf (cx_decorations c2)"
    and chosen: "bm_get (rq_query (cx_request c2)) PARAM_ENTITY_ID = Some issuer" "is_valid_entity_id issuer"
    and allowed: "issuer_allowed di d issuer"
  shows "\<exists>c3. disco_handle di i c2 = (Inr (ResumeRequest d), c3) \<and>
    cx_target_frontend c3 = cx_target_frontend c \<and>
    decoration c3 KEY_TARGET_ENTITYID = Some (JString issuer) \<and>
    (\<forall>k. get_value (cx_state c3) STATE_KEY_BASE k = get_value (cx_state c) STATE_KEY_BASE k) \<and>
    fst (disco_handle di j (c2\<lparr> cx_state := cx_state c3 \<rparr>)) = Inl (ErrAuthn ''no discovery flow in progress'')"
proof -
  let ?ns = "state_namespace di"
  let ?snap = "disco_snapshot (cx_target_frontend c) d"
  note c1 = disco_requestD(2)[OF sus]
  have st2: "cx_state c2 = set_value ?ns KEY_SNAPSHOT ?snap (cx_state c)"
    by (simp add: state c1 with_state_def)
  have found: "get_value (cx_state c2) ?ns KEY_SNAPSHOT = Some ?snap"
    unfolding st2 by (rule disco_slot.saved_loaded[OF wf(2)])
  let ?c3 = "decorate KEY_TARGET_ENTITYID (JString issuer)
      ((with_state (clear_namespace ?ns) c2)\<lparr> cx_target_frontend := cx_target_frontend c \<rparr>)"
  have h: "disco_handle di i c2 = (Inr (ResumeRequest d), ?c3)"
    by (simp add: disco_handle_def chosen found snapshot_fields wf allowed Let_def)
  have st3: "cx_state ?c3 = clear_namespace ?ns (cx_state c2)" by (simp add: with_state_def)
  have wf2: "state_wf (cx_state c2)" unfolding st2 by (simp add: wf)
  have base: "get_value (cx_state ?c3) STATE_KEY_BASE k = get_value (cx_state c) STATE_KEY_BASE k" for k
    unfolding st3 st2
    using disco_slot.consume_keeps_reserved[OF wf2, of STATE_KEY_BASE di k]
      disco_slot.save_keeps_reserved[OF wf(2), of STATE_KEY_BASE di KEY_SNAPSHOT ?snap k] st2 by simp
  have gone: "get_value (cx_state ?c3) ?ns KEY_SNAPSHOT = None"
    unfolding st3 by (rule disco_slot.consumed_once[OF wf2])
  have "fst (disco_handle di j (c2\<lparr> cx_state := cx_state ?c3 \<rparr>)) = Inl (ErrAuthn ''no discovery flow in progress'')"
    by (simp add: disco_handle_def chosen gone del: decorate_frame)
  moreover have "decoration ?c3 KEY_TARGET_ENTITYID = Some (JString issuer)"
    using decs by (simp add: decoration_def decorate_def with_state_def bm_get_insert)
  moreover have "cx_target_frontend ?c3 = cx_target_frontend c" by simp
  ultimately show ?thesis using h base by blast
qed

text \<open>
  Discovery fails closed: an instance that was built resumes a flow only with an issuer that
  is a well-formed entity id and, when the configuration enumerates issuers, one it lists for the
  requester of that flow; the configuration enumerates none only when it says so.
\<close>

theorem discovery_issuer_authorized:
  assumes built: "disco_configure bx = Inr di" and ok: "disco_handle di i c = (Inr a, c')"
    and decs: "bm_wf (cx_decorations c)"
  shows "\<exists>request issuer. a = ResumeRequest request \<and>
    decoration c' KEY_TARGET_ENTITYID = Some (JString issuer) \<and> is_valid_entity_id issuer \<and>
    (case di_allowed di of
       None \<Rightarrow> \<exists>cfg. dec_disco (bx_config bx) = Some cfg \<and> rd_allow_any cfg
     | Some allowed \<Rightarrow> \<exists>who issuers. id_requester request = Some who \<and> level allowed who = Some issuers \<and>
         issuer \<in> set issuers)"
proof -
  from disco_handle_ResumeD[OF ok] obtain issuer snapshot request where h: "is_valid_entity_id issuer"
      "issuer_allowed di request issuer" "a = ResumeRequest request"
      "c' = decorate KEY_TARGET_ENTITYID (JString issuer) ((with_state (clear_namespace (state_namespace di)) c)
        \<lparr> cx_target_frontend := Option.bind (json_field ''target_frontend'' snapshot) as_str \<rparr>)" by blast
  have "decoration c' KEY_TARGET_ENTITYID = Some (JString issuer)"
    using decs by (simp add: h(4) decoration_def decorate_def with_state_def bm_get_insert)
  moreover have "case di_allowed di of
       None \<Rightarrow> \<exists>cfg. dec_disco (bx_config bx) = Some cfg \<and> rd_allow_any cfg
     | Some allowed \<Rightarrow> \<exists>who issuers. id_requester request = Some who \<and> level allowed who = Some issuers \<and>
         issuer \<in> set issuers"
  proof (cases "di_allowed di")
    case None
    with built show ?thesis
      by (auto simp: disco_configure_def parse_config_def bind_result_eq_Inr split: if_split_asm option.splits bool.splits)
  next
    case (Some allowed)
    with h(2) show ?thesis
      by (auto simp: issuer_allowed_def list_ex_iff split: option.splits)
         (auto simp: Option.bind_eq_Some_conv)
  qed
  ultimately show ?thesis using h by blast
qed

section \<open>Witnesses\<close>

definition toy_disco_cfg :: json where
  "toy_disco_cfg = JObject [(''disco_endpoints'', JArray [JString ''/d'']),
     (''allowed_issuers'', JObject [(''rp'', JArray [JString ''idp''])])]"

definition toy_disco :: disco where
  "toy_disco = \<lparr> di_name = ''svc'', di_endpoints = [''d''], di_allowed = Some [(''rp'', [''idp''])] \<rparr>"

definition toy_suspended :: "int req_context_scheme" where
  "toy_suspended = snd (disco_request (\<lambda>_. []) toy_disco toy_login (toy_ctx\<lparr> cx_target_frontend := Some ''fe'' \<rparr>))"

definition toy_return :: "int req_context_scheme" where
  "toy_return = context_new (toy_rq1\<lparr> rq_query := [(''entityID'', ''idp'')] \<rparr>) (cx_state toy_suspended) 200"

lemma toy_disco_steps:
  "disco_request (\<lambda>_. []) toy_disco toy_login (toy_ctx\<lparr> cx_target_frontend := Some ''fe'' \<rparr>) =
     (Inr toy_login, toy_suspended)"
  "data_wf toy_login" "state_wf (cx_state toy_ctx)"
  "bm_get (rq_query (cx_request toy_return)) PARAM_ENTITY_ID = Some ''idp''"
  "is_valid_entity_id ''idp''" "issuer_allowed toy_disco toy_login ''idp''"
  "disco_configure (toy_build toy_disco_cfg) = Inr toy_disco"
  "fst (disco_handle toy_disco ''d'' toy_return) = Inr (ResumeRequest toy_login)"
  by code_simp+

theorem discovery_round_trip_witness:
  "\<exists>c3. disco_handle toy_disco ''d'' toy_return = (Inr (ResumeRequest toy_login), c3) \<and>
    cx_target_frontend c3 = Some ''fe''"
proof -
  have "cx_state toy_return = cx_state toy_suspended" "bm_wf (cx_decorations toy_return)"
    by (simp_all add: toy_return_def)
  with discovery_round_trip[OF toy_disco_steps(1,2) _ _ _ toy_disco_steps(4,5,6), of "''d''"]
  show ?thesis using toy_disco_steps(3) by auto
qed

theorem discovery_issuer_authorized_witness:
  "\<exists>issuer. is_valid_entity_id issuer \<and> issuer \<in> set [''idp'']"
proof -
  have "bm_wf (cx_decorations toy_return)" by (simp add: toy_return_def)
  from discovery_issuer_authorized[OF toy_disco_steps(7) prod.collapse[symmetric, of "disco_handle toy_disco ''d'' toy_return", unfolded toy_disco_steps(8)] this]
  show ?thesis by (auto simp: toy_disco_def level_def toy_login_def or_else_def split: option.splits if_split_asm)
qed

end
