(* ===== verification/Accr.thy ===== *)
theory Accr
  imports Release_Services
begin

text \<open>
  The service \<open>accr\<close> of \<open>accr.rs\<close>: negotiation of the authentication context class (level of
  assurance).  The request path forwards what the requester asked for and the proxy supports, the
  response path reverses the vocabulary rewrite and compares the answer with the request.  Shown:
  an answer never claims more assurance than the identity provider asserted, and an answer with
  the level that was forwarded for a requested one is reported as the requested one.
\<close>

section \<open>Configuration\<close>

definition ACCR_NAMESPACE_PREFIX :: string where "ACCR_NAMESPACE_PREFIX = ''accr:''"
definition KEY_ACCR_SAVED :: string where "KEY_ACCR_SAVED = ''requested_accr''"

record raw_accr =
  ra_supported :: "string list"
  ra_lowest :: "string smap"
  ra_rewrite :: "string smap"
  ra_default_comparison :: "string option"
  ra_allow_stronger :: bool

definition dec_accr :: "json \<Rightarrow> raw_accr option" where
  "dec_accr v = do {
     m \<leftarrow> as_object v;
     sup \<leftarrow> dec_default dec_strings [] ''supported_accr_sorted_by_prio'' m;
     low \<leftarrow> dec_default (dec_bmap as_str) [] ''lowest_accepted_accr_for_virtual_idp'' m;
     rw \<leftarrow> dec_default (dec_bmap as_str) [] ''internal_accr_rewrite_map'' m;
     cmp \<leftarrow> dec_default dec_opt_str None ''default_comparison'' m;
     fb \<leftarrow> dec_default as_bool False ''allow_stronger_accr_fallback'' m;
     Some \<lparr> ra_supported = sup, ra_lowest = low, ra_rewrite = rw, ra_default_comparison = cmp,
            ra_allow_stronger = fb \<rparr> }"

record accr =
  ac_name :: string
  ac_supported :: "string list"
  ac_lowest :: "string smap"
  ac_rewrite :: "string smap"
  ac_reverse :: "string smap"
  ac_default_comparison :: "string option"
  ac_allow_stronger :: bool

definition accr_namespace :: "accr \<Rightarrow> string" where
  "accr_namespace ac = ACCR_NAMESPACE_PREFIX @ ac_name ac"

text \<open>The inverse of the rewrite map, refused when two levels are rewritten to one.\<close>

definition invert_rewrite :: "string \<Rightarrow> string smap \<Rightarrow> string smap result" where
  "invert_rewrite name rw =
     fold_result (\<lambda>(origin, rewritten) inv_map.
       if bm_get inv_map rewritten \<noteq> None then
         Inl (ErrConfig (''accr '' @ name @ '': internal_accr_rewrite_map is not one-to-one; '' @
           ''multiple origins map to '' @ rewritten))
       else Inr (bm_insert rewritten origin inv_map)) rw []"

definition accr_configure :: "build_context \<Rightarrow> accr result" where
  "accr_configure bx =
     bind_result (parse_config dec_accr bx) (\<lambda>cfg.
     if ra_supported cfg = [] then
       Inl (ErrConfig (''accr '' @ bx_name bx @ '': supported_accr_sorted_by_prio must not be empty''))
     else case List.find (\<lambda>e. snd e \<notin> set (ra_supported cfg)) (ra_lowest cfg) of
       Some (idp, minimum) \<Rightarrow>
         Inl (ErrConfig (''accr '' @ bx_name bx @ '': '' @ idp @ '' minimum accr '' @ minimum @
           '' is not in supported_accr_sorted_by_prio''))
     | None \<Rightarrow> bind_result (invert_rewrite (bx_name bx) (ra_rewrite cfg)) (\<lambda>inv_map.
         Inr \<lparr> ac_name = bx_name bx, ac_supported = ra_supported cfg, ac_lowest = ra_lowest cfg,
               ac_rewrite = ra_rewrite cfg, ac_reverse = inv_map,
               ac_default_comparison = ra_default_comparison cfg,
               ac_allow_stronger = ra_allow_stronger cfg \<rparr>))"

text \<open>The strongest requested level at or below the one received.\<close>

definition safe_fallback :: "accr \<Rightarrow> string list \<Rightarrow> string \<Rightarrow> string option" where
  "safe_fallback ac requested received =
     Option.bind (position (\<lambda>v. v = received) (ac_supported ac)) (\<lambda>i.
       List.find (\<lambda>c. c \<in> set requested) (drop i (ac_supported ac)))"

section \<open>The request path\<close>

definition rewrite_level :: "accr \<Rightarrow> string \<Rightarrow> string" where
  "rewrite_level ac v = unwrap_or v (bm_get (ac_rewrite ac) v)"

text \<open>The range from the strongest level down to the minimum of the virtual IdP.\<close>

definition forwarded :: "accr \<Rightarrow> string option \<Rightarrow> string list \<Rightarrow> string list" where
  "forwarded ac vidp requested =
     (case Option.bind vidp (bm_get (ac_lowest ac)) of
        None \<Rightarrow> map (rewrite_level ac) requested
      | Some minimum \<Rightarrow>
          (case position (\<lambda>s. s = minimum) (ac_supported ac) of
             None \<Rightarrow> map (rewrite_level ac) requested
           | Some i \<Rightarrow> take (i + 1) (ac_supported ac)))"

definition forward_levels :: "accr \<Rightarrow> string list \<Rightarrow> 'w req_context_scheme \<Rightarrow> 'w req_context_scheme" where
  "forward_levels ac levels ctx =
     (if decoration ctx KEY_TARGET_AUTHN_CONTEXT_CLASS_REF = None \<and> levels \<noteq> [] then
        (let comparison = Option.bind (decoration ctx KEY_REQUESTED_ACCR_COMPARISON) as_str;
             ctx' = decorate KEY_TARGET_AUTHN_CONTEXT_CLASS_REF (json_strings levels) ctx
         in case or_else comparison (ac_default_comparison ac) of
              None \<Rightarrow> ctx'
            | Some cmp \<Rightarrow> decorate KEY_TARGET_ACCR_COMPARISON (JString cmp) ctx')
      else ctx)"

definition accr_request :: "accr \<Rightarrow> internal_data \<Rightarrow> ('w, internal_data) handler" where
  "accr_request ac d ctx =
     (let requested = decoration_strings ctx KEY_REQUESTED_ACCR;
          kept = filter (\<lambda>v. v \<in> set (ac_supported ac)) requested
      in if requested \<noteq> [] \<and> kept = [] then
           (Inl (ErrAuthn (''accr '' @ ac_name ac @
              '': none of the requested AuthnContextClassRef values are supported'')), ctx)
         else (Inr d, with_state (set_value (accr_namespace ac) KEY_ACCR_SAVED (json_strings kept))
                (forward_levels ac (forwarded ac (virtual_idp ctx) kept) ctx)))"

section \<open>The response path\<close>

definition saved_levels :: "accr \<Rightarrow> session \<Rightarrow> string list" where
  "saved_levels ac st =
     (case get_value st (accr_namespace ac) KEY_ACCR_SAVED of None \<Rightarrow> [] | Some v \<Rightarrow> strings_of v)"

definition set_class_ref :: "string option \<Rightarrow> internal_data \<Rightarrow> internal_data" where
  "set_class_ref v d = d\<lparr> id_auth_info := (id_auth_info d)\<lparr> ai_class_ref := v \<rparr> \<rparr>"

definition received_level :: "accr \<Rightarrow> string list \<Rightarrow> internal_data \<Rightarrow> string option" where
  "received_level ac requested d =
     (case ai_class_ref (id_auth_info d) of
        None \<Rightarrow> None
      | Some r \<Rightarrow> if requested = [] then Some r else Some (unwrap_or r (bm_get (ac_reverse ac) r)))"

definition accr_response :: "accr \<Rightarrow> internal_data \<Rightarrow> ('w, internal_data) handler" where
  "accr_response ac d ctx =
     (let requested = saved_levels ac (cx_state ctx); received = received_level ac requested d;
          cleared = with_state (clear_namespace (accr_namespace ac)) ctx
      in if requested = [] then (Inr (set_class_ref received d), cleared)
         else if (case received of None \<Rightarrow> False | Some r \<Rightarrow> r \<in> set requested)
         then (Inr (set_class_ref received d), cleared)
         else case Option.bind received (\<lambda>asserted.
                if ac_allow_stronger ac then safe_fallback ac requested asserted else None) of
              Some lev \<Rightarrow> (Inr (set_class_ref (Some lev) d), cleared)
            | None \<Rightarrow> (Inl (ErrAuthn (''accr '' @ ac_name ac @ '': upstream AuthnContextClassRef '' @
                unwrap_or ''<missing>'' received @ '' does not satisfy the SP request'')), ctx))"

definition accr_ms :: "accr \<Rightarrow> 'w micro_service" where
  "accr_ms ac = (ms_default (ac_name ac))\<lparr> ms_request := accr_request ac, ms_response := accr_response ac \<rparr>"

definition accr_build :: "build_context \<Rightarrow> 'w micro_service result" where
  "accr_build bx = bind_result (accr_configure bx) (\<lambda>ac. Inr (accr_ms ac))"

section \<open>The inverse map\<close>

interpretation accr_slot: flow_slot get_value set_value clear_namespace state_wf
    accr_namespace KEY_ACCR_SAVED "\<lambda>n. n = STATE_KEY_BASE"
  by unfold_locales (simp add: accr_namespace_def ACCR_NAMESPACE_PREFIX_def STATE_KEY_BASE_def)

lemma invert_rewrite_get:
  assumes "invert_rewrite name rw = Inr inv_map" "(origin, rewritten) \<in> set rw"
  shows "bm_get inv_map rewritten = Some origin"
proof -
  let ?f = "\<lambda>(origin, rewritten) inv_map. if bm_get inv_map rewritten \<noteq> None then
         Inl (ErrConfig (''accr '' @ name @ '': internal_accr_rewrite_map is not one-to-one; '' @
           ''multiple origins map to '' @ rewritten))
       else Inr (bm_insert rewritten origin inv_map)"
  have keep: "bm_get inv_map x = Some y" if "fold_result ?f es m = Inr inv_map" "bm_wf m" "bm_get m x = Some y" for es m x y
    using that
  proof (induction es arbitrary: m)
    case (Cons e es)
    then show ?case by (cases e) (fastforce simp: bind_result_eq_Inr bm_get_insert split: if_split_asm)
  qed simp
  have "bm_get inv_map rewritten = Some origin"
    if "fold_result ?f es m = Inr inv_map" "bm_wf m" "(origin, rewritten) \<in> set es" for es m
    using that
  proof (induction es arbitrary: m)
    case (Cons e es)
    obtain o' w where e: "e = (o', w)" by (cases e)
    from Cons.prems(1) e have n: "bm_get m w = None" and r: "fold_result ?f es (bm_insert w o' m) = Inr inv_map"
      by (auto split: if_split_asm)
    show ?case
    proof (cases "e = (origin, rewritten)")
      case True
      with e r keep[OF r] Cons.prems(2) show ?thesis by (simp add: bm_get_insert)
    next
      case False
      with Cons.prems(2,3) Cons.IH[OF r] show ?thesis by simp
    qed
  qed simp
  with assms show ?thesis unfolding invert_rewrite_def by auto
qed

lemma invert_rewrite_origin:
  assumes "invert_rewrite name rw = Inr inv_map" "bm_get inv_map x = Some y"
  shows "(y, x) \<in> set rw"
proof -
  let ?I = "\<lambda>m. bm_wf m \<and> (\<forall>x y. bm_get m x = Some y \<longrightarrow> (y, x) \<in> set rw)"
  have "?I inv_map"
  proof (rule fold_result_inv[OF assms(1)[unfolded invert_rewrite_def], where I = ?I])
    fix e m m' assume "e \<in> set rw" "?I m"
      and "(case e of (origin, rewritten) \<Rightarrow> \<lambda>m. if bm_get m rewritten \<noteq> None then
         Inl (ErrConfig (''accr '' @ name @ '': internal_accr_rewrite_map is not one-to-one; '' @
           ''multiple origins map to '' @ rewritten))
       else Inr (bm_insert rewritten origin m)) m = Inr m'"
    moreover obtain origin rewritten where "e = (origin, rewritten)" by (cases e)
    ultimately have "m' = bm_insert rewritten origin m" "(origin, rewritten) \<in> set rw"
      by (simp_all split: if_split_asm)
    with \<open>?I m\<close> show "?I m'" by (simp add: bm_get_insert)
  qed simp
  with assms(2) show ?thesis by blast
qed

lemma accr_configureD:
  assumes "accr_configure bx = Inr ac"
  shows "ac_supported ac \<noteq> []" "\<exists>name. invert_rewrite name (ac_rewrite ac) = Inr (ac_reverse ac)"
    "\<forall>e \<in> set (ac_lowest ac). snd e \<in> set (ac_supported ac)"
  using assms
  by (auto simp: accr_configure_def bind_result_eq_Inr find_None_iff split: if_split_asm option.splits)

lemma safe_fallback_SomeD:
  assumes "safe_fallback ac requested received = Some lev"
  shows "lev \<in> set requested \<and> (\<exists>i j. position (\<lambda>v. v = received) (ac_supported ac) = Some i \<and>
     i \<le> j \<and> j < length (ac_supported ac) \<and> ac_supported ac ! j = lev)"
proof -
  from assms obtain i where i: "position (\<lambda>v. v = received) (ac_supported ac) = Some i"
      "List.find (\<lambda>c. c \<in> set requested) (drop i (ac_supported ac)) = Some lev"
    by (auto simp: safe_fallback_def Option.bind_eq_Some_conv)
  from i(2) obtain k where "k < length (drop i (ac_supported ac))" "lev \<in> set requested"
      "lev = drop i (ac_supported ac) ! k" by (auto simp: find_Some_iff)
  with i(1) show ?thesis by (auto intro!: exI[of _ "i + k"])
qed

text \<open>
  C38. Assurance is never inflated: when the requester asked for levels, an accepted answer
  carries one of them, and that one is what the identity provider asserted or, if the operator
  allows normalization, stands at or below it in the configured order; an answer without a level
  is refused.
\<close>

theorem accr_never_inflates:
  assumes "accr_response ac d c = (Inr d', c')" "saved_levels ac (cx_state c) \<noteq> []"
  shows "\<exists>asserted lev. ai_class_ref (id_auth_info d) = Some asserted \<and>
    ai_class_ref (id_auth_info d') = Some lev \<and> lev \<in> set (saved_levels ac (cx_state c)) \<and>
    (let received = unwrap_or asserted (bm_get (ac_reverse ac) asserted)
     in lev = received \<or>
        ac_allow_stronger ac \<and> (\<exists>i j. position (\<lambda>v. v = received) (ac_supported ac) = Some i \<and> i \<le> j \<and>
          j < length (ac_supported ac) \<and> ac_supported ac ! j = lev))"
proof -
  let ?req = "saved_levels ac (cx_state c)"
  from assms obtain asserted where a: "ai_class_ref (id_auth_info d) = Some asserted"
    by (cases "ai_class_ref (id_auth_info d)") (auto simp: accr_response_def received_level_def Let_def)
  let ?rec = "unwrap_or asserted (bm_get (ac_reverse ac) asserted)"
  have r: "received_level ac ?req d = Some ?rec" using assms(2) a by (simp add: received_level_def)
  show ?thesis
  proof (cases "?rec \<in> set ?req")
    case True
    with assms r a show ?thesis by (auto simp: accr_response_def set_class_ref_def Let_def)
  next
    case False
    with assms r obtain lev where "ac_allow_stronger ac" "safe_fallback ac ?req ?rec = Some lev"
        "d' = set_class_ref (Some lev) d"
      by (auto simp: accr_response_def Let_def split: option.splits if_split_asm)
    with a safe_fallback_SomeD[OF this(2)] show ?thesis by (auto simp: set_class_ref_def Let_def)
  qed
qed

section \<open>Both legs\<close>

lemma saved_after_request:
  assumes "accr_request ac d c = (Inr d', c1)" "state_wf (cx_state c)"
  shows "saved_levels ac (cx_state c1) =
      filter (\<lambda>v. v \<in> set (ac_supported ac)) (decoration_strings c KEY_REQUESTED_ACCR)"
    "d' = d" "state_wf (cx_state c1)"
proof -
  let ?kept = "filter (\<lambda>v. v \<in> set (ac_supported ac)) (decoration_strings c KEY_REQUESTED_ACCR)"
  have f: "cx_state (forward_levels ac xs c) = cx_state c" for xs
    by (simp add: forward_levels_def Let_def split: option.split)
  from assms(1) have c1: "cx_state c1 = set_value (accr_namespace ac) KEY_ACCR_SAVED (json_strings ?kept) (cx_state c)"
      and "d' = d"
    by (auto simp: accr_request_def Let_def with_state_def f split: if_split_asm)
  then show "saved_levels ac (cx_state c1) = ?kept" "d' = d" "state_wf (cx_state c1)"
    using assms(2) accr_slot.saved_loaded[OF assms(2), of ac "json_strings ?kept"]
    by (simp_all add: saved_levels_def)
qed

lemma reverse_rewrite:
  assumes "accr_configure bx = Inr ac"
    and "bm_get (ac_rewrite ac) r \<noteq> None \<or> r \<notin> snd ` set (ac_rewrite ac)"
  shows "unwrap_or (rewrite_level ac r) (bm_get (ac_reverse ac) (rewrite_level ac r)) = r"
proof -
  obtain name where inv: "invert_rewrite name (ac_rewrite ac) = Inr (ac_reverse ac)"
    using accr_configureD(2)[OF assms(1)] by blast
  show ?thesis
  proof (cases "bm_get (ac_rewrite ac) r")
    case (Some w)
    with invert_rewrite_get[OF inv map_of_SomeD[OF Some]] show ?thesis by (simp add: rewrite_level_def)
  next
    case None
    with assms(2) invert_rewrite_origin[OF inv, of r] have "bm_get (ac_reverse ac) r = None"
      by (cases "bm_get (ac_reverse ac) r") force+
    with None show ?thesis by (simp add: rewrite_level_def)
  qed
qed

text \<open>
  The vocabulary rewrite is transparent to the requester: a level it asked for and the proxy
  supports is forwarded in the provider's vocabulary, and the answer that names it there is
  delivered under the name the requester used; the saved request is consumed.
\<close>

theorem accr_rewrite_round_trip:
  assumes built: "accr_configure bx = Inr ac"
    and leg1: "accr_request ac d c = (Inr d', c1)" and wf: "context_wf c"
    and unset: "decoration c KEY_TARGET_AUTHN_CONTEXT_CLASS_REF = None"
    and no_minimum: "Option.bind (virtual_idp c) (bm_get (ac_lowest ac)) = None"
    and asked: "r \<in> set (decoration_strings c KEY_REQUESTED_ACCR)" "r \<in> set (ac_supported ac)"
    and vocabulary: "bm_get (ac_rewrite ac) r \<noteq> None \<or> r \<notin> snd ` set (ac_rewrite ac)"
    and leg2: "cx_state c2 = cx_state c1"
    and answer: "ai_class_ref (id_auth_info a) = Some (rewrite_level ac r)"
  shows "rewrite_level ac r \<in> set (decoration_strings c1 KEY_TARGET_AUTHN_CONTEXT_CLASS_REF) \<and>
    (\<exists>c3. accr_response ac a c2 = (Inr (set_class_ref (Some r) a), c3) \<and> saved_levels ac (cx_state c3) = [])"
proof -
  let ?kept = "filter (\<lambda>v. v \<in> set (ac_supported ac)) (decoration_strings c KEY_REQUESTED_ACCR)"
  have r: "r \<in> set ?kept" using asked by simp
  have swf: "state_wf (cx_state c)" "bm_wf (cx_decorations c)" using wf by (simp_all add: context_wf_def)
  note saved = saved_after_request[OF leg1 swf(1)]
  have fw: "forwarded ac (virtual_idp c) ?kept = map (rewrite_level ac) ?kept"
    using no_minimum by (simp add: forwarded_def)
  have ne: "map (rewrite_level ac) ?kept \<noteq> []" using r by (cases ?kept) auto
  from leg1 have c1: "c1 = with_state (set_value (accr_namespace ac) KEY_ACCR_SAVED (json_strings ?kept))
      (forward_levels ac (map (rewrite_level ac) ?kept) c)"
    by (auto simp: accr_request_def Let_def fw split: if_split_asm)
  have "decoration (forward_levels ac xs c) KEY_TARGET_AUTHN_CONTEXT_CLASS_REF = Some (json_strings xs)"
    if "xs \<noteq> []" for xs
    using that unset swf(2)
    by (auto simp: forward_levels_def Let_def decoration_decorate wf context_wf_decorate key_defs split: option.split)
  from this[OF ne] have "set (decoration_strings c1 KEY_TARGET_AUTHN_CONTEXT_CLASS_REF) = rewrite_level ac ` set ?kept"
    by (simp add: c1 decoration_strings_def decoration_def with_state_def)
  moreover have req: "saved_levels ac (cx_state c2) = ?kept" by (simp add: leg2 saved)
  have "received_level ac ?kept a = Some r"
    using length_pos_if_in_set[OF r] reverse_rewrite[OF built vocabulary]
    by (simp add: received_level_def answer)
  then have resp: "accr_response ac a c2 = (Inr (set_class_ref (Some r) a),
      with_state (clear_namespace (accr_namespace ac)) c2)"
    using r asked by (auto simp: accr_response_def req Let_def)
  moreover have "saved_levels ac (clear_namespace (accr_namespace ac) (cx_state c2)) = []"
    using accr_slot.consumed_once saved(3) leg2 by (simp add: saved_levels_def)
  ultimately show ?thesis using r by (auto simp: with_state_def)
qed

section \<open>Witnesses\<close>

text \<open>Two levels, the stronger one rewritten for the upstream provider, with normalization.\<close>

definition toy_accr_cfg :: json where
  "toy_accr_cfg = JObject [(''supported_accr_sorted_by_prio'', JArray [JString ''mfa'', JString ''pwd'']),
     (''internal_accr_rewrite_map'', JObject [(''mfa'', JString ''loa3'')]),
     (''allow_stronger_accr_fallback'', JBool True)]"

definition toy_accr :: accr where
  "toy_accr = \<lparr> ac_name = ''svc'', ac_supported = [''mfa'', ''pwd''], ac_lowest = [],
     ac_rewrite = [(''mfa'', ''loa3'')], ac_reverse = [(''loa3'', ''mfa'')],
     ac_default_comparison = None, ac_allow_stronger = True \<rparr>"

definition toy_asked :: "string \<Rightarrow> int req_context_scheme" where
  "toy_asked v = decorate KEY_REQUESTED_ACCR (json_strings [v]) toy_ctx"

definition toy_forwarded :: "string \<Rightarrow> int req_context_scheme" where
  "toy_forwarded v = snd (accr_request toy_accr toy_login (toy_asked v))"

definition toy_asserted :: internal_data where
  "toy_asserted = set_class_ref (Some ''loa3'') toy_answer"

lemma toy_accr_steps:
  "accr_configure (toy_build toy_accr_cfg) = Inr toy_accr"
  "accr_request toy_accr toy_login (toy_asked ''mfa'') = (Inr toy_login, toy_forwarded ''mfa'')"
  "accr_response toy_accr toy_asserted (toy_forwarded ''pwd'') =
     (Inr (set_class_ref (Some ''pwd'') toy_answer), snd (accr_response toy_accr toy_asserted (toy_forwarded ''pwd'')))"
  "saved_levels toy_accr (cx_state (toy_forwarded ''pwd'')) = [''pwd'']"
  "decoration (toy_asked ''mfa'') KEY_TARGET_AUTHN_CONTEXT_CLASS_REF = None"
  "Option.bind (virtual_idp (toy_asked ''mfa'')) (bm_get (ac_lowest toy_accr)) = None"
  "decoration_strings (toy_asked ''mfa'') KEY_REQUESTED_ACCR = [''mfa'']"
  "rewrite_level toy_accr ''mfa'' = ''loa3''"
  by code_simp+

theorem accr_never_inflates_witness:
  "\<exists>lev. ai_class_ref (id_auth_info (set_class_ref (Some ''pwd'') toy_answer)) = Some lev \<and> lev \<in> set [''pwd'']"
  using accr_never_inflates[OF toy_accr_steps(3)] unfolding toy_accr_steps(4) by blast

theorem accr_rewrite_round_trip_witness:
  "\<exists>c3. accr_response toy_accr toy_asserted (toy_forwarded ''mfa'') =
     (Inr (set_class_ref (Some ''mfa'') toy_asserted), c3)"
proof -
  have "context_wf (toy_asked ''mfa'')" by (simp add: toy_asked_def toy_ctx_def)
  moreover have "ai_class_ref (id_auth_info toy_asserted) = Some (rewrite_level toy_accr ''mfa'')"
    by (simp add: toy_asserted_def set_class_ref_def toy_accr_steps)
  ultimately show ?thesis
    using accr_rewrite_round_trip[OF toy_accr_steps(1,2) _ toy_accr_steps(5,6), of "''mfa''" "toy_forwarded ''mfa''" toy_asserted]
    by (auto simp: toy_accr_steps(7)) (auto simp: toy_accr_def)
qed

end
