(* ===== verification/Routing_Services.thy ===== *)
theory Routing_Services
  imports Release_Services
begin

text \<open>
  The request services of \<open>routing.rs\<close>: \<open>custom_routing\<close> selects the backend by the target
  issuer and the requester, \<open>idp_hinting\<close> lifts an identity provider hint of the query into the
  target-entity decoration.  Shown: the backend is decided by the rules of the configuration, and a
  hint selects one only for the requesters its rule lists.
\<close>

section \<open>custom\_routing\<close>

record routing_rule =
  rr_requester :: string
  rr_backend :: string

record issuer_rule =
  ir_issuer :: string
  ir_requesters :: "string list"
  ir_backend :: string

record raw_routing =
  rw_rules :: "routing_rule list"
  rw_issuer_rules :: "issuer_rule list"
  rw_default :: "string option"

definition dec_routing_rule :: "json \<Rightarrow> routing_rule option" where
  "dec_routing_rule v = do {
     m \<leftarrow> as_object v;
     r \<leftarrow> dec_required as_str ''requester'' m;
     b \<leftarrow> dec_required as_str ''backend'' m;
     Some \<lparr> rr_requester = r, rr_backend = b \<rparr> }"

definition dec_issuer_rule :: "json \<Rightarrow> issuer_rule option" where
  "dec_issuer_rule v = do {
     m \<leftarrow> as_object v;
     i \<leftarrow> dec_required as_str ''issuer'' m;
     r \<leftarrow> dec_required dec_strings ''requesters'' m;
     b \<leftarrow> dec_required as_str ''backend'' m;
     Some \<lparr> ir_issuer = i, ir_requesters = r, ir_backend = b \<rparr> }"

definition dec_routing :: "json \<Rightarrow> raw_routing option" where
  "dec_routing v = do {
     m \<leftarrow> as_object v;
     rs \<leftarrow> dec_default (dec_list dec_routing_rule) [] ''rule'' m;
     irs \<leftarrow> dec_default (dec_list dec_issuer_rule) [] ''issuer_rule'' m;
     d \<leftarrow> dec_default dec_opt_str None ''default_backend'' m;
     Some \<lparr> rw_rules = rs, rw_issuer_rules = irs, rw_default = d \<rparr> }"

text \<open>The keys of the issuer rules are pairs of issuer and requester.\<close>

record routing =
  ru_name :: string
  ru_rules :: "string smap"
  ru_issuer_rules :: "((string \<times> string) \<times> string) list"
  ru_default :: "string option"

definition add_issuer_pair ::
    "string \<Rightarrow> issuer_rule \<Rightarrow> string \<Rightarrow> ((string \<times> string) \<times> string) list \<Rightarrow> ((string \<times> string) \<times> string) list result" where
  "add_issuer_pair name rule who m =
     (if map_of m (ir_issuer rule, who) = None then Inr (((ir_issuer rule, who), ir_backend rule) # m)
      else Inl (ErrConfig (''custom_routing '' @ name @ '': duplicate issuer_rule for issuer '' @
             ir_issuer rule @ '' and requester '' @ who)))"

definition add_issuer_rule ::
    "string \<Rightarrow> issuer_rule \<Rightarrow> ((string \<times> string) \<times> string) list \<Rightarrow> ((string \<times> string) \<times> string) list result" where
  "add_issuer_rule name rule m =
     (if ir_requesters rule = [] then
        Inl (ErrConfig (''custom_routing '' @ name @ '': issuer_rule for '' @ ir_issuer rule @
          '' must list authorized requesters''))
      else fold_result (add_issuer_pair name rule) (ir_requesters rule) m)"

definition routing_configure :: "build_context \<Rightarrow> routing result" where
  "routing_configure bx =
     bind_result (parse_config dec_routing bx) (\<lambda>cfg.
     bind_result (fold_result (add_issuer_rule (bx_name bx)) (rw_issuer_rules cfg) []) (\<lambda>pairs.
       Inr \<lparr> ru_name = bx_name bx,
             ru_rules = bm_of_list (map (\<lambda>r. (rr_requester r, rr_backend r)) (rw_rules cfg)),
             ru_issuer_rules = pairs, ru_default = rw_default cfg \<rparr>))"

definition routing_request :: "routing \<Rightarrow> internal_data \<Rightarrow> ('w, internal_data) handler" where
  "routing_request ru d ctx =
     (let issuer = Option.bind (decoration ctx KEY_TARGET_ENTITYID) as_str;
          by_issuer = Option.bind issuer (\<lambda>i. Option.bind (id_requester d) (\<lambda>r. map_of (ru_issuer_rules ru) (i, r)));
          by_requester = Option.bind (id_requester d) (bm_get (ru_rules ru))
      in case or_else by_issuer by_requester of
           Some backend \<Rightarrow> (Inr d, ctx\<lparr> cx_target_backend := Some backend \<rparr>)
         | None \<Rightarrow>
             if (id_requester d \<noteq> None \<or> issuer \<noteq> None) \<and> ru_default ru \<noteq> None
             then (Inr d, ctx\<lparr> cx_target_backend := ru_default ru \<rparr>)
             else (Inr d, ctx))"

definition routing_build :: "build_context \<Rightarrow> 'w micro_service result" where
  "routing_build bx = bind_result (routing_configure bx) (\<lambda>ru.
     Inr (request_service (ru_name ru) (routing_request ru)))"

section \<open>idp\_hinting\<close>

definition dec_hinting :: "json \<Rightarrow> string list option" where
  "dec_hinting v = Option.bind (as_object v) (dec_required dec_strings ''allowed_params'')"

definition hinting_request :: "string list \<Rightarrow> internal_data \<Rightarrow> ('w, internal_data) handler" where
  "hinting_request params d ctx =
     (if decoration ctx KEY_TARGET_ENTITYID \<noteq> None then (Inr d, ctx)
      else case opt_filter (\<lambda>v. v \<noteq> []) (find_map (bm_get (rq_query (cx_request ctx))) params) of
             None \<Rightarrow> (Inr d, ctx)
           | Some hint \<Rightarrow> (Inr d, decorate KEY_TARGET_ENTITYID (JString hint) ctx))"

definition hinting_build :: "build_context \<Rightarrow> 'w micro_service result" where
  "hinting_build bx = bind_result (parse_config dec_hinting bx) (\<lambda>params.
     if params = [] then Inl (ErrConfig (''idp_hinting '' @ bx_name bx @ '': allowed_params must not be empty''))
     else Inr (request_service (bx_name bx) (hinting_request params)))"

section \<open>The issuer pairs\<close>

text \<open>The pairs of a configuration, in order, and the rule that owns each.\<close>

definition issuer_pairs :: "issuer_rule list \<Rightarrow> ((string \<times> string) \<times> string) list" where
  "issuer_pairs rules = concat (map (\<lambda>r. map (\<lambda>who. ((ir_issuer r, who), ir_backend r)) (ir_requesters r)) rules)"

lemma add_issuer_pair_Inr:
  "add_issuer_pair name rule who m = Inr m' \<longleftrightarrow>
     map_of m (ir_issuer rule, who) = None \<and> m' = ((ir_issuer rule, who), ir_backend rule) # m"
  by (auto simp: add_issuer_pair_def)

lemma add_issuer_rule_Inr:
  "add_issuer_rule name rule m = Inr m' \<longleftrightarrow>
     ir_requesters rule \<noteq> [] \<and> fold_result (add_issuer_pair name rule) (ir_requesters rule) m = Inr m'"
  by (auto simp: add_issuer_rule_def)

lemma add_pairs:
  assumes "fold_result (add_issuer_pair name rule) whos m = Inr m'" "distinct (map fst m)"
  shows "distinct (map fst m') \<and> set m' = set m \<union> (\<lambda>who. ((ir_issuer rule, who), ir_backend rule)) ` set whos"
  using assms
proof (induction whos arbitrary: m)
  case (Cons who whos)
  from Cons.prems(1) have fresh: "map_of m (ir_issuer rule, who) = None"
      and r: "fold_result (add_issuer_pair name rule) whos (((ir_issuer rule, who), ir_backend rule) # m) = Inr m'"
    by (auto simp: bind_result_eq_Inr add_issuer_pair_Inr)
  from fresh have "(ir_issuer rule, who) \<notin> fst ` set m" by (simp add: map_of_eq_None_iff)
  with Cons.IH[OF r] Cons.prems(2) show ?case by auto
qed simp

lemma add_rules:
  assumes "fold_result (add_issuer_rule name) rules m = Inr m'" "distinct (map fst m)"
  shows "distinct (map fst m') \<and> set m' = set m \<union> set (issuer_pairs rules) \<and>
    (\<forall>r \<in> set rules. ir_requesters r \<noteq> [])"
  using assms
proof (induction rules arbitrary: m)
  case (Cons r rules)
  then obtain m1 where m1: "ir_requesters r \<noteq> []" "fold_result (add_issuer_pair name r) (ir_requesters r) m = Inr m1"
      "fold_result (add_issuer_rule name) rules m1 = Inr m'"
    by (auto simp: bind_result_eq_Inr add_issuer_rule_Inr)
  from add_pairs[OF m1(2) Cons.prems(2)] Cons.IH[OF m1(3)] m1(1) show ?case
    by (auto simp: issuer_pairs_def)
qed (simp add: issuer_pairs_def)

lemma routing_configureD:
  assumes "routing_configure bx = Inr ru"
  shows "\<exists>cfg. dec_routing (bx_config bx) = Some cfg \<and> ru_default ru = rw_default cfg \<and>
    ru_rules ru = bm_of_list (map (\<lambda>r. (rr_requester r, rr_backend r)) (rw_rules cfg)) \<and>
    distinct (map fst (ru_issuer_rules ru)) \<and> set (ru_issuer_rules ru) = set (issuer_pairs (rw_issuer_rules cfg))"
proof -
  from assms obtain cfg pairs where h: "dec_routing (bx_config bx) = Some cfg"
      "fold_result (add_issuer_rule (bx_name bx)) (rw_issuer_rules cfg) [] = Inr pairs"
      "ru = \<lparr> ru_name = bx_name bx,
             ru_rules = bm_of_list (map (\<lambda>r. (rr_requester r, rr_backend r)) (rw_rules cfg)),
             ru_issuer_rules = pairs, ru_default = rw_default cfg \<rparr>"
    by (auto simp: routing_configure_def parse_config_def bind_result_eq_Inr)
  from add_rules[OF h(2)] h(1,3) show ?thesis by auto
qed

text \<open>
  The backend of a request is decided by the configuration: a rule for the target issuer that
  lists the requester, else the last rule for the requester, else the default when there is a
  requester or a target at all, else what was selected before; so a hint one relying party sends
  cannot reach a backend that only another party's rule selects.
\<close>

theorem routing_decision:
  assumes "routing_configure bx = Inr ru" "dec_routing (bx_config bx) = Some cfg"
    and "id_requester d = Some who" "decoration c KEY_TARGET_ENTITYID = Some (JString issuer)"
  shows "\<exists>c'. routing_request ru d c = (Inr d, c') \<and> c' = c\<lparr> cx_target_backend := cx_target_backend c' \<rparr> \<and>
    (if \<exists>rule \<in> set (rw_issuer_rules cfg). ir_issuer rule = issuer \<and> who \<in> set (ir_requesters rule)
     then \<exists>rule \<in> set (rw_issuer_rules cfg). ir_issuer rule = issuer \<and> who \<in> set (ir_requesters rule) \<and>
       cx_target_backend c' = Some (ir_backend rule)
     else cx_target_backend c' =
       or_else (map_of (rev (map (\<lambda>r. (rr_requester r, rr_backend r)) (rw_rules cfg))) who)
         (or_else (rw_default cfg) (cx_target_backend c)))"
proof -
  from routing_configureD[OF assms(1)] assms(2) have h: "ru_default ru = rw_default cfg"
      "bm_get (ru_rules ru) who = map_of (rev (map (\<lambda>r. (rr_requester r, rr_backend r)) (rw_rules cfg))) who"
      "distinct (map fst (ru_issuer_rules ru))" "set (ru_issuer_rules ru) = set (issuer_pairs (rw_issuer_rules cfg))"
    by (auto simp: bm_get_of_list)
  have pair: "(\<exists>b. ((issuer, who), b) \<in> set (ru_issuer_rules ru)) \<longleftrightarrow>
      (\<exists>rule \<in> set (rw_issuer_rules cfg). ir_issuer rule = issuer \<and> who \<in> set (ir_requesters rule))"
    and owner: "((issuer, who), b) \<in> set (ru_issuer_rules ru) \<Longrightarrow>
      \<exists>rule \<in> set (rw_issuer_rules cfg). ir_issuer rule = issuer \<and> who \<in> set (ir_requesters rule) \<and> b = ir_backend rule"
    for b by (auto simp: h(4) issuer_pairs_def)
  have rest: "map_of (ru_issuer_rules ru) (issuer, who) = None \<longleftrightarrow>
      \<not> (\<exists>rule \<in> set (rw_issuer_rules cfg). ir_issuer rule = issuer \<and> who \<in> set (ir_requesters rule))"
    unfolding pair[symmetric] by (auto simp: map_of_eq_None_iff image_iff)
  show ?thesis
  proof (cases "map_of (ru_issuer_rules ru) (issuer, who)")
    case (Some b)
    with owner[OF map_of_SomeD[OF Some]] rest assms(3,4) show ?thesis
      by (auto simp: routing_request_def Let_def)
  next
    case None
    with rest have n: "\<not> (\<exists>rule \<in> set (rw_issuer_rules cfg). ir_issuer rule = issuer \<and> who \<in> set (ir_requesters rule))" by simp
    have "snd (routing_request ru d c) = c\<lparr> cx_target_backend := or_else (bm_get (ru_rules ru) who)
        (or_else (rw_default cfg) (cx_target_backend c)) \<rparr>" "fst (routing_request ru d c) = Inr d"
      using None assms(3,4) h(1)
      by (auto simp: routing_request_def Let_def or_else_def split: option.split)
    then show ?thesis unfolding if_not_P[OF n] h(2)[symmetric]
      by (intro exI[of _ "snd (routing_request ru d c)"]) (simp add: prod_eq_iff)
  qed
qed

text \<open>An explicit target, for instance one discovery chose, is not overridden by a hint.\<close>

lemma hint_keeps_target:
  "decoration c KEY_TARGET_ENTITYID = Some v \<Longrightarrow> hinting_request params d c = (Inr d, c)"
  by (simp add: hinting_request_def)

section \<open>Witness\<close>

definition toy_routing_cfg :: json where
  "toy_routing_cfg = JObject [(''rule'', JArray [JObject [(''requester'', JString ''rp''), (''backend'', JString ''b1'')]]),
     (''issuer_rule'', JArray [JObject [(''issuer'', JString ''idp''), (''requesters'', JArray [JString ''other'']),
        (''backend'', JString ''b2'')]])]"

definition toy_routing :: routing where
  "toy_routing = \<lparr> ru_name = ''svc'', ru_rules = [(''rp'', ''b1'')],
     ru_issuer_rules = [((''idp'', ''other''), ''b2'')], ru_default = None \<rparr>"

theorem routing_decision_witness:
  "\<exists>c'. routing_request toy_routing toy_login (decorate KEY_TARGET_ENTITYID (JString ''idp'') toy_ctx) =
     (Inr toy_login, c') \<and> cx_target_backend c' = Some ''b1''"
proof -
  let ?cfg = "\<lparr> rw_rules = [\<lparr> rr_requester = ''rp'', rr_backend = ''b1'' \<rparr>],
    rw_issuer_rules = [\<lparr> ir_issuer = ''idp'', ir_requesters = [''other''], ir_backend = ''b2'' \<rparr>], rw_default = None \<rparr>"
  let ?c = "decorate KEY_TARGET_ENTITYID (JString ''idp'') toy_ctx"
  have s: "routing_configure (toy_build toy_routing_cfg) = Inr toy_routing"
    "dec_routing (bx_config (toy_build toy_routing_cfg)) = Some ?cfg"
    "id_requester toy_login = Some ''rp''" "decoration ?c KEY_TARGET_ENTITYID = Some (JString ''idp'')"
    by code_simp+
  from routing_decision[OF s] show ?thesis by auto
qed

end
