(* ===== verification/Shaping_Services.thy ===== *)
theory Shaping_Services
  imports Identifier_Services
begin

text \<open>
  The response services that compute attribute values: \<open>attribute_processor\<close>
  (\<open>processor.rs\<close>), \<open>attribute_generation\<close> (\<open>generation.rs\<close>),
  \<open>static_attributes_for_virtual_idp\<close> (\<open>static_virtual_idp.rs\<close>), and the audit log
  \<open>custom_logging\<close> (\<open>logging.rs\<close>), which reads them.  The template engine and the files of the
  operating system are parameters.  Shown: what a processor chain does to each attribute, that no
  chain that was built hashes without a salt, which values the static recipes give, and that
  logging changes neither the data nor the outcome of a flow.
\<close>

section \<open>Processors\<close>

record processor_spec =
  ps_name :: string
  ps_match_pattern :: "string option"
  ps_replace_pattern :: "string option"
  ps_hash_algo :: "string option"
  ps_allow_legacy_md5 :: bool
  ps_salt :: "string option"
  ps_scope :: "string option"
  ps_mapped_attribute :: "string option"

record process_rule =
  pr_attribute :: string
  pr_processors :: "processor_spec list"

definition dec_processor_spec :: "json \<Rightarrow> processor_spec option" where
  "dec_processor_spec v = do {
     m \<leftarrow> as_object v;
     n \<leftarrow> dec_required as_str ''name'' m;
     mp \<leftarrow> dec_default dec_opt_str None ''match_pattern'' m;
     rp \<leftarrow> dec_default dec_opt_str None ''replace_pattern'' m;
     ha \<leftarrow> dec_default dec_opt_str None ''hash_algo'' m;
     md \<leftarrow> dec_default as_bool False ''allow_legacy_md5'' m;
     sa \<leftarrow> dec_default dec_opt_str None ''salt'' m;
     sc \<leftarrow> dec_default dec_opt_str None ''scope'' m;
     ma \<leftarrow> dec_default dec_opt_str None ''mapped_attribute'' m;
     Some \<lparr> ps_name = n, ps_match_pattern = mp, ps_replace_pattern = rp, ps_hash_algo = ha,
            ps_allow_legacy_md5 = md, ps_salt = sa, ps_scope = sc, ps_mapped_attribute = ma \<rparr> }"

definition dec_process_rule :: "json \<Rightarrow> process_rule option" where
  "dec_process_rule v = do {
     m \<leftarrow> as_object v;
     a \<leftarrow> dec_required as_str ''attribute'' m;
     ps \<leftarrow> dec_required (dec_list dec_processor_spec) ''processors'' m;
     Some \<lparr> pr_attribute = a, pr_processors = ps \<rparr> }"

definition dec_processor :: "json \<Rightarrow> process_rule list option" where
  "dec_processor v = Option.bind (as_object v) (dec_default (dec_list dec_process_rule) [] ''process'')"

definition parse_hash_algo :: "string \<Rightarrow> string \<Rightarrow> bool \<Rightarrow> hash_alg result" where
  "parse_hash_algo s name allow_legacy_md5 =
     (if s = ''md5'' then
        (if allow_legacy_md5 then Inr Md5
         else Inl (ErrConfig (''attribute_processor '' @ name @ '': hash_algo=md5 requires allow_legacy_md5 = true'')))
      else if s = ''sha256'' then Inr Sha256
      else if s = ''sha512'' then Inr Sha512
      else Inl (ErrConfig (''attribute_processor '' @ name @ '': unsupported hash_algo: '' @ s)))"

definition digest :: "hash_lib \<Rightarrow> hash_alg \<Rightarrow> string \<Rightarrow> string \<Rightarrow> string" where
  "digest hs algo v salt =
     (case algo of Md5 \<Rightarrow> hex (hs_md5 hs (v @ salt)) | Sha256 \<Rightarrow> hex (hs_sha256 hs (v @ salt))
      | Sha512 \<Rightarrow> hex (hs_sha512 hs (v @ salt)))"

text \<open>A compiled regex is represented by its pattern.\<close>

datatype processor =
    RegexSub string string
  | Hash hash_alg string
  | Scope string
  | ScopeExtractor string
  | ScopeRemover
  | Gender

definition gender_to_schac :: "string \<Rightarrow> nat" where
  "gender_to_schac v =
     (if v = [] then 9
      else let u = map (\<lambda>c. if c = CHR '' '' then CHR ''_'' else c) (to_ascii_uppercase v)
        in if u = ''MALE'' then 1 else if u = ''FEMALE'' then 2 else if u = ''NOT_SPECIFIED'' then 9 else 0)"

definition apply_processor :: "hash_lib \<Rightarrow> regex_lib \<Rightarrow> processor \<Rightarrow> string \<Rightarrow> attrs \<Rightarrow> attrs" where
  "apply_processor hs rx p attribute m =
     (case p of
        RegexSub regex repl \<Rightarrow> bm_update attribute (map (rx_replace_all rx regex repl)) m
      | Hash algo salt \<Rightarrow> bm_update attribute (map (\<lambda>v. digest hs algo v salt)) m
      | Scope scope \<Rightarrow> bm_update attribute (map (\<lambda>v. v @ ''@'' @ scope)) m
      | ScopeExtractor mapped \<Rightarrow>
          (case find_map (\<lambda>v. map_option snd (split_once CHR ''@'' v)) (unwrap_or [] (bm_get m attribute)) of
             None \<Rightarrow> m | Some scope \<Rightarrow> bm_insert mapped [scope] m)
      | ScopeRemover \<Rightarrow>
          bm_update attribute (map (\<lambda>v. case split_once CHR ''@'' v of None \<Rightarrow> v | Some (l, _) \<Rightarrow> l)) m
      | Gender \<Rightarrow> bm_update attribute (map (\<lambda>v. show_nat (gender_to_schac v))) m)"

record compiled_rule =
  cr_attribute :: string
  cr_processors :: "processor list"

text \<open>\<open>\1\<close> becomes \<open>${1}\<close>.\<close>

function convert_backrefs :: "string \<Rightarrow> string" where
  "convert_backrefs [] = []"
| "convert_backrefs (c # s) =
     (if byte c = 92 \<and> s \<noteq> [] \<and> is_ascii_digit (hd s)
      then ''${'' @ takeWhile is_ascii_digit s @ ''}'' @ convert_backrefs (dropWhile is_ascii_digit s)
      else c # convert_backrefs s)"
  by pat_completeness auto
termination
  by (relation "measure length") (auto simp: le_imp_less_Suc length_dropWhile_le)

definition required_field :: "string option \<Rightarrow> string \<Rightarrow> string \<Rightarrow> string \<Rightarrow> string result" where
  "required_field field name processor field_name =
     ok_or (opt_filter (\<lambda>v. v \<noteq> []) field)
       (ErrConfig (''attribute_processor '' @ name @ '': '' @ processor @ '' needs '' @ field_name))"

definition compile_processor :: "regex_lib \<Rightarrow> string \<Rightarrow> processor_spec \<Rightarrow> processor result" where
  "compile_processor rx name ps =
     (if ps_name ps = ''regex_sub'' then
        bind_result (required_field (ps_match_pattern ps) name ''regex_sub'' ''match_pattern'') (\<lambda>pattern.
        if \<not> rx_compiles rx pattern then Inl (ErrConfig (''attribute_processor '' @ name @ '': bad match_pattern: ''))
        else bind_result (required_field (ps_replace_pattern ps) name ''regex_sub'' ''replace_pattern'') (\<lambda>r.
          Inr (RegexSub pattern (convert_backrefs r))))
      else if ps_name ps = ''hash'' then
        bind_result (parse_hash_algo (unwrap_or ''sha256'' (ps_hash_algo ps)) name (ps_allow_legacy_md5 ps)) (\<lambda>algo.
        bind_result (required_field (ps_salt ps) name ''hash'' ''salt'') (\<lambda>salt. Inr (Hash algo salt)))
      else if ps_name ps = ''scope'' then
        bind_result (required_field (ps_scope ps) name ''scope'' ''scope'') (\<lambda>s. Inr (Scope s))
      else if ps_name ps = ''scope_extractor'' then
        bind_result (required_field (ps_mapped_attribute ps) name ''scope_extractor'' ''mapped_attribute'')
          (\<lambda>a. Inr (ScopeExtractor a))
      else if ps_name ps = ''scope_remover'' then Inr ScopeRemover
      else if ps_name ps = ''gender'' then Inr Gender
      else Inl (ErrConfig (''attribute_processor '' @ name @ '': unknown processor: '' @ ps_name ps)))"

definition processor_configure :: "regex_lib \<Rightarrow> build_context \<Rightarrow> compiled_rule list result" where
  "processor_configure rx bx =
     bind_result (parse_config dec_processor bx) (traverse (\<lambda>rule.
       bind_result (traverse (compile_processor rx (bx_name bx)) (pr_processors rule)) (\<lambda>ps.
         Inr \<lparr> cr_attribute = pr_attribute rule, cr_processors = ps \<rparr>)))"

definition processor_response ::
    "hash_lib \<Rightarrow> regex_lib \<Rightarrow> compiled_rule list \<Rightarrow> 'w req_context_scheme \<Rightarrow> internal_data \<Rightarrow> internal_data result" where
  "processor_response hs rx rules ctx d =
     Inr (d\<lparr> id_attributes := foldl (\<lambda>m rule.
       foldl (\<lambda>m p. apply_processor hs rx p (cr_attribute rule) m) m (cr_processors rule)) (id_attributes d) rules \<rparr>)"

definition processor_build :: "hash_lib \<Rightarrow> regex_lib \<Rightarrow> build_context \<Rightarrow> 'w micro_service result" where
  "processor_build hs rx bx = bind_result (processor_configure rx bx) (\<lambda>rules.
     Inr (attribute_ms (bx_name bx) (processor_response hs rx rules)))"

text \<open>What a processor does to one value; the extractor leaves its source alone.\<close>

definition processor_value :: "hash_lib \<Rightarrow> regex_lib \<Rightarrow> processor \<Rightarrow> string \<Rightarrow> string" where
  "processor_value hs rx p v =
     (case p of
        RegexSub regex repl \<Rightarrow> rx_replace_all rx regex repl v
      | Hash algo salt \<Rightarrow> digest hs algo v salt
      | Scope scope \<Rightarrow> v @ ''@'' @ scope
      | ScopeExtractor _ \<Rightarrow> v
      | ScopeRemover \<Rightarrow> (case split_once CHR ''@'' v of None \<Rightarrow> v | Some (l, _) \<Rightarrow> l)
      | Gender \<Rightarrow> show_nat (gender_to_schac v))"

lemma map_same [simp]: "map_option (map (\<lambda>v. v)) x = x" "map_option (\<lambda>xs. xs) x = x"
  by (cases x; simp)+

lemma processor_value_fun:
  "processor_value hs rx (RegexSub regex repl) = rx_replace_all rx regex repl"
  "processor_value hs rx (Hash algo salt) = (\<lambda>v. digest hs algo v salt)"
  "processor_value hs rx (Scope scope) = (\<lambda>v. v @ ''@'' @ scope)"
  "processor_value hs rx (ScopeExtractor a) = (\<lambda>v. v)"
  "processor_value hs rx ScopeRemover = (\<lambda>v. case split_once CHR ''@'' v of None \<Rightarrow> v | Some (l, _) \<Rightarrow> l)"
  "processor_value hs rx Gender = (\<lambda>v. show_nat (gender_to_schac v))"
  by (simp_all add: processor_value_def fun_eq_iff)

lemma bm_wf_apply_processor [simp]: "bm_wf m \<Longrightarrow> bm_wf (apply_processor hs rx p a m)"
  by (cases p) (auto simp: apply_processor_def split: option.split)

lemma apply_processor_get:
  assumes "bm_wf m" "p \<noteq> ScopeExtractor attr"
  shows "bm_get (apply_processor hs rx p a m) attr =
    (if a = attr then map_option (map (processor_value hs rx p)) (bm_get m attr) else bm_get m attr)"
  using assms by (cases p) (auto simp: apply_processor_def processor_value_fun bm_get_update bm_get_insert split: option.split)

interpretation processor: attribute_service "processor_response hs rx" for hs rx
  by unfold_locales (auto simp: processor_response_def intro!: bm_wf_foldl)

lemma chain_get:
  assumes "bm_wf m" "\<forall>p \<in> set ps. p \<noteq> ScopeExtractor attr"
  shows "bm_get (foldl (\<lambda>m p. apply_processor hs rx p a m) m ps) attr =
    (if a = attr then map_option (map (fold (processor_value hs rx) ps)) (bm_get m attr) else bm_get m attr)"
  using assms
proof (induction ps arbitrary: m)
  case (Cons p ps)
  then show ?case
    by (auto simp: apply_processor_get option.map_comp comp_def)
qed (simp add: id_def)

text \<open>
  What the processors do to an attribute that no extractor writes: its values are mapped, in
  order, by the composition of the processors of the rules for it, and an attribute without a rule
  keeps its values.
\<close>

theorem processor_maps_values:
  assumes "bm_wf (id_attributes d)" "\<forall>rule \<in> set rules. ScopeExtractor attr \<notin> set (cr_processors rule)"
  shows "\<exists>d'. processor_response hs rx rules ctx d = Inr d' \<and>
    bm_get (id_attributes d') attr =
      map_option (map (fold (processor_value hs rx)
        (concat (map cr_processors (filter (\<lambda>rule. cr_attribute rule = attr) rules))))) (bm_get (id_attributes d) attr)"
proof -
  let ?step = "\<lambda>m rule. foldl (\<lambda>m p. apply_processor hs rx p (cr_attribute rule) m) m (cr_processors rule)"
  have "bm_get (foldl ?step m rules) attr = map_option (map (fold (processor_value hs rx)
        (concat (map cr_processors (filter (\<lambda>rule. cr_attribute rule = attr) rules))))) (bm_get m attr)"
    if "bm_wf m" for m
    using that assms(2)
  proof (induction rules arbitrary: m)
    case (Cons rule rules)
    have e: "bm_get (?step m rule) attr = (if cr_attribute rule = attr
        then map_option (map (fold (processor_value hs rx) (cr_processors rule))) (bm_get m attr) else bm_get m attr)"
      using Cons.prems by (intro chain_get) auto
    have "bm_wf (?step m rule)" using Cons.prems(1) by (intro bm_wf_foldl) auto
    with Cons e show ?case by (auto simp: option.map_comp comp_def)
  qed (simp add: id_def)
  from this[OF assms(1)] show ?thesis by (simp add: processor_response_def)
qed

lemma required_field_Inr: "required_field f n p x = Inr v \<longleftrightarrow> f = Some v \<and> v \<noteq> []"
  by (auto simp: required_field_def opt_filter_def split: option.splits)

lemma compile_processor_hash:
  assumes "compile_processor rx name ps = Inr (Hash algo salt)"
  shows "salt \<noteq> [] \<and> (algo = Md5 \<longrightarrow> ps_allow_legacy_md5 ps)"
  using assms
  by (auto simp: compile_processor_def bind_result_eq_Inr required_field_Inr parse_hash_algo_def split: if_split_asm)

text \<open>A scope that is added can be removed again.\<close>

lemma scope_then_remove: "CHR ''@'' \<notin> set v \<Longrightarrow> fold (processor_value hs rx) [Scope s, ScopeRemover] v = v"
  by (simp add: processor_value_def split_once_append)

section \<open>Generated attributes\<close>

text \<open>The template engine: adding a template may fail, rendering one may fail.\<close>

record 't tera_lib =
  te_empty :: 't
  te_add :: "string \<Rightarrow> string \<Rightarrow> 't \<Rightarrow> 't option"
  te_render :: "'t \<Rightarrow> string \<Rightarrow> json smap \<Rightarrow> string option"

type_synonym recipes = "string smap smap smap"

record 't generation =
  ge_name :: string
  ge_tera :: 't
  ge_recipes :: recipes

text \<open>Registering every template under its running number.\<close>

fun add_templates ::
    "'t tera_lib \<Rightarrow> string \<Rightarrow> string smap \<Rightarrow> nat \<times> 't \<Rightarrow> (string smap \<times> nat \<times> 't) result" where
  "add_templates te name [] s = Inr ([], s)"
| "add_templates te name ((attr, template) # m) (counter, t) =
     bind_result (ok_or (te_add te (''syn_'' @ show_nat counter) template t)
         (ErrConfig (''attribute_generation '' @ name @ '': bad template for '' @ attr @ '': ''))) (\<lambda>t'.
     bind_result (add_templates te name m (counter + 1, t')) (\<lambda>(ids, s).
       Inr ((attr, ''syn_'' @ show_nat counter) # ids, s)))"

fun add_all :: "('a \<Rightarrow> 's \<Rightarrow> ('b \<times> 's) result) \<Rightarrow> 'a smap \<Rightarrow> 's \<Rightarrow> ('b smap \<times> 's) result" where
  "add_all f [] s = Inr ([], s)"
| "add_all f ((k, v) # m) s =
     bind_result (f v s) (\<lambda>(w, s'). bind_result (add_all f m s') (\<lambda>(ws, s''). Inr ((k, w) # ws, s'')))"

definition generation_configure :: "'t tera_lib \<Rightarrow> build_context \<Rightarrow> 't generation result" where
  "generation_configure te bx =
     bind_result (parse_config (\<lambda>v. Option.bind (as_object v)
       (dec_default (dec_bmap (dec_bmap (dec_bmap as_str))) [] ''synthetic_attributes'')) bx) (\<lambda>raw.
     bind_result (add_all (add_all (add_templates te (bx_name bx))) raw (0, te_empty te)) (\<lambda>(recipes, _, t).
       Inr \<lparr> ge_name = bx_name bx, ge_tera = t, ge_recipes = recipes \<rparr>))"

definition template_context :: "attrs \<Rightarrow> json smap" where
  "template_context m = map (\<lambda>(name, values). (name, JObject
     [(''value'', JString (join_with '';'' values)),
      (''first'', JString (case values of [] \<Rightarrow> [] | v # _ \<Rightarrow> v)),
      (''scope'', JString (unwrap_or [] (find_map (\<lambda>v. map_option snd (split_once CHR ''@'' v)) values))),
      (''values'', json_strings values)])) m"

definition rendered_values :: "string \<Rightarrow> string list" where
  "rendered_values s =
     filter (\<lambda>t. t \<noteq> []) (map trim (split_pred (\<lambda>c. c = CHR 0x0A \<or> c = CHR '';'') s))"

definition generation_response ::
    "'t tera_lib \<Rightarrow> 't generation \<Rightarrow> 'w req_context_scheme \<Rightarrow> internal_data \<Rightarrow> internal_data result" where
  "generation_response te ge ctx d =
     (case Option.bind (level (ge_recipes ge) (requester_or_empty d)) (\<lambda>p. level p (issuer_or_empty d)) of
        None \<Rightarrow> Inr d
      | Some recipes \<Rightarrow>
          bind_result (fold_result (\<lambda>(attr, template_id) m.
              bind_result (ok_or (te_render te (ge_tera ge) template_id (template_context (id_attributes d)))
                (ErrInternal (''attribute_generation '' @ ge_name ge @ '': rendering '' @ attr @ '' failed: '')))
                (\<lambda>s. Inr (bm_insert attr (rendered_values s) m))) recipes (id_attributes d))
            (\<lambda>m. Inr (d\<lparr> id_attributes := m \<rparr>)))"

definition generation_build :: "'t tera_lib \<Rightarrow> build_context \<Rightarrow> 'w micro_service result" where
  "generation_build te bx = bind_result (generation_configure te bx) (\<lambda>ge.
     Inr (attribute_ms (ge_name ge) (generation_response te ge)))"

lemma rendered_values_clean:
  "v \<in> set (rendered_values s) \<Longrightarrow> v \<noteq> []"
  by (auto simp: rendered_values_def)

interpretation generation: attribute_service "generation_response te" for te
proof
  fix c ctx d d'
  assume p: "generation_response te c ctx d = Inr d'"
  then show "\<exists>m. d' = d\<lparr> id_attributes := m \<rparr>"
    by (auto simp: generation_response_def bind_result_eq_Inr split: option.splits)
  assume wf: "bm_wf (id_attributes d)"
  show "bm_wf (id_attributes d')"
  proof (cases "Option.bind (level (ge_recipes c) (requester_or_empty d)) (\<lambda>p. level p (issuer_or_empty d))")
    case None with p wf show ?thesis by (simp add: generation_response_def)
  next
    case (Some recipes)
    let ?f = "\<lambda>(attr, template_id) m.
              bind_result (ok_or (te_render te (ge_tera c) template_id (template_context (id_attributes d)))
                (ErrInternal (''attribute_generation '' @ ge_name c @ '': rendering '' @ attr @ '' failed: '')))
                (\<lambda>s. Inr (bm_insert attr (rendered_values s) m))"
    from p Some obtain m where m: "fold_result ?f recipes (id_attributes d) = Inr m"
        "d' = d\<lparr> id_attributes := m \<rparr>"
      by (auto simp: generation_response_def bind_result_eq_Inr)
    have "bm_wf m"
      by (rule fold_result_inv[OF m(1), where I = bm_wf])
         (auto simp: wf bind_result_eq_Inr split: prod.splits)
    with m(2) show ?thesis by simp
  qed
qed

section \<open>Static attributes of a virtual identity provider\<close>

type_synonym vidp_map = "attrs smap smap"

definition dec_vidp :: "json \<Rightarrow> (vidp_map \<times> vidp_map) option" where
  "dec_vidp v = do {
     m \<leftarrow> as_object v;
     r \<leftarrow> dec_default (dec_bmap (dec_bmap dec_attrs)) [] ''static_attributes_for_virtual_idp'' m;
     a \<leftarrow> dec_default (dec_bmap (dec_bmap dec_attrs)) [] ''static_appended_attributes_for_virtual_idp'' m;
     Some (r, a) }"

definition recipe :: "vidp_map \<Rightarrow> string \<Rightarrow> string \<Rightarrow> attrs option" where
  "recipe m who vidp = Option.bind (level m who) (\<lambda>by_vidp. level by_vidp vidp)"

text \<open>Configured values first; sorted only when the attribute was released.\<close>

definition append_values :: "string list \<Rightarrow> string list option \<Rightarrow> string list" where
  "append_values configured released =
     (case released of None \<Rightarrow> configured | Some vs \<Rightarrow> sort (push_all_new configured vs))"

definition append_one :: "attrs \<Rightarrow> string \<times> string list \<Rightarrow> attrs" where
  "append_one m e = bm_insert (fst e) (append_values (snd e) (bm_get m (fst e))) m"

definition vidp_response ::
    "vidp_map \<times> vidp_map \<Rightarrow> 'w req_context_scheme \<Rightarrow> internal_data \<Rightarrow> internal_data result" where
  "vidp_response cfg ctx d =
     (let who = requester_or_empty d; vidp = unwrap_or [] (virtual_idp ctx);
          m1 = (case recipe (fst cfg) who vidp of None \<Rightarrow> id_attributes d
                | Some r \<Rightarrow> foldl (\<lambda>m (attr, vs). bm_insert attr vs m) (id_attributes d) r);
          m2 = (case recipe (snd cfg) who vidp of None \<Rightarrow> m1 | Some r \<Rightarrow> foldl append_one m1 r)
      in Inr (d\<lparr> id_attributes := m2 \<rparr>))"

definition vidp_build :: "build_context \<Rightarrow> 'w micro_service result" where
  "vidp_build bx = bind_result (parse_config dec_vidp bx) (\<lambda>cfg.
     Inr (attribute_ms (bx_name bx) (vidp_response cfg)))"

lemma bm_wf_append_one [simp]: "bm_wf m \<Longrightarrow> bm_wf (append_one m e)"
  by (simp add: append_one_def)

interpretation vidp: attribute_service vidp_response
  by unfold_locales (auto simp: vidp_response_def Let_def split: option.splits prod.splits intro!: bm_wf_foldl)

lemma foldl_insert_get:
  "bm_wf m \<Longrightarrow> bm_get (foldl (\<lambda>m (k, v). bm_insert k v m) m r) a = or_else (map_of (rev r) a) (bm_get m a)"
proof (induction r arbitrary: m)
  case (Cons e r)
  then show ?case by (cases e) (auto simp: bm_get_insert map_add_def split: option.splits)
qed simp

lemma append_one_get:
  "bm_wf m \<Longrightarrow> bm_get (append_one m (k, v)) a = (if a = k then Some (append_values v (bm_get m a)) else bm_get m a)"
  by (simp add: append_one_def bm_get_insert)

lemma foldl_append_get:
  assumes "bm_wf m" "distinct (map fst r)"
  shows "bm_get (foldl append_one m r) a =
    (case map_of r a of None \<Rightarrow> bm_get m a | Some vs \<Rightarrow> Some (append_values vs (bm_get m a)))"
  using assms
proof (induction r arbitrary: m)
  case (Cons e r)
  obtain k v where e: "e = (k, v)" by (cases e)
  have "bm_get (foldl append_one m (e # r)) a =
      (case map_of r a of None \<Rightarrow> bm_get (append_one m e) a | Some vs \<Rightarrow> Some (append_values vs (bm_get (append_one m e) a)))"
    using Cons by simp
  moreover have "map_of r k = None" using Cons.prems(2) e by (simp add: map_of_eq_None_iff)
  ultimately show ?case using Cons.prems(1) e
    by (cases "k = a") (auto simp: append_one_get simp del: foldl.simps split: option.splits)
qed simp

text \<open>Every decoded recipe is an ordered map.\<close>

lemma dec_entries_values:
  "dec_entries f m = Some es \<Longrightarrow> (\<And>x y. f x = Some y \<Longrightarrow> P y) \<Longrightarrow> \<forall>e \<in> set es. P (snd e)"
proof (induction m arbitrary: es)
  case (Cons e m)
  obtain k v where "e = (k, v)" by (cases e)
  with Cons show ?case by (fastforce simp: bind_eq_Some_conv)
qed simp

lemma dec_bmap_values:
  assumes "dec_bmap f v = Some m" "\<And>x y. f x = Some y \<Longrightarrow> P y" "bm_get m k = Some y"
  shows "P y"
proof -
  from assms(1) obtain es j where es: "dec_entries f j = Some es" "m = bm_of_list es"
    by (auto simp: dec_bmap_def bind_eq_Some_conv)
  from assms(3) have "map_of (rev es) k = Some y" by (simp add: es(2) bm_get_of_list)
  then have "(k, y) \<in> set es" by (auto dest: map_of_SomeD)
  with dec_entries_values[OF es(1), of P] assms(2) show ?thesis by force
qed

lemma level_SomeD: "level m k = Some y \<Longrightarrow> \<exists>k'. bm_get m k' = Some y"
  by (auto simp: level_def or_else_def split: option.splits)

definition vidp_ok :: "vidp_map \<Rightarrow> bool" where
  "vidp_ok m \<longleftrightarrow> (\<forall>k1 by_vidp k2 r. bm_get m k1 = Some by_vidp \<longrightarrow> bm_get by_vidp k2 = Some r \<longrightarrow> bm_wf r)"

lemma vidp_ok_dec:
  assumes "dec_default (dec_bmap (dec_bmap dec_attrs)) [] key m = Some r"
  shows "vidp_ok r"
proof (cases "jm_get m key")
  case None
  with assms show ?thesis by (simp add: dec_default_def vidp_ok_def)
next
  case (Some v)
  then have d: "dec_bmap (dec_bmap dec_attrs) v = Some r" using assms by (simp add: dec_default_def)
  have "bm_wf y" if "bm_get r k1 = Some b" "bm_get b k2 = Some y" for k1 b k2 y
  proof -
    have "\<forall>k2 y. bm_get b k2 = Some y \<longrightarrow> bm_wf y"
      by (rule dec_bmap_values[OF d _ that(1)])
         (use dec_bmap_values[where P = bm_wf and f = dec_attrs] dec_bmap_wf in \<open>fastforce simp: dec_attrs_def\<close>)
    with that(2) show ?thesis by blast
  qed
  then show ?thesis by (auto simp: vidp_ok_def)
qed

lemma recipe_wf:
  assumes "dec_vidp v = Some cfg"
  shows "recipe (fst cfg) who vidp = Some r \<Longrightarrow> bm_wf r" "recipe (snd cfg) who vidp = Some r \<Longrightarrow> bm_wf r"
proof -
  from assms have ok: "vidp_ok (fst cfg)" "vidp_ok (snd cfg)"
    by (auto simp: dec_vidp_def bind_eq_Some_conv intro: vidp_ok_dec)
  have "bm_wf r" if "vidp_ok m" "recipe m who vidp = Some r" for m
    using that by (auto simp: recipe_def vidp_ok_def Option.bind_eq_Some_conv dest!: level_SomeD)
  with ok show "recipe (fst cfg) who vidp = Some r \<Longrightarrow> bm_wf r" "recipe (snd cfg) who vidp = Some r \<Longrightarrow> bm_wf r"
    by blast+
qed

lemma set_append_values:
  "set (append_values vs x) = set vs \<union> (case x of None \<Rightarrow> {} | Some ws \<Rightarrow> set ws)"
  by (auto simp: append_values_def split: option.splits)

text \<open>
  Static attributes of a virtual identity provider: an attribute gets the values the recipe
  of the requester and the frontend sets, and the appended recipe adds its own values without
  losing one that was there; an attribute in neither recipe keeps its values.
\<close>

theorem vidp_static_values:
  assumes wf: "bm_wf (id_attributes d)" and cfg: "dec_vidp v = Some cfg"
    and rep: "recipe (fst cfg) (requester_or_empty d) (unwrap_or [] (virtual_idp ctx)) = Some set_recipe"
    and app: "recipe (snd cfg) (requester_or_empty d) (unwrap_or [] (virtual_idp ctx)) = Some add_recipe"
  shows "\<exists>d'. vidp_response cfg ctx d = Inr d' \<and>
    (let base = or_else (bm_get set_recipe a) (bm_get (id_attributes d) a)
     in case bm_get add_recipe a of
          None \<Rightarrow> bm_get (id_attributes d') a = base
        | Some vs \<Rightarrow> \<exists>ws. bm_get (id_attributes d') a = Some ws \<and>
            set ws = set vs \<union> set (unwrap_or [] base) \<and> (base \<noteq> None \<longrightarrow> sorted ws) \<and> (base = None \<longrightarrow> ws = vs))"
proof -
  let ?m1 = "foldl (\<lambda>m (attr, vs). bm_insert attr vs m) (id_attributes d) set_recipe"
  have sorted_recipes: "bm_wf set_recipe" "bm_wf add_recipe"
    using recipe_wf[OF cfg] rep app by blast+
  have wf1: "bm_wf ?m1" using wf by (intro bm_wf_foldl) (auto split: prod.splits)
  have base: "bm_get ?m1 a = or_else (bm_get set_recipe a) (bm_get (id_attributes d) a)"
    using foldl_insert_get[OF wf] bm_wf_distinct[OF sorted_recipes(1)] by (simp add: map_of_rev_distinct)
  have "vidp_response cfg ctx d = Inr (d\<lparr> id_attributes := foldl append_one ?m1 add_recipe \<rparr>)"
    by (simp add: vidp_response_def rep app Let_def)
  moreover have "bm_get (foldl append_one ?m1 add_recipe) a =
    (case bm_get add_recipe a of None \<Rightarrow> bm_get ?m1 a | Some vs \<Rightarrow> Some (append_values vs (bm_get ?m1 a)))"
    using foldl_append_get[OF wf1 bm_wf_distinct[OF sorted_recipes(2)]] .
  ultimately show ?thesis unfolding base Let_def
    by (cases "bm_get add_recipe a"; cases "or_else (bm_get set_recipe a) (bm_get (id_attributes d) a)")
       (auto simp: append_values_def)
qed

section \<open>Audit log\<close>

record log_config =
  lg_name :: string
  lg_target :: string
  lg_attrs :: "string list"
  lg_insecure :: bool

definition dec_logging_config :: "json \<Rightarrow> (string \<times> string list \<times> bool) option" where
  "dec_logging_config v = do {
     m \<leftarrow> as_object v;
     t \<leftarrow> dec_required as_str ''log_target'' m;
     a \<leftarrow> dec_default dec_strings [] ''attrs'' m;
     i \<leftarrow> dec_default as_bool False ''allow_insecure_log_target'' m;
     Some (t, a, i) }"

text \<open>
  The operating system: opening a path for appending (hardened or not), the type of the open file,
  its status flags, and writing a line to it; every call may fail and may change the world.
\<close>

record ('w, 'f) os_lib =
  os_open_append :: "bool \<Rightarrow> string \<Rightarrow> 'w \<Rightarrow> 'f option \<times> 'w"
  os_is_regular :: "'f \<Rightarrow> 'w \<Rightarrow> bool option"
  os_get_flags :: "'f \<Rightarrow> 'w \<Rightarrow> nat option"
  os_clear_nonblock :: "'f \<Rightarrow> nat \<Rightarrow> 'w \<Rightarrow> bool \<times> 'w"
  os_write_line :: "'f \<Rightarrow> string \<Rightarrow> 'w \<Rightarrow> bool \<times> 'w"
  os_now_rfc3339 :: "'w \<Rightarrow> string"

definition clear_nonblock :: "('w, 'f) os_lib \<Rightarrow> 'f \<Rightarrow> 'w \<Rightarrow> bool \<times> 'w" where
  "clear_nonblock os f w =
     (case os_get_flags os f w of None \<Rightarrow> (False, w) | Some flags \<Rightarrow> os_clear_nonblock os f flags w)"

definition open_log :: "('w, 'f) os_lib \<Rightarrow> string \<Rightarrow> bool \<Rightarrow> 'w \<Rightarrow> 'f option \<times> 'w" where
  "open_log os path allow_insecure w =
     (case os_open_append os (\<not> allow_insecure) path w of
        (None, w) \<Rightarrow> (None, w)
      | (Some f, w) \<Rightarrow>
          if allow_insecure then (Some f, w)
          else (case os_is_regular os f w of
                  Some True \<Rightarrow> (case clear_nonblock os f w of
                      (True, w) \<Rightarrow> (Some f, w) | (False, w) \<Rightarrow> (None, w))
                | _ \<Rightarrow> (None, w)))"

definition log_record :: "log_config \<Rightarrow> string \<Rightarrow> 'w req_context_scheme \<Rightarrow> internal_data \<Rightarrow> json" where
  "log_record lg timestamp ctx d = JObject
     [(''timestamp'', JString timestamp), (''sp'', enc_opt_str (id_requester d)),
      (''idp'', enc_opt_str (ai_issuer (id_auth_info d))), (''frontend'', enc_opt_str (cx_target_frontend ctx)),
      (''backend'', enc_opt_str (cx_target_backend ctx)),
      (''attr'', JObject (jm_of_list (List.map_filter (\<lambda>a. map_option (\<lambda>vs. (a, json_strings vs))
         (bm_get (id_attributes d) a)) (lg_attrs lg))))]"

definition logging_response ::
    "('w, 'f) os_lib \<Rightarrow> (json \<Rightarrow> string) \<Rightarrow> log_config \<Rightarrow> internal_data \<Rightarrow> ('w, internal_data) handler" where
  "logging_response os print lg d ctx =
     (let w = req_context.more ctx;
          timestamp = unwrap_or (os_now_rfc3339 os w) (ai_timestamp (id_auth_info d));
          line = print (log_record lg timestamp ctx d);
          w' = (case open_log os (lg_target lg) (lg_insecure lg) w of
                  (None, w) \<Rightarrow> w
                | (Some f, w) \<Rightarrow> snd (os_write_line os f line w))
      in (Inr d, with_world w' ctx))"

text \<open>A target that cannot be opened is refused at startup.\<close>

definition logging_build ::
    "('w, 'f) os_lib \<Rightarrow> (json \<Rightarrow> string) \<Rightarrow> build_context \<Rightarrow> 'w \<Rightarrow> 'w micro_service result \<times> 'w" where
  "logging_build os print bx w =
     (case parse_config dec_logging_config bx of
        Inl e \<Rightarrow> (Inl e, w)
      | Inr (target, attrs, insecure) \<Rightarrow>
          (case open_log os target insecure w of
             (None, w) \<Rightarrow> (Inl (ErrConfig (''custom_logging '' @ bx_name bx @ '': cannot open log_target '' @
                target @ '': '')), w)
           | (Some _, w) \<Rightarrow> (Inr (response_service (bx_name bx) (logging_response os print
                \<lparr> lg_name = bx_name bx, lg_target = target, lg_attrs = attrs, lg_insecure = insecure \<rparr>)), w)))"

text \<open>Logging neither fails a flow nor changes what it carries.\<close>

lemma logging_transparent:
  "\<exists>w'. logging_response os print lg d c = (Inr d, with_world w' c)"
  unfolding logging_response_def Let_def by blast

text \<open>A hardened log is only ever a regular file.\<close>

lemma open_log_regular:
  "open_log os path False w = (Some f, w') \<Longrightarrow> \<exists>w1. os_is_regular os f w1 = Some True"
  by (auto simp: open_log_def split: prod.splits option.splits bool.splits)

section \<open>Witnesses\<close>

theorem processor_maps_values_witness:
  "\<exists>d'. processor_response toy_hash toy_regex [\<lparr> cr_attribute = ''mail'', cr_processors = [ScopeRemover, Scope ''y''] \<rparr>]
      toy_ctx (internal_default\<lparr> id_attributes := [(''mail'', [''a@x''])] \<rparr>) = Inr d' \<and>
    bm_get (id_attributes d') ''mail'' = Some [''a@y'']"
proof -
  let ?d = "internal_default\<lparr> id_attributes := [(''mail'', [''a@x''])] \<rparr>"
  have "bm_wf (id_attributes ?d)" by (simp add: bm_wf_def bm_keys_def)
  from processor_maps_values[OF this, of "[\<lparr> cr_attribute = ''mail'', cr_processors = [ScopeRemover, Scope ''y''] \<rparr>]"
      "''mail''" toy_hash toy_regex toy_ctx]
  show ?thesis by (simp add: processor_value_def)
qed

definition toy_vidp :: "vidp_map \<times> vidp_map" where
  "toy_vidp = ([(''rp'', [(''fe'', [(''mail'', [''a''])])])], [(''rp'', [(''fe'', [(''mail'', [''b''])])])])"

definition toy_vidp_cfg :: json where
  "toy_vidp_cfg = JObject
     [(''static_attributes_for_virtual_idp'', JObject [(''rp'', JObject [(''fe'', JObject [(''mail'', JArray [JString ''a''])])])]),
      (''static_appended_attributes_for_virtual_idp'', JObject [(''rp'', JObject [(''fe'', JObject [(''mail'', JArray [JString ''b''])])])])]"

lemma toy_vidp_decoded: "dec_vidp toy_vidp_cfg = Some toy_vidp"
  by (simp add: dec_vidp_def toy_vidp_cfg_def toy_vidp_def dec_default_def dec_bmap_def dec_attrs_def
      dec_strings_def bm_of_list_def)

lemma toy_vidp_recipes:
  assumes "who = ''rp''" "vidp = ''fe''"
  shows "recipe (fst toy_vidp) who vidp = Some [(''mail'', [''a''])]"
    "recipe (snd toy_vidp) who vidp = Some [(''mail'', [''b''])]"
  using assms by (simp_all add: recipe_def level_def toy_vidp_def)

theorem vidp_static_values_witness:
  "\<exists>d' ws. vidp_response toy_vidp (toy_ctx\<lparr> cx_target_frontend := Some ''fe'' \<rparr>) toy_login = Inr d' \<and>
    bm_get (id_attributes d') ''mail'' = Some ws \<and> set ws = {''a'', ''b''}"
proof -
  let ?c = "toy_ctx\<lparr> cx_target_frontend := Some ''fe'' \<rparr>"
  have who: "requester_or_empty toy_login = ''rp''" "unwrap_or [] (virtual_idp ?c) = ''fe''"
    by (simp_all add: requester_or_empty_def toy_login_def virtual_idp_def)
  have wf: "bm_wf (id_attributes toy_login)" by (simp add: toy_login_def internal_default_def)
  have get: "bm_get [(''mail'', [''a''])] ''mail'' = Some [''a'']" "bm_get [(''mail'', [''b''])] ''mail'' = Some [''b'']"
    by simp_all
  from vidp_static_values[OF wf toy_vidp_decoded toy_vidp_recipes[OF who], of "''mail''"]
  show ?thesis unfolding get Let_def by (auto simp: insert_commute)
qed

end
