(* ===== verification/Oidc_Common.thy ===== *)
theory Oidc_Common
  imports Release_Services
begin

text \<open>
  What the OpenID Connect plugins share: the scheme check of \<open>url_check.rs\<close>, key loading
  (\<open>keyload.rs\<close>), the client roster (\<open>client_loader.rs\<close>) and the request, subject and claim rules
  of \<open>oidc_common.rs\<close>.  The URL parser, the key and OpenID libraries, the files read at startup and
  the digest are parameters.  Shown: the roster has no duplicate client, a subject is released only
  to the registration the login was bound to, and the authenticating authority cannot be spoofed by
  an attribute.
\<close>

section \<open>URL schemes\<close>

datatype url_host = Domain string | Ipv4 nat nat nat nat | Ipv6 nat

record url_parts =
  up_scheme :: string
  up_host :: "url_host option"

definition is_loopback :: "url_host option \<Rightarrow> bool" where
  "is_loopback host =
     (case host of
        Some (Domain d) \<Rightarrow> d = ''localhost''
      | Some (Ipv4 a b c d) \<Rightarrow> a = 127
      | Some (Ipv6 n) \<Rightarrow> n = 1
      | None \<Rightarrow> False)"

definition require_https :: "(string \<Rightarrow> url_parts option) \<Rightarrow> string \<Rightarrow> string \<Rightarrow> unit result" where
  "require_https parse url what =
     bind_result (ok_or (parse url) (ErrConfig (what @ '': invalid URL '' @ [CHR 0x27] @ url @ [CHR 0x27] @ '': ''))) (\<lambda>p.
       if up_scheme p = ''https'' then Inr ()
       else if up_scheme p = ''http'' \<and> is_loopback (up_host p) then Inr ()
       else Inl (ErrConfig (what @ '': '' @ [CHR 0x27] @ url @ [CHR 0x27] @ '' uses scheme '' @ [CHR 0x27] @ up_scheme p @
         [CHR 0x27] @ ''; https is required (http is allowed only for loopback hosts)'')))"

lemma require_https_iff:
  "require_https parse url what = Inr () \<longleftrightarrow>
     (\<exists>p. parse url = Some p \<and> (up_scheme p = ''https'' \<or> up_scheme p = ''http'' \<and> is_loopback (up_host p)))"
  by (auto simp: require_https_def bind_result_eq_Inr)

section \<open>Keys\<close>

record 'k key_lib =
  kl_read :: "string \<Rightarrow> string option"
  kl_print :: "json \<Rightarrow> string"
  kl_from_jwk :: "string \<Rightarrow> string option \<Rightarrow> string option \<Rightarrow> 'k result"
  kl_from_pem :: "string \<Rightarrow> string option \<Rightarrow> string option \<Rightarrow> 'k result"

definition load_signing_key ::
    "'k key_lib \<Rightarrow> json option \<Rightarrow> string option \<Rightarrow> string option \<Rightarrow> string option \<Rightarrow> string option \<Rightarrow> 'k result" where
  "load_signing_key kl jwk pem_path jwk_path alg kid =
     (case jwk of
        Some v \<Rightarrow> kl_from_jwk kl (kl_print kl v) alg kid
      | None \<Rightarrow>
     (case jwk_path of
        Some path \<Rightarrow> bind_result (ok_or (kl_read kl path) (ErrConfig (''reading jwk file '' @ path @ '': '')))
          (\<lambda>j. kl_from_jwk kl j alg kid)
      | None \<Rightarrow>
     (case pem_path of
        Some path \<Rightarrow> bind_result (ok_or (kl_read kl path) (ErrConfig (''reading key file '' @ path @ '': '')))
          (\<lambda>b. kl_from_pem kl b alg kid)
      | None \<Rightarrow> Inl (ErrConfig (''no signing key configured (set signing_jwk, signing_jwk_path or '' @
          ''signing_key_path)'')))))"

definition scoped_secret :: "string \<Rightarrow> string \<Rightarrow> string" where
  "scoped_secret secret instance_name = secret @ '':'' @ instance_name"

section \<open>The client roster\<close>

text \<open>Decoding a client also reports the fields it does not know.\<close>

record 'c client_lib =
  cc_decode :: "json \<Rightarrow> ('c \<times> string list) option"
  cc_read :: "string \<Rightarrow> string option"
  cc_decode_file :: "string \<Rightarrow> ('c list \<times> string list) option"
  cc_at_end :: "string \<Rightarrow> bool"
  cc_id :: "'c \<Rightarrow> string"

definition parse_client_strict :: "'c client_lib \<Rightarrow> json \<Rightarrow> 'c result" where
  "parse_client_strict cc v =
     bind_result (ok_or (cc_decode cc v) (ErrConfig ''parsing client: '')) (\<lambda>(c, unknown).
       if unknown \<noteq> [] then Inl (ErrConfig (''unknown field(s): '' @ join_with '', '' unknown)) else Inr c)"

fun parse_inline :: "'c client_lib \<Rightarrow> nat \<Rightarrow> json list \<Rightarrow> 'c list result" where
  "parse_inline cc i [] = Inr []"
| "parse_inline cc i (v # vs) =
     bind_result (case parse_client_strict cc v of Inr c \<Rightarrow> Inr c
         | Inl _ \<Rightarrow> Inl (ErrConfig (''inline clients['' @ show_nat i @ '']: '')))
       (\<lambda>c. bind_result (parse_inline cc (i + 1) vs) (\<lambda>cs. Inr (c # cs)))"

definition read_clients_file :: "'c client_lib \<Rightarrow> string \<Rightarrow> 'c list result" where
  "read_clients_file cc path =
     bind_result (ok_or (cc_read cc path) (ErrConfig (''reading clients_file '' @ path @ '': ''))) (\<lambda>j.
     bind_result (ok_or (cc_decode_file cc j) (ErrConfig (''parsing clients_file '' @ path @ '': ''))) (\<lambda>(cs, unknown).
       if \<not> cc_at_end cc j then Inl (ErrConfig (''parsing clients_file '' @ path @ '': ''))
       else if unknown \<noteq> [] then
         Inl (ErrConfig (''clients_file '' @ path @ '': unknown field(s): '' @ join_with '', '' unknown))
       else Inr cs))"

fun check_unique :: "'c client_lib \<Rightarrow> string list \<Rightarrow> 'c list \<Rightarrow> unit result" where
  "check_unique cc seen [] = Inr ()"
| "check_unique cc seen (c # cs) =
     (if cc_id cc c \<in> set seen then
        Inl (ErrConfig (''duplicate client_id '' @ [CHR 0x27] @ cc_id cc c @ [CHR 0x27] @
          '' across inline clients and clients_file''))
      else check_unique cc (cc_id cc c # seen) cs)"

definition load_clients :: "'c client_lib \<Rightarrow> json list \<Rightarrow> string option \<Rightarrow> 'c list result" where
  "load_clients cc inline clients_file =
     bind_result (parse_inline cc 0 inline) (\<lambda>own.
     bind_result (case clients_file of None \<Rightarrow> Inr [] | Some path \<Rightarrow> read_clients_file cc path) (\<lambda>more.
     bind_result (check_unique cc [] (own @ more)) (\<lambda>_. Inr (own @ more))))"

lemma check_unique_iff:
  "check_unique cc seen cs = Inr () \<longleftrightarrow>
     distinct (map (cc_id cc) cs) \<and> set (map (cc_id cc) cs) \<inter> set seen = {}"
  by (induction cs arbitrary: seen) auto

lemma parse_inline_Inr:
  "parse_inline cc i vs = Inr cs \<Longrightarrow> list_all2 (\<lambda>v c. cc_decode cc v = Some (c, [])) vs cs"
proof (induction vs arbitrary: i cs)
  case (Cons v vs)
  then show ?case
    by (auto simp: bind_result_eq_Inr parse_client_strict_def split: sum.splits if_split_asm)
qed simp

text \<open>
  The roster of an OpenID provider has one registration per client id, is the inline clients
  followed by those of the file, and holds no entry with a field the client type does not know.
\<close>

theorem load_clients_strict:
  assumes "load_clients cc inline file = Inr cs"
  shows "distinct (map (cc_id cc) cs) \<and>
    (\<exists>own more. cs = own @ more \<and> list_all2 (\<lambda>v c. cc_decode cc v = Some (c, [])) inline own \<and>
      (case file of None \<Rightarrow> more = []
       | Some path \<Rightarrow> \<exists>j. cc_read cc path = Some j \<and> cc_decode_file cc j = Some (more, []) \<and> cc_at_end cc j))"
proof -
  from assms obtain own more where h: "parse_inline cc 0 inline = Inr own"
      "(case file of None \<Rightarrow> Inr [] | Some path \<Rightarrow> read_clients_file cc path) = Inr more"
      "check_unique cc [] (own @ more) = Inr ()" "cs = own @ more"
    by (auto simp: load_clients_def bind_result_eq_Inr)
  from h(2) have "case file of None \<Rightarrow> more = []
       | Some path \<Rightarrow> \<exists>j. cc_read cc path = Some j \<and> cc_decode_file cc j = Some (more, []) \<and> cc_at_end cc j"
    by (auto simp: read_clients_file_def bind_result_eq_Inr split: option.splits if_split_asm)
  with parse_inline_Inr[OF h(1)] h(3,4) show ?thesis by (auto simp: check_unique_iff)
qed

section \<open>The OpenID library\<close>

datatype oauth_code = LoginRequired | AccessDenied | ServerError | UnauthorizedClient | InvalidRequest | OtherCode string

record oauth_error =
  oe_code :: oauth_code
  oe_description :: string
  oe_state :: "string option"

definition oauth_new :: "oauth_code \<Rightarrow> string \<Rightarrow> oauth_error" where
  "oauth_new code description = \<lparr> oe_code = code, oe_description = description, oe_state = None \<rparr>"

text \<open>
  Authorization requests, client registrations and the responses built from errors.  Validation
  reads the provider's client store, which is part of the world.
\<close>

record ('w, 'r, 'c) op_lib =
  ol_from_pairs :: "(string \<times> string) list \<Rightarrow> oauth_error + 'r"
  ol_client_id :: "'r \<Rightarrow> string"
  ol_redirect_uri :: "'r \<Rightarrow> string"
  ol_state :: "'r \<Rightarrow> string option"
  ol_has_prompt :: "'r \<Rightarrow> string \<Rightarrow> bool"
  ol_use_fragment :: "'r \<Rightarrow> bool"
  ol_to_json :: "'r \<Rightarrow> json option"
  ol_of_json :: "json \<Rightarrow> 'r option"
  ol_validate :: "'r \<Rightarrow> 'w \<Rightarrow> (oauth_error + 'c) \<times> 'w"
  ol_to_redirect :: "oauth_error \<Rightarrow> string \<Rightarrow> bool \<Rightarrow> response"
  ol_to_response :: "oauth_error \<Rightarrow> response"
  ol_client_name :: "'c \<Rightarrow> string option"
  ol_take_extensions :: "'c \<Rightarrow> 'c \<times> json option"
  ol_client_json :: "'c \<Rightarrow> json option"
  ol_digest_b64 :: "string \<Rightarrow> string"
  ol_print :: "json \<Rightarrow> string"
  ol_json_error :: error

section \<open>The registration binding\<close>

definition AUTHORIZATION_CLIENT :: string where "AUTHORIZATION_CLIENT = ''authorization_client_v1''"

text \<open>\<open>sort_all_objects\<close>: every object in key order.\<close>

fun sort_objects :: "json \<Rightarrow> json" where
  "sort_objects (JArray xs) = JArray (map sort_objects xs)"
| "sort_objects (JObject m) = JObject (sort_key fst (map (\<lambda>e. (fst e, sort_objects (snd e))) m))"
| "sort_objects v = v"

definition client_fingerprint :: "('w, 'r, 'c) op_lib \<Rightarrow> 'c \<Rightarrow> string option" where
  "client_fingerprint ol client =
     (case ol_take_extensions ol client of (registration, extensions) \<Rightarrow>
        map_option (\<lambda>v. ol_digest_b64 ol (ol_print ol (sort_objects (JArray [v, unwrap_or JNull extensions]))))
          (ol_client_json ol registration))"

definition bind_authorization_client ::
    "('v, 'r, 'c) op_lib \<Rightarrow> string \<Rightarrow> 'c \<Rightarrow> ('w, unit) handler" where
  "bind_authorization_client ol frontend client ctx =
     (case client_fingerprint ol client of
        None \<Rightarrow> (Inl (ol_json_error ol), ctx)
      | Some f \<Rightarrow> (Inr (), with_state (set_value frontend AUTHORIZATION_CLIENT (JString f)) ctx))"

definition resolve_authorization_subject ::
    "('v, 'r, 'c) op_lib \<Rightarrow> 'w req_context_scheme \<Rightarrow> string \<Rightarrow> 'c \<Rightarrow> internal_data \<Rightarrow> attribute_mapper \<Rightarrow>
      oauth_error + string" where
  "resolve_authorization_subject ol ctx frontend client response mapper =
     (case get_value (cx_state ctx) frontend AUTHORIZATION_CLIENT of
        None \<Rightarrow> Inl (oauth_new UnauthorizedClient ''login has no registration binding; restart authorization'')
      | Some saved \<Rightarrow>
     (case client_fingerprint ol client of
        None \<Rightarrow> Inl (oauth_new ServerError ''cannot compare client registration'')
      | Some current \<Rightarrow>
          if as_str saved \<noteq> Some current then
            Inl (oauth_new UnauthorizedClient ''client registration changed during login; restart authorization'')
          else case or_else (id_subject_id response) (compose_subject_id mapper (id_attributes response)) of
            None \<Rightarrow> Inl (oauth_new AccessDenied ''no subject identifier available'')
          | Some s \<Rightarrow> Inr s))"

definition authorization_error_response ::
    "('w, 'r, 'c) op_lib \<Rightarrow> 'r \<Rightarrow> oauth_error \<Rightarrow> 'w \<Rightarrow> response \<times> 'w" where
  "authorization_error_response ol req e w =
     (case ol_validate ol req w of
        (Inr _, w') \<Rightarrow> (ol_to_redirect ol e (ol_redirect_uri ol req) (ol_use_fragment ol req), w')
      | (Inl _, w') \<Rightarrow> (ol_to_response ol e, w'))"

section \<open>Algorithms and claims\<close>

definition default_id_token_algorithm :: string where "default_id_token_algorithm = ''RS256''"

definition validate_id_token_algorithm :: "(string \<Rightarrow> bool) \<Rightarrow> string \<Rightarrow> unit result" where
  "validate_id_token_algorithm supported alg =
     (if alg \<in> {''HS256'', ''HS384'', ''HS512''} then
        Inl (ErrConfig ''id_token_signed_response_alg must be an asymmetric signing algorithm'')
      else if \<not> supported alg then
        Inl (ErrConfig (''id_token_signed_response_alg '' @ alg @ '' has no supported crypto implementation''))
      else Inr ())"

definition AUTHENTICATING_AUTHORITY_ATTRIBUTE :: string where
  "AUTHENTICATING_AUTHORITY_ATTRIBUTE = ''authenticating_authority''"

definition RESERVED_ID_TOKEN_CLAIMS :: "string list" where
  "RESERVED_ID_TOKEN_CLAIMS = [''iss'', ''sub'', ''aud'', ''exp'', ''iat'', ''nbf'', ''jti'', ''nonce'', ''auth_time'', ''acr'']"

definition first_name :: "profile_attribute \<Rightarrow> string option" where
  "first_name pa = (case pa_names pa of [] \<Rightarrow> None | n # _ \<Rightarrow> Some n)"

definition authority_claim :: "attribute_mapper \<Rightarrow> string option" where
  "authority_claim mp = Option.bind (lookup_mapping mp ''openid'' AUTHENTICATING_AUTHORITY_ATTRIBUTE) first_name"

definition validate_authority_mapping :: "attribute_mapper \<Rightarrow> string \<Rightarrow> unit result" where
  "validate_authority_mapping mp frontend =
     (case authority_claim mp of
        None \<Rightarrow> Inr ()
      | Some claim \<Rightarrow>
          if claim \<in> set RESERVED_ID_TOKEN_CLAIMS then
            Inl (ErrConfig (''oidc frontend '' @ frontend @ '': '' @ AUTHENTICATING_AUTHORITY_ATTRIBUTE @
              '' cannot map to reserved ID-token claim '' @ claim))
          else Inr ())"

definition advertise_mapped_claims :: "attribute_mapper \<Rightarrow> string list \<Rightarrow> string list" where
  "advertise_mapped_claims mp supported =
     push_all_new supported (List.map_filter (\<lambda>(_, profiles). Option.bind (bm_get profiles ''openid'') first_name)
       (profile_mappings mp))"

definition authenticating_authority_claims ::
    "attribute_mapper \<Rightarrow> attrs \<Rightarrow> string option \<Rightarrow> json smap \<times> attrs" where
  "authenticating_authority_claims mp external issuer =
     (let external = bm_remove AUTHENTICATING_AUTHORITY_ATTRIBUTE external
      in case authority_claim mp of
           None \<Rightarrow> ([], external)
         | Some claim \<Rightarrow>
             ((case issuer of None \<Rightarrow> [] | Some i \<Rightarrow> bm_insert claim (JArray [JString i]) []), bm_remove claim external))"

definition apply_prompt_constraints :: "('w, 'r, 'c) op_lib \<Rightarrow> 'r \<Rightarrow> internal_data \<Rightarrow> internal_data" where
  "apply_prompt_constraints ol req d =
     d\<lparr> id_force_authn := ol_has_prompt ol req ''login'', id_is_passive := ol_has_prompt ol req ''none'' \<rparr>"

definition backend_authorization_error ::
    "('w, 'r, 'c) op_lib \<Rightarrow> 'r \<Rightarrow> error \<Rightarrow> bool \<Rightarrow> oauth_error" where
  "backend_authorization_error ol req e interaction =
     (let (code, description) =
        (if is_authn_error e \<and> ol_has_prompt ol req ''none'' \<and> interaction
         then (LoginRequired, ''silent authentication could not be completed'')
         else if is_authn_error e then (AccessDenied, ''authentication was denied'')
         else (ServerError, ''authentication could not be completed''))
      in (oauth_new code description)\<lparr> oe_state := ol_state ol req \<rparr>)"

lemma resolve_subject_Inr:
  "resolve_authorization_subject ol ctx frontend client response mapper = Inr s \<longleftrightarrow>
     (\<exists>f. get_value (cx_state ctx) frontend AUTHORIZATION_CLIENT = Some (JString f) \<and>
        client_fingerprint ol client = Some f \<and>
        or_else (id_subject_id response) (compose_subject_id mapper (id_attributes response)) = Some s)"
  by (auto simp: resolve_authorization_subject_def split: option.splits)

text \<open>
  The authenticating authority is asserted by the proxy alone: the released claim is the issuer
  of the authentication under the configured name, and neither that name nor the reserved one is
  left among the attributes, whatever a backend put there.
\<close>

theorem authority_not_spoofed:
  "authenticating_authority_claims mp external issuer = (claims, external') \<Longrightarrow>
     bm_get external' AUTHENTICATING_AUTHORITY_ATTRIBUTE = None \<and>
     (\<forall>claim. bm_get claims claim =
        (if authority_claim mp = Some claim then map_option (\<lambda>i. JArray [JString i]) issuer else None)) \<and>
     (case authority_claim mp of None \<Rightarrow> True | Some claim \<Rightarrow> bm_get external' claim = None)"
  by (auto simp: authenticating_authority_claims_def Let_def bm_get_remove bm_get_insert split: option.splits)

section \<open>Witnesses\<close>

definition toy_clients :: "string client_lib" where
  "toy_clients = \<lparr> cc_decode = (\<lambda>v. map_option (\<lambda>s. (s, [])) (as_str v)), cc_read = (\<lambda>p. Some p),
     cc_decode_file = (\<lambda>j. Some ([j], [])), cc_at_end = (\<lambda>j. True), cc_id = id \<rparr>"

theorem load_clients_strict_witness: "distinct (map (cc_id toy_clients) [''a'', ''b''])"
proof -
  have "load_clients toy_clients [JString ''a''] (Some ''b'') = Inr [''a'', ''b'']" by code_simp
  from load_clients_strict[OF this] show ?thesis by blast
qed

theorem authority_not_spoofed_witness:
  "bm_get (snd (authenticating_authority_claims toy_mapper [(''authenticating_authority'', [''evil''])] (Some ''idp'')))
     AUTHENTICATING_AUTHORITY_ATTRIBUTE = None"
  using authority_not_spoofed[OF prod.collapse[symmetric], of toy_mapper "[(''authenticating_authority'', [''evil''])]" "Some ''idp''"]
  by blast

end
