(* ===== verification/Oidc_Frontend.thy ===== *)
theory Oidc_Frontend
  imports Oidc_Common Dpop_Replay
begin

text \<open>
  The OpenID Connect frontend of \<open>oidc_frontend.rs\<close>: the proxy as OpenID provider.  The provider
  library (request validation, code, token and user-info issue, DPoP proofs, metadata) is the
  parameter records \<open>op_lib\<close> and \<open>provider_lib\<close>; its stores are part of the world.  Shown: what the
  response path answers is the request the authorization endpoint stored in the same session, the
  subject is released only to the registration bound there, errors are redirected only to a
  revalidated client, and a proof that fails never reaches a token or user-info answer.
\<close>

section \<open>The provider library\<close>

datatype dpop_error = NonceRequired | DpopServer string | DpopOther string

record token_lifetimes =
  tl_code :: u64
  tl_access_token :: u64
  tl_id_token :: u64
  tl_refresh_token :: u64

record provider_metadata =
  pm_issuer :: string
  pm_signing_algs :: "string list"
  pm_dpop_algs :: "string list"
  pm_claims :: "string list"
  pm_extra :: jmap

text \<open>What the provider is built from.\<close>

record ('k, 'c) provider_setup =
  pv_metadata :: provider_metadata
  pv_key :: 'k
  pv_clients :: "'c list"
  pv_secret :: string
  pv_previous_secrets :: "string list"
  pv_lifetimes :: token_lifetimes
  pv_assertion_max_age :: "u64 option"

text \<open>The operations of a built provider, the DPoP checks and the response constructors.\<close>

record ('w, 'r, 'c, 'p) provider_lib =
  pl_op :: "('w, 'r, 'c) op_lib"
  pl_json :: "json \<Rightarrow> response result"
  pl_json_status :: "u16 \<Rightarrow> json \<Rightarrow> response result"
  pl_response_new :: "u16 \<Rightarrow> response"
  pl_text :: "u16 \<Rightarrow> string \<Rightarrow> response"
  pl_with_header :: "string \<Rightarrow> string \<Rightarrow> response \<Rightarrow> response"
  pl_discovery_document :: json
  pl_jwks_document :: json
  pl_redirect_with_claims ::
    "'r \<Rightarrow> ('c \<Rightarrow> oauth_error + string) \<Rightarrow> attrs \<Rightarrow> string option \<Rightarrow> json smap \<Rightarrow> 'w \<Rightarrow> (oauth_error + response) \<times> 'w"
  pl_handle_token ::
    "(string \<times> string) list \<Rightarrow> string option \<Rightarrow> string \<Rightarrow> 'p option \<Rightarrow> 'w \<Rightarrow> (oauth_error + json) \<times> 'w"
  pl_userinfo :: "string \<Rightarrow> string option \<Rightarrow> 'w \<Rightarrow> (oauth_error + json) \<times> 'w"
  pl_validate_proof :: "dpop_runtime \<Rightarrow> string \<Rightarrow> string \<Rightarrow> string \<Rightarrow> 'w \<Rightarrow> (dpop_error + 'p) \<times> 'w"
  pl_validate_resource_proof ::
    "dpop_runtime \<Rightarrow> string \<Rightarrow> string \<Rightarrow> string \<Rightarrow> string \<Rightarrow> 'w \<Rightarrow> (dpop_error + 'p) \<times> 'w"
  pl_issue_nonce :: "dpop_runtime \<Rightarrow> 'w \<Rightarrow> string"
  pl_jkt :: "'p \<Rightarrow> string"
  pl_invalid_dpop_proof :: "string \<Rightarrow> oauth_error"
  pl_authorization :: "http_request \<Rightarrow> string option"

record ('w, 'r, 'c, 'p, 'k) provider_builder =
  pb_keys :: "'k key_lib"
  pb_clients :: "'c client_lib"
  pb_mac_b64 :: "string \<Rightarrow> string \<Rightarrow> string"
  pb_key_alg :: "'k \<Rightarrow> string"
  pb_metadata_new :: "string \<Rightarrow> string \<Rightarrow> provider_metadata"
  pb_provider_new :: "('k, 'c) provider_setup \<Rightarrow> ('w, 'r, 'c, 'p) provider_lib result"

section \<open>Configuration\<close>

definition AUTHZ_KEY :: string where "AUTHZ_KEY = ''authz_request''"

definition dec_dpop_settings :: "json \<Rightarrow> dpop_settings option" where
  "dec_dpop_settings v = do {
     m \<leftarrow> as_object v;
     e \<leftarrow> dec_default as_bool False ''enabled'' m;
     a \<leftarrow> dec_default dec_i64 default_proof_max_age ''proof_max_age_secs'' m;
     r \<leftarrow> dec_default as_bool False ''require_nonce'' m;
     l \<leftarrow> dec_default dec_i64 default_nonce_lifetime ''nonce_lifetime_secs'' m;
     Some \<lparr> ds_enabled = e, ds_proof_max_age = a, ds_require_nonce = r, ds_nonce_lifetime = l \<rparr> }"

record oidc_frontend_config =
  of_signing_key_path :: "string option"
  of_signing_jwk :: "json option"
  of_signing_jwk_path :: "string option"
  of_signing_algorithm :: "string option"
  of_signing_key_id :: "string option"
  of_clients :: "json list"
  of_clients_file :: "string option"
  of_code_ttl :: "u64 option"
  of_access_token_ttl :: "u64 option"
  of_id_token_ttl :: "u64 option"
  of_refresh_token_ttl :: "u64 option"
  of_assertion_max_age :: "u64 option"
  of_extra_metadata :: jmap
  of_dpop :: dpop_settings
  of_backend :: "string option"

definition dec_oidc_frontend :: "json \<Rightarrow> oidc_frontend_config option" where
  "dec_oidc_frontend v = do {
     m \<leftarrow> as_object v;
     kp \<leftarrow> dec_default dec_opt_str None ''signing_key_path'' m;
     kj \<leftarrow> dec_default dec_opt_json None ''signing_jwk'' m;
     kjp \<leftarrow> dec_default dec_opt_str None ''signing_jwk_path'' m;
     ka \<leftarrow> dec_default dec_opt_str None ''signing_algorithm'' m;
     kid \<leftarrow> dec_default dec_opt_str None ''signing_key_id'' m;
     cs \<leftarrow> dec_default as_array [] ''clients'' m;
     cf \<leftarrow> dec_default dec_opt_str None ''clients_file'' m;
     ct \<leftarrow> dec_default dec_opt_u64 None ''code_ttl'' m;
     at \<leftarrow> dec_default dec_opt_u64 None ''access_token_ttl'' m;
     it \<leftarrow> dec_default dec_opt_u64 None ''id_token_ttl'' m;
     rt \<leftarrow> dec_default dec_opt_u64 None ''refresh_token_ttl'' m;
     am \<leftarrow> dec_default dec_opt_u64 None ''client_assertion_max_age'' m;
     ex \<leftarrow> dec_default as_object [] ''extra_metadata'' m;
     dp \<leftarrow> dec_default dec_dpop_settings dpop_default ''dpop'' m;
     be \<leftarrow> dec_default dec_opt_str None ''backend'' m;
     Some \<lparr> of_signing_key_path = kp, of_signing_jwk = kj, of_signing_jwk_path = kjp, of_signing_algorithm = ka,
       of_signing_key_id = kid, of_clients = cs, of_clients_file = cf, of_code_ttl = ct,
       of_access_token_ttl = at, of_id_token_ttl = it, of_refresh_token_ttl = rt, of_assertion_max_age = am,
       of_extra_metadata = ex, of_dpop = dp, of_backend = be \<rparr> }"

record ('w, 'r, 'c, 'p) oidc_frontend =
  ofe_name :: string
  ofe_issuer :: string
  ofe_provider :: "('w, 'r, 'c, 'p) provider_lib"
  ofe_mapper :: attribute_mapper
  ofe_dpop :: "dpop_runtime option"
  ofe_backend :: "string option"

text \<open>The metadata the provider advertises.\<close>

definition frontend_metadata ::
    "provider_metadata \<Rightarrow> string \<Rightarrow> bool \<Rightarrow> attribute_mapper \<Rightarrow> jmap \<Rightarrow> provider_metadata" where
  "frontend_metadata metadata alg dpop mapper extra =
     (let metadata = metadata\<lparr> pm_signing_algs := [alg] \<rparr>;
          metadata = (if dpop then metadata\<lparr> pm_dpop_algs := [''ES256''] \<rparr> else metadata);
          metadata = metadata\<lparr> pm_claims := advertise_mapped_claims mapper (pm_claims metadata) \<rparr>
      in metadata\<lparr> pm_extra := foldl (\<lambda>m (k, v). jm_insert k v m) (pm_extra metadata) extra \<rparr>)"

definition frontend_lifetimes :: "oidc_frontend_config \<Rightarrow> token_lifetimes" where
  "frontend_lifetimes cfg =
     \<lparr> tl_code = unwrap_or 600 (of_code_ttl cfg), tl_access_token = unwrap_or 3600 (of_access_token_ttl cfg),
       tl_id_token = unwrap_or 3600 (of_id_token_ttl cfg),
       tl_refresh_token = unwrap_or 2592000 (of_refresh_token_ttl cfg) \<rparr>"

definition oidc_frontend_configure ::
    "('w, 'r, 'c, 'p, 'k) provider_builder \<Rightarrow> build_context \<Rightarrow> ('w, 'r, 'c, 'p) oidc_frontend result" where
  "oidc_frontend_configure pb bx =
     bind_result (parse_config dec_oidc_frontend bx) (\<lambda>cfg.
     bind_result (validate_authority_mapping (bx_attribute_mapper bx) (bx_name bx)) (\<lambda>_.
     (let issuer = module_base bx
      in bind_result (load_signing_key (pb_keys pb) (of_signing_jwk cfg) (of_signing_key_path cfg)
            (of_signing_jwk_path cfg) (of_signing_algorithm cfg) (of_signing_key_id cfg)) (\<lambda>key.
         bind_result (build_runtime (pb_mac_b64 pb) (of_dpop cfg) (bx_secret bx) (bx_name bx)) (\<lambda>dpop.
         (let metadata = frontend_metadata (pb_metadata_new pb issuer issuer) (pb_key_alg pb key) (dpop \<noteq> None)
                (bx_attribute_mapper bx) (of_extra_metadata cfg)
          in bind_result (load_clients (pb_clients pb) (of_clients cfg) (of_clients_file cfg)) (\<lambda>clients.
             bind_result (pb_provider_new pb
               \<lparr> pv_metadata = metadata, pv_key = key, pv_clients = clients,
                 pv_secret = scoped_secret (bx_secret bx) (bx_name bx),
                 pv_previous_secrets = map (\<lambda>s. scoped_secret s (bx_name bx)) (bx_previous_secrets bx),
                 pv_lifetimes = frontend_lifetimes cfg, pv_assertion_max_age = of_assertion_max_age cfg \<rparr>)
               (\<lambda>provider.
               Inr \<lparr> ofe_name = bx_name bx, ofe_issuer = issuer, ofe_provider = provider,
                 ofe_mapper = bx_attribute_mapper bx, ofe_dpop = dpop, ofe_backend = of_backend cfg \<rparr>))))))))"

definition frontend_route :: "('w, 'r, 'c, 'p) oidc_frontend \<Rightarrow> string \<Rightarrow> string" where
  "frontend_route fe sfx = ofe_name fe @ ''/'' @ sfx"

section \<open>The stored request\<close>

definition store_authz_request :: "('w, 'r, 'c, 'p) oidc_frontend \<Rightarrow> 'r \<Rightarrow> ('w, unit) handler" where
  "store_authz_request fe req ctx =
     (case ol_to_json (pl_op (ofe_provider fe)) req of
        None \<Rightarrow> (Inl (ol_json_error (pl_op (ofe_provider fe))), ctx)
      | Some v \<Rightarrow> (Inr (), with_state (set_value (ofe_name fe) AUTHZ_KEY v) ctx))"

definition load_authz_request :: "('w, 'r, 'c, 'p) oidc_frontend \<Rightarrow> 'w req_context_scheme \<Rightarrow> 'r option" where
  "load_authz_request fe ctx =
     Option.bind (get_value (cx_state ctx) (ofe_name fe) AUTHZ_KEY) (ol_of_json (pl_op (ofe_provider fe)))"

section \<open>The authorization endpoint\<close>

definition handle_authorization :: "('w, 'r, 'c, 'p) oidc_frontend \<Rightarrow> ('w, frontend_action) handler" where
  "handle_authorization fe ctx =
     (let ol = pl_op (ofe_provider fe)
      in case ol_from_pairs ol (rq_query_pairs (cx_request ctx)) of
           Inl e \<Rightarrow> (Inr (FRespond (ol_to_response ol e)), ctx)
         | Inr req \<Rightarrow>
             (case in_world (ol_validate ol req) ctx of
                (Inl e, ctx) \<Rightarrow> (Inr (FRespond (ol_to_response ol e)), ctx)
              | (Inr client, ctx) \<Rightarrow>
                  bind_flow (store_authz_request fe req) (\<lambda>_.
                  bind_flow (bind_authorization_client ol (ofe_name fe) client) (\<lambda>_ ctx.
                    (let request = internal_request (ol_client_id ol req);
                         request = (case ol_client_name ol client of
                           Some n \<Rightarrow> request\<lparr> id_requester_name := [n] \<rparr> | None \<Rightarrow> request);
                         request = apply_prompt_constraints ol req request
                     in (Inr (StartAuth request (ofe_backend fe)), ctx)))) ctx))"

section \<open>The response path\<close>

definition oidc_render :: "('w, 'r, 'c, 'p) oidc_frontend \<Rightarrow> internal_data \<Rightarrow> ('w, response) handler" where
  "oidc_render fe d ctx =
     (let pl = ofe_provider fe; ol = pl_op pl
      in case load_authz_request fe ctx of
           None \<Rightarrow> (Inl (ErrState ''no in-flight authorization request''), ctx)
         | Some req \<Rightarrow>
             (let external = from_internal (ofe_mapper fe) ''openid'' (id_attributes d);
                  acr = ai_class_ref (id_auth_info d);
                  resolver = (\<lambda>client.
                    case resolve_authorization_subject ol ctx (ofe_name fe) client d (ofe_mapper fe) of
                      Inl e \<Rightarrow> Inl (e\<lparr> oe_state := ol_state ol req \<rparr>) | Inr s \<Rightarrow> Inr s)
              in case authenticating_authority_claims (ofe_mapper fe) external (ai_issuer (id_auth_info d)) of
                (extra, external) \<Rightarrow>
                  (case in_world (pl_redirect_with_claims pl req resolver external acr extra) ctx of
                     (Inr r, ctx) \<Rightarrow> (Inr r, ctx)
                   | (Inl e, ctx) \<Rightarrow>
                       (case in_world (authorization_error_response ol req e) ctx of (r, ctx) \<Rightarrow> (Inr r, ctx)))))"

definition oidc_error :: "('w, 'r, 'c, 'p) oidc_frontend \<Rightarrow> error \<Rightarrow> ('w, response) handler" where
  "oidc_error fe e ctx =
     (let ol = pl_op (ofe_provider fe)
      in case load_authz_request fe ctx of
           None \<Rightarrow> (Inr (pl_text (ofe_provider fe) 500 ''authentication could not be completed''), ctx)
         | Some req \<Rightarrow>
             (case in_world (authorization_error_response ol req
                  (backend_authorization_error ol req e (interaction_required ctx))) ctx of
                (r, ctx) \<Rightarrow> (Inr r, ctx)))"

section \<open>Proofs of possession\<close>

definition dpop_request :: "('w, 'r, 'c, 'p) oidc_frontend \<Rightarrow> http_request \<Rightarrow> (dpop_runtime \<times> string) option" where
  "dpop_request fe rq =
     Option.bind (ofe_dpop fe) (\<lambda>rt. map_option (\<lambda>proof. (rt, proof)) (bm_get (rq_headers rq) ''dpop''))"

definition map_dpop_result ::
    "('w, 'r, 'c, 'p) oidc_frontend \<Rightarrow> dpop_runtime \<Rightarrow> dpop_error + 'p \<Rightarrow> 'w \<Rightarrow> response + 'p option" where
  "map_dpop_result fe rt outcome w =
     (let pl = ofe_provider fe; ol = pl_op pl
      in case outcome of
           Inr p \<Rightarrow> Inr (Some p)
         | Inl NonceRequired \<Rightarrow>
             (let body = JObject [(''error'', JString ''use_dpop_nonce''),
                    (''error_description'', JString ''Authorization server requires nonce in DPoP proof'')];
                  resp = (case pl_json_status pl 400 body of Inr r \<Rightarrow> r | Inl _ \<Rightarrow> pl_response_new pl 400)
              in Inl (pl_with_header pl ''cache-control'' ''no-store''
                   (pl_with_header pl ''DPoP-Nonce'' (pl_issue_nonce pl rt w) resp)))
         | Inl (DpopServer m) \<Rightarrow> Inl (ol_to_response ol (oauth_new ServerError ''DPoP validation failed''))
         | Inl (DpopOther m) \<Rightarrow> Inl (ol_to_response ol (pl_invalid_dpop_proof pl ''DPoP proof is invalid'')))"

definition dpop_for_token ::
    "('w, 'r, 'c, 'p) oidc_frontend \<Rightarrow> http_request \<Rightarrow> string \<Rightarrow> string \<Rightarrow> 'w \<Rightarrow> (response + 'p option) \<times> 'w" where
  "dpop_for_token fe rq htm htu w =
     (case dpop_request fe rq of
        None \<Rightarrow> (Inr None, w)
      | Some (rt, proof) \<Rightarrow>
          (case pl_validate_proof (ofe_provider fe) rt proof htm htu w of
             (outcome, w) \<Rightarrow> (map_dpop_result fe rt outcome w, w)))"

definition dpop_for_resource ::
    "('w, 'r, 'c, 'p) oidc_frontend \<Rightarrow> http_request \<Rightarrow> string \<Rightarrow> string \<Rightarrow> string \<Rightarrow> 'w \<Rightarrow> (response + 'p option) \<times> 'w" where
  "dpop_for_resource fe rq htm htu access_token w =
     (case dpop_request fe rq of
        None \<Rightarrow> (Inr None, w)
      | Some (rt, proof) \<Rightarrow>
          (case pl_validate_resource_proof (ofe_provider fe) rt proof htm htu access_token w of
             (outcome, w) \<Rightarrow> (map_dpop_result fe rt outcome w, w)))"

section \<open>The token and user-info endpoints\<close>

definition handle_token :: "('w, 'r, 'c, 'p) oidc_frontend \<Rightarrow> http_request \<Rightarrow> 'w \<Rightarrow> response \<times> 'w" where
  "handle_token fe rq w =
     (let pl = ofe_provider fe; ol = pl_op pl; token_url = ofe_issuer fe @ ''/token''
      in case dpop_for_token fe rq (rq_method rq) token_url w of
           (Inl resp, w) \<Rightarrow> (resp, w)
         | (Inr proof, w) \<Rightarrow>
             (case pl_handle_token pl (rq_form_pairs rq) (pl_authorization pl rq) token_url proof w of
                (Inr tokens, w) \<Rightarrow>
                  (case pl_json pl tokens of
                     Inr r \<Rightarrow> (pl_with_header pl ''cache-control'' ''no-store'' r, w)
                   | Inl _ \<Rightarrow> (ol_to_response ol (oauth_new ServerError ''response could not be created''), w))
              | (Inl e, w) \<Rightarrow> (ol_to_response ol e, w)))"

definition presented_access_token :: "('w, 'r, 'c, 'p) provider_lib \<Rightarrow> http_request \<Rightarrow> string option" where
  "presented_access_token pl rq = do {
     auth \<leftarrow> pl_authorization pl rq;
     (scheme, token) \<leftarrow> split_once CHR '' '' auth;
     if eq_ignore_ascii_case scheme ''DPoP'' \<or> eq_ignore_ascii_case scheme ''Bearer'' then Some (trim token) else None }"

definition handle_userinfo :: "('w, 'r, 'c, 'p) oidc_frontend \<Rightarrow> http_request \<Rightarrow> 'w \<Rightarrow> response \<times> 'w" where
  "handle_userinfo fe rq w =
     (let pl = ofe_provider fe; ol = pl_op pl
      in case presented_access_token pl rq of
           None \<Rightarrow> (ol_to_response ol (oauth_new AccessDenied ''missing access token''), w)
         | Some token \<Rightarrow>
             (case dpop_for_resource fe rq (rq_method rq) (ofe_issuer fe @ ''/userinfo'') token w of
                (Inl resp, w) \<Rightarrow> (resp, w)
              | (Inr proof, w) \<Rightarrow>
                  (case pl_userinfo pl token (map_option (pl_jkt pl) proof) w of
                     (Inr claims, w) \<Rightarrow>
                       (case pl_json pl claims of
                          Inr r \<Rightarrow> (r, w)
                        | Inl _ \<Rightarrow> (ol_to_response ol (oauth_new ServerError ''response could not be created''), w))
                   | (Inl e, w) \<Rightarrow> (ol_to_response ol e, w))))"

section \<open>The frontend\<close>

definition oidc_frontend_handle :: "('w, 'r, 'c, 'p) oidc_frontend \<Rightarrow> string \<Rightarrow> ('w, frontend_action) handler" where
  "oidc_frontend_handle fe route_id ctx =
     (let pl = ofe_provider fe
      in if route_id = ''discovery'' then
           (map_sum id FRespond (pl_json pl (pl_discovery_document pl)), ctx)
         else if route_id = ''jwks'' then (map_sum id FRespond (pl_json pl (pl_jwks_document pl)), ctx)
         else if route_id = ''authorization'' then handle_authorization fe ctx
         else if route_id = ''token'' then
           (case in_world (handle_token fe (cx_request ctx)) ctx of (r, ctx) \<Rightarrow> (Inr (FRespond r), ctx))
         else if route_id = ''userinfo'' then
           (case in_world (handle_userinfo fe (cx_request ctx)) ctx of (r, ctx) \<Rightarrow> (Inr (FRespond r), ctx))
         else (Inl (ErrNoBoundEndpoint route_id), ctx))"

definition frontend_routes :: "('w, 'r, 'c, 'p) oidc_frontend \<Rightarrow> route list" where
  "frontend_routes fe =
     [route_exact (frontend_route fe ''.well-known/openid-configuration'') ''discovery'',
      route_exact (frontend_route fe ''jwks'') ''jwks'',
      route_exact (frontend_route fe ''authorization'') ''authorization'',
      route_exact (frontend_route fe ''token'') ''token'',
      route_exact (frontend_route fe ''userinfo'') ''userinfo'']"

definition oidc_frontend_fe :: "('w, 'r, 'c, 'p) oidc_frontend \<Rightarrow> 'w frontend" where
  "oidc_frontend_fe fe =
     \<lparr> fe_name = ofe_name fe, fe_register = (\<lambda>_. frontend_routes fe), fe_handle = oidc_frontend_handle fe,
       fe_render = oidc_render fe, fe_error = oidc_error fe \<rparr>"

definition oidc_frontend_build :: "('w, 'r, 'c, 'p, 'k) provider_builder \<Rightarrow> 'w frontend ctor" where
  "oidc_frontend_build pb bx = bind_result (oidc_frontend_configure pb bx) (\<lambda>fe. Inr (oidc_frontend_fe fe))"

section \<open>The request a login answers\<close>

lemma handle_authorization_StartD:
  assumes "handle_authorization fe c = (Inr (StartAuth d b), c1)"
  defines "ol \<equiv> pl_op (ofe_provider fe)"
  shows "\<exists>req client w v f. ol_from_pairs ol (rq_query_pairs (cx_request c)) = Inr req \<and>
    ol_validate ol req (req_context.more c) = (Inr client, w) \<and> ol_to_json ol req = Some v \<and>
    client_fingerprint ol client = Some f \<and> b = ofe_backend fe \<and>
    id_requester d = Some (ol_client_id ol req) \<and> id_force_authn d = ol_has_prompt ol req ''login'' \<and>
    id_is_passive d = ol_has_prompt ol req ''none'' \<and>
    c1 = with_state (set_value (ofe_name fe) AUTHORIZATION_CLIENT (JString f))
      (with_state (set_value (ofe_name fe) AUTHZ_KEY v) (with_world w c))"
proof -
  from assms(1) obtain req where r: "ol_from_pairs ol (rq_query_pairs (cx_request c)) = Inr req"
    by (auto simp: handle_authorization_def Let_def ol_def split: sum.splits)
  obtain x w where v: "ol_validate ol req (req_context.more c) = (x, w)" by (metis prod.exhaust)
  with assms(1) r obtain client where x: "x = Inr client"
    by (cases x) (auto simp: handle_authorization_def Let_def ol_def in_world_def)
  have "bind_flow (store_authz_request fe req) (\<lambda>_.
      bind_flow (bind_authorization_client ol (ofe_name fe) client) (\<lambda>_ ctx.
        (let request = internal_request (ol_client_id ol req);
             request = (case ol_client_name ol client of
               Some n \<Rightarrow> request\<lparr> id_requester_name := [n] \<rparr> | None \<Rightarrow> request);
             request = apply_prompt_constraints ol req request
         in (Inr (StartAuth request (ofe_backend fe)), ctx)))) (with_world w c) = (Inr (StartAuth d b), c1)"
    using assms(1) r v x by (simp add: handle_authorization_def Let_def ol_def in_world_def)
  then show ?thesis using r v x
    by (auto simp: bind_flow_eq_Inr store_authz_request_def bind_authorization_client_def Let_def ol_def
        apply_prompt_constraints_def internal_request_def split: option.splits)
qed

lemma AUTHZ_KEY_neq [simp]: "AUTHZ_KEY \<noteq> AUTHORIZATION_CLIENT" "AUTHORIZATION_CLIENT \<noteq> AUTHZ_KEY"
  by (simp_all add: AUTHZ_KEY_def AUTHORIZATION_CLIENT_def)

lemma authorization_error_cases:
  "authorization_error_response ol req e w = (r, w') \<Longrightarrow>
     r = ol_to_response ol e \<or>
     r = ol_to_redirect ol e (ol_redirect_uri ol req) (ol_use_fragment ol req) \<and>
       (\<exists>client. ol_validate ol req w = (Inr client, w'))"
  by (auto simp: authorization_error_response_def split: prod.splits sum.splits)

text \<open>
  What the provider library documents of \<open>authorization_redirect_with_claims_and_subject_resolver\<close>: it
  answers with a success redirect only after it validated the request, for the client that
  validation returned and the subject the caller's resolver named for that client.
  \<open>issued req client s claims r\<close> stands for: \<open>r\<close> is the success response to \<open>req\<close>, a code for subject \<open>s\<close>
  with these claims, granted to \<open>client\<close>.
\<close>

definition redirect_law ::
    "('w, 'r, 'c, 'p) provider_lib \<Rightarrow> ('r \<Rightarrow> 'c \<Rightarrow> string \<Rightarrow> attrs \<Rightarrow> response \<Rightarrow> bool) \<Rightarrow> bool" where
  "redirect_law pl issued \<longleftrightarrow>
     (\<forall>req resolver claims acr extra w r w'. pl_redirect_with_claims pl req resolver claims acr extra w = (Inr r, w') \<longrightarrow>
        (\<exists>client s w1. ol_validate (pl_op pl) req w = (Inr client, w1) \<and> resolver client = Inr s \<and> issued req client s claims r))"

lemma oidc_render_answers:
  assumes "oidc_render fe d c = (Inr r, c')" "load_authz_request fe c = Some req" "redirect_law (ofe_provider fe) issued"
  shows "(\<exists>client w s. ol_validate (pl_op (ofe_provider fe)) req (req_context.more c) = (Inr client, w) \<and>
      resolve_authorization_subject (pl_op (ofe_provider fe)) c (ofe_name fe) client d (ofe_mapper fe) = Inr s \<and>
      issued req client s (snd (authenticating_authority_claims (ofe_mapper fe)
        (from_internal (ofe_mapper fe) ''openid'' (id_attributes d)) (ai_issuer (id_auth_info d)))) r) \<or>
    (\<exists>e w w'. authorization_error_response (pl_op (ofe_provider fe)) req e w = (r, w'))"
proof -
  let ?pl = "ofe_provider fe"
  let ?claims = "authenticating_authority_claims (ofe_mapper fe)
    (from_internal (ofe_mapper fe) ''openid'' (id_attributes d)) (ai_issuer (id_auth_info d))"
  let ?resolver = "\<lambda>client. case resolve_authorization_subject (pl_op ?pl) c (ofe_name fe) client d (ofe_mapper fe) of
    Inl e \<Rightarrow> Inl (e\<lparr> oe_state := ol_state (pl_op ?pl) req \<rparr>) | Inr s \<Rightarrow> Inr s"
  obtain extra external where cl: "?claims = (extra, external)" by fastforce
  obtain x w where x: "pl_redirect_with_claims ?pl req ?resolver external (ai_class_ref (id_auth_info d)) extra (req_context.more c) = (x, w)"
    by fastforce
  show ?thesis
  proof (cases x)
    case (Inl e)
    with assms(1,2) cl x show ?thesis
      by (auto simp: oidc_render_def Let_def in_world_def split: prod.splits)
  next
    case (Inr r')
    with assms(1,2) cl x have "r' = r" by (simp add: oidc_render_def Let_def in_world_def)
    with x Inr have "pl_redirect_with_claims ?pl req ?resolver external (ai_class_ref (id_auth_info d)) extra (req_context.more c) = (Inr r, w)"
      by simp
    from assms(3)[unfolded redirect_law_def, rule_format, OF this] obtain client s w1 where
      "ol_validate (pl_op ?pl) req (req_context.more c) = (Inr client, w1)" "?resolver client = Inr s" "issued req client s external r"
      by blast
    with cl show ?thesis by (auto split: sum.splits)
  qed
qed

text \<open>
  C13. A login answers the request it started with, for the registration it started with.  Whatever
  happens in between, as long as the frontend's two entries in the session stay, the response path
  reads back the validated authorization request, whose client is the requester of the flow and whose
  prompt became its constraints.  When the frontend then renders an answer, either a code was issued,
  and then only to a client that the stored request validates for at that moment and whose
  registration has the fingerprint of the one that was valid when the login started, with the subject
  and the mapped attributes of the answer; or the response is an error, sent to the redirect URI of
  the stored request only where that request still validates.  No code is issued after the
  registration changed.
\<close>

theorem authorization_bound_to_registration:
  assumes start: "handle_authorization fe c = (Inr (StartAuth d b), c1)" and wf: "state_wf (cx_state c)"
    and codec: "\<forall>req v. ol_to_json (pl_op (ofe_provider fe)) req = Some v \<longrightarrow> ol_of_json (pl_op (ofe_provider fe)) v = Some req"
    and kept: "get_value (cx_state c2) (ofe_name fe) AUTHZ_KEY = get_value (cx_state c1) (ofe_name fe) AUTHZ_KEY"
      "get_value (cx_state c2) (ofe_name fe) AUTHORIZATION_CLIENT = get_value (cx_state c1) (ofe_name fe) AUTHORIZATION_CLIENT"
    and library: "redirect_law (ofe_provider fe) issued"
  shows "\<exists>req client w. ol_from_pairs (pl_op (ofe_provider fe)) (rq_query_pairs (cx_request c)) = Inr req \<and>
    ol_validate (pl_op (ofe_provider fe)) req (req_context.more c) = (Inr client, w) \<and>
    b = ofe_backend fe \<and> id_requester d = Some (ol_client_id (pl_op (ofe_provider fe)) req) \<and>
    id_force_authn d = ol_has_prompt (pl_op (ofe_provider fe)) req ''login'' \<and>
    id_is_passive d = ol_has_prompt (pl_op (ofe_provider fe)) req ''none'' \<and>
    load_authz_request fe c2 = Some req \<and>
    (\<forall>answer r c3. oidc_render fe answer c2 = (Inr r, c3) \<longrightarrow>
       (\<exists>client' w' s. ol_validate (pl_op (ofe_provider fe)) req (req_context.more c2) = (Inr client', w') \<and>
          client_fingerprint (pl_op (ofe_provider fe)) client' = client_fingerprint (pl_op (ofe_provider fe)) client \<and>
          or_else (id_subject_id answer) (compose_subject_id (ofe_mapper fe) (id_attributes answer)) = Some s \<and>
          issued req client' s (snd (authenticating_authority_claims (ofe_mapper fe)
            (from_internal (ofe_mapper fe) ''openid'' (id_attributes answer)) (ai_issuer (id_auth_info answer)))) r) \<or>
       (\<exists>e. r = ol_to_response (pl_op (ofe_provider fe)) e \<or>
          r = ol_to_redirect (pl_op (ofe_provider fe)) e (ol_redirect_uri (pl_op (ofe_provider fe)) req)
                (ol_use_fragment (pl_op (ofe_provider fe)) req) \<and>
          (\<exists>client'' w1 w2. ol_validate (pl_op (ofe_provider fe)) req w1 = (Inr client'', w2))))"
proof -
  let ?ol = "pl_op (ofe_provider fe)"
  from handle_authorization_StartD[OF start] obtain req client w v f where h:
    "ol_from_pairs ?ol (rq_query_pairs (cx_request c)) = Inr req"
    "ol_validate ?ol req (req_context.more c) = (Inr client, w)"
    "ol_to_json ?ol req = Some v" "client_fingerprint ?ol client = Some f"
    "b = ofe_backend fe" "id_requester d = Some (ol_client_id ?ol req)"
    "id_force_authn d = ol_has_prompt ?ol req ''login''"
    "id_is_passive d = ol_has_prompt ?ol req ''none''"
    "c1 = with_state (set_value (ofe_name fe) AUTHORIZATION_CLIENT (JString f))
      (with_state (set_value (ofe_name fe) AUTHZ_KEY v) (with_world w c))" by blast
  have "get_value (cx_state c2) (ofe_name fe) AUTHZ_KEY = Some v"
    and saved: "get_value (cx_state c2) (ofe_name fe) AUTHORIZATION_CLIENT = Some (JString f)"
    using wf by (simp_all add: kept h(9) get_value_set_value)
  then have load: "load_authz_request fe c2 = Some req" using codec h(3) by (simp add: load_authz_request_def)
  have "(\<exists>client' w' s. ol_validate ?ol req (req_context.more c2) = (Inr client', w') \<and>
          client_fingerprint ?ol client' = client_fingerprint ?ol client \<and>
          or_else (id_subject_id answer) (compose_subject_id (ofe_mapper fe) (id_attributes answer)) = Some s \<and>
          issued req client' s (snd (authenticating_authority_claims (ofe_mapper fe)
            (from_internal (ofe_mapper fe) ''openid'' (id_attributes answer)) (ai_issuer (id_auth_info answer)))) r) \<or>
       (\<exists>e. r = ol_to_response ?ol e \<or> r = ol_to_redirect ?ol e (ol_redirect_uri ?ol req) (ol_use_fragment ?ol req) \<and>
          (\<exists>client'' w1 w2. ol_validate ?ol req w1 = (Inr client'', w2)))"
    if "oidc_render fe answer c2 = (Inr r, c3)" for answer r c3
    using oidc_render_answers[OF that load library]
  proof (elim disjE exE conjE)
    fix e w w' assume "authorization_error_response ?ol req e w = (r, w')"
    from authorization_error_cases[OF this] show ?thesis by blast
  qed (use saved h(4) in \<open>auto simp: resolve_subject_Inr\<close>)
  then show ?thesis
    by (intro exI[of _ req] exI[of _ client] exI[of _ w] conjI allI impI h(1,2,5-8) load)
qed

section \<open>Errors\<close>

text \<open>
  The frontend is no open redirector: a request that is not valid is answered directly and
  leaves the session alone, and a backend error is sent to the redirect URI of the stored request
  only when that request validates against the registrations of that moment; without a stored
  request the answer is a fixed text.
\<close>

theorem oidc_errors_redirect_validated:
  "(handle_authorization fe c = (Inr (FRespond r), c') \<longrightarrow>
      cx_state c' = cx_state c \<and> (\<exists>e. r = ol_to_response (pl_op (ofe_provider fe)) e)) \<and>
   (oidc_error fe e c = (Inr r, c') \<longrightarrow>
      (case load_authz_request fe c of
         None \<Rightarrow> r = pl_text (ofe_provider fe) 500 ''authentication could not be completed''
       | Some req \<Rightarrow> \<exists>oe. r = ol_to_response (pl_op (ofe_provider fe)) oe \<or>
           r = ol_to_redirect (pl_op (ofe_provider fe)) oe (ol_redirect_uri (pl_op (ofe_provider fe)) req)
             (ol_use_fragment (pl_op (ofe_provider fe)) req) \<and>
           (\<exists>client w'. ol_validate (pl_op (ofe_provider fe)) req (req_context.more c) = (Inr client, w'))))"
proof (intro conjI impI)
  assume "handle_authorization fe c = (Inr (FRespond r), c')"
  then show "cx_state c' = cx_state c" "\<exists>e. r = ol_to_response (pl_op (ofe_provider fe)) e"
    by (auto simp: handle_authorization_def Let_def in_world_def bind_flow_eq_Inr split: sum.splits prod.splits)
next
  assume "oidc_error fe e c = (Inr r, c')"
  then show "case load_authz_request fe c of
         None \<Rightarrow> r = pl_text (ofe_provider fe) 500 ''authentication could not be completed''
       | Some req \<Rightarrow> \<exists>oe. r = ol_to_response (pl_op (ofe_provider fe)) oe \<or>
           r = ol_to_redirect (pl_op (ofe_provider fe)) oe (ol_redirect_uri (pl_op (ofe_provider fe)) req)
             (ol_use_fragment (pl_op (ofe_provider fe)) req) \<and>
           (\<exists>client w'. ol_validate (pl_op (ofe_provider fe)) req (req_context.more c) = (Inr client, w'))"
    using authorization_error_cases[of "pl_op (ofe_provider fe)"]
    by (fastforce simp: oidc_error_def Let_def in_world_def split: option.splits prod.splits)
qed

section \<open>Proofs of possession\<close>

lemma map_dpop_result_Inr: "map_dpop_result fe rt outcome w = Inr p \<longleftrightarrow> (\<exists>q. outcome = Inr q \<and> p = Some q)"
  by (auto simp: map_dpop_result_def Let_def split: sum.splits dpop_error.splits)

lemma map_dpop_result_Inl: "\<exists>r. map_dpop_result fe rt (Inl e) w = Inl r"
  by (cases "map_dpop_result fe rt (Inl e) w") (auto simp: map_dpop_result_Inr)

lemma dpop_for_token_Some:
  assumes "dpop_request fe rq = Some (rt, jwt)" "pl_validate_proof (ofe_provider fe) rt jwt htm htu w = (x, w1)"
  shows "case x of Inl e \<Rightarrow> \<exists>r. dpop_for_token fe rq htm htu w = (Inl r, w1)
    | Inr p \<Rightarrow> dpop_for_token fe rq htm htu w = (Inr (Some p), w1)"
  using assms map_dpop_result_Inl by (auto simp: dpop_for_token_def map_dpop_result_Inr split: sum.splits)

lemma dpop_for_resource_Some:
  assumes "dpop_request fe rq = Some (rt, jwt)"
    "pl_validate_resource_proof (ofe_provider fe) rt jwt htm htu token w = (x, w1)"
  shows "case x of Inl e \<Rightarrow> \<exists>r. dpop_for_resource fe rq htm htu token w = (Inl r, w1)
    | Inr p \<Rightarrow> dpop_for_resource fe rq htm htu token w = (Inr (Some p), w1)"
  using assms map_dpop_result_Inl by (auto simp: dpop_for_resource_def map_dpop_result_Inr split: sum.splits)

text \<open>
  A presented proof gates the answer: with DPoP configured and a proof in the request, the
  token endpoint runs only after the proof validated for this method and URL, and with that proof;
  the user-info endpoint runs only after it validated for the presented access token as well, and
  with that proof's key.  A proof that does not validate ends the request there.
\<close>

theorem dpop_proof_gates_answers:
  assumes dpop: "dpop_request fe rq = Some (rt, jwt)"
  shows "(handle_token fe rq w = (r, w') \<longrightarrow>
      (\<exists>e. pl_validate_proof (ofe_provider fe) rt jwt (rq_method rq) (ofe_issuer fe @ ''/token'') w = (Inl e, w')) \<or>
      (\<exists>p w1 y. pl_validate_proof (ofe_provider fe) rt jwt (rq_method rq) (ofe_issuer fe @ ''/token'') w = (Inr p, w1) \<and>
        pl_handle_token (ofe_provider fe) (rq_form_pairs rq) (pl_authorization (ofe_provider fe) rq)
          (ofe_issuer fe @ ''/token'') (Some p) w1 = (y, w'))) \<and>
    (handle_userinfo fe rq w = (r, w') \<longrightarrow>
      (case presented_access_token (ofe_provider fe) rq of
         None \<Rightarrow> w' = w
       | Some token \<Rightarrow>
           (\<exists>e. pl_validate_resource_proof (ofe_provider fe) rt jwt (rq_method rq) (ofe_issuer fe @ ''/userinfo'') token w = (Inl e, w')) \<or>
           (\<exists>p w1 y. pl_validate_resource_proof (ofe_provider fe) rt jwt (rq_method rq) (ofe_issuer fe @ ''/userinfo'') token w = (Inr p, w1) \<and>
             pl_userinfo (ofe_provider fe) token (Some (pl_jkt (ofe_provider fe) p)) w1 = (y, w'))))"
proof (intro conjI impI)
  obtain x w1 where x: "pl_validate_proof (ofe_provider fe) rt jwt (rq_method rq) (ofe_issuer fe @ ''/token'') w = (x, w1)"
    by (metis prod.exhaust)
  assume "handle_token fe rq w = (r, w')"
  with dpop_for_token_Some[OF dpop x] show "(\<exists>e. pl_validate_proof (ofe_provider fe) rt jwt (rq_method rq) (ofe_issuer fe @ ''/token'') w = (Inl e, w')) \<or>
      (\<exists>p w1 y. pl_validate_proof (ofe_provider fe) rt jwt (rq_method rq) (ofe_issuer fe @ ''/token'') w = (Inr p, w1) \<and>
        pl_handle_token (ofe_provider fe) (rq_form_pairs rq) (pl_authorization (ofe_provider fe) rq)
          (ofe_issuer fe @ ''/token'') (Some p) w1 = (y, w'))"
    unfolding x by (cases x) (auto simp: handle_token_def Let_def split: prod.splits sum.splits)
next
  assume u: "handle_userinfo fe rq w = (r, w')"
  show "case presented_access_token (ofe_provider fe) rq of
         None \<Rightarrow> w' = w
       | Some token \<Rightarrow>
           (\<exists>e. pl_validate_resource_proof (ofe_provider fe) rt jwt (rq_method rq) (ofe_issuer fe @ ''/userinfo'') token w = (Inl e, w')) \<or>
           (\<exists>p w1 y. pl_validate_resource_proof (ofe_provider fe) rt jwt (rq_method rq) (ofe_issuer fe @ ''/userinfo'') token w = (Inr p, w1) \<and>
             pl_userinfo (ofe_provider fe) token (Some (pl_jkt (ofe_provider fe) p)) w1 = (y, w'))"
  proof (cases "presented_access_token (ofe_provider fe) rq")
    case None
    with u show ?thesis by (simp add: handle_userinfo_def Let_def)
  next
    case (Some token)
    obtain x w1 where x: "pl_validate_resource_proof (ofe_provider fe) rt jwt (rq_method rq) (ofe_issuer fe @ ''/userinfo'') token w = (x, w1)"
      by (metis prod.exhaust)
    from dpop_for_resource_Some[OF dpop x] u show ?thesis
      by (cases x) (auto simp: Some x handle_userinfo_def Let_def split: prod.splits sum.splits)
  qed
qed

section \<open>Witnesses\<close>

definition toy_op :: "(int, string, string) op_lib" where
  "toy_op = \<lparr> ol_from_pairs = (\<lambda>ps. case ps of [] \<Rightarrow> Inl (oauth_new AccessDenied []) | (k, v) # _ \<Rightarrow> Inr v),
     ol_client_id = id, ol_redirect_uri = id, ol_state = (\<lambda>r. None), ol_has_prompt = (\<lambda>r p. False),
     ol_use_fragment = (\<lambda>r. False), ol_to_json = (\<lambda>r. Some (JString r)), ol_of_json = as_str,
     ol_validate = (\<lambda>r w. (Inr r, w)), ol_to_redirect = (\<lambda>e u f. hl_redirect toy_http u),
     ol_to_response = (\<lambda>e. hl_text toy_http 400 (oe_description e)), ol_client_name = Some,
     ol_take_extensions = (\<lambda>c. (c, None)), ol_client_json = (\<lambda>c. Some (JString c)), ol_digest_b64 = id,
     ol_print = (\<lambda>v. ''j''), ol_json_error = ErrInternal [] \<rparr>"

definition toy_provider :: "(int, string, string, string) provider_lib" where
  "toy_provider = \<lparr> pl_op = toy_op, pl_json = (\<lambda>v. Inr (hl_text toy_http 200 [])),
     pl_json_status = (\<lambda>s v. Inr (hl_text toy_http s [])), pl_response_new = (\<lambda>s. hl_text toy_http s []),
     pl_text = hl_text toy_http, pl_with_header = (\<lambda>k v r. r\<lparr> rs_headers := rs_headers r @ [(k, v)] \<rparr>),
     pl_discovery_document = JNull, pl_jwks_document = JNull,
     pl_redirect_with_claims = (\<lambda>r f a c e w. (map_sum id (hl_redirect toy_http) (f r), w)),
     pl_handle_token = (\<lambda>f a u p w. (Inr JNull, w + 1)), pl_userinfo = (\<lambda>t j w. (Inr JNull, w + 1)),
     pl_validate_proof = (\<lambda>rt j m u w. (if j = ''good'' then Inr j else Inl (DpopOther []), w)),
     pl_validate_resource_proof = (\<lambda>rt j m u t w. (if j = ''good'' then Inr j else Inl (DpopOther []), w)),
     pl_issue_nonce = (\<lambda>rt w. []), pl_jkt = id,
     pl_invalid_dpop_proof = oauth_new AccessDenied, pl_authorization = (\<lambda>rq. bm_get (rq_headers rq) ''authorization'') \<rparr>"

definition toy_runtime :: dpop_runtime where
  "toy_runtime = \<lparr> dr_proof_max_age = 300, dr_require_nonce = False, dr_nonce_lifetime = 300,
     dr_nonce_secret = [], dr_store = replay_store_new 300 \<rparr>"

definition toy_ofe :: "(int, string, string, string) oidc_frontend" where
  "toy_ofe = \<lparr> ofe_name = ''op'', ofe_issuer = ''https://p/op'', ofe_provider = toy_provider,
     ofe_mapper = toy_mapper, ofe_dpop = Some toy_runtime, ofe_backend = Some ''svc'' \<rparr>"

definition toy_authz :: "int req_context_scheme" where
  "toy_authz = context_new (toy_rq1\<lparr> rq_query_pairs := [(''client_id'', ''rp'')] \<rparr>) state_new 100"

definition toy_dpop_rq :: http_request where
  "toy_dpop_rq = toy_rq1\<lparr> rq_headers := [(''dpop'', ''bad'')] \<rparr>"

lemma toy_op_codec:
  "\<forall>req v. ol_to_json (pl_op (ofe_provider toy_ofe)) req = Some v \<longrightarrow> ol_of_json (pl_op (ofe_provider toy_ofe)) v = Some req"
  by (simp add: toy_ofe_def toy_provider_def toy_op_def)

lemma toy_authz_steps:
  "map_sum id (\<lambda>a. case a of StartAuth d b \<Rightarrow> id_requester d = Some ''rp'' | _ \<Rightarrow> False)
     (fst (handle_authorization toy_ofe toy_authz)) = Inr True"
  "state_wf (cx_state toy_authz)"
  by code_simp+

lemma toy_authz_start:
  obtains d b c1 where "handle_authorization toy_ofe toy_authz = (Inr (StartAuth d b), c1)"
    "c1 = snd (handle_authorization toy_ofe toy_authz)" "id_requester d = Some ''rp''"
proof (cases "handle_authorization toy_ofe toy_authz")
  case (Pair x c1)
  with toy_authz_steps(1) that show ?thesis
    by (cases x) (auto split: frontend_action.splits)
qed

lemma toy_redirect_law: "redirect_law toy_provider (\<lambda>req client s claims r. r = hl_redirect toy_http s)"
  by (auto simp: redirect_law_def toy_provider_def toy_op_def map_sum_def split: sum.splits)

lemma toy_answer_steps:
  "is_ok (fst (oidc_render toy_ofe (toy_login\<lparr> id_subject_id := Some ''alice'' \<rparr>) (snd (handle_authorization toy_ofe toy_authz))))"
  by code_simp

theorem authorization_bound_to_registration_witness:
  "load_authz_request toy_ofe (snd (handle_authorization toy_ofe toy_authz)) = Some ''rp'' \<and>
   (\<exists>r c3. oidc_render toy_ofe (toy_login\<lparr> id_subject_id := Some ''alice'' \<rparr>) (snd (handle_authorization toy_ofe toy_authz)) = (Inr r, c3) \<and>
      (r = hl_redirect toy_http ''alice'' \<or> (\<exists>e. r = ol_to_response toy_op e \<or> r = ol_to_redirect toy_op e
         (ol_redirect_uri toy_op ''rp'') (ol_use_fragment toy_op ''rp''))))"
proof -
  let ?a = "toy_login\<lparr> id_subject_id := Some ''alice'' \<rparr>"
  obtain d b c1 where h: "handle_authorization toy_ofe toy_authz = (Inr (StartAuth d b), c1)"
    "c1 = snd (handle_authorization toy_ofe toy_authz)" "id_requester d = Some ''rp''"
    by (rule toy_authz_start)
  have pl: "ofe_provider toy_ofe = toy_provider" "pl_op toy_provider = toy_op" by (simp_all add: toy_ofe_def toy_provider_def)
  obtain r c3 where r: "oidc_render toy_ofe ?a c1 = (Inr r, c3)"
    using toy_answer_steps h(2) by (metis is_ok_iff prod.collapse)
  note bound = authorization_bound_to_registration[OF h(1) toy_authz_steps(2) toy_op_codec refl refl, unfolded pl, OF toy_redirect_law]
  from bound obtain req where q: "id_requester d = Some (ol_client_id toy_op req)" "load_authz_request toy_ofe c1 = Some req"
    and ans: "r = hl_redirect toy_http ''alice'' \<or> (\<exists>e. r = ol_to_response toy_op e \<or> r = ol_to_redirect toy_op e
         (ol_redirect_uri toy_op req) (ol_use_fragment toy_op req))"
    using r by (fastforce simp: or_else_def)
  have "req = ''rp''" using q(1) h(3) by (simp add: toy_op_def)
  with q(2) ans r h(2) show ?thesis by blast
qed

theorem oidc_errors_redirect_validated_witness:
  "\<exists>e. fst (handle_authorization toy_ofe toy_ctx) = Inr (FRespond (ol_to_response (pl_op (ofe_provider toy_ofe)) e))"
proof -
  obtain x c' where h: "handle_authorization toy_ofe toy_ctx = (x, c')" by (metis prod.exhaust)
  have "map_sum id (\<lambda>a. case a of FRespond r \<Rightarrow> True | _ \<Rightarrow> False) (fst (handle_authorization toy_ofe toy_ctx)) = Inr True"
    by code_simp
  with h obtain r where "x = Inr (FRespond r)" by (cases x) (auto split: frontend_action.splits)
  with oidc_errors_redirect_validated[of toy_ofe toy_ctx r c' "ErrAuthn []"] h show ?thesis by auto
qed

theorem dpop_proof_gates_answers_witness:
  "snd (handle_token toy_ofe toy_dpop_rq 5) = 5"
proof -
  have d: "dpop_request toy_ofe toy_dpop_rq = Some (toy_runtime, ''bad'')"
    by (simp add: dpop_request_def toy_ofe_def toy_dpop_rq_def)
  have "pl_validate_proof (ofe_provider toy_ofe) rt ''bad'' m u w = (Inl (DpopOther []), w)" for rt m u w
    by (simp add: toy_ofe_def toy_provider_def)
  with dpop_proof_gates_answers[OF d, of 5 "fst (handle_token toy_ofe toy_dpop_rq 5)"
      "snd (handle_token toy_ofe toy_dpop_rq 5)"] show ?thesis by auto
qed

end
