(* ===== verification/Oidc_Backend.thy ===== *)
theory Oidc_Backend
  imports Oidc_Common
begin

text \<open>
  The OpenID Connect backend of \<open>oidc_backend.rs\<close>: the proxy as relying party of an upstream
  provider.  The relying-party library (discovery, the authorization URL, code exchange, key sets,
  ID-token verification, user info), the random tokens and the clock are the parameter record
  \<open>rp_lib\<close>; its network calls change the world of the context.  Shown: a callback succeeds only on
  the state, nonce and verifier of the login this session started, with the subject the verified ID
  token names, and only once.
\<close>

section \<open>The relying-party library\<close>

datatype 'k client_auth = AuthNone | SecretBasic string | SecretPost string | PrivateKeyJwt 'k

record 'k rp_client =
  rc_client_id :: string
  rc_redirect_uri :: string
  rc_auth :: "'k client_auth"
  rc_scope :: string

record provider_info =
  pi_issuer :: string
  pi_authorization_endpoint :: string
  pi_token_endpoint :: string
  pi_userinfo_endpoint :: "string option"
  pi_jwks_uri :: "string option"

record token_set =
  ts_id_token :: string
  ts_access_token :: string

record id_claims =
  ic_sub :: "string option"
  ic_extra :: jmap

record ('w, 'k, 'j) rp_lib =
  rl_random_token :: "nat \<Rightarrow> 'w \<Rightarrow> string \<times> 'w"
  rl_s256_challenge :: "string \<Rightarrow> string"
  rl_discover :: "string \<Rightarrow> 'w \<Rightarrow> provider_info result \<times> 'w"
  rl_authorization_url ::
    "provider_info \<Rightarrow> 'k rp_client \<Rightarrow> string \<Rightarrow> string \<Rightarrow> string option \<Rightarrow> (string \<times> string) list \<Rightarrow> string result"
  rl_exchange_code :: "provider_info \<Rightarrow> 'k rp_client \<Rightarrow> string \<Rightarrow> string option \<Rightarrow> 'w \<Rightarrow> token_set result \<times> 'w"
  rl_fetch_jwks :: "string \<Rightarrow> string \<Rightarrow> 'w \<Rightarrow> 'j result \<times> 'w"
  rl_verify_id_token ::
    "'j \<Rightarrow> string \<Rightarrow> string \<Rightarrow> string \<Rightarrow> string option \<Rightarrow> string list \<Rightarrow> string list \<Rightarrow> 'w \<Rightarrow> id_claims result"
  rl_fetch_userinfo :: "string \<Rightarrow> string \<Rightarrow> string \<Rightarrow> string \<Rightarrow> 'w \<Rightarrow> json result \<times> 'w"
  rl_claims_to_attributes :: "json \<Rightarrow> attrs"
  rl_now_rfc3339 :: "'w \<Rightarrow> string"
  rl_param :: "http_request \<Rightarrow> string \<Rightarrow> string option"
  rl_redirect :: "string \<Rightarrow> response"

text \<open>What building a backend uses: the URL parser, the keys and the algorithm type.\<close>

record 'k build_lib =
  bl_parse_url :: "string \<Rightarrow> url_parts option"
  bl_keys :: "'k key_lib"
  bl_dec_alg :: "json \<Rightarrow> string option"
  bl_alg_supported :: "string \<Rightarrow> bool"

section \<open>Configuration\<close>

record oidc_backend_config =
  oc_id_token_alg :: string
  oc_issuer :: "string option"
  oc_authorization_endpoint :: "string option"
  oc_token_endpoint :: "string option"
  oc_userinfo_endpoint :: "string option"
  oc_jwks_uri :: "string option"
  oc_client_id :: string
  oc_client_secret :: "string option"
  oc_auth_method :: "string option"
  oc_scope :: "string option"
  oc_signing_key_path :: "string option"
  oc_signing_jwk :: "json option"
  oc_signing_jwk_path :: "string option"
  oc_signing_algorithm :: "string option"
  oc_signing_key_id :: "string option"

definition dec_oidc_backend :: "(json \<Rightarrow> string option) \<Rightarrow> json \<Rightarrow> oidc_backend_config option" where
  "dec_oidc_backend dec_alg v = do {
     m \<leftarrow> as_object v;
     alg \<leftarrow> dec_default dec_alg default_id_token_algorithm ''id_token_signed_response_alg'' m;
     iss \<leftarrow> dec_default dec_opt_str None ''issuer'' m;
     ae \<leftarrow> dec_default dec_opt_str None ''authorization_endpoint'' m;
     te \<leftarrow> dec_default dec_opt_str None ''token_endpoint'' m;
     ue \<leftarrow> dec_default dec_opt_str None ''userinfo_endpoint'' m;
     ju \<leftarrow> dec_default dec_opt_str None ''jwks_uri'' m;
     cid \<leftarrow> dec_required as_str ''client_id'' m;
     cs \<leftarrow> dec_default dec_opt_str None ''client_secret'' m;
     am \<leftarrow> dec_default dec_opt_str None ''token_endpoint_auth_method'' m;
     sc \<leftarrow> dec_default dec_opt_str None ''scope'' m;
     kp \<leftarrow> dec_default dec_opt_str None ''signing_key_path'' m;
     kj \<leftarrow> dec_default dec_opt_json None ''signing_jwk'' m;
     kjp \<leftarrow> dec_default dec_opt_str None ''signing_jwk_path'' m;
     ka \<leftarrow> dec_default dec_opt_str None ''signing_algorithm'' m;
     kid \<leftarrow> dec_default dec_opt_str None ''signing_key_id'' m;
     Some \<lparr> oc_id_token_alg = alg, oc_issuer = iss, oc_authorization_endpoint = ae, oc_token_endpoint = te,
       oc_userinfo_endpoint = ue, oc_jwks_uri = ju, oc_client_id = cid, oc_client_secret = cs,
       oc_auth_method = am, oc_scope = sc, oc_signing_key_path = kp, oc_signing_jwk = kj,
       oc_signing_jwk_path = kjp, oc_signing_algorithm = ka, oc_signing_key_id = kid \<rparr> }"

record 'k oidc_backend =
  ob_name :: string
  ob_client :: "'k rp_client"
  ob_config :: oidc_backend_config
  ob_mapper :: attribute_mapper

definition configured_urls :: "oidc_backend_config \<Rightarrow> (string \<times> string option) list" where
  "configured_urls cfg =
     [(''issuer'', oc_issuer cfg), (''authorization_endpoint'', oc_authorization_endpoint cfg),
      (''token_endpoint'', oc_token_endpoint cfg), (''userinfo_endpoint'', oc_userinfo_endpoint cfg),
      (''jwks_uri'', oc_jwks_uri cfg)]"

definition check_url :: "'k build_lib \<Rightarrow> string \<Rightarrow> string \<times> string option \<Rightarrow> unit result" where
  "check_url bl name e =
     (case e of (what, url) \<Rightarrow>
        (case url of None \<Rightarrow> Inr ()
         | Some u \<Rightarrow> require_https (bl_parse_url bl) u (''oidc backend '' @ name @ '': '' @ what)))"

definition backend_client_auth :: "'k build_lib \<Rightarrow> oidc_backend_config \<Rightarrow> 'k client_auth result" where
  "backend_client_auth bl cfg =
     (if oc_auth_method cfg = Some ''none'' then Inr AuthNone
      else if oc_auth_method cfg = Some ''client_secret_post'' then
        Inr (SecretPost (unwrap_or [] (oc_client_secret cfg)))
      else if oc_auth_method cfg = Some ''private_key_jwt'' then
        bind_result (load_signing_key (bl_keys bl) (oc_signing_jwk cfg) (oc_signing_key_path cfg)
            (oc_signing_jwk_path cfg) (oc_signing_algorithm cfg) (oc_signing_key_id cfg))
          (\<lambda>k. Inr (PrivateKeyJwt k))
      else case oc_client_secret cfg of Some s \<Rightarrow> Inr (SecretBasic s) | None \<Rightarrow> Inr AuthNone)"

definition oidc_backend_configure :: "'k build_lib \<Rightarrow> build_context \<Rightarrow> 'k oidc_backend result" where
  "oidc_backend_configure bl bx =
     bind_result (parse_config (dec_oidc_backend (bl_dec_alg bl)) bx) (\<lambda>cfg.
     bind_result (validate_id_token_algorithm (bl_alg_supported bl) (oc_id_token_alg cfg)) (\<lambda>_.
     if (oc_authorization_endpoint cfg \<noteq> None \<or> oc_token_endpoint cfg \<noteq> None) \<and> oc_issuer cfg = None then
       Inl (ErrConfig (''oidc backend '' @ bx_name bx @ '': issuer is required when endpoints are configured statically''))
     else
     bind_result (traverse (check_url bl (bx_name bx)) (configured_urls cfg)) (\<lambda>_.
     bind_result (backend_client_auth bl cfg) (\<lambda>auth.
     Inr \<lparr> ob_name = bx_name bx,
       ob_client = \<lparr> rc_client_id = oc_client_id cfg, rc_redirect_uri = module_base bx @ ''/callback'',
         rc_auth = auth, rc_scope = unwrap_or ''openid profile email'' (oc_scope cfg) \<rparr>,
       ob_config = cfg, ob_mapper = bx_attribute_mapper bx \<rparr>))))"

section \<open>Starting a login\<close>

definition backend_provider_info :: "('w, 'k, 'j) rp_lib \<Rightarrow> 'k oidc_backend \<Rightarrow> 'w \<Rightarrow> provider_info result \<times> 'w" where
  "backend_provider_info rl ob w =
     (let cfg = ob_config ob
      in case (oc_authorization_endpoint cfg, oc_token_endpoint cfg) of
           (Some a, Some t) \<Rightarrow>
             (bind_result (ok_or (oc_issuer cfg) (ErrConfig ''oidc backend: issuer is required with static endpoints''))
                (\<lambda>iss. Inr \<lparr> pi_issuer = iss, pi_authorization_endpoint = a, pi_token_endpoint = t,
                  pi_userinfo_endpoint = oc_userinfo_endpoint cfg, pi_jwks_uri = oc_jwks_uri cfg \<rparr>), w)
         | _ \<Rightarrow>
             (case oc_issuer cfg of
                None \<Rightarrow> (Inl (ErrConfig ''oidc backend needs issuer or explicit endpoints''), w)
              | Some iss \<Rightarrow> rl_discover rl iss w))"

definition upstream_prompt :: "internal_data \<Rightarrow> string option result" where
  "upstream_prompt d =
     (case (id_force_authn d, id_is_passive d) of
        (False, False) \<Rightarrow> Inr None
      | (True, False) \<Rightarrow> Inr (Some ''login'')
      | (False, True) \<Rightarrow> Inr (Some ''none'')
      | (True, True) \<Rightarrow> Inl (ErrAuthn ''force_authn and is_passive cannot be honored together upstream''))"

definition draw_tokens :: "('w, 'k, 'j) rp_lib \<Rightarrow> 'w \<Rightarrow> (string \<times> string \<times> string) \<times> 'w" where
  "draw_tokens rl w =
     (case rl_random_token rl 24 w of (state, w) \<Rightarrow>
      case rl_random_token rl 24 w of (nonce, w) \<Rightarrow>
      case rl_random_token rl 32 w of (verifier, w) \<Rightarrow> ((state, nonce, verifier), w))"

definition remember_login :: "string \<Rightarrow> string \<Rightarrow> string \<Rightarrow> string \<Rightarrow> bool \<Rightarrow> session \<Rightarrow> session" where
  "remember_login ns state nonce verifier silent s =
     set_value ns ''is_passive'' (JBool silent) (set_str ns ''code_verifier'' verifier
       (set_str ns ''oidc_nonce'' nonce (set_str ns ''oidc_state'' state s)))"

definition oidc_start_auth :: "('w, 'k, 'j) rp_lib \<Rightarrow> 'k oidc_backend \<Rightarrow> internal_data \<Rightarrow> ('w, response) handler" where
  "oidc_start_auth rl ob d =
     bind_flow (in_world (backend_provider_info rl ob)) (\<lambda>provider.
     bind_flow (lift_result (upstream_prompt d)) (\<lambda>prompt ctx.
     case in_world (draw_tokens rl) ctx of ((state, nonce, verifier), ctx) \<Rightarrow>
       (let challenge = rl_s256_challenge rl verifier;
            ctx = with_state (remember_login (ob_name ob) state nonce verifier (id_is_passive d)) ctx;
            extra = (case prompt of Some p \<Rightarrow> [(''prompt'', p)] | None \<Rightarrow> [])
        in case rl_authorization_url rl provider (ob_client ob) state nonce (Some challenge) extra of
             Inl e \<Rightarrow> (Inl e, ctx)
           | Inr url \<Rightarrow> (Inr (rl_redirect rl url), ctx))))"

section \<open>The callback\<close>

definition merge_json :: "json \<Rightarrow> json \<Rightarrow> json" where
  "merge_json base extra =
     (case (as_object base, as_object extra) of
        (Some b, Some e) \<Rightarrow>
          JObject (foldl (\<lambda>b (k, v). if jm_get b k = None then jm_insert k v b else b) b e)
      | _ \<Rightarrow> base)"

definition require_matching_userinfo_subject :: "json \<Rightarrow> string \<Rightarrow> unit result" where
  "require_matching_userinfo_subject userinfo sub =
     bind_result (ok_or (Option.bind (as_object userinfo) (\<lambda>m. Option.bind (jm_get m ''sub'') as_str))
         (ErrAuthn ''userinfo response missing sub''))
       (\<lambda>s. if s \<noteq> sub then Inl (ErrAuthn ''userinfo sub does not match id_token sub'') else Inr ())"

definition merged_claims ::
    "('w, 'k, 'j) rp_lib \<Rightarrow> provider_info \<Rightarrow> token_set \<Rightarrow> id_claims \<Rightarrow> string \<Rightarrow> ('w, json) handler" where
  "merged_claims rl provider tokens claims sub =
     (case pi_userinfo_endpoint provider of
        None \<Rightarrow> lift_result (Inr (JObject (ic_extra claims)))
      | Some ep \<Rightarrow>
          bind_flow (in_world (rl_fetch_userinfo rl ep (ts_access_token tokens) sub (pi_issuer provider))) (\<lambda>userinfo.
          bind_flow (lift_result (require_matching_userinfo_subject userinfo sub)) (\<lambda>_.
          lift_result (Inr (merge_json (JObject (ic_extra claims)) userinfo)))))"

definition upstream_answer ::
    "('w, 'k, 'j) rp_lib \<Rightarrow> 'k oidc_backend \<Rightarrow> provider_info \<Rightarrow> id_claims \<Rightarrow> string \<Rightarrow> json \<Rightarrow> 'w \<Rightarrow> internal_data" where
  "upstream_answer rl ob provider claims sub merged w =
     \<lparr> id_auth_info = \<lparr> ai_class_ref = Option.bind (jm_get (ic_extra claims) ''acr'') as_str,
         ai_timestamp = Some (rl_now_rfc3339 rl w), ai_issuer = Some (pi_issuer provider) \<rparr>,
       id_requester = None, id_requester_name = [], id_subject_id = Some sub, id_subject_type = Public,
       id_attributes = to_internal (ob_mapper ob) ''openid'' (rl_claims_to_attributes rl merged),
       id_force_authn = False, id_is_passive = False \<rparr>"

definition redeem_code ::
    "('w, 'k, 'j) rp_lib \<Rightarrow> 'k oidc_backend \<Rightarrow> string \<Rightarrow> string \<Rightarrow> string option \<Rightarrow> ('w, backend_action) handler" where
  "redeem_code rl ob code nonce verifier =
     bind_flow (in_world (backend_provider_info rl ob)) (\<lambda>provider.
     bind_flow (in_world (rl_exchange_code rl provider (ob_client ob) code verifier)) (\<lambda>tokens.
     bind_flow (lift_result (ok_or (pi_jwks_uri provider) (ErrConfig ''provider has no jwks_uri''))) (\<lambda>jwks_uri.
     bind_flow (in_world (rl_fetch_jwks rl jwks_uri (pi_issuer provider))) (\<lambda>jwks.
     bind_flow (in_world (\<lambda>w. (rl_verify_id_token rl jwks (ts_id_token tokens) (pi_issuer provider)
         (rc_client_id (ob_client ob)) (Some nonce) [oc_id_token_alg (ob_config ob)] [] w, w))) (\<lambda>claims.
     bind_flow (lift_result (ok_or (ic_sub claims) (ErrAuthn ''id_token missing sub''))) (\<lambda>sub.
     bind_flow (merged_claims rl provider tokens claims sub) (\<lambda>merged ctx.
       (Inr (AuthResponse (upstream_answer rl ob provider claims sub merged (req_context.more ctx))),
        with_state (clear_namespace (ob_name ob)) ctx))))))))"

definition oidc_backend_handle :: "('w, 'k, 'j) rp_lib \<Rightarrow> 'k oidc_backend \<Rightarrow> string \<Rightarrow> ('w, backend_action) handler" where
  "oidc_backend_handle rl ob route_id ctx =
     (if route_id \<noteq> ''callback'' then (Inl (ErrNoBoundEndpoint route_id), ctx)
      else case get_str (cx_state ctx) (ob_name ob) ''oidc_state'' of
        None \<Rightarrow> (Inl (ErrAuthn ''missing stored state''), ctx)
      | Some expected \<Rightarrow>
     (case rl_param rl (cx_request ctx) ''state'' of
        None \<Rightarrow> (Inl (ErrBadRequest ''missing state''), ctx)
      | Some got \<Rightarrow>
     if got \<noteq> expected then (Inl (ErrAuthn ''state mismatch''), ctx)
     else case rl_param rl (cx_request ctx) ''error'' of
        Some err \<Rightarrow>
          (Inl (ErrAuthn (''upstream error: '' @ err)),
           if unwrap_or False (Option.bind (get_value (cx_state ctx) (ob_name ob) ''is_passive'') as_bool)
              \<and> err = ''login_required''
           then mark_interaction_required ctx else ctx)
      | None \<Rightarrow>
     (case rl_param rl (cx_request ctx) ''code'' of
        None \<Rightarrow> (Inl (ErrBadRequest ''missing code''), ctx)
      | Some code \<Rightarrow>
     (case get_str (cx_state ctx) (ob_name ob) ''oidc_nonce'' of
        None \<Rightarrow> (Inl (ErrAuthn ''missing stored nonce''), ctx)
      | Some nonce \<Rightarrow>
          redeem_code rl ob code nonce (get_str (cx_state ctx) (ob_name ob) ''code_verifier'') ctx))))"

definition oidc_backend_be :: "('w, 'k, 'j) rp_lib \<Rightarrow> 'k oidc_backend \<Rightarrow> 'w backend" where
  "oidc_backend_be rl ob =
     \<lparr> be_name = ob_name ob,
       be_register = [route_exact (ob_name ob @ ''/callback'') ''callback''],
       be_start_auth = oidc_start_auth rl ob,
       be_handle = oidc_backend_handle rl ob \<rparr>"

definition oidc_backend_build :: "'k build_lib \<Rightarrow> ('w, 'k, 'j) rp_lib \<Rightarrow> 'w backend ctor" where
  "oidc_backend_build bl rl bx = bind_result (oidc_backend_configure bl bx) (\<lambda>ob. Inr (oidc_backend_be rl ob))"

section \<open>What a login binds\<close>

lemma remember_login_get:
  assumes "state_wf s"
  shows "get_str (remember_login ns state nonce verifier silent s) ns ''oidc_state'' = Some state"
    "get_str (remember_login ns state nonce verifier silent s) ns ''oidc_nonce'' = Some nonce"
    "get_str (remember_login ns state nonce verifier silent s) ns ''code_verifier'' = Some verifier"
    "get_value (remember_login ns state nonce verifier silent s) ns ''is_passive'' = Some (JBool silent)"
    "state_wf (remember_login ns state nonce verifier silent s)"
    "n \<noteq> ns \<Longrightarrow> get_value (remember_login ns state nonce verifier silent s) n k = get_value s n k"
  using assms by (simp_all add: remember_login_def get_str_value set_str_def get_value_set_value)

lemma oidc_start_authD:
  assumes "oidc_start_auth rl ob d c = (Inr r, c')"
  shows "\<exists>provider w1 prompt state nonce verifier w2 url.
    backend_provider_info rl ob (req_context.more c) = (Inr provider, w1) \<and> upstream_prompt d = Inr prompt \<and>
    draw_tokens rl w1 = ((state, nonce, verifier), w2) \<and>
    rl_authorization_url rl provider (ob_client ob) state nonce (Some (rl_s256_challenge rl verifier))
      (case prompt of Some p \<Rightarrow> [(''prompt'', p)] | None \<Rightarrow> []) = Inr url \<and> r = rl_redirect rl url \<and>
    c' = with_state (remember_login (ob_name ob) state nonce verifier (id_is_passive d)) (with_world w2 c)"
proof -
  from assms obtain provider w1 prompt where h: "backend_provider_info rl ob (req_context.more c) = (Inr provider, w1)"
      "upstream_prompt d = Inr prompt"
      "(case in_world (draw_tokens rl) (with_world w1 c) of ((state, nonce, verifier), ctx) \<Rightarrow>
       (let challenge = rl_s256_challenge rl verifier;
            ctx = with_state (remember_login (ob_name ob) state nonce verifier (id_is_passive d)) ctx;
            extra = (case prompt of Some p \<Rightarrow> [(''prompt'', p)] | None \<Rightarrow> [])
        in case rl_authorization_url rl provider (ob_client ob) state nonce (Some challenge) extra of
             Inl e \<Rightarrow> (Inl e, ctx)
           | Inr url \<Rightarrow> (Inr (rl_redirect rl url), ctx))) = (Inr r, c')"
    unfolding oidc_start_auth_def bind_flow_eq_Inr in_world_eq lift_result_eq by auto
  obtain state nonce verifier w2 where t: "draw_tokens rl w1 = ((state, nonce, verifier), w2)"
    by (metis prod.exhaust)
  with h(3) show ?thesis using h(1,2)
    by (auto simp: in_world_def Let_def split: sum.splits)
qed

lemma redeem_codeD:
  assumes "redeem_code rl ob code nonce verifier c = (Inr a, c')"
  shows "\<exists>provider w1 tokens w2 uri jwks w3 claims sub merged w4.
    backend_provider_info rl ob (req_context.more c) = (Inr provider, w1) \<and>
    rl_exchange_code rl provider (ob_client ob) code verifier w1 = (Inr tokens, w2) \<and>
    pi_jwks_uri provider = Some uri \<and> rl_fetch_jwks rl uri (pi_issuer provider) w2 = (Inr jwks, w3) \<and>
    rl_verify_id_token rl jwks (ts_id_token tokens) (pi_issuer provider) (rc_client_id (ob_client ob))
      (Some nonce) [oc_id_token_alg (ob_config ob)] [] w3 = Inr claims \<and>
    ic_sub claims = Some sub \<and>
    merged_claims rl provider tokens claims sub (with_world w3 c) = (Inr merged, with_world w4 c) \<and>
    a = AuthResponse (upstream_answer rl ob provider claims sub merged w4) \<and>
    c' = with_state (clear_namespace (ob_name ob)) (with_world w4 c)"
proof -
  have m: "\<exists>w'. c2 = with_world w' c1" if "merged_claims rl provider tokens claims sub c1 = (Inr merged, c2)"
    for provider tokens claims sub c1 merged c2
  proof -
    have "\<exists>w'. c1 = with_world w' c1" by (rule exI[of _ "req_context.more c1"]) simp
    with that show ?thesis
      by (cases "pi_userinfo_endpoint provider")
        (auto simp: merged_claims_def lift_result_eq bind_flow_eq_Inr in_world_eq)
  qed
  from assms obtain provider w1 tokens w2 uri jwks w3 claims sub merged c4 where h:
    "backend_provider_info rl ob (req_context.more c) = (Inr provider, w1)"
    "rl_exchange_code rl provider (ob_client ob) code verifier w1 = (Inr tokens, w2)"
    "pi_jwks_uri provider = Some uri" "rl_fetch_jwks rl uri (pi_issuer provider) w2 = (Inr jwks, w3)"
    "rl_verify_id_token rl jwks (ts_id_token tokens) (pi_issuer provider) (rc_client_id (ob_client ob))
      (Some nonce) [oc_id_token_alg (ob_config ob)] [] w3 = Inr claims"
    "ic_sub claims = Some sub"
    "merged_claims rl provider tokens claims sub (with_world w3 c) = (Inr merged, c4)"
    "a = AuthResponse (upstream_answer rl ob provider claims sub merged (req_context.more c4))"
    "c' = with_state (clear_namespace (ob_name ob)) c4"
    by (auto simp: redeem_code_def bind_flow_eq_Inr in_world_eq lift_result_eq)
  from m[OF h(7)] obtain w4 where "c4 = with_world w4 c" by auto
  with h show ?thesis by auto
qed

lemma merged_claims_subject:
  assumes "merged_claims rl provider tokens claims sub c = (Inr merged, c')" "pi_userinfo_endpoint provider = Some ep"
  shows "\<exists>userinfo w m. rl_fetch_userinfo rl ep (ts_access_token tokens) sub (pi_issuer provider) (req_context.more c)
      = (Inr userinfo, w) \<and> userinfo = JObject m \<and> jm_get m ''sub'' = Some (JString sub)"
  using assms
  by (auto simp: merged_claims_def bind_flow_eq_Inr in_world_eq lift_result_eq bind_result_eq_Inr
      require_matching_userinfo_subject_def bind_eq_Some_conv split: if_split_asm)

lemma oidc_backend_handleD:
  assumes "oidc_backend_handle rl ob i c = (Inr a, c')"
  shows "\<exists>state code nonce. i = ''callback'' \<and> get_str (cx_state c) (ob_name ob) ''oidc_state'' = Some state \<and>
    rl_param rl (cx_request c) ''state'' = Some state \<and> rl_param rl (cx_request c) ''error'' = None \<and>
    rl_param rl (cx_request c) ''code'' = Some code \<and>
    get_str (cx_state c) (ob_name ob) ''oidc_nonce'' = Some nonce \<and>
    redeem_code rl ob code nonce (get_str (cx_state c) (ob_name ob) ''code_verifier'') c = (Inr a, c')"
  using assms by (auto simp: oidc_backend_handle_def split: if_split_asm option.splits)

text \<open>
  The provider a backend may talk to in a given world, from its configuration alone: the issuer must
  be configured; with both endpoints configured the provider is exactly what the configuration
  says, else it is what discovery returns for that issuer.
\<close>

definition configured_provider ::
    "('w, 'k, 'j) rp_lib \<Rightarrow> oidc_backend_config \<Rightarrow> 'w \<Rightarrow> provider_info \<Rightarrow> 'w \<Rightarrow> bool" where
  "configured_provider rl cfg w p w' \<longleftrightarrow>
     (\<exists>iss. oc_issuer cfg = Some iss \<and>
       (if oc_authorization_endpoint cfg \<noteq> None \<and> oc_token_endpoint cfg \<noteq> None then
          pi_issuer p = iss \<and> Some (pi_authorization_endpoint p) = oc_authorization_endpoint cfg \<and>
          Some (pi_token_endpoint p) = oc_token_endpoint cfg \<and>
          pi_userinfo_endpoint p = oc_userinfo_endpoint cfg \<and> pi_jwks_uri p = oc_jwks_uri cfg \<and> w' = w
        else rl_discover rl iss w = (Inr p, w')))"

lemma backend_provider_info_Inr:
  "backend_provider_info rl ob w = (Inr p, w') \<Longrightarrow> configured_provider rl (ob_config ob) w p w'"
  by (auto simp: backend_provider_info_def configured_provider_def Let_def bind_result_eq_Inr split: option.splits)

text \<open>
  C5. An OpenID login is bound to the session that started it.  When a callback on the state that
  starting the login left succeeds: the redirect went to the configured provider (the one the
  configuration spells out, or the one discovery returned for the configured issuer) and so do the
  token exchange, the key fetch and the user info request of the callback; the state parameter is the
  one of the redirect; the code was exchanged with the verifier whose challenge that redirect carried;
  the ID token was verified with the keys fetched from that provider for its issuer, the client and
  the configured algorithm, with the nonce of the redirect; subject and issuer of the answer are the
  token's and the provider's, and where user info is read it names the same subject; the login state
  is consumed, so the same callback fails afterwards.
\<close>

theorem oidc_login_bound:
  assumes start: "oidc_start_auth rl ob d c = (Inr r, c1)" and wf: "state_wf (cx_state c)"
    and state: "cx_state c2 = cx_state c1"
    and done': "oidc_backend_handle rl ob i c2 = (Inr a, c3)"
  shows "\<exists>state nonce verifier p w extra url code q w0 tokens w1 uri jwks w2 claims sub merged w3.
    configured_provider rl (ob_config ob) (req_context.more c) p w \<and>
    rl_authorization_url rl p (ob_client ob) state nonce (Some (rl_s256_challenge rl verifier)) extra = Inr url \<and>
    r = rl_redirect rl url \<and> rl_param rl (cx_request c2) ''state'' = Some state \<and>
    rl_param rl (cx_request c2) ''code'' = Some code \<and>
    configured_provider rl (ob_config ob) (req_context.more c2) q w0 \<and>
    rl_exchange_code rl q (ob_client ob) code (Some verifier) w0 = (Inr tokens, w1) \<and>
    pi_jwks_uri q = Some uri \<and> rl_fetch_jwks rl uri (pi_issuer q) w1 = (Inr jwks, w2) \<and>
    rl_verify_id_token rl jwks (ts_id_token tokens) (pi_issuer q) (rc_client_id (ob_client ob)) (Some nonce)
      [oc_id_token_alg (ob_config ob)] [] w2 = Inr claims \<and>
    ic_sub claims = Some sub \<and> a = AuthResponse (upstream_answer rl ob q claims sub merged w3) \<and>
    (\<forall>ep. pi_userinfo_endpoint q = Some ep \<longrightarrow> (\<exists>m w. rl_fetch_userinfo rl ep (ts_access_token tokens) sub
       (pi_issuer q) w2 = (Inr (JObject m), w) \<and> jm_get m ''sub'' = Some (JString sub))) \<and>
    fst (oidc_backend_handle rl ob i (c2\<lparr> cx_state := cx_state c3 \<rparr>)) = Inl (ErrAuthn ''missing stored state'')"
proof -
  from oidc_start_authD[OF start] obtain p w state nonce verifier w2 url extra where s:
    "configured_provider rl (ob_config ob) (req_context.more c) p w"
    "rl_authorization_url rl p (ob_client ob) state nonce (Some (rl_s256_challenge rl verifier)) extra = Inr url"
    "r = rl_redirect rl url"
    "cx_state c1 = remember_login (ob_name ob) state nonce verifier (id_is_passive d) (cx_state c)"
    using backend_provider_info_Inr by fastforce
  note kept = remember_login_get[OF wf, where ns = "ob_name ob" and state = state and nonce = nonce
      and verifier = verifier and silent = "id_is_passive d", folded s(4), folded state]
  from oidc_backend_handleD[OF done'] kept obtain code where h: "i = ''callback''"
    "rl_param rl (cx_request c2) ''state'' = Some state" "rl_param rl (cx_request c2) ''code'' = Some code"
    "redeem_code rl ob code nonce (Some verifier) c2 = (Inr a, c3)" by auto
  from redeem_codeD[OF h(4)] obtain q w0 tokens w1 uri jwks w2 claims sub merged w3 where x:
    "backend_provider_info rl ob (req_context.more c2) = (Inr q, w0)"
    "rl_exchange_code rl q (ob_client ob) code (Some verifier) w0 = (Inr tokens, w1)"
    "pi_jwks_uri q = Some uri" "rl_fetch_jwks rl uri (pi_issuer q) w1 = (Inr jwks, w2)"
    "rl_verify_id_token rl jwks (ts_id_token tokens) (pi_issuer q) (rc_client_id (ob_client ob))
      (Some nonce) [oc_id_token_alg (ob_config ob)] [] w2 = Inr claims"
    "ic_sub claims = Some sub"
    "merged_claims rl q tokens claims sub (with_world w2 c2) = (Inr merged, with_world w3 c2)"
    "a = AuthResponse (upstream_answer rl ob q claims sub merged w3)"
    "c3 = with_state (clear_namespace (ob_name ob)) (with_world w3 c2)" by blast
  have "get_str (cx_state c3) (ob_name ob) ''oidc_state'' = None"
    using kept(5) by (simp add: x(9) get_str_clear)
  then have again: "fst (oidc_backend_handle rl ob i (c2\<lparr> cx_state := cx_state c3 \<rparr>)) = Inl (ErrAuthn ''missing stored state'')"
    by (simp add: oidc_backend_handle_def h(1))
  have "\<forall>ep. pi_userinfo_endpoint q = Some ep \<longrightarrow> (\<exists>m w. rl_fetch_userinfo rl ep (ts_access_token tokens) sub
       (pi_issuer q) w2 = (Inr (JObject m), w) \<and> jm_get m ''sub'' = Some (JString sub))"
    using merged_claims_subject[OF x(7)] by fastforce
  with s(1-3) h(2,3) backend_provider_info_Inr[OF x(1)] x(2-6,8) again show ?thesis by blast
qed

section \<open>What a built backend talks to\<close>

lemma oidc_configureD:
  assumes "oidc_backend_configure bl bx = Inr ob"
  shows "(what, Some u) \<in> set (configured_urls (ob_config ob)) \<Longrightarrow> require_https (bl_parse_url bl) u
      (''oidc backend '' @ bx_name bx @ '': '' @ what) = Inr ()"
    "oc_authorization_endpoint (ob_config ob) \<noteq> None \<or> oc_token_endpoint (ob_config ob) \<noteq> None \<Longrightarrow>
      oc_issuer (ob_config ob) \<noteq> None"
    "rc_client_id (ob_client ob) = oc_client_id (ob_config ob)"
    "oc_id_token_alg (ob_config ob) \<notin> {''HS256'', ''HS384'', ''HS512''}" "bl_alg_supported bl (oc_id_token_alg (ob_config ob))"
proof -
  from assms obtain auth us where h:
    "traverse (check_url bl (bx_name bx)) (configured_urls (ob_config ob)) = Inr us"
    "validate_id_token_algorithm (bl_alg_supported bl) (oc_id_token_alg (ob_config ob)) = Inr ()"
    "\<not> ((oc_authorization_endpoint (ob_config ob) \<noteq> None \<or> oc_token_endpoint (ob_config ob) \<noteq> None) \<and>
        oc_issuer (ob_config ob) = None)" "rc_client_id (ob_client ob) = oc_client_id (ob_config ob)"
    by (auto simp: oidc_backend_configure_def bind_result_eq_Inr split: if_split_asm)
  show "require_https (bl_parse_url bl) u (''oidc backend '' @ bx_name bx @ '': '' @ what) = Inr ()"
    if "(what, Some u) \<in> set (configured_urls (ob_config ob))"
    using traverse_member[OF h(1) that] by (auto simp: check_url_def)
  show "oc_issuer (ob_config ob) \<noteq> None"
    if "oc_authorization_endpoint (ob_config ob) \<noteq> None \<or> oc_token_endpoint (ob_config ob) \<noteq> None"
    using h(3) that by auto
  show "rc_client_id (ob_client ob) = oc_client_id (ob_config ob)" by (rule h(4))
  show "oc_id_token_alg (ob_config ob) \<notin> {''HS256'', ''HS384'', ''HS512''}" "bl_alg_supported bl (oc_id_token_alg (ob_config ob))"
    using h(2) by (simp_all add: validate_id_token_algorithm_def split: if_split_asm)
qed

text \<open>
  A backend that was built is closed by configuration: every endpoint and issuer it names is
  https (or http on a loopback host), static endpoints come with the issuer ID tokens are checked
  against, and the algorithm it accepts is asymmetric and implemented; with static endpoints no
  discovery happens.
\<close>

theorem oidc_backend_closed:
  assumes built: "oidc_backend_configure bl bx = Inr ob"
  shows "(\<forall>(what, url) \<in> set (configured_urls (ob_config ob)). \<forall>u. url = Some u \<longrightarrow>
      (\<exists>p. bl_parse_url bl u = Some p \<and>
        (up_scheme p = ''https'' \<or> up_scheme p = ''http'' \<and> is_loopback (up_host p)))) \<and>
    oc_id_token_alg (ob_config ob) \<notin> {''HS256'', ''HS384'', ''HS512''} \<and>
    bl_alg_supported bl (oc_id_token_alg (ob_config ob)) \<and>
    (\<forall>t a. oc_token_endpoint (ob_config ob) = Some t \<longrightarrow> oc_authorization_endpoint (ob_config ob) = Some a \<longrightarrow>
      (\<exists>iss p. oc_issuer (ob_config ob) = Some iss \<and> backend_provider_info rl ob w = (Inr p, w) \<and> pi_issuer p = iss))"
proof -
  note d = oidc_configureD[OF built]
  have "\<exists>iss p. oc_issuer (ob_config ob) = Some iss \<and> backend_provider_info rl ob w = (Inr p, w) \<and> pi_issuer p = iss"
    if "oc_token_endpoint (ob_config ob) = Some t" "oc_authorization_endpoint (ob_config ob) = Some a" for t a
    using d(2) that by (auto simp: backend_provider_info_def Let_def)
  with d(1,4,5) show ?thesis unfolding require_https_iff by auto
qed

section \<open>Witnesses\<close>

definition toy_rp :: "(int, unit, unit) rp_lib" where
  "toy_rp = \<lparr> rl_random_token = (\<lambda>n w. (show_nat (nat w), w + 1)), rl_s256_challenge = rev,
     rl_discover = (\<lambda>iss w. (Inr \<lparr> pi_issuer = iss, pi_authorization_endpoint = ''a'', pi_token_endpoint = ''t'',
        pi_userinfo_endpoint = Some ''u'', pi_jwks_uri = Some ''j'' \<rparr>, w)),
     rl_authorization_url = (\<lambda>p c st n ch ex. Inr st),
     rl_exchange_code = (\<lambda>p c code v w. (Inr \<lparr> ts_id_token = code, ts_access_token = ''at'' \<rparr>, w)),
     rl_fetch_jwks = (\<lambda>u i w. (Inr (), w)),
     rl_verify_id_token = (\<lambda>j t i c n al ex w. Inr \<lparr> ic_sub = Some ''alice'', ic_extra = [] \<rparr>),
     rl_fetch_userinfo = (\<lambda>e a s i w. (Inr (JObject [(''sub'', JString ''alice'')]), w)),
     rl_claims_to_attributes = (\<lambda>_. []), rl_now_rfc3339 = (\<lambda>_. []),
     rl_param = (\<lambda>rq k. bm_get (rq_query rq) k), rl_redirect = hl_redirect toy_http \<rparr>"

definition toy_urls :: "string \<Rightarrow> url_parts option" where
  "toy_urls u = map_option (\<lambda>r. \<lparr> up_scheme = ''https'', up_host = Some (Domain r) \<rparr>) (strip_prefix ''https://'' u)"

definition toy_build_lib :: "unit build_lib" where
  "toy_build_lib = \<lparr> bl_parse_url = toy_urls,
     bl_keys = \<lparr> kl_read = Some, kl_print = (\<lambda>_. []), kl_from_jwk = (\<lambda>_ _ _. Inr ()), kl_from_pem = (\<lambda>_ _ _. Inr ()) \<rparr>,
     bl_dec_alg = as_str, bl_alg_supported = (\<lambda>a. a = ''RS256'') \<rparr>"

definition toy_op_cfg :: json where
  "toy_op_cfg = JObject [(''client_id'', JString ''c''), (''issuer'', JString ''https://op''),
     (''authorization_endpoint'', JString ''https://op/a''), (''token_endpoint'', JString ''https://op/t'')]"

definition toy_ob :: "unit oidc_backend" where
  "toy_ob = \<lparr> ob_name = ''svc'', ob_client = \<lparr> rc_client_id = ''c'', rc_redirect_uri = ''https://p/svc/callback'',
       rc_auth = AuthNone, rc_scope = ''openid profile email'' \<rparr>,
     ob_config = \<lparr> oc_id_token_alg = ''RS256'', oc_issuer = Some ''https://op'', oc_authorization_endpoint = None,
       oc_token_endpoint = None, oc_userinfo_endpoint = None, oc_jwks_uri = None, oc_client_id = ''c'',
       oc_client_secret = None, oc_auth_method = None, oc_scope = None, oc_signing_key_path = None,
       oc_signing_jwk = None, oc_signing_jwk_path = None, oc_signing_algorithm = None, oc_signing_key_id = None \<rparr>,
     ob_mapper = toy_mapper \<rparr>"

definition toy_oidc1 :: "int req_context_scheme" where
  "toy_oidc1 = snd (oidc_start_auth toy_rp toy_ob toy_login toy_ctx)"

definition toy_oidc2 :: "int req_context_scheme" where
  "toy_oidc2 = context_new (toy_rq1\<lparr> rq_query := [(''code'', ''xyz''), (''state'', ''100'')] \<rparr>) (cx_state toy_oidc1) 200"

lemma toy_oidc_steps:
  "fst (oidc_start_auth toy_rp toy_ob toy_login toy_ctx) = Inr (hl_redirect toy_http ''100'')"
  "state_wf (cx_state toy_ctx)" "is_ok (fst (oidc_backend_handle toy_rp toy_ob ''callback'' toy_oidc2))"
  "is_ok (oidc_backend_configure toy_build_lib (toy_build toy_op_cfg))"
  by code_simp+

theorem oidc_login_bound_witness:
  "\<exists>d c3. oidc_backend_handle toy_rp toy_ob ''callback'' toy_oidc2 = (Inr (AuthResponse d), c3) \<and>
     ai_issuer (id_auth_info d) = Some ''https://op'' \<and>
     fst (oidc_backend_handle toy_rp toy_ob ''callback'' (toy_oidc2\<lparr> cx_state := cx_state c3 \<rparr>)) = Inl (ErrAuthn ''missing stored state'')"
proof -
  obtain a c3 where h: "oidc_backend_handle toy_rp toy_ob ''callback'' toy_oidc2 = (Inr a, c3)"
    using toy_oidc_steps(3) by (metis is_ok_iff prod.collapse)
  have s: "oidc_start_auth toy_rp toy_ob toy_login toy_ctx = (Inr (hl_redirect toy_http ''100''), toy_oidc1)"
    unfolding toy_oidc1_def toy_oidc_steps(1)[symmetric] by simp
  have "cx_state toy_oidc2 = cx_state toy_oidc1" by (simp add: toy_oidc2_def)
  from oidc_login_bound[OF s toy_oidc_steps(2) this h] obtain q w0 claims sub merged w3 where
    q: "configured_provider toy_rp (ob_config toy_ob) (req_context.more toy_oidc2) q w0"
      "a = AuthResponse (upstream_answer toy_rp toy_ob q claims sub merged w3)"
      "fst (oidc_backend_handle toy_rp toy_ob ''callback'' (toy_oidc2\<lparr> cx_state := cx_state c3 \<rparr>)) = Inl (ErrAuthn ''missing stored state'')"
    by (elim exE conjE) blast
  from q(1) have "pi_issuer q = ''https://op''" by (auto simp: configured_provider_def toy_ob_def toy_rp_def)
  with q(2,3) h show ?thesis by (auto simp: upstream_answer_def)
qed

theorem oidc_backend_closed_witness:
  "\<exists>ob. oidc_backend_configure toy_build_lib (toy_build toy_op_cfg) = Inr ob \<and> bl_alg_supported toy_build_lib (oc_id_token_alg (ob_config ob))"
proof -
  obtain ob where h: "oidc_backend_configure toy_build_lib (toy_build toy_op_cfg) = Inr ob"
    using toy_oidc_steps(4) by (auto simp: is_ok_iff)
  from oidc_backend_closed[OF h, of toy_rp 0] show ?thesis by (intro exI[of _ ob] conjI h) blast
qed

end
