(* ===== verification/Oidc_Flow.thy ===== *)
theory Oidc_Flow
  imports Oidc_Frontend Oidc_Backend
begin

text \<open>
  The OpenID frontend and the OpenID backend in one session.  Each keeps its entries in the
  namespace of its own name; the backend clears the whole namespace when a login completes.  Shown:
  with distinct names the backend never touches what the frontend stored, so a login through both
  ends in an answer to the request it started with; with one name for both every login is lost.
\<close>

section \<open>What the backend touches\<close>

definition keeps_namespace :: "string \<Rightarrow> 'w req_context_scheme \<Rightarrow> 'w req_context_scheme \<Rightarrow> bool" where
  "keeps_namespace n c c' \<longleftrightarrow> (state_wf (cx_state c) \<longrightarrow> state_wf (cx_state c') \<and>
     (\<forall>k. get_value (cx_state c') n k = get_value (cx_state c) n k))"

lemma keeps_namespace_refl: "keeps_namespace n c c"
  by (simp add: keeps_namespace_def)

lemma keeps_namespace_trans: "keeps_namespace n a b \<Longrightarrow> keeps_namespace n b c \<Longrightarrow> keeps_namespace n a c"
  by (auto simp: keeps_namespace_def)

lemma keeps_namespace_bind:
  "preserves (keeps_namespace n) m \<Longrightarrow> (\<And>v. preserves (keeps_namespace n) (k v)) \<Longrightarrow>
     preserves (keeps_namespace n) (bind_flow m k)"
  unfolding preserves_def bind_flow_def
  by (fastforce split: prod.splits sum.splits intro: keeps_namespace_trans)

lemma keeps_namespace_pure:
  "preserves (keeps_namespace n) (in_world f)" "preserves (keeps_namespace n) (lift_result r)"
  by (auto simp: preserves_def in_world_def lift_result_def keeps_namespace_def split: prod.splits)

lemma keeps_namespace_step:
  assumes "\<And>s. state_wf s \<Longrightarrow> state_wf (f s) \<and> (\<forall>k. get_value (f s) n k = get_value s n k)"
  shows "keeps_namespace n c (with_state f (with_world w c))" "keeps_namespace n c (with_state f c)"
  using assms by (auto simp: keeps_namespace_def)

lemma oidc_start_auth_keeps:
  assumes "n \<noteq> ob_name ob"
  shows "preserves (keeps_namespace n) (oidc_start_auth rl ob d)"
  unfolding oidc_start_auth_def
proof (intro keeps_namespace_bind keeps_namespace_pure, rule preservesI)
  fix provider prompt c r c'
  assume h: "(case in_world (draw_tokens rl) c of ((state, nonce, verifier), ctx) \<Rightarrow>
     (let challenge = rl_s256_challenge rl verifier;
          ctx = with_state (remember_login (ob_name ob) state nonce verifier (id_is_passive d)) ctx;
          extra = (case prompt of Some p \<Rightarrow> [(''prompt'', p)] | None \<Rightarrow> [])
      in case rl_authorization_url rl provider (ob_client ob) state nonce (Some challenge) extra of
           Inl e \<Rightarrow> (Inl e, ctx) | Inr url \<Rightarrow> (Inr (rl_redirect rl url), ctx))) = (r, c')"
  obtain state nonce verifier w where t: "draw_tokens rl (req_context.more c) = ((state, nonce, verifier), w)"
    by (metis prod.exhaust)
  with h have "c' = with_state (remember_login (ob_name ob) state nonce verifier (id_is_passive d)) (with_world w c)"
    by (auto simp: in_world_def Let_def split: sum.splits)
  then show "keeps_namespace n c c'"
    using assms by (auto intro!: keeps_namespace_step simp: remember_login_get)
qed

lemma merged_claims_keeps: "preserves (keeps_namespace n) (merged_claims rl p tokens claims sub)"
  unfolding merged_claims_def
  by (cases "pi_userinfo_endpoint p") (auto intro!: keeps_namespace_bind keeps_namespace_pure)

lemma redeem_code_keeps:
  assumes "n \<noteq> ob_name ob"
  shows "preserves (keeps_namespace n) (redeem_code rl ob code nonce verifier)"
  unfolding redeem_code_def
proof (intro keeps_namespace_bind keeps_namespace_pure merged_claims_keeps, rule preservesI, goal_cases)
  case (1 p t u j cl s m c r c')
  then have "c' = with_state (clear_namespace (ob_name ob)) c" by simp
  then show ?case using assms by (auto intro!: keeps_namespace_step simp: get_value_clear)
qed

lemma oidc_backend_handle_keeps:
  assumes "n \<noteq> ob_name ob"
  shows "preserves (keeps_namespace n) (oidc_backend_handle rl ob i)"
proof (rule preservesI)
  fix c r c' assume h: "oidc_backend_handle rl ob i c = (r, c')"
  have m: "keeps_namespace n c (mark_interaction_required c)"
    by (simp add: keeps_namespace_def mark_interaction_required_def)
  from h show "keeps_namespace n c c'"
    using preservesD[OF redeem_code_keeps[OF assms]] m keeps_namespace_refl[of n c]
    by (auto simp: oidc_backend_handle_def split: if_split_asm option.splits)
qed

text \<open>
  C19. A login through the OpenID frontend and the OpenID backend, under different names, ends
  where it started: the authorization request stored by the frontend is the one it reads back after
  the backend's redirect and its successful callback, and the requester and pinned backend of the
  flow are the request's client and the configured one.
\<close>

theorem oidc_login_returns_to_request:
  assumes names: "ofe_name fe \<noteq> ob_name ob" and wf: "state_wf (cx_state c)"
    and codec: "\<forall>req v. ol_to_json (pl_op (ofe_provider fe)) req = Some v \<longrightarrow> ol_of_json (pl_op (ofe_provider fe)) v = Some req"
    and start: "handle_authorization fe c = (Inr (StartAuth d b), c1)"
    and out: "oidc_start_auth rl ob d' c1 = (Inr r, c2)"
    and ret: "cx_state c3 = cx_state c2" "oidc_backend_handle rl ob i c3 = (Inr (AuthResponse answer), c4)"
  shows "\<exists>req. ol_from_pairs (pl_op (ofe_provider fe)) (rq_query_pairs (cx_request c)) = Inr req \<and>
    id_requester d = Some (ol_client_id (pl_op (ofe_provider fe)) req) \<and> b = ofe_backend fe \<and>
    load_authz_request fe c4 = Some req \<and> (\<exists>r c5. oidc_render fe answer c4 = (Inr r, c5))"
proof -
  have wf1: "state_wf (cx_state c1)"
    using handle_authorization_StartD[OF start] wf by auto
  from preservesD[OF oidc_start_auth_keeps[OF names] out] wf1
  have k2: "state_wf (cx_state c3)" "get_value (cx_state c3) (ofe_name fe) k = get_value (cx_state c1) (ofe_name fe) k" for k
    by (simp_all add: keeps_namespace_def ret(1))
  from preservesD[OF oidc_backend_handle_keeps[OF names] ret(2)] k2
  have k4: "get_value (cx_state c4) (ofe_name fe) k = get_value (cx_state c1) (ofe_name fe) k" for k
    by (simp add: keeps_namespace_def)
  from handle_authorization_StartD[OF start] obtain req v where h:
    "ol_from_pairs (pl_op (ofe_provider fe)) (rq_query_pairs (cx_request c)) = Inr req"
    "ol_to_json (pl_op (ofe_provider fe)) req = Some v" "b = ofe_backend fe"
    "id_requester d = Some (ol_client_id (pl_op (ofe_provider fe)) req)"
    "get_value (cx_state c1) (ofe_name fe) AUTHZ_KEY = Some v"
    using wf by (auto simp: get_value_set_value)
  then have l: "load_authz_request fe c4 = Some req"
    using codec by (simp add: load_authz_request_def k4)
  have "\<exists>r c5. oidc_render fe answer c4 = (Inr r, c5)"
    by (auto simp: oidc_render_def Let_def l split: prod.splits sum.splits)
  with h l show ?thesis by blast
qed

text \<open>
  With one name for both, nothing of the login is left for the frontend: after the backend's
  successful callback the stored authorization request is gone, and the response path fails.
\<close>

theorem shared_name_loses_login:
  assumes "ofe_name fe = ob_name ob" and "state_wf (cx_state c)"
    and "oidc_backend_handle rl ob i c = (Inr (AuthResponse answer), c')"
  shows "oidc_render fe answer' c' = (Inl (ErrState ''no in-flight authorization request''), c')"
proof -
  from oidc_backend_handleD[OF assms(3)] obtain code nonce ver where
    "redeem_code rl ob code nonce ver c = (Inr (AuthResponse answer), c')" by blast
  from redeem_codeD[OF this] obtain w where "c' = with_state (clear_namespace (ob_name ob)) (with_world w c)" by blast
  then have "load_authz_request fe c' = None"
    using assms(1,2) by (simp add: load_authz_request_def get_value_clear)
  then show ?thesis by (simp add: oidc_render_def Let_def)
qed

section \<open>Witnesses\<close>

definition toy_oidc_start :: "int req_context_scheme" where
  "toy_oidc_start = snd (handle_authorization toy_ofe toy_authz)"

definition toy_oidc_out :: "int req_context_scheme" where
  "toy_oidc_out = snd (oidc_start_auth toy_rp toy_ob toy_login toy_oidc_start)"

definition toy_oidc_return :: "int req_context_scheme" where
  "toy_oidc_return = context_new (toy_rq1\<lparr> rq_query := [(''code'', ''xyz''), (''state'', ''100'')] \<rparr>)
     (cx_state toy_oidc_out) 200"

lemma toy_flow_steps:
  "is_ok (fst (oidc_start_auth toy_rp toy_ob toy_login toy_oidc_start))"
  "map_sum id (\<lambda>a. case a of AuthResponse d \<Rightarrow> True | _ \<Rightarrow> False)
     (fst (oidc_backend_handle toy_rp toy_ob ''callback'' toy_oidc_return)) = Inr True"
  "map_sum id (\<lambda>a. case a of AuthResponse d \<Rightarrow> True | _ \<Rightarrow> False)
     (fst (oidc_backend_handle toy_rp toy_ob ''callback'' toy_oidc2)) = Inr True"
  "state_wf (cx_state toy_oidc2)"
  by code_simp+

lemma toy_answered:
  assumes "map_sum id (\<lambda>a. case a of AuthResponse d \<Rightarrow> True | _ \<Rightarrow> False)
     (fst (oidc_backend_handle toy_rp toy_ob ''callback'' c)) = Inr True"
  obtains answer where "oidc_backend_handle toy_rp toy_ob ''callback'' c =
      (Inr (AuthResponse answer), snd (oidc_backend_handle toy_rp toy_ob ''callback'' c))"
proof (cases "oidc_backend_handle toy_rp toy_ob ''callback'' c")
  case (Pair x c1)
  with assms that show ?thesis by (cases x) (auto split: backend_action.splits)
qed

theorem oidc_login_returns_to_request_witness:
  "load_authz_request toy_ofe (snd (oidc_backend_handle toy_rp toy_ob ''callback'' toy_oidc_return)) = Some ''rp''"
proof -
  obtain d b c1 where h: "handle_authorization toy_ofe toy_authz = (Inr (StartAuth d b), c1)"
    "c1 = toy_oidc_start" "id_requester d = Some ''rp''"
    using toy_authz_start unfolding toy_oidc_start_def by metis
  obtain r where o: "oidc_start_auth toy_rp toy_ob toy_login toy_oidc_start = (Inr r, toy_oidc_out)"
    using toy_flow_steps(1) unfolding toy_oidc_out_def by (metis is_ok_iff prod.collapse)
  obtain answer where a: "oidc_backend_handle toy_rp toy_ob ''callback'' toy_oidc_return =
      (Inr (AuthResponse answer), snd (oidc_backend_handle toy_rp toy_ob ''callback'' toy_oidc_return))"
    by (rule toy_answered[OF toy_flow_steps(2)])
  have s: "cx_state toy_oidc_return = cx_state toy_oidc_out" by (simp add: toy_oidc_return_def)
  have n: "ofe_name toy_ofe \<noteq> ob_name toy_ob" by (simp add: toy_ofe_def toy_ob_def)
  from oidc_login_returns_to_request[OF n toy_authz_steps(2) toy_op_codec h(1)[unfolded h(2)] o s a] h(3)
  show ?thesis by (auto simp: toy_ofe_def toy_provider_def toy_op_def)
qed

theorem shared_name_loses_login_witness:
  "fst (oidc_render (toy_ofe\<lparr> ofe_name := ''svc'' \<rparr>) toy_answer
     (snd (oidc_backend_handle toy_rp toy_ob ''callback'' toy_oidc2))) =
   Inl (ErrState ''no in-flight authorization request'')"
proof -
  obtain answer where a: "oidc_backend_handle toy_rp toy_ob ''callback'' toy_oidc2 =
      (Inr (AuthResponse answer), snd (oidc_backend_handle toy_rp toy_ob ''callback'' toy_oidc2))"
    by (rule toy_answered[OF toy_flow_steps(3)])
  have n: "ofe_name (toy_ofe\<lparr> ofe_name := ''svc'' \<rparr>) = ob_name toy_ob" by (simp add: toy_ob_def)
  from shared_name_loses_login[OF n toy_flow_steps(4) a] show ?thesis by simp
qed

end
