(* ===== verification/Saml_Common.thy ===== *)
theory Saml_Common
  imports Release_Services
begin

text \<open>
  What the two SAML plugins share: the metadata-query client of \<open>saml_common.rs\<close>, the verifier
  built from the certificates of an entity, the certificate body of a PEM file, and the published
  organization and contacts of \<open>saml_metadata.rs\<close>.  The XML, metadata and signature library is a
  parameter.  Shown: a metadata client is either bound to a signing certificate or explicitly
  unverified, and a verifier trusts exactly the certificates it was built from, at least one.
\<close>

section \<open>Substrings\<close>

text \<open>\<open>str::find\<close>, \<open>str::contains\<close>, \<open>str::lines\<close>, and a literal with its quotes written as backticks.\<close>

fun find_str :: "string \<Rightarrow> string \<Rightarrow> nat option" where
  "find_str pat [] = (if pat = [] then Some 0 else None)"
| "find_str pat (x # xs) = (if starts_with pat (x # xs) then Some 0 else map_option Suc (find_str pat xs))"

definition contains_str :: "string \<Rightarrow> string \<Rightarrow> bool" where
  "contains_str pat s \<longleftrightarrow> find_str pat s \<noteq> None"

definition strip_cr :: "string \<Rightarrow> string" where
  "strip_cr l = (if l \<noteq> [] \<and> last l = CHR 0x0D then butlast l else l)"

definition lines_of :: "string \<Rightarrow> string list" where
  "lines_of s = (let ls = split_char CHR 0x0A s
     in map strip_cr (if last ls = [] then butlast ls else ls))"

definition quoted :: "string \<Rightarrow> string" where
  "quoted s = map (\<lambda>c. if c = CHR 0x60 then CHR 0x22 else c) s"

lemma find_str_SomeD:
  "find_str pat s = Some i \<Longrightarrow> i + length pat \<le> length s \<and> take (length pat) (drop i s) = pat"
proof (induction pat s arbitrary: i rule: find_str.induct)
  case (2 pat x xs)
  show ?case
  proof (cases "starts_with pat (x # xs)")
    case True
    then obtain t where "x # xs = pat @ t" unfolding starts_with_iff by blast
    then have "length (x # xs) = length pat + length t" by (metis length_append)
    with True 2(2) show ?thesis by (auto simp: starts_with_def)
  next
    case False
    with 2 show ?thesis by fastforce
  qed
qed (simp split: if_splits)

lemma find_str_starts: "find_str pat s = Some i \<Longrightarrow> starts_with pat (drop i s)"
  by (simp add: starts_with_def find_str_SomeD)

lemma find_str_first:
  "find_str pat s = Some i \<Longrightarrow> j < i \<Longrightarrow> \<not> starts_with pat (drop j s)"
proof (induction pat s arbitrary: i j rule: find_str.induct)
  case (2 pat x xs)
  then show ?case by (cases j) (auto split: if_splits)
qed (simp split: if_splits)

lemma find_str_None_iff: "find_str pat s = None \<longleftrightarrow> (\<forall>i. \<not> starts_with pat (drop i s))"
proof (induction pat s rule: find_str.induct)
  case (1 pat)
  then show ?case by (cases pat) (auto simp: starts_with_def)
next
  case (2 pat x xs)
  show ?case
  proof
    assume "find_str pat (x # xs) = None"
    with 2 have "\<not> starts_with pat (x # xs)" "\<forall>i. \<not> starts_with pat (drop i xs)"
      by (auto split: if_splits)
    then show "\<forall>i. \<not> starts_with pat (drop i (x # xs))"
      by (auto simp: drop_Cons split: nat.split)
  next
    assume h: "\<forall>i. \<not> starts_with pat (drop i (x # xs))"
    then have "\<not> starts_with pat (x # xs)" by (metis drop0)
    moreover from h have "\<forall>i. \<not> starts_with pat (drop i xs)" by (metis drop_Suc_Cons)
    ultimately show "find_str pat (x # xs) = None" using 2 by auto
  qed
qed

section \<open>The metadata-query client\<close>

record mdq_config =
  mq_url :: string
  mq_signing_cert_path :: "string option"
  mq_transform :: "string option"
  mq_require_role :: "string option"
  mq_fallback_ttl :: "u64 option"
  mq_allow_unverified :: bool

definition dec_mdq :: "json \<Rightarrow> mdq_config option" where
  "dec_mdq v = do {
     m \<leftarrow> as_object v;
     u \<leftarrow> dec_required as_str ''url'' m;
     c \<leftarrow> dec_default dec_opt_str None ''signing_cert_path'' m;
     t \<leftarrow> dec_default dec_opt_str None ''transform'' m;
     r \<leftarrow> dec_default dec_opt_str None ''require_role'' m;
     f \<leftarrow> dec_default dec_opt_u64 None ''fallback_ttl_secs'' m;
     a \<leftarrow> dec_default as_bool False ''allow_unverified'' m;
     Some \<lparr> mq_url = u, mq_signing_cert_path = c, mq_transform = t, mq_require_role = r,
       mq_fallback_ttl = f, mq_allow_unverified = a \<rparr> }"

datatype mdq_transform = UrlEncoded | Sha1
datatype required_role = RoleIdp | RoleSp | RoleAny

text \<open>A client: its transport, what it asks for and what it accepts.\<close>

record 'f mdq_client =
  mc_url :: string
  mc_fetcher :: 'f
  mc_transform :: mdq_transform
  mc_role :: required_role
  mc_fallback_ttl :: "u64 option"
  mc_certs :: "string list"
  mc_unverified :: bool

record 'f mdq_lib =
  mb_fetcher_default :: "'f option"
  mb_read :: "string \<Rightarrow> string option"
  mb_cert_ok :: "string \<Rightarrow> bool"

definition mdq_transform :: "mdq_config \<Rightarrow> mdq_transform result" where
  "mdq_transform cfg =
     (case mq_transform cfg of
        None \<Rightarrow> Inr UrlEncoded
      | Some t \<Rightarrow> if t = ''url_encoded'' then Inr UrlEncoded
                 else if t = ''sha1'' then Inr Sha1
                 else Inl (ErrConfig (''unknown mdq.transform: '' @ t)))"

definition mdq_role :: "mdq_config \<Rightarrow> required_role result" where
  "mdq_role cfg =
     (case mq_require_role cfg of
        None \<Rightarrow> Inr RoleIdp
      | Some r \<Rightarrow> if r = ''idp'' then Inr RoleIdp
                 else if r = ''sp'' then Inr RoleSp
                 else if r = ''any'' then Inr RoleAny
                 else Inl (ErrConfig (''unknown mdq.require_role: '' @ r)))"

definition build_mdq_client_with_fetcher :: "'f mdq_lib \<Rightarrow> mdq_config \<Rightarrow> 'f \<Rightarrow> 'f mdq_client result" where
  "build_mdq_client_with_fetcher mb cfg fetcher =
     bind_result (mdq_transform cfg) (\<lambda>transform.
     bind_result (mdq_role cfg) (\<lambda>role.
     (let client = \<lparr> mc_url = mq_url cfg, mc_fetcher = fetcher, mc_transform = transform, mc_role = role,
            mc_fallback_ttl = mq_fallback_ttl cfg, mc_certs = [], mc_unverified = False \<rparr>
      in case mq_signing_cert_path cfg of
           Some path \<Rightarrow>
             bind_result (ok_or (mb_read mb path) (ErrConfig ''reading mdq.signing_cert_path: '')) (\<lambda>pem.
               if mb_cert_ok mb pem then Inr (client\<lparr> mc_certs := [pem] \<rparr>)
               else Inl (ErrCrypto ''loading mdq signing cert: ''))
         | None \<Rightarrow>
             if mq_allow_unverified cfg then Inr (client\<lparr> mc_unverified := True \<rparr>)
             else Inl (ErrConfig ''mdq requires signing_cert_path (or allow_unverified=true for testing)''))))"

definition build_mdq_client :: "'f mdq_lib \<Rightarrow> mdq_config \<Rightarrow> 'f mdq_client result" where
  "build_mdq_client mb cfg =
     bind_result (ok_or (mb_fetcher_default mb) (ErrConfig ''building MDQ HTTP client: ''))
       (build_mdq_client_with_fetcher mb cfg)"

text \<open>Unsigned metadata is accepted only on request.\<close>

lemma mdq_client_verified:
  assumes "build_mdq_client_with_fetcher mb cfg fetcher = Inr client"
  shows "mc_unverified client \<longleftrightarrow> mq_signing_cert_path cfg = None"
    "mc_unverified client \<Longrightarrow> mq_allow_unverified cfg" "\<not> mc_unverified client \<Longrightarrow> mc_certs client \<noteq> []"
  using assms
  by (auto simp: build_mdq_client_with_fetcher_def bind_result_eq_Inr Let_def split: option.splits if_split_asm)

section \<open>Verifiers\<close>

text \<open>Each certificate is a key and a trusted chain anchor.\<close>

type_synonym 'k verifier = "('k \<times> string) list"

definition verifier_from_cert_ders :: "(string \<Rightarrow> 'k option) \<Rightarrow> string list \<Rightarrow> 'k verifier result" where
  "verifier_from_cert_ders load ders =
     (if ders = [] then Inl (ErrAuthn ''metadata carries no signing certificate'')
      else traverse (\<lambda>der. bind_result (ok_or (load der) (ErrCrypto ''parsing signing cert: ''))
             (\<lambda>key. Inr (key, der))) ders)"

lemma verifier_from_cert_ders_Inr:
  "verifier_from_cert_ders load ders = Inr v \<Longrightarrow> v \<noteq> [] \<and> map snd v = ders \<and> (\<forall>(k, d) \<in> set v. load d = Some k)"
proof -
  assume "verifier_from_cert_ders load ders = Inr v"
  then have ne: "ders \<noteq> []" and t: "traverse (\<lambda>der. bind_result (ok_or (load der) (ErrCrypto ''parsing signing cert: ''))
             (\<lambda>key. Inr (key, der))) ders = Inr v"
    by (auto simp: verifier_from_cert_ders_def split: if_split_asm)
  from t have "map snd v = ders \<and> (\<forall>(k, d) \<in> set v. load d = Some k)"
    by (induction ders arbitrary: v) (auto simp: bind_result_eq_Inr)
  with ne show ?thesis by auto
qed

section \<open>Certificates in PEM files\<close>

text \<open>The loop over the lines with its flag; the result is the text collected so far.\<close>

fun cert_lines :: "bool \<Rightarrow> string list \<Rightarrow> string" where
  "cert_lines in_cert [] = []"
| "cert_lines in_cert (l # ls) =
     (if contains_str ''BEGIN CERTIFICATE'' l then cert_lines True ls
      else if contains_str ''END CERTIFICATE'' l then []
      else (if in_cert then trim l else []) @ cert_lines in_cert ls)"

definition extract_cert_b64 :: "(string \<Rightarrow> string) \<Rightarrow> string \<Rightarrow> string" where
  "extract_cert_b64 utf8_lossy pem = cert_lines False (lines_of (utf8_lossy pem))"

text \<open>
  Of a file with one certificate the body lines are joined, whatever precedes it and whatever
  follows it.
\<close>

lemma cert_lines_skip:
  "\<forall>l \<in> set ls. \<not> contains_str ''BEGIN CERTIFICATE'' l \<and> \<not> contains_str ''END CERTIFICATE'' l \<Longrightarrow>
     cert_lines b (ls @ rest) = (if b then concat (map trim ls) else []) @ cert_lines b rest"
  by (induction ls) auto

lemma cert_lines_body:
  assumes "\<forall>l \<in> set pre. \<not> contains_str ''BEGIN CERTIFICATE'' l \<and> \<not> contains_str ''END CERTIFICATE'' l"
    and "\<forall>l \<in> set body. \<not> contains_str ''BEGIN CERTIFICATE'' l \<and> \<not> contains_str ''END CERTIFICATE'' l"
    and "contains_str ''BEGIN CERTIFICATE'' b" "contains_str ''END CERTIFICATE'' e" "\<not> contains_str ''BEGIN CERTIFICATE'' e"
  shows "cert_lines False (pre @ b # body @ e # rest) = concat (map trim body)"
  using assms by (simp add: cert_lines_skip)

section \<open>Published organization and contacts\<close>

record organization_config =
  og_name :: string
  og_display_name :: string
  og_url :: string
  og_lang :: string

definition default_lang :: string where "default_lang = ''en''"

definition dec_organization :: "json \<Rightarrow> organization_config option" where
  "dec_organization v = do {
     m \<leftarrow> as_object v;
     n \<leftarrow> dec_required as_str ''name'' m;
     d \<leftarrow> dec_required as_str ''display_name'' m;
     u \<leftarrow> dec_required as_str ''url'' m;
     l \<leftarrow> dec_default as_str default_lang ''lang'' m;
     Some \<lparr> og_name = n, og_display_name = d, og_url = u, og_lang = l \<rparr> }"

text \<open>The three localized entries of an organization: language, name, display name, URL.\<close>

definition to_organization :: "organization_config \<Rightarrow> string \<times> string \<times> string \<times> string" where
  "to_organization org = (og_lang org, og_name org, og_display_name org, og_url org)"

record contact_person_config =
  cp_contact_type :: string
  cp_email_address :: "string option"
  cp_given_name :: "string option"
  cp_sur_name :: "string option"
  cp_company :: "string option"

definition dec_contact_person :: "json \<Rightarrow> contact_person_config option" where
  "dec_contact_person v = do {
     m \<leftarrow> as_object v;
     t \<leftarrow> dec_required as_str ''contact_type'' m;
     e \<leftarrow> dec_default dec_opt_str None ''email_address'' m;
     g \<leftarrow> dec_default dec_opt_str None ''given_name'' m;
     s \<leftarrow> dec_default dec_opt_str None ''sur_name'' m;
     c \<leftarrow> dec_default dec_opt_str None ''company'' m;
     Some \<lparr> cp_contact_type = t, cp_email_address = e, cp_given_name = g, cp_sur_name = s, cp_company = c \<rparr> }"

text \<open>A contact of the metadata library; its type is parsed by the library.\<close>

record 't contact_person =
  ct_type :: 't
  ct_company :: "string option"
  ct_given_name :: "string option"
  ct_sur_name :: "string option"
  ct_emails :: "string list"
  ct_telephones :: "string list"

definition to_contact_person :: "(string \<Rightarrow> 't option) \<Rightarrow> contact_person_config \<Rightarrow> 't contact_person result" where
  "to_contact_person parse_type c =
     bind_result (ok_or (parse_type (cp_contact_type c)) (ErrConfig (''unknown contact_person.contact_type: '' @
         cp_contact_type c @ '' (expected technical, support, administrative, billing or other)''))) (\<lambda>t.
       Inr \<lparr> ct_type = t, ct_company = cp_company c, ct_given_name = cp_given_name c, ct_sur_name = cp_sur_name c,
         ct_emails = (case cp_email_address c of None \<Rightarrow> [] | Some e \<Rightarrow> [e]), ct_telephones = [] \<rparr>)"

definition contact_persons ::
    "(string \<Rightarrow> 't option) \<Rightarrow> contact_person_config list \<Rightarrow> 't contact_person list result" where
  "contact_persons parse_type cs = traverse (to_contact_person parse_type) cs"

section \<open>Types of the SAML library\<close>

record name_id =
  ni_value :: string
  ni_format :: "string option"
  ni_name_qualifier :: "string option"
  ni_sp_name_qualifier :: "string option"
  ni_sp_provided_id :: "string option"

datatype attribute_value =
    AvString string
  | AvInteger int
  | AvBoolean bool
  | AvDateTime string
  | AvNameId name_id
  | AvOther

record saml_attribute =
  at_name :: string
  at_name_format :: "string option"
  at_friendly_name :: "string option"
  at_values :: "attribute_value list"

record redirect_decoded =
  rx_xml :: string
  rx_relay_state :: "string option"
  rx_signature :: "string option"
  rx_sig_alg :: "string option"
  rx_signed_query :: string

text \<open>Each reference: whether its digest was checked, and its URI.\<close>

datatype verify_result = Valid "(bool \<times> string) list" | Invalid string

text \<open>Metadata extensions, by what the code reads from them.\<close>

record md_extensions =
  mx_categories :: "string list"
  mx_certifications :: "string list"

datatype mdq_error = EntityNotFound | MdqOther

text \<open>Constants of the SAML specifications, as the library spells them.\<close>

record saml_constants =
  sc_persistent :: string
  sc_transient :: string
  sc_unspecified :: string
  sc_format_uri :: string
  sc_format_basic :: string
  sc_context_password :: string
  sc_binding_post :: string
  sc_binding_redirect :: string
  sc_status_requester :: string
  sc_invalid_name_id_policy :: string
  sc_eptid_oid :: string
  sc_email :: string
  sc_no_passive :: string

section \<open>The request as the bindings see it\<close>

text \<open>The request as the library's bindings see it.\<close>

record request_view =
  rv_method :: string
  rv_url :: string
  rv_query_param :: "string \<Rightarrow> string option"
  rv_form_param :: "string \<Rightarrow> string option"
  rv_header :: "string \<Rightarrow> string option"
  rv_body :: string
  rv_remote_addr :: "string option"

text \<open>Query values stay percent-encoded; form and headers come decoded.\<close>

definition raw_query_param :: "string option \<Rightarrow> string \<Rightarrow> string option" where
  "raw_query_param raw name =
     Option.bind raw (\<lambda>qs. find_map (\<lambda>pair. Option.bind (strip_prefix name pair) (strip_prefix ''=''))
       (split_char CHR ''&'' qs))"

definition raw_query_view :: "http_request \<Rightarrow> request_view" where
  "raw_query_view rq =
     \<lparr> rv_method = rq_method rq, rv_url = rq_uri rq,
       rv_query_param = raw_query_param (map_option snd (split_once CHR ''?'' (rq_uri rq))),
       rv_form_param = bm_get (rq_form rq),
       rv_header = (\<lambda>name. bm_get (rq_headers rq) (to_ascii_lowercase name)),
       rv_body = rq_body rq, rv_remote_addr = None \<rparr>"

end
