(* ===== verification/Saml_Frontend.thy ===== *)
theory Saml_Frontend
  imports Saml_Common
begin

text \<open>
  The SAML frontend of \<open>saml2_frontend.rs\<close>: the proxy as SAML identity provider.  The SAML library
  (XML, bindings, request and response profiles, metadata, signatures), identifiers and the clock
  are the parameter record \<open>saml_idp_lib\<close>.  Shown: a login starts only for a registered provider whose
  request, when it must be or claims to be signed, was verified with that provider's certificates;
  the answer goes to the endpoint the request was validated for, releases only what the policy of
  that provider allows, and is signed over the whole document with nothing else changed.
\<close>

section \<open>The SAML library\<close>

record authn_request =
  ar_id :: string
  ar_issuer :: "string option"
  ar_has_signature :: bool
  ar_acs_url :: "string option"
  ar_protocol_binding :: "string option"
  ar_name_id_policy :: "(string option \<times> bool) option"
  ar_requested_context :: "(string list \<times> string) option"
  ar_force_authn :: "bool option"
  ar_is_passive :: "bool option"
  ar_consuming_index :: "nat option"
  ar_extensions :: "string option"

record processed_request =
  pr_request_id :: string
  pr_sp_entity_id :: string
  pr_acs_url :: string
  pr_acs_binding :: string
  pr_force_authn :: bool
  pr_is_passive :: bool
  pr_name_id_format :: "string option"
  pr_allow_create :: bool
  pr_context_class_refs :: "string list"
  pr_context_comparison :: "string option"
  pr_consuming_index :: "nat option"
  pr_extensions :: "string option"

record response_options =
  ro_idp_entity_id :: string
  ro_in_response_to :: "string option"
  ro_sp_entity_id :: string
  ro_acs_url :: string
  ro_lifetime_seconds :: u64
  ro_session_index :: "string option"
  ro_session_not_on_or_after :: "int option"
  ro_context_class_ref :: "string option"
  ro_client_address :: "string option"
  ro_attributes :: "saml_attribute list"

record saml_response =
  sr_id :: string
  sr_assertion_ids :: "string list"
  sr_xml :: "string option"

text \<open>An entity: its id, its extensions and its service-provider roles.\<close>

record 's sp_entity =
  sn_entity_id :: string
  sn_extensions :: "md_extensions option"
  sn_sp_roles :: "'s list"

text \<open>The metadata document of the proxy; every list and option not named here is empty.\<close>

record 't idp_metadata =
  im_signing_cert :: string
  im_name_id_formats :: "string list"
  im_want_signed :: bool
  im_sso_services :: "(string \<times> string) list"
  im_entity_id :: string
  im_organization :: "(string \<times> string \<times> string \<times> string) option"
  im_contacts :: "'t contact_person list"

record ('w, 'd, 's, 'k, 'f, 't) saml_idp_lib =
  sl_constants :: saml_constants
  sl_utf8 :: "string \<Rightarrow> string option"
  sl_b64_decode :: "string \<Rightarrow> string option"
  sl_inflate :: "string \<Rightarrow> string option"
  sl_redirect_decode :: "request_view \<Rightarrow> redirect_decoded option"
  sl_parse_xml :: "string \<Rightarrow> 'd option"
  sl_parse_request :: "'d \<Rightarrow> authn_request option"
  sl_parse_aggregate :: "'d \<Rightarrow> 's sp_entity list option"
  sl_parse_entity :: "'d \<Rightarrow> 's sp_entity option"
  sl_role_extensions :: "'s \<Rightarrow> md_extensions option"
  sl_role_signing_certs :: "'s \<Rightarrow> string list"
  sl_role_encryption_certs :: "'s \<Rightarrow> string list"
  sl_role_requests_signed :: "'s \<Rightarrow> bool option"
  sl_mdq_get :: "'f mdq_client \<Rightarrow> string \<Rightarrow> 'w \<Rightarrow> (mdq_error + 's sp_entity) \<times> 'w"
  sl_load_cert :: "string \<Rightarrow> 'k option"
  sl_redirect_verify :: "redirect_decoded \<Rightarrow> 'k verifier \<Rightarrow> bool option"
  sl_verify_enveloped :: "'k verifier \<Rightarrow> string \<Rightarrow> verify_result option"
  sl_process_request :: "authn_request \<Rightarrow> 's \<Rightarrow> bool \<Rightarrow> processed_request option"
  sl_error_response :: "string \<Rightarrow> string option \<Rightarrow> string \<Rightarrow> string \<Rightarrow> string \<Rightarrow> string option \<Rightarrow> int \<Rightarrow> saml_response"
  sl_create_response :: "response_options \<Rightarrow> name_id \<Rightarrow> int \<Rightarrow> saml_response"
  sl_post_encode :: "string \<Rightarrow> bool \<Rightarrow> string \<Rightarrow> string option \<Rightarrow> string"
  sl_metadata_xml :: "'t idp_metadata \<Rightarrow> string option"
  sl_generate_id :: "'w \<Rightarrow> string \<times> 'w"
  sl_now :: "'w \<Rightarrow> int"
  sl_html :: "string \<Rightarrow> response"
  sl_text :: "u16 \<Rightarrow> string \<Rightarrow> response"
  sl_response_new :: "u16 \<Rightarrow> response"
  sl_with_header :: "string \<Rightarrow> string \<Rightarrow> response \<Rightarrow> response"

section \<open>Registered providers\<close>

record 's sp_entry =
  se_sp_sso :: 's
  se_signing_certs :: "string list"
  se_encryption_certs :: "string list"
  se_categories :: "string list"
  se_certifications :: "string list"

datatype ('s, 'f) sp_store = AllowAll | Store "'s sp_entry smap" "'f mdq_client option"

definition sp_entry_from_entity :: "('w, 'd, 's, 'k, 'f, 't) saml_idp_lib \<Rightarrow> 's sp_entity \<Rightarrow> 's sp_entry option" where
  "sp_entry_from_entity sl entity =
     (case sn_sp_roles entity of
        [] \<Rightarrow> None
      | role # _ \<Rightarrow>
          (let extensions = List.map_filter id [sn_extensions entity, sl_role_extensions sl role]
           in Some \<lparr> se_sp_sso = role, se_signing_certs = sl_role_signing_certs sl role,
                se_encryption_certs = sl_role_encryption_certs sl role,
                se_categories = foldl (\<lambda>cs x. push_all_new cs (mx_categories x)) [] extensions,
                se_certifications = foldl (\<lambda>cs x. push_all_new cs (mx_certifications x)) [] extensions \<rparr>))"

definition resolve_sp ::
    "('w, 'd, 's, 'k, 'f, 't) saml_idp_lib \<Rightarrow> ('s, 'f) sp_store \<Rightarrow> string \<Rightarrow> 'w \<Rightarrow> 's sp_entry option result \<times> 'w" where
  "resolve_sp sl store entity_id w =
     (case store of
        AllowAll \<Rightarrow> (Inr None, w)
      | Store local mdq \<Rightarrow>
          (case bm_get local entity_id of
             Some entry \<Rightarrow> (Inr (Some entry), w)
           | None \<Rightarrow>
               (case mdq of
                  None \<Rightarrow> (Inr None, w)
                | Some client \<Rightarrow>
                    (case sl_mdq_get sl client entity_id w of
                       (Inr entity, w) \<Rightarrow> (Inr (sp_entry_from_entity sl entity), w)
                     | (Inl EntityNotFound, w) \<Rightarrow> (Inr None, w)
                     | (Inl MdqOther, w) \<Rightarrow>
                         (Inl (ErrAuthn (''MDQ lookup for '' @ entity_id @ '' failed: '')), w)))))"

definition parse_entities :: "('w, 'd, 's, 'k, 'f, 't) saml_idp_lib \<Rightarrow> string \<Rightarrow> 'd \<Rightarrow> 's sp_entity list result" where
  "parse_entities sl path doc =
     (case sl_parse_aggregate sl doc of
        Some entities \<Rightarrow> Inr entities
      | None \<Rightarrow> bind_result (ok_or (sl_parse_entity sl doc) (ErrConfig (''metadata file '' @ path @
            '': neither EntitiesDescriptor nor EntityDescriptor: ''))) (\<lambda>e. Inr [e]))"

definition add_entity ::
    "('w, 'd, 's, 'k, 'f, 't) saml_idp_lib \<Rightarrow> 's sp_entry smap \<Rightarrow> 's sp_entity \<Rightarrow> 's sp_entry smap" where
  "add_entity sl store entity =
     (case sp_entry_from_entity sl entity of
        Some entry \<Rightarrow> bm_insert (sn_entity_id entity) entry store | None \<Rightarrow> store)"

definition load_local_metadata ::
    "('w, 'd, 's, 'k, 'f, 't) saml_idp_lib \<Rightarrow> (string \<Rightarrow> string option) \<Rightarrow> string list \<Rightarrow> 's sp_entry smap result" where
  "load_local_metadata sl read paths =
     fold_result (\<lambda>path store.
        bind_result (ok_or (read path) (ErrConfig (''reading metadata file '' @ path @ '': ''))) (\<lambda>xml.
        bind_result (ok_or (sl_parse_xml sl xml) (ErrConfig (''metadata file '' @ path @ '': invalid XML: ''))) (\<lambda>doc.
        bind_result (parse_entities sl path doc) (\<lambda>entities.
          Inr (foldl (add_entity sl) store entities))))) paths []"

section \<open>Decoding a request\<close>

definition decode_authn_request :: "('w, 'd, 's, 'k, 'f, 't) saml_idp_lib \<Rightarrow> string \<Rightarrow> bool \<Rightarrow> string result" where
  "decode_authn_request sl encoded deflated =
     bind_result (ok_or (sl_b64_decode sl (trim encoded)) (ErrBadRequest ''base64 SAMLRequest: '')) (\<lambda>bytes.
       if deflated then ok_or (Option.bind (sl_inflate sl bytes) (sl_utf8 sl)) (ErrBadRequest ''inflate SAMLRequest: '')
       else ok_or (sl_utf8 sl bytes) (ErrBadRequest ''SAMLRequest UTF-8: ''))"

section \<open>Request signatures\<close>

definition verify_authn_request_signature ::
    "('w, 'd, 's, 'k, 'f, 't) saml_idp_lib \<Rightarrow> 's sp_entry \<Rightarrow> redirect_decoded option \<Rightarrow> authn_request \<Rightarrow> string \<Rightarrow> string + unit" where
  "verify_authn_request_signature sl entry decoded request xml =
     (case verifier_from_cert_ders (sl_load_cert sl) (se_signing_certs entry) of
        Inl e \<Rightarrow> Inl ''SP metadata carries no usable signing certificate: ''
      | Inr verifier \<Rightarrow>
          (case decoded of
             Some d \<Rightarrow>
               if rx_signature d = None then Inl ''AuthnRequest must be signed (redirect binding)''
               else (case sl_redirect_verify sl d verifier of
                   Some True \<Rightarrow> Inr ()
                 | Some False \<Rightarrow> Inl ''AuthnRequest redirect signature is not valid''
                 | None \<Rightarrow> Inl ''AuthnRequest redirect signature verification: '')
           | None \<Rightarrow>
               if \<not> ar_has_signature request then Inl ''AuthnRequest must be signed (POST binding)''
               else (case sl_verify_enveloped sl verifier xml of
                   Some (Valid references) \<Rightarrow>
                     if list_ex (\<lambda>(digest_verified, uri). digest_verified \<and> uri = CHR ''#'' # ar_id request) references
                     then Inr () else Inl ''AuthnRequest signature does not cover the consumed request''
                 | Some (Invalid reason) \<Rightarrow> Inl (''AuthnRequest signature is not valid: '' @ reason)
                 | None \<Rightarrow> Inl ''AuthnRequest signature verification: '')))"

section \<open>Configuration\<close>

record sp_policy =
  sy_attribute_restrictions :: "string list option"

record sp_metadata_config =
  sm_local :: "string list"
  sm_mdq :: "mdq_config option"

record saml_frontend_config =
  fc_idp_entity_id :: "string option"
  fc_idp_key_path :: string
  fc_idp_cert_path :: string
  fc_lifetime :: u64
  fc_sign_assertions :: bool
  fc_sign_responses :: bool
  fc_name_id_format :: "string option"
  fc_name_id_formats :: "string list option"
  fc_context_class_ref :: "string option"
  fc_attribute_name_format :: "string option"
  fc_metadata :: "sp_metadata_config option"
  fc_want_signed :: bool
  fc_allow_unknown_sps :: bool
  fc_organization :: "organization_config option"
  fc_contact_person :: "contact_person_config list"
  fc_policy :: "sp_policy smap"
  fc_backend :: "string option"

definition default_assertion_lifetime :: u64 where "default_assertion_lifetime = 300"

definition dec_sp_policy :: "json \<Rightarrow> sp_policy option" where
  "dec_sp_policy v = do {
     m \<leftarrow> as_object v;
     a \<leftarrow> dec_default (dec_opt dec_strings) None ''attribute_restrictions'' m;
     Some \<lparr> sy_attribute_restrictions = a \<rparr> }"

definition dec_sp_metadata :: "json \<Rightarrow> sp_metadata_config option" where
  "dec_sp_metadata v = do {
     m \<leftarrow> as_object v;
     l \<leftarrow> dec_default dec_strings [] ''local'' m;
     q \<leftarrow> dec_default (dec_opt dec_mdq) None ''mdq'' m;
     Some \<lparr> sm_local = l, sm_mdq = q \<rparr> }"

definition dec_saml_frontend :: "json \<Rightarrow> saml_frontend_config option" where
  "dec_saml_frontend v = do {
     m \<leftarrow> as_object v;
     ei \<leftarrow> dec_default dec_opt_str None ''idp_entity_id'' m;
     kp \<leftarrow> dec_required as_str ''idp_key_path'' m;
     cp \<leftarrow> dec_required as_str ''idp_cert_path'' m;
     lt \<leftarrow> dec_default dec_u64 default_assertion_lifetime ''assertion_lifetime_seconds'' m;
     sa \<leftarrow> dec_default as_bool True ''sign_assertions'' m;
     sr \<leftarrow> dec_default as_bool False ''sign_responses'' m;
     nf \<leftarrow> dec_default dec_opt_str None ''name_id_format'' m;
     nfs \<leftarrow> dec_default (dec_opt dec_strings) None ''name_id_formats'' m;
     ac \<leftarrow> dec_default dec_opt_str None ''authn_context_class_ref'' m;
     af \<leftarrow> dec_default dec_opt_str None ''attribute_name_format'' m;
     md \<leftarrow> dec_default (dec_opt dec_sp_metadata) None ''metadata'' m;
     ws \<leftarrow> dec_default as_bool False ''want_authn_requests_signed'' m;
     au \<leftarrow> dec_default as_bool False ''allow_unknown_sps'' m;
     og \<leftarrow> dec_default (dec_opt dec_organization) None ''organization'' m;
     cs \<leftarrow> dec_default (dec_list dec_contact_person) [] ''contact_person'' m;
     po \<leftarrow> dec_default (dec_bmap dec_sp_policy) [] ''policy'' m;
     be \<leftarrow> dec_default dec_opt_str None ''backend'' m;
     Some \<lparr> fc_idp_entity_id = ei, fc_idp_key_path = kp, fc_idp_cert_path = cp, fc_lifetime = lt,
       fc_sign_assertions = sa, fc_sign_responses = sr, fc_name_id_format = nf, fc_name_id_formats = nfs,
       fc_context_class_ref = ac, fc_attribute_name_format = af, fc_metadata = md, fc_want_signed = ws,
       fc_allow_unknown_sps = au, fc_organization = og, fc_contact_person = cs, fc_policy = po, fc_backend = be \<rparr> }"

text \<open>Reading files, keys and certificates at startup; a signer turns a document into a signed one.\<close>

record ('key, 'f, 't) saml_build_lib =
  sb_read :: "string \<Rightarrow> string option"
  sb_utf8_lossy :: "string \<Rightarrow> string"
  sb_b64_decode :: "string \<Rightarrow> string option"
  sb_load_pem :: "string \<Rightarrow> 'key option"
  sb_signer :: "'key \<Rightarrow> string \<Rightarrow> string \<Rightarrow> string option"
  sb_mdq :: "'f mdq_lib"
  sb_contact_type :: "string \<Rightarrow> 't option"

record ('s, 'f, 't) saml_frontend =
  sf_name :: string
  sf_entity_id :: string
  sf_sso_url :: string
  sf_signer :: "string \<Rightarrow> string option"
  sf_cert_b64 :: string
  sf_lifetime :: u64
  sf_sign_assertions :: bool
  sf_sign_responses :: bool
  sf_name_id_formats :: "string list"
  sf_uri_format :: bool
  sf_default_acr :: "string option"
  sf_sp_store :: "('s, 'f) sp_store"
  sf_want_signed :: bool
  sf_organization :: "(string \<times> string \<times> string \<times> string) option"
  sf_contacts :: "'t contact_person list"
  sf_policy :: "sp_policy smap"
  sf_mapper :: attribute_mapper
  sf_backend :: "string option"

definition load_idp_key :: "('key, 'f, 't) saml_build_lib \<Rightarrow> saml_frontend_config \<Rightarrow> ((string \<Rightarrow> string option) \<times> string) result" where
  "load_idp_key sb cfg =
     bind_result (ok_or (sb_read sb (fc_idp_key_path cfg)) (ErrConfig ''reading idp_key_path: '')) (\<lambda>key_pem.
     bind_result (ok_or (sb_read sb (fc_idp_cert_path cfg)) (ErrConfig ''reading idp_cert_path: '')) (\<lambda>cert_pem.
     (let cert_b64 = extract_cert_b64 (sb_utf8_lossy sb) cert_pem
      in bind_result (ok_or (sb_b64_decode sb cert_b64) (ErrConfig ''decoding idp cert: '')) (\<lambda>cert_der.
         bind_result (ok_or (sb_load_pem sb key_pem) (ErrCrypto ''loading idp key: '')) (\<lambda>key.
         Inr (sb_signer sb key cert_der, cert_b64))))))"

definition configured_formats :: "saml_constants \<Rightarrow> saml_frontend_config \<Rightarrow> string list result" where
  "configured_formats sc cfg =
     (case (fc_name_id_format cfg, fc_name_id_formats cfg) of
        (Some _, Some _) \<Rightarrow> Inl (ErrConfig ''set either name_id_format or name_id_formats, not both'')
      | (Some single, None) \<Rightarrow> Inr [single]
      | (None, Some list) \<Rightarrow> if list \<noteq> [] then Inr list else Inl (ErrConfig ''name_id_formats must not be empty'')
      | (None, None) \<Rightarrow> Inr [sc_persistent sc])"

definition configured_name_format :: "saml_frontend_config \<Rightarrow> bool result" where
  "configured_name_format cfg =
     (case fc_attribute_name_format cfg of
        None \<Rightarrow> Inr False
      | Some f \<Rightarrow> if f = ''basic'' then Inr False else if f = ''uri'' then Inr True
          else Inl (ErrConfig (quoted (''unknown attribute_name_format: '' @ f @ '' (expected `basic` or `uri`)''))))"

definition sp_mdq_client :: "'f mdq_lib \<Rightarrow> mdq_config \<Rightarrow> 'f mdq_client result" where
  "sp_mdq_client mb cfg =
     (if mq_require_role cfg \<noteq> None \<and> mq_require_role cfg \<noteq> Some ''sp'' then
        Inl (ErrConfig (quoted ''saml2 frontend [metadata.mdq] require_role must be `sp`''))
      else build_mdq_client mb (cfg\<lparr> mq_require_role := Some ''sp'' \<rparr>))"

definition configured_store ::
    "('w, 'd, 's, 'k, 'f, 't) saml_idp_lib \<Rightarrow> ('key, 'f, 't) saml_build_lib \<Rightarrow> saml_frontend_config \<Rightarrow> ('s, 'f) sp_store result" where
  "configured_store sl sb cfg =
     (case (fc_metadata cfg, fc_allow_unknown_sps cfg) of
        (Some md, _) \<Rightarrow>
          bind_result (load_local_metadata sl (sb_read sb) (sm_local md)) (\<lambda>local.
          bind_result (case sm_mdq md of
              Some q \<Rightarrow> bind_result (sp_mdq_client (sb_mdq sb) q) (\<lambda>c. Inr (Some c)) | None \<Rightarrow> Inr None) (\<lambda>mdq.
            if local = [] \<and> mdq = None then
              Inl (ErrConfig ''saml2 frontend [metadata] must list local files and/or an [metadata.mdq] source'')
            else Inr (Store local mdq)))
      | (None, True) \<Rightarrow>
          if fc_want_signed cfg then
            Inl (ErrConfig (''saml2 frontend cannot combine allow_unknown_sps=true with '' @
              ''want_authn_requests_signed=true: AuthnRequest signatures cannot be '' @
              ''verified without registered SP metadata''))
          else Inr AllowAll
      | (None, False) \<Rightarrow>
          Inl (ErrConfig (''saml2 frontend requires [frontend.config.metadata] (registered SP '' @
            ''metadata); set allow_unknown_sps=true to explicitly run open (insecure, testing only)'')))"

definition saml_frontend_configure ::
    "('w, 'd, 's, 'k, 'f, 't) saml_idp_lib \<Rightarrow> ('key, 'f, 't) saml_build_lib \<Rightarrow> build_context \<Rightarrow> ('s, 'f, 't) saml_frontend result" where
  "saml_frontend_configure sl sb bx =
     bind_result (parse_config dec_saml_frontend bx) (\<lambda>cfg.
     if \<not> fc_sign_assertions cfg \<and> \<not> fc_sign_responses cfg then
       Inl (ErrConfig (''saml2 frontend '' @ bx_name bx @ '' must sign assertions, responses, or both''))
     else
     bind_result (load_idp_key sb cfg) (\<lambda>(signer, cert_b64).
     bind_result (configured_formats (sl_constants sl) cfg) (\<lambda>formats.
     bind_result (configured_name_format cfg) (\<lambda>uri.
     bind_result (configured_store sl sb cfg) (\<lambda>store.
     bind_result (contact_persons (sb_contact_type sb) (fc_contact_person cfg)) (\<lambda>contacts.
     Inr \<lparr> sf_name = bx_name bx, sf_entity_id = unwrap_or (module_base bx) (fc_idp_entity_id cfg),
       sf_sso_url = module_base bx @ ''/sso'', sf_signer = signer, sf_cert_b64 = cert_b64,
       sf_lifetime = fc_lifetime cfg, sf_sign_assertions = fc_sign_assertions cfg,
       sf_sign_responses = fc_sign_responses cfg, sf_name_id_formats = formats, sf_uri_format = uri,
       sf_default_acr = fc_context_class_ref cfg, sf_sp_store = store, sf_want_signed = fc_want_signed cfg,
       sf_organization = map_option to_organization (fc_organization cfg), sf_contacts = contacts,
       sf_policy = fc_policy cfg, sf_mapper = bx_attribute_mapper bx, sf_backend = fc_backend cfg \<rparr>))))))"

section \<open>The sign-on endpoint\<close>

text \<open>The document of the request, its relay state and, for a redirect, the decoded binding.\<close>

definition inbound_request ::
    "('w, 'd, 's, 'k, 'f, 't) saml_idp_lib \<Rightarrow> http_request \<Rightarrow> (string \<times> string option \<times> redirect_decoded option) result" where
  "inbound_request sl rq =
     (if bm_get (rq_query rq) ''SAMLRequest'' \<noteq> None then
        bind_result (ok_or (sl_redirect_decode sl (raw_query_view rq)) (ErrBadRequest ''redirect decode: '')) (\<lambda>decoded.
        bind_result (ok_or (sl_utf8 sl (rx_xml decoded)) (ErrBadRequest ''SAMLRequest not UTF-8: '')) (\<lambda>xml.
        Inr (xml, rx_relay_state decoded, Some decoded)))
      else case bm_get (rq_form rq) ''SAMLRequest'' of
        Some v \<Rightarrow> bind_result (decode_authn_request sl v False) (\<lambda>xml. Inr (xml, bm_get (rq_form rq) ''RelayState'', None))
      | None \<Rightarrow> Inl (ErrBadRequest ''missing SAMLRequest''))"

definition parse_authn_request :: "('w, 'd, 's, 'k, 'f, 't) saml_idp_lib \<Rightarrow> string \<Rightarrow> (authn_request \<times> string) result" where
  "parse_authn_request sl xml =
     bind_result (ok_or (sl_parse_xml sl xml) (ErrBadRequest ''invalid AuthnRequest XML: '')) (\<lambda>doc.
     bind_result (ok_or (sl_parse_request sl doc) (ErrBadRequest ''parsing AuthnRequest: '')) (\<lambda>request.
     bind_result (ok_or (ar_issuer request) (ErrBadRequest ''AuthnRequest carries no Issuer'')) (\<lambda>issuer.
     Inr (request, issuer))))"

definition carries_signature :: "authn_request \<Rightarrow> redirect_decoded option \<Rightarrow> bool" where
  "carries_signature request decoded \<longleftrightarrow> ar_has_signature request \<or>
     (case decoded of None \<Rightarrow> False | Some d \<Rightarrow> rx_signature d \<noteq> None)"

text \<open>Whether the request's signature was verified; \<open>Inl\<close> when it had to be and was not.\<close>

definition signature_policy ::
    "('w, 'd, 's, 'k, 'f, 't) saml_idp_lib \<Rightarrow> bool \<Rightarrow> 's sp_entry option \<Rightarrow> redirect_decoded option \<Rightarrow> authn_request \<Rightarrow> string \<Rightarrow> string + bool" where
  "signature_policy sl want_signed entry decoded request xml =
     (case entry of
        None \<Rightarrow> Inr False
      | Some e \<Rightarrow>
          if sl_role_requests_signed sl (se_sp_sso e) = Some True \<or> want_signed \<or> carries_signature request decoded then
            (case verify_authn_request_signature sl e decoded request xml of Inl r \<Rightarrow> Inl r | Inr _ \<Rightarrow> Inr True)
          else Inr False)"

text \<open>Without registered metadata: the request's own endpoint.\<close>

definition process_unregistered :: "saml_constants \<Rightarrow> authn_request \<Rightarrow> string \<Rightarrow> processed_request result" where
  "process_unregistered sc request sp_entity_id =
     bind_result (ok_or (ar_acs_url request)
         (ErrBadRequest ''AuthnRequest has no ACS URL and no SP metadata is available'')) (\<lambda>acs_url.
       Inr \<lparr> pr_request_id = ar_id request, pr_sp_entity_id = sp_entity_id, pr_acs_url = acs_url,
         pr_acs_binding = unwrap_or (sc_binding_post sc) (ar_protocol_binding request),
         pr_force_authn = unwrap_or False (ar_force_authn request),
         pr_is_passive = unwrap_or False (ar_is_passive request),
         pr_name_id_format = Option.bind (ar_name_id_policy request) fst,
         pr_allow_create = (case ar_name_id_policy request of None \<Rightarrow> False | Some (_, c) \<Rightarrow> c),
         pr_context_class_refs = (case ar_requested_context request of None \<Rightarrow> [] | Some (rs, _) \<Rightarrow> rs),
         pr_context_comparison = map_option snd (ar_requested_context request),
         pr_consuming_index = ar_consuming_index request, pr_extensions = ar_extensions request \<rparr>)"

definition process_request ::
    "('w, 'd, 's, 'k, 'f, 't) saml_idp_lib \<Rightarrow> 's sp_entry option \<Rightarrow> authn_request \<Rightarrow> string \<Rightarrow> bool \<Rightarrow> processed_request result" where
  "process_request sl entry request sp_entity_id verified =
     (case entry of
        Some e \<Rightarrow> ok_or (sl_process_request sl request (se_sp_sso e) verified) (ErrBadRequest ''AuthnRequest validation: '')
      | None \<Rightarrow> process_unregistered (sl_constants sl) request sp_entity_id)"

text \<open>The NameID format to answer with; \<open>Inl\<close> the unsupported one the request insists on.\<close>

definition choose_format :: "saml_constants \<Rightarrow> string list \<Rightarrow> string option \<Rightarrow> string + string" where
  "choose_format sc formats requested =
     (case requested of
        None \<Rightarrow> Inr (hd formats)
      | Some f \<Rightarrow> if f = sc_unspecified sc then Inr (hd formats)
                 else if list_ex (\<lambda>x. x = f) formats then Inr f else Inl f)"

definition saml_error_response ::
    "('w, 'd, 's, 'k, 'f, 't) saml_idp_lib \<Rightarrow> ('s, 'f, 't) saml_frontend \<Rightarrow> processed_request \<Rightarrow> string option \<Rightarrow>
      string \<Rightarrow> string \<Rightarrow> string option \<Rightarrow> int \<Rightarrow> frontend_action result" where
  "saml_error_response sl sf processed relay status sub_status message now =
     bind_result (ok_or (sr_xml (sl_error_response sl (sf_entity_id sf) (Some (pr_request_id processed))
           (pr_acs_url processed) status sub_status message now)) (ErrInternal ''serializing error Response: '')) (\<lambda>xml.
       Inr (FRespond (sl_with_header sl ''cache-control'' ''no-cache, no-store''
         (sl_html sl (sl_post_encode sl xml False (pr_acs_url processed) relay)))))"

text \<open>What the answer needs, stored under the frontend's name.\<close>

definition stash_request ::
    "string \<Rightarrow> processed_request \<Rightarrow> string \<Rightarrow> string option \<Rightarrow> session \<Rightarrow> session" where
  "stash_request ns processed format relay s =
     (let s = set_str ns ''request_id'' (pr_request_id processed) s;
          s = set_str ns ''sp_entity_id'' (pr_sp_entity_id processed) s;
          s = set_str ns ''acs_url'' (pr_acs_url processed) s;
          s = set_str ns ''name_id_format'' format s;
          s = set_str STATE_KEY_BASE KEY_NAME_ID_FORMAT format s
      in case relay of None \<Rightarrow> s | Some rs \<Rightarrow> set_str ns ''relay_state'' rs s)"

definition publish_requester ::
    "'s sp_entry option \<Rightarrow> processed_request \<Rightarrow> 'w req_context_scheme \<Rightarrow> 'w req_context_scheme" where
  "publish_requester entry processed ctx =
     (let ctx = (case entry of None \<Rightarrow> ctx
            | Some e \<Rightarrow> decorate KEY_REQUESTER_ASSURANCE_CERTIFICATIONS (json_strings (se_certifications e))
                (decorate KEY_REQUESTER_ENTITY_CATEGORIES (json_strings (se_categories e)) ctx))
      in if pr_context_class_refs processed = [] then ctx
         else (let ctx = decorate KEY_REQUESTED_ACCR (json_strings (pr_context_class_refs processed)) ctx
               in case pr_context_comparison processed of None \<Rightarrow> ctx
                  | Some cmp \<Rightarrow> decorate KEY_REQUESTED_ACCR_COMPARISON (JString cmp) ctx))"

definition accept_request ::
    "('w, 'd, 's, 'k, 'f, 't) saml_idp_lib \<Rightarrow> ('s, 'f, 't) saml_frontend \<Rightarrow> 's sp_entry option \<Rightarrow> processed_request \<Rightarrow>
      string option \<Rightarrow> ('w, frontend_action) handler" where
  "accept_request sl sf entry processed relay ctx =
     (case choose_format (sl_constants sl) (sf_name_id_formats sf) (pr_name_id_format processed) of
        Inl f \<Rightarrow>
          (saml_error_response sl sf processed relay (sc_status_requester (sl_constants sl))
             (sc_invalid_name_id_policy (sl_constants sl)) (Some (''unsupported NameID format: '' @ f))
             (sl_now sl (req_context.more ctx)), ctx)
      | Inr format \<Rightarrow>
          (let ctx = with_state (stash_request (sf_name sf) processed format relay) ctx;
               ctx = publish_requester entry processed ctx
           in (Inr (StartAuth (internal_default\<lparr> id_requester := Some (pr_sp_entity_id processed),
                 id_force_authn := pr_force_authn processed, id_is_passive := pr_is_passive processed \<rparr>)
                 (sf_backend sf)), ctx)))"

definition handle_sso ::
    "('w, 'd, 's, 'k, 'f, 't) saml_idp_lib \<Rightarrow> ('s, 'f, 't) saml_frontend \<Rightarrow> ('w, frontend_action) handler" where
  "handle_sso sl sf ctx =
     bind_flow (lift_result (inbound_request sl (cx_request ctx))) (\<lambda>(xml, relay, decoded).
     bind_flow (lift_result (parse_authn_request sl xml)) (\<lambda>(request, issuer).
     bind_flow (in_world (resolve_sp sl (sf_sp_store sf) issuer)) (\<lambda>entry ctx.
       if (case sf_sp_store sf of AllowAll \<Rightarrow> False | Store _ _ \<Rightarrow> Option.is_none entry)
       then (Inr (FRespond (sl_text sl 403 ''unknown SP'')), ctx)
       else case signature_policy sl (sf_want_signed sf) entry decoded request xml of
         Inl _ \<Rightarrow> (Inr (FRespond (sl_text sl 403 ''AuthnRequest signature verification failed'')), ctx)
       | Inr verified \<Rightarrow>
           bind_flow (lift_result (process_request sl entry request issuer verified))
             (\<lambda>processed. accept_request sl sf entry processed relay) ctx))) ctx"

section \<open>Signing a document\<close>

definition signature_template :: "string \<Rightarrow> string \<Rightarrow> string" where
  "signature_template reference_id cert =
     quoted (''<ds:Signature xmlns:ds=`http://www.w3.org/2000/09/xmldsig#`><ds:SignedInfo>'' @
       ''<ds:CanonicalizationMethod Algorithm=`http://www.w3.org/2001/10/xml-exc-c14n#`/>'' @
       ''<ds:SignatureMethod Algorithm=`http://www.w3.org/2001/04/xmldsig-more#rsa-sha256`/>'' @
       ''<ds:Reference URI=`#'') @ reference_id @ quoted (''`><ds:Transforms>'' @
       ''<ds:Transform Algorithm=`http://www.w3.org/2000/09/xmldsig#enveloped-signature`/>'' @
       ''<ds:Transform Algorithm=`http://www.w3.org/2001/10/xml-exc-c14n#`/></ds:Transforms>'' @
       ''<ds:DigestMethod Algorithm=`http://www.w3.org/2001/04/xmlenc#sha256`/><ds:DigestValue/>'' @
       ''</ds:Reference></ds:SignedInfo><ds:SignatureValue/><ds:KeyInfo><ds:X509Data><ds:X509Certificate>'') @
       cert @ ''</ds:X509Certificate></ds:X509Data></ds:KeyInfo></ds:Signature>''"

definition insert_signature_after_element :: "string \<Rightarrow> string \<Rightarrow> string \<Rightarrow> string result" where
  "insert_signature_after_element xml element_name sig =
     bind_result (ok_or (or_else (find_str (''<'' @ element_name @ '' '') xml) (find_str (''<'' @ element_name @ ''>'') xml))
         (ErrInternal (''cannot find <'' @ element_name @ ''> in XML''))) (\<lambda>tag_start.
     bind_result (ok_or (find_str ''>'' (drop tag_start xml)) (ErrInternal (''malformed <'' @ element_name @ ''> tag''))) (\<lambda>rel.
       (let pos = tag_start + rel in Inr (take (pos + 1) xml @ sig @ drop (pos + 1) xml))))"

definition sign_element ::
    "('s, 'f, 't) saml_frontend \<Rightarrow> string \<Rightarrow> string \<Rightarrow> string \<Rightarrow> string \<Rightarrow> string result" where
  "sign_element sf element_name reference_id what xml =
     bind_result (insert_signature_after_element xml element_name (signature_template reference_id (sf_cert_b64 sf)))
       (\<lambda>xml. ok_or (sf_signer sf xml) (ErrCrypto (what @ '' signing: '')))"

definition sign_response_xml ::
    "('s, 'f, 't) saml_frontend \<Rightarrow> string \<Rightarrow> string \<Rightarrow> string option \<Rightarrow> string result" where
  "sign_response_xml sf response_xml response_id assertion_id =
     bind_result (case (sf_sign_assertions sf, assertion_id) of
         (True, Some aid) \<Rightarrow> sign_element sf ''saml:Assertion'' aid ''assertion'' response_xml
       | _ \<Rightarrow> Inr response_xml) (\<lambda>xml.
     if sf_sign_responses sf then sign_element sf ''samlp:Response'' response_id ''response'' xml else Inr xml)"

section \<open>The response path\<close>

definition released_attributes :: "('s, 'f, 't) saml_frontend \<Rightarrow> string \<Rightarrow> attrs \<Rightarrow> attrs" where
  "released_attributes sf sp_entity_id attrs =
     (case Option.bind (or_else (bm_get (sf_policy sf) sp_entity_id) (bm_get (sf_policy sf) ''default''))
         sy_attribute_restrictions of
        Some allowed \<Rightarrow> bm_retain (\<lambda>name _. list_ex (\<lambda>a. a = name) allowed) attrs
      | None \<Rightarrow> attrs)"

definition is_eptid :: "saml_constants \<Rightarrow> string \<Rightarrow> string \<Rightarrow> profile_attribute \<Rightarrow> bool" where
  "is_eptid sc internal_name basic_name mapping \<longleftrightarrow>
     eq_ignore_ascii_case internal_name ''edupersontargetedid'' \<or> basic_name = ''eduPersonTargetedID'' \<or>
     pa_oid mapping = Some (sc_eptid_oid sc) \<or> pa_friendly_name mapping = Some ''eduPersonTargetedID''"

definition attribute_naming ::
    "saml_constants \<Rightarrow> bool \<Rightarrow> string \<Rightarrow> profile_attribute \<Rightarrow> string \<times> string \<times> string option" where
  "attribute_naming sc uri basic_name mapping =
     (case (uri, pa_oid mapping) of
        (True, Some oid) \<Rightarrow> (oid, sc_format_uri sc, or_else (pa_friendly_name mapping) (Some basic_name))
      | _ \<Rightarrow> (basic_name, sc_format_basic sc, None))"

definition saml_attribute_of ::
    "saml_constants \<Rightarrow> ('s, 'f, 't) saml_frontend \<Rightarrow> string \<Rightarrow> string \<times> string list \<Rightarrow> saml_attribute option" where
  "saml_attribute_of sc sf sp_entity_id e =
     (case e of (internal_name, values) \<Rightarrow>
        Option.bind (lookup_mapping (sf_mapper sf) ''saml'' internal_name) (\<lambda>mapping.
          (case pa_names mapping of
             [] \<Rightarrow> None
           | basic_name # _ \<Rightarrow>
               (case attribute_naming sc (sf_uri_format sf) basic_name mapping of (name, format, friendly) \<Rightarrow>
                 Some \<lparr> at_name = name, at_name_format = Some format, at_friendly_name = friendly,
                   at_values = (if is_eptid sc internal_name basic_name mapping then
                       map (\<lambda>v. AvNameId \<lparr> ni_value = v, ni_format = Some (sc_persistent sc),
                         ni_name_qualifier = Some (sf_entity_id sf), ni_sp_name_qualifier = Some sp_entity_id,
                         ni_sp_provided_id = None \<rparr>) values
                     else map AvString values) \<rparr>))))"

definition assertion_name_id ::
    "('w, 'd, 's, 'k, 'f, 't) saml_idp_lib \<Rightarrow> ('s, 'f, 't) saml_frontend \<Rightarrow> internal_data \<Rightarrow> string \<Rightarrow> string \<Rightarrow> ('w, name_id) handler" where
  "assertion_name_id sl sf d format sp_entity_id =
     bind_flow (if format = sc_transient (sl_constants sl)
         then in_world (\<lambda>w. case sl_generate_id sl w of (i, w) \<Rightarrow> (Inr i, w))
         else lift_result (ok_or (or_else (id_subject_id d) (compose_subject_id (sf_mapper sf) (id_attributes d)))
           (ErrAuthn ''no subject identifier for SAML assertion'')))
       (\<lambda>v. lift_result (Inr \<lparr> ni_value = v, ni_format = Some format, ni_name_qualifier = None,
          ni_sp_name_qualifier = Some sp_entity_id, ni_sp_provided_id = None \<rparr>))"

text \<open>Times are nanoseconds; a session lasts eight hours.\<close>

definition response_options_for ::
    "saml_constants \<Rightarrow> ('s, 'f, 't) saml_frontend \<Rightarrow> internal_data \<Rightarrow> string \<Rightarrow> string \<Rightarrow> string \<Rightarrow> string \<Rightarrow> int \<Rightarrow> saml_attribute list \<Rightarrow> response_options" where
  "response_options_for sc sf d request_id sp_entity_id acs_url session_index now attributes =
     \<lparr> ro_idp_entity_id = sf_entity_id sf, ro_in_response_to = Some request_id, ro_sp_entity_id = sp_entity_id,
       ro_acs_url = acs_url, ro_lifetime_seconds = sf_lifetime sf, ro_session_index = Some session_index,
       ro_session_not_on_or_after = Some (now + 8 * 3600 * 1000000000),
       ro_context_class_ref = or_else (ai_class_ref (id_auth_info d))
         (or_else (sf_default_acr sf) (Some (sc_context_password sc))),
       ro_client_address = None, ro_attributes = attributes \<rparr>"

definition answer_options ::
    "saml_constants \<Rightarrow> ('s, 'f, 't) saml_frontend \<Rightarrow> internal_data \<Rightarrow> string \<Rightarrow> string \<Rightarrow> string \<Rightarrow> string \<Rightarrow> int \<Rightarrow> response_options" where
  "answer_options sc sf d request_id sp_entity_id acs_url session_index now =
     response_options_for sc sf d request_id sp_entity_id acs_url session_index now
       (List.map_filter (saml_attribute_of sc sf sp_entity_id) (id_attributes d))"

definition response_moment :: "('w, 'd, 's, 'k, 'f, 't) saml_idp_lib \<Rightarrow> 'w \<Rightarrow> (int \<times> string) result \<times> 'w" where
  "response_moment sl w = (case sl_generate_id sl w of (i, w') \<Rightarrow> (Inr (sl_now sl w, i), w'))"

definition deliver_response ::
    "('w, 'd, 's, 'k, 'f, 't) saml_idp_lib \<Rightarrow> ('s, 'f, 't) saml_frontend \<Rightarrow> string \<Rightarrow> string option \<Rightarrow> saml_response \<Rightarrow> ('w, response) handler" where
  "deliver_response sl sf acs_url relay response =
     bind_flow (lift_result (ok_or (sr_xml response) (ErrInternal ''serializing Response: ''))) (\<lambda>xml.
     bind_flow (lift_result (sign_response_xml sf xml (sr_id response)
       (case sr_assertion_ids response of [] \<Rightarrow> None | a # _ \<Rightarrow> Some a))) (\<lambda>signed ctx.
       (Inr (sl_with_header sl ''cache-control'' ''no-cache, no-store''
          (sl_html sl (sl_post_encode sl signed False acs_url relay))),
        with_state (clear_namespace (sf_name sf)) ctx)))"

definition issue_response ::
    "('w, 'd, 's, 'k, 'f, 't) saml_idp_lib \<Rightarrow> ('s, 'f, 't) saml_frontend \<Rightarrow> internal_data \<Rightarrow> string \<Rightarrow> string \<Rightarrow> string \<Rightarrow>
      string option \<Rightarrow> string \<Rightarrow> ('w, response) handler" where
  "issue_response sl sf d request_id sp_entity_id acs_url relay format =
     (let d = d\<lparr> id_attributes := released_attributes sf sp_entity_id (id_attributes d) \<rparr>
      in bind_flow (assertion_name_id sl sf d format sp_entity_id) (\<lambda>name_id.
         bind_flow (in_world (response_moment sl)) (\<lambda>moment.
           deliver_response sl sf acs_url relay (sl_create_response sl
             (answer_options (sl_constants sl) sf d request_id sp_entity_id acs_url (snd moment) (fst moment))
             name_id (fst moment)))))"

definition saml_render ::
    "('w, 'd, 's, 'k, 'f, 't) saml_idp_lib \<Rightarrow> ('s, 'f, 't) saml_frontend \<Rightarrow> internal_data \<Rightarrow> ('w, response) handler" where
  "saml_render sl sf d ctx =
     (let st = cx_state ctx; ns = sf_name sf
      in case get_str st ns ''request_id'' of
           None \<Rightarrow> (Inl (ErrState ''no in-flight AuthnRequest''), ctx)
         | Some request_id \<Rightarrow>
        (case get_str st ns ''sp_entity_id'' of
           None \<Rightarrow> (Inl (ErrState ''no sp_entity_id in state''), ctx)
         | Some sp_entity_id \<Rightarrow>
        (case get_str st ns ''acs_url'' of
           None \<Rightarrow> (Inl (ErrState ''no acs_url in state''), ctx)
         | Some acs_url \<Rightarrow>
            issue_response sl sf d request_id sp_entity_id acs_url (get_str st ns ''relay_state'')
              (unwrap_or (hd (sf_name_id_formats sf)) (get_str st ns ''name_id_format'')) ctx)))"

section \<open>Metadata and the frontend\<close>

definition build_metadata :: "('w, 'd, 's, 'k, 'f, 't) saml_idp_lib \<Rightarrow> ('s, 'f, 't) saml_frontend \<Rightarrow> string result" where
  "build_metadata sl sf =
     ok_or (sl_metadata_xml sl
       \<lparr> im_signing_cert = sf_cert_b64 sf, im_name_id_formats = sf_name_id_formats sf,
         im_want_signed = sf_want_signed sf,
         im_sso_services = [(sc_binding_redirect (sl_constants sl), sf_sso_url sf),
                            (sc_binding_post (sl_constants sl), sf_sso_url sf)],
         im_entity_id = sf_entity_id sf, im_organization = sf_organization sf, im_contacts = sf_contacts sf \<rparr>)
       (ErrInternal ''serializing IdP metadata: '')"

text \<open>\<open>trim_end_matches\<close> takes the suffix away as often as it occurs.\<close>

function trim_start_matches :: "string \<Rightarrow> string \<Rightarrow> string" where
  "trim_start_matches p s =
     (if p \<noteq> [] \<and> starts_with p s then trim_start_matches p (drop (length p) s) else s)"
  by pat_completeness auto
termination
  by (relation "measure (\<lambda>(p, s). length s)") (auto simp: starts_with_iff)

declare trim_start_matches.simps [simp del]

definition trim_end_matches :: "string \<Rightarrow> string \<Rightarrow> string" where
  "trim_end_matches p s = rev (trim_start_matches (rev p) (rev s))"

definition entity_id_route :: "('s, 'f, 't) saml_frontend \<Rightarrow> string option" where
  "entity_id_route sf =
     opt_filter (\<lambda>rest. rest \<noteq> [] \<and> rest \<noteq> ''sso'' \<and> rest \<noteq> ''metadata'')
       (strip_prefix (trim_end_matches ''/sso'' (sf_sso_url sf) @ ''/'') (sf_entity_id sf))"

definition saml_frontend_routes :: "('s, 'f, 't) saml_frontend \<Rightarrow> route list" where
  "saml_frontend_routes sf =
     [route_exact (sf_name sf @ ''/sso'') ''sso'', route_exact (sf_name sf @ ''/metadata'') ''metadata''] @
     (case entity_id_route sf of None \<Rightarrow> [] | Some rest \<Rightarrow> [route_exact (sf_name sf @ ''/'' @ rest) ''metadata''])"

definition saml_frontend_handle ::
    "('w, 'd, 's, 'k, 'f, 't) saml_idp_lib \<Rightarrow> ('s, 'f, 't) saml_frontend \<Rightarrow> string \<Rightarrow> ('w, frontend_action) handler" where
  "saml_frontend_handle sl sf route_id ctx =
     (if route_id = ''sso'' then handle_sso sl sf ctx
      else if route_id = ''metadata'' then
        (bind_result (build_metadata sl sf) (\<lambda>xml. Inr (FRespond
           ((sl_with_header sl ''content-type'' ''application/samlmetadata+xml; charset=utf-8'' (sl_response_new sl 200))
             \<lparr> rs_body := xml \<rparr>))), ctx)
      else (Inl (ErrNoBoundEndpoint route_id), ctx))"

definition saml_frontend_error ::
    "('w, 'd, 's, 'k, 'f, 't) saml_idp_lib \<Rightarrow> error \<Rightarrow> ('w, response) handler" where
  "saml_frontend_error sl e ctx = (Inr (sl_text sl 500 ''authentication could not be completed''), ctx)"

definition saml_frontend_fe ::
    "('w, 'd, 's, 'k, 'f, 't) saml_idp_lib \<Rightarrow> ('s, 'f, 't) saml_frontend \<Rightarrow> 'w frontend" where
  "saml_frontend_fe sl sf =
     \<lparr> fe_name = sf_name sf, fe_register = (\<lambda>_. saml_frontend_routes sf), fe_handle = saml_frontend_handle sl sf,
       fe_render = saml_render sl sf, fe_error = saml_frontend_error sl \<rparr>"

definition saml_frontend_build ::
    "('w, 'd, 's, 'k, 'f, 't) saml_idp_lib \<Rightarrow> ('key, 'f, 't) saml_build_lib \<Rightarrow> 'w frontend ctor" where
  "saml_frontend_build sl sb bx = bind_result (saml_frontend_configure sl sb bx) (\<lambda>sf. Inr (saml_frontend_fe sl sf))"

end
