(* ===== verification/Saml_Frontend_Props.thy ===== *)
theory Saml_Frontend_Props
  imports Saml_Frontend
begin

text \<open>
  Properties of the SAML frontend: who may start a login, what an accepted signature covers, where
  the answer goes and what it releases, and how a document is prepared for signing.
\<close>

section \<open>Accepted requests\<close>

lemma signature_policy_Some:
  "signature_policy sl want (Some e) decoded request xml = Inr verified \<longleftrightarrow>
     (if sl_role_requests_signed sl (se_sp_sso e) = Some True \<or> want \<or> carries_signature request decoded
      then verify_authn_request_signature sl e decoded request xml = Inr () \<and> verified
      else \<not> verified)"
  by (auto simp: signature_policy_def split: sum.splits if_split_asm)

lemma stash_request_get:
  assumes "state_wf s" "ns \<noteq> STATE_KEY_BASE"
  shows "get_str (stash_request ns p format relay s) ns ''request_id'' = Some (pr_request_id p)"
    "get_str (stash_request ns p format relay s) ns ''sp_entity_id'' = Some (pr_sp_entity_id p)"
    "get_str (stash_request ns p format relay s) ns ''acs_url'' = Some (pr_acs_url p)"
    "get_str (stash_request ns p format relay s) ns ''name_id_format'' = Some format"
    "get_str (stash_request ns p format relay s) ns ''relay_state'' = or_else relay (get_str s ns ''relay_state'')"
    "state_wf (stash_request ns p format relay s)"
  using assms by (auto simp: stash_request_def Let_def get_str_set_str or_else_def split: option.splits)

lemma publish_requester_frame [simp]:
  "cx_state (publish_requester e p c) = cx_state c" "cx_request (publish_requester e p c) = cx_request c"
  "req_context.more (publish_requester e p c) = req_context.more c"
  by (auto simp: publish_requester_def Let_def split: option.splits)

lemma accept_request_StartD:
  assumes "accept_request sl sf entry processed relay c = (Inr (StartAuth d b), c')"
  shows "\<exists>format. choose_format (sl_constants sl) (sf_name_id_formats sf) (pr_name_id_format processed) = Inr format \<and>
    d = internal_default\<lparr> id_requester := Some (pr_sp_entity_id processed),
          id_force_authn := pr_force_authn processed, id_is_passive := pr_is_passive processed \<rparr> \<and> b = sf_backend sf \<and>
    c' = publish_requester entry processed (with_state (stash_request (sf_name sf) processed format relay) c)"
  using assms
  by (auto simp: accept_request_def saml_error_response_def Let_def bind_result_eq_Inr split: sum.splits)

lemma handle_sso_StartD:
  assumes "handle_sso sl sf c = (Inr (StartAuth d b), c')"
  shows "\<exists>xml relay decoded request issuer entry w verified processed format.
    inbound_request sl (cx_request c) = Inr (xml, relay, decoded) \<and> parse_authn_request sl xml = Inr (request, issuer) \<and>
    resolve_sp sl (sf_sp_store sf) issuer (req_context.more c) = (Inr entry, w) \<and>
    (case sf_sp_store sf of AllowAll \<Rightarrow> entry = None | Store _ _ \<Rightarrow> entry \<noteq> None) \<and>
    signature_policy sl (sf_want_signed sf) entry decoded request xml = Inr verified \<and>
    process_request sl entry request issuer verified = Inr processed \<and>
    d = internal_default\<lparr> id_requester := Some (pr_sp_entity_id processed),
          id_force_authn := pr_force_authn processed, id_is_passive := pr_is_passive processed \<rparr> \<and> b = sf_backend sf \<and>
    c' = publish_requester entry processed
      (with_state (stash_request (sf_name sf) processed format relay) (with_world w c))"
proof -
  from assms obtain xml relay decoded request issuer entry w where h:
    "inbound_request sl (cx_request c) = Inr (xml, relay, decoded)" "parse_authn_request sl xml = Inr (request, issuer)"
    "resolve_sp sl (sf_sp_store sf) issuer (req_context.more c) = (Inr entry, w)"
    "(if (case sf_sp_store sf of AllowAll \<Rightarrow> False | Store _ _ \<Rightarrow> Option.is_none entry)
      then (Inr (FRespond (sl_text sl 403 ''unknown SP'')), with_world w c)
      else case signature_policy sl (sf_want_signed sf) entry decoded request xml of
         Inl _ \<Rightarrow> (Inr (FRespond (sl_text sl 403 ''AuthnRequest signature verification failed'')), with_world w c)
       | Inr verified \<Rightarrow>
           bind_flow (lift_result (process_request sl entry request issuer verified))
             (\<lambda>processed. accept_request sl sf entry processed relay) (with_world w c)) = (Inr (StartAuth d b), c')"
    by (auto simp: handle_sso_def bind_flow_eq_Inr lift_result_eq in_world_eq split: prod.splits)
  have known: "\<not> (case sf_sp_store sf of AllowAll \<Rightarrow> False | Store _ _ \<Rightarrow> Option.is_none entry)"
    using h(4) by (auto split: if_split_asm)
  with h(4) obtain verified processed where v:
    "signature_policy sl (sf_want_signed sf) entry decoded request xml = Inr verified"
    "process_request sl entry request issuer verified = Inr processed"
    "accept_request sl sf entry processed relay (with_world w c) = (Inr (StartAuth d b), c')"
    by (auto simp: bind_flow_eq_Inr lift_result_eq split: sum.splits)
  have "case sf_sp_store sf of AllowAll \<Rightarrow> entry = None | Store _ _ \<Rightarrow> entry \<noteq> None"
    using known h(3) by (auto simp: resolve_sp_def Option.is_none_def split: sp_store.splits)
  with accept_request_StartD[OF v(3)] h v show ?thesis by blast
qed

text \<open>
  C17. With registered metadata a login starts only for a known service provider: the issuer of the
  request resolves to an entry, a request that must be signed or carries a signature was verified
  with that entry's certificates, the request was validated against that entry's descriptor, and the
  requester of the flow and the endpoint remembered for the answer are the validated ones.
\<close>

theorem saml_login_registered:
  assumes ok: "handle_sso sl sf c = (Inr (StartAuth d b), c')" and store: "sf_sp_store sf = Store local mdq"
    and wf: "state_wf (cx_state c)" "sf_name sf \<noteq> STATE_KEY_BASE"
  shows "\<exists>xml relay decoded request issuer entry w verified processed.
    inbound_request sl (cx_request c) = Inr (xml, relay, decoded) \<and> parse_authn_request sl xml = Inr (request, issuer) \<and>
    resolve_sp sl (Store local mdq) issuer (req_context.more c) = (Inr (Some entry), w) \<and>
    (sl_role_requests_signed sl (se_sp_sso entry) = Some True \<or> sf_want_signed sf \<or> carries_signature request decoded \<longrightarrow>
       verify_authn_request_signature sl entry decoded request xml = Inr () \<and> verified) \<and>
    sl_process_request sl request (se_sp_sso entry) verified = Some processed \<and>
    id_requester d = Some (pr_sp_entity_id processed) \<and> b = sf_backend sf \<and>
    get_str (cx_state c') (sf_name sf) ''acs_url'' = Some (pr_acs_url processed) \<and>
    get_str (cx_state c') (sf_name sf) ''sp_entity_id'' = Some (pr_sp_entity_id processed)"
proof -
  from handle_sso_StartD[OF ok] obtain xml relay decoded request issuer entry w verified processed format where h:
    "inbound_request sl (cx_request c) = Inr (xml, relay, decoded)" "parse_authn_request sl xml = Inr (request, issuer)"
    "resolve_sp sl (sf_sp_store sf) issuer (req_context.more c) = (Inr entry, w)" "entry \<noteq> None"
    "signature_policy sl (sf_want_signed sf) entry decoded request xml = Inr verified"
    "process_request sl entry request issuer verified = Inr processed"
    "d = internal_default\<lparr> id_requester := Some (pr_sp_entity_id processed),
          id_force_authn := pr_force_authn processed, id_is_passive := pr_is_passive processed \<rparr>" "b = sf_backend sf"
    "c' = publish_requester entry processed
      (with_state (stash_request (sf_name sf) processed format relay) (with_world w c))"
    unfolding store by auto
  then obtain e where e: "entry = Some e" by blast
  have "sl_role_requests_signed sl (se_sp_sso e) = Some True \<or> sf_want_signed sf \<or> carries_signature request decoded \<longrightarrow>
       verify_authn_request_signature sl e decoded request xml = Inr () \<and> verified"
    using h(5) unfolding e signature_policy_Some by (simp split: if_split_asm)
  moreover have "sl_process_request sl request (se_sp_sso e) verified = Some processed"
    using h(6) by (simp add: process_request_def e)
  moreover have "get_str (cx_state c') (sf_name sf) ''acs_url'' = Some (pr_acs_url processed)"
    "get_str (cx_state c') (sf_name sf) ''sp_entity_id'' = Some (pr_sp_entity_id processed)"
    using wf by (simp_all add: h(9) stash_request_get)
  moreover have "id_requester d = Some (pr_sp_entity_id processed)" by (simp add: h(7))
  ultimately show ?thesis using h(1,2,3,8) unfolding e store by blast
qed

text \<open>
  C18. An accepted signature is the provider's and covers the request that is used: the verifier
  trusts exactly the provider's certificates, of which there is one at least; on the redirect binding
  the decoded query verified, on the POST binding the document verified with a digest-checked
  reference to the id of this very request.
\<close>

theorem authn_signature_covers_request:
  assumes "verify_authn_request_signature sl entry decoded request xml = Inr ()"
  shows "\<exists>verifier. map snd verifier = se_signing_certs entry \<and> verifier \<noteq> [] \<and>
    (\<forall>(k, der) \<in> set verifier. sl_load_cert sl der = Some k) \<and>
    (case decoded of
       Some d \<Rightarrow> rx_signature d \<noteq> None \<and> sl_redirect_verify sl d verifier = Some True
     | None \<Rightarrow> ar_has_signature request \<and> (\<exists>refs. sl_verify_enveloped sl verifier xml = Some (Valid refs) \<and>
         (True, CHR ''#'' # ar_id request) \<in> set refs))"
proof -
  from assms obtain verifier where v: "verifier_from_cert_ders (sl_load_cert sl) (se_signing_certs entry) = Inr verifier"
    by (auto simp: verify_authn_request_signature_def split: sum.splits)
  with assms have "case decoded of
       Some d \<Rightarrow> rx_signature d \<noteq> None \<and> sl_redirect_verify sl d verifier = Some True
     | None \<Rightarrow> ar_has_signature request \<and> (\<exists>refs. sl_verify_enveloped sl verifier xml = Some (Valid refs) \<and>
         (True, CHR ''#'' # ar_id request) \<in> set refs)"
    by (auto simp: verify_authn_request_signature_def list_ex_iff
        split: option.splits if_split_asm bool.splits verify_result.splits)
  with verifier_from_cert_ders_Inr[OF v] show ?thesis by blast
qed

section \<open>The answer\<close>

lemma deliver_responseD:
  assumes "deliver_response sl sf acs relay response c = (Inr r, c')"
  shows "\<exists>xml signed. sr_xml response = Some xml \<and>
    sign_response_xml sf xml (sr_id response) (case sr_assertion_ids response of [] \<Rightarrow> None | a # _ \<Rightarrow> Some a) = Inr signed \<and>
    r = sl_with_header sl ''cache-control'' ''no-cache, no-store'' (sl_html sl (sl_post_encode sl signed False acs relay)) \<and>
    c' = with_state (clear_namespace (sf_name sf)) c"
  using assms by (auto simp: deliver_response_def bind_flow_eq_Inr lift_result_eq)

lemma assertion_name_idD:
  assumes "assertion_name_id sl sf d format sp c = (Inr name, c')"
  shows "\<exists>w. c' = with_world w c" "ni_format name = Some format" "ni_sp_name_qualifier name = Some sp"
    "format \<noteq> sc_transient (sl_constants sl) \<Longrightarrow>
      or_else (id_subject_id d) (compose_subject_id (sf_mapper sf) (id_attributes d)) = Some (ni_value name)"
  using assms
  by (auto simp: assertion_name_id_def bind_flow_eq_Inr lift_result_eq in_world_eq split: if_split_asm
      intro: exI[of _ "req_context.more c"])

lemma issue_responseD:
  assumes "issue_response sl sf d request_id sp acs relay format c = (Inr r, c')"
  shows "\<exists>name session_index now xml signed response w.
    response = sl_create_response sl (answer_options (sl_constants sl) sf
      (d\<lparr> id_attributes := released_attributes sf sp (id_attributes d) \<rparr>) request_id sp acs session_index now) name now \<and>
    ni_format name = Some format \<and> ni_sp_name_qualifier name = Some sp \<and> sr_xml response = Some xml \<and>
    sign_response_xml sf xml (sr_id response) (case sr_assertion_ids response of [] \<Rightarrow> None | a # _ \<Rightarrow> Some a) = Inr signed \<and>
    r = sl_with_header sl ''cache-control'' ''no-cache, no-store'' (sl_html sl (sl_post_encode sl signed False acs relay)) \<and>
    c' = with_state (clear_namespace (sf_name sf)) (with_world w c)"
proof -
  let ?d = "d\<lparr> id_attributes := released_attributes sf sp (id_attributes d) \<rparr>"
  from assms obtain name c1 moment w where h: "assertion_name_id sl sf ?d format sp c = (Inr name, c1)"
    "deliver_response sl sf acs relay (sl_create_response sl
       (answer_options (sl_constants sl) sf ?d request_id sp acs (snd moment) (fst moment)) name (fst moment))
       (with_world w c1) = (Inr r, c')"
    unfolding issue_response_def Let_def bind_flow_eq_Inr in_world_eq by blast
  from assertion_name_idD[OF h(1)] obtain w1 where "c1 = with_world w1 c" "ni_format name = Some format"
    "ni_sp_name_qualifier name = Some sp" by blast
  moreover from deliver_responseD[OF h(2)] calculation(1) obtain xml signed where
    "sr_xml (sl_create_response sl (answer_options (sl_constants sl) sf ?d request_id sp acs (snd moment) (fst moment))
       name (fst moment)) = Some xml"
    "sign_response_xml sf xml (sr_id (sl_create_response sl (answer_options (sl_constants sl) sf ?d request_id sp acs
       (snd moment) (fst moment)) name (fst moment)))
       (case sr_assertion_ids (sl_create_response sl (answer_options (sl_constants sl) sf ?d request_id sp acs
          (snd moment) (fst moment)) name (fst moment)) of [] \<Rightarrow> None | a # _ \<Rightarrow> Some a) = Inr signed"
    "r = sl_with_header sl ''cache-control'' ''no-cache, no-store'' (sl_html sl (sl_post_encode sl signed False acs relay))"
    "c' = with_state (clear_namespace (sf_name sf)) (with_world w c)" by auto
  ultimately show ?thesis by blast
qed

lemma saml_renderD:
  assumes "saml_render sl sf d c = (Inr r, c')"
  shows "\<exists>request_id sp acs. get_str (cx_state c) (sf_name sf) ''request_id'' = Some request_id \<and>
    get_str (cx_state c) (sf_name sf) ''sp_entity_id'' = Some sp \<and> get_str (cx_state c) (sf_name sf) ''acs_url'' = Some acs \<and>
    issue_response sl sf d request_id sp acs (get_str (cx_state c) (sf_name sf) ''relay_state'')
      (unwrap_or (hd (sf_name_id_formats sf)) (get_str (cx_state c) (sf_name sf) ''name_id_format'')) c = (Inr r, c')"
  using assms by (auto simp: saml_render_def Let_def split: option.splits)

text \<open>
  C8. The answer of a login goes back to where its request was validated: with the frontend's
  entries kept, the response is made for the requesting provider, in reply to its request id, in the
  NameID format the request was granted, and is posted to the validated endpoint with the relay
  state of the session; the stored request is consumed, so no second answer can be made from it.
\<close>

theorem saml_answer_to_validated_endpoint:
  assumes start: "accept_request sl sf entry processed relay c = (Inr (StartAuth d b), c1)"
    and wf: "state_wf (cx_state c)" "sf_name sf \<noteq> STATE_KEY_BASE"
    and kept: "\<forall>k. get_str (cx_state c2) (sf_name sf) k = get_str (cx_state c1) (sf_name sf) k" "state_wf (cx_state c2)"
    and answer: "saml_render sl sf answer c2 = (Inr r, c3)"
  shows "\<exists>format name session_index now signed.
    choose_format (sl_constants sl) (sf_name_id_formats sf) (pr_name_id_format processed) = Inr format \<and>
    (\<exists>xml response. response = sl_create_response sl (answer_options (sl_constants sl) sf
        (answer\<lparr> id_attributes := released_attributes sf (pr_sp_entity_id processed) (id_attributes answer) \<rparr>)
        (pr_request_id processed) (pr_sp_entity_id processed) (pr_acs_url processed) session_index now) name now \<and>
      sr_xml response = Some xml \<and>
      sign_response_xml sf xml (sr_id response) (case sr_assertion_ids response of [] \<Rightarrow> None | a # _ \<Rightarrow> Some a) = Inr signed) \<and>
    ni_format name = Some format \<and> ni_sp_name_qualifier name = Some (pr_sp_entity_id processed) \<and>
    r = sl_with_header sl ''cache-control'' ''no-cache, no-store'' (sl_html sl (sl_post_encode sl signed False
      (pr_acs_url processed) (or_else relay (get_str (cx_state c) (sf_name sf) ''relay_state'')))) \<and>
    saml_render sl sf answer' c3 = (Inl (ErrState ''no in-flight AuthnRequest''), c3)"
proof -
  from accept_request_StartD[OF start] obtain format where f:
    "choose_format (sl_constants sl) (sf_name_id_formats sf) (pr_name_id_format processed) = Inr format"
    "cx_state c1 = stash_request (sf_name sf) processed format relay (cx_state c)" by auto
  note k = kept(1)[rule_format, unfolded f(2), unfolded stash_request_get(1)[OF wf]]
  have g: "get_str (cx_state c2) (sf_name sf) ''request_id'' = Some (pr_request_id processed)"
    "get_str (cx_state c2) (sf_name sf) ''sp_entity_id'' = Some (pr_sp_entity_id processed)"
    "get_str (cx_state c2) (sf_name sf) ''acs_url'' = Some (pr_acs_url processed)"
    "get_str (cx_state c2) (sf_name sf) ''name_id_format'' = Some format"
    "get_str (cx_state c2) (sf_name sf) ''relay_state'' = or_else relay (get_str (cx_state c) (sf_name sf) ''relay_state'')"
    by (simp_all add: k stash_request_get[OF wf])
  from saml_renderD[OF answer] g have i: "issue_response sl sf answer (pr_request_id processed) (pr_sp_entity_id processed)
      (pr_acs_url processed) (or_else relay (get_str (cx_state c) (sf_name sf) ''relay_state'')) format c2 = (Inr r, c3)"
    by auto
  from issue_responseD[OF i] obtain w where "c3 = with_state (clear_namespace (sf_name sf)) (with_world w c2)" by blast
  then have "saml_render sl sf answer' c3 = (Inl (ErrState ''no in-flight AuthnRequest''), c3)"
    using kept(2) by (simp add: saml_render_def Let_def get_str_clear)
  with issue_responseD[OF i] f(1) show ?thesis by blast
qed

text \<open>
  The relay state of an answer may be an earlier request's: a request without one does not
  clear what the session still holds from a request that had one, and the answer echoes it.
\<close>

theorem stale_relay_state_echoed:
  assumes "accept_request sl sf entry processed None c = (Inr (StartAuth d b), c1)"
    and "state_wf (cx_state c)" "sf_name sf \<noteq> STATE_KEY_BASE"
    and "get_str (cx_state c) (sf_name sf) ''relay_state'' = Some stale"
    and "saml_render sl sf answer c1 = (Inr r, c2)"
  shows "\<exists>signed. r = sl_with_header sl ''cache-control'' ''no-cache, no-store''
    (sl_html sl (sl_post_encode sl signed False (pr_acs_url processed) (Some stale)))"
proof -
  from accept_request_StartD[OF assms(1)] obtain format where
    f: "cx_state c1 = stash_request (sf_name sf) processed format None (cx_state c)" by auto
  from saml_renderD[OF assms(5)] obtain request_id sp format' where
    "issue_response sl sf answer request_id sp (pr_acs_url processed) (Some stale) format' c1 = (Inr r, c2)"
    using assms(4) by (auto simp: f stash_request_get[OF assms(2,3)])
  from issue_responseD[OF this] show ?thesis by blast
qed

section \<open>Release\<close>

lemma released_attributes_allowed:
  assumes "Option.bind (or_else (bm_get (sf_policy sf) sp) (bm_get (sf_policy sf) ''default''))
      sy_attribute_restrictions = Some allowed"
  shows "(n, vs) \<in> set (released_attributes sf sp attrs) \<longleftrightarrow> (n, vs) \<in> set attrs \<and> n \<in> set allowed"
  using assms by (auto simp: released_attributes_def bm_retain_def list_ex_iff)

lemma in_map_filter: "y \<in> set (List.map_filter f xs) \<longleftrightarrow> (\<exists>x \<in> set xs. f x = Some y)"
  by (induction xs) (auto simp: map_filter_simps split: option.splits)

text \<open>
  A provider receives only what its policy allows: under a restriction list, of the provider
  itself or the default one when it has no entry, every attribute of the response is an internal
  attribute of that list, under a name of its SAML mapping, and carries exactly its values.
\<close>

theorem saml_release_restricted:
  assumes restricted: "Option.bind (or_else (bm_get (sf_policy sf) sp) (bm_get (sf_policy sf) ''default''))
      sy_attribute_restrictions = Some allowed"
    and attr: "at \<in> set (ro_attributes (answer_options sc sf
      (d\<lparr> id_attributes := released_attributes sf sp (id_attributes d) \<rparr>) request_id sp acs session_index now))"
  shows "\<exists>internal vals mapping basic. internal \<in> set allowed \<and> (internal, vals) \<in> set (id_attributes d) \<and>
    lookup_mapping (sf_mapper sf) ''saml'' internal = Some mapping \<and> pa_names mapping \<noteq> [] \<and> basic = hd (pa_names mapping) \<and>
    at_name at = (case (sf_uri_format sf, pa_oid mapping) of (True, Some oid) \<Rightarrow> oid | _ \<Rightarrow> basic) \<and>
    map (\<lambda>v. case v of AvString s \<Rightarrow> s | AvNameId n \<Rightarrow> ni_value n | _ \<Rightarrow> []) (at_values at) = vals"
proof -
  from attr obtain internal vals where
    i: "(internal, vals) \<in> set (released_attributes sf sp (id_attributes d))"
      "saml_attribute_of sc sf sp (internal, vals) = Some at"
    by (auto simp: answer_options_def response_options_for_def in_map_filter)
  from i(2) obtain mapping where l: "lookup_mapping (sf_mapper sf) ''saml'' internal = Some mapping"
    by (auto simp: saml_attribute_of_def bind_eq_Some_conv)
  with i(2) obtain basic rest where m: "lookup_mapping (sf_mapper sf) ''saml'' internal = Some mapping"
    "pa_names mapping = basic # rest"
    by (cases "pa_names mapping") (auto simp: saml_attribute_of_def)
  have "at_name at = (case (sf_uri_format sf, pa_oid mapping) of (True, Some oid) \<Rightarrow> oid | _ \<Rightarrow> basic)"
    using i(2) by (auto simp: saml_attribute_of_def m attribute_naming_def split: option.splits bool.splits)
  moreover have "map (\<lambda>v. case v of AvString s \<Rightarrow> s | AvNameId n \<Rightarrow> ni_value n | _ \<Rightarrow> []) (at_values at) = vals"
    using i(2) by (auto simp: saml_attribute_of_def m comp_def split: prod.splits if_split_asm)
  moreover have "(internal, vals) \<in> set (id_attributes d) \<and> internal \<in> set allowed"
    using i(1) unfolding released_attributes_allowed[OF restricted] .
  ultimately show ?thesis using m
    by (intro exI[of _ internal] exI[of _ vals] exI[of _ mapping] exI[of _ basic]) simp
qed

section \<open>Signing\<close>

text \<open>
  Preparing a document for signing inserts the signature template right behind the first
  opening tag of the element and changes nothing else: taking the template out gives the document
  back, and the tag it follows starts at the first occurrence of the element.
\<close>

theorem signature_spliced:
  assumes "insert_signature_after_element xml el sig = Inr out"
  shows "\<exists>pre tag post. xml = pre @ tag @ post \<and> out = pre @ tag @ sig @ post \<and>
    (starts_with (''<'' @ el @ '' '') (tag @ post) \<or> starts_with (''<'' @ el @ ''>'') (tag @ post)) \<and>
    tag \<noteq> [] \<and> last tag = CHR ''>'' \<and> CHR ''>'' \<notin> set (butlast tag)"
proof -
  from assms obtain i rel where i: "or_else (find_str (''<'' @ el @ '' '') xml) (find_str (''<'' @ el @ ''>'') xml) = Some i"
    "find_str ''>'' (drop i xml) = Some rel" "out = take (i + rel + 1) xml @ sig @ drop (i + rel + 1) xml"
    by (auto simp: insert_signature_after_element_def bind_result_eq_Inr Let_def)
  from i(1) have s: "starts_with (''<'' @ el @ '' '') (drop i xml) \<or> starts_with (''<'' @ el @ ''>'') (drop i xml)"
    using find_str_starts by (auto simp: or_else_def split: option.splits)
  let ?rest = "drop i xml"
  have r: "rel < length ?rest" "?rest ! rel = CHR ''>''"
  proof -
    have h: "rel + 1 \<le> length ?rest" "take 1 (drop rel ?rest) = ''>''"
      using find_str_SomeD[OF i(2)] by simp_all
    then show "rel < length ?rest" by simp
    then have "drop rel ?rest = ?rest ! rel # drop (Suc rel) ?rest" by (simp only: Cons_nth_drop_Suc)
    with h(2) show "?rest ! rel = CHR ''>''" by simp
  qed
  have first: "?rest ! j \<noteq> CHR ''>''" if "j < rel" for j
  proof
    assume c: "?rest ! j = CHR ''>''"
    have "drop j ?rest = ?rest ! j # drop (Suc j) ?rest" using that r(1) by (simp only: Cons_nth_drop_Suc)
    with c have "starts_with ''>'' (drop j ?rest)" by (simp add: starts_with_def)
    with find_str_first[OF i(2) that] show False by simp
  qed
  have tag: "take (rel + 1) ?rest = take rel ?rest @ [CHR ''>'']"
    using r by (simp add: take_Suc_conv_app_nth)
  have "CHR ''>'' \<notin> set (take rel ?rest)"
    using first r(1) by (auto simp: in_set_conv_nth)
  moreover have "xml = take i xml @ take (rel + 1) ?rest @ drop (rel + 1) ?rest"
    by (simp only: append_take_drop_id)
  moreover have "out = take i xml @ take (rel + 1) ?rest @ sig @ drop (rel + 1) ?rest"
    using take_add[of i "rel + 1" xml] unfolding i(3) by (simp add: add.commute)
  moreover have "starts_with (''<'' @ el @ '' '') (take (rel + 1) ?rest @ drop (rel + 1) ?rest) \<or>
      starts_with (''<'' @ el @ ''>'') (take (rel + 1) ?rest @ drop (rel + 1) ?rest)"
    using s by (simp only: append_take_drop_id)
  ultimately show ?thesis using tag
    by - (rule exI[of _ "take i xml"], rule exI[of _ "take (rel + 1) ?rest"],
      rule exI[of _ "drop (rel + 1) ?rest"], simp)
qed

section \<open>Configuration\<close>

lemma configured_store_registered:
  assumes "configured_store sl sb cfg = Inr store"
  shows "store = AllowAll \<longleftrightarrow> fc_metadata cfg = None"
    "store = AllowAll \<Longrightarrow> fc_allow_unknown_sps cfg \<and> \<not> fc_want_signed cfg"
    "store = Store local (Some client) \<Longrightarrow> mc_role client = RoleSp"
  using assms
  by (auto simp: configured_store_def bind_result_eq_Inr sp_mdq_client_def build_mdq_client_def mdq_role_def
      build_mdq_client_with_fetcher_def Let_def split: option.splits bool.splits if_split_asm)

text \<open>
  A frontend that was built signs what it sends and answers only in a configured format; it
  runs open only when told so and without metadata, and then it does not claim to check signatures;
  a metadata client is asked for service providers only.
\<close>

theorem saml_frontend_closed:
  assumes "saml_frontend_configure sl sb bx = Inr sf"
  shows "(sf_sign_assertions sf \<or> sf_sign_responses sf) \<and> sf_name_id_formats sf \<noteq> [] \<and>
    (case sf_sp_store sf of
       AllowAll \<Rightarrow> (\<exists>cfg. dec_saml_frontend (bx_config bx) = Some cfg \<and> fc_allow_unknown_sps cfg \<and> fc_metadata cfg = None) \<and>
         \<not> sf_want_signed sf
     | Store local mdq \<Rightarrow> (local \<noteq> [] \<or> mdq \<noteq> None) \<and> (\<forall>client. mdq = Some client \<longrightarrow> mc_role client = RoleSp))"
proof -
  from assms obtain cfg where c: "dec_saml_frontend (bx_config bx) = Some cfg"
    "fc_sign_assertions cfg \<or> fc_sign_responses cfg" "configured_formats (sl_constants sl) cfg = Inr (sf_name_id_formats sf)"
    "configured_store sl sb cfg = Inr (sf_sp_store sf)" "sf_want_signed sf = fc_want_signed cfg"
    "sf_sign_assertions sf = fc_sign_assertions cfg" "sf_sign_responses sf = fc_sign_responses cfg"
    by (auto simp: saml_frontend_configure_def bind_result_eq_Inr parse_config_def split: if_split_asm prod.splits)
  have "sf_name_id_formats sf \<noteq> []"
    using c(3) by (auto simp: configured_formats_def split: option.splits if_split_asm)
  moreover have "local \<noteq> [] \<or> mdq \<noteq> None" if "sf_sp_store sf = Store local mdq" for local mdq
    using c(4) unfolding that
    by (auto simp: configured_store_def bind_result_eq_Inr split: option.splits bool.splits if_split_asm)
  ultimately show ?thesis
    using c configured_store_registered[OF c(4)] by (auto split: sp_store.splits)
qed

text \<open>
  The endpoint of the entity id is looked up below the base URL with every trailing \<open>/sso\<close> removed,
  so a frontend named \<open>sso\<close> compares it with the wrong base.
\<close>

lemma sso_named_entity_id_route:
  "entity_id_route (sf\<lparr> sf_sso_url := ''https://p/sso/sso'', sf_entity_id := ''https://p/sso/proxy.xml'' \<rparr>) =
     Some ''sso/proxy.xml''"
  "entity_id_route (sf\<lparr> sf_sso_url := ''https://p/idp/sso'', sf_entity_id := ''https://p/idp/proxy.xml'' \<rparr>) =
     Some ''proxy.xml''"
proof -
  have "trim_end_matches ''/sso'' ''https://p/sso/sso'' = ''https://p''"
    "trim_end_matches ''/sso'' ''https://p/idp/sso'' = ''https://p/idp''" by code_simp+
  moreover have "strip_prefix (''https://p'' @ ''/'') ''https://p/sso/proxy.xml'' = Some ''sso/proxy.xml''"
    "strip_prefix (''https://p/idp'' @ ''/'') ''https://p/idp/proxy.xml'' = Some ''proxy.xml''" by code_simp+
  ultimately show "entity_id_route (sf\<lparr> sf_sso_url := ''https://p/sso/sso'', sf_entity_id := ''https://p/sso/proxy.xml'' \<rparr>) =
     Some ''sso/proxy.xml''"
    "entity_id_route (sf\<lparr> sf_sso_url := ''https://p/idp/sso'', sf_entity_id := ''https://p/idp/proxy.xml'' \<rparr>) =
     Some ''proxy.xml''" by (simp_all add: entity_id_route_def)
qed

section \<open>Witnesses\<close>

definition toy_constants :: saml_constants where
  "toy_constants = \<lparr> sc_persistent = ''persistent'', sc_transient = ''transient'', sc_unspecified = ''unspecified'',
     sc_format_uri = ''uri'', sc_format_basic = ''basic'', sc_context_password = ''pw'', sc_binding_post = ''post'',
     sc_binding_redirect = ''redirect'', sc_status_requester = ''requester'', sc_invalid_name_id_policy = ''policy'',
     sc_eptid_oid = ''urn:oid:eptid'', sc_email = ''email'', sc_no_passive = ''nopassive'' \<rparr>"

definition toy_authn_request :: "string \<Rightarrow> authn_request" where
  "toy_authn_request i = \<lparr> ar_id = i, ar_issuer = Some ''sp'', ar_has_signature = True, ar_acs_url = None,
     ar_protocol_binding = None, ar_name_id_policy = None, ar_requested_context = None, ar_force_authn = None,
     ar_is_passive = None, ar_consuming_index = None, ar_extensions = None \<rparr>"

definition toy_processed :: processed_request where
  "toy_processed = \<lparr> pr_request_id = ''r1'', pr_sp_entity_id = ''sp'', pr_acs_url = ''https://sp/acs'',
     pr_acs_binding = ''post'', pr_force_authn = False, pr_is_passive = False, pr_name_id_format = None,
     pr_allow_create = True, pr_context_class_refs = [], pr_context_comparison = None, pr_consuming_index = None,
     pr_extensions = None \<rparr>"

definition toy_document :: string where "toy_document = ''<saml:Assertion ID=x><a/></saml:Assertion>''"

definition toy_idp :: "(int, string, string, unit, unit, string) saml_idp_lib" where
  "toy_idp = \<lparr> sl_constants = toy_constants, sl_utf8 = Some, sl_b64_decode = Some, sl_inflate = Some,
     sl_redirect_decode = (\<lambda>v. None), sl_parse_xml = Some, sl_parse_request = (\<lambda>d. Some (toy_authn_request d)),
     sl_parse_aggregate = (\<lambda>d. None), sl_parse_entity = (\<lambda>d. Some \<lparr> sn_entity_id = d, sn_extensions = None, sn_sp_roles = [d] \<rparr>),
     sl_role_extensions = (\<lambda>s. None), sl_role_signing_certs = (\<lambda>s. [s]), sl_role_encryption_certs = (\<lambda>s. []),
     sl_role_requests_signed = (\<lambda>s. Some True), sl_mdq_get = (\<lambda>c i w. (Inl EntityNotFound, w)),
     sl_load_cert = (\<lambda>d. Some ()), sl_redirect_verify = (\<lambda>d v. Some True),
     sl_verify_enveloped = (\<lambda>v xml. Some (Valid [(True, CHR ''#'' # xml)])),
     sl_process_request = (\<lambda>r s v. if v then Some toy_processed else None),
     sl_error_response = (\<lambda>i r a st sub msg now. \<lparr> sr_id = ''e'', sr_assertion_ids = [], sr_xml = Some ''<samlp:Response>'' \<rparr>),
     sl_create_response = (\<lambda>ro n now. \<lparr> sr_id = ''r'', sr_assertion_ids = [''a''], sr_xml = Some toy_document \<rparr>),
     sl_post_encode = (\<lambda>xml b acs relay. acs), sl_metadata_xml = (\<lambda>m. Some ''<md/>''),
     sl_generate_id = (\<lambda>w. (show_nat (nat w), w + 1)), sl_now = id, sl_html = hl_text toy_http 200,
     sl_text = hl_text toy_http, sl_response_new = (\<lambda>st. hl_text toy_http st []), sl_with_header = (\<lambda>k v r. r) \<rparr>"

definition toy_saml_cfg :: json where
  "toy_saml_cfg = JObject [(''idp_key_path'', JString ''k''), (''idp_cert_path'', JString ''c''),
     (''metadata'', JObject [(''local'', JArray [JString ''sp''])]),
     (''policy'', JObject [(''default'', JObject [(''attribute_restrictions'', JArray [JString ''mail''])])])]"

definition toy_saml_build :: "(unit, unit, string) saml_build_lib" where
  "toy_saml_build = \<lparr> sb_read = Some, sb_utf8_lossy = id, sb_b64_decode = Some, sb_load_pem = (\<lambda>p. Some ()),
     sb_signer = (\<lambda>k der xml. Some xml), sb_mdq = \<lparr> mb_fetcher_default = Some (), mb_read = Some, mb_cert_ok = (\<lambda>p. True) \<rparr>,
     sb_contact_type = Some \<rparr>"

definition toy_sp_entry :: "string sp_entry" where
  "toy_sp_entry = \<lparr> se_sp_sso = ''sp'', se_signing_certs = [''sp''], se_encryption_certs = [],
     se_categories = [], se_certifications = [] \<rparr>"

definition toy_sf :: "(string, unit, string) saml_frontend" where
  "toy_sf = \<lparr> sf_name = ''idp'', sf_entity_id = ''https://p/idp'', sf_sso_url = ''https://p/idp/sso'', sf_signer = Some,
     sf_cert_b64 = ''cert'', sf_lifetime = 300, sf_sign_assertions = True, sf_sign_responses = False,
     sf_name_id_formats = [''persistent''], sf_uri_format = False, sf_default_acr = None,
     sf_sp_store = Store [(''sp'', toy_sp_entry)] None, sf_want_signed = False, sf_organization = None,
     sf_contacts = [], sf_policy = [(''default'', \<lparr> sy_attribute_restrictions = Some [''mail''] \<rparr>)],
     sf_mapper = toy_mapper, sf_backend = None \<rparr>"

definition toy_sso :: "int req_context_scheme" where
  "toy_sso = context_new (toy_rq1\<lparr> rq_form := [(''SAMLRequest'', ''r1'')] \<rparr>) state_new 100"

definition toy_sso_login :: internal_data where
  "toy_sso_login = internal_default\<lparr> id_requester := Some ''sp'' \<rparr>"

definition toy_accepted :: "int req_context_scheme" where
  "toy_accepted = snd (accept_request toy_idp toy_sf (Some toy_sp_entry) toy_processed None toy_sso)"

definition toy_stale :: "int req_context_scheme" where
  "toy_stale = with_state (set_str ''idp'' ''relay_state'' ''old'') toy_sso"

lemma toy_sso_steps:
  "fst (handle_sso toy_idp toy_sf toy_sso) = Inr (StartAuth toy_sso_login None)"
  "fst (accept_request toy_idp toy_sf (Some toy_sp_entry) toy_processed None toy_sso) = Inr (StartAuth toy_sso_login None)"
  "fst (accept_request toy_idp toy_sf (Some toy_sp_entry) toy_processed None toy_stale) = Inr (StartAuth toy_sso_login None)"
  "state_wf (cx_state toy_sso)" "state_wf (cx_state toy_accepted)" "state_wf (cx_state toy_stale)"
  "get_str (cx_state toy_stale) ''idp'' ''relay_state'' = Some ''old''"
  "sf_name toy_sf = ''idp''" "sf_sp_store toy_sf = Store [(''sp'', toy_sp_entry)] None" "''idp'' \<noteq> STATE_KEY_BASE"
  by code_simp+

lemma toy_saml_answer:
  "fst (saml_render toy_idp toy_sf toy_answer toy_accepted) = Inr (hl_text toy_http 200 ''https://sp/acs'')"
  "fst (saml_render toy_idp toy_sf toy_answer
     (snd (accept_request toy_idp toy_sf (Some toy_sp_entry) toy_processed None toy_stale))) =
     Inr (hl_text toy_http 200 ''https://sp/acs'')"
  "verify_authn_request_signature toy_idp toy_sp_entry None (toy_authn_request ''r1'') ''r1'' = Inr ()"
  "is_ok (insert_signature_after_element toy_document ''saml:Assertion'' ''<s/>'')"
  by code_simp+

lemma toy_saml_built: "is_ok (saml_frontend_configure toy_idp toy_saml_build (toy_build toy_saml_cfg))"
  by code_simp

theorem saml_login_registered_witness:
  "get_str (cx_state (snd (handle_sso toy_idp toy_sf toy_sso))) ''idp'' ''sp_entity_id'' = id_requester toy_sso_login"
proof -
  have h: "handle_sso toy_idp toy_sf toy_sso =
      (Inr (StartAuth toy_sso_login None), snd (handle_sso toy_idp toy_sf toy_sso))"
    unfolding toy_sso_steps(1)[symmetric] by simp
  from saml_login_registered[OF h toy_sso_steps(9,4)] show ?thesis
    unfolding toy_sso_steps(8) using toy_sso_steps(10) by auto
qed

theorem authn_signature_covers_request_witness:
  "\<exists>verifier refs. sl_verify_enveloped toy_idp verifier ''r1'' = Some (Valid refs) \<and> (True, ''#r1'') \<in> set refs"
  using authn_signature_covers_request[OF toy_saml_answer(3)] by (auto simp: toy_authn_request_def)

theorem saml_answer_to_validated_endpoint_witness:
  "fst (saml_render toy_idp toy_sf toy_answer (snd (saml_render toy_idp toy_sf toy_answer toy_accepted))) =
     Inl (ErrState ''no in-flight AuthnRequest'')"
proof -
  have s: "accept_request toy_idp toy_sf (Some toy_sp_entry) toy_processed None toy_sso =
      (Inr (StartAuth toy_sso_login None), toy_accepted)"
    unfolding toy_accepted_def toy_sso_steps(2)[symmetric] by simp
  have a: "saml_render toy_idp toy_sf toy_answer toy_accepted =
      (Inr (hl_text toy_http 200 ''https://sp/acs''), snd (saml_render toy_idp toy_sf toy_answer toy_accepted))"
    unfolding toy_saml_answer(1)[symmetric] by simp
  have n: "sf_name toy_sf \<noteq> STATE_KEY_BASE" unfolding toy_sso_steps(8) by (rule toy_sso_steps(10))
  from saml_answer_to_validated_endpoint[OF s toy_sso_steps(4) n _ toy_sso_steps(5) a, of toy_answer] show ?thesis by auto
qed

theorem stale_relay_state_echoed_witness:
  "\<exists>signed. hl_text toy_http 200 ''https://sp/acs'' =
     sl_html toy_idp (sl_post_encode toy_idp signed False ''https://sp/acs'' (Some ''old''))"
proof -
  let ?c1 = "snd (accept_request toy_idp toy_sf (Some toy_sp_entry) toy_processed None toy_stale)"
  have s: "accept_request toy_idp toy_sf (Some toy_sp_entry) toy_processed None toy_stale =
      (Inr (StartAuth toy_sso_login None), ?c1)"
    unfolding toy_sso_steps(3)[symmetric] by simp
  have a: "saml_render toy_idp toy_sf toy_answer ?c1 =
      (Inr (hl_text toy_http 200 ''https://sp/acs''), snd (saml_render toy_idp toy_sf toy_answer ?c1))"
    unfolding toy_saml_answer(2)[symmetric] by simp
  have n: "sf_name toy_sf \<noteq> STATE_KEY_BASE" unfolding toy_sso_steps(8) by (rule toy_sso_steps(10))
  from stale_relay_state_echoed[OF s toy_sso_steps(6) n _ a] toy_sso_steps(7,8) show ?thesis
    by (simp add: toy_processed_def toy_idp_def)
qed

theorem saml_release_restricted_witness:
  "\<forall>at \<in> set (ro_attributes (answer_options toy_constants toy_sf
      (toy_answer\<lparr> id_attributes := released_attributes toy_sf ''sp'' [(''mail'', [''a'']), (''name'', [''b''])] \<rparr>)
      ''r1'' ''sp'' ''acs'' ''1'' 0)). map (\<lambda>v. case v of AvString s \<Rightarrow> s | AvNameId n \<Rightarrow> ni_value n | _ \<Rightarrow> []) (at_values at) = [''a'']"
proof
  fix at
  let ?d = "toy_answer\<lparr> id_attributes := [(''mail'', [''a'']), (''name'', [''b''])] \<rparr>"
  assume "at \<in> set (ro_attributes (answer_options toy_constants toy_sf
      (toy_answer\<lparr> id_attributes := released_attributes toy_sf ''sp'' [(''mail'', [''a'']), (''name'', [''b''])] \<rparr>)
      ''r1'' ''sp'' ''acs'' ''1'' 0))"
  then have a: "at \<in> set (ro_attributes (answer_options toy_constants toy_sf
      (?d\<lparr> id_attributes := released_attributes toy_sf ''sp'' (id_attributes ?d) \<rparr>) ''r1'' ''sp'' ''acs'' ''1'' 0))" by simp
  have r: "Option.bind (or_else (bm_get (sf_policy toy_sf) ''sp'') (bm_get (sf_policy toy_sf) ''default''))
      sy_attribute_restrictions = Some [''mail'']" by code_simp
  from saml_release_restricted[OF r a]
  show "map (\<lambda>v. case v of AvString s \<Rightarrow> s | AvNameId n \<Rightarrow> ni_value n | _ \<Rightarrow> []) (at_values at) = [''a'']" by auto
qed

theorem signature_spliced_witness:
  "\<exists>pre tag post. toy_document = pre @ tag @ post \<and> last tag = CHR ''>''"
proof -
  obtain out where "insert_signature_after_element toy_document ''saml:Assertion'' ''<s/>'' = Inr out"
    using toy_saml_answer(4) by (auto simp: is_ok_iff)
  from signature_spliced[OF this] show ?thesis by blast
qed

theorem saml_frontend_closed_witness:
  "\<exists>sf. saml_frontend_configure toy_idp toy_saml_build (toy_build toy_saml_cfg) = Inr sf \<and> sf_name_id_formats sf \<noteq> []"
proof -
  obtain sf where h: "saml_frontend_configure toy_idp toy_saml_build (toy_build toy_saml_cfg) = Inr sf"
    using toy_saml_built by (auto simp: is_ok_iff)
  from saml_frontend_closed[OF h] show ?thesis by (intro exI[of _ sf] conjI h) blast
qed

end
