(* ===== verification/Stepup_Policy.thy ===== *)
theory Stepup_Policy
  imports Release_Services
begin

text \<open>
  The step-up policy of \<open>stepup_policy.rs\<close>: which level-of-assurance settings apply to a requester
  or a provider, whether the first provider already satisfied the request, and the level reported
  after a second exchange; with the JSON forms in which the policy crosses the session state.  An
  \<open>IndexMap\<close> keeps the order of the configuration: it is a list of entries.
\<close>

definition REFEDS_MFA :: string where "REFEDS_MFA = ''https://refeds.org/profile/mfa''"

datatype stepup_behavior = Hardened | Eduid

record loa_settings =
  lo_requested :: "string list"
  lo_extra_accepted :: "string list"
  lo_returned :: "string option"

definition accepts :: "loa_settings \<Rightarrow> string option \<Rightarrow> bool" where
  "accepts s loa =
     (case loa of None \<Rightarrow> False | Some l \<Rightarrow> l \<in> set (lo_requested s) \<or> l \<in> set (lo_extra_accepted s))"

record mfa_config =
  mf_by_entity_id :: "(string \<times> loa_settings) list"
  mf_by_category :: "(string \<times> loa_settings) list"
  mf_by_certification :: "(string \<times> loa_settings) list"

record metadata_values =
  mv_categories :: "string list"
  mv_certifications :: "string list"

datatype policy_subject = RequesterSubject | ProviderSubject

definition resolve_policy ::
    "mfa_config \<Rightarrow> string option \<Rightarrow> metadata_values \<Rightarrow> stepup_behavior \<Rightarrow> policy_subject \<Rightarrow> loa_settings option" where
  "resolve_policy mfa entity_id metadata behavior subject =
     Option.bind entity_id (\<lambda>e.
       case jm_get (mf_by_entity_id mfa) e of
         Some s \<Rightarrow> Some s
       | None \<Rightarrow>
           (case behavior of
              Eduid \<Rightarrow> or_else (find_map (jm_get (mf_by_category mfa)) (mv_categories metadata))
                              (find_map (jm_get (mf_by_certification mfa)) (mv_certifications metadata))
            | Hardened \<Rightarrow>
                (let (configured, presented) = (case subject of
                       RequesterSubject \<Rightarrow> (mf_by_category mfa, mv_categories metadata)
                     | ProviderSubject \<Rightarrow> (mf_by_certification mfa, mv_certifications metadata))
                 in find_map (\<lambda>(k, s). if k \<in> set presented then Some s else None) configured)))"

datatype loa_decision = Satisfied string | NeedsStepup | Rejected

definition initial_loa_decision ::
    "stepup_behavior \<Rightarrow> loa_settings option \<Rightarrow> string list \<Rightarrow> string option \<Rightarrow> loa_decision" where
  "initial_loa_decision behavior settings requester_loas asserted =
     (case settings of
        None \<Rightarrow> NeedsStepup
      | Some s \<Rightarrow>
          (case behavior of
             Hardened \<Rightarrow>
               if accepts s asserted then
                 (case or_else (lo_returned s) (or_else (List.find (\<lambda>_. True) requester_loas) asserted) of
                    Some l \<Rightarrow> Satisfied l | None \<Rightarrow> NeedsStepup)
               else NeedsStepup
           | Eduid \<Rightarrow>
               (case lo_returned s of
                  Some returned \<Rightarrow> if accepts s asserted then Satisfied returned else Rejected
                | None \<Rightarrow> NeedsStepup)))"

definition completed_loa ::
    "stepup_behavior \<Rightarrow> loa_settings \<Rightarrow> string list \<Rightarrow> string list \<Rightarrow> string option \<Rightarrow> string option" where
  "completed_loa behavior s original_loas effective_loas asserted =
     (case behavior of
        Hardened \<Rightarrow> or_else (lo_returned s) (or_else (List.find (\<lambda>_. True) original_loas) asserted)
      | Eduid \<Rightarrow> or_else (List.find (\<lambda>_. True) effective_loas) asserted)"

section \<open>JSON forms\<close>

fun enc_behavior :: "stepup_behavior \<Rightarrow> json" where
  "enc_behavior Hardened = JString ''hardened''"
| "enc_behavior Eduid = JString ''eduid''"

definition dec_behavior :: "json \<Rightarrow> stepup_behavior option" where
  "dec_behavior v = Option.bind (as_str v) (\<lambda>s.
     if s = ''hardened'' then Some Hardened else if s = ''eduid'' then Some Eduid else None)"

definition enc_loa :: "loa_settings \<Rightarrow> json" where
  "enc_loa s = JObject [(''requested'', json_strings (lo_requested s)),
     (''extra_accepted'', json_strings (lo_extra_accepted s)), (''returned'', enc_opt_str (lo_returned s))]"

definition dec_loa :: "json \<Rightarrow> loa_settings option" where
  "dec_loa v = do {
     m \<leftarrow> as_object v;
     r \<leftarrow> dec_required dec_strings ''requested'' m;
     x \<leftarrow> dec_default dec_strings [] ''extra_accepted'' m;
     t \<leftarrow> dec_default dec_opt_str None ''returned'' m;
     Some \<lparr> lo_requested = r, lo_extra_accepted = x, lo_returned = t \<rparr> }"

text \<open>An \<open>IndexMap\<close> keeps the order of the entries.\<close>

definition enc_index :: "('a \<Rightarrow> json) \<Rightarrow> (string \<times> 'a) list \<Rightarrow> json" where
  "enc_index f m = JObject (map (\<lambda>(k, v). (k, f v)) m)"

definition dec_index :: "(json \<Rightarrow> 'a option) \<Rightarrow> json \<Rightarrow> (string \<times> 'a) list option" where
  "dec_index f v = do { m \<leftarrow> as_object v; es \<leftarrow> dec_entries f m; Some (jm_of_list es) }"

definition enc_mfa :: "mfa_config \<Rightarrow> json" where
  "enc_mfa m = JObject [(''by_entity_id'', enc_index enc_loa (mf_by_entity_id m)),
     (''by_entity_category'', enc_index enc_loa (mf_by_category m)),
     (''by_assurance_certification'', enc_index enc_loa (mf_by_certification m))]"

definition dec_mfa :: "json \<Rightarrow> mfa_config option" where
  "dec_mfa v = do {
     m \<leftarrow> as_object v;
     e \<leftarrow> dec_default (dec_index dec_loa) [] ''by_entity_id'' m;
     c \<leftarrow> dec_default (dec_index dec_loa) [] ''by_entity_category'' m;
     a \<leftarrow> dec_default (dec_index dec_loa) [] ''by_assurance_certification'' m;
     Some \<lparr> mf_by_entity_id = e, mf_by_category = c, mf_by_certification = a \<rparr> }"

record policy_handoff =
  ho_behavior :: stepup_behavior
  ho_wants_mfa :: bool
  ho_mfa :: mfa_config

definition enc_handoff :: "policy_handoff \<Rightarrow> json" where
  "enc_handoff h = JObject [(''behavior'', enc_behavior (ho_behavior h)),
     (''requester_wants_mfa'', JBool (ho_wants_mfa h)), (''mfa'', enc_mfa (ho_mfa h))]"

definition dec_handoff :: "json \<Rightarrow> policy_handoff option" where
  "dec_handoff v = do {
     m \<leftarrow> as_object v;
     b \<leftarrow> dec_required dec_behavior ''behavior'' m;
     w \<leftarrow> dec_required as_bool ''requester_wants_mfa'' m;
     f \<leftarrow> dec_required dec_mfa ''mfa'' m;
     Some \<lparr> ho_behavior = b, ho_wants_mfa = w, ho_mfa = f \<rparr> }"

lemma dec_behavior_enc [simp]: "dec_behavior (enc_behavior b) = Some b"
  by (cases b) (simp_all add: dec_behavior_def)

lemma dec_loa_enc [simp]: "dec_loa (enc_loa s) = Some s"
  by (simp add: dec_loa_def enc_loa_def dec_required_def dec_default_def)

lemma dec_index_enc:
  assumes "\<And>a. dec (enc a) = Some a" "jm_wf m"
  shows "dec_index dec (enc_index enc m) = Some m"
proof -
  have "dec_entries dec (map (\<lambda>(k, v). (k, enc v)) m) = Some m"
    using assms(1) by (induction m) auto
  with assms(2) show ?thesis by (simp add: dec_index_def enc_index_def jm_of_list_distinct)
qed

definition mfa_wf :: "mfa_config \<Rightarrow> bool" where
  "mfa_wf m \<longleftrightarrow> jm_wf (mf_by_entity_id m) \<and> jm_wf (mf_by_category m) \<and> jm_wf (mf_by_certification m)"

lemma dec_handoff_enc: "mfa_wf (ho_mfa h) \<Longrightarrow> dec_handoff (enc_handoff h) = Some h"
  by (simp add: dec_handoff_def enc_handoff_def dec_mfa_def enc_mfa_def dec_required_def dec_default_def
      dec_index_enc mfa_wf_def)

section \<open>Decisions\<close>

lemma find_True: "List.find (\<lambda>_. True) xs = (case xs of [] \<Rightarrow> None | x # _ \<Rightarrow> Some x)"
  by (cases xs) auto

text \<open>A provider satisfies a request only with a level its settings accept.\<close>

lemma SatisfiedD:
  assumes "initial_loa_decision behavior settings requester_loas asserted = Satisfied l"
  shows "\<exists>s. settings = Some s \<and> accepts s asserted \<and>
    (lo_returned s = Some l \<or> lo_returned s = None \<and> behavior = Hardened \<and> (l \<in> set requester_loas \<or> asserted = Some l))"
  using assms
  by (auto simp: initial_loa_decision_def find_True split: option.splits stepup_behavior.splits if_split_asm list.splits)

lemma acceptsD: "accepts s asserted \<Longrightarrow> \<exists>l. asserted = Some l \<and> l \<in> set (lo_requested s) \<union> set (lo_extra_accepted s)"
  by (auto simp: accepts_def split: option.splits)

lemma resolve_policy_configured:
  assumes "resolve_policy mfa entity metadata behavior subject = Some s"
  shows "s \<in> snd ` set (mf_by_entity_id mfa) \<union> snd ` set (mf_by_category mfa) \<union> snd ` set (mf_by_certification mfa)"
proof -
  have pick: "s \<in> snd ` set m" if "find_map (jm_get m) ks = Some s" for m :: "(string \<times> loa_settings) list" and ks
    using find_map_SomeD[OF that] by (force dest: map_of_SomeD)
  have scan: "s \<in> snd ` set m" if "find_map (\<lambda>(k, s). if k \<in> set presented then Some s else None) m = Some s"
    for m :: "(string \<times> loa_settings) list" and presented
    using find_map_SomeD[OF that] by (auto split: if_split_asm simp: image_iff) (metis snd_conv)
  from assms obtain e where "entity = Some e" by (cases entity) (auto simp: resolve_policy_def)
  show ?thesis
  proof (cases "jm_get (mf_by_entity_id mfa) e")
    case (Some s')
    with assms \<open>entity = Some e\<close> have "s = s'" by (simp add: resolve_policy_def)
    with Some show ?thesis by (force dest: map_of_SomeD)
  next
    case None
    with assms \<open>entity = Some e\<close> show ?thesis
      by (cases behavior; cases subject)
         (auto simp: resolve_policy_def or_else_def dest!: pick scan split: option.splits)
  qed
qed

end
