(* ===== verification/Scope_Cache.thy ===== *)
theory Scope_Cache
  imports Saml_Common Stepup_Policy
begin

text \<open>
  The scope-aware metadata client of \<open>saml2_backend.rs\<close>: a metadata client with its own cache, next
  to it the scopes read from the documents that client accepted.  A lookup is three steps (read the
  scopes and reset both caches at capacity, ask the client, store new scopes), and lookups of
  different entities interleave; a lock per entity keeps two lookups of one entity apart.  The
  client and the XML parser are parameters; what is relied on of the client is \<open>mdq_contract\<close>.
  Shown: whatever the interleaving, the scopes a lookup returns are those of the document its
  entity came from, and the scope cache stays within its capacity.
\<close>

section \<open>Metadata documents\<close>

text \<open>
  A parsed document: elements with namespace, local name, attributes, children and source text.
\<close>

datatype xml_node =
    XElement "string option" string "(string \<times> string) list" "xml_node list" "string option"
  | XText string

fun is_element :: "xml_node \<Rightarrow> bool" where
  "is_element (XElement ns l as cs src) = True"
| "is_element (XText t) = False"

fun children :: "xml_node \<Rightarrow> xml_node list" where
  "children (XElement ns l as cs src) = cs"
| "children (XText t) = []"

fun name_matches :: "string \<Rightarrow> string \<Rightarrow> xml_node \<Rightarrow> bool" where
  "name_matches ns l (XElement ns' l' as cs src) = (ns' = Some ns \<and> l' = l)"
| "name_matches ns l (XText t) = False"

fun attribute :: "string \<Rightarrow> xml_node \<Rightarrow> string option" where
  "attribute k (XElement ns l as cs src) = map_of as k"
| "attribute k (XText t) = None"

fun text_content_deep :: "xml_node \<Rightarrow> string" where
  "text_content_deep (XText t) = t"
| "text_content_deep (XElement ns l as cs src) = concat (map text_content_deep cs)"

text \<open>\<open>char::is_control\<close>: the C0 controls, DEL and the C1 controls (two bytes in UTF-8).\<close>

fun has_control :: "string \<Rightarrow> bool" where
  "has_control [] = False"
| "has_control [c] = is_ascii_control c"
| "has_control (c # d # cs) =
     (is_ascii_control c \<or> byte c = 0xC2 \<and> 0x80 \<le> byte d \<and> byte d \<le> 0x9F \<or> has_control (d # cs))"

definition SHIBBOLETH_METADATA_NS :: string where "SHIBBOLETH_METADATA_NS = ''urn:mace:shibboleth:metadata:1.0''"
definition SAML_METADATA_NS :: string where "SAML_METADATA_NS = ''urn:oasis:names:tc:SAML:2.0:metadata''"

lemma find_map_cong [fundef_cong]:
  "xs = ys \<Longrightarrow> (\<And>x. x \<in> set ys \<Longrightarrow> f x = g x) \<Longrightarrow> find_map f xs = find_map g ys"
  by (induction xs arbitrary: ys) (auto split: option.splits)

fun find_metadata_entity :: "string \<Rightarrow> xml_node \<Rightarrow> xml_node option" where
  "find_metadata_entity entity_id (XText t) = None"
| "find_metadata_entity entity_id (XElement ns l as cs src) =
     (if ns = Some SAML_METADATA_NS \<and> l = ''EntityDescriptor'' then
        (if map_of as ''entityID'' = Some entity_id then Some (XElement ns l as cs src) else None)
      else if \<not> (ns = Some SAML_METADATA_NS \<and> l = ''EntitiesDescriptor'') then None
      else find_map (\<lambda>c. if is_element c then find_metadata_entity entity_id c else None) cs)"

definition scope_value :: "xml_node \<Rightarrow> string option" where
  "scope_value node =
     (if name_matches SHIBBOLETH_METADATA_NS ''Scope'' node \<and> \<not> list_ex is_element (children node) then
        (let v = trim (text_content_deep node) in if v \<noteq> [] \<and> \<not> has_control v then Some v else None)
      else None)"

text \<open>A \<open>BTreeSet\<close> of strings is their sorted list without duplicates.\<close>

definition entity_scopes :: "xml_node \<Rightarrow> string list" where
  "entity_scopes entity = remdups (sort
     [v. role \<leftarrow> children entity, name_matches SAML_METADATA_NS ''IDPSSODescriptor'' role,
         extensions \<leftarrow> children role, name_matches SAML_METADATA_NS ''Extensions'' extensions,
         scope \<leftarrow> children extensions, v \<leftarrow> (case scope_value scope of None \<Rightarrow> [] | Some v \<Rightarrow> [v])])"

definition trusted_scopes_from_metadata_xml :: "(string \<Rightarrow> xml_node option) \<Rightarrow> string \<Rightarrow> string \<Rightarrow> string list" where
  "trusted_scopes_from_metadata_xml parse xml entity_id =
     (case Option.bind (parse xml) (find_metadata_entity entity_id) of
        None \<Rightarrow> [] | Some entity \<Rightarrow> entity_scopes entity)"

lemma find_metadata_entity_id:
  "find_metadata_entity e root = Some node \<Longrightarrow>
     attribute ''entityID'' node = Some e \<and> name_matches SAML_METADATA_NS ''EntityDescriptor'' node"
proof (induction e root rule: find_metadata_entity.induct)
  case (2 e ns l as cs src)
  show ?case
  proof (cases "ns = Some SAML_METADATA_NS \<and> l = ''EntityDescriptor''")
    case True
    with 2 show ?thesis by (auto split: if_split_asm)
  next
    case False
    with 2(2) have g: "ns = Some SAML_METADATA_NS \<and> l = ''EntitiesDescriptor''"
      "find_map (\<lambda>c. if is_element c then find_metadata_entity e c else None) cs = Some node"
      by (auto split: if_split_asm)
    from find_map_SomeD[OF g(2)] obtain c where "c \<in> set cs" "is_element c" "find_metadata_entity e c = Some node"
      by (auto split: if_split_asm)
    with 2(1) False g(1) show ?thesis by blast
  qed
qed simp

section \<open>Entities\<close>

record idp_role =
  ir_extensions :: "md_extensions option"
  ir_sso_service :: "string \<Rightarrow> string option"
  ir_signing_certs :: "string list"

record idp_entity =
  ie_entity_id :: string
  ie_extensions :: "md_extensions option"
  ie_idp_roles :: "idp_role list"

definition trusted_idp_policy_values :: "idp_entity \<Rightarrow> metadata_values" where
  "trusted_idp_policy_values entity =
     (let active = List.find (\<lambda>_. True) (ie_idp_roles entity);
          extensions = List.map_filter id [ie_extensions entity, Option.bind active ir_extensions]
      in \<lparr> mv_categories = foldl (\<lambda>cs x. push_all_new cs (mx_categories x)) [] extensions,
           mv_certifications = foldl (\<lambda>cs x. push_all_new cs (mx_certifications x)) [] extensions \<rparr>)"

record resolved_idp =
  ri_entity :: idp_entity
  ri_scopes :: "string list"
  ri_policy_values :: metadata_values

section \<open>The scope cache\<close>

definition MDQ_CACHE_CAPACITY :: nat where "MDQ_CACHE_CAPACITY = 1024"

type_synonym scope_cache = "string list smap"

definition requires_reset :: "scope_cache \<Rightarrow> string \<Rightarrow> nat \<Rightarrow> bool" where
  "requires_reset sc entity_id capacity \<longleftrightarrow> bm_get sc entity_id = None \<and> length sc \<ge> capacity"

definition scope_get :: "scope_cache \<Rightarrow> string \<Rightarrow> string list" where
  "scope_get sc entity_id = unwrap_or [] (bm_get sc entity_id)"

text \<open>
  The client: its answer comes with the bytes it fetched and accepted, or with none when it was
  answered from the client's cache.
\<close>

record 'w mdq_ops =
  mo_get :: "string \<Rightarrow> 'w \<Rightarrow> (mdq_error + idp_entity \<times> string option) \<times> 'w"
  mo_clear :: "'w \<Rightarrow> 'w"
  mo_utf8 :: "string \<Rightarrow> bool"
  mo_parse :: "string \<Rightarrow> xml_node option"

definition scopes_of :: "'w mdq_ops \<Rightarrow> string \<Rightarrow> string \<Rightarrow> string list" where
  "scopes_of mo bytes entity_id =
     (if mo_utf8 mo bytes then trusted_scopes_from_metadata_xml (mo_parse mo) bytes entity_id else [])"

definition reset_at_capacity :: "'w mdq_ops \<Rightarrow> nat \<Rightarrow> string \<Rightarrow> scope_cache \<times> 'w \<Rightarrow> scope_cache \<times> 'w" where
  "reset_at_capacity mo capacity entity_id s =
     (case s of (sc, w) \<Rightarrow> if requires_reset sc entity_id capacity then ([], mo_clear mo w) else (sc, w))"

text \<open>The three steps of a lookup.\<close>

definition lookup_begin :: "'w mdq_ops \<Rightarrow> nat \<Rightarrow> string \<Rightarrow> scope_cache \<times> 'w \<Rightarrow> string list \<times> scope_cache \<times> 'w" where
  "lookup_begin mo capacity entity_id s =
     (let s = reset_at_capacity mo capacity entity_id s in (scope_get (fst s) entity_id, s))"

definition lookup_store ::
    "'w mdq_ops \<Rightarrow> nat \<Rightarrow> string \<Rightarrow> string list \<Rightarrow> idp_entity \<times> string option \<Rightarrow> scope_cache \<times> 'w \<Rightarrow>
      resolved_idp \<times> scope_cache \<times> 'w" where
  "lookup_store mo capacity entity_id cached answer s =
     (case answer of (entity, captured) \<Rightarrow>
        (case captured of
           None \<Rightarrow> (\<lparr> ri_entity = entity, ri_scopes = cached, ri_policy_values = trusted_idp_policy_values entity \<rparr>, s)
         | Some bytes \<Rightarrow>
             (let scopes = scopes_of mo bytes entity_id; (sc, w) = reset_at_capacity mo capacity entity_id s
              in (\<lparr> ri_entity = entity, ri_scopes = scopes, ri_policy_values = trusted_idp_policy_values entity \<rparr>,
                  bm_insert entity_id scopes sc, w))))"

definition scope_aware_get ::
    "'w mdq_ops \<Rightarrow> nat \<Rightarrow> string \<Rightarrow> scope_cache \<times> 'w \<Rightarrow> (mdq_error + resolved_idp) \<times> scope_cache \<times> 'w" where
  "scope_aware_get mo capacity entity_id s =
     (case lookup_begin mo capacity entity_id s of (cached, sc, w) \<Rightarrow>
        (case mo_get mo entity_id w of
           (Inl e, w) \<Rightarrow> (Inl e, sc, w)
         | (Inr answer, w) \<Rightarrow>
             (case lookup_store mo capacity entity_id cached answer (sc, w) of (r, s) \<Rightarrow> (Inr r, s))))"

section \<open>Interleaved lookups\<close>

text \<open>Where a lookup stands; a thread without an entry is not looking anything up.\<close>

datatype pc =
    Begun string "string list"
  | Answered string "string list" idp_entity "string option"

fun pc_entity :: "pc \<Rightarrow> string" where
  "pc_entity (Begun e cached) = e"
| "pc_entity (Answered e cached ent b) = e"

record 'w lookups =
  lk_scopes :: scope_cache
  lk_world :: 'w
  lk_pcs :: "nat \<Rightarrow> pc option"
  lk_results :: "(string \<times> resolved_idp) list"

definition entity_locked :: "'w lookups \<Rightarrow> string \<Rightarrow> bool" where
  "entity_locked g e \<longleftrightarrow> (\<exists>t p. lk_pcs g t = Some p \<and> pc_entity p = e)"

inductive lookup_step :: "'w mdq_ops \<Rightarrow> nat \<Rightarrow> 'w lookups \<Rightarrow> 'w lookups \<Rightarrow> bool" for mo capacity where
  step_begin:
    "lk_pcs g t = None \<Longrightarrow> \<not> entity_locked g e \<Longrightarrow>
     lookup_begin mo capacity e (lk_scopes g, lk_world g) = (cached, sc, w) \<Longrightarrow>
     lookup_step mo capacity g
       (g\<lparr> lk_scopes := sc, lk_world := w, lk_pcs := (lk_pcs g)(t \<mapsto> Begun e cached) \<rparr>)"
| step_answer:
    "lk_pcs g t = Some (Begun e cached) \<Longrightarrow> mo_get mo e (lk_world g) = (Inr (ent, b), w) \<Longrightarrow>
     lookup_step mo capacity g
       (g\<lparr> lk_world := w, lk_pcs := (lk_pcs g)(t \<mapsto> Answered e cached ent b) \<rparr>)"
| step_fail:
    "lk_pcs g t = Some (Begun e cached) \<Longrightarrow> mo_get mo e (lk_world g) = (Inl err, w) \<Longrightarrow>
     lookup_step mo capacity g (g\<lparr> lk_world := w, lk_pcs := (lk_pcs g)(t := None) \<rparr>)"
| step_store:
    "lk_pcs g t = Some (Answered e cached ent b) \<Longrightarrow>
     lookup_store mo capacity e cached (ent, b) (lk_scopes g, lk_world g) = (r, sc, w) \<Longrightarrow>
     lookup_step mo capacity g
       (g\<lparr> lk_scopes := sc, lk_world := w, lk_pcs := (lk_pcs g)(t := None),
          lk_results := (e, r) # lk_results g \<rparr>)"

inductive_cases lookup_stepE: "lookup_step mo capacity g g'"

inductive lookups_reach :: "'w mdq_ops \<Rightarrow> nat \<Rightarrow> 'w lookups \<Rightarrow> 'w lookups \<Rightarrow> bool" for mo capacity g0 where
  reach_start: "lookups_reach mo capacity g0 g0"
| reach_step: "lookups_reach mo capacity g0 g \<Longrightarrow> lookup_step mo capacity g g' \<Longrightarrow> lookups_reach mo capacity g0 g'"

text \<open>
  What is relied on of the client, with \<open>held w e\<close> the document its cache holds for \<open>e\<close> and
  \<open>accepted b ent\<close> that \<open>ent\<close> was read from \<open>b\<close>: an answer without a fetch comes from the cache, a
  fetched answer is what the cache then holds, another entry is kept or dropped, and clearing drops
  every entry.
\<close>

definition mdq_contract ::
    "'w mdq_ops \<Rightarrow> ('w \<Rightarrow> string \<Rightarrow> string option) \<Rightarrow> (string \<Rightarrow> idp_entity \<Rightarrow> bool) \<Rightarrow> bool" where
  "mdq_contract mo held accepted \<longleftrightarrow>
     (\<forall>e w ent w'. mo_get mo e w = (Inr (ent, None), w') \<longrightarrow>
        (\<exists>b. held w e = Some b \<and> accepted b ent) \<and> held w' \<subseteq>\<^sub>m held w) \<and>
     (\<forall>e w ent b w'. mo_get mo e w = (Inr (ent, Some b), w') \<longrightarrow> accepted b ent \<and> held w' \<subseteq>\<^sub>m (held w)(e \<mapsto> b)) \<and>
     (\<forall>e w err w'. mo_get mo e w = (Inl err, w') \<longrightarrow> held w' \<subseteq>\<^sub>m held w) \<and>
     (\<forall>w. held (mo_clear mo w) = Map.empty)"


section \<open>The two caches agree\<close>

definition scopes_agree :: "'w mdq_ops \<Rightarrow> ('w \<Rightarrow> string \<Rightarrow> string option) \<Rightarrow> 'w lookups \<Rightarrow> bool" where
  "scopes_agree mo held g \<longleftrightarrow>
     (\<forall>e b. held (lk_world g) e = Some b \<longrightarrow>
        bm_get (lk_scopes g) e = Some (scopes_of mo b e) \<or>
        (\<exists>t c ent. lk_pcs g t = Some (Answered e c ent (Some b))))"

definition pc_ok :: "'w mdq_ops \<Rightarrow> (string \<Rightarrow> string option) \<Rightarrow> (string \<Rightarrow> idp_entity \<Rightarrow> bool) \<Rightarrow> pc \<Rightarrow> bool" where
  "pc_ok mo held accepted p \<longleftrightarrow>
     (case p of
        Begun e c \<Rightarrow> (\<forall>b. held e = Some b \<longrightarrow> c = scopes_of mo b e)
      | Answered e c ent None \<Rightarrow> (\<exists>b. accepted b ent \<and> c = scopes_of mo b e)
      | Answered e c ent (Some b) \<Rightarrow> accepted b ent \<and> (\<forall>d. held e = Some d \<longrightarrow> d = b))"

definition locks_exclude :: "'w lookups \<Rightarrow> bool" where
  "locks_exclude g \<longleftrightarrow>
     (\<forall>t t' p p'. lk_pcs g t = Some p \<longrightarrow> lk_pcs g t' = Some p' \<longrightarrow> pc_entity p = pc_entity p' \<longrightarrow> t = t')"

definition answer_ok :: "'w mdq_ops \<Rightarrow> (string \<Rightarrow> idp_entity \<Rightarrow> bool) \<Rightarrow> string \<times> resolved_idp \<Rightarrow> bool" where
  "answer_ok mo accepted er \<longleftrightarrow>
     (\<exists>b. accepted b (ri_entity (snd er)) \<and> ri_scopes (snd er) = scopes_of mo b (fst er))"

definition scope_inv ::
    "'w mdq_ops \<Rightarrow> ('w \<Rightarrow> string \<Rightarrow> string option) \<Rightarrow> (string \<Rightarrow> idp_entity \<Rightarrow> bool) \<Rightarrow> nat \<Rightarrow> 'w lookups \<Rightarrow> bool" where
  "scope_inv mo held accepted capacity g \<longleftrightarrow>
     bm_wf (lk_scopes g) \<and> length (lk_scopes g) \<le> capacity \<and> scopes_agree mo held g \<and>
     (\<forall>t p. lk_pcs g t = Some p \<longrightarrow> pc_ok mo (held (lk_world g)) accepted p) \<and>
     locks_exclude g \<and> list_all (answer_ok mo accepted) (lk_results g)"

definition lookups_start :: "'w \<Rightarrow> 'w lookups" where
  "lookups_start w = \<lparr> lk_scopes = [], lk_world = w, lk_pcs = Map.empty, lk_results = [] \<rparr>"

lemma mdq_contractD:
  assumes "mdq_contract mo held accepted"
  shows "mo_get mo e w = (Inr (ent, None), w') \<Longrightarrow> \<exists>b. held w e = Some b \<and> accepted b ent"
    "mo_get mo e w = (Inr (ent, None), w') \<Longrightarrow> held w' \<subseteq>\<^sub>m held w"
    "mo_get mo e w = (Inr (ent, Some b), w') \<Longrightarrow> accepted b ent"
    "mo_get mo e w = (Inr (ent, Some b), w') \<Longrightarrow> held w' \<subseteq>\<^sub>m (held w)(e \<mapsto> b)"
    "mo_get mo e w = (Inl err, w') \<Longrightarrow> held w' \<subseteq>\<^sub>m held w"
    "held (mo_clear mo w) = Map.empty"
  using assms unfolding mdq_contract_def by blast+

lemma scope_inv_start: "held w = Map.empty \<Longrightarrow> scope_inv mo held accepted capacity (lookups_start w)"
  by (simp add: scope_inv_def lookups_start_def scopes_agree_def locks_exclude_def)

lemma pc_ok_mono: "pc_ok mo h accepted p \<Longrightarrow> h' \<subseteq>\<^sub>m h \<Longrightarrow> pc_ok mo h' accepted p"
  unfolding pc_ok_def map_le_def dom_def
  by (auto split: pc.splits option.splits)

lemma scope_invD:
  assumes "scope_inv mo held accepted capacity g"
  shows "bm_wf (lk_scopes g)" "length (lk_scopes g) \<le> capacity" "locks_exclude g"
    "list_all (answer_ok mo accepted) (lk_results g)"
    "lk_pcs g t = Some p \<Longrightarrow> pc_ok mo (held (lk_world g)) accepted p"
    "held (lk_world g) e = Some b \<Longrightarrow>
       bm_get (lk_scopes g) e = Some (scopes_of mo b e) \<or> (\<exists>t c ent. lk_pcs g t = Some (Answered e c ent (Some b)))"
  using assms by (simp_all add: scope_inv_def scopes_agree_def)

lemma scope_invI:
  assumes "bm_wf (lk_scopes g)" "length (lk_scopes g) \<le> capacity" "locks_exclude g"
    "list_all (answer_ok mo accepted) (lk_results g)"
    "\<And>t p. lk_pcs g t = Some p \<Longrightarrow> pc_ok mo (held (lk_world g)) accepted p"
    "\<And>e b. held (lk_world g) e = Some b \<Longrightarrow>
       bm_get (lk_scopes g) e = Some (scopes_of mo b e) \<or> (\<exists>t c ent. lk_pcs g t = Some (Answered e c ent (Some b)))"
  shows "scope_inv mo held accepted capacity g"
  using assms by (simp add: scope_inv_def scopes_agree_def)

lemma locks_excludeD:
  "locks_exclude g \<Longrightarrow> lk_pcs g t = Some p \<Longrightarrow> lk_pcs g t' = Some p' \<Longrightarrow> pc_entity p = pc_entity p' \<Longrightarrow> t = t'"
  by (simp add: locks_exclude_def)

lemma map_le_SomeD: "h' \<subseteq>\<^sub>m h \<Longrightarrow> h' e = Some b \<Longrightarrow> h e = Some b"
  by (metis domI map_le_def)

lemma length_insert_new: "bm_get m k = None \<Longrightarrow> length (bm_insert k v m) = Suc (length m)"
  by (induction k v m rule: bm_insert.induct) (auto split: if_split_asm)

lemma length_insert_le: "length (bm_insert k v m) \<le> Suc (length m)"
  by (induction k v m rule: bm_insert.induct) auto

lemma length_insert_present: "bm_wf m \<Longrightarrow> bm_get m k = Some u \<Longrightarrow> length (bm_insert k v m) = length m"
proof (induction m)
  case (Cons x m)
  obtain k' v' where x: "x = (k', v')" by (cases x)
  have "k' < k" if "k \<noteq> k'"
    using Cons.prems that by (force simp: x bm_wf_Cons dest!: map_of_SomeD)
  with Cons show ?case by (auto simp: x bm_wf_Cons)
qed simp

text \<open>Another thread's pending answer survives a change of one thread's place.\<close>

lemma pending_kept:
  assumes "P \<or> (\<exists>t' c ent. pcs t' = Some (Answered e c ent (Some b)))"
    and "\<And>c ent. pcs t \<noteq> Some (Answered e c ent (Some b))"
  shows "P \<or> (\<exists>t' c ent. (pcs(t := x)) t' = Some (Answered e c ent (Some b)))"
  using assms by (metis fun_upd_other)

lemma reset_at_capacity_cases:
  assumes "reset_at_capacity mo capacity e (sc, w) = (sc', w')"
  obtains "sc' = sc" "w' = w" "\<not> requires_reset sc e capacity" | "sc' = []" "w' = mo_clear mo w"
  using assms by (auto simp: reset_at_capacity_def split: if_split_asm)

text \<open>A step that leaves the threads as they are and clears both caches, or neither.\<close>

lemma scope_inv_reset:
  assumes inv: "scope_inv mo held accepted capacity g" and contract: "mdq_contract mo held accepted"
    and reset: "reset_at_capacity mo capacity e (lk_scopes g, lk_world g) = (sc, w)"
  shows "scope_inv mo held accepted capacity (g\<lparr> lk_scopes := sc, lk_world := w \<rparr>)"
  using reset
proof (cases rule: reset_at_capacity_cases)
  case 1
  then have "g\<lparr> lk_scopes := sc, lk_world := w \<rparr> = g" by simp
  with inv show ?thesis by simp
next
  case 2
  have cleared: "held w = Map.empty" using mdq_contractD(6)[OF contract] 2 by simp
  then have "held w \<subseteq>\<^sub>m held (lk_world g)" by simp
  then have "\<And>t p. lk_pcs g t = Some p \<Longrightarrow> pc_ok mo (held w) accepted p"
    using pc_ok_mono scope_invD(5)[OF inv] by blast
  moreover have "locks_exclude (g\<lparr> lk_scopes := sc, lk_world := w \<rparr>)"
    using scope_invD(3)[OF inv] by (simp add: locks_exclude_def)
  ultimately show ?thesis
    using scope_invD(4)[OF inv] 2 cleared by (intro scope_invI) simp_all
qed

text \<open>A thread's place changes: every other thread and entry is as before.\<close>

lemma lookup_begin_inv:
  assumes inv: "scope_inv mo held accepted capacity g" and contract: "mdq_contract mo held accepted"
    and free: "lk_pcs g t = None" "\<not> entity_locked g e"
    and begun: "lookup_begin mo capacity e (lk_scopes g, lk_world g) = (cached, sc, w)"
  shows "scope_inv mo held accepted capacity
           (g\<lparr> lk_scopes := sc, lk_world := w, lk_pcs := (lk_pcs g)(t \<mapsto> Begun e cached) \<rparr>)" (is "scope_inv _ _ _ _ ?g'")
proof -
  let ?g = "g\<lparr> lk_scopes := sc, lk_world := w \<rparr>"
  have shape: "cached = scope_get sc e" "reset_at_capacity mo capacity e (lk_scopes g, lk_world g) = (sc, w)"
    using begun by (auto simp: lookup_begin_def Let_def)
  have inv': "scope_inv mo held accepted capacity ?g" by (rule scope_inv_reset[OF inv contract shape(2)])
  have unlocked: "pc_entity p \<noteq> e" if "lk_pcs g t' = Some p" for t' p
    using free(2) that by (auto simp: entity_locked_def)
  have cached: "pc_ok mo (held w) accepted (Begun e cached)"
    using scope_invD(6)[OF inv', of e] unlocked shape(1) by (fastforce simp: pc_ok_def scope_get_def)
  show ?thesis
  proof (rule scope_invI)
    show "locks_exclude ?g'"
      using scope_invD(3)[OF inv] unlocked unfolding locks_exclude_def by (simp add: eq_commute)
  next
    fix t' p assume "lk_pcs ?g' t' = Some p"
    then show "pc_ok mo (held (lk_world ?g')) accepted p"
      using scope_invD(5)[OF inv', of t' p] cached by (auto split: if_split_asm)
  next
    fix e' b assume "held (lk_world ?g') e' = Some b"
    then show "bm_get (lk_scopes ?g') e' = Some (scopes_of mo b e') \<or>
               (\<exists>t c ent. lk_pcs ?g' t = Some (Answered e' c ent (Some b)))"
      using pending_kept[OF scope_invD(6)[OF inv', of e' b], of t "Some (Begun e cached)"] free(1) by simp
  qed (use scope_invD(1,2,4)[OF inv'] in simp_all)
qed

lemma lookup_answer_inv:
  assumes inv: "scope_inv mo held accepted capacity g" and contract: "mdq_contract mo held accepted"
    and pc: "lk_pcs g t = Some (Begun e cached)" and answer: "mo_get mo e (lk_world g) = (Inr (ent, b), w)"
  shows "scope_inv mo held accepted capacity
           (g\<lparr> lk_world := w, lk_pcs := (lk_pcs g)(t \<mapsto> Answered e cached ent b) \<rparr>)" (is "scope_inv _ _ _ _ ?g'")
proof -
  have le: "held w \<subseteq>\<^sub>m (case b of None \<Rightarrow> held (lk_world g) | Some d \<Rightarrow> (held (lk_world g))(e \<mapsto> d))"
    using mdq_contractD(2,4)[OF contract] answer by (cases b) auto
  have new: "pc_ok mo (held w) accepted (Answered e cached ent b)"
  proof (cases b)
    case None
    with mdq_contractD(1)[OF contract] answer obtain d
      where "held (lk_world g) e = Some d" "accepted d ent" by blast
    then show ?thesis using scope_invD(5)[OF inv pc] None by (auto simp: pc_ok_def)
  next
    case (Some d)
    then have "accepted d ent" using mdq_contractD(3)[OF contract] answer by blast
    then show ?thesis using map_le_SomeD[OF le, of e] Some by (auto simp: pc_ok_def)
  qed
  have kept: "held (lk_world g) e' = Some d" if "held w e' = Some d" "e' \<noteq> e \<or> b \<noteq> Some d" for e' d
    using map_le_SomeD[OF le that(1)] that(2) by (cases b) (auto split: if_split_asm)
  have excl: "locks_exclude g" by (rule scope_invD(3)[OF inv])
  have others: "pc_entity p \<noteq> e" if "lk_pcs g t' = Some p" "t' \<noteq> t" for t' p
    using locks_excludeD[OF excl that(1) pc] that(2) by auto
  show ?thesis
  proof (rule scope_invI)
    show "locks_exclude ?g'"
      unfolding locks_exclude_def
    proof (intro allI impI)
      fix t1 t2 p q assume "lk_pcs ?g' t1 = Some p" "lk_pcs ?g' t2 = Some q" "pc_entity p = pc_entity q"
      then show "t1 = t2"
        using others[of t1 p] others[of t2 q] locks_excludeD[OF excl, of t1 p t2 q] by (auto split: if_split_asm)
    qed
  next
    fix t' p assume p: "lk_pcs ?g' t' = Some p"
    show "pc_ok mo (held (lk_world ?g')) accepted p"
    proof (cases "t' = t")
      case True
      with p new show ?thesis by simp
    next
      case False
      with p have q: "lk_pcs g t' = Some p" by simp
      show ?thesis using scope_invD(5)[OF inv q] others[OF q False] kept
        by (cases p) (auto simp: pc_ok_def split: option.splits)
    qed
  next
    fix e' d assume h: "held (lk_world ?g') e' = Some d"
    show "bm_get (lk_scopes ?g') e' = Some (scopes_of mo d e') \<or>
          (\<exists>t' c ent'. lk_pcs ?g' t' = Some (Answered e' c ent' (Some d)))"
    proof (cases "e' = e \<and> b = Some d")
      case True
      then show ?thesis by auto
    next
      case False
      with kept h have "held (lk_world g) e' = Some d" by auto
      from pending_kept[OF scope_invD(6)[OF inv this], of t "Some (Answered e cached ent b)"] pc
      show ?thesis by simp
    qed
  qed (use scope_invD(1,2,4)[OF inv] in simp_all)
qed

lemma lookup_fail_inv:
  assumes inv: "scope_inv mo held accepted capacity g" and contract: "mdq_contract mo held accepted"
    and pc: "lk_pcs g t = Some (Begun e cached)" and answer: "mo_get mo e (lk_world g) = (Inl err, w)"
  shows "scope_inv mo held accepted capacity (g\<lparr> lk_world := w, lk_pcs := (lk_pcs g)(t := None) \<rparr>)"
    (is "scope_inv _ _ _ _ ?g'")
proof -
  have le: "held w \<subseteq>\<^sub>m held (lk_world g)" by (rule mdq_contractD(5)[OF contract answer])
  show ?thesis
  proof (rule scope_invI)
    show "locks_exclude ?g'" using scope_invD(3)[OF inv] by (auto simp: locks_exclude_def split: if_split_asm)
  next
    fix t' p assume "lk_pcs ?g' t' = Some p"
    then have "lk_pcs g t' = Some p" by (simp split: if_split_asm)
    then show "pc_ok mo (held (lk_world ?g')) accepted p"
      using pc_ok_mono[OF scope_invD(5)[OF inv] le] by simp
  next
    fix e' d assume "held (lk_world ?g') e' = Some d"
    then have "held (lk_world g) e' = Some d" using map_le_SomeD[OF le] by simp
    from pending_kept[OF scope_invD(6)[OF inv this], of t None]
    show "bm_get (lk_scopes ?g') e' = Some (scopes_of mo d e') \<or>
          (\<exists>t' c ent'. lk_pcs ?g' t' = Some (Answered e' c ent' (Some d)))"
      using pc by simp
  qed (use scope_invD(1,2,4)[OF inv] in simp_all)
qed

lemma lookup_store_inv:
  assumes inv: "scope_inv mo held accepted capacity g" and contract: "mdq_contract mo held accepted"
    and room: "0 < capacity" and pc: "lk_pcs g t = Some (Answered e cached ent b)"
    and stored: "lookup_store mo capacity e cached (ent, b) (lk_scopes g, lk_world g) = (r, sc, w)"
  shows "scope_inv mo held accepted capacity
           (g\<lparr> lk_scopes := sc, lk_world := w, lk_pcs := (lk_pcs g)(t := None), lk_results := (e, r) # lk_results g \<rparr>)"
    (is "scope_inv _ _ _ _ ?g'")
proof (cases b)
  case None
  with stored have s: "sc = lk_scopes g" "w = lk_world g" "ri_entity r = ent" "ri_scopes r = cached"
    by (auto simp: lookup_store_def)
  show ?thesis
  proof (rule scope_invI)
    show "locks_exclude ?g'" using scope_invD(3)[OF inv] by (auto simp: locks_exclude_def split: if_split_asm)
    show "list_all (answer_ok mo accepted) (lk_results ?g')"
      using scope_invD(4)[OF inv] scope_invD(5)[OF inv pc] None s by (auto simp: answer_ok_def pc_ok_def)
  next
    fix e' d assume "held (lk_world ?g') e' = Some d"
    with s have "held (lk_world g) e' = Some d" by simp
    from pending_kept[OF scope_invD(6)[OF inv this], of t None]
    show "bm_get (lk_scopes ?g') e' = Some (scopes_of mo d e') \<or>
          (\<exists>t' c ent'. lk_pcs ?g' t' = Some (Answered e' c ent' (Some d)))"
      using pc None s by simp
  qed (use scope_invD(1,2,5)[OF inv] s in \<open>simp_all split: if_split_asm\<close>)
next
  case (Some bytes)
  let ?scopes = "scopes_of mo bytes e"
  obtain sc0 where reset: "reset_at_capacity mo capacity e (lk_scopes g, lk_world g) = (sc0, w)"
    and s: "sc = bm_insert e ?scopes sc0" "ri_entity r = ent" "ri_scopes r = ?scopes"
    using stored Some by (auto simp: lookup_store_def Let_def split: prod.splits)
  let ?g = "g\<lparr> lk_scopes := sc0, lk_world := w \<rparr>"
  have inv': "scope_inv mo held accepted capacity ?g" by (rule scope_inv_reset[OF inv contract reset])
  have wf: "bm_wf sc0" using scope_invD(1)[OF inv'] by simp
  have size: "length sc \<le> capacity"
    using reset
  proof (cases rule: reset_at_capacity_cases)
    case 1
    show ?thesis
    proof (cases "bm_get sc0 e")
      case None
      then show ?thesis using 1 s(1) by (simp add: requires_reset_def length_insert_new)
    next
      case (Some u)
      then show ?thesis using scope_invD(2)[OF inv'] s(1) length_insert_present[OF wf Some] by simp
    qed
  qed (use s(1) room in simp)
  show ?thesis
  proof (rule scope_invI)
    show "locks_exclude ?g'" using scope_invD(3)[OF inv] by (auto simp: locks_exclude_def split: if_split_asm)
    show "list_all (answer_ok mo accepted) (lk_results ?g')"
      using scope_invD(4)[OF inv] scope_invD(5)[OF inv pc] Some s by (auto simp: answer_ok_def pc_ok_def)
    show "bm_wf (lk_scopes ?g')" using wf s(1) by simp
    show "length (lk_scopes ?g') \<le> capacity" using size by simp
  next
    fix t' p assume "lk_pcs ?g' t' = Some p"
    then show "pc_ok mo (held (lk_world ?g')) accepted p"
      using scope_invD(5)[OF inv', of t' p] by (simp split: if_split_asm)
  next
    fix e' d assume h: "held (lk_world ?g') e' = Some d"
    show "bm_get (lk_scopes ?g') e' = Some (scopes_of mo d e') \<or>
          (\<exists>t' c ent'. lk_pcs ?g' t' = Some (Answered e' c ent' (Some d)))"
    proof (cases "e' = e")
      case True
      have "pc_ok mo (held w) accepted (Answered e cached ent b)"
        using scope_invD(5)[OF inv', of t] pc by simp
      with True Some h have "d = bytes" by (simp add: pc_ok_def)
      with True show ?thesis using s(1) wf by (simp add: bm_get_insert)
    next
      case False
      from h have "held (lk_world ?g) e' = Some d" by simp
      from pending_kept[OF scope_invD(6)[OF inv' this], of t None] show ?thesis
        using pc s(1) wf False by (simp add: bm_get_insert)
    qed
  qed
qed


lemma lookup_step_inv:
  assumes "lookup_step mo capacity g g'" "scope_inv mo held accepted capacity g"
    and "mdq_contract mo held accepted" "0 < capacity"
  shows "scope_inv mo held accepted capacity g'"
proof (rule lookup_stepE[OF assms(1)], goal_cases)
  case 1
  show ?thesis unfolding 1(1) by (rule lookup_begin_inv[OF assms(2,3) 1(2-4)])
next
  case 2
  show ?thesis unfolding 2(1) by (rule lookup_answer_inv[OF assms(2,3) 2(2,3)])
next
  case 3
  show ?thesis unfolding 3(1) by (rule lookup_fail_inv[OF assms(2,3) 3(2,3)])
next
  case 4
  show ?thesis unfolding 4(1) by (rule lookup_store_inv[OF assms(2-4) 4(2,3)])
qed

lemma lookups_reach_inv:
  "lookups_reach mo capacity g0 g \<Longrightarrow> scope_inv mo held accepted capacity g0 \<Longrightarrow>
     mdq_contract mo held accepted \<Longrightarrow> 0 < capacity \<Longrightarrow> scope_inv mo held accepted capacity g"
  by (induction rule: lookups_reach.induct) (auto intro: lookup_step_inv)

text \<open>
  C20. Scopes and entity come from one document.  Whatever way lookups of the scope-aware client
  interleave, starting with both caches empty, every lookup that answers returns an entity the
  client accepted from some document together with the scopes read from that same document for the
  entity id looked up; and the scope cache never holds more entries than its capacity.
\<close>

theorem scopes_match_accepted_document:
  assumes "mdq_contract mo held accepted" "0 < capacity" "held w = Map.empty"
    and "lookups_reach mo capacity (lookups_start w) g"
  shows "(\<forall>(e, r) \<in> set (lk_results g). \<exists>bytes. accepted bytes (ri_entity r) \<and> ri_scopes r = scopes_of mo bytes e) \<and>
         length (lk_scopes g) \<le> capacity"
proof -
  have "scope_inv mo held accepted capacity g"
    using lookups_reach_inv[OF assms(4) _ assms(1,2)] scope_inv_start[of held w] assms(3) by blast
  then show ?thesis using scope_invD(2,4) by (fastforce simp: list_all_iff answer_ok_def)
qed

subsection \<open>A client with one document\<close>

definition toy_entity :: idp_entity where
  "toy_entity = \<lparr> ie_entity_id = ''e'', ie_extensions = None, ie_idp_roles = [] \<rparr>"

definition toy_metadata_document :: xml_node where
  "toy_metadata_document = XElement (Some SAML_METADATA_NS) ''EntityDescriptor'' [(''entityID'', ''e'')]
     [XElement (Some SAML_METADATA_NS) ''IDPSSODescriptor'' []
       [XElement (Some SAML_METADATA_NS) ''Extensions'' []
         [XElement (Some SHIBBOLETH_METADATA_NS) ''Scope'' [] [XText ''a.org''] None] None] None] None"

text \<open>The world is whether the one document is cached.\<close>

definition toy_mdq :: "bool mdq_ops" where
  "toy_mdq =
     \<lparr> mo_get = (\<lambda>e w. if e \<noteq> ''e'' then (Inl EntityNotFound, w)
                       else if w then (Inr (toy_entity, None), True) else (Inr (toy_entity, Some ''doc''), True)),
       mo_clear = (\<lambda>w. False), mo_utf8 = (\<lambda>b. True),
       mo_parse = (\<lambda>b. if b = ''doc'' then Some toy_metadata_document else None) \<rparr>"

definition toy_held :: "bool \<Rightarrow> string \<Rightarrow> string option" where
  "toy_held w e = (if w \<and> e = ''e'' then Some ''doc'' else None)"

definition toy_md_accepted :: "string \<Rightarrow> idp_entity \<Rightarrow> bool" where
  "toy_md_accepted b ent \<longleftrightarrow> b = ''doc'' \<and> ent = toy_entity"

lemma toy_contract: "mdq_contract toy_mdq toy_held toy_md_accepted"
  by (auto simp: mdq_contract_def toy_mdq_def toy_held_def toy_md_accepted_def map_le_def split: if_split_asm)

lemma toy_scopes: "scopes_of toy_mdq ''doc'' ''e'' = [''a.org'']"
  by code_simp

theorem scopes_match_accepted_document_witness:
  "\<exists>g. lookups_reach toy_mdq 1 (lookups_start False) g \<and>
       map (\<lambda>(e, r). (e, ri_scopes r)) (lk_results g) = [(''e'', [''a.org''])] \<and>
       (\<forall>(e, r) \<in> set (lk_results g). \<exists>bytes. toy_md_accepted bytes (ri_entity r) \<and> ri_scopes r = scopes_of toy_mdq bytes e) \<and>
       length (lk_scopes g) \<le> 1"
proof -
  let ?g0 = "lookups_start False"
  let ?g1 = "?g0\<lparr> lk_scopes := [], lk_world := False, lk_pcs := (lk_pcs ?g0)(0 \<mapsto> Begun ''e'' []) \<rparr>"
  let ?g2 = "?g1\<lparr> lk_world := True, lk_pcs := (lk_pcs ?g1)(0 \<mapsto> Answered ''e'' [] toy_entity (Some ''doc'')) \<rparr>"
  let ?r = "\<lparr> ri_entity = toy_entity, ri_scopes = [''a.org''], ri_policy_values = trusted_idp_policy_values toy_entity \<rparr>"
  let ?g3 = "?g2\<lparr> lk_scopes := [(''e'', [''a.org''])], lk_world := True, lk_pcs := (lk_pcs ?g2)(0 := None),
                  lk_results := (''e'', ?r) # lk_results ?g2 \<rparr>"
  have "lookup_step toy_mdq 1 ?g0 ?g1"
    by (rule step_begin) (auto simp: lookups_start_def entity_locked_def lookup_begin_def reset_at_capacity_def
        requires_reset_def scope_get_def Let_def)
  moreover have "lookup_step toy_mdq 1 ?g1 ?g2"
    by (rule step_answer) (auto simp: lookups_start_def toy_mdq_def)
  moreover have "lookup_step toy_mdq 1 ?g2 ?g3"
    by (rule step_store) (auto simp: lookups_start_def lookup_store_def toy_scopes reset_at_capacity_def
        requires_reset_def Let_def)
  ultimately have "lookups_reach toy_mdq 1 ?g0 ?g3" by (meson reach_start reach_step)
  moreover note scopes_match_accepted_document[OF toy_contract, of 1 False ?g3]
  ultimately show ?thesis
    by - (rule exI[of _ ?g3], simp add: lookups_start_def toy_held_def fun_eq_iff)
qed

end
