(* ===== verification/Stepup.thy ===== *)
theory Stepup
  imports Stepup_Policy
begin

text \<open>
  The service \<open>stepup\<close> of \<open>stepup.rs\<close>: it suspends a response that needs multi-factor
  authentication, sends the user to the linked account's provider through an embedded SAML
  backend, checks what comes back and resumes the response.  The embedded backend is a parameter
  (the record \<open>stepup_saml\<close>: the backend trait and its target check), as are the JSON printer and
  DEFLATE, which only measure sizes.  Shown: a response that asked for multi-factor authentication
  continues only when the first provider's settings accept its level or the linked provider
  asserted a requested level for the linked subject.
\<close>

section \<open>Configuration and stored data\<close>

definition KEY_STEPUP_REQUEST :: string where "KEY_STEPUP_REQUEST = ''request''"
definition KEY_STEPUP_SNAPSHOT :: string where "KEY_STEPUP_SNAPSHOT = ''snapshot''"
definition MAX_STEPUP_SNAPSHOT_BYTES :: nat where "MAX_STEPUP_SNAPSHOT_BYTES = 32 * 1024"
definition MAX_COMPRESSED_HANDOFF_BYTES :: nat where "MAX_COMPRESSED_HANDOFF_BYTES = 1536"
definition STEPUP_NAMESPACE_PREFIX :: string where "STEPUP_NAMESPACE_PREFIX = ''stepup:''"

definition default_identifier_attribute :: string where
  "default_identifier_attribute = ''eduPersonPrincipalName''"
definition default_assurance_attribute :: string where
  "default_assurance_attribute = ''eduPersonAssurance''"

definition dec_stepup :: "json \<Rightarrow> (stepup_behavior \<times> mfa_config) option" where
  "dec_stepup v = do {
     m \<leftarrow> as_object v;
     b \<leftarrow> dec_default dec_behavior Hardened ''behavior'' m;
     mfa \<leftarrow> dec_required dec_mfa ''mfa'' m;
     Some (b, mfa) }"

record stepup_account =
  sa_entity_id :: string
  sa_identifier :: string
  sa_attribute :: string
  sa_assurance :: string

definition enc_account :: "stepup_account \<Rightarrow> json" where
  "enc_account a = JObject [(''entity_id'', JString (sa_entity_id a)), (''identifier'', JString (sa_identifier a)),
     (''attribute'', JString (sa_attribute a)), (''assurance'', JString (sa_assurance a))]"

definition dec_account :: "json \<Rightarrow> stepup_account option" where
  "dec_account v = do {
     m \<leftarrow> as_object v;
     e \<leftarrow> dec_required as_str ''entity_id'' m;
     i \<leftarrow> dec_required as_str ''identifier'' m;
     a \<leftarrow> dec_default as_str default_identifier_attribute ''attribute'' m;
     s \<leftarrow> dec_default as_str default_assurance_attribute ''assurance'' m;
     Some \<lparr> sa_entity_id = e, sa_identifier = i, sa_attribute = a, sa_assurance = s \<rparr> }"

record request_policy =
  rp_behavior :: stepup_behavior
  rp_original_loas :: "string list"
  rp_requester_loas :: "string list"
  rp_settings :: loa_settings
  rp_passive :: bool

definition enc_policy :: "request_policy \<Rightarrow> json" where
  "enc_policy p = JObject [(''behavior'', enc_behavior (rp_behavior p)),
     (''original_requester_loas'', json_strings (rp_original_loas p)),
     (''requester_loas'', json_strings (rp_requester_loas p)),
     (''loa_settings'', enc_loa (rp_settings p)), (''is_passive'', JBool (rp_passive p))]"

definition dec_policy :: "json \<Rightarrow> request_policy option" where
  "dec_policy v = do {
     m \<leftarrow> as_object v;
     b \<leftarrow> dec_default dec_behavior Hardened ''behavior'' m;
     ol \<leftarrow> dec_default dec_strings [] ''original_requester_loas'' m;
     rl \<leftarrow> dec_required dec_strings ''requester_loas'' m;
     s \<leftarrow> dec_required dec_loa ''loa_settings'' m;
     p \<leftarrow> dec_default as_bool False ''is_passive'' m;
     Some \<lparr> rp_behavior = b, rp_original_loas = ol, rp_requester_loas = rl, rp_settings = s, rp_passive = p \<rparr> }"

record stepup_snapshot =
  sn_response :: internal_data
  sn_account :: stepup_account
  sn_policy :: request_policy
  sn_target_backend :: "string option"
  sn_target_frontend :: "string option"
  sn_decorations :: "json smap"

definition enc_snapshot :: "stepup_snapshot \<Rightarrow> json" where
  "enc_snapshot s = JObject [(''response'', enc_internal (sn_response s)), (''account'', enc_account (sn_account s)),
     (''policy'', enc_policy (sn_policy s)), (''target_backend'', enc_opt_str (sn_target_backend s)),
     (''target_frontend'', enc_opt_str (sn_target_frontend s)), (''decorations'', JObject (sn_decorations s))]"

definition dec_snapshot :: "json \<Rightarrow> stepup_snapshot option" where
  "dec_snapshot v = do {
     m \<leftarrow> as_object v;
     r \<leftarrow> dec_required dec_internal ''response'' m;
     a \<leftarrow> dec_required dec_account ''account'' m;
     p \<leftarrow> dec_required dec_policy ''policy'' m;
     tb \<leftarrow> dec_required dec_opt_str ''target_backend'' m;
     tf \<leftarrow> dec_default dec_opt_str None ''target_frontend'' m;
     ds \<leftarrow> dec_required (dec_bmap Some) ''decorations'' m;
     Some \<lparr> sn_response = r, sn_account = a, sn_policy = p, sn_target_backend = tb,
            sn_target_frontend = tf, sn_decorations = ds \<rparr> }"

record 'w stepup_saml =
  sb_validate_target :: "string \<Rightarrow> unit result"
  sb_backend :: "'w backend"

record 'w stepup =
  su_name :: string
  su_behavior :: stepup_behavior
  su_mfa :: mfa_config
  su_saml :: "'w stepup_saml"
  su_mapper :: attribute_mapper

definition stepup_namespace :: "string \<Rightarrow> string" where
  "stepup_namespace name = STEPUP_NAMESPACE_PREFIX @ name"

definition loa_invalid :: "loa_settings \<Rightarrow> bool" where
  "loa_invalid s \<longleftrightarrow> lo_requested s = [] \<or> [] \<in> set (lo_requested s) \<or> [] \<in> set (lo_extra_accepted s) \<or>
     lo_returned s = Some []"

definition validate_mfa :: "string \<Rightarrow> mfa_config \<Rightarrow> unit result" where
  "validate_mfa name mfa =
     (if list_ex (\<lambda>e. loa_invalid (snd e)) (mf_by_entity_id mfa @ mf_by_category mfa @ mf_by_certification mfa)
      then Inl (ErrConfig (''stepup '' @ name @ '': LoA settings must contain non-empty requested values''))
      else Inr ())"

definition validate_handoff_size ::
    "(json \<Rightarrow> string) \<Rightarrow> (string \<Rightarrow> string option) \<Rightarrow> string \<Rightarrow> stepup_behavior \<Rightarrow> mfa_config \<Rightarrow> unit result" where
  "validate_handoff_size print deflate name behavior mfa =
     bind_result (ok_or (deflate (print (enc_handoff \<lparr> ho_behavior = behavior, ho_wants_mfa = True, ho_mfa = mfa \<rparr>)))
         (ErrConfig (''stepup '' @ name @ '': compressing MFA policy: ''))) (\<lambda>z.
       if length z > MAX_COMPRESSED_HANDOFF_BYTES then
         Inl (ErrConfig (''stepup '' @ name @ '': compressed MFA policy is '' @ show_nat (length z) @
           '' bytes, exceeds the '' @ show_nat MAX_COMPRESSED_HANDOFF_BYTES @ ''-byte discovery-state budget''))
       else Inr ())"

definition stepup_configure ::
    "(json \<Rightarrow> string) \<Rightarrow> (string \<Rightarrow> string option) \<Rightarrow> (build_context \<Rightarrow> 'w stepup_saml result) \<Rightarrow>
      build_context \<Rightarrow> 'w stepup result" where
  "stepup_configure print deflate build_saml bx =
     bind_result (parse_config dec_stepup bx) (\<lambda>(behavior, mfa).
     bind_result (validate_mfa (bx_name bx) mfa) (\<lambda>_.
     bind_result (validate_handoff_size print deflate (bx_name bx) behavior mfa) (\<lambda>_.
     bind_result (build_saml bx) (\<lambda>saml.
       Inr \<lparr> su_name = bx_name bx, su_behavior = behavior, su_mfa = mfa, su_saml = saml,
             su_mapper = bx_attribute_mapper bx \<rparr>))))"

section \<open>The request path\<close>

definition stepup_request_policy ::
    "'v stepup \<Rightarrow> 'w req_context_scheme \<Rightarrow> string option \<Rightarrow> request_policy" where
  "stepup_request_policy su ctx who =
     (let original = decoration_strings ctx KEY_REQUESTED_ACCR;
          metadata = \<lparr> mv_categories = decoration_strings ctx KEY_REQUESTER_ENTITY_CATEGORIES,
            mv_certifications = decoration_strings ctx KEY_REQUESTER_ASSURANCE_CERTIFICATIONS \<rparr>;
          configured = resolve_policy (su_mfa su) who metadata (su_behavior su) RequesterSubject;
          requester_loas = (case (configured, su_behavior su) of
            (Some s, Eduid) \<Rightarrow> lo_requested s | _ \<Rightarrow> original);
          settings = (case configured of Some s \<Rightarrow> s
            | None \<Rightarrow> \<lparr> lo_requested = filter (\<lambda>l. l = REFEDS_MFA) requester_loas, lo_extra_accepted = [],
                lo_returned = List.find (\<lambda>l. l = REFEDS_MFA) requester_loas \<rparr>)
      in \<lparr> rp_behavior = su_behavior su, rp_original_loas = original, rp_requester_loas = requester_loas,
           rp_settings = settings, rp_passive = False \<rparr>)"

definition wants_mfa :: "request_policy \<Rightarrow> bool" where
  "wants_mfa p \<longleftrightarrow> REFEDS_MFA \<in> set (rp_requester_loas p)"

definition undecorate :: "string \<Rightarrow> 'w req_context_scheme \<Rightarrow> 'w req_context_scheme" where
  "undecorate key ctx = ctx\<lparr> cx_decorations := bm_remove key (cx_decorations ctx) \<rparr>"

definition stepup_request :: "'w stepup \<Rightarrow> internal_data \<Rightarrow> ('w, internal_data) handler" where
  "stepup_request su d ctx =
     (let policy = (stepup_request_policy su ctx (id_requester d))\<lparr> rp_passive := id_is_passive d \<rparr>;
          ctx = (if wants_mfa policy then
                   decorate KEY_STEPUP_INITIAL_POLICY (enc_handoff
                     \<lparr> ho_behavior = su_behavior su, ho_wants_mfa = True, ho_mfa = su_mfa su \<rparr>) ctx
                 else undecorate KEY_STEPUP_INITIAL_POLICY ctx)
      in (Inr d, with_state (set_value (stepup_namespace (su_name su)) KEY_STEPUP_REQUEST (enc_policy policy)) ctx))"

section \<open>The response path\<close>

definition initial_provider_policy ::
    "'v stepup \<Rightarrow> 'w req_context_scheme \<Rightarrow> string option \<Rightarrow> stepup_behavior \<Rightarrow> loa_settings option" where
  "initial_provider_policy su ctx issuer behavior =
     resolve_policy (su_mfa su) issuer
       \<lparr> mv_categories = decoration_strings ctx KEY_PROVIDER_ENTITY_CATEGORIES,
         mv_certifications = decoration_strings ctx KEY_PROVIDER_ASSURANCE_CERTIFICATIONS \<rparr>
       behavior ProviderSubject"

definition internal_name_for_external :: "attribute_mapper \<Rightarrow> string \<Rightarrow> stepup_behavior \<Rightarrow> string result" where
  "internal_name_for_external mp ext behavior =
     (case map fst (filter (\<lambda>(_, profiles). case bm_get profiles ''saml'' of
              None \<Rightarrow> False | Some pa \<Rightarrow> ext \<in> set (mapping_keys pa)) (profile_mappings mp)) of
        [] \<Rightarrow> Inl (ErrConfig (''step-up SAML attribute '' @ debug_str ext @ '' has no internal mapping''))
      | [n] \<Rightarrow> Inr n
      | n # _ \<Rightarrow> if behavior = Eduid then Inr n
          else Inl (ErrConfig (''step-up SAML attribute '' @ debug_str ext @ '' has multiple internal mappings'')))"

definition debug_opt :: "string option \<Rightarrow> string" where
  "debug_opt x = (case x of None \<Rightarrow> ''None'' | Some s \<Rightarrow> ''Some('' @ debug_str s @ '')'')"

definition saved_policy :: "'v stepup \<Rightarrow> internal_data \<Rightarrow> 'w req_context_scheme \<Rightarrow> request_policy result" where
  "saved_policy su d ctx =
     (case get_value (cx_state ctx) (stepup_namespace (su_name su)) KEY_STEPUP_REQUEST of
        None \<Rightarrow> Inr (stepup_request_policy su ctx (id_requester d))
      | Some v \<Rightarrow> ok_or (dec_policy v) (ErrState ''invalid saved step-up policy: ''))"

text \<open>The first linked account, complete and acceptable to the embedded backend.\<close>

definition linked_account :: "'w req_context_scheme \<Rightarrow> stepup_account result" where
  "linked_account ctx =
     bind_result (ok_or (dec_list dec_account (unwrap_or (JArray []) (decoration ctx KEY_MFA_STEPUP_ACCOUNTS)))
         (ErrAuthn ''invalid MFA linked-account data'')) (\<lambda>accounts.
     case accounts of
       [] \<Rightarrow> Inl (ErrAuthn ''MFA is required but the user has no linked account'')
     | a # _ \<Rightarrow>
         if sa_entity_id a = [] \<or> sa_identifier a = [] \<or> sa_attribute a = [] \<or> sa_assurance a = []
         then Inl (ErrAuthn ''MFA linked-account data is incomplete'') else Inr a)"

definition stepup_start ::
    "(json \<Rightarrow> string) \<Rightarrow> 'w stepup \<Rightarrow> request_policy \<Rightarrow> stepup_account \<Rightarrow> internal_data \<Rightarrow> ('w, ms_reply) handler" where
  "stepup_start print su policy account d ctx =
     (case bind_result (internal_name_for_external (su_mapper su) (sa_attribute account) (rp_behavior policy))
        (\<lambda>_. internal_name_for_external (su_mapper su) (sa_assurance account) (rp_behavior policy)) of
        Inl e \<Rightarrow> (Inl e, ctx)
      | Inr _ \<Rightarrow>
          (let snapshot = enc_snapshot \<lparr> sn_response = d, sn_account = account, sn_policy = policy,
                 sn_target_backend = cx_target_backend ctx, sn_target_frontend = cx_target_frontend ctx,
                 sn_decorations = cx_decorations ctx \<rparr>
           in if length (print snapshot) > MAX_STEPUP_SNAPSHOT_BYTES then
                (Inl (ErrAuthn (''step-up snapshot exceeds the '' @ show_nat MAX_STEPUP_SNAPSHOT_BYTES @
                   ''-byte state budget'')), ctx)
              else
                (let ctx = with_state (set_value (stepup_namespace (su_name su)) KEY_STEPUP_SNAPSHOT snapshot) ctx;
                     ctx = decorate KEY_TARGET_ENTITYID (JString (sa_entity_id account)) ctx;
                     ctx = decorate KEY_TARGET_AUTHN_CONTEXT_CLASS_REF (json_strings (lo_requested (rp_settings policy))) ctx;
                     ctx = decorate KEY_TARGET_ACCR_COMPARISON (JString ''exact'') ctx;
                     request = internal_default\<lparr> id_subject_id := Some (sa_identifier account),
                       id_requester := id_requester d \<rparr>
                 in bind_flow (be_start_auth (sb_backend (su_saml su)) request)
                      (\<lambda>redirect ctx. (Inr (RRespond redirect), ctx)) ctx)))"

definition stepup_response_action ::
    "(json \<Rightarrow> string) \<Rightarrow> 'w stepup \<Rightarrow> internal_data \<Rightarrow> ('w, ms_reply) handler" where
  "stepup_response_action print su d ctx =
     (case saved_policy su d ctx of
        Inl e \<Rightarrow> (Inl e, ctx)
      | Inr policy \<Rightarrow>
     (let ctx = undecorate KEY_STEPUP_INITIAL_POLICY ctx;
          cleared = with_state (clear_namespace (stepup_namespace (su_name su))) ctx;
          asserted = ai_class_ref (id_auth_info d)
      in if \<not> wants_mfa policy then (Inr (Continue d), cleared)
         else case initial_loa_decision (rp_behavior policy)
                (initial_provider_policy su ctx (ai_issuer (id_auth_info d)) (rp_behavior policy))
                (rp_requester_loas policy) asserted of
           Satisfied returned \<Rightarrow>
             (Inr (Continue (d\<lparr> id_auth_info := (id_auth_info d)\<lparr> ai_class_ref := Some returned \<rparr> \<rparr>)), cleared)
         | Rejected \<Rightarrow> (Inl (ErrAuthn (''initial provider AuthnContextClassRef '' @ debug_opt asserted @
             '' is not accepted'')), cleared)
         | NeedsStepup \<Rightarrow>
             if rp_passive policy then
               (Inl (ErrAuthn ''passive authentication cannot initiate an MFA step-up interaction''),
                mark_interaction_required ctx)
             else case linked_account ctx of
               Inl e \<Rightarrow> (Inl e, ctx)
             | Inr account \<Rightarrow>
                 (case sb_validate_target (su_saml su) (sa_entity_id account) of
                    Inl e \<Rightarrow> (Inl e, ctx)
                  | Inr _ \<Rightarrow>
                      if rp_requester_loas policy = [] \<or> lo_requested (rp_settings policy) = []
                      then (Inr (Continue d), cleared)
                      else stepup_start print su policy account d ctx)))"

section \<open>The second exchange\<close>

definition merge_assurances :: "stepup_behavior \<Rightarrow> string list \<Rightarrow> string list \<Rightarrow> string list" where
  "merge_assurances behavior source target =
     (if behavior = Eduid then target @ source else push_all_new target source)"

definition finish_stepup ::
    "'w stepup \<Rightarrow> stepup_snapshot \<Rightarrow> internal_data \<Rightarrow> ('w, internal_data) handler" where
  "finish_stepup su sn answer ctx =
     (let account = sn_account sn; policy = sn_policy sn; loa = ai_class_ref (id_auth_info answer);
          issuer_ok = (ai_issuer (id_auth_info answer) = Some (sa_entity_id account));
          loa_ok = (case loa of None \<Rightarrow> False | Some l \<Rightarrow> l \<in> set (lo_requested (rp_settings policy)))
      in case internal_name_for_external (su_mapper su) (sa_attribute account) (rp_behavior policy) of
           Inl e \<Rightarrow> (Inl e, ctx)
         | Inr idattr \<Rightarrow>
             if \<not> (issuer_ok \<and> loa_ok \<and> (case bm_get (id_attributes answer) idattr of
                       None \<Rightarrow> False | Some vs \<Rightarrow> sa_identifier account \<in> set vs))
             then (Inl (ErrAuthn ''step-up authentication did not satisfy the linked-account requirements''), ctx)
             else case internal_name_for_external (su_mapper su) (sa_assurance account) (rp_behavior policy) of
               Inl e \<Rightarrow> (Inl e, ctx)
             | Inr aname \<Rightarrow>
                 (let response = sn_response sn;
                      attrs = (case bm_get (id_attributes answer) aname of
                        None \<Rightarrow> id_attributes response
                      | Some vs \<Rightarrow> bm_update aname (merge_assurances (rp_behavior policy) vs)
                                    (bm_or_insert aname [] (id_attributes response)));
                      original = (if rp_original_loas policy = [] then rp_requester_loas policy
                                  else rp_original_loas policy);
                      level' = completed_loa (rp_behavior policy) (rp_settings policy) original
                                 (rp_requester_loas policy) loa;
                      response = response\<lparr> id_attributes := attrs,
                        id_auth_info := (id_auth_info response)\<lparr> ai_class_ref := level' \<rparr> \<rparr>
                  in (Inr response, ctx\<lparr> cx_target_backend := sn_target_backend sn,
                        cx_target_frontend := sn_target_frontend sn, cx_decorations := sn_decorations sn \<rparr>)))"

definition load_snapshot :: "'w stepup \<Rightarrow> 'w req_context_scheme \<Rightarrow> stepup_snapshot result" where
  "load_snapshot su ctx =
     bind_result (ok_or (get_value (cx_state ctx) (stepup_namespace (su_name su)) KEY_STEPUP_SNAPSHOT)
         (ErrAuthn ''no step-up flow in progress'')) (\<lambda>v.
       ok_or (dec_snapshot v) (ErrState ''invalid step-up snapshot: ''))"

definition stepup_handle :: "'w stepup \<Rightarrow> string \<Rightarrow> ('w, ms_action) handler" where
  "stepup_handle su route_id ctx =
     (if route_id = ''metadata'' then
        bind_flow (be_handle (sb_backend (su_saml su)) route_id) (\<lambda>a ctx.
          case a of BRespond r \<Rightarrow> (Inr (MRespond r), ctx)
          | AuthResponse _ \<Rightarrow> (Inl (ErrInternal ''step-up metadata endpoint returned authentication data''), ctx)) ctx
      else if route_id \<noteq> ''acs'' then (Inl (ErrNoBoundEndpoint route_id), ctx)
      else case load_snapshot su ctx of
        Inl e \<Rightarrow> (Inl e, ctx)
      | Inr snapshot \<Rightarrow>
          bind_flow (be_handle (sb_backend (su_saml su)) route_id) (\<lambda>a.
            case a of
              AuthResponse answer \<Rightarrow> (\<lambda>ctx.
                bind_flow (finish_stepup su snapshot answer) (\<lambda>response ctx. (Inr (ResumeResponse response), ctx))
                  (with_state (clear_namespace (stepup_namespace (su_name su))) ctx))
            | BRespond _ \<Rightarrow> (\<lambda>ctx. (Inl (ErrInternal ''step-up ACS did not return authentication data''), ctx))) ctx)"

definition stepup_ms :: "(json \<Rightarrow> string) \<Rightarrow> 'w stepup \<Rightarrow> 'w micro_service" where
  "stepup_ms print su = (ms_default (su_name su))
     \<lparr> ms_request := stepup_request su,
       ms_action_override := Some (stepup_response_action print su),
       ms_register := filter (\<lambda>r. ro_id r = ''acs'' \<or> ro_id r = ''metadata'') (be_register (sb_backend (su_saml su))),
       ms_handle := stepup_handle su \<rparr>"

definition stepup_build ::
    "(json \<Rightarrow> string) \<Rightarrow> (string \<Rightarrow> string option) \<Rightarrow> (build_context \<Rightarrow> 'w stepup_saml result) \<Rightarrow>
      build_context \<Rightarrow> 'w micro_service result" where
  "stepup_build print deflate build_saml bx =
     bind_result (stepup_configure print deflate build_saml bx) (\<lambda>su. Inr (stepup_ms print su))"

section \<open>Stored data comes back\<close>

interpretation stepup_slot: flow_slot get_value set_value clear_namespace state_wf
    stepup_namespace KEY_STEPUP_SNAPSHOT "\<lambda>n. n = STATE_KEY_BASE"
  by unfold_locales (simp add: stepup_namespace_def STEPUP_NAMESPACE_PREFIX_def STATE_KEY_BASE_def)

lemma dec_account_enc [simp]: "dec_account (enc_account a) = Some a"
  by (simp add: dec_account_def enc_account_def dec_required_def dec_default_def)

lemma dec_policy_enc [simp]: "dec_policy (enc_policy p) = Some p"
  by (simp add: dec_policy_def enc_policy_def dec_required_def dec_default_def)

lemma dec_entries_id: "dec_entries Some m = Some m"
  by (induction m) auto

lemma dec_snapshot_enc:
  "data_wf (sn_response s) \<Longrightarrow> bm_wf (sn_decorations s) \<Longrightarrow> dec_snapshot (enc_snapshot s) = Some s"
  by (simp add: dec_snapshot_def enc_snapshot_def dec_required_def dec_default_def dec_internal_enc
      dec_bmap_def dec_entries_id bm_of_list_id)

section \<open>Handlers\<close>

lemma undecorate_frame [simp]:
  "cx_request (undecorate k c) = cx_request c" "cx_state (undecorate k c) = cx_state c"
  "cx_target_backend (undecorate k c) = cx_target_backend c"
  "cx_target_frontend (undecorate k c) = cx_target_frontend c"
  "cx_decorations (undecorate k c) = bm_remove k (cx_decorations c)"
  by (simp_all add: undecorate_def)

lemma decoration_undecorate:
  "bm_wf (cx_decorations c) \<Longrightarrow> k' \<noteq> k \<Longrightarrow> decoration (undecorate k c) k' = decoration c k'"
  by (simp add: decoration_def bm_get_remove)

lemma provider_policy_undecorate:
  "bm_wf (cx_decorations c) \<Longrightarrow>
     initial_provider_policy su (undecorate KEY_STEPUP_INITIAL_POLICY c) = initial_provider_policy su c"
  by (rule ext)+ (simp add: initial_provider_policy_def decoration_strings_def decoration_undecorate key_defs)

lemma finish_stepupD:
  assumes "finish_stepup su sn answer c = (Inr d', c')"
  shows "\<exists>idattr aname l vs. ai_issuer (id_auth_info answer) = Some (sa_entity_id (sn_account sn)) \<and>
    ai_class_ref (id_auth_info answer) = Some l \<and> l \<in> set (lo_requested (rp_settings (sn_policy sn))) \<and>
    internal_name_for_external (su_mapper su) (sa_attribute (sn_account sn)) (rp_behavior (sn_policy sn)) = Inr idattr \<and>
    bm_get (id_attributes answer) idattr = Some vs \<and> sa_identifier (sn_account sn) \<in> set vs \<and>
    internal_name_for_external (su_mapper su) (sa_assurance (sn_account sn)) (rp_behavior (sn_policy sn)) = Inr aname \<and>
    id_subject_id d' = id_subject_id (sn_response sn) \<and> id_requester d' = id_requester (sn_response sn) \<and>
    (bm_wf (id_attributes (sn_response sn)) \<longrightarrow>
      (\<forall>a. a \<noteq> aname \<longrightarrow> bm_get (id_attributes d') a = bm_get (id_attributes (sn_response sn)) a)) \<and>
    c' = c\<lparr> cx_target_backend := sn_target_backend sn, cx_target_frontend := sn_target_frontend sn,
           cx_decorations := sn_decorations sn \<rparr>"
  using assms
  by (auto simp: finish_stepup_def Let_def bm_get_update bm_get_or_insert split: sum.splits option.splits if_split_asm)

lemma finish_stepup_data:
  assumes "finish_stepup su sn answer c = (Inr d', c')" "bm_wf (id_attributes (sn_response sn))"
    "internal_name_for_external (su_mapper su) (sa_assurance (sn_account sn)) (rp_behavior (sn_policy sn)) = Inr aname"
  shows "set (unwrap_or [] (bm_get (id_attributes d') aname)) =
      set (unwrap_or [] (bm_get (id_attributes (sn_response sn)) aname)) \<union> set (unwrap_or [] (bm_get (id_attributes answer) aname))"
    "d' = (sn_response sn)\<lparr> id_attributes := id_attributes d',
       id_auth_info := (id_auth_info (sn_response sn))\<lparr> ai_class_ref := ai_class_ref (id_auth_info d') \<rparr> \<rparr>"
proof -
  show "set (unwrap_or [] (bm_get (id_attributes d') aname)) =
      set (unwrap_or [] (bm_get (id_attributes (sn_response sn)) aname)) \<union> set (unwrap_or [] (bm_get (id_attributes answer) aname))"
    using assms by (auto simp: finish_stepup_def Let_def bm_get_update bm_get_or_insert merge_assurances_def
        split: sum.splits option.splits if_split_asm)
  show "d' = (sn_response sn)\<lparr> id_attributes := id_attributes d',
       id_auth_info := (id_auth_info (sn_response sn))\<lparr> ai_class_ref := ai_class_ref (id_auth_info d') \<rparr> \<rparr>"
    using assms(1) by (auto simp: finish_stepup_def Let_def split: sum.splits option.splits if_split_asm)
qed

lemma stepup_ResumeD:
  assumes "stepup_handle su i c = (Inr (ResumeResponse d'), c')"
  shows "i = ''acs'' \<and> (\<exists>sn answer c1. load_snapshot su c = Inr sn \<and>
    be_handle (sb_backend (su_saml su)) i c = (Inr (AuthResponse answer), c1) \<and>
    finish_stepup su sn answer (with_state (clear_namespace (stepup_namespace (su_name su))) c1) = (Inr d', c'))"
  using assms
  by (auto simp: stepup_handle_def bind_flow_def split: if_split_asm sum.splits backend_action.splits prod.splits)

text \<open>
  C14. A suspended response is resumed only on proof of the linked account: the embedded backend
  verified an answer of the linked account's provider that asserts a level the policy requests and
  carries the linked identifier; what resumes is the suspended response of that session, with its
  subject, requester and attributes (assurance apart), and the session's slot is empty.
\<close>

theorem stepup_resumes_linked_subject:
  assumes ok: "stepup_handle su i c = (Inr (ResumeResponse d'), c')"
    and wf: "preserves (\<lambda>_ x. state_wf (cx_state x)) (be_handle (sb_backend (su_saml su)) i)"
  shows "\<exists>sn answer c1 idattr aname l vs.
    load_snapshot su c = Inr sn \<and> be_handle (sb_backend (su_saml su)) i c = (Inr (AuthResponse answer), c1) \<and>
    ai_issuer (id_auth_info answer) = Some (sa_entity_id (sn_account sn)) \<and>
    ai_class_ref (id_auth_info answer) = Some l \<and> l \<in> set (lo_requested (rp_settings (sn_policy sn))) \<and>
    internal_name_for_external (su_mapper su) (sa_attribute (sn_account sn)) (rp_behavior (sn_policy sn)) = Inr idattr \<and>
    bm_get (id_attributes answer) idattr = Some vs \<and> sa_identifier (sn_account sn) \<in> set vs \<and>
    internal_name_for_external (su_mapper su) (sa_assurance (sn_account sn)) (rp_behavior (sn_policy sn)) = Inr aname \<and>
    id_subject_id d' = id_subject_id (sn_response sn) \<and> id_requester d' = id_requester (sn_response sn) \<and>
    (\<forall>a. a \<noteq> aname \<longrightarrow> bm_get (id_attributes d') a = bm_get (id_attributes (sn_response sn)) a) \<and>
    cx_target_frontend c' = sn_target_frontend sn \<and> cx_decorations c' = sn_decorations sn \<and>
    fst (stepup_handle su ''acs'' c') = Inl (ErrAuthn ''no step-up flow in progress'')"
proof -
  from stepup_ResumeD[OF ok] obtain sn answer c1 where h: "i = ''acs''" "load_snapshot su c = Inr sn"
      "be_handle (sb_backend (su_saml su)) i c = (Inr (AuthResponse answer), c1)"
      "finish_stepup su sn answer (with_state (clear_namespace (stepup_namespace (su_name su))) c1) = (Inr d', c')"
    by blast
  note f = finish_stepupD[OF h(4)]
  have "data_wf (sn_response sn)" using h(2) dec_internal_wf
    by (auto simp: load_snapshot_def bind_result_eq_Inr dec_snapshot_def dec_required_def bind_eq_Some_conv
        split: option.splits)
  then have dwf: "bm_wf (id_attributes (sn_response sn))" by (simp add: data_wf_def)
  have "cx_state c' = clear_namespace (stepup_namespace (su_name su)) (cx_state c1)"
    using f by (auto simp: with_state_def)
  then have "get_value (cx_state c') (stepup_namespace (su_name su)) KEY_STEPUP_SNAPSHOT = None"
    using stepup_slot.consumed_once[OF preservesD[OF wf h(3)], of "su_name su"] by simp
  then have "fst (stepup_handle su ''acs'' c') = Inl (ErrAuthn ''no step-up flow in progress'')"
    by (simp add: stepup_handle_def load_snapshot_def)
  with f h(2,3) dwf show ?thesis by fastforce
qed

text \<open>The saved policy of a request, and what it says about a requester that wants the level.\<close>

lemma request_policy_requested:
  assumes "validate_mfa name (su_mfa su) = Inr ()" "wants_mfa (stepup_request_policy su c who)"
  shows "lo_requested (rp_settings (stepup_request_policy su c who)) \<noteq> []"
proof -
  let ?conf = "resolve_policy (su_mfa su) who \<lparr> mv_categories = decoration_strings c KEY_REQUESTER_ENTITY_CATEGORIES,
            mv_certifications = decoration_strings c KEY_REQUESTER_ASSURANCE_CERTIFICATIONS \<rparr> (su_behavior su) RequesterSubject"
  show ?thesis
  proof (cases ?conf)
    case (Some s)
    from resolve_policy_configured[OF Some] assms(1) have "\<not> loa_invalid s"
      by (auto simp: validate_mfa_def list_ex_iff split: if_split_asm)
    with Some show ?thesis by (simp add: stepup_request_policy_def Let_def loa_invalid_def)
  next
    case None
    with assms(2) show ?thesis
      by (auto simp: stepup_request_policy_def Let_def wants_mfa_def filter_empty_conv)
  qed
qed

text \<open>
  C10. Multi-factor authentication cannot be skipped: when the policy saved for a request wants it,
  a response passes the service without a second exchange only if the settings configured for the
  provider that authenticated the user accept the level it asserted.
\<close>

theorem stepup_not_skipped:
  assumes built: "stepup_configure print deflate build_saml bx = Inr su"
    and saved: "get_value (cx_state c) (stepup_namespace (su_name su)) KEY_STEPUP_REQUEST =
      Some (enc_policy ((stepup_request_policy su c0 who)\<lparr> rp_passive := p \<rparr>))"
    and wants: "wants_mfa (stepup_request_policy su c0 who)" and decs: "bm_wf (cx_decorations c)"
    and passed: "stepup_response_action print su d c = (Inr (Continue d'), c')"
  shows "\<exists>s l. initial_provider_policy su c (ai_issuer (id_auth_info d)) (su_behavior su) = Some s \<and>
    s \<in> snd ` set (mf_by_entity_id (su_mfa su) @ mf_by_category (su_mfa su) @ mf_by_certification (su_mfa su)) \<and>
    ai_class_ref (id_auth_info d) = Some l \<and> l \<in> set (lo_requested s) \<union> set (lo_extra_accepted s)"
proof -
  let ?p = "stepup_request_policy su c0 who"
  from built obtain name where v: "validate_mfa name (su_mfa su) = Inr ()"
    by (auto simp: stepup_configure_def bind_result_eq_Inr)
  have pol: "saved_policy su d c = Inr (?p\<lparr> rp_passive := p \<rparr>)"
    unfolding saved_policy_def saved by simp
  have beh: "rp_behavior ?p = su_behavior su" by (simp add: stepup_request_policy_def Let_def)
  have ne: "rp_requester_loas ?p \<noteq> []" using wants by (auto simp: wants_mfa_def)
  have start: "stepup_start print su q a d x \<noteq> (Inr (Continue d'), c')" for q a x
    by (auto simp: stepup_start_def Let_def bind_flow_def split: sum.splits prod.splits if_split_asm)
  let ?dec = "initial_loa_decision (su_behavior su)
      (initial_provider_policy su c (ai_issuer (id_auth_info d)) (su_behavior su))
      (rp_requester_loas ?p) (ai_class_ref (id_auth_info d))"
  obtain l where "?dec = Satisfied l"
  proof (cases ?dec)
    case NeedsStepup
    with passed pol wants ne request_policy_requested[OF v wants] start show ?thesis
      by (auto simp: stepup_response_action_def Let_def wants_mfa_def beh provider_policy_undecorate[OF decs]
          split: if_split_asm sum.splits)
  next
    case Rejected
    with passed pol wants show ?thesis
      by (simp add: stepup_response_action_def Let_def wants_mfa_def beh provider_policy_undecorate[OF decs])
  qed
  from SatisfiedD[OF this] obtain s where s:
      "initial_provider_policy su c (ai_issuer (id_auth_info d)) (su_behavior su) = Some s"
      "accepts s (ai_class_ref (id_auth_info d))" by blast
  have "s \<in> snd ` set (mf_by_entity_id (su_mfa su) @ mf_by_category (su_mfa su) @ mf_by_certification (su_mfa su))"
    using resolve_policy_configured[OF s(1)[unfolded initial_provider_policy_def]] by auto
  with s acceptsD[OF s(2)] show ?thesis by blast
qed

lemma stepup_startD:
  assumes "stepup_start print su policy account d c = (Inr (RRespond redirect), c1)"
  shows "\<exists>c0 idattr aname request.
    internal_name_for_external (su_mapper su) (sa_attribute account) (rp_behavior policy) = Inr idattr \<and>
    internal_name_for_external (su_mapper su) (sa_assurance account) (rp_behavior policy) = Inr aname \<and>
    cx_state c0 = set_value (stepup_namespace (su_name su)) KEY_STEPUP_SNAPSHOT
      (enc_snapshot \<lparr> sn_response = d, sn_account = account, sn_policy = policy,
         sn_target_backend = cx_target_backend c, sn_target_frontend = cx_target_frontend c,
         sn_decorations = cx_decorations c \<rparr>) (cx_state c) \<and>
    be_start_auth (sb_backend (su_saml su)) request c0 = (Inr redirect, c1)"
proof -
  from assms obtain idattr aname where n:
      "internal_name_for_external (su_mapper su) (sa_attribute account) (rp_behavior policy) = Inr idattr"
      "internal_name_for_external (su_mapper su) (sa_assurance account) (rp_behavior policy) = Inr aname"
    by (auto simp: stepup_start_def bind_result_def split: sum.splits)
  define c0 where "c0 = decorate KEY_TARGET_ACCR_COMPARISON (JString ''exact'')
    (decorate KEY_TARGET_AUTHN_CONTEXT_CLASS_REF (json_strings (lo_requested (rp_settings policy)))
      (decorate KEY_TARGET_ENTITYID (JString (sa_entity_id account))
        (with_state (set_value (stepup_namespace (su_name su)) KEY_STEPUP_SNAPSHOT
          (enc_snapshot \<lparr> sn_response = d, sn_account = account, sn_policy = policy,
             sn_target_backend = cx_target_backend c, sn_target_frontend = cx_target_frontend c,
             sn_decorations = cx_decorations c \<rparr>)) c)))"
  from assms n have "be_start_auth (sb_backend (su_saml su)) (internal_default
      \<lparr> id_subject_id := Some (sa_identifier account), id_requester := id_requester d \<rparr>) c0 = (Inr redirect, c1)"
    by (auto simp: stepup_start_def Let_def bind_flow_eq_Inr c0_def split: if_split_asm)
  moreover have "cx_state c0 = set_value (stepup_namespace (su_name su)) KEY_STEPUP_SNAPSHOT
      (enc_snapshot \<lparr> sn_response = d, sn_account = account, sn_policy = policy,
         sn_target_backend = cx_target_backend c, sn_target_frontend = cx_target_frontend c,
         sn_decorations = cx_decorations c \<rparr>) (cx_state c)"
    by (simp add: c0_def with_state_def)
  ultimately show ?thesis using n by blast
qed

lemma stepup_suspendD:
  assumes "stepup_response_action print su d c = (Inr (RRespond redirect), c1)" "saved_policy su d c = Inr policy"
    and "linked_account c = Inr account" "bm_wf (cx_decorations c)"
  shows "stepup_start print su policy account d (undecorate KEY_STEPUP_INITIAL_POLICY c) = (Inr (RRespond redirect), c1)"
proof -
  have "linked_account (undecorate KEY_STEPUP_INITIAL_POLICY c) = Inr account"
    using assms(3,4) by (simp add: linked_account_def decoration_undecorate key_defs)
  with assms(1,2) show ?thesis
    by (auto simp: stepup_response_action_def Let_def split: if_split_asm loa_decision.splits sum.splits)
qed

definition keeps_slot :: "string \<Rightarrow> 'w req_context_scheme \<Rightarrow> 'w req_context_scheme \<Rightarrow> bool" where
  "keeps_slot name a b \<longleftrightarrow> get_value (cx_state b) (stepup_namespace name) KEY_STEPUP_SNAPSHOT =
     get_value (cx_state a) (stepup_namespace name) KEY_STEPUP_SNAPSHOT"

text \<open>
  C15. Step-up round trip: a response suspended for step-up comes back when the linked account's
  provider answers for the linked identifier at a requested level, whatever the second exchange
  published.  It is the suspended response, its level apart, and its attributes: every attribute is as
  it was except the one the account's assurance maps to, which holds its own values and those the second
  provider asserted for it and no others; the targets are those of the original authentication, and so
  are its decorations, without the one that carried the initial policy.
\<close>

theorem stepup_round_trip:
  assumes suspended: "stepup_response_action print su d c = (Inr (RRespond redirect), c1)"
    and wf: "context_wf c" "data_wf d"
    and policy: "saved_policy su d c = Inr policy" and account: "linked_account c = Inr account"
    and start_keeps: "\<forall>q. preserves (keeps_slot (su_name su)) (be_start_auth (sb_backend (su_saml su)) q)"
    and leg2: "cx_state c2 = cx_state c1"
    and answer: "be_handle (sb_backend (su_saml su)) ''acs'' c2 = (Inr (AuthResponse a), c3)"
    and linked: "ai_issuer (id_auth_info a) = Some (sa_entity_id account)" "ai_class_ref (id_auth_info a) = Some l"
      "l \<in> set (lo_requested (rp_settings policy))"
      "internal_name_for_external (su_mapper su) (sa_attribute account) (rp_behavior policy) = Inr idattr"
      "sa_identifier account \<in> set (unwrap_or [] (bm_get (id_attributes a) idattr))"
  shows "\<exists>d' c4 aname. stepup_handle su ''acs'' c2 = (Inr (ResumeResponse d'), c4) \<and>
    d' = d\<lparr> id_attributes := id_attributes d', id_auth_info := (id_auth_info d)\<lparr> ai_class_ref := ai_class_ref (id_auth_info d') \<rparr> \<rparr> \<and>
    internal_name_for_external (su_mapper su) (sa_assurance account) (rp_behavior policy) = Inr aname \<and>
    (\<forall>n. n \<noteq> aname \<longrightarrow> bm_get (id_attributes d') n = bm_get (id_attributes d) n) \<and>
    set (unwrap_or [] (bm_get (id_attributes d') aname)) =
      set (unwrap_or [] (bm_get (id_attributes d) aname)) \<union> set (unwrap_or [] (bm_get (id_attributes a) aname)) \<and>
    cx_target_frontend c4 = cx_target_frontend c \<and> cx_target_backend c4 = cx_target_backend c \<and>
    cx_decorations c4 = bm_remove KEY_STEPUP_INITIAL_POLICY (cx_decorations c)"
proof -
  let ?ns = "stepup_namespace (su_name su)"
  let ?c = "undecorate KEY_STEPUP_INITIAL_POLICY c"
  let ?sn = "\<lparr> sn_response = d, sn_account = account, sn_policy = policy,
         sn_target_backend = cx_target_backend ?c, sn_target_frontend = cx_target_frontend ?c,
         sn_decorations = cx_decorations ?c \<rparr>"
  have cwf: "state_wf (cx_state c)" "bm_wf (cx_decorations c)" using wf(1) by (simp_all add: context_wf_def)
  from stepup_startD[OF stepup_suspendD[OF suspended policy account cwf(2)]] obtain c0 aname q where s:
      "internal_name_for_external (su_mapper su) (sa_assurance account) (rp_behavior policy) = Inr aname"
      "cx_state c0 = set_value ?ns KEY_STEPUP_SNAPSHOT (enc_snapshot ?sn) (cx_state c)"
      "be_start_auth (sb_backend (su_saml su)) q c0 = (Inr redirect, c1)" by auto
  have "get_value (cx_state c2) ?ns KEY_STEPUP_SNAPSHOT = Some (enc_snapshot ?sn)"
    using preservesD[OF spec[OF start_keeps] s(3)] stepup_slot.saved_loaded[OF cwf(1)]
    by (simp add: leg2 s(2) keeps_slot_def)
  then have load: "load_snapshot su c2 = Inr ?sn"
    using wf(2) cwf(2) by (simp add: load_snapshot_def dec_snapshot_enc)
  obtain vs where vs: "bm_get (id_attributes a) idattr = Some vs" "sa_identifier account \<in> set vs"
    using linked(5) by (cases "bm_get (id_attributes a) idattr") auto
  obtain d' c4 where fin: "finish_stepup su ?sn a (with_state (clear_namespace ?ns) c3) = (Inr d', c4)"
    using linked vs s(1) by (auto simp: finish_stepup_def Let_def)
  have h: "stepup_handle su ''acs'' c2 = (Inr (ResumeResponse d'), c4)"
    using fin by (simp add: stepup_handle_def load bind_flow_def answer)
  from finish_stepupD[OF fin] wf(2) have
      "\<forall>n. n \<noteq> aname \<longrightarrow> bm_get (id_attributes d') n = bm_get (id_attributes d) n"
      "cx_target_frontend c4 = cx_target_frontend c" "cx_target_backend c4 = cx_target_backend c" "cx_decorations c4 = cx_decorations ?c"
    by (auto simp: s(1) data_wf_def)
  moreover from finish_stepup_data[OF fin, of aname] wf(2) have
      "set (unwrap_or [] (bm_get (id_attributes d') aname)) =
         set (unwrap_or [] (bm_get (id_attributes d) aname)) \<union> set (unwrap_or [] (bm_get (id_attributes a) aname))"
      "d' = d\<lparr> id_attributes := id_attributes d', id_auth_info := (id_auth_info d)\<lparr> ai_class_ref := ai_class_ref (id_auth_info d') \<rparr> \<rparr>"
    by (simp_all add: s(1) data_wf_def)
  ultimately show ?thesis using h s(1)
    by (intro exI[of _ d'] exI[of _ c4] exI[of _ aname] conjI) (simp_all add: undecorate_def)
qed

section \<open>Witnesses\<close>

text \<open>A linked account at \<open>mfa-idp\<close>, and a backend that answers for it.\<close>

definition toy_mfa_answer :: internal_data where
  "toy_mfa_answer = internal_default\<lparr> id_auth_info := \<lparr> ai_class_ref = Some REFEDS_MFA, ai_timestamp = None,
     ai_issuer = Some ''mfa-idp'' \<rparr>, id_attributes := [(''mail'', [''alice@x''])] \<rparr>"

definition toy_saml :: "int stepup_saml" where
  "toy_saml = \<lparr> sb_validate_target = (\<lambda>_. Inr ()),
     sb_backend = toy_backend\<lparr> be_handle := (\<lambda>_ c. (Inr (AuthResponse toy_mfa_answer), with_state (\<lambda>_. state_new) c)) \<rparr> \<rparr>"

definition toy_loa :: loa_settings where
  "toy_loa = \<lparr> lo_requested = [REFEDS_MFA], lo_extra_accepted = [], lo_returned = None \<rparr>"

definition toy_stepup :: "int stepup" where
  "toy_stepup = \<lparr> su_name = ''svc'', su_behavior = Hardened,
     su_mfa = \<lparr> mf_by_entity_id = [(''mfa-idp'', toy_loa)], mf_by_category = [], mf_by_certification = [] \<rparr>,
     su_saml = toy_saml, su_mapper = toy_mapper \<rparr>"

definition toy_wanted :: "int req_context_scheme" where
  "toy_wanted = decorate KEY_REQUESTED_ACCR (json_strings [REFEDS_MFA]) (toy_ctx\<lparr> cx_target_frontend := Some ''fe'' \<rparr>)"

definition toy_stepup_leg1 :: "int req_context_scheme" where
  "toy_stepup_leg1 = decorate KEY_MFA_STEPUP_ACCOUNTS (JArray [JObject [(''entity_id'', JString ''mfa-idp''),
     (''identifier'', JString ''alice@x''), (''attribute'', JString ''mail''), (''assurance'', JString ''mail'')]])
     (snd (stepup_request toy_stepup toy_login toy_wanted))"

definition toy_account :: stepup_account where
  "toy_account = \<lparr> sa_entity_id = ''mfa-idp'', sa_identifier = ''alice@x'', sa_attribute = ''mail'',
     sa_assurance = ''mail'' \<rparr>"

definition toy_policy :: request_policy where
  "toy_policy = stepup_request_policy toy_stepup toy_wanted (Some ''rp'')"

definition toy_stepup_leg2 :: "int req_context_scheme" where
  "toy_stepup_leg2 = snd (stepup_response_action (\<lambda>_. []) toy_stepup toy_answer toy_stepup_leg1)"

lemma toy_stepup_facts:
  "saved_policy toy_stepup toy_answer toy_stepup_leg1 = Inr toy_policy"
  "linked_account toy_stepup_leg1 = Inr toy_account"
  "linked_account (undecorate KEY_STEPUP_INITIAL_POLICY toy_stepup_leg1) = Inr toy_account"
  "wants_mfa toy_policy" "\<not> rp_passive toy_policy"
  "lo_requested (rp_settings toy_policy) = [REFEDS_MFA]" "rp_requester_loas toy_policy = [REFEDS_MFA]"
  "initial_loa_decision (rp_behavior toy_policy)
     (initial_provider_policy toy_stepup (undecorate KEY_STEPUP_INITIAL_POLICY toy_stepup_leg1)
       (ai_issuer (id_auth_info toy_answer)) (rp_behavior toy_policy))
     (rp_requester_loas toy_policy) (ai_class_ref (id_auth_info toy_answer)) = NeedsStepup"
  "internal_name_for_external (su_mapper toy_stepup) (sa_attribute toy_account) (rp_behavior toy_policy) = Inr ''mail''"
  "internal_name_for_external (su_mapper toy_stepup) (sa_assurance toy_account) (rp_behavior toy_policy) = Inr ''mail''"
  by code_simp+

definition toy_stepup_cfg :: json where
  "toy_stepup_cfg = JObject [(''mfa'', JObject [(''by_entity_id'', JObject [(''mfa-idp'',
     JObject [(''requested'', JArray [JString REFEDS_MFA])])])])]"

lemma toy_stepup_built:
  "stepup_configure (\<lambda>_. []) Some (\<lambda>_. Inr toy_saml)
     ((toy_build toy_stepup_cfg)\<lparr> bx_attribute_mapper := toy_mapper \<rparr>) = Inr toy_stepup"
proof -
  have "dec_stepup toy_stepup_cfg = Some (Hardened, su_mfa toy_stepup)"
    "validate_mfa ''svc'' (su_mfa toy_stepup) = Inr ()" by code_simp+
  then show ?thesis
    by (simp add: stepup_configure_def parse_config_def toy_build_def validate_handoff_size_def toy_stepup_def)
qed

lemma toy_stepup_satisfied:
  "get_value (cx_state toy_stepup_leg1) (stepup_namespace (su_name toy_stepup)) KEY_STEPUP_REQUEST =
     Some (enc_policy ((stepup_request_policy toy_stepup toy_wanted (Some ''rp''))\<lparr> rp_passive := False \<rparr>))"
  "wants_mfa (stepup_request_policy toy_stepup toy_wanted (Some ''rp''))"
  "stepup_response_action (\<lambda>_. []) toy_stepup toy_mfa_answer toy_stepup_leg1 =
     (Inr (Continue toy_mfa_answer), snd (stepup_response_action (\<lambda>_. []) toy_stepup toy_mfa_answer toy_stepup_leg1))"
  "ai_class_ref (id_auth_info toy_mfa_answer) = Some REFEDS_MFA"
  "bm_wf (cx_decorations toy_stepup_leg1)" "state_wf (cx_state toy_stepup_leg1)"
  by code_simp+

theorem stepup_not_skipped_witness:
  "\<exists>s. initial_provider_policy toy_stepup toy_stepup_leg1 (Some ''mfa-idp'') Hardened = Some s \<and>
     REFEDS_MFA \<in> set (lo_requested s) \<union> set (lo_extra_accepted s)"
  using stepup_not_skipped[OF toy_stepup_built toy_stepup_satisfied(1,2,5,3)] toy_stepup_satisfied(4)
  by (auto simp: toy_mfa_answer_def toy_stepup_def)

text \<open>The suspended response, and its return.\<close>

lemma toy_stepup_suspended:
  "stepup_response_action (\<lambda>_. []) toy_stepup toy_answer toy_stepup_leg1 =
     (Inr (RRespond (hl_redirect toy_http ''https://idp.example/'')), toy_stepup_leg2)"
proof -
  have e: "fst (stepup_response_action (\<lambda>_. []) toy_stepup toy_answer toy_stepup_leg1) =
      Inr (RRespond (hl_redirect toy_http ''https://idp.example/''))"
    using toy_stepup_facts
    by (simp add: stepup_response_action_def stepup_start_def Let_def bind_flow_def toy_stepup_def toy_saml_def
        toy_backend_def)
  show ?thesis by (rule prod_eqI) (simp_all add: e toy_stepup_leg2_def)
qed

theorem stepup_round_trip_witness:
  "\<exists>d' c4. stepup_handle toy_stepup ''acs'' toy_stepup_leg2 = (Inr (ResumeResponse d'), c4) \<and>
     id_subject_id d' = Some ''alice'' \<and> cx_target_frontend c4 = Some ''fe''"
proof -
  have wf: "context_wf toy_stepup_leg1" "data_wf toy_answer"
    using toy_stepup_satisfied(5,6) by (simp_all add: context_wf_def toy_answer_def internal_default_def data_wf_def)
  have keep: "\<forall>q. preserves (keeps_slot (su_name toy_stepup)) (be_start_auth (sb_backend (su_saml toy_stepup)) q)"
    by (auto simp: preserves_def keeps_slot_def toy_stepup_def toy_saml_def toy_backend_def)
  have ret: "be_handle (sb_backend (su_saml toy_stepup)) ''acs'' c = (Inr (AuthResponse toy_mfa_answer), with_state (\<lambda>_. state_new) c)" for c
    by (simp add: toy_stepup_def toy_saml_def)
  have fe: "cx_target_frontend toy_stepup_leg1 = Some ''fe''" by code_simp
  have linked: "ai_issuer (id_auth_info toy_mfa_answer) = Some (sa_entity_id toy_account)"
      "sa_identifier toy_account \<in> set (unwrap_or [] (bm_get (id_attributes toy_mfa_answer) ''mail''))"
      "REFEDS_MFA \<in> set (lo_requested (rp_settings toy_policy))"
    using toy_stepup_facts(6) by (simp_all add: toy_mfa_answer_def toy_account_def)
  from stepup_round_trip[OF toy_stepup_suspended wf toy_stepup_facts(1,2) keep refl ret linked(1)
      toy_stepup_satisfied(4) linked(3) toy_stepup_facts(9) linked(2)] obtain d' c4 where r:
    "stepup_handle toy_stepup ''acs'' toy_stepup_leg2 = (Inr (ResumeResponse d'), c4)"
    "d' = toy_answer\<lparr> id_attributes := id_attributes d', id_auth_info := (id_auth_info toy_answer)\<lparr> ai_class_ref := ai_class_ref (id_auth_info d') \<rparr> \<rparr>"
    "cx_target_frontend c4 = cx_target_frontend toy_stepup_leg1" by blast
  have "id_subject_id d' = id_subject_id toy_answer" by (subst r(2)) simp
  with r(1,3) fe show ?thesis by (simp add: toy_answer_def)
qed

definition toy_slot_ctx :: "int req_context_scheme" where
  "toy_slot_ctx = with_state (set_value (stepup_namespace ''svc'') KEY_STEPUP_SNAPSHOT (enc_snapshot
     \<lparr> sn_response = toy_answer, sn_account = toy_account, sn_policy = toy_policy, sn_target_backend = None,
       sn_target_frontend = Some ''fe'', sn_decorations = [] \<rparr>)) toy_ctx"

definition toy_resumed :: internal_data where
  "toy_resumed = toy_answer\<lparr> id_auth_info := auth_info_default\<lparr> ai_class_ref := Some REFEDS_MFA \<rparr>,
     id_attributes := [(''mail'', [''alice@x''])] \<rparr>"

lemma toy_resume: "fst (stepup_handle toy_stepup ''acs'' toy_slot_ctx) = Inr (ResumeResponse toy_resumed)"
  by code_simp

theorem stepup_resumes_linked_subject_witness:
  "fst (stepup_handle toy_stepup ''acs'' (snd (stepup_handle toy_stepup ''acs'' toy_slot_ctx))) =
     Inl (ErrAuthn ''no step-up flow in progress'')"
proof -
  have h: "stepup_handle toy_stepup ''acs'' toy_slot_ctx =
      (Inr (ResumeResponse toy_resumed), snd (stepup_handle toy_stepup ''acs'' toy_slot_ctx))"
    by (rule prod_eqI) (simp_all only: toy_resume fst_conv snd_conv)
  have "preserves (\<lambda>_ x. state_wf (cx_state x)) (be_handle (sb_backend (su_saml toy_stepup)) ''acs'')"
    by (auto simp: preserves_def toy_stepup_def toy_saml_def with_state_def)
  from stepup_resumes_linked_subject[OF h this] show ?thesis by blast
qed

end
