(* ===== verification/Saml_Backend.thy ===== *)
theory Saml_Backend
  imports Scope_Cache Stepup
begin

text \<open>
  The SAML backend of \<open>saml2_backend.rs\<close>: the proxy as SAML service provider, on its own and
  embedded in the step-up service.  The SAML library (XML, bindings, signatures, decryption,
  response validation with its replay cache, metadata), the metadata client, the clock and Unicode
  lowercasing are the parameter record \<open>saml_sp_lib\<close>; the state of the plugin outside the session is part
  of the world.  The properties are in \<open>Saml_Backend_Props\<close>.
\<close>

section \<open>Constants\<close>

definition SIGALG_RSA_SHA256 :: string where
  "SIGALG_RSA_SHA256 = ''http://www.w3.org/2001/04/xmldsig-more#rsa-sha256''"
definition SAML_ASSERTION_NS :: string where "SAML_ASSERTION_NS = ''urn:oasis:names:tc:SAML:2.0:assertion''"
definition XMLDSIG_NS :: string where "XMLDSIG_NS = ''http://www.w3.org/2000/09/xmldsig#''"
definition STATE_INITIAL_STEPUP_POLICY :: string where "STATE_INITIAL_STEPUP_POLICY = ''initial_stepup_policy''"
definition STATE_TARGET_ACCR :: string where "STATE_TARGET_ACCR = ''target_accr''"
definition STATE_TARGET_ACCR_COMPARISON :: string where
  "STATE_TARGET_ACCR_COMPARISON = ''target_accr_comparison''"

lemmas sp_key_defs = STATE_INITIAL_STEPUP_POLICY_def STATE_TARGET_ACCR_def STATE_TARGET_ACCR_COMPARISON_def

section \<open>Configuration\<close>

record encryption_keypair =
  ek_key_path :: string
  ek_cert_path :: "string option"

record saml_backend_config =
  bc_sp_entity_id :: "string option"
  bc_sp_key_path :: string
  bc_sp_cert_path :: "string option"
  bc_idp_entity_id :: "string option"
  bc_disco_srv :: "string option"
  bc_idp_sso_url :: "string option"
  bc_idp_cert_path :: "string option"
  bc_idp_scopes :: "string list"
  bc_idp_certifications :: "string list"
  bc_idp_categories :: "string list"
  bc_mdq :: "mdq_config option"
  bc_sign_requests :: bool
  bc_name_id_format :: "string option"
  bc_security :: "string option"
  bc_time_diff :: "u64 option"
  bc_organization :: "organization_config option"
  bc_contact_person :: "contact_person_config list"
  bc_passthrough :: bool
  bc_scope_subject :: bool
  bc_allow_unsolicited :: bool
  bc_encryption_keypairs :: "encryption_keypair list"

definition dec_encryption_keypair :: "json \<Rightarrow> encryption_keypair option" where
  "dec_encryption_keypair v = do {
     m \<leftarrow> as_object v;
     k \<leftarrow> dec_required as_str ''key_path'' m;
     c \<leftarrow> dec_default dec_opt_str None ''cert_path'' m;
     Some \<lparr> ek_key_path = k, ek_cert_path = c \<rparr> }"

definition dec_saml_backend :: "json \<Rightarrow> saml_backend_config option" where
  "dec_saml_backend v = do {
     m \<leftarrow> as_object v;
     se \<leftarrow> dec_default dec_opt_str None ''sp_entity_id'' m;
     kp \<leftarrow> dec_required as_str ''sp_key_path'' m;
     cp \<leftarrow> dec_default dec_opt_str None ''sp_cert_path'' m;
     ie \<leftarrow> dec_default dec_opt_str None ''idp_entity_id'' m;
     ds \<leftarrow> dec_default dec_opt_str None ''disco_srv'' m;
     iu \<leftarrow> dec_default dec_opt_str None ''idp_sso_url'' m;
     ic \<leftarrow> dec_default dec_opt_str None ''idp_cert_path'' m;
     is \<leftarrow> dec_default dec_strings [] ''idp_scopes'' m;
     ia \<leftarrow> dec_default dec_strings [] ''idp_assurance_certifications'' m;
     ig \<leftarrow> dec_default dec_strings [] ''idp_entity_categories'' m;
     q \<leftarrow> dec_default (dec_opt dec_mdq) None ''mdq'' m;
     sr \<leftarrow> dec_default as_bool False ''sign_authn_requests'' m;
     nf \<leftarrow> dec_default dec_opt_str None ''name_id_format'' m;
     sy \<leftarrow> dec_default dec_opt_str None ''security'' m;
     td \<leftarrow> dec_default dec_opt_u64 None ''accepted_time_diff_secs'' m;
     og \<leftarrow> dec_default (dec_opt dec_organization) None ''organization'' m;
     cs \<leftarrow> dec_default (dec_list dec_contact_person) [] ''contact_person'' m;
     pt \<leftarrow> dec_default as_bool False ''passthrough_unmapped_attributes'' m;
     ss \<leftarrow> dec_default as_bool False ''scope_subject_id_by_issuer'' m;
     un \<leftarrow> dec_default as_bool False ''allow_unsolicited'' m;
     ek \<leftarrow> dec_default (dec_list dec_encryption_keypair) [] ''encryption_keypairs'' m;
     Some \<lparr> bc_sp_entity_id = se, bc_sp_key_path = kp, bc_sp_cert_path = cp, bc_idp_entity_id = ie,
       bc_disco_srv = ds, bc_idp_sso_url = iu, bc_idp_cert_path = ic, bc_idp_scopes = is,
       bc_idp_certifications = ia, bc_idp_categories = ig, bc_mdq = q, bc_sign_requests = sr,
       bc_name_id_format = nf, bc_security = sy, bc_time_diff = td, bc_organization = og,
       bc_contact_person = cs, bc_passthrough = pt, bc_scope_subject = ss, bc_allow_unsolicited = un,
       bc_encryption_keypairs = ek \<rparr> }"

section \<open>The SAML library\<close>

text \<open>An assertion and a response by what the code reads from them; the rest is carried along.\<close>

datatype subject_name = PlainId name_id | EncryptedId string

record 'a assertion =
  as_id :: string
  as_issuer :: string
  as_has_signature :: bool
  as_name_id :: "subject_name option"
  as_class_refs :: "string option list"
  as_attribute_statements :: "saml_attribute list list"
  as_rest :: 'a

record 'a idp_response =
  rsp_id :: string
  rsp_issuer :: "string option"
  rsp_has_signature :: bool
  rsp_in_response_to :: "string option"
  rsp_status_code :: string
  rsp_sub_status :: "string option"
  rsp_status_message :: "string option"
  rsp_assertions :: "'a assertion list"
  rsp_encrypted :: "string list"
  rsp_rest :: 'a

record validation_params =
  vp_received_url :: string
  vp_idp_entity_id :: string
  vp_sp_entity_id :: string
  vp_acs_url :: string
  vp_request_id :: "string option"
  vp_response_signature :: "bool option"
  vp_signed_ids :: "string list"
  vp_now :: int

datatype context_comparison = CmpExact | CmpMinimum | CmpMaximum | CmpBetter

record request_options =
  qo_sp_entity_id :: string
  qo_acs_url :: string
  qo_destination :: string
  qo_binding :: string
  qo_name_id_format :: "string option"
  qo_allow_create :: bool
  qo_force_authn :: "bool option"
  qo_is_passive :: "bool option"
  qo_class_refs :: "string list"
  qo_comparison :: "context_comparison option"

datatype security_preset = Permissive | Production | Strict

text \<open>The published document; every list and option not named here is empty.\<close>

record 't sp_metadata =
  pm_signing_cert :: "string option"
  pm_encryption_certs :: "string list"
  pm_discovery_response :: "string option"
  pm_name_id_formats :: "string list"
  pm_requests_signed :: bool
  pm_want_assertions_signed :: bool
  pm_acs :: "(string \<times> string \<times> nat) list"
  pm_entity_id :: string
  pm_organization :: "(string \<times> string \<times> string \<times> string) option"
  pm_contacts :: "'t contact_person list"

type_synonym xml_document = "xml_node option"

record ('w, 'k, 'a, 'q, 'key, 'g, 'f, 't) saml_sp_lib =
  xl_constants :: saml_constants
  xl_is_success :: "string \<Rightarrow> bool"
  xl_param :: "http_request \<Rightarrow> string \<Rightarrow> string option"
  xl_utf8 :: "string \<Rightarrow> string option"
  xl_b64_decode :: "string \<Rightarrow> string option"
  xl_to_lowercase :: "string \<Rightarrow> string"
  xl_redirect_decode :: "request_view \<Rightarrow> redirect_decoded option"
  xl_redirect_verify :: "redirect_decoded \<Rightarrow> 'k verifier \<Rightarrow> bool option"
  xl_parse_xml :: "string \<Rightarrow> xml_document option"
  xl_parse_response :: "xml_document \<Rightarrow> 'a idp_response option"
  xl_parse_assertion :: "xml_document \<Rightarrow> 'a assertion option"
  xl_parse_name_id :: "xml_document \<Rightarrow> name_id option"
  xl_load_cert :: "string \<Rightarrow> 'k option"
  xl_verify_enveloped :: "'k verifier \<Rightarrow> string \<Rightarrow> verify_result option"
  xl_verify_all :: "'k verifier \<Rightarrow> string \<Rightarrow> verify_result list option"
  xl_security :: "security_preset \<Rightarrow> 'g"
  xl_set_skew :: "u64 \<Rightarrow> 'g \<Rightarrow> 'g"
  xl_validate :: "'g \<Rightarrow> 'a idp_response \<Rightarrow> validation_params \<Rightarrow> 'w \<Rightarrow> (bool \<times> (string \<times> string option) list) \<times> 'w"
  xl_extract_attributes :: "saml_attribute list list \<Rightarrow> saml_attribute list"
  xl_parse_comparison :: "string \<Rightarrow> context_comparison option"
  xl_create_request :: "request_options \<Rightarrow> 'w \<Rightarrow> 'q option \<times> 'w"
  xl_request_id :: "'q \<Rightarrow> string"
  xl_with_subject :: "name_id \<Rightarrow> 'q \<Rightarrow> 'q"
  xl_request_xml :: "'q \<Rightarrow> string option"
  xl_redirect_encode :: "string \<Rightarrow> bool \<Rightarrow> string \<Rightarrow> string option \<Rightarrow> ('key \<times> string) option \<Rightarrow> string option"
  xl_mdq :: "'f mdq_client \<Rightarrow> 'w mdq_ops"
  xl_scopes :: "'f mdq_client \<Rightarrow> 'w \<Rightarrow> scope_cache"
  xl_put_scopes :: "'f mdq_client \<Rightarrow> scope_cache \<Rightarrow> 'w \<Rightarrow> 'w"
  xl_metadata_xml :: "'t sp_metadata \<Rightarrow> string option"
  xl_form_encode :: "(string \<times> string) list \<Rightarrow> string"
  xl_now :: "'w \<Rightarrow> int"
  xl_now_rfc3339 :: "'w \<Rightarrow> string"
  xl_redirect :: "string \<Rightarrow> response"
  xl_response_new :: "u16 \<Rightarrow> response"
  xl_with_header :: "string \<Rightarrow> string \<Rightarrow> response \<Rightarrow> response"

text \<open>Files, keys and certificates at startup; a decryptor turns an encrypted element into plaintext.\<close>

record ('key, 'f, 't) sp_build_lib =
  xb_read :: "string \<Rightarrow> string option"
  xb_utf8_lossy :: "string \<Rightarrow> string"
  xb_b64_decode :: "string \<Rightarrow> string option"
  xb_load_pem :: "string \<Rightarrow> 'key option"
  xb_decryptor :: "'key \<Rightarrow> string \<Rightarrow> string option"
  xb_mdq :: "'f mdq_lib"
  xb_contact_type :: "string \<Rightarrow> 't option"

section \<open>The backend and its construction\<close>

datatype ('k, 'f) idp_metadata_source = StaticIdp string "'k verifier" metadata_values | MdqIdp "'f mdq_client"

record ('k, 'key, 'f, 't) saml_backend =
  sx_name :: string
  sx_state_namespace :: string
  sx_sp_entity_id :: string
  sx_acs_url :: string
  sx_idp_entity_id :: "string option"
  sx_disco_srv :: "string option"
  sx_disco_return_url :: string
  sx_idp_metadata :: "('k, 'f) idp_metadata_source"
  sx_signer :: 'key
  sx_sign_requests :: bool
  sx_name_id_format :: "string option"
  sx_sp_cert_b64 :: "string option"
  sx_security :: security_preset
  sx_time_diff :: "u64 option"
  sx_passthrough :: bool
  sx_scope_subject :: bool
  sx_allow_unsolicited :: bool
  sx_static_scopes :: "string list"
  sx_organization :: "(string \<times> string \<times> string \<times> string) option"
  sx_contacts :: "'t contact_person list"
  sx_decryptors :: "(string \<Rightarrow> string option) list"
  sx_encryption_certs :: "string list"
  sx_mapper :: attribute_mapper
  sx_request_subject :: bool

definition unusable :: "string \<Rightarrow> bool" where
  "unusable v \<longleftrightarrow> v = [] \<or> has_control v"

definition check_entries :: "string \<Rightarrow> string \<Rightarrow> string list \<Rightarrow> unit result" where
  "check_entries name what entries =
     (if list_ex unusable entries then
        Inl (ErrConfig (''saml2 backend '' @ name @ '': '' @ what @
          '' entries must be non-empty and contain no control characters''))
      else Inr ())"

definition static_idp ::
    "('w, 'k, 'a, 'q, 'key, 'g, 'f, 't) saml_sp_lib \<Rightarrow> ('key, 'f, 't) sp_build_lib \<Rightarrow> saml_backend_config \<Rightarrow>
      ('k, 'f) idp_metadata_source result" where
  "static_idp xl xb cfg =
     (if bc_disco_srv cfg \<noteq> None then Inl (ErrConfig ''saml2 backend disco_srv requires an [mdq] section'')
      else if bc_idp_entity_id cfg = None then Inl (ErrConfig ''saml2 backend requires idp_entity_id in static mode'')
      else
     bind_result (ok_or (bc_idp_sso_url cfg) (ErrConfig ''saml2 backend requires idp_sso_url (or an [mdq] section)'')) (\<lambda>sso_url.
     bind_result (ok_or (bc_idp_cert_path cfg) (ErrConfig ''saml2 backend requires idp_cert_path (or an [mdq] section)'')) (\<lambda>path.
     bind_result (ok_or (xb_read xb path) (ErrConfig ''reading idp_cert_path: '')) (\<lambda>cert.
     bind_result (ok_or (xb_b64_decode xb (extract_cert_b64 (xb_utf8_lossy xb) cert)) (ErrCrypto ''decoding idp cert: '')) (\<lambda>der.
     bind_result (verifier_from_cert_ders (xl_load_cert xl) [der]) (\<lambda>verifier.
     Inr (StaticIdp sso_url verifier
       \<lparr> mv_categories = bc_idp_categories cfg, mv_certifications = bc_idp_certifications cfg \<rparr>)))))))"

definition mdq_idp ::
    "('key, 'f, 't) sp_build_lib \<Rightarrow> string \<Rightarrow> bool \<Rightarrow> saml_backend_config \<Rightarrow> mdq_config \<Rightarrow>
      ('k, 'f) idp_metadata_source result" where
  "mdq_idp xb name request_subject cfg q =
     (if request_subject \<and> mq_allow_unverified q then
        Inl (ErrConfig (''stepup '' @ name @
          '': mdq.allow_unverified is not allowed; step-up metadata must be signature-verified''))
      else if bc_idp_scopes cfg \<noteq> [] \<or> bc_idp_certifications cfg \<noteq> [] \<or> bc_idp_categories cfg \<noteq> [] then
        Inl (ErrConfig (''saml2 backend idp_scopes, idp_entity_categories, and idp_assurance_certifications '' @
          ''are only valid in static mode; MDQ mode reads them from trusted metadata''))
      else if \<not> request_subject \<and> bc_idp_entity_id cfg = None \<and> bc_disco_srv cfg = None then
        Inl (ErrConfig ''saml2 backend in MDQ mode requires idp_entity_id and/or disco_srv'')
      else bind_result (build_mdq_client (xb_mdq xb) q) (\<lambda>client. Inr (MdqIdp client)))"

definition sp_certificate :: "('key, 'f, 't) sp_build_lib \<Rightarrow> saml_backend_config \<Rightarrow> string option result" where
  "sp_certificate xb cfg =
     (case bc_sp_cert_path cfg of
        None \<Rightarrow> Inr None
      | Some path \<Rightarrow> bind_result (ok_or (xb_read xb path) (ErrConfig ''reading sp_cert_path: ''))
          (\<lambda>pem. Inr (Some (extract_cert_b64 (xb_utf8_lossy xb) pem))))"

text \<open>The decryptors and the certificates published for encryption, in the order of the entries.\<close>

definition add_keypair ::
    "('key, 'f, 't) sp_build_lib \<Rightarrow> encryption_keypair \<Rightarrow> (string \<Rightarrow> string option) list \<times> string list \<Rightarrow>
      ((string \<Rightarrow> string option) list \<times> string list) result" where
  "add_keypair xb kp acc =
     bind_result (ok_or (xb_read xb (ek_key_path kp)) (ErrConfig ''reading encryption_keypairs.key_path: '')) (\<lambda>pem.
     bind_result (ok_or (xb_load_pem xb pem) (ErrCrypto ''loading encryption key: '')) (\<lambda>key.
     (let decryptors = fst acc @ [xb_decryptor xb key]
      in case ek_cert_path kp of
           None \<Rightarrow> Inr (decryptors, snd acc)
         | Some path \<Rightarrow> bind_result (ok_or (xb_read xb path) (ErrConfig ''reading encryption_keypairs.cert_path: ''))
             (\<lambda>cert. Inr (decryptors, snd acc @ [extract_cert_b64 (xb_utf8_lossy xb) cert])))))"

definition security_of :: "string \<Rightarrow> bool \<Rightarrow> string option \<Rightarrow> security_preset result" where
  "security_of name request_subject v =
     (case v of
        None \<Rightarrow> Inr (if request_subject then Production else Permissive)
      | Some s \<Rightarrow>
          if eq_ignore_ascii_case s ''production'' then Inr Production
          else if eq_ignore_ascii_case s ''strict'' then Inr Strict
          else if eq_ignore_ascii_case s ''permissive'' then Inr Permissive
          else Inl (ErrConfig (''saml2 backend '' @ name @ '': unknown security value '' @ debug_str s @
            quoted '' (expected `production`, `strict`, or `permissive`)'')))"

definition build_concrete ::
    "('w, 'k, 'a, 'q, 'key, 'g, 'f, 't) saml_sp_lib \<Rightarrow> ('key, 'f, 't) sp_build_lib \<Rightarrow> build_context \<Rightarrow> bool \<Rightarrow>
      string \<Rightarrow> ('k, 'key, 'f, 't) saml_backend result" where
  "build_concrete xl xb bx request_subject state_namespace =
     bind_result (parse_config dec_saml_backend bx) (\<lambda>cfg.
     bind_result (check_entries (bx_name bx) ''idp_scopes'' (bc_idp_scopes cfg)) (\<lambda>_.
     bind_result (check_entries (bx_name bx) ''idp_assurance_certifications'' (bc_idp_certifications cfg)) (\<lambda>_.
     bind_result (check_entries (bx_name bx) ''idp_entity_categories'' (bc_idp_categories cfg)) (\<lambda>_.
     bind_result (ok_or (xb_read xb (bc_sp_key_path cfg)) (ErrConfig ''reading sp_key_path: '')) (\<lambda>sp_key.
     bind_result (ok_or (xb_load_pem xb sp_key) (ErrCrypto ''loading sp key: '')) (\<lambda>signer.
     bind_result (case bc_mdq cfg of Some q \<Rightarrow> mdq_idp xb (bx_name bx) request_subject cfg q | None \<Rightarrow> static_idp xl xb cfg) (\<lambda>idp.
     bind_result (sp_certificate xb cfg) (\<lambda>cert.
     bind_result (fold_result (add_keypair xb) (bc_encryption_keypairs cfg) ([], [])) (\<lambda>keys.
     bind_result (security_of (bx_name bx) request_subject (bc_security cfg)) (\<lambda>security.
     bind_result (contact_persons (xb_contact_type xb) (bc_contact_person cfg)) (\<lambda>contacts.
     Inr \<lparr> sx_name = bx_name bx, sx_state_namespace = state_namespace,
       sx_sp_entity_id = unwrap_or (module_base bx) (bc_sp_entity_id cfg), sx_acs_url = module_base bx @ ''/acs'',
       sx_idp_entity_id = bc_idp_entity_id cfg, sx_disco_srv = bc_disco_srv cfg,
       sx_disco_return_url = module_base bx @ ''/disco'', sx_idp_metadata = idp, sx_signer = signer,
       sx_sign_requests = bc_sign_requests cfg, sx_name_id_format = bc_name_id_format cfg, sx_sp_cert_b64 = cert,
       sx_security = security, sx_time_diff = bc_time_diff cfg, sx_passthrough = bc_passthrough cfg,
       sx_scope_subject = bc_scope_subject cfg, sx_allow_unsolicited = bc_allow_unsolicited cfg,
       sx_static_scopes = bc_idp_scopes cfg, sx_organization = map_option to_organization (bc_organization cfg),
       sx_contacts = contacts, sx_decryptors = fst keys, sx_encryption_certs = snd keys,
       sx_mapper = bx_attribute_mapper bx, sx_request_subject = request_subject \<rparr>)))))))))))"


section \<open>Metadata and discovery\<close>

definition is_dynamic_idp_selection :: "('k, 'key, 'f, 't) saml_backend \<Rightarrow> bool" where
  "is_dynamic_idp_selection sx \<longleftrightarrow> (case sx_idp_metadata sx of MdqIdp _ \<Rightarrow> True | StaticIdp _ _ _ \<Rightarrow> False)"

definition security_config ::
    "('w, 'k, 'a, 'q, 'key, 'g, 'f, 't) saml_sp_lib \<Rightarrow> ('k, 'key, 'f, 't) saml_backend \<Rightarrow> 'g" where
  "security_config xl sx =
     (case sx_time_diff sx of
        None \<Rightarrow> xl_security xl (sx_security sx) | Some skew \<Rightarrow> xl_set_skew xl skew (xl_security xl (sx_security sx)))"

definition build_sp_metadata ::
    "('w, 'k, 'a, 'q, 'key, 'g, 'f, 't) saml_sp_lib \<Rightarrow> ('k, 'key, 'f, 't) saml_backend \<Rightarrow> string result" where
  "build_sp_metadata xl sx =
     ok_or (xl_metadata_xml xl
       \<lparr> pm_signing_cert = sx_sp_cert_b64 sx, pm_encryption_certs = sx_encryption_certs sx,
         pm_discovery_response = map_option (\<lambda>_. sx_disco_return_url sx) (sx_disco_srv sx),
         pm_name_id_formats = (case sx_name_id_format sx of Some f \<Rightarrow> [f]
           | None \<Rightarrow> [sc_persistent (xl_constants xl), sc_email (xl_constants xl)]),
         pm_requests_signed = sx_sign_requests sx, pm_want_assertions_signed = True,
         pm_acs = [(sc_binding_post (xl_constants xl), sx_acs_url sx, 0),
                   (sc_binding_redirect (xl_constants xl), sx_acs_url sx, 1)],
         pm_entity_id = sx_sp_entity_id sx, pm_organization = sx_organization sx, pm_contacts = sx_contacts sx \<rparr>)
       (ErrInternal ''serializing SP metadata: '')"

definition disco_redirect ::
    "('w, 'k, 'a, 'q, 'key, 'g, 'f, 't) saml_sp_lib \<Rightarrow> ('k, 'key, 'f, 't) saml_backend \<Rightarrow> string \<Rightarrow> response" where
  "disco_redirect xl sx disco_srv =
     xl_redirect xl (disco_srv @ (if CHR ''?'' \<in> set disco_srv then ''&'' else ''?'') @
       xl_form_encode xl [(''entityID'', sx_sp_entity_id sx), (''return'', sx_disco_return_url sx)])"

text \<open>A lookup reads and writes the scope cache of the client, which is part of the world.\<close>

definition lookup_idp ::
    "('w, 'k, 'a, 'q, 'key, 'g, 'f, 't) saml_sp_lib \<Rightarrow> 'f mdq_client \<Rightarrow> string \<Rightarrow> 'w \<Rightarrow> resolved_idp result \<times> 'w" where
  "lookup_idp xl client entity_id w =
     (case scope_aware_get (xl_mdq xl client) MDQ_CACHE_CAPACITY entity_id (xl_scopes xl client w, w) of
        (r, sc, w) \<Rightarrow>
          ((case r of Inl _ \<Rightarrow> Inl (ErrAuthn (''MDQ lookup for '' @ entity_id @ '' failed: '')) | Inr x \<Rightarrow> Inr x),
           xl_put_scopes xl client sc w))"

definition idp_sso_redirect_url :: "saml_constants \<Rightarrow> idp_entity \<Rightarrow> string result" where
  "idp_sso_redirect_url sc entity =
     (case ie_idp_roles entity of
        [] \<Rightarrow> Inl (ErrAuthn (''metadata for '' @ ie_entity_id entity @ '' has no IDPSSODescriptor''))
      | idp # _ \<Rightarrow> ok_or (ir_sso_service idp (sc_binding_redirect sc))
          (ErrAuthn (''IdP '' @ ie_entity_id entity @ '' advertises no HTTP-Redirect SingleSignOnService'')))"

definition idp_verifier_from_metadata :: "(string \<Rightarrow> 'k option) \<Rightarrow> idp_entity \<Rightarrow> 'k verifier result" where
  "idp_verifier_from_metadata load entity =
     (case ie_idp_roles entity of
        [] \<Rightarrow> Inl (ErrAuthn (''metadata for '' @ ie_entity_id entity @ '' has no IDPSSODescriptor''))
      | idp # _ \<Rightarrow> verifier_from_cert_ders load (ir_signing_certs idp))"

section \<open>Decoding a response\<close>

definition redirect_response ::
    "('w, 'k, 'a, 'q, 'key, 'g, 'f, 't) saml_sp_lib \<Rightarrow> 'k verifier \<Rightarrow> redirect_decoded \<Rightarrow> (string \<times> bool) result" where
  "redirect_response xl verifier decoded =
     bind_result (if rx_signature decoded \<noteq> None \<or> rx_sig_alg decoded \<noteq> None then
         (case xl_redirect_verify xl decoded verifier of
            None \<Rightarrow> Inl (ErrAuthn ''SAML Response redirect signature verification: '')
          | Some False \<Rightarrow> Inl (ErrAuthn ''SAML Response redirect signature is not valid'')
          | Some True \<Rightarrow> Inr True)
       else Inr False) (\<lambda>verified.
     bind_result (ok_or (xl_utf8 xl (rx_xml decoded)) (ErrBadRequest ''SAMLResponse not UTF-8: '')) (\<lambda>xml.
       Inr (xml, verified)))"

definition decode_acs_response ::
    "('w, 'k, 'a, 'q, 'key, 'g, 'f, 't) saml_sp_lib \<Rightarrow> http_request \<Rightarrow> 'k verifier \<Rightarrow> (string \<times> bool) result" where
  "decode_acs_response xl rq verifier =
     (if bm_get (rq_query rq) ''SAMLResponse'' \<noteq> None then
        bind_result (ok_or (xl_redirect_decode xl (raw_query_view rq)) (ErrBadRequest ''redirect decode: ''))
          (redirect_response xl verifier)
      else case bm_get (rq_form rq) ''SAMLResponse'' of
        Some v \<Rightarrow>
          bind_result (ok_or (xl_b64_decode xl (trim v)) (ErrBadRequest ''base64 SAMLResponse: '')) (\<lambda>bytes.
          bind_result (ok_or (xl_utf8 xl bytes) (ErrBadRequest ''SAMLResponse not UTF-8: '')) (\<lambda>xml. Inr (xml, False)))
      | None \<Rightarrow> Inl (ErrBadRequest ''missing SAMLResponse''))"

section \<open>Signatures\<close>

definition add_verified_signed_id :: "string list \<Rightarrow> string \<Rightarrow> string list" where
  "add_verified_signed_id ids i = push_new ids i"

text \<open>The id a reference targets; an empty URI is the root, any other scheme is no id.\<close>

definition reference_id :: "string \<Rightarrow> string \<Rightarrow> string option" where
  "reference_id root uri = (if uri = [] then Some root else strip_prefix ''#'' uri)"

definition add_references :: "string \<Rightarrow> string list \<Rightarrow> (bool \<times> string) list \<Rightarrow> string list" where
  "add_references root ids references =
     foldl (\<lambda>ids r. case reference_id root (snd r) of None \<Rightarrow> ids | Some i \<Rightarrow> add_verified_signed_id ids i) ids references"

definition extend_verified_xml_signature_ids ::
    "('w, 'k, 'a, 'q, 'key, 'g, 'f, 't) saml_sp_lib \<Rightarrow> 'k verifier \<Rightarrow> string \<Rightarrow> string \<Rightarrow> string list \<Rightarrow> string list result" where
  "extend_verified_xml_signature_ids xl verifier xml root ids =
     bind_result (ok_or (xl_verify_all xl verifier xml) (ErrAuthn ''signature verification failed: ''))
       (\<lambda>results. fold_result (\<lambda>r ids. case r of
            Valid references \<Rightarrow> Inr (add_references root ids references)
          | Invalid reason \<Rightarrow> Inl (ErrAuthn (''SAML XML signature is not valid: '' @ reason))) results ids)"

fun node_source :: "xml_node \<Rightarrow> string option" where
  "node_source (XElement ns l as cs src) = src"
| "node_source (XText t) = None"

definition cleartext_assertion_sources :: "xml_document \<Rightarrow> nat \<Rightarrow> string list result" where
  "cleartext_assertion_sources doc expected =
     bind_result (ok_or doc (ErrBadRequest ''missing SAML Response element'')) (\<lambda>root.
     bind_result (traverse (\<lambda>c. ok_or (node_source c) (ErrBadRequest ''unable to recover original Assertion XML''))
         (filter (name_matches SAML_ASSERTION_NS ''Assertion'') (children root))) (\<lambda>sources.
       if length sources \<noteq> expected then
         Inl (ErrBadRequest (''expected '' @ show_nat expected @ '' cleartext Assertion elements, found '' @
           show_nat (length sources)))
       else Inr sources))"

definition standalone_assertion_document :: "string \<Rightarrow> string" where
  "standalone_assertion_document assertion_xml =
     quoted ''<tb:Standalone xmlns:tb=`urn:tunnelbana:standalone` xmlns:saml=`'' @ SAML_ASSERTION_NS @
     quoted ''` xmlns:ds=`'' @ XMLDSIG_NS @ quoted ''`>'' @ assertion_xml @ ''</tb:Standalone>''"

section \<open>Decryption\<close>

definition rfind_str :: "string \<Rightarrow> string \<Rightarrow> nat option" where
  "rfind_str pat s = map_option (\<lambda>i. length s - i - length pat) (find_str (rev pat) (rev s))"

text \<open>The local name of the root element's tag.\<close>

definition root_tag :: "string \<Rightarrow> string option" where
  "root_tag s = map_option (\<lambda>rest. after_last CHR '':'' (takeWhile (\<lambda>c. c \<noteq> CHR ''>'' \<and> c \<noteq> CHR '' '') rest))
     (strip_prefix ''<'' s)"

definition unwrap_decrypted_wrapper :: "string \<Rightarrow> string" where
  "unwrap_decrypted_wrapper xml =
     (let trimmed = trim xml
      in if root_tag trimmed \<notin> {Some ''EncryptedAssertion'', Some ''EncryptedID''} then xml
         else case (find_str ''>'' trimmed, rfind_str ''</'' trimmed) of
           (Some open_end, Some close_start) \<Rightarrow>
             if open_end + 1 \<ge> close_start then xml
             else take (close_start - (open_end + 1)) (drop (open_end + 1) trimmed)
         | _ \<Rightarrow> xml)"

definition decrypt_with_any :: "(string \<Rightarrow> string option) list \<Rightarrow> string \<Rightarrow> string result" where
  "decrypt_with_any decryptors encrypted =
     (case find_map (\<lambda>d. d encrypted) decryptors of
        Some plaintext \<Rightarrow> Inr (unwrap_decrypted_wrapper plaintext)
      | None \<Rightarrow> Inl (ErrAuthn (''decrypting SAML element failed with every configured key: '' @
          (if decryptors = [] then ''no encryption_keypairs configured'' else []))))"


section \<open>Accepting a response\<close>

definition parse_idp_response ::
    "('w, 'k, 'a, 'q, 'key, 'g, 'f, 't) saml_sp_lib \<Rightarrow> string \<Rightarrow> (xml_document \<times> 'a idp_response) result" where
  "parse_idp_response xl xml =
     bind_result (ok_or (xl_parse_xml xl xml) (ErrBadRequest ''invalid SAML XML: '')) (\<lambda>doc.
     bind_result (ok_or (xl_parse_response xl doc) (ErrBadRequest ''parsing Response: '')) (\<lambda>rsp.
     Inr (doc, rsp)))"

definition response_signed_ids ::
    "('w, 'k, 'a, 'q, 'key, 'g, 'f, 't) saml_sp_lib \<Rightarrow> 'k verifier \<Rightarrow> bool \<Rightarrow> string \<Rightarrow> 'a idp_response \<Rightarrow> string list result" where
  "response_signed_ids xl verifier binding xml rsp =
     bind_result (if rsp_has_signature rsp \<or> list_ex as_has_signature (rsp_assertions rsp)
         then extend_verified_xml_signature_ids xl verifier xml (rsp_id rsp) [] else Inr [])
       (\<lambda>ids. Inr (if binding then add_verified_signed_id ids (rsp_id rsp) else ids))"

definition response_xml_verified :: "string list \<Rightarrow> 'a idp_response \<Rightarrow> bool" where
  "response_xml_verified ids rsp \<longleftrightarrow> rsp_has_signature rsp \<and> rsp_id rsp \<in> set ids"

text \<open>Without a verified envelope every cleartext assertion is verified on its own.\<close>

definition verify_standalone ::
    "('w, 'k, 'a, 'q, 'key, 'g, 'f, 't) saml_sp_lib \<Rightarrow> 'k verifier \<Rightarrow> nat \<times> string \<Rightarrow> unit result" where
  "verify_standalone xl verifier e =
     bind_result (ok_or (xl_verify_enveloped xl verifier (standalone_assertion_document (snd e)))
         (ErrAuthn ''signature verification failed: ''))
       (\<lambda>r. case r of
          Invalid reason \<Rightarrow> Inl (ErrAuthn (''assertion '' @ show_nat (fst e + 1) @ '' signature is not valid: '' @ reason))
        | Valid _ \<Rightarrow> Inr ())"

definition check_cleartext ::
    "('w, 'k, 'a, 'q, 'key, 'g, 'f, 't) saml_sp_lib \<Rightarrow> 'k verifier \<Rightarrow> bool \<Rightarrow> 'a idp_response \<Rightarrow> string list \<Rightarrow> unit result" where
  "check_cleartext xl verifier envelope rsp sources =
     (if envelope then Inr ()
      else if list_ex (\<lambda>a. \<not> as_has_signature a) (rsp_assertions rsp) then
        Inl (ErrAuthn ''SAML Response is unsigned and not every assertion is signed'')
      else bind_result (traverse (verify_standalone xl verifier) (List.enumerate 0 sources)) (\<lambda>_. Inr ()))"

text \<open>One encrypted assertion; the accumulator is the assertions and the verified ids so far.\<close>

definition open_encrypted ::
    "('w, 'k, 'a, 'q, 'key, 'g, 'f, 't) saml_sp_lib \<Rightarrow> ('k, 'key, 'f, 't) saml_backend \<Rightarrow> 'k verifier \<Rightarrow> bool \<Rightarrow> string \<Rightarrow>
      'a assertion list \<times> string list \<Rightarrow> ('a assertion list \<times> string list) result" where
  "open_encrypted xl sx verifier envelope raw acc =
     bind_result (ok_or (xl_utf8 xl raw) (ErrBadRequest ''non-UTF8 EncryptedAssertion: '')) (\<lambda>enc_xml.
     bind_result (decrypt_with_any (sx_decryptors sx) enc_xml) (\<lambda>plaintext.
     bind_result (ok_or (xl_parse_xml xl plaintext) (ErrAuthn ''decrypted assertion is not XML: '')) (\<lambda>doc.
     bind_result (ok_or (xl_parse_assertion xl doc) (ErrAuthn ''parsing decrypted assertion: '')) (\<lambda>a.
     bind_result (if as_has_signature a then extend_verified_xml_signature_ids xl verifier plaintext (as_id a) (snd acc)
         else if \<not> envelope then Inl (ErrAuthn ''SAML Response is unsigned and a decrypted assertion is unsigned'')
         else Inr (snd acc)) (\<lambda>ids.
     Inr (fst acc @ [a], ids))))))"

record 'a verified_response =
  vr_response :: "'a idp_response"
  vr_ids :: "string list"
  vr_envelope :: bool
  vr_xml_verified :: bool

definition issuer_bound :: "('k, 'key, 'f, 't) saml_backend \<Rightarrow> string \<Rightarrow> 'a idp_response \<Rightarrow> unit result" where
  "issuer_bound sx expected rsp =
     (if sx_request_subject sx \<and> rsp_issuer rsp \<noteq> Some expected then
        Inl (ErrAuthn ''step-up SAML Response issuer does not match the linked provider'') else Inr ())"

definition open_response ::
    "('w, 'k, 'a, 'q, 'key, 'g, 'f, 't) saml_sp_lib \<Rightarrow> ('k, 'key, 'f, 't) saml_backend \<Rightarrow> 'k verifier \<Rightarrow> 'a idp_response \<Rightarrow>
      string list \<Rightarrow> bool \<Rightarrow> 'a verified_response result" where
  "open_response xl sx verifier rsp ids binding =
     (let xml_verified = response_xml_verified ids rsp; envelope = binding \<or> xml_verified
      in if rsp_encrypted rsp \<noteq> [] \<and> sx_decryptors sx = [] then
           Inl (ErrAuthn (''SAML Response carries EncryptedAssertion but no encryption_keypairs are '' @ ''configured''))
         else bind_result (fold_result (open_encrypted xl sx verifier envelope) (rsp_encrypted rsp) (rsp_assertions rsp, ids))
           (\<lambda>opened. Inr \<lparr> vr_response = rsp\<lparr> rsp_assertions := fst opened, rsp_encrypted := [] \<rparr>,
              vr_ids = snd opened, vr_envelope = envelope, vr_xml_verified = xml_verified \<rparr>))"

definition verify_response ::
    "('w, 'k, 'a, 'q, 'key, 'g, 'f, 't) saml_sp_lib \<Rightarrow> ('k, 'key, 'f, 't) saml_backend \<Rightarrow> 'k verifier \<Rightarrow> string \<Rightarrow>
      string \<times> bool \<Rightarrow> 'a verified_response result" where
  "verify_response xl sx verifier expected decoded =
     bind_result (parse_idp_response xl (fst decoded)) (\<lambda>parsed.
     bind_result (issuer_bound sx expected (snd parsed)) (\<lambda>_.
     bind_result (cleartext_assertion_sources (fst parsed) (length (rsp_assertions (snd parsed)))) (\<lambda>sources.
     bind_result (response_signed_ids xl verifier (snd decoded) (fst decoded) (snd parsed)) (\<lambda>ids.
     bind_result (check_cleartext xl verifier (snd decoded \<or> response_xml_verified ids (snd parsed)) (snd parsed) sources) (\<lambda>_.
     open_response xl sx verifier (snd parsed) ids (snd decoded))))))"

text \<open>A refusal of a passive request is marked, so that the frontend answers that interaction is needed.\<close>

definition is_no_passive :: "saml_constants \<Rightarrow> 'a idp_response \<Rightarrow> bool" where
  "is_no_passive sc rsp \<longleftrightarrow> rsp_status_code rsp = sc_no_passive sc \<or> rsp_sub_status rsp = Some (sc_no_passive sc)"

definition state_flag :: "session \<Rightarrow> string \<Rightarrow> string \<Rightarrow> bool" where
  "state_flag s ns key = unwrap_or False (Option.bind (get_value s ns key) as_bool)"

definition check_status ::
    "('w, 'k, 'a, 'q, 'key, 'g, 'f, 't) saml_sp_lib \<Rightarrow> ('k, 'key, 'f, 't) saml_backend \<Rightarrow> 'a idp_response \<Rightarrow> ('w, unit) handler" where
  "check_status xl sx rsp ctx =
     (if \<not> xl_is_success xl (rsp_status_code rsp) then
        (Inl (ErrAuthn (''IdP returned a non-success SAML status: '' @
           (case rsp_status_message rsp of Some m \<Rightarrow> m | None \<Rightarrow> unwrap_or (rsp_status_code rsp) (rsp_sub_status rsp)))),
         if state_flag (cx_state ctx) (sx_state_namespace sx) ''is_passive'' \<and> is_no_passive (xl_constants xl) rsp
         then mark_interaction_required ctx else ctx)
      else if rsp_assertions rsp = [] then (Inl (ErrAuthn ''SAML Response carries no assertions''), ctx)
      else (Inr (), ctx))"

text \<open>The request the response must answer; \<open>None\<close> only for an allowed unsolicited response.\<close>

definition expected_request_id ::
    "('k, 'key, 'f, 't) saml_backend \<Rightarrow> session \<Rightarrow> 'a idp_response \<Rightarrow> string option result" where
  "expected_request_id sx s rsp =
     (case get_str s (sx_state_namespace sx) ''authn_id'' of
        Some i \<Rightarrow> Inr (Some i)
      | None \<Rightarrow>
          if sx_allow_unsolicited sx \<and> rsp_in_response_to rsp = None then Inr None
          else if sx_allow_unsolicited sx then
            Inl (ErrAuthn ''SAML Response carries InResponseTo but no AuthnRequest is in flight'')
          else Inl (ErrAuthn (''no in-flight AuthnRequest for this ACS (unsolicited responses are '' @ ''disabled)'')))"

definition validation_params_for ::
    "('k, 'key, 'f, 't) saml_backend \<Rightarrow> string \<Rightarrow> 'a verified_response \<Rightarrow> string option \<Rightarrow> int \<Rightarrow> validation_params" where
  "validation_params_for sx expected vr request_id now =
     \<lparr> vp_received_url = sx_acs_url sx, vp_idp_entity_id = expected, vp_sp_entity_id = sx_sp_entity_id sx,
       vp_acs_url = sx_acs_url sx, vp_request_id = request_id,
       vp_response_signature = (if rsp_has_signature (vr_response vr) then Some (vr_xml_verified vr) else None),
       vp_signed_ids = vr_ids vr, vp_now = now \<rparr>"

definition validate_response ::
    "('w, 'k, 'a, 'q, 'key, 'g, 'f, 't) saml_sp_lib \<Rightarrow> ('k, 'key, 'f, 't) saml_backend \<Rightarrow> string \<Rightarrow>
      'a verified_response \<Rightarrow> string option \<Rightarrow> 'w \<Rightarrow> unit result \<times> 'w" where
  "validate_response xl sx expected vr request_id w =
     (case xl_validate xl (security_config xl sx) (vr_response vr)
             (validation_params_for sx expected vr request_id (xl_now xl w)) w of
        ((valid, failures), w) \<Rightarrow>
          (if valid then Inr ()
           else Inl (ErrAuthn (''SAML validation failed: '' @
             join_with ''; '' (map (\<lambda>(n, d). n @ '': '' @ unwrap_or ''failed'' d) failures))), w))"

section \<open>Identity\<close>

definition subject_type_from_name_id_format :: "saml_constants \<Rightarrow> string option \<Rightarrow> subject_type" where
  "subject_type_from_name_id_format sc f = (if f = Some (sc_transient sc) then Transient else Persistent)"

fun attribute_value_string :: "attribute_value \<Rightarrow> string option" where
  "attribute_value_string (AvString s) = Some s"
| "attribute_value_string (AvInteger i) = Some (show_int i)"
| "attribute_value_string (AvBoolean b) = Some (if b then ''true'' else ''false'')"
| "attribute_value_string (AvDateTime s) = Some s"
| "attribute_value_string (AvNameId n) = Some (ni_value n)"
| "attribute_value_string AvOther = None"

definition attribute_string_values :: "attribute_value list \<Rightarrow> string list" where
  "attribute_string_values vs = List.map_filter attribute_value_string vs"

definition consumed_saml_attributes ::
    "('w, 'k, 'a, 'q, 'key, 'g, 'f, 't) saml_sp_lib \<Rightarrow> 'a idp_response \<Rightarrow> 'a assertion \<Rightarrow> bool \<Rightarrow> saml_attribute list" where
  "consumed_saml_attributes xl rsp authenticated require_provenance =
     (if require_provenance then xl_extract_attributes xl (as_attribute_statements authenticated)
      else concat (map (\<lambda>a. xl_extract_attributes xl (as_attribute_statements a)) (rsp_assertions rsp)))"

definition subject_name_of ::
    "('w, 'k, 'a, 'q, 'key, 'g, 'f, 't) saml_sp_lib \<Rightarrow> ('k, 'key, 'f, 't) saml_backend \<Rightarrow> subject_name option \<Rightarrow>
      (string \<times> string option) result" where
  "subject_name_of xl sx subject =
     (case subject of
        Some (PlainId nid) \<Rightarrow> Inr (ni_value nid, ni_format nid)
      | Some (EncryptedId raw) \<Rightarrow>
          bind_result (ok_or (xl_utf8 xl raw) (ErrBadRequest ''non-UTF8 EncryptedID: '')) (\<lambda>enc_xml.
          bind_result (decrypt_with_any (sx_decryptors sx) enc_xml) (\<lambda>plaintext.
          bind_result (ok_or (xl_parse_xml xl plaintext) (ErrAuthn ''decrypted NameID is not XML: '')) (\<lambda>doc.
          bind_result (ok_or (xl_parse_name_id xl doc) (ErrAuthn ''parsing decrypted NameID: '')) (\<lambda>nid.
          Inr (ni_value nid, ni_format nid)))))
      | None \<Rightarrow> Inl (ErrAuthn ''missing or unsupported NameID''))"

record acs_identity =
  ay_name_id :: string
  ay_format :: "string option"
  ay_class_ref :: "string option"
  ay_issuer :: string
  ay_attributes :: "saml_attribute list"

definition identity_of ::
    "('w, 'k, 'a, 'q, 'key, 'g, 'f, 't) saml_sp_lib \<Rightarrow> ('k, 'key, 'f, 't) saml_backend \<Rightarrow> 'a idp_response \<Rightarrow> acs_identity result" where
  "identity_of xl sx rsp =
     bind_result (ok_or (List.find (\<lambda>a. as_class_refs a \<noteq> []) (rsp_assertions rsp))
         (ErrAuthn ''no assertion with an AuthnStatement'')) (\<lambda>a.
     bind_result (subject_name_of xl sx (as_name_id a)) (\<lambda>nid.
     Inr \<lparr> ay_name_id = fst nid, ay_format = snd nid, ay_class_ref = hd (as_class_refs a), ay_issuer = as_issuer a,
       ay_attributes = consumed_saml_attributes xl rsp a (sx_request_subject sx) \<rparr>))"

definition external_attributes :: "saml_attribute list \<Rightarrow> attrs" where
  "external_attributes as =
     foldl (\<lambda>external a.
       (let vs = attribute_string_values (at_values a)
        in if vs = [] then external
           else (let external = bm_insert (at_name a) vs external
                 in case at_friendly_name a of None \<Rightarrow> external | Some f \<Rightarrow> bm_insert f vs external))) [] as"

text \<open>Attributes the map does not know, under a lowercased key that never names a mapped one.\<close>

definition known_attribute :: "(string \<Rightarrow> string) \<Rightarrow> attribute_mapper \<Rightarrow> saml_attribute \<Rightarrow> bool" where
  "known_attribute lower mp a \<longleftrightarrow>
     (let known = lower ` external_names mp ''saml''
      in lower (at_name a) \<in> known \<or> (case at_friendly_name a of None \<Rightarrow> False | Some f \<Rightarrow> lower f \<in> known))"

definition passthrough_key :: "(string \<Rightarrow> string) \<Rightarrow> saml_attribute \<Rightarrow> string" where
  "passthrough_key lower a = lower (unwrap_or (at_name a) (at_friendly_name a))"

definition pass_through :: "(string \<Rightarrow> string) \<Rightarrow> attribute_mapper \<Rightarrow> attrs \<Rightarrow> saml_attribute \<Rightarrow> attrs" where
  "pass_through lower mp internal a =
     (let vs = attribute_string_values (at_values a); key = passthrough_key lower a
      in if known_attribute lower mp a \<or> vs = [] then internal
         else if bm_get internal key \<noteq> None \<or> key \<in> lower ` set (bm_keys (profile_mappings mp)) then internal
         else bm_insert key (push_all_new [] vs) internal)"

definition internal_attributes ::
    "('w, 'k, 'a, 'q, 'key, 'g, 'f, 't) saml_sp_lib \<Rightarrow> ('k, 'key, 'f, 't) saml_backend \<Rightarrow> saml_attribute list \<Rightarrow> attrs" where
  "internal_attributes xl sx as =
     (let mapped = to_internal (sx_mapper sx) ''saml'' (external_attributes as)
      in if sx_passthrough sx then foldl (pass_through (xl_to_lowercase xl) (sx_mapper sx)) mapped as else mapped)"

definition scope_subject_id :: "string \<Rightarrow> string \<Rightarrow> string" where
  "scope_subject_id issuer subject_id = show_nat (length issuer) @ '':'' @ issuer @ '':'' @ subject_id"

definition select_subject_id ::
    "attribute_mapper \<Rightarrow> attrs \<Rightarrow> string \<Rightarrow> string \<Rightarrow> bool \<Rightarrow> subject_type \<Rightarrow> bool \<Rightarrow> string" where
  "select_subject_id mp internal raw_name_id issuer dynamic subject_type scope_by_issuer =
     (if dynamic then
        (if scope_by_issuer then
           (case compose_subject_id mp internal of
              Some s \<Rightarrow> scope_subject_id issuer s | None \<Rightarrow> scope_subject_id issuer raw_name_id)
         else case compose_subject_id mp internal of
              Some s \<Rightarrow> s
            | None \<Rightarrow> if subject_type = Persistent then scope_subject_id issuer raw_name_id else raw_name_id)
      else raw_name_id)"

definition identity_data ::
    "('w, 'k, 'a, 'q, 'key, 'g, 'f, 't) saml_sp_lib \<Rightarrow> ('k, 'key, 'f, 't) saml_backend \<Rightarrow> acs_identity \<Rightarrow> string \<Rightarrow> internal_data" where
  "identity_data xl sx ay timestamp =
     (let attributes = internal_attributes xl sx (ay_attributes ay);
          ty = subject_type_from_name_id_format (xl_constants xl) (ay_format ay)
      in \<lparr> id_auth_info = \<lparr> ai_class_ref = ay_class_ref ay, ai_timestamp = Some timestamp, ai_issuer = Some (ay_issuer ay) \<rparr>,
           id_requester = None, id_requester_name = [],
           id_subject_id = Some (select_subject_id (sx_mapper sx) attributes (ay_name_id ay) (ay_issuer ay)
             (is_dynamic_idp_selection sx) ty (sx_scope_subject sx)),
           id_subject_type = ty, id_attributes = attributes, id_force_authn = False, id_is_passive = False \<rparr>)"

definition publish_provider :: "string list \<Rightarrow> metadata_values \<Rightarrow> 'w req_context_scheme \<Rightarrow> 'w req_context_scheme" where
  "publish_provider scopes pv ctx =
     decorate KEY_PROVIDER_ENTITY_CATEGORIES (json_strings (mv_categories pv))
       (decorate KEY_PROVIDER_ASSURANCE_CERTIFICATIONS (json_strings (mv_certifications pv))
         (decorate KEY_PROVIDER_SCOPES (json_strings scopes) ctx))"

definition accept_identity ::
    "('w, 'k, 'a, 'q, 'key, 'g, 'f, 't) saml_sp_lib \<Rightarrow> ('k, 'key, 'f, 't) saml_backend \<Rightarrow> string list \<Rightarrow> metadata_values \<Rightarrow>
      acs_identity \<Rightarrow> ('w, backend_action) handler" where
  "accept_identity xl sx scopes pv ay ctx =
     (Inr (AuthResponse (identity_data xl sx ay (xl_now_rfc3339 xl (req_context.more ctx)))),
      with_state (clear_namespace (sx_state_namespace sx)) (publish_provider scopes pv ctx))"

definition process_acs ::
    "('w, 'k, 'a, 'q, 'key, 'g, 'f, 't) saml_sp_lib \<Rightarrow> ('k, 'key, 'f, 't) saml_backend \<Rightarrow> 'k verifier \<Rightarrow> string \<Rightarrow>
      string list \<Rightarrow> metadata_values \<Rightarrow> ('w, backend_action) handler" where
  "process_acs xl sx verifier expected scopes pv ctx =
     bind_flow (lift_result (decode_acs_response xl (cx_request ctx) verifier)) (\<lambda>decoded.
     bind_flow (lift_result (verify_response xl sx verifier expected decoded)) (\<lambda>vr.
     bind_flow (check_status xl sx (vr_response vr)) (\<lambda>_.
     bind_flow (lift_result (expected_request_id sx (cx_state ctx) (vr_response vr))) (\<lambda>request_id.
     bind_flow (in_world (validate_response xl sx expected vr request_id)) (\<lambda>_.
     bind_flow (lift_result (identity_of xl sx (vr_response vr)))
       (accept_identity xl sx scopes pv)))))) ctx"

definition handle_acs ::
    "('w, 'k, 'a, 'q, 'key, 'g, 'f, 't) saml_sp_lib \<Rightarrow> ('k, 'key, 'f, 't) saml_backend \<Rightarrow> ('w, backend_action) handler" where
  "handle_acs xl sx ctx =
     (case sx_idp_metadata sx of
        StaticIdp _ verifier pv \<Rightarrow>
          bind_flow (lift_result (ok_or (sx_idp_entity_id sx) (ErrInternal ''static mode without idp_entity_id'')))
            (\<lambda>expected. process_acs xl sx verifier expected (sx_static_scopes sx) pv) ctx
      | MdqIdp client \<Rightarrow>
          bind_flow (lift_result (ok_or (or_else (get_str (cx_state ctx) (sx_state_namespace sx) ''idp_entity_id'')
               (sx_idp_entity_id sx)) (ErrAuthn ''no IdP selected for this flow''))) (\<lambda>selected.
          bind_flow (in_world (lookup_idp xl client selected)) (\<lambda>resolved.
          bind_flow (lift_result (idp_verifier_from_metadata (xl_load_cert xl) (ri_entity resolved))) (\<lambda>verifier.
            process_acs xl sx verifier selected (ri_scopes resolved) (ri_policy_values resolved)))) ctx)"


section \<open>Starting a login\<close>

definition decoration_string_array :: "'w req_context_scheme \<Rightarrow> string \<Rightarrow> string list" where
  "decoration_string_array ctx key =
     (case Option.bind (decoration ctx key) as_array of None \<Rightarrow> [] | Some vs \<Rightarrow> List.map_filter as_str vs)"

text \<open>What a request-path service selected: the decoration, else what \<open>start_auth\<close> stored.\<close>

definition read_target_accr ::
    "('w, 'k, 'a, 'q, 'key, 'g, 'f, 't) saml_sp_lib \<Rightarrow> string \<Rightarrow> 'w req_context_scheme \<Rightarrow> string list \<times> context_comparison option" where
  "read_target_accr xl ns ctx =
     ((case Option.bind (or_else (decoration ctx KEY_TARGET_AUTHN_CONTEXT_CLASS_REF)
             (get_value (cx_state ctx) ns STATE_TARGET_ACCR)) as_array of
         None \<Rightarrow> [] | Some vs \<Rightarrow> List.map_filter as_str vs),
      Option.bind (Option.bind (or_else (decoration ctx KEY_TARGET_ACCR_COMPARISON)
        (get_value (cx_state ctx) ns STATE_TARGET_ACCR_COMPARISON)) as_str) (xl_parse_comparison xl))"

definition take_handoff :: "string \<Rightarrow> 'w req_context_scheme \<Rightarrow> json option \<times> 'w req_context_scheme" where
  "take_handoff ns ctx =
     (or_else (decoration ctx KEY_STEPUP_INITIAL_POLICY)
        (opt_filter (\<lambda>v. v \<noteq> JNull) (get_value (cx_state ctx) ns STATE_INITIAL_STEPUP_POLICY)),
      ctx\<lparr> cx_decorations := bm_remove KEY_STEPUP_INITIAL_POLICY (cx_decorations ctx) \<rparr>)"

text \<open>The levels to ask for: the step-up policy of the selected provider overrides the selection.\<close>

definition requested_levels ::
    "json option \<Rightarrow> string \<Rightarrow> metadata_values \<Rightarrow> string list \<times> context_comparison option \<Rightarrow>
      (string list \<times> context_comparison option) result" where
  "requested_levels handoff idp pv selected =
     (case handoff of
        None \<Rightarrow> Inr selected
      | Some v \<Rightarrow>
          bind_result (ok_or (dec_handoff v) (ErrState ''invalid initial step-up policy: '')) (\<lambda>h.
            if \<not> ho_wants_mfa h then Inr selected
            else case resolve_policy (ho_mfa h) (Some idp) pv (ho_behavior h) ProviderSubject of
              None \<Rightarrow> Inr selected | Some settings \<Rightarrow> Inr (lo_requested settings, Some CmpExact)))"

definition forget_selection :: "string \<Rightarrow> session \<Rightarrow> session" where
  "forget_selection ns s =
     set_value ns STATE_TARGET_ACCR_COMPARISON JNull
       (set_value ns STATE_TARGET_ACCR JNull (set_value ns STATE_INITIAL_STEPUP_POLICY JNull s))"

definition request_options_for ::
    "('w, 'k, 'a, 'q, 'key, 'g, 'f, 't) saml_sp_lib \<Rightarrow> ('k, 'key, 'f, 't) saml_backend \<Rightarrow> session \<Rightarrow> string \<Rightarrow>
      string list \<times> context_comparison option \<Rightarrow> request_options" where
  "request_options_for xl sx s sso_url levels =
     \<lparr> qo_sp_entity_id = sx_sp_entity_id sx, qo_acs_url = sx_acs_url sx, qo_destination = sso_url,
       qo_binding = sc_binding_post (xl_constants xl), qo_name_id_format = sx_name_id_format sx, qo_allow_create = True,
       qo_force_authn = (if state_flag s (sx_state_namespace sx) ''force_authn'' then Some True else None),
       qo_is_passive = (if state_flag s (sx_state_namespace sx) ''is_passive'' then Some True else None),
       qo_class_refs = fst levels, qo_comparison = snd levels \<rparr>"

text \<open>The provider a request goes to: endpoint, entity id and policy values.\<close>

definition select_idp ::
    "('w, 'k, 'a, 'q, 'key, 'g, 'f, 't) saml_sp_lib \<Rightarrow> ('k, 'key, 'f, 't) saml_backend \<Rightarrow> string option \<Rightarrow>
      ('w, string \<times> string \<times> metadata_values) handler" where
  "select_idp xl sx target ctx =
     (case sx_idp_metadata sx of
        StaticIdp sso_url _ pv \<Rightarrow>
          bind_flow (lift_result (ok_or (sx_idp_entity_id sx) (ErrInternal ''static mode without an IdP entity ID'')))
            (\<lambda>e. lift_result (Inr (sso_url, e, pv))) ctx
      | MdqIdp client \<Rightarrow>
          bind_flow (lift_result (ok_or target (ErrInternal ''MDQ mode without a target IdP''))) (\<lambda>e.
          bind_flow (in_world (lookup_idp xl client e)) (\<lambda>resolved.
          bind_flow (lift_result (idp_sso_redirect_url (xl_constants xl) (ri_entity resolved))) (\<lambda>url ctx.
            (Inr (url, e, ri_policy_values resolved),
             with_state (set_str (sx_state_namespace sx) ''idp_entity_id'' e) ctx)))) ctx)"

definition create_request ::
    "('w, 'k, 'a, 'q, 'key, 'g, 'f, 't) saml_sp_lib \<Rightarrow> request_options \<Rightarrow> 'w \<Rightarrow> 'q result \<times> 'w" where
  "create_request xl options w =
     (case xl_create_request xl options w of (r, w) \<Rightarrow> (ok_or r (ErrInternal ''creating AuthnRequest: ''), w))"

definition request_subject ::
    "('w, 'k, 'a, 'q, 'key, 'g, 'f, 't) saml_sp_lib \<Rightarrow> ('k, 'key, 'f, 't) saml_backend \<Rightarrow> session \<Rightarrow> 'q \<Rightarrow> 'q result" where
  "request_subject xl sx s q =
     (if sx_request_subject sx then
        bind_result (ok_or (get_str s (sx_state_namespace sx) ''requested_subject'')
            (ErrState ''step-up request subject is missing'')) (\<lambda>subject.
          Inr (xl_with_subject xl \<lparr> ni_value = subject, ni_format = Some (sc_unspecified (xl_constants xl)),
            ni_name_qualifier = None, ni_sp_name_qualifier = None, ni_sp_provided_id = None \<rparr> q))
      else Inr q)"

definition encode_request ::
    "('w, 'k, 'a, 'q, 'key, 'g, 'f, 't) saml_sp_lib \<Rightarrow> ('k, 'key, 'f, 't) saml_backend \<Rightarrow> string \<Rightarrow> 'q \<Rightarrow> response result" where
  "encode_request xl sx sso_url q =
     bind_result (ok_or (xl_request_xml xl q) (ErrInternal ''serializing AuthnRequest: '')) (\<lambda>xml.
     bind_result (ok_or (xl_redirect_encode xl xml True sso_url None
         (if sx_sign_requests sx then Some (sx_signer sx, SIGALG_RSA_SHA256) else None)) (ErrInternal ''redirect encode: ''))
       (\<lambda>url. Inr (xl_redirect xl url)))"

definition send_request ::
    "('w, 'k, 'a, 'q, 'key, 'g, 'f, 't) saml_sp_lib \<Rightarrow> ('k, 'key, 'f, 't) saml_backend \<Rightarrow> string \<Rightarrow>
      string list \<times> context_comparison option \<Rightarrow> ('w, response) handler" where
  "send_request xl sx sso_url levels ctx =
     bind_flow (in_world (create_request xl (request_options_for xl sx (cx_state ctx) sso_url levels))) (\<lambda>q.
     bind_flow (lift_result (request_subject xl sx (cx_state ctx) q)) (\<lambda>q ctx.
       (encode_request xl sx sso_url q,
        with_state (set_str (sx_state_namespace sx) ''authn_id'' (xl_request_id xl q)) ctx))) ctx"

definition request_with_levels ::
    "('w, 'k, 'a, 'q, 'key, 'g, 'f, 't) saml_sp_lib \<Rightarrow> ('k, 'key, 'f, 't) saml_backend \<Rightarrow>
      string \<times> string \<times> metadata_values \<Rightarrow> ('w, response) handler" where
  "request_with_levels xl sx idp ctx =
     (let selected = read_target_accr xl (sx_state_namespace sx) ctx;
          taken = take_handoff (sx_state_namespace sx) ctx
      in bind_flow (lift_result (requested_levels (fst taken) (fst (snd idp)) (snd (snd idp)) selected)) (\<lambda>levels ctx.
           send_request xl sx (fst idp) levels (with_state (forget_selection (sx_state_namespace sx)) ctx)) (snd taken))"

definition build_authn_redirect ::
    "('w, 'k, 'a, 'q, 'key, 'g, 'f, 't) saml_sp_lib \<Rightarrow> ('k, 'key, 'f, 't) saml_backend \<Rightarrow> string option \<Rightarrow> ('w, response) handler" where
  "build_authn_redirect xl sx target = bind_flow (select_idp xl sx target) (request_with_levels xl sx)"

definition store_constraints ::
    "('k, 'key, 'f, 't) saml_backend \<Rightarrow> internal_data \<Rightarrow> 'w req_context_scheme \<Rightarrow> session \<Rightarrow> session" where
  "store_constraints sx request ctx s =
     (let ns = sx_state_namespace sx;
          s = set_value ns ''force_authn'' (JBool (id_force_authn request)) s;
          s = set_value ns ''is_passive'' (JBool (id_is_passive request)) s;
          s = set_value ns STATE_INITIAL_STEPUP_POLICY (unwrap_or JNull (decoration ctx KEY_STEPUP_INITIAL_POLICY)) s;
          s = set_value ns STATE_TARGET_ACCR
                (json_strings (decoration_string_array ctx KEY_TARGET_AUTHN_CONTEXT_CLASS_REF)) s
      in set_value ns STATE_TARGET_ACCR_COMPARISON (unwrap_or JNull (decoration ctx KEY_TARGET_ACCR_COMPARISON)) s)"

definition store_subject :: "('k, 'key, 'f, 't) saml_backend \<Rightarrow> internal_data \<Rightarrow> ('w, unit) handler" where
  "store_subject sx request ctx =
     (if sx_request_subject sx then
        (case opt_filter (\<lambda>v. v \<noteq> []) (id_subject_id request) of
           None \<Rightarrow> (Inl (ErrAuthn ''step-up request has no linked-account identifier''), ctx)
         | Some subject \<Rightarrow> (Inr (), with_state (set_str (sx_state_namespace sx) ''requested_subject'' subject) ctx))
      else (Inr (), ctx))"

definition request_target ::
    "('w, 'k, 'a, 'q, 'key, 'g, 'f, 't) saml_sp_lib \<Rightarrow> ('k, 'key, 'f, 't) saml_backend \<Rightarrow> 'w req_context_scheme \<Rightarrow> string option" where
  "request_target xl sx ctx =
     (let decorated = Option.bind (decoration ctx KEY_TARGET_ENTITYID) as_str
      in if sx_request_subject sx then decorated
         else or_else (xl_param xl (cx_request ctx) ''entityID'') decorated)"

definition dispatch_request ::
    "('w, 'k, 'a, 'q, 'key, 'g, 'f, 't) saml_sp_lib \<Rightarrow> ('k, 'key, 'f, 't) saml_backend \<Rightarrow> internal_data \<Rightarrow> ('w, response) handler" where
  "dispatch_request xl sx request ctx =
     (if \<not> is_dynamic_idp_selection sx then build_authn_redirect xl sx None ctx
      else case or_else (request_target xl sx ctx) (sx_idp_entity_id sx) of
        Some target \<Rightarrow> build_authn_redirect xl sx (Some target) ctx
      | None \<Rightarrow>
          if id_is_passive request then
            (Inl (ErrAuthn ''IsPassive requested but IdP discovery requires user interaction''),
             mark_interaction_required ctx)
          else case sx_disco_srv sx of
            None \<Rightarrow> (Inl (ErrAuthn ''no IdP selected and no discovery service configured''), ctx)
          | Some disco \<Rightarrow> (Inr (disco_redirect xl sx disco), ctx))"

definition saml_start_auth ::
    "('w, 'k, 'a, 'q, 'key, 'g, 'f, 't) saml_sp_lib \<Rightarrow> ('k, 'key, 'f, 't) saml_backend \<Rightarrow> internal_data \<Rightarrow> ('w, response) handler" where
  "saml_start_auth xl sx request ctx =
     bind_flow (store_subject sx request) (\<lambda>_. dispatch_request xl sx request)
       (with_state (store_constraints sx request ctx) ctx)"

section \<open>Endpoints\<close>

definition saml_backend_handle ::
    "('w, 'k, 'a, 'q, 'key, 'g, 'f, 't) saml_sp_lib \<Rightarrow> ('k, 'key, 'f, 't) saml_backend \<Rightarrow> string \<Rightarrow> ('w, backend_action) handler" where
  "saml_backend_handle xl sx route_id ctx =
     (if route_id = ''acs'' then handle_acs xl sx ctx
      else if route_id = ''disco'' then
        (case opt_filter (\<lambda>v. v \<noteq> []) (bm_get (rq_query (cx_request ctx)) ''entityID'') of
           None \<Rightarrow> (Inl (ErrBadRequest ''discovery response carries no entityID''), ctx)
         | Some target \<Rightarrow> bind_flow (build_authn_redirect xl sx (Some target)) (\<lambda>r. lift_result (Inr (BRespond r))) ctx)
      else if route_id = ''metadata'' then
        (bind_result (build_sp_metadata xl sx) (\<lambda>xml. Inr (BRespond
           ((xl_with_header xl ''content-type'' ''application/samlmetadata+xml; charset=utf-8'' (xl_response_new xl 200))
             \<lparr> rs_body := xml \<rparr>))), ctx)
      else (Inl (ErrNoBoundEndpoint route_id), ctx))"

definition saml_backend_routes :: "('k, 'key, 'f, 't) saml_backend \<Rightarrow> route list" where
  "saml_backend_routes sx =
     [route_exact (sx_name sx @ ''/acs'') ''acs'', route_exact (sx_name sx @ ''/disco'') ''disco'',
      route_exact (sx_name sx @ ''/metadata'') ''metadata'']"

definition saml_backend_be ::
    "('w, 'k, 'a, 'q, 'key, 'g, 'f, 't) saml_sp_lib \<Rightarrow> ('k, 'key, 'f, 't) saml_backend \<Rightarrow> 'w backend" where
  "saml_backend_be xl sx =
     \<lparr> be_name = sx_name sx, be_register = saml_backend_routes sx, be_start_auth = saml_start_auth xl sx,
       be_handle = saml_backend_handle xl sx \<rparr>"

definition saml_backend_build ::
    "('w, 'k, 'a, 'q, 'key, 'g, 'f, 't) saml_sp_lib \<Rightarrow> ('key, 'f, 't) sp_build_lib \<Rightarrow> 'w backend ctor" where
  "saml_backend_build xl xb bx =
     bind_result (build_concrete xl xb bx False (bx_name bx)) (\<lambda>sx. Inr (saml_backend_be xl sx))"

section \<open>The backend of the step-up service\<close>

definition stepup_constraints :: "string \<Rightarrow> ('k, 'key, 'f, 't) saml_backend \<Rightarrow> unit result" where
  "stepup_constraints name sx =
     (if sx_security sx = Permissive then
        Inl (ErrConfig (''stepup '' @ name @
          '': security=permissive is test-only and is not allowed; use production or strict''))
      else if \<not> sx_sign_requests sx then Inl (ErrConfig (''stepup '' @ name @ '': sign_authn_requests must be true''))
      else if sx_allow_unsolicited sx then Inl (ErrConfig (''stepup '' @ name @ '': allow_unsolicited must be false''))
      else if sx_disco_srv sx \<noteq> None then
        Inl (ErrConfig (''stepup '' @ name @ '': disco_srv is not supported; the linked account selects the provider''))
      else Inr ())"

definition build_stepup ::
    "('w, 'k, 'a, 'q, 'key, 'g, 'f, 't) saml_sp_lib \<Rightarrow> ('key, 'f, 't) sp_build_lib \<Rightarrow> build_context \<Rightarrow>
      ('k, 'key, 'f, 't) saml_backend result" where
  "build_stepup xl xb bx =
     bind_result (build_concrete xl xb bx True (''stepup_saml:'' @ bx_name bx)) (\<lambda>sx.
     bind_result (stepup_constraints (bx_name bx) sx) (\<lambda>_. Inr sx))"

definition validate_stepup_target :: "('k, 'key, 'f, 't) saml_backend \<Rightarrow> string \<Rightarrow> unit result" where
  "validate_stepup_target sx entity_id =
     (if entity_id = [] \<or> char_count entity_id > 1024 \<or> has_control entity_id then
        Inl (ErrAuthn ''step-up provider entity id is invalid'')
      else if \<not> is_dynamic_idp_selection sx \<and> sx_idp_entity_id sx \<noteq> Some entity_id then
        Inl (ErrAuthn ''linked step-up provider does not match the statically configured IdP'')
      else Inr ())"

text \<open>The embedded backend as the step-up service sees it.\<close>

definition stepup_saml_of ::
    "('w, 'k, 'a, 'q, 'key, 'g, 'f, 't) saml_sp_lib \<Rightarrow> ('k, 'key, 'f, 't) saml_backend \<Rightarrow> 'w stepup_saml" where
  "stepup_saml_of xl sx = \<lparr> sb_validate_target = validate_stepup_target sx, sb_backend = saml_backend_be xl sx \<rparr>"

definition build_stepup_saml ::
    "('w, 'k, 'a, 'q, 'key, 'g, 'f, 't) saml_sp_lib \<Rightarrow> ('key, 'f, 't) sp_build_lib \<Rightarrow> build_context \<Rightarrow> 'w stepup_saml result" where
  "build_stepup_saml xl xb bx = bind_result (build_stepup xl xb bx) (\<lambda>sx. Inr (stepup_saml_of xl sx))"


end
