(* ===== verification/Saml_Backend_Props.thy ===== *)
theory Saml_Backend_Props
  imports Saml_Backend
begin

text \<open>
  What the SAML backend guarantees: the identity it returns comes from a response that was verified,
  answers the request of this flow and passed validation; a login starts from the new request alone;
  an identifier of one provider is never that of another; attributes passed through never stand for
  mapped ones; the handlers touch only their own namespace.
\<close>

section \<open>Inversion of the handlers\<close>

lemma check_status_Inr:
  "check_status xl sx rsp c = (Inr u, c') \<longleftrightarrow>
     xl_is_success xl (rsp_status_code rsp) \<and> rsp_assertions rsp \<noteq> [] \<and> c' = c"
  by (auto simp: check_status_def)

lemma validate_response_Inr:
  "validate_response xl sx e vr rid w = (Inr u, w') \<longleftrightarrow>
     (\<exists>failures. xl_validate xl (security_config xl sx) (vr_response vr)
        (validation_params_for sx e vr rid (xl_now xl w)) w = ((True, failures), w'))"
  by (auto simp: validate_response_def split: prod.splits)

lemma process_acs_Inr:
  "process_acs xl sx v e scopes pv c = (Inr a, c') \<longleftrightarrow>
     (\<exists>decoded vr rid failures w ay.
        decode_acs_response xl (cx_request c) v = Inr decoded \<and> verify_response xl sx v e decoded = Inr vr \<and>
        xl_is_success xl (rsp_status_code (vr_response vr)) \<and> rsp_assertions (vr_response vr) \<noteq> [] \<and>
        expected_request_id sx (cx_state c) (vr_response vr) = Inr rid \<and>
        xl_validate xl (security_config xl sx) (vr_response vr)
          (validation_params_for sx e vr rid (xl_now xl (req_context.more c))) (req_context.more c) = ((True, failures), w) \<and>
        identity_of xl sx (vr_response vr) = Inr ay \<and>
        a = AuthResponse (identity_data xl sx ay (xl_now_rfc3339 xl w)) \<and>
        c' = with_state (clear_namespace (sx_state_namespace sx)) (publish_provider scopes pv (with_world w c)))"
  unfolding process_acs_def bind_flow_eq_Inr lift_result_eq in_world_eq check_status_Inr validate_response_Inr
    accept_identity_def by auto

lemma identity_of_Inr:
  "identity_of xl sx rsp = Inr ay \<Longrightarrow>
     \<exists>a nid. List.find (\<lambda>a. as_class_refs a \<noteq> []) (rsp_assertions rsp) = Some a \<and>
       subject_name_of xl sx (as_name_id a) = Inr nid \<and> ay_name_id ay = fst nid \<and> ay_format ay = snd nid \<and>
       ay_class_ref ay = hd (as_class_refs a) \<and> ay_issuer ay = as_issuer a \<and>
       ay_attributes ay = consumed_saml_attributes xl rsp a (sx_request_subject sx)"
  by (auto simp: identity_of_def bind_result_eq_Inr ok_or_def split: option.splits)

lemma expected_request_id_Inr:
  "expected_request_id sx s rsp = Inr rid \<longleftrightarrow>
     (get_str s (sx_state_namespace sx) ''authn_id'' = rid \<and>
      (rid = None \<longrightarrow> sx_allow_unsolicited sx \<and> rsp_in_response_to rsp = None))"
  by (auto simp: expected_request_id_def split: option.splits)

section \<open>Every assertion is vouched for\<close>

text \<open>The cleartext assertions verify one by one, as the elements they travelled in.\<close>

definition sources_verified :: "('w, 'k, 'a, 'q, 'key, 'g, 'f, 't) saml_sp_lib \<Rightarrow> 'k verifier \<Rightarrow> string list \<Rightarrow> bool" where
  "sources_verified xl v sources \<longleftrightarrow>
     (\<forall>src \<in> set sources. \<exists>refs. xl_verify_enveloped xl v (standalone_assertion_document src) = Some (Valid refs))"

text \<open>An assertion read from one of the encrypted elements of the response, and its signature verified over the plaintext.\<close>

definition decrypted_from ::
    "('w, 'k, 'a, 'q, 'key, 'g, 'f, 't) saml_sp_lib \<Rightarrow> ('k, 'key, 'f, 't) saml_backend \<Rightarrow> string \<Rightarrow> string \<Rightarrow> 'a assertion \<Rightarrow> bool" where
  "decrypted_from xl sx raw plaintext a \<longleftrightarrow>
     (\<exists>enc doc. xl_utf8 xl raw = Some enc \<and> decrypt_with_any (sx_decryptors sx) enc = Inr plaintext \<and>
        xl_parse_xml xl plaintext = Some doc \<and> xl_parse_assertion xl doc = Some a)"

definition decrypted_verified ::
    "('w, 'k, 'a, 'q, 'key, 'g, 'f, 't) saml_sp_lib \<Rightarrow> ('k, 'key, 'f, 't) saml_backend \<Rightarrow> 'k verifier \<Rightarrow> string \<Rightarrow> 'a assertion \<Rightarrow> bool" where
  "decrypted_verified xl sx v raw a \<longleftrightarrow>
     as_has_signature a \<and>
     (\<exists>plaintext results. decrypted_from xl sx raw plaintext a \<and>
        xl_verify_all xl v plaintext = Some results \<and> (\<forall>r \<in> set results. \<exists>refs. r = Valid refs))"

lemma verify_standalone_Inr:
  "verify_standalone xl v e = Inr u \<Longrightarrow>
     \<exists>refs. xl_verify_enveloped xl v (standalone_assertion_document (snd e)) = Some (Valid refs)"
proof (cases "xl_verify_enveloped xl v (standalone_assertion_document (snd e))")
  case (Some r)
  assume "verify_standalone xl v e = Inr u"
  with Some show ?thesis by (cases r) (auto simp: verify_standalone_def bind_result_def)
qed (simp add: verify_standalone_def bind_result_def)

lemma check_cleartext_Inr:
  assumes "check_cleartext xl v envelope rsp sources = Inr u" "\<not> envelope"
  shows "\<forall>a \<in> set (rsp_assertions rsp). as_has_signature a" "sources_verified xl v sources"
proof -
  from assms show "\<forall>a \<in> set (rsp_assertions rsp). as_has_signature a"
    by (auto simp: check_cleartext_def list_ex_iff split: if_split_asm)
  from assms obtain us where t: "traverse (verify_standalone xl v) (List.enumerate 0 sources) = Inr us"
    by (auto simp: check_cleartext_def bind_result_eq_Inr split: if_split_asm)
  show "sources_verified xl v sources"
    unfolding sources_verified_def
  proof
    fix src assume "src \<in> set sources"
    then obtain i where "i < length sources" "sources ! i = src" by (auto simp: in_set_conv_nth)
    then have "(i, src) \<in> set (List.enumerate 0 sources)" by (auto simp: in_set_enumerate_eq)
    from traverse_member[OF t this]
    show "\<exists>refs. xl_verify_enveloped xl v (standalone_assertion_document src) = Some (Valid refs)"
      using verify_standalone_Inr[of xl v "(i, src)"] by auto
  qed
qed

lemma set_add_references:
  "set (add_references root ids refs) = set ids \<union> {i. \<exists>d uri. (d, uri) \<in> set refs \<and> reference_id root uri = Some i}"
proof (induction refs arbitrary: ids)
  case (Cons r refs)
  have "set (push_new ids i) = insert i (set ids)" for i by (auto simp: push_new_def)
  with Cons show ?case
    by (cases r) (auto simp: add_references_def add_verified_signed_id_def split: option.splits)
qed (simp add: add_references_def)

lemma fold_signature_results:
  "fold_result (\<lambda>r ids. case r of Valid refs \<Rightarrow> Inr (add_references root ids refs) | Invalid reason \<Rightarrow> Inl (g reason)) results ids = Inr ids' \<Longrightarrow>
     (\<forall>r \<in> set results. \<exists>refs. r = Valid refs) \<and>
     set ids' \<subseteq> set ids \<union> {i. \<exists>refs d uri. Valid refs \<in> set results \<and> (d, uri) \<in> set refs \<and> reference_id root uri = Some i}"
proof (induction results arbitrary: ids)
  case (Cons r results)
  then obtain refs where r: "r = Valid refs" by (auto simp: bind_result_eq_Inr split: verify_result.splits)
  with Cons.prems have "fold_result (\<lambda>r ids. case r of Valid refs \<Rightarrow> Inr (add_references root ids refs) | Invalid reason \<Rightarrow> Inl (g reason))
      results (add_references root ids refs) = Inr ids'" by (simp add: bind_result_eq_Inr)
  from Cons.IH[OF this] r show ?case by (simp add: set_add_references) blast
qed simp

lemma extend_verified_Inr:
  assumes "extend_verified_xml_signature_ids xl v xml root ids = Inr ids'"
  shows "\<exists>results. xl_verify_all xl v xml = Some results \<and> (\<forall>r \<in> set results. \<exists>refs. r = Valid refs) \<and>
     set ids' \<subseteq> set ids \<union> {i. \<exists>refs d uri. Valid refs \<in> set results \<and> (d, uri) \<in> set refs \<and> reference_id root uri = Some i}"
proof -
  from assms obtain results where "xl_verify_all xl v xml = Some results"
    and f: "fold_result (\<lambda>r ids. case r of Valid refs \<Rightarrow> Inr (add_references root ids refs)
      | Invalid reason \<Rightarrow> Inl (ErrAuthn (''SAML XML signature is not valid: '' @ reason))) results ids = Inr ids'"
    unfolding extend_verified_xml_signature_ids_def bind_result_eq_Inr ok_or_eq_Inr by blast
  with fold_signature_results[OF f] show ?thesis by blast
qed

lemma reference_id_Some: "reference_id root uri = Some i \<longleftrightarrow> uri = [] \<and> i = root \<or> uri = ''#'' @ i"
  by (auto simp: reference_id_def strip_prefix_Some_iff)

text \<open>
  A response signed as a document: every signature the library found in it is valid, and one of them
  has a reference to the response itself, by its id or as the root of the document.
\<close>

definition document_signs ::
    "('w, 'k, 'a, 'q, 'key, 'g, 'f, 't) saml_sp_lib \<Rightarrow> 'k verifier \<Rightarrow> string \<Rightarrow> string \<Rightarrow> bool" where
  "document_signs xl v xml i \<longleftrightarrow>
     (\<exists>results refs d uri. xl_verify_all xl v xml = Some results \<and> (\<forall>r \<in> set results. \<exists>refs. r = Valid refs) \<and>
        Valid refs \<in> set results \<and> (d, uri) \<in> set refs \<and> (uri = [] \<or> uri = ''#'' @ i))"

text \<open>A response signed by the redirect binding: the library verified the query that carried this document.\<close>

definition redirect_signs ::
    "('w, 'k, 'a, 'q, 'key, 'g, 'f, 't) saml_sp_lib \<Rightarrow> http_request \<Rightarrow> 'k verifier \<Rightarrow> string \<Rightarrow> bool" where
  "redirect_signs xl rq v xml \<longleftrightarrow>
     (\<exists>q. bm_get (rq_query rq) ''SAMLResponse'' \<noteq> None \<and> xl_redirect_decode xl (raw_query_view rq) = Some q \<and>
        xl_redirect_verify xl q v = Some True \<and> xl_utf8 xl (rx_xml q) = Some xml)"

lemma decode_acs_bound:
  "decode_acs_response xl rq v = Inr (xml, True) \<Longrightarrow> redirect_signs xl rq v xml"
  by (auto simp: decode_acs_response_def redirect_response_def redirect_signs_def bind_result_eq_Inr ok_or_eq_Inr
      split: if_split_asm option.splits bool.splits)

lemma response_xml_verified_signed:
  assumes "response_signed_ids xl v False xml rsp = Inr ids" "response_xml_verified ids rsp"
  shows "document_signs xl v xml (rsp_id rsp)"
proof -
  from assms have "extend_verified_xml_signature_ids xl v xml (rsp_id rsp) [] = Inr ids" "rsp_id rsp \<in> set ids"
    by (auto simp: response_signed_ids_def response_xml_verified_def bind_result_eq_Inr)
  from extend_verified_Inr[OF this(1)] this(2) show ?thesis
    unfolding document_signs_def reference_id_Some by fastforce
qed

lemma open_encrypted_Inr:
  assumes "open_encrypted xl sx v envelope raw acc = Inr acc'"
  shows "\<exists>a plaintext. fst acc' = fst acc @ [a] \<and> decrypted_from xl sx raw plaintext a \<and>
    (envelope \<or> decrypted_verified xl sx v raw a)"
proof -
  from assms obtain a plaintext ids where d: "decrypted_from xl sx raw plaintext a"
    and ids: "(if as_has_signature a then extend_verified_xml_signature_ids xl v plaintext (as_id a) (snd acc)
      else if \<not> envelope then Inl (ErrAuthn ''SAML Response is unsigned and a decrypted assertion is unsigned'')
      else Inr (snd acc)) = Inr ids" and acc: "acc' = (fst acc @ [a], ids)"
    by (auto simp: open_encrypted_def bind_result_eq_Inr decrypted_from_def)
  from ids have "envelope \<or> as_has_signature a \<and> extend_verified_xml_signature_ids xl v plaintext (as_id a) (snd acc) = Inr ids"
    by (auto split: if_split_asm)
  then have "envelope \<or> decrypted_verified xl sx v raw a"
    using d extend_verified_Inr unfolding decrypted_verified_def by blast
  with d acc show ?thesis by auto
qed

lemma open_all_Inr:
  "fold_result (open_encrypted xl sx v envelope) raws acc = Inr acc' \<Longrightarrow>
     \<exists>opened. fst acc' = fst acc @ opened \<and>
       list_all2 (\<lambda>raw a. (\<exists>plaintext. decrypted_from xl sx raw plaintext a) \<and> (envelope \<or> decrypted_verified xl sx v raw a)) raws opened"
proof (induction raws arbitrary: acc)
  case (Cons raw raws)
  then obtain acc1 where step: "open_encrypted xl sx v envelope raw acc = Inr acc1"
    and rest: "fold_result (open_encrypted xl sx v envelope) raws acc1 = Inr acc'"
    by (auto simp: bind_result_eq_Inr)
  from open_encrypted_Inr[OF step] obtain a plaintext where "fst acc1 = fst acc @ [a]" "decrypted_from xl sx raw plaintext a"
    "envelope \<or> decrypted_verified xl sx v raw a" by blast
  moreover from Cons.IH[OF rest] obtain opened where "fst acc' = fst acc1 @ opened"
    "list_all2 (\<lambda>raw a. (\<exists>plaintext. decrypted_from xl sx raw plaintext a) \<and> (envelope \<or> decrypted_verified xl sx v raw a)) raws opened"
    by blast
  ultimately show ?case by (intro exI[of _ "a # opened"]) auto
qed simp

text \<open>
  A verified response is the parsed document with its encrypted assertions opened, each from its
  own element.  Either the document or its transport was signed as a whole, or every assertion of
  it carries a signature of its own that verified.
\<close>

definition response_opened ::
    "('w, 'k, 'a, 'q, 'key, 'g, 'f, 't) saml_sp_lib \<Rightarrow> ('k, 'key, 'f, 't) saml_backend \<Rightarrow> string \<Rightarrow> 'a idp_response \<Rightarrow>
      'a assertion list \<Rightarrow> 'a verified_response \<Rightarrow> bool" where
  "response_opened xl sx xml rsp opened vr \<longleftrightarrow>
     (\<exists>doc. xl_parse_xml xl xml = Some doc \<and> xl_parse_response xl doc = Some rsp) \<and>
     list_all2 (\<lambda>raw a. \<exists>plaintext. decrypted_from xl sx raw plaintext a) (rsp_encrypted rsp) opened \<and>
     vr_response vr = rsp\<lparr> rsp_assertions := rsp_assertions rsp @ opened, rsp_encrypted := [] \<rparr>"

definition assertions_vouched ::
    "('w, 'k, 'a, 'q, 'key, 'g, 'f, 't) saml_sp_lib \<Rightarrow> ('k, 'key, 'f, 't) saml_backend \<Rightarrow> 'k verifier \<Rightarrow> string \<Rightarrow>
      'a idp_response \<Rightarrow> 'a assertion list \<Rightarrow> bool" where
  "assertions_vouched xl sx v xml rsp opened \<longleftrightarrow>
     (\<exists>doc sources. xl_parse_xml xl xml = Some doc \<and>
        cleartext_assertion_sources doc (length (rsp_assertions rsp)) = Inr sources \<and>
        (\<forall>a \<in> set (rsp_assertions rsp). as_has_signature a) \<and> sources_verified xl v sources \<and>
        list_all2 (decrypted_verified xl sx v) (rsp_encrypted rsp) opened)"

lemma verify_response_Inr:
  assumes "verify_response xl sx v e (xml, bound) = Inr vr"
  shows "\<exists>rsp opened. response_opened xl sx xml rsp opened vr \<and>
     (sx_request_subject sx \<longrightarrow> rsp_issuer rsp = Some e) \<and> vr_envelope vr = (bound \<or> vr_xml_verified vr) \<and>
     (bound \<or> document_signs xl v xml (rsp_id rsp) \<or> assertions_vouched xl sx v xml rsp opened)"
proof -
  from assms obtain doc rsp sources ids u where parsed: "xl_parse_xml xl xml = Some doc" "xl_parse_response xl doc = Some rsp"
    and issuer: "issuer_bound sx e rsp = Inr ()"
    and sources: "cleartext_assertion_sources doc (length (rsp_assertions rsp)) = Inr sources"
    and ids: "response_signed_ids xl v bound xml rsp = Inr ids"
    and clear: "check_cleartext xl v (bound \<or> response_xml_verified ids rsp) rsp sources = Inr u"
    and opened: "open_response xl sx v rsp ids bound = Inr vr"
    unfolding verify_response_def parse_idp_response_def bind_result_eq_Inr ok_or_eq_Inr by auto
  let ?env = "bound \<or> response_xml_verified ids rsp"
  from opened obtain acc where acc: "fold_result (open_encrypted xl sx v ?env) (rsp_encrypted rsp) (rsp_assertions rsp, ids) = Inr acc"
    and vr: "vr = \<lparr> vr_response = rsp\<lparr> rsp_assertions := fst acc, rsp_encrypted := [] \<rparr>, vr_ids = snd acc,
      vr_envelope = ?env, vr_xml_verified = response_xml_verified ids rsp \<rparr>"
    by (auto simp: open_response_def bind_result_eq_Inr Let_def split: if_split_asm)
  from open_all_Inr[OF acc] obtain opens where o: "fst acc = rsp_assertions rsp @ opens"
    "list_all2 (\<lambda>raw a. (\<exists>plaintext. decrypted_from xl sx raw plaintext a) \<and> (?env \<or> decrypted_verified xl sx v raw a)) (rsp_encrypted rsp) opens"
    by auto
  have "response_opened xl sx xml rsp opens vr"
    using parsed o vr by (auto simp: response_opened_def elim: list_all2_mono)
  moreover have "sx_request_subject sx \<longrightarrow> rsp_issuer rsp = Some e"
    using issuer by (auto simp: issuer_bound_def split: if_split_asm)
  moreover have "bound \<or> document_signs xl v xml (rsp_id rsp) \<or> assertions_vouched xl sx v xml rsp opens"
  proof (cases ?env)
    case True
    then show ?thesis using response_xml_verified_signed ids by (cases bound) auto
  next
    case False
    with o(2) have "list_all2 (decrypted_verified xl sx v) (rsp_encrypted rsp) opens" by (auto elim: list_all2_mono)
    with check_cleartext_Inr[OF clear False] parsed sources show ?thesis by (auto simp: assertions_vouched_def)
  qed
  ultimately show ?thesis using vr by auto
qed

text \<open>
  C3. An identity is authenticated.  When the assertion consumer of the SAML backend returns an
  identity, the response had a success status, the library's validation accepted it for this
  service provider, this endpoint, the provider the flow was sent to and the request id kept in the
  session (no id only for an unsolicited response the configuration allows), and the response was
  signed in one of three ways: the library verified the signature of the redirect query that carried
  the document; or it found every signature in the document valid and one of them has a reference
  to this very response; or each cleartext assertion is signed and verified alone, as the element it
  travelled in, and each assertion that was decrypted, from its own encrypted element, is signed
  and verified over its plaintext.  Issuer and level are those of one assertion of that response,
  the first with an authentication statement, and the session entry of the flow is gone.
\<close>

theorem saml_login_authenticated:
  assumes "process_acs xl sx v expected scopes pv c = (Inr action, c')"
  shows "\<exists>xml bound vr rsp opened request_id failures w a d.
    decode_acs_response xl (cx_request c) v = Inr (xml, bound) \<and> verify_response xl sx v expected (xml, bound) = Inr vr \<and>
    response_opened xl sx xml rsp opened vr \<and> xl_is_success xl (rsp_status_code rsp) \<and>
    (redirect_signs xl (cx_request c) v xml \<or> document_signs xl v xml (rsp_id rsp) \<or>
     assertions_vouched xl sx v xml rsp opened) \<and>
    get_str (cx_state c) (sx_state_namespace sx) ''authn_id'' = request_id \<and>
    (request_id = None \<longrightarrow> sx_allow_unsolicited sx \<and> rsp_in_response_to rsp = None) \<and>
    xl_validate xl (security_config xl sx) (vr_response vr)
      (validation_params_for sx expected vr request_id (xl_now xl (req_context.more c))) (req_context.more c) = ((True, failures), w) \<and>
    action = AuthResponse d \<and> a \<in> set (rsp_assertions rsp @ opened) \<and> as_class_refs a \<noteq> [] \<and>
    ai_issuer (id_auth_info d) = Some (as_issuer a) \<and> ai_class_ref (id_auth_info d) = hd (as_class_refs a) \<and>
    cx_state c' = clear_namespace (sx_state_namespace sx) (cx_state c)"
proof -
  from assms obtain decoded vr rid failures w ay where
    p: "decode_acs_response xl (cx_request c) v = Inr decoded" "verify_response xl sx v expected decoded = Inr vr"
      "xl_is_success xl (rsp_status_code (vr_response vr))"
      "expected_request_id sx (cx_state c) (vr_response vr) = Inr rid"
      "xl_validate xl (security_config xl sx) (vr_response vr)
        (validation_params_for sx expected vr rid (xl_now xl (req_context.more c))) (req_context.more c) = ((True, failures), w)"
      "identity_of xl sx (vr_response vr) = Inr ay"
      "action = AuthResponse (identity_data xl sx ay (xl_now_rfc3339 xl w))"
      "c' = with_state (clear_namespace (sx_state_namespace sx)) (publish_provider scopes pv (with_world w c))"
    unfolding process_acs_Inr by blast
  obtain xml bound where d: "decoded = (xml, bound)" by (cases decoded)
  from verify_response_Inr[OF p(2)[unfolded d]] obtain rsp opened where
    o: "response_opened xl sx xml rsp opened vr"
      "bound \<or> document_signs xl v xml (rsp_id rsp) \<or> assertions_vouched xl sx v xml rsp opened" by blast
  have vr: "vr_response vr = rsp\<lparr> rsp_assertions := rsp_assertions rsp @ opened, rsp_encrypted := [] \<rparr>"
    using o(1) by (simp add: response_opened_def)
  have signed: "redirect_signs xl (cx_request c) v xml \<or> document_signs xl v xml (rsp_id rsp) \<or>
      assertions_vouched xl sx v xml rsp opened"
    using o(2) p(1) d decode_acs_bound[of xl "cx_request c" v xml] by auto
  from identity_of_Inr[OF p(6)] obtain a where
    a: "List.find (\<lambda>a. as_class_refs a \<noteq> []) (rsp_assertions (vr_response vr)) = Some a"
      "ay_class_ref ay = hd (as_class_refs a)" "ay_issuer ay = as_issuer a" by blast
  have mem: "a \<in> set (rsp_assertions rsp @ opened)" "as_class_refs a \<noteq> []"
    using a(1) unfolding find_Some_iff by (auto simp: vr simp del: set_append)
  have state: "cx_state c' = clear_namespace (sx_state_namespace sx) (cx_state c)"
    using p(8) by (simp add: publish_provider_def)
  have rid: "get_str (cx_state c) (sx_state_namespace sx) ''authn_id'' = rid"
    "rid = None \<longrightarrow> sx_allow_unsolicited sx \<and> rsp_in_response_to rsp = None"
    using p(4) unfolding expected_request_id_Inr by (simp_all add: vr)
  have ok: "xl_is_success xl (rsp_status_code rsp)" using p(3) by (simp add: vr)
  have data: "ai_issuer (id_auth_info (identity_data xl sx ay (xl_now_rfc3339 xl w))) = Some (as_issuer a)"
    "ai_class_ref (id_auth_info (identity_data xl sx ay (xl_now_rfc3339 xl w))) = hd (as_class_refs a)"
    using a(2,3) by (simp_all add: identity_data_def Let_def)
  show ?thesis
    by (rule exI[of _ xml], rule exI[of _ bound], rule exI[of _ vr], rule exI[of _ rsp], rule exI[of _ opened],
        rule exI[of _ rid], rule exI[of _ failures], rule exI[of _ w], rule exI[of _ a],
        rule exI[of _ "identity_data xl sx ay (xl_now_rfc3339 xl w)"], intro conjI)
      (use p(1,2)[unfolded d] o(1) ok signed rid p(5,7) mem data state in \<open>simp_all only: simp_thms\<close>)
qed


section \<open>A login starts from the new request\<close>

text \<open>Two runs of a handler from related contexts give the same result and related contexts.\<close>

definition same_run ::
    "('w req_context_scheme \<Rightarrow> 'w req_context_scheme \<Rightarrow> bool) \<Rightarrow> ('w, 'a) handler \<Rightarrow> ('w, 'a) handler \<Rightarrow> bool" where
  "same_run R h h' \<longleftrightarrow> (\<forall>c c'. R c c' \<longrightarrow> fst (h c) = fst (h' c') \<and> R (snd (h c)) (snd (h' c')))"

lemma same_runI: "(\<And>c c'. R c c' \<Longrightarrow> fst (h c) = fst (h' c') \<and> R (snd (h c)) (snd (h' c'))) \<Longrightarrow> same_run R h h'"
  by (simp add: same_run_def)

lemma same_runD: "same_run R h h' \<Longrightarrow> R c c' \<Longrightarrow> fst (h c) = fst (h' c') \<and> R (snd (h c)) (snd (h' c'))"
  by (simp add: same_run_def)

lemma same_run_bind:
  assumes "same_run R m m'" "\<And>v. same_run R (k v) (k' v)"
  shows "same_run R (bind_flow m k) (bind_flow m' k')"
proof (rule same_runI)
  fix c c' assume "R c c'"
  from same_runD[OF assms(1) this] obtain r d d' where m: "m c = (r, d)" "m' c' = (r, d')" "R d d'"
    by (metis prod.collapse)
  show "fst (bind_flow m k c) = fst (bind_flow m' k' c') \<and> R (snd (bind_flow m k c)) (snd (bind_flow m' k' c'))"
    using m same_runD[OF assms(2) m(3)] by (cases r) (simp_all add: bind_flow_def)
qed

lemma same_run_lift: "same_run R (lift_result x) (lift_result x)"
  by (simp add: same_run_def lift_result_def)

text \<open>
  What the request of a login is made from: the flags and the subject in the session, and the levels
  selected by decorations or, failing them, by the session.
\<close>

definition flag_keys :: "('k, 'key, 'f, 't) saml_backend \<Rightarrow> string set" where
  "flag_keys sx = {''force_authn'', ''is_passive''} \<union> (if sx_request_subject sx then {''requested_subject''} else {})"

definition same_flags ::
    "('k, 'key, 'f, 't) saml_backend \<Rightarrow> 'w req_context_scheme \<Rightarrow> 'w req_context_scheme \<Rightarrow> bool" where
  "same_flags sx c c' \<longleftrightarrow>
     req_context.more c = req_context.more c' \<and> state_wf (cx_state c) \<and> state_wf (cx_state c') \<and>
     (\<forall>k \<in> flag_keys sx. get_value (cx_state c) (sx_state_namespace sx) k = get_value (cx_state c') (sx_state_namespace sx) k)"

definition same_request ::
    "('w, 'k, 'a, 'q, 'key, 'g, 'f, 't) saml_sp_lib \<Rightarrow> ('k, 'key, 'f, 't) saml_backend \<Rightarrow>
      'w req_context_scheme \<Rightarrow> 'w req_context_scheme \<Rightarrow> bool" where
  "same_request xl sx c c' \<longleftrightarrow> same_flags sx c c' \<and>
     read_target_accr xl (sx_state_namespace sx) c = read_target_accr xl (sx_state_namespace sx) c' \<and>
     fst (take_handoff (sx_state_namespace sx) c) = fst (take_handoff (sx_state_namespace sx) c')"

lemma same_flags_set:
  "same_flags sx c c' \<Longrightarrow>
     same_flags sx (with_state (set_value (sx_state_namespace sx) k v) c) (with_state (set_value (sx_state_namespace sx) k v) c')"
  by (auto simp: same_flags_def get_value_set_value)

lemma same_request_selected:
  assumes "same_request xl sx c c'"
  shows "same_request xl sx (with_state (set_str (sx_state_namespace sx) ''idp_entity_id'' e) c)
     (with_state (set_str (sx_state_namespace sx) ''idp_entity_id'' e) c')"
  using assms
  by (simp add: same_request_def same_flags_def read_target_accr_def take_handoff_def get_value_set_value set_str_def sp_key_defs)

lemma same_run_in_world:
  "same_run (same_request xl sx) (in_world f) (in_world f)" "same_run (same_flags sx) (in_world f) (in_world f)"
  by (auto simp: same_run_def in_world_def same_request_def same_flags_def read_target_accr_def take_handoff_def
      split: prod.splits)

lemma same_run_select: "same_run (same_request xl sx) (select_idp xl' sx target) (select_idp xl' sx target)"
proof (cases "sx_idp_metadata sx")
  case (StaticIdp url v pv)
  then show ?thesis
    unfolding select_idp_def by (simp, intro same_run_bind same_run_lift)
next
  case (MdqIdp client)
  have "same_run (same_request xl sx)
      (\<lambda>ctx. (Inr (url, e, pv), with_state (set_str (sx_state_namespace sx) ''idp_entity_id'' e) ctx))
      (\<lambda>ctx. (Inr (url, e, pv), with_state (set_str (sx_state_namespace sx) ''idp_entity_id'' e) ctx))" for url e pv
    by (rule same_runI) (simp add: same_request_selected)
  with MdqIdp show ?thesis
    unfolding select_idp_def by (simp, intro same_run_bind same_run_lift same_run_in_world(1))
qed

lemma same_flags_read:
  assumes "same_flags sx c c'"
  shows "request_options_for xl sx (cx_state c) url levels = request_options_for xl sx (cx_state c') url levels"
    "request_subject xl sx (cx_state c) q = request_subject xl sx (cx_state c') q"
  using assms
  by (simp_all add: request_options_for_def state_flag_def request_subject_def same_flags_def flag_keys_def get_str_value)

lemma same_run_send: "same_run (same_flags sx) (send_request xl sx url levels) (send_request xl sx url levels)"
proof (rule same_runI)
  fix c c' :: "'a req_context_scheme" assume r: "same_flags sx c c'"
  have "same_run (same_flags sx)
      (\<lambda>ctx. (encode_request xl sx url q, with_state (set_str (sx_state_namespace sx) ''authn_id'' (xl_request_id xl q)) ctx))
      (\<lambda>ctx. (encode_request xl sx url q, with_state (set_str (sx_state_namespace sx) ''authn_id'' (xl_request_id xl q)) ctx))" for q
    unfolding set_str_def by (rule same_runI) (simp add: same_flags_set)
  then have "same_run (same_flags sx)
      (bind_flow (in_world (create_request xl (request_options_for xl sx (cx_state c) url levels))) (\<lambda>q.
       bind_flow (lift_result (request_subject xl sx (cx_state c) q)) (\<lambda>q ctx.
       (encode_request xl sx url q, with_state (set_str (sx_state_namespace sx) ''authn_id'' (xl_request_id xl q)) ctx))))
      (bind_flow (in_world (create_request xl (request_options_for xl sx (cx_state c) url levels))) (\<lambda>q.
       bind_flow (lift_result (request_subject xl sx (cx_state c) q)) (\<lambda>q ctx.
       (encode_request xl sx url q, with_state (set_str (sx_state_namespace sx) ''authn_id'' (xl_request_id xl q)) ctx))))"
    by (intro same_run_bind same_run_in_world(2) same_run_lift)
  from same_runD[OF this r]
  show "fst (send_request xl sx url levels c) = fst (send_request xl sx url levels c') \<and>
      same_flags sx (snd (send_request xl sx url levels c)) (snd (send_request xl sx url levels c'))"
    unfolding send_request_def same_flags_read[OF r] .
qed

lemma same_flags_forget:
  assumes "same_flags sx c c'"
  shows "same_flags sx (with_state (forget_selection (sx_state_namespace sx)) (snd (take_handoff (sx_state_namespace sx) c)))
     (with_state (forget_selection (sx_state_namespace sx)) (snd (take_handoff (sx_state_namespace sx) c')))"
  using assms by (auto simp: forget_selection_def same_flags_def get_value_set_value take_handoff_def)

lemma same_request_levels:
  assumes "same_request xl sx c c'"
  shows "fst (request_with_levels xl sx idp c) = fst (request_with_levels xl sx idp c')"
proof -
  from assms have f: "same_flags sx c c'"
    and s: "read_target_accr xl (sx_state_namespace sx) c = read_target_accr xl (sx_state_namespace sx) c'"
      "fst (take_handoff (sx_state_namespace sx) c) = fst (take_handoff (sx_state_namespace sx) c')"
    by (simp_all add: same_request_def)
  show ?thesis
    using same_runD[OF same_run_send[of sx xl] same_flags_forget[OF f]]
    by (simp add: request_with_levels_def Let_def s bind_flow_def lift_result_def split: sum.splits)
qed

lemma same_request_redirect:
  assumes "same_request xl sx c c'"
  shows "fst (build_authn_redirect xl sx target c) = fst (build_authn_redirect xl sx target c')"
proof -
  from same_runD[OF same_run_select[of xl sx xl target] assms] obtain r d d' where
    s: "select_idp xl sx target c = (r, d)" "select_idp xl sx target c' = (r, d')" "same_request xl sx d d'"
    by (metis prod.collapse)
  show ?thesis
    using s same_request_levels[OF s(3)] by (cases r) (simp_all add: build_authn_redirect_def bind_flow_def)
qed

lemma same_request_dispatch:
  assumes "same_request xl sx c c'" "request_target xl sx c = request_target xl sx c'"
  shows "fst (dispatch_request xl sx req c) = fst (dispatch_request xl sx req c')"
  using same_request_redirect[OF assms(1)] assms(2) by (simp add: dispatch_request_def split: option.splits)

lemma store_constraints_get:
  assumes "state_wf s"
  shows "state_wf (store_constraints sx req c s)"
    "get_value (store_constraints sx req c s) (sx_state_namespace sx) ''force_authn'' = Some (JBool (id_force_authn req))"
    "get_value (store_constraints sx req c s) (sx_state_namespace sx) ''is_passive'' = Some (JBool (id_is_passive req))"
    "get_value (store_constraints sx req c s) (sx_state_namespace sx) STATE_INITIAL_STEPUP_POLICY =
       Some (unwrap_or JNull (decoration c KEY_STEPUP_INITIAL_POLICY))"
    "get_value (store_constraints sx req c s) (sx_state_namespace sx) STATE_TARGET_ACCR =
       Some (json_strings (decoration_string_array c KEY_TARGET_AUTHN_CONTEXT_CLASS_REF))"
    "get_value (store_constraints sx req c s) (sx_state_namespace sx) STATE_TARGET_ACCR_COMPARISON =
       Some (unwrap_or JNull (decoration c KEY_TARGET_ACCR_COMPARISON))"
  using assms by (simp_all add: store_constraints_def Let_def get_value_set_value sp_key_defs)

text \<open>The context a login is dispatched in.\<close>

definition stored_request :: "('k, 'key, 'f, 't) saml_backend \<Rightarrow> internal_data \<Rightarrow> 'w req_context_scheme \<Rightarrow> 'w req_context_scheme" where
  "stored_request sx req c = with_state (\<lambda>s. (if sx_request_subject sx
       then set_str (sx_state_namespace sx) ''requested_subject'' (unwrap_or [] (id_subject_id req)) else id)
     (store_constraints sx req c s)) c"

lemma start_auth_eq:
  "saml_start_auth xl sx req c =
     (if sx_request_subject sx \<and> opt_filter (\<lambda>v. v \<noteq> []) (id_subject_id req) = None
      then (Inl (ErrAuthn ''step-up request has no linked-account identifier''), with_state (store_constraints sx req c) c)
      else dispatch_request xl sx req (stored_request sx req c))"
  by (auto simp: saml_start_auth_def store_subject_def bind_flow_def stored_request_def with_state_def opt_filter_def
      unwrap_or_def split: option.splits if_split_asm)

lemma stored_request_get:
  assumes "state_wf (cx_state c)"
  shows "state_wf (cx_state (stored_request sx req c))"
    "k \<noteq> ''requested_subject'' \<Longrightarrow> get_value (cx_state (stored_request sx req c)) (sx_state_namespace sx) k =
       get_value (store_constraints sx req c (cx_state c)) (sx_state_namespace sx) k"
    "sx_request_subject sx \<Longrightarrow> get_value (cx_state (stored_request sx req c)) (sx_state_namespace sx) ''requested_subject'' =
       Some (JString (unwrap_or [] (id_subject_id req)))"
    "cx_decorations (stored_request sx req c) = cx_decorations c" "cx_request (stored_request sx req c) = cx_request c"
    "req_context.more (stored_request sx req c) = req_context.more c"
  using store_constraints_get(1)[OF assms, of sx req c]
  by (simp_all add: stored_request_def set_str_def get_value_set_value)

text \<open>The selection is the same from the decorations and, later, from the session alone.\<close>

lemma as_array_strings: "as_array (json_strings xs) = Some (map JString xs)" "List.map_filter as_str (map JString xs) = xs"
  by (simp add: json_strings_def) (induction xs; simp add: List.map_filter_simps)

lemma stored_selection:
  assumes wf: "state_wf (cx_state c)" and null: "decoration c KEY_STEPUP_INITIAL_POLICY \<noteq> Some JNull"
    and later: "cx_decorations c' = [] \<or> cx_decorations c' = cx_decorations c"
      "\<And>k. k \<noteq> ''requested_subject'' \<Longrightarrow> get_value (cx_state c') (sx_state_namespace sx) k =
         get_value (store_constraints sx req c (cx_state c)) (sx_state_namespace sx) k"
  shows "fst (take_handoff (sx_state_namespace sx) c') = decoration c KEY_STEPUP_INITIAL_POLICY"
    "read_target_accr xl (sx_state_namespace sx) c' =
       (decoration_string_array c KEY_TARGET_AUTHN_CONTEXT_CLASS_REF,
        Option.bind (Option.bind (decoration c KEY_TARGET_ACCR_COMPARISON) as_str) (xl_parse_comparison xl))"
proof -
  note g = store_constraints_get[OF wf, of sx req c] later(2)[of STATE_INITIAL_STEPUP_POLICY] later(2)[of STATE_TARGET_ACCR]
    later(2)[of STATE_TARGET_ACCR_COMPARISON]
  have k: "STATE_INITIAL_STEPUP_POLICY \<noteq> ''requested_subject''" "STATE_TARGET_ACCR \<noteq> ''requested_subject''"
    "STATE_TARGET_ACCR_COMPARISON \<noteq> ''requested_subject''" by (simp_all add: sp_key_defs)
  show "fst (take_handoff (sx_state_namespace sx) c') = decoration c KEY_STEPUP_INITIAL_POLICY"
    using later(1) g(4,7) k(1) null
    by (auto simp: take_handoff_def decoration_def or_else_def opt_filter_def unwrap_or_def split: option.splits)
  have refs: "(case Option.bind (or_else (decoration c' KEY_TARGET_AUTHN_CONTEXT_CLASS_REF)
        (get_value (cx_state c') (sx_state_namespace sx) STATE_TARGET_ACCR)) as_array of None \<Rightarrow> [] | Some vs \<Rightarrow> List.map_filter as_str vs) =
      decoration_string_array c KEY_TARGET_AUTHN_CONTEXT_CLASS_REF"
    using later(1) g(5,8) k(2)
    by (auto simp: decoration_def or_else_def decoration_string_array_def as_array_strings split: option.splits)
  have cmp: "Option.bind (or_else (decoration c' KEY_TARGET_ACCR_COMPARISON)
        (get_value (cx_state c') (sx_state_namespace sx) STATE_TARGET_ACCR_COMPARISON)) as_str =
      Option.bind (decoration c KEY_TARGET_ACCR_COMPARISON) as_str"
    using later(1) g(6,9) k(3)
    by (auto simp: decoration_def or_else_def unwrap_or_def split: option.splits)
  show "read_target_accr xl (sx_state_namespace sx) c' =
       (decoration_string_array c KEY_TARGET_AUTHN_CONTEXT_CLASS_REF,
        Option.bind (Option.bind (decoration c KEY_TARGET_ACCR_COMPARISON) as_str) (xl_parse_comparison xl))"
    unfolding read_target_accr_def refs cmp ..
qed

text \<open>
  A login is not seeded by an older one.  What \<open>start_auth\<close> sends (the whole answer: endpoint,
  levels asked for, subject, passive and forced flags, or the error) is a function of the new
  request, its decorations and the world outside; whatever an abandoned flow left in the session is
  not read.
\<close>

theorem saml_start_ignores_session:
  assumes "cx_request c = cx_request c'" "cx_decorations c = cx_decorations c'" "req_context.more c = req_context.more c'"
    and "state_wf (cx_state c)" "state_wf (cx_state c')"
  shows "fst (saml_start_auth xl sx req c) = fst (saml_start_auth xl sx req c')"
proof -
  have d: "decoration c k = decoration c' k" for k using assms(2) by (simp add: decoration_def)
  have v: "get_value (store_constraints sx req c (cx_state c)) (sx_state_namespace sx) k =
      get_value (store_constraints sx req c' (cx_state c')) (sx_state_namespace sx) k"
    if "k \<in> {''force_authn'', ''is_passive'', STATE_INITIAL_STEPUP_POLICY, STATE_TARGET_ACCR, STATE_TARGET_ACCR_COMPARISON}" for k
    using that store_constraints_get(2-)[OF assms(4), of sx req c] store_constraints_get(2-)[OF assms(5), of sx req c']
    by (auto simp: d decoration_string_array_def)
  note g = stored_request_get[OF assms(4), where sx = sx and req = req] stored_request_get[OF assms(5), where sx = sx and req = req]
  have "same_request xl sx (stored_request sx req c) (stored_request sx req c')"
    using assms(2,3) v g
    by (auto simp: same_request_def same_flags_def flag_keys_def read_target_accr_def take_handoff_def decoration_def sp_key_defs)
  moreover have "request_target xl sx (stored_request sx req c) = request_target xl sx (stored_request sx req c')"
    using assms(1,2) g by (simp add: request_target_def decoration_def Let_def)
  ultimately show ?thesis using same_request_dispatch by (simp add: start_auth_eq) blast
qed

section \<open>The request in flight\<close>

lemma in_world_state: "in_world f c = (x, c') \<Longrightarrow> cx_state c' = cx_state c"
  by (auto simp: in_world_eq)

lemma select_idp_Inr:
  assumes "select_idp xl sx target c = (Inr (url, e, pv), c')" "state_wf (cx_state c)"
  shows "state_wf (cx_state c')"
    "sx_idp_metadata sx = MdqIdp client \<Longrightarrow> target = Some e \<and>
       get_str (cx_state c') (sx_state_namespace sx) ''idp_entity_id'' = Some e"
  using assms
  by (auto simp: select_idp_def bind_flow_eq_Inr lift_result_eq in_world_eq get_str_set_str
      split: idp_metadata_source.splits)

lemma send_request_Inr:
  assumes "send_request xl sx url levels c = (Inr r, c')" "state_wf (cx_state c)"
  shows "\<exists>q. encode_request xl sx url q = Inr r \<and>
      cx_state c' = set_str (sx_state_namespace sx) ''authn_id'' (xl_request_id xl q) (cx_state c)"
  using assms
  by (auto simp: send_request_def bind_flow_eq_Inr lift_result_eq in_world_eq)

lemma request_with_levels_Inr:
  assumes "request_with_levels xl sx idp c = (Inr r, c')" "state_wf (cx_state c)"
  shows "\<exists>q. encode_request xl sx (fst idp) q = Inr r \<and> cx_state c' =
      set_str (sx_state_namespace sx) ''authn_id'' (xl_request_id xl q) (forget_selection (sx_state_namespace sx) (cx_state c))"
proof -
  from assms(1) obtain levels where
    "send_request xl sx (fst idp) levels (with_state (forget_selection (sx_state_namespace sx))
       (snd (take_handoff (sx_state_namespace sx) c))) = (Inr r, c')"
    by (auto simp: request_with_levels_def Let_def bind_flow_eq_Inr lift_result_eq)
  from send_request_Inr[OF this] assms(2) show ?thesis
    by (simp add: take_handoff_def forget_selection_def)
qed

text \<open>The provider a redirect goes to, and what the session then holds.\<close>

definition aims_at :: "('k, 'key, 'f, 't) saml_backend \<Rightarrow> string option \<Rightarrow> string \<Rightarrow> bool" where
  "aims_at sx target e \<longleftrightarrow> (if is_dynamic_idp_selection sx then target = Some e else sx_idp_entity_id sx = Some e)"

lemma build_authn_redirect_Inr:
  assumes "build_authn_redirect xl sx target c = (Inr r, c')" "state_wf (cx_state c)"
  shows "\<exists>url e q. aims_at sx target e \<and> encode_request xl sx url q = Inr r \<and> state_wf (cx_state c') \<and>
      get_str (cx_state c') (sx_state_namespace sx) ''authn_id'' = Some (xl_request_id xl q) \<and>
      (is_dynamic_idp_selection sx \<longrightarrow> get_str (cx_state c') (sx_state_namespace sx) ''idp_entity_id'' = Some e)"
proof -
  from assms(1) obtain url e pv c1 where s: "select_idp xl sx target c = (Inr (url, e, pv), c1)"
    and rest: "request_with_levels xl sx (url, e, pv) c1 = (Inr r, c')"
    by (auto simp: build_authn_redirect_def bind_flow_eq_Inr)
  note sel = select_idp_Inr[OF s assms(2)]
  from request_with_levels_Inr[OF rest sel(1)] obtain q where q: "encode_request xl sx url q = Inr r"
    "cx_state c' = set_str (sx_state_namespace sx) ''authn_id'' (xl_request_id xl q) (forget_selection (sx_state_namespace sx) (cx_state c1))"
    by auto
  have wf: "state_wf (forget_selection (sx_state_namespace sx) (cx_state c1))"
    using sel(1) by (simp add: forget_selection_def)
  have "get_str (forget_selection (sx_state_namespace sx) (cx_state c1)) (sx_state_namespace sx) ''idp_entity_id'' =
      get_str (cx_state c1) (sx_state_namespace sx) ''idp_entity_id''"
    using sel(1) by (simp add: forget_selection_def get_str_value get_value_set_value sp_key_defs)
  moreover have "aims_at sx target e"
  proof (cases "sx_idp_metadata sx")
    case (StaticIdp url' v pv')
    with s have "sx_idp_entity_id sx = Some e" by (auto simp: select_idp_def bind_flow_eq_Inr lift_result_eq)
    with StaticIdp show ?thesis by (simp add: aims_at_def is_dynamic_idp_selection_def)
  next
    case (MdqIdp client)
    with sel(2) show ?thesis by (simp add: aims_at_def is_dynamic_idp_selection_def)
  qed
  ultimately show ?thesis
    using q wf sel(2)
    by (cases "sx_idp_metadata sx") (auto simp: is_dynamic_idp_selection_def get_str_set_str)
qed

lemma start_auth_redirect:
  assumes "saml_start_auth xl sx req c = (Inr r, c1)" "state_wf (cx_state c)"
    and "is_dynamic_idp_selection sx \<longrightarrow> or_else (request_target xl sx c) (sx_idp_entity_id sx) = Some t"
    and "\<not> is_dynamic_idp_selection sx \<longrightarrow> sx_idp_entity_id sx = Some t"
  shows "\<exists>url q. encode_request xl sx url q = Inr r \<and> state_wf (cx_state c1) \<and>
      get_str (cx_state c1) (sx_state_namespace sx) ''authn_id'' = Some (xl_request_id xl q) \<and>
      (is_dynamic_idp_selection sx \<longrightarrow> get_str (cx_state c1) (sx_state_namespace sx) ''idp_entity_id'' = Some t)"
proof -
  have wf: "state_wf (store_constraints sx req c (cx_state c))"
    using assms(2) by (simp add: store_constraints_def Let_def)
  from assms(1) obtain c0 where d: "dispatch_request xl sx req c0 = (Inr r, c1)"
    and c0: "state_wf (cx_state c0)" "cx_decorations c0 = cx_decorations c" "cx_request c0 = cx_request c"
    using wf by (auto simp: saml_start_auth_def bind_flow_eq_Inr store_subject_def split: if_split_asm option.splits)
  have t: "request_target xl sx c0 = request_target xl sx c"
    using c0 by (simp add: request_target_def decoration_def Let_def)
  obtain target where b: "build_authn_redirect xl sx target c0 = (Inr r, c1)" "aims_at sx target t"
    using d assms(3,4) by (auto simp: dispatch_request_def t aims_at_def split: if_split_asm)
  from build_authn_redirect_Inr[OF b(1) c0(1)] b(2) show ?thesis
    by (auto simp: aims_at_def split: if_split_asm)
qed

lemma handle_acs_Inr:
  assumes "handle_acs xl sx c = (Inr a, c')"
  shows "\<exists>expected v scopes pv w. process_acs xl sx v expected scopes pv (with_world w c) = (Inr a, c') \<and>
      (if is_dynamic_idp_selection sx
       then or_else (get_str (cx_state c) (sx_state_namespace sx) ''idp_entity_id'') (sx_idp_entity_id sx) = Some expected
       else sx_idp_entity_id sx = Some expected)"
proof (cases "sx_idp_metadata sx")
  case (StaticIdp url v pv)
  with assms obtain e where "sx_idp_entity_id sx = Some e" "process_acs xl sx v e (sx_static_scopes sx) pv c = (Inr a, c')"
    by (auto simp: handle_acs_def bind_flow_eq_Inr lift_result_eq)
  with StaticIdp show ?thesis
    by (metis idp_metadata_source.simps(5) is_dynamic_idp_selection_def with_world_again(2))
next
  case (MdqIdp client)
  from MdqIdp have dyn: "is_dynamic_idp_selection sx" by (simp add: is_dynamic_idp_selection_def)
  from MdqIdp assms show ?thesis
    by (simp add: handle_acs_def dyn) (auto simp: bind_flow_eq_Inr lift_result_eq in_world_eq, blast)
qed

lemma acs_needs_request:
  assumes "handle_acs xl sx c = (Inr a, c')" "\<not> sx_allow_unsolicited sx"
  shows "get_str (cx_state c) (sx_state_namespace sx) ''authn_id'' \<noteq> None"
  using handle_acs_Inr[OF assms(1)] assms(2) unfolding process_acs_Inr expected_request_id_Inr by auto

text \<open>
  C16. An answer is for the request that was sent, once.  After a login that went to provider \<open>t\<close>, if
  the session comes back as it was left and the assertion consumer returns an identity, then the
  response was validated against the id of the very request encoded in the redirect and against \<open>t\<close>
  as the only acceptable provider; and presenting any response again in the session that results is
  refused, unless the configuration accepts unsolicited responses.
\<close>

theorem saml_login_bound:
  assumes start: "saml_start_auth xl sx req c0 = (Inr r, c1)" and wf: "state_wf (cx_state c0)"
    and target: "is_dynamic_idp_selection sx \<longrightarrow> or_else (request_target xl sx c0) (sx_idp_entity_id sx) = Some t"
      "\<not> is_dynamic_idp_selection sx \<longrightarrow> sx_idp_entity_id sx = Some t"
    and resumed: "cx_state c2 = cx_state c1" and acs: "saml_backend_handle xl sx ''acs'' c2 = (Inr a, c3)"
  shows "(\<exists>url q d vr w failures w'. encode_request xl sx url q = Inr r \<and> a = AuthResponse d \<and>
      xl_validate xl (security_config xl sx) (vr_response vr)
        (validation_params_for sx t vr (Some (xl_request_id xl q)) (xl_now xl w)) w = ((True, failures), w')) \<and>
    (\<forall>c4 b c5. cx_state c4 = cx_state c3 \<longrightarrow> \<not> sx_allow_unsolicited sx \<longrightarrow>
      saml_backend_handle xl sx ''acs'' c4 \<noteq> (Inr b, c5))"
proof -
  from start_auth_redirect[OF start wf target] obtain url q where q: "encode_request xl sx url q = Inr r"
    "state_wf (cx_state c1)" "get_str (cx_state c1) (sx_state_namespace sx) ''authn_id'' = Some (xl_request_id xl q)"
    "is_dynamic_idp_selection sx \<longrightarrow> get_str (cx_state c1) (sx_state_namespace sx) ''idp_entity_id'' = Some t" by auto
  from acs have h: "handle_acs xl sx c2 = (Inr a, c3)" by (simp add: saml_backend_handle_def)
  from handle_acs_Inr[OF h] obtain e v scopes pv w where p: "process_acs xl sx v e scopes pv (with_world w c2) = (Inr a, c3)"
    and e: "if is_dynamic_idp_selection sx
       then or_else (get_str (cx_state c2) (sx_state_namespace sx) ''idp_entity_id'') (sx_idp_entity_id sx) = Some e
       else sx_idp_entity_id sx = Some e" by auto
  have et: "e = t" using e q(4) target(2) resumed by (auto simp: or_else_def split: if_split_asm)
  from p obtain vr rid failures w' ay where
    v: "expected_request_id sx (cx_state c2) (vr_response vr) = Inr rid"
      "a = AuthResponse (identity_data xl sx ay (xl_now_rfc3339 xl w'))"
      "xl_validate xl (security_config xl sx) (vr_response vr) (validation_params_for sx e vr rid (xl_now xl w)) w = ((True, failures), w')"
      "c3 = with_state (clear_namespace (sx_state_namespace sx)) (publish_provider scopes pv (with_world w' (with_world w c2)))"
    unfolding process_acs_Inr by auto
  have rid: "rid = Some (xl_request_id xl q)" using v(1) q(3) resumed by (simp add: expected_request_id_Inr)
  have cleared: "cx_state c3 = clear_namespace (sx_state_namespace sx) (cx_state c2)"
    using v(4) by (simp add: publish_provider_def)
  have again: "saml_backend_handle xl sx ''acs'' c4 \<noteq> (Inr b, c5)"
    if "cx_state c4 = cx_state c3" "\<not> sx_allow_unsolicited sx" for c4 b c5
  proof
    assume "saml_backend_handle xl sx ''acs'' c4 = (Inr b, c5)"
    then have "get_str (cx_state c4) (sx_state_namespace sx) ''authn_id'' \<noteq> None"
      using acs_needs_request[OF _ that(2)] by (simp add: saml_backend_handle_def)
    then show False using that(1) cleared resumed q(2) by (simp add: get_str_clear)
  qed
  show ?thesis
    using q(1) v(2,3) et rid again by blast
qed


section \<open>Discovery is a detour\<close>

lemma request_target_stored: "request_target xl sx (stored_request sx req c) = request_target xl sx c"
  by (simp add: request_target_def decoration_def stored_request_def)

lemma request_target_decorated:
  "context_wf c \<Longrightarrow> request_target xl sx c = None \<Longrightarrow> request_target xl sx (decorate KEY_TARGET_ENTITYID (JString t) c) = Some t"
  by (auto simp: request_target_def Let_def decoration_decorate or_else_def split: if_split_asm option.splits)

lemma request_target_world: "request_target xl sx (with_world w c) = request_target xl sx c"
  by (simp add: request_target_def Let_def)

text \<open>
  C37. Discovery loses nothing.  When a dynamic backend sends a login to the discovery service, because
  no provider was named, and the user comes back with a provider, in a new request without
  decorations, the redirect to that provider (or the refusal) is the one the login would have produced
  at once had a service named that provider: what the login asked for, its levels and their
  comparison and the step-up policy are read back from the session.  A step-up policy is never null.
\<close>

theorem discovery_keeps_constraints:
  assumes start: "saml_start_auth xl sx req c0 = (Inr r, c1)" and wf: "context_wf c0"
    and detour: "is_dynamic_idp_selection sx" "or_else (request_target xl sx c0) (sx_idp_entity_id sx) = None"
    and policy: "decoration c0 KEY_STEPUP_INITIAL_POLICY \<noteq> Some JNull"
    and resumed: "cx_state c2 = cx_state c1" "cx_decorations c2 = []"
    and chosen: "bm_get (rq_query (cx_request c2)) ''entityID'' = Some t" "t \<noteq> []"
  shows "fst (saml_backend_handle xl sx ''disco'' c2) = map_sum id BRespond
     (fst (saml_start_auth xl sx req (decorate KEY_TARGET_ENTITYID (JString t) (with_world (req_context.more c2) c0))))"
proof -
  let ?d = "decorate KEY_TARGET_ENTITYID (JString t) (with_world (req_context.more c2) c0)"
  have wfs: "state_wf (cx_state c0)" using wf by (simp add: context_wf_def)
  have cwf: "context_wf (with_world (req_context.more c2) c0)" using wf by (simp add: context_wf_def)
  have dec: "decoration ?d k = decoration c0 k" if "k \<noteq> KEY_TARGET_ENTITYID" for k
    using that decoration_decorate[OF cwf] by simp
  have keys: "KEY_STEPUP_INITIAL_POLICY \<noteq> KEY_TARGET_ENTITYID" "KEY_TARGET_AUTHN_CONTEXT_CLASS_REF \<noteq> KEY_TARGET_ENTITYID"
    "KEY_TARGET_ACCR_COMPARISON \<noteq> KEY_TARGET_ENTITYID" by (simp_all add: key_defs)
  have req: "\<not> (sx_request_subject sx \<and> opt_filter (\<lambda>v. v \<noteq> []) (id_subject_id req) = None)"
    using start by (auto simp: start_auth_eq split: if_split_asm)
  have target: "request_target xl sx c0 = None" "sx_idp_entity_id sx = None"
    using detour(2) by (auto simp: or_else_def split: option.splits)
  have t0: "request_target xl sx (stored_request sx req c0) = None"
    using target(1) by (simp add: request_target_stored)
  have c1: "c1 = stored_request sx req c0"
    using start req t0 target(2) detour(1)
    by (auto simp: start_auth_eq dispatch_request_def or_else_def split: if_split_asm option.splits)
  have t1: "request_target xl sx (stored_request sx req ?d) = Some t"
    using request_target_decorated[OF cwf] target(1) by (simp add: request_target_stored request_target_world)
  have direct: "fst (saml_start_auth xl sx req ?d) = fst (build_authn_redirect xl sx (Some t) (stored_request sx req ?d))"
    using req t1 detour(1) by (auto simp: start_auth_eq dispatch_request_def or_else_def)
  have disco: "fst (saml_backend_handle xl sx ''disco'' c2) = map_sum id BRespond (fst (build_authn_redirect xl sx (Some t) c2))"
    using chosen by (auto simp: saml_backend_handle_def opt_filter_def bind_flow_def lift_result_def split: prod.splits sum.splits)
  have state: "get_value (cx_state c2) (sx_state_namespace sx) k =
      get_value (store_constraints sx req c0 (cx_state c0)) (sx_state_namespace sx) k" if "k \<noteq> ''requested_subject''" for k
    using that resumed(1) c1 stored_request_get(2)[OF wfs] by simp
  have wfd: "state_wf (cx_state ?d)" using wfs by simp
  have sel: "fst (take_handoff (sx_state_namespace sx) c2) = fst (take_handoff (sx_state_namespace sx) (stored_request sx req ?d))"
    "read_target_accr xl (sx_state_namespace sx) c2 = read_target_accr xl (sx_state_namespace sx) (stored_request sx req ?d)"
    using stored_selection(1)[OF wfs policy, of c2 sx req] stored_selection(2)[OF wfs policy, of c2 sx req, where xl = xl]
      stored_selection(1)[OF wfd, of "stored_request sx req ?d" sx req] state resumed(2)
      stored_selection(2)[OF wfd, of "stored_request sx req ?d" sx req, where xl = xl]
      stored_request_get(2,4)[OF wfd, where sx = sx and req = req]
      policy by (simp_all add: dec keys decoration_string_array_def)
  have flags: "get_value (cx_state c2) (sx_state_namespace sx) k = get_value (cx_state (stored_request sx req ?d)) (sx_state_namespace sx) k"
    if "k \<in> flag_keys sx" for k
    using that state[of k] resumed(1) c1 stored_request_get(2,3)[OF wfs, where sx = sx and req = req]
      stored_request_get(2,3)[OF wfd, where sx = sx and req = req]
      store_constraints_get(2,3)[OF wfs, of sx req c0] store_constraints_get(2,3)[OF wfd, of sx req ?d]
    by (auto simp: flag_keys_def split: if_split_asm)
  have "same_request xl sx c2 (stored_request sx req ?d)"
    using sel flags resumed(1) c1 stored_request_get(1)[OF wfs, of sx req] stored_request_get(1)[OF wfd, of sx req]
      stored_request_get(6)[OF wfd, of sx req]
    by (simp add: same_request_def same_flags_def)
  from same_request_redirect[OF this] show ?thesis by (simp add: direct disco)
qed


section \<open>Identifiers and attributes\<close>

lemma scope_subject_id_inj: "scope_subject_id i s = scope_subject_id i' s' \<longleftrightarrow> i = i' \<and> s = s'"
proof
  assume "scope_subject_id i s = scope_subject_id i' s'"
  then have h: "show_nat (length i) @ CHR '':'' # (i @ '':'' @ s) = show_nat (length i') @ CHR '':'' # (i' @ '':'' @ s')"
    by (simp add: scope_subject_id_def)
  have sep: "\<not> is_ascii_digit CHR '':''" by (simp add: is_ascii_digit_def byte_def)
  from show_nat_sep_unique[OF h] sep have "length i = length i'" "i @ '':'' @ s = i' @ '':'' @ s'" by auto
  then show "i = i' \<and> s = s'" by simp
qed simp

text \<open>
  With issuer scoping on, a provider cannot assert another provider's subject: identities with
  different issuers get different subject ids, whatever their NameIDs and attributes are, composed or
  not.
\<close>

theorem scoped_subjects_disjoint:
  assumes "is_dynamic_idp_selection sx" "sx_scope_subject sx" "ay_issuer ay \<noteq> ay_issuer ay'"
  shows "id_subject_id (identity_data xl sx ay time) \<noteq> id_subject_id (identity_data xl sx ay' time')"
  using assms
  by (simp add: identity_data_def select_subject_id_def Let_def scope_subject_id_inj split: option.splits)

lemma pass_through_keeps:
  assumes "bm_wf m" "\<And>s. lower (lower s) = lower s" "k \<in> set (bm_keys (profile_mappings mp))"
  shows "bm_get (pass_through lower mp m a) k = bm_get m k \<and> bm_wf (pass_through lower mp m a)"
proof -
  have "passthrough_key lower a \<noteq> k" if "passthrough_key lower a \<notin> lower ` set (bm_keys (profile_mappings mp))"
  proof
    assume k: "passthrough_key lower a = k"
    have "lower (passthrough_key lower a) = passthrough_key lower a" by (simp add: passthrough_key_def assms(2))
    with k assms(3) that show False by (metis imageI)
  qed
  then show ?thesis using assms(1) by (auto simp: pass_through_def Let_def bm_get_insert)
qed

lemma pass_through_all_keeps:
  assumes "bm_wf m" "\<And>s. lower (lower s) = lower s" "k \<in> set (bm_keys (profile_mappings mp))"
  shows "bm_get (foldl (pass_through lower mp) m as) k = bm_get m k"
  using assms(1)
proof (induction as arbitrary: m)
  case (Cons a as)
  from pass_through_keeps[OF Cons.prems assms(2,3), of a] Cons.IH show ?case by simp
qed simp

lemma to_internal_wf: "bm_wf (to_internal mp profile external)"
proof -
  have "bm_wf (foldl (\<lambda>internal (name, profiles). case bm_get profiles profile of None \<Rightarrow> internal
      | Some pa \<Rightarrow> (let vs = collect_values external (mapping_keys pa)
          in if vs \<noteq> [] then bm_insert name vs internal else internal)) m ms)"
    if "bm_wf m" for m and ms :: "(string \<times> profile_attribute smap) list"
    using that by (induction ms arbitrary: m) (auto simp: Let_def split: option.splits)
  then show ?thesis by (simp add: to_internal_def)
qed

text \<open>
  Passing unknown attributes through forges nothing: every attribute the attribute map defines,
  under any profile, has the value the map gives it, and so has a subject id composed from mapped
  attributes.  Relied on: lowercasing twice is lowercasing once.
\<close>

theorem passthrough_cannot_forge:
  assumes lower: "\<And>s. xl_to_lowercase xl (xl_to_lowercase xl s) = xl_to_lowercase xl s"
  shows "(\<forall>k \<in> set (bm_keys (profile_mappings (sx_mapper sx))).
      bm_get (internal_attributes xl sx as) k = bm_get (to_internal (sx_mapper sx) ''saml'' (external_attributes as)) k) \<and>
    (set (mp_user_id_from_attrs (sx_mapper sx)) \<subseteq> set (bm_keys (profile_mappings (sx_mapper sx))) \<longrightarrow>
      compose_subject_id (sx_mapper sx) (internal_attributes xl sx as) =
      compose_subject_id (sx_mapper sx) (to_internal (sx_mapper sx) ''saml'' (external_attributes as)))"
proof -
  have same: "bm_get (internal_attributes xl sx as) k = bm_get (to_internal (sx_mapper sx) ''saml'' (external_attributes as)) k"
    if "k \<in> set (bm_keys (profile_mappings (sx_mapper sx)))" for k
    using pass_through_all_keeps[OF to_internal_wf lower that] by (simp add: internal_attributes_def Let_def)
  moreover have "compose_subject_id (sx_mapper sx) (internal_attributes xl sx as) =
      compose_subject_id (sx_mapper sx) (to_internal (sx_mapper sx) ''saml'' (external_attributes as))"
    if "set (mp_user_id_from_attrs (sx_mapper sx)) \<subseteq> set (bm_keys (profile_mappings (sx_mapper sx)))"
  proof -
    have "map (first_value (internal_attributes xl sx as)) (mp_user_id_from_attrs (sx_mapper sx)) =
        map (first_value (to_internal (sx_mapper sx) ''saml'' (external_attributes as))) (mp_user_id_from_attrs (sx_mapper sx))"
      using same that by (auto simp: first_value_def)
    then show ?thesis by (simp only: compose_subject_id_def)
  qed
  ultimately show ?thesis by blast
qed

section \<open>The wrapper of a decrypted element\<close>

lemma find_str_char: "c \<notin> set a \<Longrightarrow> find_str [c] (a @ c # b) = Some (length a)"
  by (induction a) (auto simp: starts_with_def)

lemma find_str_pair: "y \<notin> set a \<Longrightarrow> x \<noteq> y \<Longrightarrow> find_str [x, y] (a @ x # y # b) = Some (length a)"
proof (induction a)
  case (Cons c a)
  then show ?case by (cases a) (auto simp: starts_with_def)
qed (simp add: starts_with_def)

lemma trim_element: "trim (CHR ''<'' # s @ [CHR ''>'']) = CHR ''<'' # s @ [CHR ''>'']"
proof (rule trim_id)
  show "ws_len (CHR ''<'' # s @ [CHR ''>'']) = 0"
    by (cases s; cases "tl s") (auto simp: ws_len_def ws_ascii_def ws_wide_def byte_def)
  show "ws_len_rev (rev (CHR ''<'' # s @ [CHR ''>''])) = 0"
    by (cases "rev s"; cases "tl (rev s)") (auto simp: ws_len_rev_def ws_ascii_def ws_wide_def byte_def)
qed

text \<open>
  Unwrapping a decrypted element gives back exactly its content: for a wrapper
  \<open>EncryptedAssertion\<close> or \<open>EncryptedID\<close>, under any prefix and with any attributes without \<open>>\<close>, the text
  between its tags comes back byte for byte, whatever that text is, so that a signature in it can be
  verified.
\<close>

theorem decrypted_wrapper_unwrapped:
  assumes name: "after_last CHR '':'' name \<in> {''EncryptedAssertion'', ''EncryptedID''}"
      "set name \<inter> {CHR ''>'', CHR '' '', CHR ''<''} = {}"
    and attributes: "CHR ''>'' \<notin> set attributes" "attributes = [] \<or> hd attributes = CHR '' ''"
    and content: "content \<noteq> []"
  shows "unwrap_decrypted_wrapper (''<'' @ name @ attributes @ ''>'' @ content @ ''</'' @ name @ ''>'') = content"
proof -
  let ?s = "''<'' @ name @ attributes @ ''>'' @ content @ ''</'' @ name @ ''>''"
  have trimmed: "trim ?s = ?s"
    using trim_element[of "name @ attributes @ ''>'' @ content @ ''</'' @ name"] by simp
  have take_name: "takeWhile (\<lambda>c. c \<noteq> CHR ''>'' \<and> c \<noteq> CHR '' '') (name @ d # rest) = name"
    if "d = CHR ''>'' \<or> d = CHR '' ''" for d rest
    using name(2) that by (subst takeWhile_append2) auto
  have "takeWhile (\<lambda>c. c \<noteq> CHR ''>'' \<and> c \<noteq> CHR '' '') (name @ attributes @ ''>'' @ content @ ''</'' @ name @ ''>'') = name"
    using take_name name(2) attributes(2) by (cases attributes) auto
  moreover have "strip_prefix ''<'' ?s = Some (name @ attributes @ ''>'' @ content @ ''</'' @ name @ ''>'')"
    by (simp add: strip_prefix_Some_iff)
  ultimately have tag: "root_tag ?s = Some (after_last CHR '':'' name)" by (simp add: root_tag_def)
  have opened: "find_str ''>'' ?s = Some (1 + length name + length attributes)"
    using find_str_char[of "CHR ''>''" "CHR ''<'' # name @ attributes" "content @ ''</'' @ name @ ''>''"] name(2) attributes(1)
    by simp
  have "find_str (rev ''</'') (rev ?s) = Some (1 + length name)"
    using find_str_pair[of "CHR ''<''" "CHR ''>'' # rev name" "CHR ''/''" "rev content @ ''>'' @ rev attributes @ rev name @ ''<''"] name(2)
    by simp
  then have closed: "rfind_str ''</'' ?s = Some (2 + length name + length attributes + length content)"
    by (simp add: rfind_str_def)
  show ?thesis
    using name(1) content unfolding unwrap_decrypted_wrapper_def trimmed Let_def tag opened closed by auto
qed

section \<open>The backend of the step-up service\<close>

text \<open>
  The backend the step-up service embeds cannot be configured weakly: once built it checks
  responses under a real policy, signs its requests, names the linked subject in them, refuses
  unsolicited responses, never sends the user to a discovery service, and takes metadata from the
  network only when it is signed.
\<close>

theorem stepup_backend_hardened:
  assumes "build_stepup xl xb bx = Inr sx"
  shows "sx_security sx \<noteq> Permissive \<and> sx_sign_requests sx \<and> sx_request_subject sx \<and> \<not> sx_allow_unsolicited sx \<and>
    sx_disco_srv sx = None \<and> sx_state_namespace sx = ''stepup_saml:'' @ bx_name bx \<and>
    (\<forall>client. sx_idp_metadata sx = MdqIdp client \<longrightarrow> \<not> mc_unverified client \<and> mc_certs client \<noteq> [])"
proof -
  from assms have built: "build_concrete xl xb bx True (''stepup_saml:'' @ bx_name bx) = Inr sx"
    and constraints: "stepup_constraints (bx_name bx) sx = Inr ()"
    by (auto simp: build_stepup_def bind_result_eq_Inr)
  from built obtain cfg idp where idp: "sx_idp_metadata sx = idp"
    "(case bc_mdq cfg of Some q \<Rightarrow> mdq_idp xb (bx_name bx) True cfg q | None \<Rightarrow> static_idp xl xb cfg) = Inr idp"
    and fields: "sx_request_subject sx" "sx_state_namespace sx = ''stepup_saml:'' @ bx_name bx"
    unfolding build_concrete_def bind_result_eq_Inr by auto
  have "\<not> mc_unverified client \<and> mc_certs client \<noteq> []" if "idp = MdqIdp client" for client
  proof (cases "bc_mdq cfg")
    case None
    with idp(2) that show ?thesis by (auto simp: static_idp_def bind_result_eq_Inr split: if_split_asm)
  next
    case (Some q)
    with idp(2) that have "\<not> mq_allow_unverified q" "build_mdq_client (xb_mdq xb) q = Inr client"
      by (auto simp: mdq_idp_def bind_result_eq_Inr split: if_split_asm)
    then obtain fetcher where "build_mdq_client_with_fetcher (xb_mdq xb) q fetcher = Inr client"
      by (auto simp: build_mdq_client_def bind_result_eq_Inr)
    from mdq_client_verified[OF this] \<open>\<not> mq_allow_unverified q\<close> show ?thesis by blast
  qed
  with constraints fields idp(1) show ?thesis
    by (auto simp: stepup_constraints_def split: if_split_asm)
qed


section \<open>The report of a detached signature\<close>

text \<open>
  The redirect binding's signature is reported as an XML signature.  A comment says that only an
  XML signature whose reference targets the response satisfies the response-signature check; but the
  id of the response is among the verified ids as soon as the binding is signed, so with any valid
  signature element in the response the validator is told that the XML signature of the response
  itself was verified, whatever that element signs.
\<close>

theorem redirect_signature_reported_as_xml:
  assumes "verify_response xl sx v e (xml, True) = Inr vr" "rsp_has_signature (vr_response vr)"
  shows "vp_response_signature (validation_params_for sx e vr rid now) = Some True"
proof -
  from assms obtain rsp ids acc where ids: "response_signed_ids xl v True xml rsp = Inr ids"
    and vr: "vr = \<lparr> vr_response = rsp\<lparr> rsp_assertions := fst acc, rsp_encrypted := [] \<rparr>, vr_ids = snd acc,
      vr_envelope = True, vr_xml_verified = response_xml_verified ids rsp \<rparr>"
    by (auto simp: verify_response_def parse_idp_response_def open_response_def bind_result_eq_Inr Let_def split: if_split_asm)
  have "rsp_id rsp \<in> set ids"
    using ids by (auto simp: response_signed_ids_def add_verified_signed_id_def bind_result_eq_Inr)
  then show ?thesis using assms(2) by (simp add: vr validation_params_for_def response_xml_verified_def)
qed

section \<open>Valid answers are accepted\<close>


section \<open>The handlers keep to their namespace\<close>

definition confined :: "bool \<Rightarrow> string \<Rightarrow> 'w req_context_scheme \<Rightarrow> 'w req_context_scheme \<Rightarrow> bool" where
  "confined b ns c c' \<longleftrightarrow> cx_request c' = cx_request c \<and> cx_target_backend c' = cx_target_backend c \<and>
     cx_target_frontend c' = cx_target_frontend c \<and>
     (context_wf c \<longrightarrow> context_wf c') \<and>
     (b \<or> context_wf c \<longrightarrow> (\<forall>n k. n \<noteq> ns \<longrightarrow> get_value (cx_state c') n k = get_value (cx_state c) n k))"

lemma get_value_other_namespace:
  "n' \<noteq> n \<Longrightarrow> get_value (set_value n k v s) n' k' = get_value s n' k'"
  by (simp add: set_value_def get_value_def jm_get_insert split: option.splits)

lemma confined_refl [simp]: "confined b ns c c" by (simp add: confined_def)

lemma confined_trans: "confined b ns x y \<Longrightarrow> confined b ns y z \<Longrightarrow> confined b ns x z" by (simp add: confined_def)

lemma confined_steps [simp]:
  "confined b ns c (with_world w c)" "confined b ns c (decorate k v c)" "confined b ns c (mark_interaction_required c)"
  "confined b ns c (with_state (set_value ns k v) c)" "confined b ns c (with_state (set_str ns k s) c)"
  "confined False ns c (with_state (clear_namespace ns) c)"
  by (auto simp: confined_def context_wf_def decorate_def mark_interaction_required_def set_str_def
      get_value_other_namespace get_value_clear)

lemma confined_bind:
  assumes "preserves (confined b ns) m" "\<And>v. preserves (confined b ns) (k v)"
  shows "preserves (confined b ns) (bind_flow m k)"
  using assms unfolding preserves_def bind_flow_def
  by (auto split: prod.splits sum.splits) (metis confined_trans)

lemma confined_basic:
  "preserves (confined b ns) (lift_result x)" "preserves (confined b ns) (in_world f)"
  "preserves (confined b ns) (check_status xl sx rsp)"
  by (auto simp: preserves_def lift_result_def in_world_def check_status_def split: prod.splits if_split_asm)

lemma confined_publish: "confined b ns c (publish_provider scopes pv c)"
  unfolding publish_provider_def by (meson confined_steps(2) confined_trans)

lemma confined_accept: "preserves (confined False (sx_state_namespace sx)) (accept_identity xl sx scopes pv ay)"
  unfolding preserves_def accept_identity_def using confined_publish confined_steps(6) confined_trans by fastforce

lemma confined_process: "preserves (confined False (sx_state_namespace sx)) (process_acs xl sx v e scopes pv)"
proof (rule preservesI)
  fix c r c' assume h: "process_acs xl sx v e scopes pv c = (r, c')"
  have "preserves (confined False (sx_state_namespace sx)) (bind_flow (lift_result x) (\<lambda>decoded.
     bind_flow (lift_result (verify_response xl sx v e decoded)) (\<lambda>vr.
     bind_flow (check_status xl sx (vr_response vr)) (\<lambda>_.
     bind_flow (lift_result (expected_request_id sx (cx_state c) (vr_response vr))) (\<lambda>request_id.
     bind_flow (in_world (validate_response xl sx e vr request_id)) (\<lambda>_.
     bind_flow (lift_result (identity_of xl sx (vr_response vr)))
       (accept_identity xl sx scopes pv)))))))" for x
    by (intro confined_bind confined_basic confined_accept)
  from preservesD[OF this h[unfolded process_acs_def]] show "confined False (sx_state_namespace sx) c c'" .
qed

lemma confined_acs: "preserves (confined False (sx_state_namespace sx)) (handle_acs xl sx)"
proof (rule preservesI)
  fix c r c' assume h: "handle_acs xl sx c = (r, c')"
  show "confined False (sx_state_namespace sx) c c'"
  proof (cases "sx_idp_metadata sx")
    case (StaticIdp url v pv)
    have "preserves (confined False (sx_state_namespace sx)) (bind_flow (lift_result x)
        (\<lambda>expected. process_acs xl sx v expected (sx_static_scopes sx) pv))" for x
      by (intro confined_bind confined_basic confined_process)
    from preservesD[OF this] h StaticIdp show ?thesis by (simp add: handle_acs_def)
  next
    case (MdqIdp client)
    have "preserves (confined False (sx_state_namespace sx)) (bind_flow (lift_result x) (\<lambda>selected.
          bind_flow (in_world (lookup_idp xl client selected)) (\<lambda>resolved.
          bind_flow (lift_result (idp_verifier_from_metadata (xl_load_cert xl) (ri_entity resolved))) (\<lambda>verifier.
            process_acs xl sx verifier selected (ri_scopes resolved) (ri_policy_values resolved)))))" for x
      by (intro confined_bind confined_basic confined_process)
    from preservesD[OF this] h MdqIdp show ?thesis by (simp add: handle_acs_def)
  qed
qed

lemma confined_select: "preserves (confined b (sx_state_namespace sx)) (select_idp xl sx target)"
proof (cases "sx_idp_metadata sx")
  case (StaticIdp url v pv)
  then show ?thesis unfolding select_idp_def by (simp, intro confined_bind confined_basic)
next
  case (MdqIdp client)
  have "preserves (confined b (sx_state_namespace sx))
      (\<lambda>ctx. (x :: (string \<times> string \<times> metadata_values) result, with_state (set_str (sx_state_namespace sx) ''idp_entity_id'' e) ctx))" for x e
    by (simp add: preserves_def)
  with MdqIdp show ?thesis unfolding select_idp_def by (simp, intro confined_bind confined_basic)
qed

lemma confined_send: "preserves (confined b (sx_state_namespace sx)) (send_request xl sx url levels)"
proof (rule preservesI)
  fix c r c' assume h: "send_request xl sx url levels c = (r, c')"
  have "preserves (confined b (sx_state_namespace sx)) (\<lambda>ctx. (x :: response result, with_state (set_str (sx_state_namespace sx) ''authn_id'' i) ctx))" for x i
    by (simp add: preserves_def)
  then have "preserves (confined b (sx_state_namespace sx)) (bind_flow (in_world f) (\<lambda>q.
     bind_flow (lift_result (request_subject xl sx (cx_state c) q)) (\<lambda>q ctx. (encode_request xl sx url q,
        with_state (set_str (sx_state_namespace sx) ''authn_id'' (xl_request_id xl q)) ctx))))" for f
    by (intro confined_bind confined_basic)
  from preservesD[OF this h[unfolded send_request_def]] show "confined b (sx_state_namespace sx) c c'" .
qed

lemma confined_forget: "confined b ns c (with_state (forget_selection ns) (snd (take_handoff ns c)))"
proof -
  have "confined b ns c (snd (take_handoff ns c))" by (simp add: take_handoff_def confined_def context_wf_def)
  moreover have "with_state (forget_selection ns) d =
      with_state (set_value ns STATE_TARGET_ACCR_COMPARISON JNull) (with_state (set_value ns STATE_TARGET_ACCR JNull)
        (with_state (set_value ns STATE_INITIAL_STEPUP_POLICY JNull) d))" for d :: "'a req_context_scheme"
    by (simp add: forget_selection_def with_state_def)
  ultimately show ?thesis by (metis confined_steps(4) confined_trans)
qed

lemma confined_levels: "preserves (confined b (sx_state_namespace sx)) (request_with_levels xl sx idp)"
proof (rule preservesI)
  fix c r c' assume h: "request_with_levels xl sx idp c = (r, c')"
  show "confined b (sx_state_namespace sx) c c'"
  proof (cases "requested_levels (fst (take_handoff (sx_state_namespace sx) c)) (fst (snd idp)) (snd (snd idp))
      (read_target_accr xl (sx_state_namespace sx) c)")
    case (Inl e)
    with h have "c' = snd (take_handoff (sx_state_namespace sx) c)"
      by (simp add: request_with_levels_def Let_def bind_flow_def lift_result_def)
    then show ?thesis by (simp add: take_handoff_def confined_def context_wf_def)
  next
    case (Inr levels)
    with h have "send_request xl sx (fst idp) levels (with_state (forget_selection (sx_state_namespace sx))
        (snd (take_handoff (sx_state_namespace sx) c))) = (r, c')"
      by (simp add: request_with_levels_def Let_def bind_flow_def lift_result_def)
    from preservesD[OF confined_send this] confined_forget confined_trans show ?thesis by blast
  qed
qed

lemma confined_redirect: "preserves (confined b (sx_state_namespace sx)) (build_authn_redirect xl sx target)"
  unfolding build_authn_redirect_def by (intro confined_bind confined_select confined_levels)

lemma confined_dispatch: "preserves (confined b (sx_state_namespace sx)) (dispatch_request xl sx req)"
  using confined_redirect[of b sx xl]
  by (auto simp: preserves_def dispatch_request_def split: if_split_asm option.splits)

lemma confined_start: "preserves (confined b (sx_state_namespace sx)) (saml_start_auth xl sx req)"
proof (rule preservesI)
  fix c r c' assume h: "saml_start_auth xl sx req c = (r, c')"
  have stored: "confined b (sx_state_namespace sx) c (with_state (store_constraints sx req c) c)"
    by (auto simp: confined_def context_wf_def store_constraints_def Let_def get_value_other_namespace)
  have "preserves (confined b (sx_state_namespace sx)) (store_subject sx req)"
    by (auto simp: preserves_def store_subject_def split: if_split_asm option.splits)
  then have "preserves (confined b (sx_state_namespace sx)) (bind_flow (store_subject sx req) (\<lambda>_. dispatch_request xl sx req))"
    by (intro confined_bind confined_dispatch)
  from preservesD[OF this h[unfolded saml_start_auth_def]] stored confined_trans
  show "confined b (sx_state_namespace sx) c c'" by blast
qed

lemma confined_handle: "preserves (confined False (sx_state_namespace sx)) (saml_backend_handle xl sx i)"
proof -
  have disco: "preserves (confined False (sx_state_namespace sx))
      (bind_flow (build_authn_redirect xl sx t) (\<lambda>r. lift_result (Inr (BRespond r))))" for t
    by (intro confined_bind confined_redirect confined_basic)
  show ?thesis
    using preservesD[OF confined_acs[of sx xl]] preservesD[OF disco]
    by (auto simp: saml_backend_handle_def intro!: preservesI split: if_split_asm option.splits)
qed

text \<open>
  The backend is well behaved as a plugin: whatever the request, the endpoint and the result
  (errors included), it keeps the context well formed, leaves the request and both targets alone, and
  changes no entry of the session outside its own namespace.
\<close>

theorem saml_backend_confined:
  assumes "be_start_auth (saml_backend_be xl sx) req c = (r, c') \<or> be_handle (saml_backend_be xl sx) i c = (a, c')"
  shows "cx_request c' = cx_request c \<and> cx_target_backend c' = cx_target_backend c \<and>
    cx_target_frontend c' = cx_target_frontend c \<and>
    (context_wf c \<longrightarrow> context_wf c' \<and>
      (\<forall>n k. n \<noteq> sx_state_namespace sx \<longrightarrow> get_value (cx_state c') n k = get_value (cx_state c) n k))"
proof -
  from assms have "confined False (sx_state_namespace sx) c c'"
    using preservesD[OF confined_start] preservesD[OF confined_handle] by (auto simp: saml_backend_be_def)
  then show ?thesis by (simp add: confined_def)
qed


section \<open>Inside the step-up service\<close>

lemma stepup_namespaces_apart: "''stepup_saml:'' @ name \<noteq> stepup_namespace name'"
  by (simp add: stepup_namespace_def STEPUP_NAMESPACE_PREFIX_def)

lemma build_concrete_namespace: "build_concrete xl xb bx rs ns = Inr sx \<Longrightarrow> sx_state_namespace sx = ns"
  unfolding build_concrete_def bind_result_eq_Inr by auto

text \<open>Starting the second exchange keeps the suspended response.\<close>

lemma stepup_backend_keeps_slot:
  assumes "build_stepup xl xb bx = Inr sx"
  shows "preserves (keeps_slot name) (be_start_auth (sb_backend (stepup_saml_of xl sx)) req)"
proof (rule preservesI)
  fix c r c' assume "be_start_auth (sb_backend (stepup_saml_of xl sx)) req c = (r, c')"
  then have "confined True (sx_state_namespace sx) c c'"
    by (auto simp: stepup_saml_of_def saml_backend_be_def intro: preservesD[OF confined_start])
  moreover have "sx_state_namespace sx = ''stepup_saml:'' @ bx_name bx"
    using assms by (auto simp: build_stepup_def bind_result_eq_Inr dest: build_concrete_namespace)
  moreover from this have "stepup_namespace name \<noteq> sx_state_namespace sx"
    using stepup_namespaces_apart[of "bx_name bx" name] by simp
  ultimately show "keeps_slot name c c'" by (simp add: confined_def keeps_slot_def)
qed


section \<open>Witnesses\<close>

definition toy_sp_constants :: saml_constants where
  "toy_sp_constants = \<lparr> sc_persistent = ''persistent'', sc_transient = ''transient'', sc_unspecified = ''unspecified'',
     sc_format_uri = ''uri'', sc_format_basic = ''basic'', sc_context_password = ''pw'', sc_binding_post = ''post'',
     sc_binding_redirect = ''redirect'', sc_status_requester = ''requester'', sc_invalid_name_id_policy = ''policy'',
     sc_eptid_oid = ''urn:oid:eptid'', sc_email = ''email'', sc_no_passive = ''nopassive'' \<rparr>"

definition toy_assertion :: "unit assertion" where
  "toy_assertion = \<lparr> as_id = ''a1'', as_issuer = ''idp'', as_has_signature = True,
     as_name_id = Some (PlainId \<lparr> ni_value = ''alice'', ni_format = None, ni_name_qualifier = None,
       ni_sp_name_qualifier = None, ni_sp_provided_id = None \<rparr>), as_class_refs = [Some ''loa''],
     as_attribute_statements = [[\<lparr> at_name = ''mail'', at_name_format = None, at_friendly_name = None,
       at_values = [AvString ''a@x''] \<rparr>]], as_rest = () \<rparr>"

definition toy_idp_response :: "unit idp_response" where
  "toy_idp_response = \<lparr> rsp_id = ''r1'', rsp_issuer = Some ''idp'', rsp_has_signature = False,
     rsp_in_response_to = Some ''q1'', rsp_status_code = ''ok'', rsp_sub_status = None, rsp_status_message = None,
     rsp_assertions = [toy_assertion], rsp_encrypted = [], rsp_rest = () \<rparr>"

text \<open>The world is the replay cache; a response is valid for the request it names, once.\<close>

definition toy_sp_mdq :: "string list mdq_ops" where
  "toy_sp_mdq = \<lparr> mo_get = (\<lambda>e w. (Inr (\<lparr> ie_entity_id = e, ie_extensions = None, ie_idp_roles =
       [\<lparr> ir_extensions = None, ir_sso_service = (\<lambda>_. Some (e @ ''/sso'')), ir_signing_certs = [''cert''] \<rparr>] \<rparr>, None), w)),
     mo_clear = id, mo_utf8 = (\<lambda>_. True), mo_parse = (\<lambda>_. None) \<rparr>"

definition toy_sp :: "(string list, unit, unit, string, unit, unit, unit, string) saml_sp_lib" where
  "toy_sp = \<lparr> xl_constants = toy_sp_constants, xl_is_success = (\<lambda>s. s = ''ok''), xl_param = (\<lambda>rq k. bm_get (rq_query rq) k),
     xl_utf8 = Some, xl_b64_decode = Some, xl_to_lowercase = to_ascii_lowercase,
     xl_redirect_decode = (\<lambda>v. None), xl_redirect_verify = (\<lambda>d v. None),
     xl_parse_xml = (\<lambda>s. Some (Some (XElement None ''Response'' [] [XElement (Some SAML_ASSERTION_NS) ''Assertion'' [] [] (Some s)] None))),
     xl_parse_response = (\<lambda>d. Some toy_idp_response), xl_parse_assertion = (\<lambda>d. None), xl_parse_name_id = (\<lambda>d. None),
     xl_load_cert = (\<lambda>c. Some ()), xl_verify_enveloped = (\<lambda>v s. Some (Valid [(True, ''#a1'')])),
     xl_verify_all = (\<lambda>v s. Some [Valid [(True, ''#a1'')]]), xl_security = (\<lambda>s. ()), xl_set_skew = (\<lambda>k g. g),
     xl_validate = (\<lambda>g rsp ps w. ((vp_request_id ps = rsp_in_response_to rsp \<and> Some (vp_idp_entity_id ps) = rsp_issuer rsp \<and>
        ''a1'' \<notin> set w \<and> ''a1'' \<in> set (vp_signed_ids ps), []), ''a1'' # w)),
     xl_extract_attributes = concat, xl_parse_comparison = (\<lambda>s. None), xl_create_request = (\<lambda>q w. (Some ''q1'', w)),
     xl_request_id = id, xl_with_subject = (\<lambda>n q. q), xl_request_xml = Some,
     xl_redirect_encode = (\<lambda>xml b dest relay sg. Some (dest @ ''?'' @ xml)), xl_mdq = (\<lambda>c. toy_sp_mdq),
     xl_scopes = (\<lambda>c w. []), xl_put_scopes = (\<lambda>c sc w. w), xl_metadata_xml = (\<lambda>m. Some ''<md/>''), xl_form_encode = (\<lambda>_. []),
     xl_now = (\<lambda>w. 0), xl_now_rfc3339 = (\<lambda>w. ''now''), xl_redirect = hl_redirect toy_http,
     xl_response_new = (\<lambda>s. hl_text toy_http s []), xl_with_header = (\<lambda>k v r. r) \<rparr>"

definition toy_sx :: "(unit, unit, unit, string) saml_backend" where
  "toy_sx = \<lparr> sx_name = ''saml'', sx_state_namespace = ''saml'', sx_sp_entity_id = ''sp'', sx_acs_url = ''https://p/saml/acs'',
     sx_idp_entity_id = Some ''idp'', sx_disco_srv = None, sx_disco_return_url = ''https://p/saml/disco'',
     sx_idp_metadata = StaticIdp ''https://idp/sso'' [((), ''cert'')] \<lparr> mv_categories = [], mv_certifications = [] \<rparr>,
     sx_signer = (), sx_sign_requests = True, sx_name_id_format = None, sx_sp_cert_b64 = None, sx_security = Production,
     sx_time_diff = None, sx_passthrough = True, sx_scope_subject = True, sx_allow_unsolicited = False, sx_static_scopes = [],
     sx_organization = None, sx_contacts = [], sx_decryptors = [], sx_encryption_certs = [], sx_mapper = toy_mapper,
     sx_request_subject = False \<rparr>"

definition toy_mdq_client :: "unit mdq_client" where
  "toy_mdq_client = \<lparr> mc_url = ''https://mdq'', mc_fetcher = (), mc_transform = Sha1, mc_role = RoleIdp, mc_fallback_ttl = None,
     mc_certs = [''cert''], mc_unverified = False \<rparr>"

definition toy_sx_dynamic :: "(unit, unit, unit, string) saml_backend" where
  "toy_sx_dynamic = toy_sx\<lparr> sx_idp_metadata := MdqIdp toy_mdq_client, sx_idp_entity_id := None, sx_disco_srv := Some ''https://ds'' \<rparr>"

definition toy_sp_start :: "string list req_context_scheme" where
  "toy_sp_start = context_new toy_rq1 state_new []"

definition toy_posted :: "session \<Rightarrow> string list req_context_scheme" where
  "toy_posted s = context_new (toy_rq1\<lparr> rq_form := [(''SAMLResponse'', ''x'')] \<rparr>) s []"

definition toy_sp_state :: session where "toy_sp_state = set_str ''saml'' ''authn_id'' ''q1'' state_new"

definition toy_sp_chosen :: "session \<Rightarrow> string list req_context_scheme" where
  "toy_sp_chosen s = context_new (toy_rq1\<lparr> rq_query := [(''entityID'', ''idp2'')] \<rparr>) s []"

definition toy_sp_cfg :: json where
  "toy_sp_cfg = JObject [(''sp_key_path'', JString ''k''), (''sign_authn_requests'', JBool True),
     (''idp_entity_id'', JString ''idp''), (''idp_sso_url'', JString ''https://idp/sso''), (''idp_cert_path'', JString ''c'')]"

definition toy_sp_build :: "(unit, unit, string) sp_build_lib" where
  "toy_sp_build = \<lparr> xb_read = Some, xb_utf8_lossy = id, xb_b64_decode = Some, xb_load_pem = (\<lambda>p. Some ()),
     xb_decryptor = (\<lambda>k. Some), xb_mdq = \<lparr> mb_fetcher_default = Some (), mb_read = Some, mb_cert_ok = (\<lambda>p. True) \<rparr>,
     xb_contact_type = Some \<rparr>"

lemma toy_sp_steps:
  "is_ok (fst (process_acs toy_sp toy_sx [((), ''cert'')] ''idp'' [] \<lparr> mv_categories = [], mv_certifications = [] \<rparr> (toy_posted toy_sp_state)))"
  "is_ok (fst (saml_start_auth toy_sp toy_sx (internal_default\<lparr> id_force_authn := True \<rparr>) toy_sp_start))"
  "is_ok (fst (saml_backend_handle toy_sp toy_sx ''acs''
     (toy_posted (cx_state (snd (saml_start_auth toy_sp toy_sx (internal_default\<lparr> id_force_authn := True \<rparr>) toy_sp_start))))))"
  "is_ok (fst (saml_start_auth toy_sp toy_sx_dynamic internal_default toy_sp_start))"
  "is_ok (build_stepup toy_sp toy_sp_build (toy_build toy_sp_cfg))"
  "is_ok (verify_response (toy_sp\<lparr> xl_parse_response := (\<lambda>d. Some (toy_idp_response\<lparr> rsp_has_signature := True \<rparr>)) \<rparr>) toy_sx [] ''idp'' (''x'', True))"
  "state_wf (cx_state toy_sp_start)" "context_wf toy_sp_start" "sx_allow_unsolicited toy_sx = False"
  by code_simp+

theorem saml_login_authenticated_witness:
  "\<exists>action c' rsp ps. process_acs toy_sp toy_sx [((), ''cert'')] ''idp'' [] \<lparr> mv_categories = [], mv_certifications = [] \<rparr>
      (toy_posted toy_sp_state) = (Inr action, c') \<and>
     cx_state c' = clear_namespace ''saml'' (cx_state (toy_posted toy_sp_state)) \<and>
     xl_validate toy_sp (security_config toy_sp toy_sx) rsp ps (req_context.more (toy_posted toy_sp_state)) =
       ((True, []), [''a1''])"
proof -
  from run_result[OF toy_sp_steps(1)] obtain action c' where r:
    "process_acs toy_sp toy_sx [((), ''cert'')] ''idp'' [] \<lparr> mv_categories = [], mv_certifications = [] \<rparr>
      (toy_posted toy_sp_state) = (Inr action, c')" by blast
  have ns: "sx_state_namespace toy_sx = ''saml''" by (simp add: toy_sx_def)
  have v: "((True, failures), w') = ((True, []), [''a1''])"
    if "xl_validate toy_sp g rsp ps (req_context.more (toy_posted s)) = ((True, failures), w')" for g rsp ps failures w' s
    using that by (simp add: toy_sp_def toy_posted_def context_new_def)
  from saml_login_authenticated[OF r] obtain vr rid failures w where f:
    "xl_validate toy_sp (security_config toy_sp toy_sx) (vr_response vr) (validation_params_for toy_sx ''idp'' vr rid
      (xl_now toy_sp (req_context.more (toy_posted toy_sp_state)))) (req_context.more (toy_posted toy_sp_state)) = ((True, failures), w)"
    "cx_state c' = clear_namespace (sx_state_namespace toy_sx) (cx_state (toy_posted toy_sp_state))"
    by (elim exE conjE) blast
  show ?thesis using r f(2)[unfolded ns] f(1)[unfolded v[OF f(1)]] by blast
qed

theorem saml_start_ignores_session_witness:
  "fst (saml_start_auth toy_sp toy_sx internal_default toy_sp_start) =
     fst (saml_start_auth toy_sp toy_sx internal_default (with_state (\<lambda>_. toy_sp_state) toy_sp_start))"
  by (rule saml_start_ignores_session) (simp_all add: toy_sp_steps toy_sp_state_def)

theorem saml_login_bound_witness:
  "\<exists>r c1 a c3. saml_start_auth toy_sp toy_sx (internal_default\<lparr> id_force_authn := True \<rparr>) toy_sp_start = (Inr r, c1) \<and>
     saml_backend_handle toy_sp toy_sx ''acs'' (toy_posted (cx_state c1)) = (Inr a, c3) \<and>
     (\<forall>b c5. saml_backend_handle toy_sp toy_sx ''acs'' (toy_posted (cx_state c3)) \<noteq> (Inr b, c5))"
proof -
  from run_result[OF toy_sp_steps(2)] obtain r c1 where
    s: "saml_start_auth toy_sp toy_sx (internal_default\<lparr> id_force_authn := True \<rparr>) toy_sp_start = (Inr r, c1)" by blast
  from run_result[OF toy_sp_steps(3)] s obtain a c3 where
    h: "saml_backend_handle toy_sp toy_sx ''acs'' (toy_posted (cx_state c1)) = (Inr a, c3)" by auto
  have t: "is_dynamic_idp_selection toy_sx \<longrightarrow> or_else (request_target toy_sp toy_sx toy_sp_start) (sx_idp_entity_id toy_sx) = Some ''idp''"
    "\<not> is_dynamic_idp_selection toy_sx \<longrightarrow> sx_idp_entity_id toy_sx = Some ''idp''"
    by (simp_all add: toy_sx_def is_dynamic_idp_selection_def)
  have state: "cx_state (toy_posted x) = x" for x by (simp add: toy_posted_def context_new_def)
  from saml_login_bound[OF s toy_sp_steps(7) t state h] toy_sp_steps(9) state s h show ?thesis by blast
qed

theorem discovery_keeps_constraints_witness:
  "\<exists>r c1. saml_start_auth toy_sp toy_sx_dynamic internal_default toy_sp_start = (Inr r, c1) \<and>
     fst (saml_backend_handle toy_sp toy_sx_dynamic ''disco'' (toy_sp_chosen (cx_state c1))) = map_sum id BRespond
       (fst (saml_start_auth toy_sp toy_sx_dynamic internal_default
          (decorate KEY_TARGET_ENTITYID (JString ''idp2'') (with_world [] toy_sp_start))))"
proof -
  from run_result[OF toy_sp_steps(4)] obtain r c1 where
    s: "saml_start_auth toy_sp toy_sx_dynamic internal_default toy_sp_start = (Inr r, c1)" by blast
  have d: "is_dynamic_idp_selection toy_sx_dynamic" "or_else (request_target toy_sp toy_sx_dynamic toy_sp_start) (sx_idp_entity_id toy_sx_dynamic) = None"
    "decoration toy_sp_start KEY_STEPUP_INITIAL_POLICY \<noteq> Some JNull"
    by code_simp+
  have c: "cx_state (toy_sp_chosen (cx_state c1)) = cx_state c1" "cx_decorations (toy_sp_chosen (cx_state c1)) = []"
    "bm_get (rq_query (cx_request (toy_sp_chosen (cx_state c1)))) ''entityID'' = Some ''idp2''"
    "req_context.more (toy_sp_chosen (cx_state c1)) = []"
    by (simp_all add: toy_sp_chosen_def context_new_def)
  from discovery_keeps_constraints[OF s toy_sp_steps(8) d c(1-3)] s c(4) show ?thesis by simp
qed

theorem scoped_subjects_disjoint_witness:
  "id_subject_id (identity_data toy_sp toy_sx_dynamic \<lparr> ay_name_id = ''alice'', ay_format = None, ay_class_ref = None,
       ay_issuer = ''idp'', ay_attributes = [] \<rparr> []) \<noteq>
   id_subject_id (identity_data toy_sp toy_sx_dynamic \<lparr> ay_name_id = ''alice'', ay_format = None, ay_class_ref = None,
       ay_issuer = ''idp2'', ay_attributes = [] \<rparr> [])"
  by (rule scoped_subjects_disjoint) (simp_all add: toy_sx_dynamic_def toy_sx_def is_dynamic_idp_selection_def)

lemma to_ascii_lowercase_twice: "to_ascii_lowercase (to_ascii_lowercase s) = to_ascii_lowercase s"
proof -
  have "ascii_lower (ascii_lower c) = ascii_lower c" for c
    by (auto simp: ascii_lower_def byte_def)
  then show ?thesis by (simp add: to_ascii_lowercase_def)
qed

theorem passthrough_cannot_forge_witness:
  "\<forall>as. \<forall>k \<in> set (bm_keys (profile_mappings (sx_mapper toy_sx))).
     bm_get (internal_attributes toy_sp toy_sx as) k = bm_get (to_internal (sx_mapper toy_sx) ''saml'' (external_attributes as)) k"
proof -
  have "xl_to_lowercase toy_sp (xl_to_lowercase toy_sp s) = xl_to_lowercase toy_sp s" for s
    by (simp add: toy_sp_def to_ascii_lowercase_twice)
  from passthrough_cannot_forge[of toy_sp, OF this] show ?thesis by blast
qed

theorem decrypted_wrapper_unwrapped_witness:
  "unwrap_decrypted_wrapper ''<saml:EncryptedID a=1><x></y></saml:EncryptedID>'' = ''<x></y>''"
  using decrypted_wrapper_unwrapped[of "''saml:EncryptedID''" "'' a=1''" "''<x></y>''"]
  by (simp add: after_last_def)

theorem stepup_backend_hardened_witness:
  "\<exists>sx. build_stepup toy_sp toy_sp_build (toy_build toy_sp_cfg) = Inr sx \<and> sx_sign_requests sx"
proof -
  from toy_sp_steps(5) obtain sx where b: "build_stepup toy_sp toy_sp_build (toy_build toy_sp_cfg) = Inr sx"
    by (auto simp: is_ok_iff)
  from stepup_backend_hardened[OF b] b show ?thesis by blast
qed

theorem redirect_signature_reported_as_xml_witness:
  "\<exists>vr. verify_response (toy_sp\<lparr> xl_parse_response := (\<lambda>d. Some (toy_idp_response\<lparr> rsp_has_signature := True \<rparr>)) \<rparr>) toy_sx [] ''idp''
       (''x'', True) = Inr vr \<and> vp_response_signature (validation_params_for toy_sx ''idp'' vr None 0) = Some True"
proof -
  let ?xl = "toy_sp\<lparr> xl_parse_response := (\<lambda>d. Some (toy_idp_response\<lparr> rsp_has_signature := True \<rparr>)) \<rparr>"
  from toy_sp_steps(6) obtain vr where v: "verify_response ?xl toy_sx [] ''idp'' (''x'', True) = Inr vr"
    by (auto simp: is_ok_iff)
  from verify_response_Inr[OF v] have "rsp_has_signature (vr_response vr)" by (auto simp: response_opened_def)
  from redirect_signature_reported_as_xml[OF v this] v show ?thesis by blast
qed



theorem saml_backend_confined_witness:
  "context_wf (snd (saml_start_auth toy_sp toy_sx internal_default toy_sp_start))"
  using saml_backend_confined[of toy_sp toy_sx internal_default toy_sp_start
      "fst (saml_start_auth toy_sp toy_sx internal_default toy_sp_start)" "snd (saml_start_auth toy_sp toy_sx internal_default toy_sp_start)"]
    toy_sp_steps(8)
  by (simp add: saml_backend_be_def)

end
