(* ===== verification/Federation_Common.thy ===== *)
theory Federation_Common
  imports Oidc_Common
begin

text \<open>
  What the two OpenID Federation plugins share: the configured trust anchors, the operations of the
  federation library (trust-anchor resolution, the signed entity statement, key sets) as the parameter
  record \<open>fed_lib\<close>, the organization's metadata and the rule that nothing resolved is kept longer than
  the trust anchor vouches for it.
\<close>

section \<open>The federation library\<close>

text \<open>The answer of a trust anchor; a key set is the list of its keys.\<close>

record 'j resolved_entity =
  re_subject :: string
  re_metadata :: json
  re_exp :: "u64 option"
  re_subject_jwks :: "'j list"

type_synonym 'j trust_anchors = "string \<Rightarrow> 'j list option"

record ('w, 'k, 'j) fed_lib =
  fl_dec_jwk :: "json \<Rightarrow> 'j option"
  fl_dec_jwks :: "json \<Rightarrow> 'j list option"
  fl_public_jwks :: "'k \<Rightarrow> 'j list"
  fl_resolve :: "string \<Rightarrow> 'j trust_anchors \<Rightarrow> 'w \<Rightarrow> 'j resolved_entity result \<times> 'w"
  fl_entity_statement ::
    "'k \<Rightarrow> string \<Rightarrow> 'j list \<Rightarrow> string list \<Rightarrow> json \<Rightarrow> json list \<Rightarrow> u64 \<Rightarrow> 'w \<Rightarrow> string result"
  fl_now :: "'w \<Rightarrow> u64"
  fl_response_new :: "u16 \<Rightarrow> response"
  fl_with_header :: "string \<Rightarrow> string \<Rightarrow> response \<Rightarrow> response"
  fl_with_body :: "string \<Rightarrow> response \<Rightarrow> response"

text \<open>\<open>Value::get\<close> with a key.\<close>

abbreviation json_get :: "json \<Rightarrow> string \<Rightarrow> json option" where
  "json_get v k \<equiv> json_field k v"

definition json_get_str :: "json \<Rightarrow> string \<Rightarrow> string option" where
  "json_get_str v k = Option.bind (json_get v k) as_str"

section \<open>Configuration\<close>

record trust_anchor_config =
  ta_entity_id :: string
  ta_keys :: "json list"

definition dec_trust_anchor :: "json \<Rightarrow> trust_anchor_config option" where
  "dec_trust_anchor v = do {
     m \<leftarrow> as_object v;
     e \<leftarrow> dec_required as_str ''entity_id'' m;
     ks \<leftarrow> dec_required as_array ''keys'' m;
     Some \<lparr> ta_entity_id = e, ta_keys = ks \<rparr> }"

definition dec_trust_anchors :: "json \<Rightarrow> trust_anchor_config list option" where
  "dec_trust_anchors v = Option.bind (as_array v) (dec_all dec_trust_anchor)"

definition default_ec_lifetime :: u64 where "default_ec_lifetime = 86400"

text \<open>The anchors by entity id: of two with one id the later counts.\<close>

definition anchor_keys :: "('w, 'k, 'j) fed_lib \<Rightarrow> trust_anchor_config \<Rightarrow> 'j list result" where
  "anchor_keys fl ta =
     traverse (\<lambda>k. ok_or (fl_dec_jwk fl k) (ErrConfig (''trust anchor '' @ ta_entity_id ta @ '': ''))) (ta_keys ta)"

definition build_trust_anchors ::
    "('w, 'k, 'j) fed_lib \<Rightarrow> trust_anchor_config list \<Rightarrow> 'j trust_anchors result" where
  "build_trust_anchors fl tas =
     fold_result (\<lambda>ta anchors. bind_result (anchor_keys fl ta) (\<lambda>jwks. Inr (anchors(ta_entity_id ta \<mapsto> jwks))))
       tas Map.empty"

section \<open>The entity statement\<close>

definition federation_entity :: "string option \<Rightarrow> string option \<Rightarrow> json" where
  "federation_entity name uri =
     JObject ((case name of None \<Rightarrow> [] | Some n \<Rightarrow> [(''organization_name'', JString n)]) @
       (case uri of None \<Rightarrow> [] | Some u \<Rightarrow> [(''homepage_uri'', JString u)]))"

definition entity_statement_response :: "('w, 'k, 'j) fed_lib \<Rightarrow> string \<Rightarrow> response" where
  "entity_statement_response fl jwt =
     fl_with_body fl jwt (fl_with_header fl ''content-type'' ''application/entity-statement+jwt'' (fl_response_new fl 200))"

section \<open>Bounded trust\<close>

text \<open>\<open>checked_sub\<close> and the positive rest: how long the trust anchor still vouches.\<close>

definition remaining_trust :: "u64 \<Rightarrow> u64 \<Rightarrow> u64 option" where
  "remaining_trust now expiry =
     opt_filter (\<lambda>remaining. 0 < remaining) (if expiry < now then None else Some (expiry - now))"

definition cache_ttl_bounded_by_trust :: "u64 \<Rightarrow> u64 \<Rightarrow> u64 option \<Rightarrow> string \<Rightarrow> u64 result" where
  "cache_ttl_bounded_by_trust now configured expiry what =
     bind_result (ok_or expiry (ErrAuthn (what @ '' has no trust-anchor expiry''))) (\<lambda>expiry.
     bind_result (ok_or (remaining_trust now expiry) (ErrAuthn (what @ '' trust decision is expired''))) (\<lambda>remaining.
       Inr (min configured remaining)))"

lemma remaining_trust_Some:
  "remaining_trust now expiry = Some r \<longleftrightarrow> now < expiry \<and> r = expiry - now"
proof -
  have "expiry - now = 0 \<longleftrightarrow> expiry = now" by simp
  then show ?thesis by (auto simp: remaining_trust_def opt_filter_def word_neq_0_conv[symmetric] not_less order_le_less)
qed

text \<open>A lifetime cut to the remaining trust ends no later than the trust, and the sum does not wrap.\<close>

lemma bounded_expiry:
  fixes now expiry ttl :: u64
  assumes "now < expiry"
  shows "unat (now + min ttl (expiry - now)) = unat now + min (unat ttl) (unat expiry - unat now)"
    "now + min ttl (expiry - now) \<le> expiry"
proof -
  have le: "unat now \<le> unat expiry" using assms by (simp add: word_less_nat_alt)
  have m: "unat (min ttl (expiry - now)) = min (unat ttl) (unat expiry - unat now)"
    using unat_sub[OF less_imp_le[OF assms]] by (simp add: min_def word_le_nat_alt)
  have "unat now + min (unat ttl) (unat expiry - unat now) \<le> unat expiry" using le by linarith
  moreover have "unat expiry < 2 ^ LENGTH(64)" by (rule unsigned_less)
  ultimately show s: "unat (now + min ttl (expiry - now)) = unat now + min (unat ttl) (unat expiry - unat now)"
    unfolding m[symmetric] by (subst unat_add_lem[THEN iffD1]) auto
  show "now + min ttl (expiry - now) \<le> expiry"
    unfolding word_le_nat_alt s using le by linarith
qed

end
