(* ===== verification/Federation_Frontend.thy ===== *)
theory Federation_Frontend
  imports Federation_Common Oidc_Frontend
begin

text \<open>
  The OpenID Federation frontend of \<open>federation_frontend.rs\<close>: an OpenID provider whose unknown relying
  parties register through a trust chain.  The provider is the library of \<open>Oidc_Frontend\<close>; its client
  store, the verification of request objects and the slot that holds the cache of failed resolutions are
  the parameter record \<open>rp_registry\<close>.  Shown: which client a login is for and that its request object
  was signed by it, what merging the object may change, that a registration ends with the trust behind
  it, that a failed resolution keeps the trust anchors from being asked again, and that otherwise the
  frontend answers as the OpenID Connect frontend does.
\<close>

section \<open>Clients and their store\<close>

text \<open>The client registration; a struct literal of the source names all of its fields.\<close>

record 'j registration =
  rg_client_id :: string
  rg_client_secret :: "string option"
  rg_redirect_uris :: "string list"
  rg_response_types :: "string list"
  rg_grant_types :: "string list"
  rg_token_endpoint_auth_method :: string
  rg_jwks :: "'j list option"
  rg_scope :: "string option"
  rg_subject_type :: string
  rg_client_name :: "string option"

text \<open>What a request object is checked against.\<close>

record jwt_validation =
  jv_issuer :: string
  jv_audience :: string
  jv_max_age :: u64
  jv_require_exp :: bool

record ('w, 'j) rp_registry =
  rr_get :: "string \<Rightarrow> 'w \<Rightarrow> 'j registration option \<times> 'w"
  rr_put_with_ttl :: "'j registration \<Rightarrow> u64 \<Rightarrow> 'w \<Rightarrow> 'w"
  rr_verify_jwt :: "'j list \<Rightarrow> string \<Rightarrow> jwt_validation \<Rightarrow> 'w \<Rightarrow> jmap result"
  rr_failures :: "'w \<Rightarrow> unit ttl_cache"
  rr_set_failures :: "unit ttl_cache \<Rightarrow> 'w \<Rightarrow> 'w"
  rr_auth_private_key_jwt :: string
  rr_bearer_token :: "http_request \<Rightarrow> string option"
  rr_invalid_request :: "string \<Rightarrow> oauth_error"

section \<open>Configuration\<close>

definition RESOLUTION_FAILURE_TTL :: u64 where "RESOLUTION_FAILURE_TTL = 60"
definition MAX_CACHED_CLIENT_ID_LEN :: nat where "MAX_CACHED_CLIENT_ID_LEN = 512"
definition default_rp_cache_ttl :: u64 where "default_rp_cache_ttl = 3600"
definition default_request_object_max_age :: u64 where "default_request_object_max_age = 300"

record federation_config =
  fc_signing_key_path :: "string option"
  fc_signing_jwk :: "json option"
  fc_signing_jwk_path :: "string option"
  fc_signing_algorithm :: "string option"
  fc_signing_key_id :: "string option"
  fc_authority_hints :: "string list"
  fc_trust_anchor :: "trust_anchor_config list"
  fc_ec_lifetime :: u64
  fc_rp_cache_ttl :: u64
  fc_request_object_max_age :: u64
  fc_organization_name :: "string option"
  fc_organization_uri :: "string option"
  fc_trust_marks :: "json list"

definition dec_federation :: "json \<Rightarrow> federation_config option" where
  "dec_federation v = do {
     m \<leftarrow> as_object v;
     kp \<leftarrow> dec_default dec_opt_str None ''signing_key_path'' m;
     kj \<leftarrow> dec_default dec_opt_json None ''signing_jwk'' m;
     kjp \<leftarrow> dec_default dec_opt_str None ''signing_jwk_path'' m;
     ka \<leftarrow> dec_default dec_opt_str None ''signing_algorithm'' m;
     kid \<leftarrow> dec_default dec_opt_str None ''signing_key_id'' m;
     ah \<leftarrow> dec_default dec_strings [] ''authority_hints'' m;
     ta \<leftarrow> dec_default dec_trust_anchors [] ''trust_anchor'' m;
     ec \<leftarrow> dec_default dec_u64 default_ec_lifetime ''entity_configuration_lifetime'' m;
     rc \<leftarrow> dec_default dec_u64 default_rp_cache_ttl ''rp_cache_ttl'' m;
     ra \<leftarrow> dec_default dec_u64 default_request_object_max_age ''request_object_max_age'' m;
     on \<leftarrow> dec_default dec_opt_str None ''organization_name'' m;
     ou \<leftarrow> dec_default dec_opt_str None ''organization_uri'' m;
     tm \<leftarrow> dec_default as_array [] ''trust_marks'' m;
     Some \<lparr> fc_signing_key_path = kp, fc_signing_jwk = kj, fc_signing_jwk_path = kjp, fc_signing_algorithm = ka,
       fc_signing_key_id = kid, fc_authority_hints = ah, fc_trust_anchor = ta, fc_ec_lifetime = ec,
       fc_rp_cache_ttl = rc, fc_request_object_max_age = ra, fc_organization_name = on,
       fc_organization_uri = ou, fc_trust_marks = tm \<rparr> }"

record federation_frontend_config =
  ffc_entity_id :: "string option"
  ffc_signing_key_path :: "string option"
  ffc_signing_jwk :: "json option"
  ffc_signing_jwk_path :: "string option"
  ffc_signing_algorithm :: "string option"
  ffc_signing_key_id :: "string option"
  ffc_clients :: "json list"
  ffc_clients_file :: "string option"
  ffc_code_ttl :: "u64 option"
  ffc_access_token_ttl :: "u64 option"
  ffc_id_token_ttl :: "u64 option"
  ffc_refresh_token_ttl :: "u64 option"
  ffc_assertion_max_age :: "u64 option"
  ffc_backend :: "string option"
  ffc_federation :: federation_config

definition dec_federation_frontend :: "json \<Rightarrow> federation_frontend_config option" where
  "dec_federation_frontend v = do {
     m \<leftarrow> as_object v;
     ei \<leftarrow> dec_default dec_opt_str None ''entity_id'' m;
     kp \<leftarrow> dec_default dec_opt_str None ''signing_key_path'' m;
     kj \<leftarrow> dec_default dec_opt_json None ''signing_jwk'' m;
     kjp \<leftarrow> dec_default dec_opt_str None ''signing_jwk_path'' m;
     ka \<leftarrow> dec_default dec_opt_str None ''signing_algorithm'' m;
     kid \<leftarrow> dec_default dec_opt_str None ''signing_key_id'' m;
     cs \<leftarrow> dec_default as_array [] ''clients'' m;
     cf \<leftarrow> dec_default dec_opt_str None ''clients_file'' m;
     ct \<leftarrow> dec_default dec_opt_u64 None ''code_ttl'' m;
     at \<leftarrow> dec_default dec_opt_u64 None ''access_token_ttl'' m;
     it \<leftarrow> dec_default dec_opt_u64 None ''id_token_ttl'' m;
     rt \<leftarrow> dec_default dec_opt_u64 None ''refresh_token_ttl'' m;
     am \<leftarrow> dec_default dec_opt_u64 None ''client_assertion_max_age'' m;
     be \<leftarrow> dec_default dec_opt_str None ''backend'' m;
     fd \<leftarrow> dec_required dec_federation ''federation'' m;
     Some \<lparr> ffc_entity_id = ei, ffc_signing_key_path = kp, ffc_signing_jwk = kj, ffc_signing_jwk_path = kjp,
       ffc_signing_algorithm = ka, ffc_signing_key_id = kid, ffc_clients = cs, ffc_clients_file = cf,
       ffc_code_ttl = ct, ffc_access_token_ttl = at, ffc_id_token_ttl = it, ffc_refresh_token_ttl = rt,
       ffc_assertion_max_age = am, ffc_backend = be, ffc_federation = fd \<rparr> }"

record ('w, 'r, 'j, 'p, 'k) federation_frontend =
  ffe_name :: string
  ffe_issuer :: string
  ffe_endpoint_base :: string
  ffe_provider :: "('w, 'r, 'j registration, 'p) provider_lib"
  ffe_mapper :: attribute_mapper
  ffe_fed_key :: 'k
  ffe_authority_hints :: "string list"
  ffe_trust_anchors :: "'j trust_anchors"
  ffe_ec_lifetime :: u64
  ffe_rp_cache_ttl :: u64
  ffe_request_object_max_age :: u64
  ffe_organization_name :: "string option"
  ffe_organization_uri :: "string option"
  ffe_trust_marks :: "json list"
  ffe_backend :: "string option"

text \<open>The provider is built as for OpenID Connect, and accepts request objects.\<close>

record ('k, 'c) federation_setup = "('k, 'c) provider_setup" +
  fs_request_parameter :: bool

record ('w, 'r, 'c, 'p, 'k) federation_builder =
  fb_keys :: "'k key_lib"
  fb_clients :: "'c client_lib"
  fb_key_alg :: "'k \<Rightarrow> string"
  fb_metadata_new :: "string \<Rightarrow> string \<Rightarrow> provider_metadata"
  fb_provider_new :: "('k, 'c) federation_setup \<Rightarrow> ('w, 'r, 'c, 'p) provider_lib result"

definition federation_metadata :: "provider_metadata \<Rightarrow> string \<Rightarrow> attribute_mapper \<Rightarrow> provider_metadata" where
  "federation_metadata metadata alg mapper =
     (let metadata = metadata\<lparr> pm_signing_algs := [alg] \<rparr>;
          metadata = metadata\<lparr> pm_claims := advertise_mapped_claims mapper (pm_claims metadata) \<rparr>
      in metadata\<lparr> pm_extra := jm_insert ''client_registration_types_supported'' (JArray [JString ''automatic'']) (pm_extra metadata) \<rparr>)"

definition federation_lifetimes :: "federation_frontend_config \<Rightarrow> token_lifetimes" where
  "federation_lifetimes cfg =
     \<lparr> tl_code = unwrap_or 600 (ffc_code_ttl cfg), tl_access_token = unwrap_or 3600 (ffc_access_token_ttl cfg),
       tl_id_token = unwrap_or 3600 (ffc_id_token_ttl cfg),
       tl_refresh_token = unwrap_or 2592000 (ffc_refresh_token_ttl cfg) \<rparr>"

definition federation_key :: "'k key_lib \<Rightarrow> federation_config \<Rightarrow> 'k result" where
  "federation_key kl fd = load_signing_key kl (fc_signing_jwk fd) (fc_signing_key_path fd) (fc_signing_jwk_path fd)
     (fc_signing_algorithm fd) (fc_signing_key_id fd)"

definition federation_frontend_configure ::
    "('w, 'r, 'j registration, 'p, 'k) federation_builder \<Rightarrow> ('w, 'k, 'j) fed_lib \<Rightarrow> build_context \<Rightarrow>
      ('w, 'r, 'j, 'p, 'k) federation_frontend result" where
  "federation_frontend_configure fb fl bx =
     bind_result (parse_config dec_federation_frontend bx) (\<lambda>cfg.
     bind_result (validate_authority_mapping (bx_attribute_mapper bx) (bx_name bx)) (\<lambda>_.
     (let issuer = unwrap_or (module_base bx) (ffc_entity_id cfg); fd = ffc_federation cfg
      in bind_result (load_signing_key (fb_keys fb) (ffc_signing_jwk cfg) (ffc_signing_key_path cfg)
            (ffc_signing_jwk_path cfg) (ffc_signing_algorithm cfg) (ffc_signing_key_id cfg)) (\<lambda>op_key.
         bind_result (federation_key (fb_keys fb) fd) (\<lambda>fed_key.
         (let metadata = federation_metadata (fb_metadata_new fb issuer (module_base bx)) (fb_key_alg fb op_key)
                (bx_attribute_mapper bx)
          in bind_result (load_clients (fb_clients fb) (ffc_clients cfg) (ffc_clients_file cfg)) (\<lambda>clients.
             bind_result (fb_provider_new fb
               \<lparr> pv_metadata = metadata, pv_key = op_key, pv_clients = clients,
                 pv_secret = scoped_secret (bx_secret bx) (bx_name bx),
                 pv_previous_secrets = map (\<lambda>s. scoped_secret s (bx_name bx)) (bx_previous_secrets bx),
                 pv_lifetimes = federation_lifetimes cfg, pv_assertion_max_age = ffc_assertion_max_age cfg,
                 fs_request_parameter = True \<rparr>) (\<lambda>provider.
             bind_result (build_trust_anchors fl (fc_trust_anchor fd)) (\<lambda>anchors.
               Inr \<lparr> ffe_name = bx_name bx, ffe_issuer = issuer, ffe_endpoint_base = module_base bx,
                 ffe_provider = provider, ffe_mapper = bx_attribute_mapper bx, ffe_fed_key = fed_key,
                 ffe_authority_hints = fc_authority_hints fd, ffe_trust_anchors = anchors,
                 ffe_ec_lifetime = fc_ec_lifetime fd, ffe_rp_cache_ttl = fc_rp_cache_ttl fd,
                 ffe_request_object_max_age = fc_request_object_max_age fd,
                 ffe_organization_name = fc_organization_name fd, ffe_organization_uri = fc_organization_uri fd,
                 ffe_trust_marks = fc_trust_marks fd, ffe_backend = ffc_backend cfg \<rparr>)))))))))"

definition federation_route :: "('w, 'r, 'j, 'p, 'k) federation_frontend \<Rightarrow> string \<Rightarrow> string" where
  "federation_route fe sfx = ffe_name fe @ ''/'' @ sfx"

section \<open>Registration through the federation\<close>

definition note_resolution_failure :: "('w, 'j) rp_registry \<Rightarrow> u64 \<Rightarrow> string \<Rightarrow> 'w \<Rightarrow> 'w" where
  "note_resolution_failure rr now client_id w =
     (if length client_id > MAX_CACHED_CLIENT_ID_LEN then w
      else rr_set_failures rr (snd (put_if_absent now client_id () RESOLUTION_FAILURE_TTL (rr_failures rr w))) w)"

definition federation_op_metadata :: "json \<Rightarrow> json" where
  "federation_op_metadata document =
     (case document of
        JObject m \<Rightarrow> JObject (jm_insert ''client_registration_types_supported'' (JArray [JString ''automatic'']) m)
      | _ \<Rightarrow> document)"

definition frontend_entity_configuration ::
    "('w, 'k, 'j) fed_lib \<Rightarrow> ('w, 'r, 'j, 'p, 'k) federation_frontend \<Rightarrow> 'w \<Rightarrow> string result" where
  "frontend_entity_configuration fl fe w =
     fl_entity_statement fl (ffe_fed_key fe) (ffe_issuer fe) (fl_public_jwks fl (ffe_fed_key fe)) (ffe_authority_hints fe)
       (JObject [(''openid_provider'', federation_op_metadata (pl_discovery_document (ffe_provider fe))),
          (''federation_entity'', federation_entity (ffe_organization_name fe) (ffe_organization_uri fe))])
       (ffe_trust_marks fe) (ffe_ec_lifetime fe) w"

text \<open>The client a resolved relying party becomes.\<close>

definition client_of_metadata ::
    "('w, 'k, 'j) fed_lib \<Rightarrow> ('w, 'j) rp_registry \<Rightarrow> string \<Rightarrow> json \<Rightarrow> 'j registration" where
  "client_of_metadata fl rr client_id rp_meta =
     \<lparr> rg_client_id = client_id, rg_client_secret = None,
       rg_redirect_uris = (case Option.bind (json_get rp_meta ''redirect_uris'') as_array of
          None \<Rightarrow> [] | Some a \<Rightarrow> List.map_filter as_str a),
       rg_response_types = [''code''], rg_grant_types = [''authorization_code''],
       rg_token_endpoint_auth_method = rr_auth_private_key_jwt rr,
       rg_jwks = Option.bind (json_get rp_meta ''jwks'') (fl_dec_jwks fl),
       rg_scope = json_get_str rp_meta ''scope'',
       rg_subject_type = unwrap_or ''pairwise'' (json_get_str rp_meta ''subject_type''),
       rg_client_name = json_get_str rp_meta ''client_name'' \<rparr>"

definition auto_register ::
    "('w, 'k, 'j) fed_lib \<Rightarrow> ('w, 'j) rp_registry \<Rightarrow> ('w, 'r, 'j, 'p, 'k) federation_frontend \<Rightarrow> string \<Rightarrow>
      ('w, 'j registration) flow" where
  "auto_register fl rr fe client_id =
     bind_flow (fl_resolve fl client_id (ffe_trust_anchors fe)) (\<lambda>resolved.
     bind_flow (lift_result (ok_or (json_get (re_metadata resolved) ''openid_relying_party'')
         (ErrAuthn ''resolved metadata has no openid_relying_party''))) (\<lambda>rp_meta w.
     (let client = client_of_metadata fl rr client_id rp_meta
      in case cache_ttl_bounded_by_trust (fl_now fl w) (ffe_rp_cache_ttl fe) (re_exp resolved) ''resolved federation RP'' of
           Inl e \<Rightarrow> (Inl e, w)
         | Inr ttl \<Rightarrow> (Inr client, rr_put_with_ttl rr client ttl w))))"

text \<open>The known client, or the federation's; none when the client is unknown or failed a moment ago.\<close>

definition resolve_client ::
    "('w, 'k, 'j) fed_lib \<Rightarrow> ('w, 'j) rp_registry \<Rightarrow> ('w, 'r, 'j, 'p, 'k) federation_frontend \<Rightarrow> string \<Rightarrow>
      'w \<Rightarrow> 'j registration option \<times> 'w" where
  "resolve_client fl rr fe client_id w =
     (case rr_get rr client_id w of
        (Some c, w) \<Rightarrow> (Some c, w)
      | (None, w) \<Rightarrow>
          if cache_get (fl_now fl w) (rr_failures rr w) client_id \<noteq> None then (None, w)
          else (case auto_register fl rr fe client_id w of
                  (Inr c, w) \<Rightarrow> (Some c, w)
                | (Inl e, w) \<Rightarrow> (None, note_resolution_failure rr (fl_now fl w) client_id w)))"

section \<open>Request objects\<close>

definition merge_signed_claim :: "string \<times> json \<Rightarrow> (string \<times> string) list \<Rightarrow> (string \<times> string) list result" where
  "merge_signed_claim e params =
     (case as_str (snd e) of
        None \<Rightarrow> Inr params
      | Some s \<Rightarrow>
          if list_ex (\<lambda>(name, outer). name = fst e \<and> outer \<noteq> s) params
          then Inl (ErrAuthn (''request object parameter '' @ fst e @ '' conflicts with outer request''))
          else if list_ex (\<lambda>(name, _). name = fst e) params then Inr params
          else Inr (params @ [(fst e, s)]))"

definition request_object_validation ::
    "('w, 'r, 'j, 'p, 'k) federation_frontend \<Rightarrow> 'j registration \<Rightarrow> jwt_validation" where
  "request_object_validation fe client =
     \<lparr> jv_issuer = rg_client_id client, jv_audience = ffe_issuer fe, jv_max_age = ffe_request_object_max_age fe,
       jv_require_exp = True \<rparr>"

definition unpack_request_object ::
    "('w, 'j) rp_registry \<Rightarrow> ('w, 'r, 'j, 'p, 'k) federation_frontend \<Rightarrow> 'j registration \<Rightarrow> 'w \<Rightarrow>
      (string \<times> string) list \<Rightarrow> (string \<times> string) list result" where
  "unpack_request_object rr fe client w params =
     (case position (\<lambda>(name, _). name = ''request'') params of
        None \<Rightarrow> Inr params
      | Some i \<Rightarrow>
          bind_result (ok_or (rg_jwks client) (ErrAuthn ''client has no keys to verify request object'')) (\<lambda>jwks.
          bind_result (rr_verify_jwt rr jwks (snd (params ! i)) (request_object_validation fe client) w) (\<lambda>claims.
          bind_result (ok_or (Option.bind (jm_get claims ''client_id'') as_str)
              (ErrAuthn ''request object missing client_id'')) (\<lambda>inner.
          if inner \<noteq> rg_client_id client
          then Inl (ErrAuthn ''request object client_id does not match outer client_id'')
          else fold_result merge_signed_claim claims (take i params @ drop (Suc i) params)))))"

section \<open>The authorization endpoint\<close>

fun duplicate_param :: "string list \<Rightarrow> (string \<times> string) list \<Rightarrow> string option" where
  "duplicate_param seen [] = None"
| "duplicate_param seen ((name, _) # params) =
     (if name = ''resource'' then duplicate_param seen params
      else if name \<in> set seen then Some name
      else duplicate_param (name # seen) params)"

definition fed_store_authz_request ::
    "('w, 'r, 'j, 'p, 'k) federation_frontend \<Rightarrow> 'r \<Rightarrow> ('w, unit) handler" where
  "fed_store_authz_request fe req ctx =
     (case ol_to_json (pl_op (ffe_provider fe)) req of
        None \<Rightarrow> (Inl (ol_json_error (pl_op (ffe_provider fe))), ctx)
      | Some v \<Rightarrow> (Inr (), with_state (set_value (ffe_name fe) AUTHZ_KEY v) ctx))"

definition fed_load_authz_request ::
    "('w, 'r, 'j, 'p, 'k) federation_frontend \<Rightarrow> 'w req_context_scheme \<Rightarrow> 'r option" where
  "fed_load_authz_request fe ctx =
     Option.bind (get_value (cx_state ctx) (ffe_name fe) AUTHZ_KEY) (ol_of_json (pl_op (ffe_provider fe)))"

definition start_federated_login ::
    "('w, 'r, 'j, 'p, 'k) federation_frontend \<Rightarrow> 'r \<Rightarrow> 'j registration \<Rightarrow> ('w, frontend_action) handler" where
  "start_federated_login fe req client =
     bind_flow (fed_store_authz_request fe req) (\<lambda>_.
     bind_flow (bind_authorization_client (pl_op (ffe_provider fe)) (ffe_name fe) client) (\<lambda>_.
     lift_result (Inr (StartAuth
       (apply_prompt_constraints (pl_op (ffe_provider fe)) req
         (case rg_client_name client of
            Some n \<Rightarrow> (internal_request (ol_client_id (pl_op (ffe_provider fe)) req))\<lparr> id_requester_name := [n] \<rparr>
          | None \<Rightarrow> internal_request (ol_client_id (pl_op (ffe_provider fe)) req)))
       (ffe_backend fe)))))"

text \<open>Parsing and validating the merged request.\<close>

definition validated_login ::
    "('w, 'r, 'j, 'p, 'k) federation_frontend \<Rightarrow> (string \<times> string) list \<Rightarrow> ('w, frontend_action) handler" where
  "validated_login fe params ctx =
     (let ol = pl_op (ffe_provider fe)
      in case ol_from_pairs ol params of
           Inl e \<Rightarrow> (Inr (FRespond (ol_to_response ol e)), ctx)
         | Inr req \<Rightarrow>
             (case in_world (ol_validate ol req) ctx of
                (Inl e, ctx) \<Rightarrow> (Inr (FRespond (ol_to_response ol e)), ctx)
              | (Inr client, ctx) \<Rightarrow> start_federated_login fe req client ctx))"

definition fed_handle_authorization ::
    "('w, 'k, 'j) fed_lib \<Rightarrow> ('w, 'j) rp_registry \<Rightarrow> ('w, 'r, 'j, 'p, 'k) federation_frontend \<Rightarrow> ('w, frontend_action) handler" where
  "fed_handle_authorization fl rr fe ctx =
     (let ol = pl_op (ffe_provider fe); params = rq_query_pairs (cx_request ctx)
      in case duplicate_param [] params of
           Some name \<Rightarrow> (Inr (FRespond (ol_to_response ol
             (rr_invalid_request rr (''duplicate authorization parameter: '' @ name)))), ctx)
         | None \<Rightarrow>
      (case List.find (\<lambda>(name, _). name = ''client_id'') params of
         None \<Rightarrow> (Inl (ErrBadRequest ''missing client_id''), ctx)
       | Some (_, client_id) \<Rightarrow>
      (case in_world (resolve_client fl rr fe client_id) ctx of
         (None, ctx) \<Rightarrow> (Inr (FRespond (ol_to_response ol (oauth_new InvalidRequest ''client could not be resolved''))), ctx)
       | (Some client, ctx) \<Rightarrow>
           (case unpack_request_object rr fe client (req_context.more ctx) params of
              Inl e \<Rightarrow> (Inr (FRespond (ol_to_response ol (oauth_new InvalidRequest ''request object is invalid''))), ctx)
            | Inr params \<Rightarrow> validated_login fe params ctx))))"

section \<open>Tokens and user info\<close>

definition fed_handle_token ::
    "('w, 'r, 'j, 'p, 'k) federation_frontend \<Rightarrow> http_request \<Rightarrow> 'w \<Rightarrow> response \<times> 'w" where
  "fed_handle_token fe rq w =
     (let pl = ffe_provider fe; ol = pl_op pl
      in case pl_handle_token pl (rq_form_pairs rq) (pl_authorization pl rq) (ffe_endpoint_base fe @ ''/token'') None w of
           (Inr tokens, w) \<Rightarrow>
             (case pl_json pl tokens of
                Inr r \<Rightarrow> (pl_with_header pl ''cache-control'' ''no-store'' r, w)
              | Inl _ \<Rightarrow> (ol_to_response ol (oauth_new ServerError ''response could not be created''), w))
         | (Inl e, w) \<Rightarrow> (ol_to_response ol e, w))"

definition fed_handle_userinfo ::
    "('w, 'j) rp_registry \<Rightarrow> ('w, 'r, 'j, 'p, 'k) federation_frontend \<Rightarrow> http_request \<Rightarrow> 'w \<Rightarrow> response \<times> 'w" where
  "fed_handle_userinfo rr fe rq w =
     (let pl = ffe_provider fe; ol = pl_op pl
      in case rr_bearer_token rr rq of
           None \<Rightarrow> (ol_to_response ol (oauth_new AccessDenied ''missing bearer token''), w)
         | Some token \<Rightarrow>
             (case pl_userinfo pl token None w of
                (Inr claims, w) \<Rightarrow>
                  (case pl_json pl claims of
                     Inr r \<Rightarrow> (r, w)
                   | Inl _ \<Rightarrow> (ol_to_response ol (oauth_new ServerError ''response could not be created''), w))
              | (Inl e, w) \<Rightarrow> (ol_to_response ol e, w)))"

section \<open>The frontend\<close>

definition federation_frontend_handle ::
    "('w, 'k, 'j) fed_lib \<Rightarrow> ('w, 'j) rp_registry \<Rightarrow> ('w, 'r, 'j, 'p, 'k) federation_frontend \<Rightarrow> string \<Rightarrow>
      ('w, frontend_action) handler" where
  "federation_frontend_handle fl rr fe route_id ctx =
     (let pl = ffe_provider fe
      in if route_id = ''entity_configuration'' then
           (map_sum id (\<lambda>jwt. FRespond (entity_statement_response fl jwt))
              (frontend_entity_configuration fl fe (req_context.more ctx)), ctx)
         else if route_id = ''discovery'' then (map_sum id FRespond (pl_json pl (pl_discovery_document pl)), ctx)
         else if route_id = ''jwks'' then (map_sum id FRespond (pl_json pl (pl_jwks_document pl)), ctx)
         else if route_id = ''authorization'' then fed_handle_authorization fl rr fe ctx
         else if route_id = ''token'' then
           (case in_world (fed_handle_token fe (cx_request ctx)) ctx of (r, ctx) \<Rightarrow> (Inr (FRespond r), ctx))
         else if route_id = ''userinfo'' then
           (case in_world (fed_handle_userinfo rr fe (cx_request ctx)) ctx of (r, ctx) \<Rightarrow> (Inr (FRespond r), ctx))
         else (Inl (ErrNoBoundEndpoint route_id), ctx))"

definition federation_frontend_routes :: "('w, 'r, 'j, 'p, 'k) federation_frontend \<Rightarrow> route list" where
  "federation_frontend_routes fe =
     [route_exact (federation_route fe ''.well-known/openid-federation'') ''entity_configuration'',
      route_exact (federation_route fe ''.well-known/openid-configuration'') ''discovery'',
      route_exact (federation_route fe ''jwks'') ''jwks'',
      route_exact (federation_route fe ''authorization'') ''authorization'',
      route_exact (federation_route fe ''token'') ''token'',
      route_exact (federation_route fe ''userinfo'') ''userinfo'']"

definition fed_render :: "('w, 'r, 'j, 'p, 'k) federation_frontend \<Rightarrow> internal_data \<Rightarrow> ('w, response) handler" where
  "fed_render fe d ctx =
     (let pl = ffe_provider fe; ol = pl_op pl
      in case fed_load_authz_request fe ctx of
           None \<Rightarrow> (Inl (ErrState ''no in-flight authorization request''), ctx)
         | Some req \<Rightarrow>
             (let external = from_internal (ffe_mapper fe) ''openid'' (id_attributes d);
                  acr = ai_class_ref (id_auth_info d);
                  resolver = (\<lambda>client.
                    case resolve_authorization_subject ol ctx (ffe_name fe) client d (ffe_mapper fe) of
                      Inl e \<Rightarrow> Inl (e\<lparr> oe_state := ol_state ol req \<rparr>) | Inr s \<Rightarrow> Inr s)
              in case authenticating_authority_claims (ffe_mapper fe) external (ai_issuer (id_auth_info d)) of
                (extra, external) \<Rightarrow>
                  (case in_world (pl_redirect_with_claims pl req resolver external acr extra) ctx of
                     (Inr r, ctx) \<Rightarrow> (Inr r, ctx)
                   | (Inl e, ctx) \<Rightarrow>
                       (case in_world (authorization_error_response ol req e) ctx of (r, ctx) \<Rightarrow> (Inr r, ctx)))))"

definition fed_error :: "('w, 'r, 'j, 'p, 'k) federation_frontend \<Rightarrow> error \<Rightarrow> ('w, response) handler" where
  "fed_error fe e ctx =
     (let ol = pl_op (ffe_provider fe)
      in case fed_load_authz_request fe ctx of
           None \<Rightarrow> (Inr (pl_text (ffe_provider fe) 500 ''authentication could not be completed''), ctx)
         | Some req \<Rightarrow>
             (case in_world (authorization_error_response ol req
                  (backend_authorization_error ol req e (interaction_required ctx))) ctx of
                (r, ctx) \<Rightarrow> (Inr r, ctx)))"

definition federation_frontend_fe ::
    "('w, 'k, 'j) fed_lib \<Rightarrow> ('w, 'j) rp_registry \<Rightarrow> ('w, 'r, 'j, 'p, 'k) federation_frontend \<Rightarrow> 'w frontend" where
  "federation_frontend_fe fl rr fe =
     \<lparr> fe_name = ffe_name fe, fe_register = (\<lambda>_. federation_frontend_routes fe),
       fe_handle = federation_frontend_handle fl rr fe, fe_render = fed_render fe, fe_error = fed_error fe \<rparr>"

definition federation_frontend_build ::
    "('w, 'r, 'j registration, 'p, 'k) federation_builder \<Rightarrow> ('w, 'k, 'j) fed_lib \<Rightarrow> ('w, 'j) rp_registry \<Rightarrow>
      'w frontend ctor" where
  "federation_frontend_build fb fl rr bx =
     bind_result (federation_frontend_configure fb fl bx) (\<lambda>fe. Inr (federation_frontend_fe fl rr fe))"

end
