(* ===== verification/Federation_Frontend_Props.thy ===== *)
theory Federation_Frontend_Props
  imports Federation_Frontend
begin

text \<open>
  What the federation frontend guarantees: the client a login is for, how long its registration and a
  failed resolution are kept, and that everything else is the OpenID Connect frontend without proofs of
  possession.
\<close>

section \<open>Merging a request object\<close>

lemma merge_signed_step:
  assumes "merge_signed_claim (k, v) params = Inr params1"
  obtains (other) "\<And>s. v \<noteq> JString s" "params1 = params"
  | (signed) s where "v = JString s" "\<And>o'. (k, o') \<in> set params1 \<Longrightarrow> o' = s" "(k, s) \<in> set params1"
      "params1 = params \<or> params1 = params @ [(k, s)]"
proof (cases "as_str v")
  case None
  then have "v \<noteq> JString s" for s by auto
  moreover have "params1 = params" using assms None by (simp add: merge_signed_claim_def)
  ultimately show ?thesis by (rule other)
next
  case (Some s)
  with assms show ?thesis
    by (intro signed[of s]) (auto simp: merge_signed_claim_def list_ex_iff split: if_split_asm)
qed

lemma merge_signed_extends:
  "fold_result merge_signed_claim claims params = Inr params' \<Longrightarrow>
     \<exists>new. params' = params @ new \<and> (\<forall>k s. (k, s) \<in> set new \<longrightarrow> (k, JString s) \<in> set claims)"
proof (induction claims arbitrary: params)
  case (Cons e claims)
  obtain k v where e: "e = (k, v)" by (cases e)
  from Cons.prems obtain params1 where step: "merge_signed_claim (k, v) params = Inr params1"
    and rest: "fold_result merge_signed_claim claims params1 = Inr params'"
    by (auto simp: bind_result_eq_Inr e)
  from Cons.IH[OF rest] obtain new where new: "params' = params1 @ new"
    "\<And>k s. (k, s) \<in> set new \<Longrightarrow> (k, JString s) \<in> set claims" by blast
  from step show ?case
  proof (cases rule: merge_signed_step)
    case other
    with new show ?thesis by (intro exI[of _ new]) simp
  next
    case (signed s)
    from signed(4) show ?thesis
    proof
      assume "params1 = params"
      with new show ?thesis by (intro exI[of _ new]) simp
    next
      assume "params1 = params @ [(k, s)]"
      with new signed(1) e show ?thesis by (intro exI[of _ "(k, s) # new"]) auto
    qed
  qed
qed simp

lemma merge_signed_only:
  "fold_result merge_signed_claim claims params = Inr params' \<Longrightarrow> (k, JString s) \<in> set claims \<Longrightarrow>
     (k, s) \<in> set params' \<and> (\<forall>o'. (k, o') \<in> set params' \<longrightarrow> o' = s)"
proof (induction claims arbitrary: params k s)
  case (Cons e claims)
  obtain k' v where e: "e = (k', v)" by (cases e)
  from Cons.prems(1) obtain params1 where step: "merge_signed_claim (k', v) params = Inr params1"
    and rest: "fold_result merge_signed_claim claims params1 = Inr params'"
    by (auto simp: bind_result_eq_Inr e)
  show ?case
  proof (cases "(k, JString s) \<in> set claims")
    case True
    from Cons.IH[OF rest this] show ?thesis .
  next
    case False
    with Cons.prems(2) e have kv: "k' = k" "v = JString s" by auto
    from merge_signed_extends[OF rest] obtain new where new: "params' = params1 @ new"
      "\<And>k s. (k, s) \<in> set new \<Longrightarrow> (k, JString s) \<in> set claims" by blast
    from step show ?thesis
    proof (cases rule: merge_signed_step)
      case other
      with kv show ?thesis by simp
    next
      case (signed s')
      have "s' = s" using signed(1) kv(2) by simp
      note first = signed(2,3)[unfolded kv(1) this]
      have "o' = s" if o': "(k, o') \<in> set new" for o'
      proof -
        have "(k, s) \<in> set params'" using first(2) new(1) by simp
        with Cons.IH[OF rest new(2)[OF o']] show ?thesis by blast
      qed
      then show ?thesis unfolding new(1) set_append using first by blast
    qed
  qed
qed simp

lemma duplicate_param_None:
  "duplicate_param seen params = None \<Longrightarrow> k \<noteq> ''resource'' \<Longrightarrow>
     (k \<in> set seen \<longrightarrow> k \<notin> set (map fst params)) \<and> length (filter (\<lambda>p. fst p = k) params) \<le> 1"
proof (induction seen params rule: duplicate_param.induct)
  case (2 seen name v params)
  show ?case
  proof (cases "name = k")
    case True
    with 2 have "k \<notin> set seen" "duplicate_param (k # seen) params = None" by (auto split: if_split_asm)
    with 2(2) True 2(4) have "k \<notin> set (map fst params)" by auto
    then have "filter (\<lambda>p. fst p = k) params = []" by (auto simp: filter_empty_conv)
    with True \<open>k \<notin> set seen\<close> show ?thesis by simp
  next
    case False
    with 2 show ?thesis by (auto split: if_split_asm)
  qed
qed simp

definition only_value :: "(string \<times> string) list \<Rightarrow> string \<Rightarrow> string \<Rightarrow> bool" where
  "only_value params k v \<longleftrightarrow> (k, v) \<in> set params \<and> (\<forall>o'. (k, o') \<in> set params \<longrightarrow> o' = v)"

lemma only_valueD: "only_value params k v \<Longrightarrow> (k, v) \<in> set params"
  by (simp add: only_value_def)

lemma at_most_one: "length xs \<le> 1 \<Longrightarrow> x \<in> set xs \<Longrightarrow> y \<in> set xs \<Longrightarrow> x = y"
  by (cases xs) auto

lemma unique_param:
  assumes "duplicate_param [] params = None" "List.find (\<lambda>(name, _). name = k) params = Some (k', v)" "k \<noteq> ''resource''"
  shows "only_value params k v"
proof -
  have mem: "(k, v) \<in> set params"
    using assms(2)
  proof (induction params)
    case (Cons p params)
    then show ?case by (cases p) (simp split: if_split_asm)
  qed simp
  have "o' = v" if "(k, o') \<in> set params" for o'
  proof -
    have "length (filter (\<lambda>p. fst p = k) params) \<le> 1" by (rule conjunct2[OF duplicate_param_None[OF assms(1,3)]])
    moreover have "(k, v) \<in> set (filter (\<lambda>p. fst p = k) params)" "(k, o') \<in> set (filter (\<lambda>p. fst p = k) params)"
      using mem that by simp_all
    ultimately have "(k, v) = (k, o')" by (rule at_most_one)
    then show ?thesis by simp
  qed
  then show ?thesis unfolding only_value_def by (intro conjI mem allI impI)
qed

text \<open>
  What a verified request object vouches for: the parameters are the given ones followed by text
  claims of the object and nothing else, and each text claim is the only value of its parameter.
\<close>

definition signed_by_client ::
    "('w, 'j) rp_registry \<Rightarrow> ('w, 'r, 'j, 'p, 'k) federation_frontend \<Rightarrow> 'j registration \<Rightarrow> 'w \<Rightarrow> string \<Rightarrow>
      (string \<times> string) list \<Rightarrow> (string \<times> string) list \<Rightarrow> bool" where
  "signed_by_client rr fe client w jwt given params \<longleftrightarrow>
     (\<exists>jwks claims. rg_jwks client = Some jwks \<and>
        rr_verify_jwt rr jwks jwt \<lparr> jv_issuer = rg_client_id client, jv_audience = ffe_issuer fe,
          jv_max_age = ffe_request_object_max_age fe, jv_require_exp = True \<rparr> w = Inr claims \<and>
        jm_get claims ''client_id'' = Some (JString (rg_client_id client)) \<and>
        (\<forall>k s. (k, JString s) \<in> set claims \<longrightarrow> only_value params k s) \<and>
        (\<exists>new. params = given @ new \<and> (\<forall>k s. (k, s) \<in> set new \<longrightarrow> (k, JString s) \<in> set claims)))"

lemma unpack_Inr:
  assumes "unpack_request_object rr fe client w params = Inr params'"
  shows "case position (\<lambda>(name, _). name = ''request'') params of
      None \<Rightarrow> params' = params
    | Some i \<Rightarrow> signed_by_client rr fe client w (snd (params ! i)) (take i params @ drop (Suc i) params) params'"
proof (cases "position (\<lambda>(name, _). name = ''request'') params")
  case (Some i)
  with assms obtain jwks claims where h: "rg_jwks client = Some jwks"
    "rr_verify_jwt rr jwks (snd (params ! i)) (request_object_validation fe client) w = Inr claims"
    "jm_get claims ''client_id'' = Some (JString (rg_client_id client))"
    "fold_result merge_signed_claim claims (take i params @ drop (Suc i) params) = Inr params'"
    by (auto simp: unpack_request_object_def bind_result_eq_Inr bind_eq_Some_conv split: if_split_asm)
  have "signed_by_client rr fe client w (snd (params ! i)) (take i params @ drop (Suc i) params) params'"
    unfolding signed_by_client_def
  proof (rule exI[of _ jwks], rule exI[of _ claims], intro conjI)
    show "rg_jwks client = Some jwks" by (rule h(1))
    show "rr_verify_jwt rr jwks (snd (params ! i)) \<lparr> jv_issuer = rg_client_id client, jv_audience = ffe_issuer fe,
          jv_max_age = ffe_request_object_max_age fe, jv_require_exp = True \<rparr> w = Inr claims"
      using h(2) by (simp add: request_object_validation_def)
    show "jm_get claims ''client_id'' = Some (JString (rg_client_id client))" by (rule h(3))
    show "\<forall>k s. (k, JString s) \<in> set claims \<longrightarrow> only_value params' k s"
      using merge_signed_only[OF h(4)] by (simp add: only_value_def)
    show "\<exists>new. params' = (take i params @ drop (Suc i) params) @ new \<and> (\<forall>k s. (k, s) \<in> set new \<longrightarrow> (k, JString s) \<in> set claims)"
      by (rule merge_signed_extends[OF h(4)])
  qed
  with Some show ?thesis by simp
qed (use assms in \<open>simp add: unpack_request_object_def\<close>)

section \<open>The client of a login\<close>

lemma request_not_client_id: "(''client_id'', v) \<noteq> (''request'', v')" by simp

lemma in_set_remove_middle: "xs = ys @ z # zs \<Longrightarrow> x \<in> set xs \<Longrightarrow> x \<noteq> z \<Longrightarrow> x \<in> set (ys @ zs)"
  by auto

lemma validated_login_StartD:
  assumes "validated_login fe params c = (Inr (StartAuth d b), c')"
  shows "\<exists>req registered w. ol_from_pairs (pl_op (ffe_provider fe)) params = Inr req \<and>
    ol_validate (pl_op (ffe_provider fe)) req (req_context.more c) = (Inr registered, w) \<and>
    start_federated_login fe req registered (with_world w c) = (Inr (StartAuth d b), c')"
proof -
  obtain req where r: "ol_from_pairs (pl_op (ffe_provider fe)) params = Inr req"
    using assms by (cases "ol_from_pairs (pl_op (ffe_provider fe)) params") (auto simp: validated_login_def Let_def)
  obtain x w where v: "ol_validate (pl_op (ffe_provider fe)) req (req_context.more c) = (x, w)" by (metis prod.exhaust)
  with assms r show ?thesis
    by (cases x) (auto simp: validated_login_def Let_def in_world_def)
qed

lemma start_federated_loginD:
  assumes "start_federated_login fe req client c = (Inr (StartAuth d b), c')"
  shows "\<exists>v f. ol_to_json (pl_op (ffe_provider fe)) req = Some v \<and>
    client_fingerprint (pl_op (ffe_provider fe)) client = Some f \<and> b = ffe_backend fe \<and>
    id_requester d = Some (ol_client_id (pl_op (ffe_provider fe)) req) \<and>
    id_force_authn d = ol_has_prompt (pl_op (ffe_provider fe)) req ''login'' \<and>
    id_is_passive d = ol_has_prompt (pl_op (ffe_provider fe)) req ''none'' \<and>
    c' = with_state (set_value (ffe_name fe) AUTHORIZATION_CLIENT (JString f))
      (with_state (set_value (ffe_name fe) AUTHZ_KEY v) c)"
  using assms
  by (auto simp: start_federated_login_def bind_flow_eq_Inr lift_result_eq fed_store_authz_request_def
      bind_authorization_client_def apply_prompt_constraints_def internal_request_def split: option.splits)

text \<open>
  C9. A federated login is for the client that asked.  When the authorization endpoint starts a login, the
  query named one client, which is registered or was just resolved through the trust anchors; if the
  query carried a request object, that client's keys signed it for this provider, within the configured
  age and with an expiry; the parameters acted on are those of the query except the object, followed
  by text claims of that verified object and nothing else, every text claim of the object is the only
  value of its parameter (the client identifier among them), and the login's requester, prompts and stored request are read from exactly
  those parameters after the provider validated them.
\<close>

theorem federated_login_verified:
  assumes "fed_handle_authorization fl rr fe c = (Inr (StartAuth d b), c')"
  shows "\<exists>client_id client w params req registered w' v f.
    only_value (rq_query_pairs (cx_request c)) ''client_id'' client_id \<and>
    resolve_client fl rr fe client_id (req_context.more c) = (Some client, w) \<and>
    (case position (\<lambda>(name, _). name = ''request'') (rq_query_pairs (cx_request c)) of
       None \<Rightarrow> params = rq_query_pairs (cx_request c)
     | Some i \<Rightarrow> signed_by_client rr fe client w (snd (rq_query_pairs (cx_request c) ! i))
           (take i (rq_query_pairs (cx_request c)) @ drop (Suc i) (rq_query_pairs (cx_request c))) params \<and>
         only_value params ''client_id'' (rg_client_id client) \<and> rg_client_id client = client_id) \<and>
    ol_from_pairs (pl_op (ffe_provider fe)) params = Inr req \<and>
    ol_validate (pl_op (ffe_provider fe)) req w = (Inr registered, w') \<and>
    id_requester d = Some (ol_client_id (pl_op (ffe_provider fe)) req) \<and> b = ffe_backend fe \<and>
    id_force_authn d = ol_has_prompt (pl_op (ffe_provider fe)) req ''login'' \<and>
    id_is_passive d = ol_has_prompt (pl_op (ffe_provider fe)) req ''none'' \<and>
    ol_to_json (pl_op (ffe_provider fe)) req = Some v \<and> client_fingerprint (pl_op (ffe_provider fe)) registered = Some f \<and>
    cx_state c' = set_value (ffe_name fe) AUTHORIZATION_CLIENT (JString f) (set_value (ffe_name fe) AUTHZ_KEY v (cx_state c))"
proof -
  let ?q = "rq_query_pairs (cx_request c)"
  from assms obtain k client_id where q: "duplicate_param [] ?q = None"
    "List.find (\<lambda>(name, _). name = ''client_id'') ?q = Some (k, client_id)"
    by (auto simp: fed_handle_authorization_def Let_def split: option.splits)
  obtain x w where r: "resolve_client fl rr fe client_id (req_context.more c) = (x, w)" by (metis prod.exhaust)
  with assms q obtain client where x: "x = Some client"
    by (cases x) (auto simp: fed_handle_authorization_def Let_def in_world_def)
  from assms q r x obtain params where u: "unpack_request_object rr fe client w ?q = Inr params"
    and login: "validated_login fe params (with_world w c) = (Inr (StartAuth d b), c')"
    by (auto simp: fed_handle_authorization_def Let_def in_world_def split: sum.splits)
  from validated_login_StartD[OF login] obtain req registered w' where
    v: "ol_from_pairs (pl_op (ffe_provider fe)) params = Inr req"
      "ol_validate (pl_op (ffe_provider fe)) req w = (Inr registered, w')"
    and s: "start_federated_login fe req registered (with_world w' (with_world w c)) = (Inr (StartAuth d b), c')"
    by auto
  have one: "only_value ?q ''client_id'' client_id" using unique_param[OF q] by simp
  have same: "only_value params ''client_id'' (rg_client_id client) \<and> rg_client_id client = client_id"
    if i: "position (\<lambda>(name, _). name = ''request'') ?q = Some i" for i
  proof -
    from unpack_Inr[OF u] i have sc: "signed_by_client rr fe client w (snd (?q ! i)) (take i ?q @ drop (Suc i) ?q) params" by simp
    then have keep: "\<exists>new. params = (take i ?q @ drop (Suc i) ?q) @ new" unfolding signed_by_client_def by blast
    from sc obtain claims where "jm_get claims ''client_id'' = Some (JString (rg_client_id client))"
        "\<And>k s. (k, JString s) \<in> set claims \<Longrightarrow> only_value params k s"
      unfolding signed_by_client_def by blast
    then have c1: "only_value params ''client_id'' (rg_client_id client)" using map_of_SomeD by fast
    have "i < length ?q" "fst (?q ! i) = ''request''" using position_SomeD[OF i] by (auto simp: split_beta)
    then have "?q = take i ?q @ (''request'', snd (?q ! i)) # drop (Suc i) ?q"
      by (metis id_take_nth_drop prod.collapse)
    then have "(''client_id'', client_id) \<in> set (take i ?q @ drop (Suc i) ?q)"
      using one request_not_client_id unfolding only_value_def
      by (metis in_set_remove_middle)
    then have "(''client_id'', client_id) \<in> set params" using keep by (metis Un_iff set_append)
    with c1 show ?thesis unfolding only_value_def by blast
  qed
  from start_federated_loginD[OF s] obtain vj f where
    "ol_to_json (pl_op (ffe_provider fe)) req = Some vj" "client_fingerprint (pl_op (ffe_provider fe)) registered = Some f"
    "b = ffe_backend fe" "id_requester d = Some (ol_client_id (pl_op (ffe_provider fe)) req)"
    "id_force_authn d = ol_has_prompt (pl_op (ffe_provider fe)) req ''login''"
    "id_is_passive d = ol_has_prompt (pl_op (ffe_provider fe)) req ''none''"
    "cx_state c' = set_value (ffe_name fe) AUTHORIZATION_CLIENT (JString f) (set_value (ffe_name fe) AUTHZ_KEY vj (cx_state c))"
    by auto
  moreover have "case position (\<lambda>(name, _). name = ''request'') ?q of
       None \<Rightarrow> params = ?q
     | Some i \<Rightarrow> signed_by_client rr fe client w (snd (?q ! i)) (take i ?q @ drop (Suc i) ?q) params \<and>
         only_value params ''client_id'' (rg_client_id client) \<and> rg_client_id client = client_id"
  proof (cases "position (\<lambda>(name, _). name = ''request'') ?q")
    case (Some i)
    from unpack_Inr[OF u] same[OF Some] show ?thesis unfolding Some option.case by blast
  qed (use unpack_Inr[OF u] in simp)
  ultimately show ?thesis using one r[unfolded x] v by blast
qed


section \<open>Registrations end with the trust behind them\<close>

text \<open>
  C25. A registration never outlives the trust behind it: a client registered through the federation is
  stored for the configured time or until the trust anchor's decision expires, whichever is first,
  with no wrap-around; a decision without an expiry, or expired, registers nothing.  What is stored
  is the asked client with the keys and redirect URIs of the resolved metadata, restricted to the code
  flow and to \<open>private_key_jwt\<close>, and without a secret.
\<close>

theorem registration_expires_with_trust:
  assumes "auto_register fl rr fe client_id w = (Inr client, w')"
  shows "\<exists>resolved w1 rp_meta expiry ttl. fl_resolve fl client_id (ffe_trust_anchors fe) w = (Inr resolved, w1) \<and>
    json_get (re_metadata resolved) ''openid_relying_party'' = Some rp_meta \<and> re_exp resolved = Some expiry \<and>
    w' = rr_put_with_ttl rr client ttl w1 \<and> ttl \<le> ffe_rp_cache_ttl fe \<and> fl_now fl w1 < expiry \<and>
    unat (fl_now fl w1 + ttl) = unat (fl_now fl w1) + unat ttl \<and> fl_now fl w1 + ttl \<le> expiry \<and>
    rg_client_id client = client_id \<and> rg_client_secret client = None \<and>
    rg_jwks client = Option.bind (json_get rp_meta ''jwks'') (fl_dec_jwks fl) \<and>
    rg_response_types client = [''code''] \<and> rg_grant_types client = [''authorization_code''] \<and>
    rg_token_endpoint_auth_method client = rr_auth_private_key_jwt rr \<and>
    (\<forall>u \<in> set (rg_redirect_uris client). \<exists>us. json_get rp_meta ''redirect_uris'' = Some (JArray us) \<and> JString u \<in> set us)"
proof -
  from assms obtain resolved w1 rp_meta ttl where h: "fl_resolve fl client_id (ffe_trust_anchors fe) w = (Inr resolved, w1)"
    "json_get (re_metadata resolved) ''openid_relying_party'' = Some rp_meta"
    "cache_ttl_bounded_by_trust (fl_now fl w1) (ffe_rp_cache_ttl fe) (re_exp resolved) ''resolved federation RP'' = Inr ttl"
    "client = client_of_metadata fl rr client_id rp_meta" "w' = rr_put_with_ttl rr client ttl w1"
  proof -
    from assms obtain resolved w1 rp_meta where r: "fl_resolve fl client_id (ffe_trust_anchors fe) w = (Inr resolved, w1)"
      "json_get (re_metadata resolved) ''openid_relying_party'' = Some rp_meta"
      "(case cache_ttl_bounded_by_trust (fl_now fl w1) (ffe_rp_cache_ttl fe) (re_exp resolved) ''resolved federation RP'' of
          Inl e \<Rightarrow> (Inl e, w1)
        | Inr ttl \<Rightarrow> (Inr (client_of_metadata fl rr client_id rp_meta),
            rr_put_with_ttl rr (client_of_metadata fl rr client_id rp_meta) ttl w1)) = (Inr client, w')"
      by (auto simp: auto_register_def bind_flow_eq_Inr lift_result_eq Let_def)
    with that show ?thesis
      by (cases "cache_ttl_bounded_by_trust (fl_now fl w1) (ffe_rp_cache_ttl fe) (re_exp resolved) ''resolved federation RP''") auto
  qed
  from h(3) obtain expiry where e: "re_exp resolved = Some expiry" "fl_now fl w1 < expiry"
    "ttl = min (ffe_rp_cache_ttl fe) (expiry - fl_now fl w1)"
    by (auto simp: cache_ttl_bounded_by_trust_def bind_result_eq_Inr remaining_trust_Some)
  have sum: "unat (fl_now fl w1 + ttl) = unat (fl_now fl w1) + unat ttl"
    using bounded_expiry(1)[OF e(2), of "ffe_rp_cache_ttl fe"] unat_sub[OF less_imp_le[OF e(2)]]
    by (simp add: e(3) min_def word_le_nat_alt split: if_split_asm)
  have uris: "\<exists>us. json_get rp_meta ''redirect_uris'' = Some (JArray us) \<and> JString u \<in> set us"
    if "u \<in> set (rg_redirect_uris client)" for u
    using that
    by (cases "Option.bind (json_get rp_meta ''redirect_uris'') as_array")
      (auto simp: h(4) client_of_metadata_def bind_eq_Some_conv List.map_filter_def)
  show ?thesis
    using h(1,2,5) e sum uris bounded_expiry(2)[OF e(2), of "ffe_rp_cache_ttl fe"]
    by (intro exI[of _ resolved] exI[of _ w1] exI[of _ rp_meta] exI[of _ expiry] exI[of _ ttl])
      (simp add: h(4) client_of_metadata_def)
qed

section \<open>Failed resolutions\<close>

text \<open>A client's failure entry is live from one time until another.\<close>

definition failing_until :: "u64 \<Rightarrow> u64 \<Rightarrow> string \<Rightarrow> unit ttl_cache \<Rightarrow> bool" where
  "failing_until from until i c \<longleftrightarrow> cache_wf c \<and> \<not> tc_poisoned c \<and>
     (\<forall>u \<ge> from. cache_get u c i = (if u < until then Some () else None))"

definition note_in_cache :: "unit ttl_cache \<Rightarrow> u64 \<times> string \<Rightarrow> unit ttl_cache" where
  "note_in_cache c e = (if length (snd e) > MAX_CACHED_CLIENT_ID_LEN then c
     else snd (put_if_absent (fst e) (snd e) () RESOLUTION_FAILURE_TTL c))"

lemma put_if_absent_get:
  assumes "cache_wf c" "\<not> tc_poisoned c" "t \<le> u"
  shows "cache_get u (snd (put_if_absent t k v ttl c)) k' =
    (if k' = k \<and> cache_get t c k = None then (if u < saturating_add t ttl then Some v else None) else cache_get u c k')"
  using cache_get_store[OF assms] assms(2) by (auto simp: put_if_absent_held entry_held_get)

lemma put_if_absent_frame:
  "tc_poisoned (snd (put_if_absent t k v ttl c)) = tc_poisoned c"
  by (simp add: put_if_absent_held)

lemma failing_first:
  assumes "cache_wf c" "\<not> tc_poisoned c" "cache_get t c i = None" "length i \<le> MAX_CACHED_CLIENT_ID_LEN"
  shows "failing_until t (saturating_add t RESOLUTION_FAILURE_TTL) i (note_in_cache c (t, i))"
proof -
  have "cache_get u (snd (put_if_absent t i () RESOLUTION_FAILURE_TTL c)) i =
      (if u < saturating_add t RESOLUTION_FAILURE_TTL then Some () else None)" if "t \<le> u" for u
    using put_if_absent_get[OF assms(1,2) that, of i "()" RESOLUTION_FAILURE_TTL i] assms(3) by simp
  then show ?thesis
    using assms cache_wf_ops(3)[OF assms(1)] by (simp add: failing_until_def note_in_cache_def put_if_absent_frame)
qed

lemma failing_next:
  assumes "failing_until from until i c" "from \<le> fst e" "fst e < until"
  shows "failing_until (fst e) until i (note_in_cache c e)"
proof (cases "length (snd e) > MAX_CACHED_CLIENT_ID_LEN")
  case True
  with assms show ?thesis by (auto simp: failing_until_def note_in_cache_def)
next
  case False
  from assms have c: "cache_wf c" "\<not> tc_poisoned c" "cache_get (fst e) c i = Some ()"
    "\<And>u. fst e \<le> u \<Longrightarrow> cache_get u c i = (if u < until then Some () else None)"
    by (auto simp: failing_until_def)
  have "cache_get u (snd (put_if_absent (fst e) (snd e) () RESOLUTION_FAILURE_TTL c)) i = (if u < until then Some () else None)"
    if "fst e \<le> u" for u
    using put_if_absent_get[OF c(1,2) that, of "snd e" "()" RESOLUTION_FAILURE_TTL i] c(3) c(4)[OF that]
    by (cases "i = snd e") simp_all
  then show ?thesis
    using False c(1,2) cache_wf_ops(3)[OF c(1)] by (simp add: failing_until_def note_in_cache_def put_if_absent_frame)
qed

lemma failing_history:
  assumes "failing_until from until i c" "sorted (map fst h)" "\<forall>e \<in> set h. from \<le> fst e \<and> fst e < until"
    "from \<le> u" "\<forall>e \<in> set h. fst e \<le> u"
  shows "cache_get u (foldl note_in_cache c h) i = (if u < until then Some () else None)"
  using assms
proof (induction h arbitrary: "from" c)
  case Nil
  then show ?case by (simp add: failing_until_def)
next
  case (Cons e h)
  have "failing_until (fst e) until i (note_in_cache c e)" using failing_next[OF Cons.prems(1)] Cons.prems(3) by simp
  from Cons.IH[OF this] Cons.prems show ?case by simp
qed

lemma note_world:
  assumes "\<forall>c w. rr_failures rr (rr_set_failures rr c w) = c"
  shows "rr_failures rr (note_resolution_failure rr t i w) = note_in_cache (rr_failures rr w) (t, i)"
    "rr_failures rr (foldl (\<lambda>w (t, i). note_resolution_failure rr t i w) w h) = foldl note_in_cache (rr_failures rr w) h"
proof -
  show one: "rr_failures rr (note_resolution_failure rr t i w) = note_in_cache (rr_failures rr w) (t, i)" for t i w
    using assms by (simp add: note_resolution_failure_def note_in_cache_def)
  show "rr_failures rr (foldl (\<lambda>w (t, i). note_resolution_failure rr t i w) w h) = foldl note_in_cache (rr_failures rr w) h"
    by (induction h arbitrary: w) (simp_all add: one split_beta)
qed

text \<open>
  An unresolvable client is asked for once a minute.  After a resolution failed, and whatever
  resolutions failed since (its own included), an unknown client is refused for the rest of the
  minute without asking the trust anchors, and asked for again when the minute is over: attempts in
  between do not extend it.  Relied on: what is put into the cache slot is read back, and between the
  two looks only failures were noted in it.
\<close>

theorem failed_resolution_cached:
  assumes slot: "\<forall>c w. rr_failures rr (rr_set_failures rr c w) = c"
    and miss: "rr_get rr i w = (None, w1)" "cache_get (fl_now fl w1) (rr_failures rr w1) i = None"
      "auto_register fl rr fe i w1 = (Inl e, w2)"
    and cache: "cache_wf (rr_failures rr w2)" "\<not> tc_poisoned (rr_failures rr w2)" "cache_get (fl_now fl w2) (rr_failures rr w2) i = None"
      "length i \<le> MAX_CACHED_CLIENT_ID_LEN"
    and later: "rr_failures rr w4 = rr_failures rr (foldl (\<lambda>w (t, i). note_resolution_failure rr t i w)
        (snd (resolve_client fl rr fe i w)) h)" "sorted (map fst h)"
      "\<forall>e \<in> set h. fl_now fl w2 \<le> fst e \<and> fst e \<le> fl_now fl w4 \<and> fst e < saturating_add (fl_now fl w2) RESOLUTION_FAILURE_TTL"
      "fl_now fl w2 \<le> fl_now fl w4" "rr_get rr i w3 = (None, w4)"
  shows "resolve_client fl rr fe i w3 =
    (if fl_now fl w4 < saturating_add (fl_now fl w2) RESOLUTION_FAILURE_TTL then (None, w4)
     else case auto_register fl rr fe i w4 of
        (Inr c, w5) \<Rightarrow> (Some c, w5)
      | (Inl e, w5) \<Rightarrow> (None, note_resolution_failure rr (fl_now fl w5) i w5))"
proof -
  have first: "snd (resolve_client fl rr fe i w) = note_resolution_failure rr (fl_now fl w2) i w2"
    using miss by (simp add: resolve_client_def)
  have "cache_get (fl_now fl w4) (rr_failures rr w4) i =
      (if fl_now fl w4 < saturating_add (fl_now fl w2) RESOLUTION_FAILURE_TTL then Some () else None)"
    unfolding later(1) first note_world[OF slot]
    using later(2-4) by (intro failing_history[OF failing_first[OF cache]]) auto
  then show ?thesis using later(5) by (simp add: resolve_client_def)
qed

text \<open>
  The cache of failures is bounded by what it may hold: no entry has a key longer than the limit,
  however long the client identifiers of the requests are.
\<close>

theorem failure_keys_bounded:
  assumes slot: "\<forall>c w. rr_failures rr (rr_set_failures rr c w) = c"
    and own: "\<forall>i w. rr_failures rr (snd (rr_get rr i w)) = rr_failures rr w"
      "\<forall>i w. rr_failures rr (snd (auto_register fl rr fe i w)) = rr_failures rr w"
    and bounded: "cache_wf (rr_failures rr w)"
      "\<forall>k \<in> set (bm_keys (tc_inner (rr_failures rr w))). length k \<le> MAX_CACHED_CLIENT_ID_LEN"
  shows "\<forall>k \<in> set (bm_keys (tc_inner (rr_failures rr (snd (resolve_client fl rr fe i w))))). length k \<le> MAX_CACHED_CLIENT_ID_LEN"
proof -
  have kept: "\<forall>k \<in> set (bm_keys (tc_inner (note_in_cache c e))). length k \<le> MAX_CACHED_CLIENT_ID_LEN"
    if "cache_wf c" "\<forall>k \<in> set (bm_keys (tc_inner c)). length k \<le> MAX_CACHED_CLIENT_ID_LEN" for c e
    using that
    by (auto simp: note_in_cache_def put_if_absent_held cache_store_def maybe_prune_def Let_def drop_expired_def cache_wf_def
        in_set_bm_keys bm_get_retain bm_get_insert split: if_split_asm option.splits)
  obtain x w1 where g: "rr_get rr i w = (x, w1)" by (metis prod.exhaust)
  obtain y w2 where a: "auto_register fl rr fe i w1 = (y, w2)" by (metis prod.exhaust)
  have "rr_failures rr w1 = rr_failures rr w" using own(1) g by (metis snd_conv)
  moreover from this have "rr_failures rr w2 = rr_failures rr w" using own(2) a by (metis snd_conv)
  ultimately show ?thesis
    using bounded kept[OF bounded]
    by (cases x; cases y) (auto simp: resolve_client_def g a note_world[OF slot])
qed

section \<open>The rest is the OpenID Connect frontend\<close>









section \<open>Witnesses\<close>

text \<open>The world of the fixtures is the cache of failures and the time.\<close>

definition toy_registration :: "string registration" where
  "toy_registration = \<lparr> rg_client_id = ''rp'', rg_client_secret = None, rg_redirect_uris = [''https://rp/cb''],
     rg_response_types = [''code''], rg_grant_types = [''authorization_code''],
     rg_token_endpoint_auth_method = ''private_key_jwt'', rg_jwks = Some [''key''], rg_scope = None,
     rg_subject_type = ''pairwise'', rg_client_name = Some ''RP'' \<rparr>"

definition toy_fed_op :: "(unit ttl_cache \<times> u64, string, string registration) op_lib" where
  "toy_fed_op = \<lparr> ol_from_pairs = (\<lambda>ps. case map_of ps ''client_id'' of None \<Rightarrow> Inl (oauth_new InvalidRequest []) | Some v \<Rightarrow> Inr v),
     ol_client_id = id, ol_redirect_uri = id, ol_state = (\<lambda>r. None), ol_has_prompt = (\<lambda>r p. False),
     ol_use_fragment = (\<lambda>r. False), ol_to_json = (\<lambda>r. Some (JString r)), ol_of_json = as_str,
     ol_validate = (\<lambda>r w. (Inr toy_registration, w)), ol_to_redirect = (\<lambda>e u f. hl_redirect toy_http u),
     ol_to_response = (\<lambda>e. hl_text toy_http 400 (oe_description e)), ol_client_name = rg_client_name,
     ol_take_extensions = (\<lambda>c. (c, None)), ol_client_json = (\<lambda>c. Some (JString (rg_client_id c))), ol_digest_b64 = id,
     ol_print = (\<lambda>v. ''j''), ol_json_error = ErrInternal [] \<rparr>"

definition toy_fed_provider :: "(unit ttl_cache \<times> u64, string, string registration, unit) provider_lib" where
  "toy_fed_provider = \<lparr> pl_op = toy_fed_op, pl_json = (\<lambda>v. Inr (hl_text toy_http 200 [])),
     pl_json_status = (\<lambda>s v. Inr (hl_text toy_http s [])), pl_response_new = (\<lambda>s. hl_text toy_http s []),
     pl_text = hl_text toy_http, pl_with_header = (\<lambda>k v r. r), pl_discovery_document = JObject [], pl_jwks_document = JNull,
     pl_redirect_with_claims = (\<lambda>r f a c e w. (Inr (hl_redirect toy_http r), w)),
     pl_handle_token = (\<lambda>f a u p w. (Inr JNull, w)), pl_userinfo = (\<lambda>t j w. (Inr JNull, w)),
     pl_validate_proof = (\<lambda>rt j m u w. (Inr (), w)), pl_validate_resource_proof = (\<lambda>rt j m u t w. (Inr (), w)),
     pl_issue_nonce = (\<lambda>rt w. []), pl_jkt = (\<lambda>_. []), pl_invalid_dpop_proof = oauth_new AccessDenied,
     pl_authorization = (\<lambda>rq. None) \<rparr>"

text \<open>The anchors know one relying party, and vouch for it until second 1000.\<close>

definition toy_fed :: "(unit ttl_cache \<times> u64, unit, string) fed_lib" where
  "toy_fed = \<lparr> fl_dec_jwk = as_str, fl_dec_jwks = (\<lambda>v. map_option (List.map_filter as_str) (as_array v)), fl_public_jwks = (\<lambda>_. []),
     fl_resolve = (\<lambda>i anchors w. (if i = ''rp2'' then Inr \<lparr> re_subject = i,
         re_metadata = JObject [(''openid_relying_party'', JObject [(''redirect_uris'', JArray [JString ''https://rp2/cb''])])],
         re_exp = Some 1000, re_subject_jwks = [''k''] \<rparr> else Inl (ErrAuthn ''unknown''), w)),
     fl_entity_statement = (\<lambda>k i j h m t l w. Inr i), fl_now = snd, fl_response_new = (\<lambda>s. hl_text toy_http s []),
     fl_with_header = (\<lambda>k v r. r), fl_with_body = (\<lambda>b r. r) \<rparr>"

definition toy_rps :: "(unit ttl_cache \<times> u64, string) rp_registry" where
  "toy_rps = \<lparr> rr_get = (\<lambda>i w. (if i = ''rp'' then Some toy_registration else None, w)), rr_put_with_ttl = (\<lambda>c t w. w),
     rr_verify_jwt = (\<lambda>ks j v w. if j = ''jar'' then Inr [(''client_id'', JString ''rp''), (''scope'', JString ''openid'')]
        else Inl (ErrAuthn [])),
     rr_failures = fst, rr_set_failures = (\<lambda>c w. (c, snd w)), rr_auth_private_key_jwt = ''private_key_jwt'',
     rr_bearer_token = (\<lambda>rq. None), rr_invalid_request = oauth_new InvalidRequest \<rparr>"

definition toy_ffe :: "(unit ttl_cache \<times> u64, string, string, unit, unit) federation_frontend" where
  "toy_ffe = \<lparr> ffe_name = ''fed'', ffe_issuer = ''https://p'', ffe_endpoint_base = ''https://p/fed'', ffe_provider = toy_fed_provider,
     ffe_mapper = toy_mapper, ffe_fed_key = (), ffe_authority_hints = [], ffe_trust_anchors = Map.empty, ffe_ec_lifetime = 86400,
     ffe_rp_cache_ttl = 3600, ffe_request_object_max_age = 300, ffe_organization_name = None, ffe_organization_uri = None,
     ffe_trust_marks = [], ffe_backend = None \<rparr>"

definition toy_fed_ctx :: "(unit ttl_cache \<times> u64) req_context_scheme" where
  "toy_fed_ctx = context_new (toy_rq1\<lparr> rq_query_pairs := [(''client_id'', ''rp''), (''request'', ''jar'')] \<rparr>) state_new (cache_new 60, 100)"

lemma toy_fed_steps:
  "map_sum id (\<lambda>a. case a of StartAuth d b \<Rightarrow> True | _ \<Rightarrow> False) (fst (fed_handle_authorization toy_fed toy_rps toy_ffe toy_fed_ctx)) = Inr True"
  "is_ok (fst (auto_register toy_fed toy_rps toy_ffe ''rp2'' (cache_new 60, 100)))"
  "snd (auto_register toy_fed toy_rps toy_ffe ''rp2'' (cache_new 60, 100)) = (cache_new 60, 100)"
  "auto_register toy_fed toy_rps toy_ffe ''x'' (c, t) = (Inl (ErrAuthn ''unknown''), (c, t))"
  "position (\<lambda>(name, _). name = ''request'') (rq_query_pairs (cx_request toy_fed_ctx)) = Some 1"
  by (code_simp, code_simp, code_simp, simp add: auto_register_def toy_fed_def bind_flow_def, code_simp)

theorem federated_login_verified_witness:
  "\<exists>params w. only_value params ''client_id'' ''rp'' \<and>
     signed_by_client toy_rps toy_ffe toy_registration w ''jar'' [(''client_id'', ''rp'')] params"
proof -
  obtain d b c' where h: "fed_handle_authorization toy_fed toy_rps toy_ffe toy_fed_ctx = (Inr (StartAuth d b), c')"
  proof (cases "fed_handle_authorization toy_fed toy_rps toy_ffe toy_fed_ctx")
    case (Pair x c1)
    with toy_fed_steps(1) that show ?thesis by (cases x) (auto split: frontend_action.splits)
  qed
  have jar: "snd (rq_query_pairs (cx_request toy_fed_ctx) ! 1) = ''jar''" by (simp add: toy_fed_ctx_def context_new_def)
  from federated_login_verified[OF h, unfolded toy_fed_steps(5) option.case jar] show ?thesis
  proof (elim exE conjE)
    fix client_id client w params
    assume r: "only_value (rq_query_pairs (cx_request toy_fed_ctx)) ''client_id'' client_id"
      "resolve_client toy_fed toy_rps toy_ffe client_id (req_context.more toy_fed_ctx) = (Some client, w)"
      "signed_by_client toy_rps toy_ffe client w ''jar'' (take 1 (rq_query_pairs (cx_request toy_fed_ctx)) @
         drop (Suc 1) (rq_query_pairs (cx_request toy_fed_ctx))) params" "only_value params ''client_id'' (rg_client_id client)"
    have "client_id = ''rp''" using only_valueD[OF r(1)] by (simp add: toy_fed_ctx_def context_new_def)
    then have c: "client = toy_registration" using r(2) by (simp add: resolve_client_def toy_rps_def)
    have "rg_client_id toy_registration = ''rp''" by (simp add: toy_registration_def)
    with r(4) c have "only_value params ''client_id'' ''rp''" by simp
    moreover have "take 1 (rq_query_pairs (cx_request toy_fed_ctx)) @ drop (Suc 1) (rq_query_pairs (cx_request toy_fed_ctx)) =
        [(''client_id'', ''rp'')]" by (simp add: toy_fed_ctx_def context_new_def)
    ultimately show ?thesis using r(3)[unfolded c] by (intro exI conjI) simp_all
  qed
qed

theorem registration_expires_with_trust_witness:
  "\<exists>client. fst (auto_register toy_fed toy_rps toy_ffe ''rp2'' (cache_new 60, 100)) = Inr client \<and> rg_client_id client = ''rp2'' \<and>
     (\<exists>ttl expiry. 100 + ttl \<le> (expiry :: u64))"
proof -
  obtain client where h: "auto_register toy_fed toy_rps toy_ffe ''rp2'' (cache_new 60, 100) = (Inr client, (cache_new 60, 100))"
    using toy_fed_steps(2,3) by (metis is_ok_iff prod.collapse)
  from registration_expires_with_trust[OF h] show ?thesis by (auto simp: h)
qed

theorem failed_resolution_cached_witness:
  "resolve_client toy_fed toy_rps toy_ffe ''x'' (fst (snd (resolve_client toy_fed toy_rps toy_ffe ''x'' (cache_new 60, 100))), 130) =
     (None, (fst (snd (resolve_client toy_fed toy_rps toy_ffe ''x'' (cache_new 60, 100))), 130))"
proof -
  have f: "rr_failures toy_rps w = fst w" "fl_now toy_fed w = snd w" for w by (simp_all add: toy_rps_def toy_fed_def)
  have slot: "\<forall>c w. rr_failures toy_rps (rr_set_failures toy_rps c w) = c" by (simp add: toy_rps_def)
  have get: "rr_get toy_rps ''x'' w = (None, w)" for w by (simp add: toy_rps_def)
  have c: "cache_wf (cache_new 60 :: unit ttl_cache)" "\<not> tc_poisoned (cache_new 60 :: unit ttl_cache)"
    "cache_get u (cache_new 60 :: unit ttl_cache) ''x'' = None" for u by (simp_all add: cache_get_def cache_new_def cache_wf_def)
  have t: "(130 :: u64) < saturating_add 100 RESOLUTION_FAILURE_TTL" by (simp add: saturating_add_def RESOLUTION_FAILURE_TTL_def)
  show ?thesis
    using failed_resolution_cached[OF slot get _ toy_fed_steps(4), where h = "[]"
        and ?w4.0 = "(fst (snd (resolve_client toy_fed toy_rps toy_ffe ''x'' (cache_new 60, 100))), 130)"
        and ?w3.0 = "(fst (snd (resolve_client toy_fed toy_rps toy_ffe ''x'' (cache_new 60, 100))), 130)"] c t get
    by (simp add: f MAX_CACHED_CLIENT_ID_LEN_def)
qed

theorem failure_keys_bounded_witness:
  "\<forall>k \<in> set (bm_keys (tc_inner (rr_failures toy_rps (snd (resolve_client toy_fed toy_rps toy_ffe ''x'' (cache_new 60, 100)))))).
     length k \<le> MAX_CACHED_CLIENT_ID_LEN"
proof (rule failure_keys_bounded)
  show "\<forall>i w. rr_failures toy_rps (snd (auto_register toy_fed toy_rps toy_ffe i w)) = rr_failures toy_rps w"
    by (auto simp: auto_register_def toy_rps_def toy_fed_def bind_flow_def lift_result_def Let_def split: sum.split)
qed (simp_all add: toy_rps_def cache_wf_def cache_new_def bm_keys_def)


end
