(* ===== verification/Federation_Backend.thy ===== *)
theory Federation_Backend
  imports Federation_Common Oidc_Backend
begin

text \<open>
  The OpenID Federation backend of \<open>federation_backend.rs\<close>: the proxy as a relying party whose provider
  is resolved through trust anchors and, with discovery, chosen by the user at an external service.  The
  protocol is the library of \<open>Oidc_Backend\<close>; what federation adds to it (signed request objects,
  federation key sets, the discovery redirect and its return) and the slot that holds the cache of
  resolved providers are the parameter record \<open>federation_rp\<close>.
\<close>

section \<open>The federation side of the relying party\<close>

record initiated_login =
  il_iss :: string
  il_target_link_uri :: "string option"

record 'j resolved_op =
  ro_entity_id :: string
  ro_provider :: provider_info
  ro_metadata :: json
  ro_federation_jwks :: "'j list"

record ('w, 'k, 'j) federation_rp =
  fr_parse_url :: "string \<Rightarrow> url_parts option"
  fr_signed_request_object ::
    "provider_info \<Rightarrow> 'k rp_client \<Rightarrow> 'k \<Rightarrow> string \<Rightarrow> string \<Rightarrow> string option \<Rightarrow> 'w \<Rightarrow> string result"
  fr_entity_jwks :: "json \<Rightarrow> string \<Rightarrow> 'j list \<Rightarrow> 'w \<Rightarrow> 'j list result \<times> 'w"
  fr_discovery_url :: "string \<Rightarrow> string \<Rightarrow> string option \<Rightarrow> string option \<Rightarrow> string result"
  fr_parse_initiated :: "string smap \<Rightarrow> initiated_login result"
  fr_alg_json :: "string \<Rightarrow> json result"
  fr_jwks_json :: "'j list \<Rightarrow> json result"
  fr_resolved :: "'w \<Rightarrow> string \<Rightarrow> (u64 \<times> 'j resolved_op) option"
  fr_set_resolved :: "(string \<Rightarrow> (u64 \<times> 'j resolved_op) option) \<Rightarrow> 'w \<Rightarrow> 'w"

definition DISCOVERY_VERIFIER_KEY :: string where "DISCOVERY_VERIFIER_KEY = ''disco_verifier''"
definition DISCOVERY_VERIFIER_PARAM :: string where "DISCOVERY_VERIFIER_PARAM = ''tb_discovery_verifier''"

section \<open>Configuration\<close>

definition default_op_cache_ttl :: u64 where "default_op_cache_ttl = 3600"

record rp_federation_config =
  rf_signing_key_path :: "string option"
  rf_signing_jwk :: "json option"
  rf_signing_jwk_path :: "string option"
  rf_signing_algorithm :: "string option"
  rf_signing_key_id :: "string option"
  rf_authority_hints :: "string list"
  rf_trust_anchor :: "trust_anchor_config list"
  rf_ec_lifetime :: u64
  rf_op_cache_ttl :: u64
  rf_organization_name :: "string option"
  rf_organization_uri :: "string option"
  rf_trust_marks :: "json list"

definition dec_rp_federation :: "json \<Rightarrow> rp_federation_config option" where
  "dec_rp_federation v = do {
     m \<leftarrow> as_object v;
     kp \<leftarrow> dec_default dec_opt_str None ''signing_key_path'' m;
     kj \<leftarrow> dec_default dec_opt_json None ''signing_jwk'' m;
     kjp \<leftarrow> dec_default dec_opt_str None ''signing_jwk_path'' m;
     ka \<leftarrow> dec_default dec_opt_str None ''signing_algorithm'' m;
     kid \<leftarrow> dec_default dec_opt_str None ''signing_key_id'' m;
     ah \<leftarrow> dec_default dec_strings [] ''authority_hints'' m;
     ta \<leftarrow> dec_required dec_trust_anchors ''trust_anchor'' m;
     ec \<leftarrow> dec_default dec_u64 default_ec_lifetime ''entity_configuration_lifetime'' m;
     oc \<leftarrow> dec_default dec_u64 default_op_cache_ttl ''op_cache_ttl'' m;
     on \<leftarrow> dec_default dec_opt_str None ''organization_name'' m;
     ou \<leftarrow> dec_default dec_opt_str None ''organization_uri'' m;
     tm \<leftarrow> dec_default as_array [] ''trust_marks'' m;
     Some \<lparr> rf_signing_key_path = kp, rf_signing_jwk = kj, rf_signing_jwk_path = kjp, rf_signing_algorithm = ka,
       rf_signing_key_id = kid, rf_authority_hints = ah, rf_trust_anchor = ta, rf_ec_lifetime = ec,
       rf_op_cache_ttl = oc, rf_organization_name = on, rf_organization_uri = ou, rf_trust_marks = tm \<rparr> }"

record discovery_config =
  dcf_enable :: bool
  dcf_service :: "string option"

definition dec_discovery :: "json \<Rightarrow> discovery_config option option" where
  "dec_discovery v = (if v = JNull then Some None else do {
     m \<leftarrow> as_object v;
     e \<leftarrow> dec_default as_bool False ''enable'' m;
     s \<leftarrow> dec_default dec_opt_str None ''service'' m;
     Some (Some \<lparr> dcf_enable = e, dcf_service = s \<rparr>) })"

record federation_backend_config =
  fbc_id_token_alg :: string
  fbc_entity_id :: "string option"
  fbc_op_entity_id :: "string option"
  fbc_discovery :: "discovery_config option"
  fbc_scope :: "string option"
  fbc_signing_key_path :: "string option"
  fbc_signing_jwk :: "json option"
  fbc_signing_jwk_path :: "string option"
  fbc_signing_algorithm :: "string option"
  fbc_signing_key_id :: "string option"
  fbc_federation :: rp_federation_config

definition dec_federation_backend :: "(json \<Rightarrow> string option) \<Rightarrow> json \<Rightarrow> federation_backend_config option" where
  "dec_federation_backend dec_alg v = do {
     m \<leftarrow> as_object v;
     alg \<leftarrow> dec_default dec_alg default_id_token_algorithm ''id_token_signed_response_alg'' m;
     ei \<leftarrow> dec_default dec_opt_str None ''entity_id'' m;
     oi \<leftarrow> dec_default dec_opt_str None ''op_entity_id'' m;
     di \<leftarrow> dec_default dec_discovery None ''discovery'' m;
     sc \<leftarrow> dec_default dec_opt_str None ''scope'' m;
     kp \<leftarrow> dec_default dec_opt_str None ''signing_key_path'' m;
     kj \<leftarrow> dec_default dec_opt_json None ''signing_jwk'' m;
     kjp \<leftarrow> dec_default dec_opt_str None ''signing_jwk_path'' m;
     ka \<leftarrow> dec_default dec_opt_str None ''signing_algorithm'' m;
     kid \<leftarrow> dec_default dec_opt_str None ''signing_key_id'' m;
     fd \<leftarrow> dec_required dec_rp_federation ''federation'' m;
     Some \<lparr> fbc_id_token_alg = alg, fbc_entity_id = ei, fbc_op_entity_id = oi, fbc_discovery = di, fbc_scope = sc,
       fbc_signing_key_path = kp, fbc_signing_jwk = kj, fbc_signing_jwk_path = kjp, fbc_signing_algorithm = ka,
       fbc_signing_key_id = kid, fbc_federation = fd \<rparr> }"

record op_discovery =
  od_service :: string
  od_initiate_login_uri :: string

definition target_link_uri :: "op_discovery \<Rightarrow> string \<Rightarrow> string" where
  "target_link_uri d verifier = od_initiate_login_uri d @ ''?'' @ DISCOVERY_VERIFIER_PARAM @ ''='' @ verifier"

record ('k, 'j) federation_backend =
  fbk_name :: string
  fbk_entity_id :: string
  fbk_op_entity_id :: "string option"
  fbk_discovery :: "op_discovery option"
  fbk_client :: "'k rp_client"
  fbk_id_token_alg :: string
  fbk_client_jwks :: "'j list"
  fbk_mapper :: attribute_mapper
  fbk_fed_key :: 'k
  fbk_authority_hints :: "string list"
  fbk_trust_anchors :: "'j trust_anchors"
  fbk_ec_lifetime :: u64
  fbk_op_cache_ttl :: u64
  fbk_organization_name :: "string option"
  fbk_organization_uri :: "string option"
  fbk_trust_marks :: "json list"

text \<open>Either a fixed provider or discovery, never both, never neither.\<close>

definition build_discovery ::
    "('w, 'k, 'j) federation_rp \<Rightarrow> build_context \<Rightarrow> federation_backend_config \<Rightarrow> string \<Rightarrow> op_discovery option result" where
  "build_discovery fr bx cfg entity_id =
     (let prefix = ''oidc_federation backend '' @ bx_name bx @ '': ''
      in case opt_filter dcf_enable (fbc_discovery cfg) of
           Some d \<Rightarrow>
             if fbc_op_entity_id cfg \<noteq> None
             then Inl (ErrConfig (prefix @ ''set either op_entity_id or discovery.enable, not both''))
             else bind_result (ok_or (dcf_service d) (ErrConfig (prefix @
                 ''discovery.enable requires service (the external discovery service URL)''))) (\<lambda>service.
               bind_result (case fr_discovery_url fr service entity_id None None of
                   Inl _ \<Rightarrow> Inl (ErrConfig (prefix @ ''discovery.service: '')) | Inr _ \<Rightarrow> Inr ()) (\<lambda>_.
               Inr (Some \<lparr> od_service = service, od_initiate_login_uri = module_base bx @ ''/initiate'' \<rparr>)))
         | None \<Rightarrow>
             if fbc_op_entity_id cfg = None
             then Inl (ErrConfig (prefix @ ''either op_entity_id or discovery.enable is required''))
             else Inr None)"

definition rp_federation_key :: "'k key_lib \<Rightarrow> rp_federation_config \<Rightarrow> 'k result" where
  "rp_federation_key kl fd = load_signing_key kl (rf_signing_jwk fd) (rf_signing_key_path fd) (rf_signing_jwk_path fd)
     (rf_signing_algorithm fd) (rf_signing_key_id fd)"

text \<open>The key of client authentication: its own if configured, else the federation key.\<close>

definition rp_client_key :: "'k key_lib \<Rightarrow> federation_backend_config \<Rightarrow> 'k \<Rightarrow> 'k result" where
  "rp_client_key kl cfg fed_key =
     (if fbc_signing_jwk cfg \<noteq> None \<or> fbc_signing_key_path cfg \<noteq> None \<or> fbc_signing_jwk_path cfg \<noteq> None
      then load_signing_key kl (fbc_signing_jwk cfg) (fbc_signing_key_path cfg) (fbc_signing_jwk_path cfg)
        (fbc_signing_algorithm cfg) (fbc_signing_key_id cfg)
      else Inr fed_key)"

definition federation_backend_configure ::
    "'k build_lib \<Rightarrow> ('w, 'k, 'j) fed_lib \<Rightarrow> ('w, 'k, 'j) federation_rp \<Rightarrow> build_context \<Rightarrow>
      ('k, 'j) federation_backend result" where
  "federation_backend_configure bl fl fr bx =
     bind_result (parse_config (dec_federation_backend (bl_dec_alg bl)) bx) (\<lambda>cfg.
     bind_result (validate_id_token_algorithm (bl_alg_supported bl) (fbc_id_token_alg cfg)) (\<lambda>_.
     (let entity_id = unwrap_or (module_base bx) (fbc_entity_id cfg); fd = fbc_federation cfg
      in if rf_trust_anchor fd = []
         then Inl (ErrConfig (''oidc_federation backend '' @ bx_name bx @ '': at least one trust_anchor is required''))
         else
         bind_result (build_discovery fr bx cfg entity_id) (\<lambda>discovery.
         bind_result (rp_federation_key (bl_keys bl) fd) (\<lambda>fed_key.
         bind_result (rp_client_key (bl_keys bl) cfg fed_key) (\<lambda>client_key.
         bind_result (build_trust_anchors fl (rf_trust_anchor fd)) (\<lambda>anchors.
         Inr \<lparr> fbk_name = bx_name bx, fbk_entity_id = entity_id, fbk_op_entity_id = fbc_op_entity_id cfg,
           fbk_discovery = discovery,
           fbk_client = \<lparr> rc_client_id = entity_id, rc_redirect_uri = module_base bx @ ''/callback'',
             rc_auth = PrivateKeyJwt client_key, rc_scope = unwrap_or ''openid profile email'' (fbc_scope cfg) \<rparr>,
           fbk_id_token_alg = fbc_id_token_alg cfg, fbk_client_jwks = fl_public_jwks fl client_key,
           fbk_mapper = bx_attribute_mapper bx, fbk_fed_key = fed_key,
           fbk_authority_hints = rf_authority_hints fd, fbk_trust_anchors = anchors,
           fbk_ec_lifetime = rf_ec_lifetime fd, fbk_op_cache_ttl = rf_op_cache_ttl fd,
           fbk_organization_name = rf_organization_name fd, fbk_organization_uri = rf_organization_uri fd,
           fbk_trust_marks = rf_trust_marks fd \<rparr>)))))))"

section \<open>The entity configuration\<close>

definition relying_party_metadata ::
    "('w, 'k, 'j) federation_rp \<Rightarrow> ('k, 'j) federation_backend \<Rightarrow> jmap result" where
  "relying_party_metadata fr fb =
     bind_result (fr_alg_json fr (fbk_id_token_alg fb)) (\<lambda>alg.
     bind_result (fr_jwks_json fr (fbk_client_jwks fb)) (\<lambda>jwks.
     Inr ([(''redirect_uris'', JArray [JString (rc_redirect_uri (fbk_client fb))]),
         (''client_registration_types'', JArray [JString ''automatic'']), (''id_token_signed_response_alg'', alg),
         (''response_types'', JArray [JString ''code'']), (''grant_types'', JArray [JString ''authorization_code'']),
         (''token_endpoint_auth_method'', JString ''private_key_jwt''), (''jwks'', jwks),
         (''scope'', JString (rc_scope (fbk_client fb)))] @
       (case fbk_discovery fb of None \<Rightarrow> [] | Some d \<Rightarrow> [(''initiate_login_uri'', JString (od_initiate_login_uri d))]) @
       (case fbk_organization_name fb of None \<Rightarrow> [] | Some n \<Rightarrow> [(''client_name'', JString n)]))))"

definition backend_entity_configuration ::
    "('w, 'k, 'j) fed_lib \<Rightarrow> ('w, 'k, 'j) federation_rp \<Rightarrow> ('k, 'j) federation_backend \<Rightarrow> 'w \<Rightarrow> string result" where
  "backend_entity_configuration fl fr fb w =
     bind_result (relying_party_metadata fr fb) (\<lambda>rp.
     fl_entity_statement fl (fbk_fed_key fb) (fbk_entity_id fb) (fl_public_jwks fl (fbk_fed_key fb)) (fbk_authority_hints fb)
       (JObject [(''openid_relying_party'', JObject rp),
          (''federation_entity'', federation_entity (fbk_organization_name fb) (fbk_organization_uri fb))])
       (fbk_trust_marks fb) (fbk_ec_lifetime fb) w)"

section \<open>Resolving a provider\<close>

text \<open>The error of the scheme check, reported as an authentication error with its text.\<close>

definition check_resolved_url :: "('w, 'k, 'j) federation_rp \<Rightarrow> string \<times> string option \<Rightarrow> unit result" where
  "check_resolved_url fr e =
     (case snd e of
        None \<Rightarrow> Inr ()
      | Some url \<Rightarrow>
          (case require_https (fr_parse_url fr) url (''resolved OP '' @ fst e) of
             Inr _ \<Rightarrow> Inr () | Inl (ErrConfig m) \<Rightarrow> Inl (ErrAuthn m) | Inl err \<Rightarrow> Inl err))"

definition op_urls :: "provider_info \<Rightarrow> (string \<times> string option) list" where
  "op_urls p = [(''authorization_endpoint'', Some (pi_authorization_endpoint p)),
     (''token_endpoint'', Some (pi_token_endpoint p)), (''userinfo_endpoint'', pi_userinfo_endpoint p),
     (''jwks_uri'', pi_jwks_uri p)]"

definition provider_of_metadata :: "string \<Rightarrow> json \<Rightarrow> provider_info result" where
  "provider_of_metadata subject op_meta =
     (let issuer = unwrap_or subject (json_get_str op_meta ''issuer'')
      in if issuer \<noteq> subject then Inl (ErrAuthn ''resolved OP metadata issuer does not match federation entity'')
         else
         bind_result (ok_or (json_get_str op_meta ''authorization_endpoint'')
             (ErrAuthn ''resolved OP metadata has no authorization_endpoint'')) (\<lambda>ae.
         bind_result (ok_or (json_get_str op_meta ''token_endpoint'')
             (ErrAuthn ''resolved OP metadata has no token_endpoint'')) (\<lambda>te.
         Inr \<lparr> pi_issuer = issuer, pi_authorization_endpoint = ae, pi_token_endpoint = te,
           pi_userinfo_endpoint = json_get_str op_meta ''userinfo_endpoint'', pi_jwks_uri = json_get_str op_meta ''jwks_uri'' \<rparr>)))"

text \<open>The provider a trust-anchor answer describes, and how long the anchor still vouches for it.\<close>

definition op_of_resolution ::
    "('w, 'k, 'j) federation_rp \<Rightarrow> u64 \<Rightarrow> 'j resolved_entity \<Rightarrow> ('j resolved_op \<times> u64) result" where
  "op_of_resolution fr now resolved =
     bind_result (ok_or (re_exp resolved) (ErrAuthn ''resolved federation OP has no trust-anchor expiry'')) (\<lambda>expiry.
     bind_result (ok_or (remaining_trust now expiry) (ErrAuthn ''resolved federation OP trust decision is expired'')) (\<lambda>ttl.
     bind_result (ok_or (json_get (re_metadata resolved) ''openid_provider'')
         (ErrAuthn ''resolved metadata has no openid_provider'')) (\<lambda>op_meta.
     bind_result (provider_of_metadata (re_subject resolved) op_meta) (\<lambda>provider.
     bind_result (traverse (check_resolved_url fr) (op_urls provider)) (\<lambda>_.
     Inr (\<lparr> ro_entity_id = re_subject resolved, ro_provider = provider, ro_metadata = op_meta,
       ro_federation_jwks = re_subject_jwks resolved \<rparr>, ttl))))))"

definition fetch_op ::
    "('w, 'k, 'j) fed_lib \<Rightarrow> ('w, 'k, 'j) federation_rp \<Rightarrow> ('k, 'j) federation_backend \<Rightarrow> string \<Rightarrow> ('w, 'j resolved_op) flow" where
  "fetch_op fl fr fb op_entity_id =
     bind_flow (fl_resolve fl op_entity_id (fbk_trust_anchors fb)) (\<lambda>resolved w.
     (let now = fl_now fl w
      in case op_of_resolution fr now resolved of
           Inl e \<Rightarrow> (Inl e, w)
         | Inr (op, ttl) \<Rightarrow>
             (Inr op, fr_set_resolved fr ((fr_resolved fr w)(op_entity_id \<mapsto> (now + min (fbk_op_cache_ttl fb) ttl, op))) w)))"

definition resolve_op ::
    "('w, 'k, 'j) fed_lib \<Rightarrow> ('w, 'k, 'j) federation_rp \<Rightarrow> ('k, 'j) federation_backend \<Rightarrow> string \<Rightarrow> ('w, 'j resolved_op) flow" where
  "resolve_op fl fr fb op_entity_id w =
     (case fr_resolved fr w op_entity_id of
        Some (expires, op) \<Rightarrow> if expires > fl_now fl w then (Inr op, w) else fetch_op fl fr fb op_entity_id w
      | None \<Rightarrow> fetch_op fl fr fb op_entity_id w)"

section \<open>Starting a login\<close>

definition remember_op_login :: "string \<Rightarrow> string \<Rightarrow> string \<Rightarrow> string \<Rightarrow> string \<Rightarrow> session \<Rightarrow> session" where
  "remember_op_login ns state nonce verifier op_entity_id s =
     set_str ns ''op_entity_id'' op_entity_id (set_str ns ''code_verifier'' verifier
       (set_str ns ''oidc_nonce'' nonce (set_str ns ''oidc_state'' state s)))"

definition op_redirect ::
    "('w, 'k, 'j list) rp_lib \<Rightarrow> ('w, 'k, 'j) federation_rp \<Rightarrow> ('k, 'j) federation_backend \<Rightarrow> provider_info \<Rightarrow>
      string \<Rightarrow> string \<Rightarrow> string \<Rightarrow> 'w \<Rightarrow> response result" where
  "op_redirect rl fr fb provider state nonce challenge w =
     (case rc_auth (fbk_client fb) of
        PrivateKeyJwt client_key \<Rightarrow>
          bind_result (fr_signed_request_object fr provider (fbk_client fb) client_key state nonce (Some challenge) w) (\<lambda>request.
          bind_result (rl_authorization_url rl provider (fbk_client fb) state nonce (Some challenge) [(''request'', request)]) (\<lambda>url.
          Inr (rl_redirect rl url)))
      | _ \<Rightarrow> Inl (ErrInternal ''federation RP always uses private_key_jwt''))"

definition start_auth_with_op ::
    "('w, 'k, 'j list) rp_lib \<Rightarrow> ('w, 'k, 'j) fed_lib \<Rightarrow> ('w, 'k, 'j) federation_rp \<Rightarrow> ('k, 'j) federation_backend \<Rightarrow>
      string \<Rightarrow> ('w, response) handler" where
  "start_auth_with_op rl fl fr fb op_entity_id =
     bind_flow (in_world (resolve_op fl fr fb op_entity_id)) (\<lambda>op ctx.
     case in_world (draw_tokens rl) ctx of ((state, nonce, verifier), ctx) \<Rightarrow>
       (op_redirect rl fr fb (ro_provider op) state nonce (rl_s256_challenge rl verifier) (req_context.more ctx),
        with_state (remember_op_login (fbk_name fb) state nonce verifier op_entity_id) ctx))"

text \<open>The redirect to the discovery service; a hint it refuses is dropped.\<close>

definition discovery_redirect ::
    "('w, 'k, 'j) federation_rp \<Rightarrow> ('k, 'j) federation_backend \<Rightarrow> op_discovery \<Rightarrow> string option \<Rightarrow> string \<Rightarrow> string result" where
  "discovery_redirect fr fb d hint target =
     (case fr_discovery_url fr (od_service d) (fbk_entity_id fb) hint (Some target) of
        Inr url \<Rightarrow> Inr url
      | Inl e \<Rightarrow>
          if hint \<noteq> None then fr_discovery_url fr (od_service d) (fbk_entity_id fb) None (Some target) else Inl e)"

definition start_discovery ::
    "('w, 'k, 'j list) rp_lib \<Rightarrow> ('w, 'k, 'j) federation_rp \<Rightarrow> ('k, 'j) federation_backend \<Rightarrow> op_discovery \<Rightarrow> ('w, response) handler" where
  "start_discovery rl fr fb d ctx =
     (case in_world (rl_random_token rl 16) ctx of (verifier, ctx) \<Rightarrow>
        (let ctx = with_state (set_str (fbk_name fb) DISCOVERY_VERIFIER_KEY verifier) ctx;
             hint = Option.bind (decoration ctx KEY_TARGET_ENTITYID) as_str
         in (bind_result (discovery_redirect fr fb d hint (target_link_uri d verifier)) (\<lambda>url. Inr (rl_redirect rl url)), ctx)))"

text \<open>The last branch is the panic of the source's \<open>expect\<close>.\<close>

definition federation_start_auth ::
    "('w, 'k, 'j list) rp_lib \<Rightarrow> ('w, 'k, 'j) fed_lib \<Rightarrow> ('w, 'k, 'j) federation_rp \<Rightarrow> ('k, 'j) federation_backend \<Rightarrow>
      internal_data \<Rightarrow> ('w, response) handler" where
  "federation_start_auth rl fl fr fb req ctx =
     (if id_force_authn req \<or> id_is_passive req
      then (Inl (ErrAuthn ''federation backend cannot honor force_authn/is_passive''), ctx)
      else case fbk_discovery fb of
        Some d \<Rightarrow> start_discovery rl fr fb d ctx
      | None \<Rightarrow>
          (case fbk_op_entity_id fb of
             Some op_entity_id \<Rightarrow> start_auth_with_op rl fl fr fb op_entity_id ctx
           | None \<Rightarrow> (Inl (ErrInternal ''op_entity_id present when discovery disabled''), ctx)))"

section \<open>The endpoints\<close>

definition handle_initiate ::
    "('w, 'k, 'j list) rp_lib \<Rightarrow> ('w, 'k, 'j) fed_lib \<Rightarrow> ('w, 'k, 'j) federation_rp \<Rightarrow> ('k, 'j) federation_backend \<Rightarrow>
      ('w, backend_action) handler" where
  "handle_initiate rl fl fr fb ctx =
     (case fbk_discovery fb of
        None \<Rightarrow> (Inl (ErrNoBoundEndpoint ''initiate''), ctx)
      | Some d \<Rightarrow>
     (case get_str (cx_state ctx) (fbk_name fb) DISCOVERY_VERIFIER_KEY of
        None \<Rightarrow> (Inl (ErrAuthn ''third-party initiated login without a discovery flow in flight''), ctx)
      | Some verifier \<Rightarrow>
     (case fr_parse_initiated fr (rq_query (cx_request ctx)) of
        Inl e \<Rightarrow> (Inl e, ctx)
      | Inr login \<Rightarrow>
          if il_target_link_uri login \<noteq> Some (target_link_uri d verifier)
          then (Inl (ErrAuthn ''third-party initiated login missing or mismatched target_link_uri''), ctx)
          else bind_flow (start_auth_with_op rl fl fr fb (il_iss login)) (\<lambda>redirect ctx.
            (Inr (BRespond redirect), with_state (set_value (fbk_name fb) DISCOVERY_VERIFIER_KEY JNull) ctx)) ctx)))"

definition federation_answer ::
    "('w, 'k, 'j list) rp_lib \<Rightarrow> ('k, 'j) federation_backend \<Rightarrow> provider_info \<Rightarrow> id_claims \<Rightarrow> string \<Rightarrow> json \<Rightarrow> 'w \<Rightarrow> internal_data" where
  "federation_answer rl fb provider claims sub merged w =
     \<lparr> id_auth_info = \<lparr> ai_class_ref = Option.bind (jm_get (ic_extra claims) ''acr'') as_str,
         ai_timestamp = Some (rl_now_rfc3339 rl w), ai_issuer = Some (pi_issuer provider) \<rparr>,
       id_requester = None, id_requester_name = [], id_subject_id = Some sub, id_subject_type = Pairwise,
       id_attributes = to_internal (fbk_mapper fb) ''openid'' (rl_claims_to_attributes rl merged),
       id_force_authn = False, id_is_passive = False \<rparr>"

definition redeem_federated_code ::
    "('w, 'k, 'j list) rp_lib \<Rightarrow> ('w, 'k, 'j) fed_lib \<Rightarrow> ('w, 'k, 'j) federation_rp \<Rightarrow> ('k, 'j) federation_backend \<Rightarrow>
      string \<Rightarrow> string \<Rightarrow> string option \<Rightarrow> string \<Rightarrow> ('w, backend_action) handler" where
  "redeem_federated_code rl fl fr fb code nonce verifier op_entity_id =
     bind_flow (in_world (resolve_op fl fr fb op_entity_id)) (\<lambda>op.
     bind_flow (in_world (rl_exchange_code rl (ro_provider op) (fbk_client fb) code verifier)) (\<lambda>tokens.
     bind_flow (in_world (fr_entity_jwks fr (ro_metadata op) (ro_entity_id op) (ro_federation_jwks op))) (\<lambda>jwks.
     bind_flow (in_world (\<lambda>w. (rl_verify_id_token rl jwks (ts_id_token tokens) (pi_issuer (ro_provider op))
         (rc_client_id (fbk_client fb)) (Some nonce) [fbk_id_token_alg fb] [] w, w))) (\<lambda>claims.
     bind_flow (lift_result (ok_or (ic_sub claims) (ErrAuthn ''id_token missing sub''))) (\<lambda>sub.
     bind_flow (merged_claims rl (ro_provider op) tokens claims sub) (\<lambda>merged ctx.
       (Inr (AuthResponse (federation_answer rl fb (ro_provider op) claims sub merged (req_context.more ctx))),
        with_state (clear_namespace (fbk_name fb)) ctx)))))))"

definition federation_callback ::
    "('w, 'k, 'j list) rp_lib \<Rightarrow> ('w, 'k, 'j) fed_lib \<Rightarrow> ('w, 'k, 'j) federation_rp \<Rightarrow> ('k, 'j) federation_backend \<Rightarrow>
      ('w, backend_action) handler" where
  "federation_callback rl fl fr fb ctx =
     (case get_str (cx_state ctx) (fbk_name fb) ''oidc_state'' of
        None \<Rightarrow> (Inl (ErrAuthn ''missing stored state''), ctx)
      | Some expected \<Rightarrow>
     (case rl_param rl (cx_request ctx) ''state'' of
        None \<Rightarrow> (Inl (ErrBadRequest ''missing state''), ctx)
      | Some got \<Rightarrow>
     if got \<noteq> expected then (Inl (ErrAuthn ''state mismatch''), ctx)
     else case rl_param rl (cx_request ctx) ''error'' of
        Some err \<Rightarrow> (Inl (ErrAuthn (''upstream error: '' @ err)), ctx)
      | None \<Rightarrow>
     (case rl_param rl (cx_request ctx) ''code'' of
        None \<Rightarrow> (Inl (ErrBadRequest ''missing code''), ctx)
      | Some code \<Rightarrow>
     (case get_str (cx_state ctx) (fbk_name fb) ''oidc_nonce'' of
        None \<Rightarrow> (Inl (ErrAuthn ''missing stored nonce''), ctx)
      | Some nonce \<Rightarrow>
     (case get_str (cx_state ctx) (fbk_name fb) ''op_entity_id'' of
        None \<Rightarrow> (Inl (ErrState ''no OP selected in state''), ctx)
      | Some op_entity_id \<Rightarrow>
          redeem_federated_code rl fl fr fb code nonce (get_str (cx_state ctx) (fbk_name fb) ''code_verifier'')
            op_entity_id ctx)))))"

definition federation_backend_handle ::
    "('w, 'k, 'j list) rp_lib \<Rightarrow> ('w, 'k, 'j) fed_lib \<Rightarrow> ('w, 'k, 'j) federation_rp \<Rightarrow> ('k, 'j) federation_backend \<Rightarrow>
      string \<Rightarrow> ('w, backend_action) handler" where
  "federation_backend_handle rl fl fr fb route_id ctx =
     (if route_id = ''entity_configuration'' then
        (map_sum id (\<lambda>jwt. BRespond (entity_statement_response fl jwt))
           (backend_entity_configuration fl fr fb (req_context.more ctx)), ctx)
      else if route_id = ''initiate'' then handle_initiate rl fl fr fb ctx
      else if route_id = ''callback'' then federation_callback rl fl fr fb ctx
      else (Inl (ErrNoBoundEndpoint route_id), ctx))"

definition federation_backend_routes :: "('k, 'j) federation_backend \<Rightarrow> route list" where
  "federation_backend_routes fb =
     [route_exact (fbk_name fb @ ''/.well-known/openid-federation'') ''entity_configuration'',
      route_exact (fbk_name fb @ ''/callback'') ''callback''] @
     (if fbk_discovery fb \<noteq> None then [route_exact (fbk_name fb @ ''/initiate'') ''initiate''] else [])"

definition federation_backend_be ::
    "('w, 'k, 'j list) rp_lib \<Rightarrow> ('w, 'k, 'j) fed_lib \<Rightarrow> ('w, 'k, 'j) federation_rp \<Rightarrow> ('k, 'j) federation_backend \<Rightarrow>
      'w backend" where
  "federation_backend_be rl fl fr fb =
     \<lparr> be_name = fbk_name fb, be_register = federation_backend_routes fb,
       be_start_auth = federation_start_auth rl fl fr fb, be_handle = federation_backend_handle rl fl fr fb \<rparr>"

definition federation_backend_build ::
    "'k build_lib \<Rightarrow> ('w, 'k, 'j list) rp_lib \<Rightarrow> ('w, 'k, 'j) fed_lib \<Rightarrow> ('w, 'k, 'j) federation_rp \<Rightarrow> 'w backend ctor" where
  "federation_backend_build bl rl fl fr bx =
     bind_result (federation_backend_configure bl fl fr bx) (\<lambda>fb. Inr (federation_backend_be rl fl fr fb))"

end
