(* ===== verification/Federation_Backend_Props.thy ===== *)
theory Federation_Backend_Props
  imports Federation_Backend
begin

text \<open>
  What the federation backend guarantees: a provider is used only while a trust anchor vouches for it
  and only under its own name, a login is bound to the session and the provider that started it, and
  the return from the discovery service is accepted once, for the redirect this session was given.
\<close>

section \<open>Resolved providers\<close>

text \<open>A provider that speaks for itself, at https endpoints.\<close>

definition op_wf :: "(string \<Rightarrow> url_parts option) \<Rightarrow> 'j resolved_op \<Rightarrow> bool" where
  "op_wf parse op \<longleftrightarrow> pi_issuer (ro_provider op) = ro_entity_id op \<and>
     (\<forall>what url. (what, Some url) \<in> set (op_urls (ro_provider op)) \<longrightarrow>
        (\<exists>p. parse url = Some p \<and> (up_scheme p = ''https'' \<or> up_scheme p = ''http'' \<and> is_loopback (up_host p))))"

text \<open>
  A cached provider with its expiry: some answer of the trust anchors, for the same entity, gave its
  subject, metadata and keys, and vouched at least until the expiry.
\<close>

definition vouched ::
    "('w, 'k, 'j) fed_lib \<Rightarrow> ('w, 'k, 'j) federation_rp \<Rightarrow> ('k, 'j) federation_backend \<Rightarrow> string \<Rightarrow> u64 \<Rightarrow> 'j resolved_op \<Rightarrow> bool" where
  "vouched fl fr fb i expires op \<longleftrightarrow> op_wf (fr_parse_url fr) op \<and>
     (\<exists>w resolved w' trust. fl_resolve fl i (fbk_trust_anchors fb) w = (Inr resolved, w') \<and> re_exp resolved = Some trust \<and>
        fl_now fl w' < trust \<and> expires \<le> trust \<and> ro_entity_id op = re_subject resolved \<and>
        json_get (re_metadata resolved) ''openid_provider'' = Some (ro_metadata op) \<and>
        ro_federation_jwks op = re_subject_jwks resolved)"

definition cache_vouched ::
    "('w, 'k, 'j) fed_lib \<Rightarrow> ('w, 'k, 'j) federation_rp \<Rightarrow> ('k, 'j) federation_backend \<Rightarrow> 'w \<Rightarrow> bool" where
  "cache_vouched fl fr fb w \<longleftrightarrow> (\<forall>i e op. fr_resolved fr w i = Some (e, op) \<longrightarrow> vouched fl fr fb i e op)"

lemma check_resolved_url_Inr:
  "check_resolved_url fr (what, Some url) = Inr () \<Longrightarrow> require_https (fr_parse_url fr) url (''resolved OP '' @ what) = Inr ()"
  by (auto simp: check_resolved_url_def split: sum.splits error.splits)

lemma op_of_resolution_Inr:
  assumes "op_of_resolution fr now resolved = Inr (op, ttl)"
  shows "op_wf (fr_parse_url fr) op" "\<exists>trust. re_exp resolved = Some trust \<and> now < trust \<and> ttl = trust - now"
    "ro_entity_id op = re_subject resolved" "json_get (re_metadata resolved) ''openid_provider'' = Some (ro_metadata op)"
    "ro_federation_jwks op = re_subject_jwks resolved"
proof -
  from assms obtain trust us where h: "re_exp resolved = Some trust" "remaining_trust now trust = Some ttl"
    "json_get (re_metadata resolved) ''openid_provider'' = Some (ro_metadata op)"
    "provider_of_metadata (re_subject resolved) (ro_metadata op) = Inr (ro_provider op)"
    "traverse (check_resolved_url fr) (op_urls (ro_provider op)) = Inr us"
    "ro_entity_id op = re_subject resolved" "ro_federation_jwks op = re_subject_jwks resolved"
    by (auto simp: op_of_resolution_def bind_result_eq_Inr)
  have "\<exists>p. fr_parse_url fr url = Some p \<and> (up_scheme p = ''https'' \<or> up_scheme p = ''http'' \<and> is_loopback (up_host p))"
    if "(what, Some url) \<in> set (op_urls (ro_provider op))" for what url
    using traverse_member[OF h(5) that] check_resolved_url_Inr[of fr what url] by (auto simp: require_https_iff)
  moreover have "pi_issuer (ro_provider op) = re_subject resolved"
    using h(4) by (auto simp: provider_of_metadata_def Let_def bind_result_eq_Inr split: if_split_asm)
      (metis provider_info.select_convs(1))
  ultimately show "op_wf (fr_parse_url fr) op" using h(6) unfolding op_wf_def by auto
  show "\<exists>trust. re_exp resolved = Some trust \<and> now < trust \<and> ttl = trust - now"
    using h(1,2) by (simp add: remaining_trust_Some)
qed (use assms in \<open>auto simp: op_of_resolution_def bind_result_eq_Inr\<close>)

lemma fetch_op_cases:
  assumes "fetch_op fl fr fb i w = (r, w')"
  obtains (failed) e w1 x where "r = Inl e" "fl_resolve fl i (fbk_trust_anchors fb) w = (x, w1)" "w' = w1"
  | (fetched) op ttl resolved w1 where "r = Inr op" "fl_resolve fl i (fbk_trust_anchors fb) w = (Inr resolved, w1)"
      "op_of_resolution fr (fl_now fl w1) resolved = Inr (op, ttl)"
      "w' = fr_set_resolved fr ((fr_resolved fr w1)(i \<mapsto> (fl_now fl w1 + min (fbk_op_cache_ttl fb) ttl, op))) w1"
proof (cases "fl_resolve fl i (fbk_trust_anchors fb) w")
  case (Pair x w1)
  then show ?thesis
  proof (cases x)
    case (Inl e)
    with Pair assms show ?thesis by (intro failed[of e]) (auto simp: fetch_op_def bind_flow_def)
  next
    case (Inr resolved)
    with Pair assms show ?thesis
      by (cases "op_of_resolution fr (fl_now fl w1) resolved")
        (auto simp: fetch_op_def bind_flow_def Let_def intro: failed fetched)
  qed
qed

text \<open>
  C24. A provider is trusted only while the anchors vouch for it.  Whatever is resolved, now or from the
  cache, comes from an answer of the trust anchors about that very entity, claims no issuer but that
  entity, has only https endpoints (or loopback ones), and a cache entry ends no later than the
  anchor's decision, with no wrap-around, so that a hit is before the decision expires.  Relied on: what
  is put into the cache slot is read back, and resolving does not touch it.
\<close>

theorem resolved_op_vouched:
  assumes slot: "\<forall>m w. fr_resolved fr (fr_set_resolved fr m w) = m"
    and own: "\<forall>w. fr_resolved fr (snd (fl_resolve fl i (fbk_trust_anchors fb) w)) = fr_resolved fr w"
    and cached: "cache_vouched fl fr fb w" and resolved: "resolve_op fl fr fb i w = (r, w')"
  shows "cache_vouched fl fr fb w' \<and>
    (\<forall>op. r = Inr op \<longrightarrow> (\<exists>e. fr_resolved fr w' i = Some (e, op) \<and> vouched fl fr fb i e op \<and> op_wf (fr_parse_url fr) op \<and>
       (w' = w \<and> fl_now fl w < e \<or> (\<exists>answer w1. fl_resolve fl i (fbk_trust_anchors fb) w = (Inr answer, w1)))))"
proof -
  have fetch: ?thesis if "fetch_op fl fr fb i w = (r, w')"
    using that
  proof (cases rule: fetch_op_cases)
    case (failed e w1 x)
    from own failed(2) have "fr_resolved fr w1 = fr_resolved fr w" by (metis snd_conv)
    with cached failed(1,3) show ?thesis by (simp add: cache_vouched_def)
  next
    case (fetched op ttl answer w1)
    from own fetched(2) have same: "fr_resolved fr w1 = fr_resolved fr w" by (metis snd_conv)
    note o = op_of_resolution_Inr[OF fetched(3)]
    from o(2) obtain trust where t: "re_exp answer = Some trust" "fl_now fl w1 < trust" "ttl = trust - fl_now fl w1" by auto
    let ?e = "fl_now fl w1 + min (fbk_op_cache_ttl fb) ttl"
    have v: "vouched fl fr fb i ?e op"
      unfolding vouched_def using fetched(2) t o bounded_expiry(2)[OF t(2)] by blast
    have m: "fr_resolved fr w' = (fr_resolved fr w)(i \<mapsto> (?e, op))" using slot fetched(4) same by simp
    have "cache_vouched fl fr fb w'"
      using cached v unfolding cache_vouched_def m by (auto split: if_split_asm)
    moreover have "fr_resolved fr w' i = Some (?e, op)" by (simp add: m)
    ultimately show ?thesis using fetched(1,2) v o(1) by blast
  qed
  show ?thesis
  proof (cases "fr_resolved fr w i")
    case None
    with resolved fetch show ?thesis by (simp add: resolve_op_def)
  next
    case (Some a)
    obtain e op where a: "a = (e, op)" by (cases a)
    show ?thesis
    proof (cases "fl_now fl w < e")
      case True
      with Some a resolved have rw: "r = Inr op" "w' = w" by (simp_all add: resolve_op_def)
      moreover have "vouched fl fr fb i e op" using cached Some a by (simp add: cache_vouched_def)
      ultimately show ?thesis using cached Some a True by (auto simp: vouched_def)
    next
      case False
      with Some a resolved fetch show ?thesis by (simp add: resolve_op_def)
    qed
  qed
qed

section \<open>A login and its provider\<close>

lemma remember_op_login_get:
  assumes "state_wf s"
  shows "get_str (remember_op_login ns state nonce verifier i s) ns ''oidc_state'' = Some state"
    "get_str (remember_op_login ns state nonce verifier i s) ns ''oidc_nonce'' = Some nonce"
    "get_str (remember_op_login ns state nonce verifier i s) ns ''code_verifier'' = Some verifier"
    "get_str (remember_op_login ns state nonce verifier i s) ns ''op_entity_id'' = Some i"
    "get_str (remember_op_login ns state nonce verifier i s) ns DISCOVERY_VERIFIER_KEY = get_str s ns DISCOVERY_VERIFIER_KEY"
    "state_wf (remember_op_login ns state nonce verifier i s)"
  using assms by (simp_all add: remember_op_login_def get_str_value set_str_def get_value_set_value DISCOVERY_VERIFIER_KEY_def)

lemma start_auth_with_op_cases:
  assumes "start_auth_with_op rl fl fr fb i c = (Inr r, c')"
  obtains op w1 state nonce verifier w2 where "resolve_op fl fr fb i (req_context.more c) = (Inr op, w1)"
    "draw_tokens rl w1 = ((state, nonce, verifier), w2)"
    "op_redirect rl fr fb (ro_provider op) state nonce (rl_s256_challenge rl verifier) w2 = Inr r"
    "c' = with_state (remember_op_login (fbk_name fb) state nonce verifier i) (with_world w2 c)"
proof -
  from assms obtain op w1 where h: "resolve_op fl fr fb i (req_context.more c) = (Inr op, w1)"
    "(case in_world (draw_tokens rl) (with_world w1 c) of ((state, nonce, verifier), ctx) \<Rightarrow>
       (op_redirect rl fr fb (ro_provider op) state nonce (rl_s256_challenge rl verifier) (req_context.more ctx),
        with_state (remember_op_login (fbk_name fb) state nonce verifier i) ctx)) = (Inr r, c')"
    by (auto simp: start_auth_with_op_def bind_flow_eq_Inr in_world_eq)
  obtain state nonce verifier w2 where t: "draw_tokens rl w1 = ((state, nonce, verifier), w2)" by (metis prod.exhaust)
  with h show ?thesis by (intro that[of op w1 state nonce verifier w2]) (auto simp: in_world_def)
qed

lemma op_redirect_Inr:
  assumes "op_redirect rl fr fb provider state nonce challenge w = Inr r"
  shows "\<exists>key request url. rc_auth (fbk_client fb) = PrivateKeyJwt key \<and>
    fr_signed_request_object fr provider (fbk_client fb) key state nonce (Some challenge) w = Inr request \<and>
    rl_authorization_url rl provider (fbk_client fb) state nonce (Some challenge) [(''request'', request)] = Inr url \<and>
    r = rl_redirect rl url"
  using assms by (auto simp: op_redirect_def bind_result_eq_Inr split: client_auth.splits)

lemma redeem_federated_codeD:
  assumes "redeem_federated_code rl fl fr fb code nonce verifier i c = (Inr a, c')"
  shows "\<exists>op w1 tokens w2 jwks w3 claims sub merged w4.
    resolve_op fl fr fb i (req_context.more c) = (Inr op, w1) \<and>
    rl_exchange_code rl (ro_provider op) (fbk_client fb) code verifier w1 = (Inr tokens, w2) \<and>
    fr_entity_jwks fr (ro_metadata op) (ro_entity_id op) (ro_federation_jwks op) w2 = (Inr jwks, w3) \<and>
    rl_verify_id_token rl jwks (ts_id_token tokens) (pi_issuer (ro_provider op)) (rc_client_id (fbk_client fb))
      (Some nonce) [fbk_id_token_alg fb] [] w3 = Inr claims \<and> ic_sub claims = Some sub \<and>
    merged_claims rl (ro_provider op) tokens claims sub (with_world w3 c) = (Inr merged, with_world w4 c) \<and>
    a = AuthResponse (federation_answer rl fb (ro_provider op) claims sub merged w4) \<and>
    c' = with_state (clear_namespace (fbk_name fb)) (with_world w4 c)"
proof -
  have m: "\<exists>w'. c2 = with_world w' c1" if "merged_claims rl provider tokens claims sub c1 = (Inr merged, c2)"
    for provider tokens claims sub c1 merged c2
  proof -
    have "\<exists>w'. c1 = with_world w' c1" by (rule exI[of _ "req_context.more c1"]) simp
    with that show ?thesis
      by (cases "pi_userinfo_endpoint provider")
        (auto simp: merged_claims_def lift_result_eq bind_flow_eq_Inr in_world_eq)
  qed
  from assms obtain op w1 tokens w2 jwks w3 claims sub merged c4 where h:
    "resolve_op fl fr fb i (req_context.more c) = (Inr op, w1)"
    "rl_exchange_code rl (ro_provider op) (fbk_client fb) code verifier w1 = (Inr tokens, w2)"
    "fr_entity_jwks fr (ro_metadata op) (ro_entity_id op) (ro_federation_jwks op) w2 = (Inr jwks, w3)"
    "rl_verify_id_token rl jwks (ts_id_token tokens) (pi_issuer (ro_provider op)) (rc_client_id (fbk_client fb))
      (Some nonce) [fbk_id_token_alg fb] [] w3 = Inr claims" "ic_sub claims = Some sub"
    "merged_claims rl (ro_provider op) tokens claims sub (with_world w3 c) = (Inr merged, c4)"
    "a = AuthResponse (federation_answer rl fb (ro_provider op) claims sub merged (req_context.more c4))"
    "c' = with_state (clear_namespace (fbk_name fb)) c4"
    by (auto simp: redeem_federated_code_def bind_flow_eq_Inr in_world_eq lift_result_eq)
  from m[OF h(6)] obtain w4 where "c4 = with_world w4 c" by auto
  with h show ?thesis by auto
qed

lemma federation_callbackD:
  assumes "federation_callback rl fl fr fb c = (Inr a, c')"
  shows "\<exists>state code nonce i. get_str (cx_state c) (fbk_name fb) ''oidc_state'' = Some state \<and>
    rl_param rl (cx_request c) ''state'' = Some state \<and> rl_param rl (cx_request c) ''error'' = None \<and>
    rl_param rl (cx_request c) ''code'' = Some code \<and> get_str (cx_state c) (fbk_name fb) ''oidc_nonce'' = Some nonce \<and>
    get_str (cx_state c) (fbk_name fb) ''op_entity_id'' = Some i \<and>
    redeem_federated_code rl fl fr fb code nonce (get_str (cx_state c) (fbk_name fb) ''code_verifier'') i c = (Inr a, c')"
  using assms by (auto simp: federation_callback_def split: if_split_asm option.splits)

text \<open>
  C12. A federated login is bound to the session and the provider that started it.  When a callback on
  the state that the redirect left succeeds, its state parameter is the redirect's, the redirect carried
  a request object signed with the client key, the code was redeemed with the redirect's verifier at
  the provider that entity id resolves to at that moment, the ID token was verified under that
  provider's federation keys for its issuer, this client, the redirect's nonce and the configured
  algorithm, the subject is the token's; and the login is consumed: the same callback fails afterwards.
\<close>

theorem federation_login_bound:
  assumes start: "start_auth_with_op rl fl fr fb i c = (Inr r, c1)" and wf: "state_wf (cx_state c)"
    and resumed: "cx_state c2 = cx_state c1"
    and done': "federation_backend_handle rl fl fr fb ''callback'' c2 = (Inr a, c3)"
  shows "\<exists>provider key state nonce verifier w0 request url op w1 code tokens w2 jwks w3 claims sub merged w4.
    rc_auth (fbk_client fb) = PrivateKeyJwt key \<and>
    fr_signed_request_object fr provider (fbk_client fb) key state nonce (Some (rl_s256_challenge rl verifier)) w0 = Inr request \<and>
    rl_authorization_url rl provider (fbk_client fb) state nonce (Some (rl_s256_challenge rl verifier)) [(''request'', request)] = Inr url \<and>
    r = rl_redirect rl url \<and> rl_param rl (cx_request c2) ''state'' = Some state \<and> rl_param rl (cx_request c2) ''code'' = Some code \<and>
    resolve_op fl fr fb i (req_context.more c2) = (Inr op, w1) \<and>
    rl_exchange_code rl (ro_provider op) (fbk_client fb) code (Some verifier) w1 = (Inr tokens, w2) \<and>
    fr_entity_jwks fr (ro_metadata op) (ro_entity_id op) (ro_federation_jwks op) w2 = (Inr jwks, w3) \<and>
    rl_verify_id_token rl jwks (ts_id_token tokens) (pi_issuer (ro_provider op)) (rc_client_id (fbk_client fb))
      (Some nonce) [fbk_id_token_alg fb] [] w3 = Inr claims \<and> ic_sub claims = Some sub \<and>
    a = AuthResponse (federation_answer rl fb (ro_provider op) claims sub merged w4) \<and>
    fst (federation_backend_handle rl fl fr fb ''callback'' (c2\<lparr> cx_state := cx_state c3 \<rparr>)) = Inl (ErrAuthn ''missing stored state'')"
proof -
  from start obtain op0 w1 state nonce verifier w2 where s0:
    "resolve_op fl fr fb i (req_context.more c) = (Inr op0, w1)"
    "op_redirect rl fr fb (ro_provider op0) state nonce (rl_s256_challenge rl verifier) w2 = Inr r"
    "c1 = with_state (remember_op_login (fbk_name fb) state nonce verifier i) (with_world w2 c)"
    by (rule start_auth_with_op_cases) (rule that)
  then have s: "op_redirect rl fr fb (ro_provider op0) state nonce (rl_s256_challenge rl verifier) w2 = Inr r"
    "cx_state c1 = remember_op_login (fbk_name fb) state nonce verifier i (cx_state c)" by simp_all
  note kept = remember_op_login_get[OF wf, where ns = "fbk_name fb" and state = state and nonce = nonce
      and verifier = verifier and i = i, folded s(2), folded resumed]
  have cb: "federation_callback rl fl fr fb c2 = (Inr a, c3)" using done' by (simp add: federation_backend_handle_def)
  from federation_callbackD[OF cb] kept obtain code where h:
    "rl_param rl (cx_request c2) ''state'' = Some state" "rl_param rl (cx_request c2) ''code'' = Some code"
    "redeem_federated_code rl fl fr fb code nonce (Some verifier) i c2 = (Inr a, c3)" by auto
  from redeem_federated_codeD[OF h(3)] obtain w4 where c3: "c3 = with_state (clear_namespace (fbk_name fb)) (with_world w4 c2)"
    by blast
  have "get_str (cx_state c3) (fbk_name fb) ''oidc_state'' = None"
    using kept(6) by (simp add: c3 get_str_clear)
  then have again: "fst (federation_backend_handle rl fl fr fb ''callback'' (c2\<lparr> cx_state := cx_state c3 \<rparr>)) =
      Inl (ErrAuthn ''missing stored state'')"
    by (simp add: federation_backend_handle_def federation_callback_def)
  from op_redirect_Inr[OF s(1)] redeem_federated_codeD[OF h(3)] h(1,2) again show ?thesis by blast
qed

section \<open>The return from discovery\<close>

lemma handle_initiateD:
  assumes "handle_initiate rl fl fr fb c = (Inr a, c')"
  shows "\<exists>d verifier login r c1. fbk_discovery fb = Some d \<and>
    get_str (cx_state c) (fbk_name fb) DISCOVERY_VERIFIER_KEY = Some verifier \<and>
    fr_parse_initiated fr (rq_query (cx_request c)) = Inr login \<and>
    il_target_link_uri login = Some (target_link_uri d verifier) \<and>
    start_auth_with_op rl fl fr fb (il_iss login) c = (Inr r, c1) \<and> a = BRespond r \<and>
    c' = with_state (set_value (fbk_name fb) DISCOVERY_VERIFIER_KEY JNull) c1"
  using assms by (auto simp: handle_initiate_def bind_flow_eq_Inr split: option.splits sum.splits if_split_asm)

text \<open>
  The choice of a provider is made once, by the browser that was sent to choose.  When the return
  from the discovery service is accepted in the session as the redirect left it, it carries the
  one-time verifier of that redirect, the provider it names resolves through the trust anchors and is the
  one the session then expects an answer from; and no return is accepted in the session that results.
\<close>

theorem federation_initiate_bound:
  assumes start: "start_discovery rl fr fb d c = (Inr r, c1)" and discovery: "fbk_discovery fb = Some d"
    and wf: "state_wf (cx_state c)" and resumed: "cx_state c2 = cx_state c1"
    and accepted: "federation_backend_handle rl fl fr fb ''initiate'' c2 = (Inr a, c3)"
  shows "\<exists>verifier hint url login redirect op w.
    discovery_redirect fr fb d hint (target_link_uri d verifier) = Inr url \<and> r = rl_redirect rl url \<and>
    fr_parse_initiated fr (rq_query (cx_request c2)) = Inr login \<and> il_target_link_uri login = Some (target_link_uri d verifier) \<and>
    resolve_op fl fr fb (il_iss login) (req_context.more c2) = (Inr op, w) \<and> a = BRespond redirect \<and>
    get_str (cx_state c3) (fbk_name fb) ''op_entity_id'' = Some (il_iss login) \<and>
    (\<forall>c4 b c5. cx_state c4 = cx_state c3 \<longrightarrow> federation_backend_handle rl fl fr fb ''initiate'' c4 \<noteq> (Inr b, c5))"
proof -
  obtain verifier w0 where v: "rl_random_token rl 16 (req_context.more c) = (verifier, w0)" by (metis prod.exhaust)
  from start v obtain hint url where s: "discovery_redirect fr fb d hint (target_link_uri d verifier) = Inr url" "r = rl_redirect rl url"
    "cx_state c1 = set_str (fbk_name fb) DISCOVERY_VERIFIER_KEY verifier (cx_state c)"
    by (auto simp: start_discovery_def in_world_def Let_def bind_result_eq_Inr)
  have wf1: "state_wf (cx_state c2)" and got: "get_str (cx_state c2) (fbk_name fb) DISCOVERY_VERIFIER_KEY = Some verifier"
    using wf resumed s(3) by (simp_all add: set_str_def get_str_value get_value_set_value)
  from accepted have hi: "handle_initiate rl fl fr fb c2 = (Inr a, c3)" by (simp add: federation_backend_handle_def)
  from handle_initiateD[OF hi] discovery got obtain login redirect c' where h:
    "fr_parse_initiated fr (rq_query (cx_request c2)) = Inr login" "il_target_link_uri login = Some (target_link_uri d verifier)"
    "start_auth_with_op rl fl fr fb (il_iss login) c2 = (Inr redirect, c')" "a = BRespond redirect"
    "c3 = with_state (set_value (fbk_name fb) DISCOVERY_VERIFIER_KEY JNull) c'" by auto
  from h(3) obtain op w1 state nonce cv w2 where o1: "resolve_op fl fr fb (il_iss login) (req_context.more c2) = (Inr op, w1)"
    "c' = with_state (remember_op_login (fbk_name fb) state nonce cv (il_iss login)) (with_world w2 c2)"
    by (rule start_auth_with_op_cases) (rule that)
  then have o: "resolve_op fl fr fb (il_iss login) (req_context.more c2) = (Inr op, w1)"
    "cx_state c' = remember_op_login (fbk_name fb) state nonce cv (il_iss login) (cx_state c2)" by simp_all
  note kept = remember_op_login_get[OF wf1, where ns = "fbk_name fb" and state = state and nonce = nonce
      and verifier = cv and i = "il_iss login", folded o(2)]
  have sel: "get_str (cx_state c3) (fbk_name fb) ''op_entity_id'' = Some (il_iss login)"
    "get_str (cx_state c3) (fbk_name fb) DISCOVERY_VERIFIER_KEY = None"
    using kept by (simp_all add: h(5) get_str_value get_value_set_value DISCOVERY_VERIFIER_KEY_def)
  have "federation_backend_handle rl fl fr fb ''initiate'' c4 \<noteq> (Inr b, c5)" if "cx_state c4 = cx_state c3" for c4 b c5
    using handle_initiateD[of rl fl fr fb c4 b c5] that sel(2) by (auto simp: federation_backend_handle_def)
  with s h o sel(1) show ?thesis by blast
qed

section \<open>What a built backend does\<close>

text \<open>
  A built backend has no dead end: it has a trust anchor, an asymmetric implemented algorithm and a
  client key, and either a fixed provider or a discovery service, never both; so the internal errors of
  the start (and the panic of its \<open>expect\<close>) are unreachable: a login the backend can honor goes to
  discovery or to the fixed provider, and one that asks for re-authentication or for silence is refused
  before anything changes.
\<close>

theorem federation_backend_total:
  assumes built: "federation_backend_configure bl fl fr bx = Inr fb"
  shows "(\<exists>key. rc_auth (fbk_client fb) = PrivateKeyJwt key) \<and> fbk_trust_anchors fb \<noteq> Map.empty \<and>
    fbk_id_token_alg fb \<notin> {''HS256'', ''HS384'', ''HS512''} \<and> bl_alg_supported bl (fbk_id_token_alg fb) \<and>
    (if id_force_authn req \<or> id_is_passive req
     then federation_start_auth rl fl fr fb req ctx = (Inl (ErrAuthn ''federation backend cannot honor force_authn/is_passive''), ctx)
     else (\<exists>d. fbk_discovery fb = Some d \<and> fbk_op_entity_id fb = None \<and>
         federation_start_auth rl fl fr fb req ctx = start_discovery rl fr fb d ctx) \<or>
       (\<exists>i. fbk_discovery fb = None \<and> fbk_op_entity_id fb = Some i \<and>
         federation_start_auth rl fl fr fb req ctx = start_auth_with_op rl fl fr fb i ctx))"
proof -
  from built obtain cfg key where h: "validate_id_token_algorithm (bl_alg_supported bl) (fbk_id_token_alg fb) = Inr ()"
    "rf_trust_anchor (fbc_federation cfg) \<noteq> []"
    "build_discovery fr bx cfg (fbk_entity_id fb) = Inr (fbk_discovery fb)" "fbk_op_entity_id fb = fbc_op_entity_id cfg"
    "build_trust_anchors fl (rf_trust_anchor (fbc_federation cfg)) = Inr (fbk_trust_anchors fb)"
    "rc_auth (fbk_client fb) = PrivateKeyJwt key"
    by (auto simp: federation_backend_configure_def bind_result_eq_Inr Let_def split: if_split_asm)
  have one: "fbk_discovery fb = None \<longleftrightarrow> fbk_op_entity_id fb \<noteq> None"
    using h(3,4) by (auto simp: build_discovery_def Let_def bind_result_eq_Inr split: option.splits if_split_asm) metis
  have grows: "anchors' \<noteq> Map.empty"
    if "fold_result (\<lambda>ta anchors. bind_result (anchor_keys fl ta) (\<lambda>jwks. Inr (anchors(ta_entity_id ta \<mapsto> jwks)))) tas anchors = Inr anchors'"
      "tas \<noteq> [] \<or> anchors \<noteq> Map.empty" for tas anchors anchors'
    using that by (induction tas arbitrary: anchors) (fastforce simp: bind_result_eq_Inr)+
  have "fbk_trust_anchors fb \<noteq> Map.empty"
    using grows[OF h(5)[unfolded build_trust_anchors_def]] h(2) by simp
  moreover have "fbk_id_token_alg fb \<notin> {''HS256'', ''HS384'', ''HS512''}" "bl_alg_supported bl (fbk_id_token_alg fb)"
    using h(1) by (simp_all add: validate_id_token_algorithm_def split: if_split_asm)
  ultimately show ?thesis
    using one h(6) by (cases "fbk_discovery fb"; cases "fbk_op_entity_id fb") (simp_all add: federation_start_auth_def)
qed


section \<open>Witnesses\<close>

text \<open>The world of the fixtures is the cache of providers and a counter.\<close>

type_synonym toy_fed_world = "(string \<Rightarrow> (u64 \<times> string resolved_op) option) \<times> nat"

definition toy_fed_rl :: "(toy_fed_world, unit, string list) rp_lib" where
  "toy_fed_rl = \<lparr> rl_random_token = (\<lambda>n w. (show_nat (snd w), (fst w, Suc (snd w)))), rl_s256_challenge = rev,
     rl_discover = (\<lambda>iss w. (Inl (ErrConfig []), w)),
     rl_authorization_url = (\<lambda>p c st n ch ex. Inr (pi_authorization_endpoint p @ ''?'' @ st)),
     rl_exchange_code = (\<lambda>p c code v w. (Inr \<lparr> ts_id_token = code, ts_access_token = ''at'' \<rparr>, w)),
     rl_fetch_jwks = (\<lambda>u i w. (Inr [], w)),
     rl_verify_id_token = (\<lambda>j t i c n al ex w. Inr \<lparr> ic_sub = Some ''alice'', ic_extra = [] \<rparr>),
     rl_fetch_userinfo = (\<lambda>e a s i w. (Inr (JObject [(''sub'', JString ''alice'')]), w)),
     rl_claims_to_attributes = (\<lambda>_. []), rl_now_rfc3339 = (\<lambda>_. []),
     rl_param = (\<lambda>rq k. bm_get (rq_query rq) k), rl_redirect = hl_redirect toy_http \<rparr>"

definition toy_op_document :: json where
  "toy_op_document = JObject [(''openid_provider'', JObject [(''authorization_endpoint'', JString ''https://op/a''),
     (''token_endpoint'', JString ''https://op/t'')])]"

definition toy_anchors :: "(toy_fed_world, unit, string) fed_lib" where
  "toy_anchors = \<lparr> fl_dec_jwk = as_str, fl_dec_jwks = (\<lambda>v. None), fl_public_jwks = (\<lambda>_. []),
     fl_resolve = (\<lambda>i anchors w. (Inr \<lparr> re_subject = i, re_metadata = toy_op_document, re_exp = Some 1000, re_subject_jwks = [''k''] \<rparr>, w)),
     fl_entity_statement = (\<lambda>k i j h m t l w. Inr i), fl_now = (\<lambda>w. 100), fl_response_new = (\<lambda>s. hl_text toy_http s []),
     fl_with_header = (\<lambda>k v r. r), fl_with_body = (\<lambda>b r. r) \<rparr>"

definition toy_fr :: "(toy_fed_world, unit, string) federation_rp" where
  "toy_fr = \<lparr> fr_parse_url = toy_urls, fr_signed_request_object = (\<lambda>p c k st n ch w. Inr ''jar''),
     fr_entity_jwks = (\<lambda>m i ks w. (Inr ks, w)), fr_discovery_url = (\<lambda>s i h t. Inr (s @ ''?'' @ unwrap_or [] t)),
     fr_parse_initiated = (\<lambda>q. case bm_get q ''iss'' of None \<Rightarrow> Inl (ErrBadRequest [])
       | Some i \<Rightarrow> Inr \<lparr> il_iss = i, il_target_link_uri = bm_get q ''target_link_uri'' \<rparr>),
     fr_alg_json = (\<lambda>a. Inr (JString a)), fr_jwks_json = (\<lambda>_. Inr JNull),
     fr_resolved = fst, fr_set_resolved = (\<lambda>m w. (m, snd w)) \<rparr>"

definition toy_fbk :: "(unit, string) federation_backend" where
  "toy_fbk = \<lparr> fbk_name = ''fed'', fbk_entity_id = ''https://p'', fbk_op_entity_id = Some ''https://op'', fbk_discovery = None,
     fbk_client = \<lparr> rc_client_id = ''https://p'', rc_redirect_uri = ''https://p/fed/callback'', rc_auth = PrivateKeyJwt (),
       rc_scope = ''openid'' \<rparr>, fbk_id_token_alg = ''RS256'', fbk_client_jwks = [], fbk_mapper = toy_mapper, fbk_fed_key = (),
     fbk_authority_hints = [], fbk_trust_anchors = [''ta'' \<mapsto> [''k'']], fbk_ec_lifetime = 86400, fbk_op_cache_ttl = 3600,
     fbk_organization_name = None, fbk_organization_uri = None, fbk_trust_marks = [] \<rparr>"

definition toy_od :: op_discovery where
  "toy_od = \<lparr> od_service = ''https://ds'', od_initiate_login_uri = ''https://p/fed/initiate'' \<rparr>"

definition toy_fbk_ds :: "(unit, string) federation_backend" where
  "toy_fbk_ds = toy_fbk\<lparr> fbk_op_entity_id := None, fbk_discovery := Some toy_od \<rparr>"

definition toy_fed_start :: "toy_fed_world req_context_scheme" where
  "toy_fed_start = context_new toy_rq1 state_new (Map.empty, 7)"

definition toy_fed_return :: "session \<Rightarrow> toy_fed_world req_context_scheme" where
  "toy_fed_return s = context_new (toy_rq1\<lparr> rq_query := [(''code'', ''xyz''), (''state'', ''7'')] \<rparr>) s (Map.empty, 20)"

definition toy_fed_choice :: "session \<Rightarrow> toy_fed_world req_context_scheme" where
  "toy_fed_choice s = context_new (toy_rq1\<lparr> rq_query := [(''iss'', ''https://op''),
     (''target_link_uri'', ''https://p/fed/initiate?tb_discovery_verifier=7'')] \<rparr>) s (Map.empty, 20)"

definition toy_fed_cfg :: json where
  "toy_fed_cfg = JObject [(''op_entity_id'', JString ''https://op''),
     (''federation'', JObject [(''signing_key_path'', JString ''k''),
       (''trust_anchor'', JArray [JObject [(''entity_id'', JString ''ta''), (''keys'', JArray [JString ''k''])]])])]"

lemma toy_federation_steps:
  "is_ok (fst (start_auth_with_op toy_fed_rl toy_anchors toy_fr toy_fbk ''https://op'' toy_fed_start))"
  "is_ok (fst (federation_backend_handle toy_fed_rl toy_anchors toy_fr toy_fbk ''callback''
     (toy_fed_return (cx_state (snd (start_auth_with_op toy_fed_rl toy_anchors toy_fr toy_fbk ''https://op'' toy_fed_start))))))"
  "is_ok (fst (start_discovery toy_fed_rl toy_fr toy_fbk_ds toy_od toy_fed_start))"
  "is_ok (fst (federation_backend_handle toy_fed_rl toy_anchors toy_fr toy_fbk_ds ''initiate''
     (toy_fed_choice (cx_state (snd (start_discovery toy_fed_rl toy_fr toy_fbk_ds toy_od toy_fed_start))))))"
  "is_ok (federation_backend_configure toy_build_lib toy_anchors toy_fr (toy_build toy_fed_cfg))"
  "is_ok (fst (resolve_op toy_anchors toy_fr toy_fbk ''https://op'' (Map.empty, 7)))"
  "state_wf (cx_state toy_fed_start)"
  by code_simp+

theorem resolved_op_vouched_witness:
  "\<exists>op e w'. resolve_op toy_anchors toy_fr toy_fbk ''https://op'' (Map.empty, 7) = (Inr op, w') \<and>
     vouched toy_anchors toy_fr toy_fbk ''https://op'' e op"
proof -
  from run_result[OF toy_federation_steps(6)] obtain op w' where
    r: "resolve_op toy_anchors toy_fr toy_fbk ''https://op'' (Map.empty, 7) = (Inr op, w')" by blast
  have "\<forall>m w. fr_resolved toy_fr (fr_set_resolved toy_fr m w) = m" by (simp add: toy_fr_def)
  moreover have "\<forall>w. fr_resolved toy_fr (snd (fl_resolve toy_anchors ''https://op'' (fbk_trust_anchors toy_fbk) w)) = fr_resolved toy_fr w"
    by (simp add: toy_anchors_def)
  moreover have "cache_vouched toy_anchors toy_fr toy_fbk (Map.empty, 7)" by (simp add: cache_vouched_def toy_fr_def)
  ultimately show ?thesis using resolved_op_vouched[OF _ _ _ r] r by blast
qed

theorem federation_login_bound_witness:
  "\<exists>r c1 a c3. start_auth_with_op toy_fed_rl toy_anchors toy_fr toy_fbk ''https://op'' toy_fed_start = (Inr r, c1) \<and>
     federation_backend_handle toy_fed_rl toy_anchors toy_fr toy_fbk ''callback'' (toy_fed_return (cx_state c1)) = (Inr a, c3) \<and>
     fst (federation_backend_handle toy_fed_rl toy_anchors toy_fr toy_fbk ''callback''
       ((toy_fed_return (cx_state c1))\<lparr> cx_state := cx_state c3 \<rparr>)) = Inl (ErrAuthn ''missing stored state'')"
proof -
  from run_result[OF toy_federation_steps(1)] obtain r c1 where
    s: "start_auth_with_op toy_fed_rl toy_anchors toy_fr toy_fbk ''https://op'' toy_fed_start = (Inr r, c1)" by blast
  from run_result[OF toy_federation_steps(2)] s obtain a c3 where
    h: "federation_backend_handle toy_fed_rl toy_anchors toy_fr toy_fbk ''callback'' (toy_fed_return (cx_state c1)) = (Inr a, c3)" by auto
  have "cx_state (toy_fed_return (cx_state c1)) = cx_state c1" by (simp add: toy_fed_return_def context_new_def)
  from federation_login_bound[OF s toy_federation_steps(7) this h] s h show ?thesis by blast
qed

theorem federation_initiate_bound_witness:
  "\<exists>r c1 a c3. start_discovery toy_fed_rl toy_fr toy_fbk_ds toy_od toy_fed_start = (Inr r, c1) \<and>
     federation_backend_handle toy_fed_rl toy_anchors toy_fr toy_fbk_ds ''initiate'' (toy_fed_choice (cx_state c1)) = (Inr a, c3) \<and>
     (\<forall>b c5. federation_backend_handle toy_fed_rl toy_anchors toy_fr toy_fbk_ds ''initiate'' (toy_fed_choice (cx_state c3)) \<noteq> (Inr b, c5))"
proof -
  from run_result[OF toy_federation_steps(3)] obtain r c1 where
    s: "start_discovery toy_fed_rl toy_fr toy_fbk_ds toy_od toy_fed_start = (Inr r, c1)" by blast
  from run_result[OF toy_federation_steps(4)] s obtain a c3 where
    h: "federation_backend_handle toy_fed_rl toy_anchors toy_fr toy_fbk_ds ''initiate'' (toy_fed_choice (cx_state c1)) = (Inr a, c3)" by auto
  have d: "fbk_discovery toy_fbk_ds = Some toy_od" by (simp add: toy_fbk_ds_def)
  have state: "cx_state (toy_fed_choice x) = x" for x by (simp add: toy_fed_choice_def context_new_def)
  from federation_initiate_bound[OF s d toy_federation_steps(7) state h] state s h show ?thesis by blast
qed

theorem federation_backend_total_witness:
  "\<exists>fb. federation_backend_configure toy_build_lib toy_anchors toy_fr (toy_build toy_fed_cfg) = Inr fb \<and>
     fbk_trust_anchors fb \<noteq> Map.empty"
proof -
  from toy_federation_steps(5) obtain fb where
    b: "federation_backend_configure toy_build_lib toy_anchors toy_fr (toy_build toy_fed_cfg) = Inr fb" by (auto simp: is_ok_iff)
  from federation_backend_total[OF b] b show ?thesis by blast
qed

end
