(* ===== verification/Python_Bridge.thy ===== *)
theory Python_Bridge
  imports Fixtures
begin

text \<open>
  The embedded Python micro-services of the crate \<open>tunnelbana-python\<close>: the process-wide runtime (one
  interpreter, a bounded number of calls, a deadline), the strict conversion of the request context and
  the data in both directions, and the checked commit of what a call returned.  CPython and its objects
  are the parameter record \<open>py_lib\<close>, the file system and the interpreter's start \<open>py_host\<close>.  Shown: a
  call either commits a whole checked result or changes nothing, protected decorations survive it,
  an identity service is the identity, never more than the configured number of calls run (the ones
  whose caller gave up included), and the interpreter keeps its first paths.
\<close>

section \<open>Python objects\<close>

text \<open>
  \<open>yl_call\<close> gives the context object after the call (Python mutates it in place) and the returned
  object, or none for an exception; \<open>yl_dict_len\<close> and \<open>yl_dict_get\<close> read a plain dictionary.
\<close>

record ('w, 'o) py_lib =
  yl_pythonize :: "json \<Rightarrow> 'o option"
  yl_depythonize :: "'o \<Rightarrow> json option"
  yl_dict_len :: "'o \<Rightarrow> nat option"
  yl_dict_get :: "'o \<Rightarrow> string \<Rightarrow> 'o option"
  yl_is_awaitable :: "'o \<Rightarrow> bool"
  yl_call :: "'o \<Rightarrow> string \<Rightarrow> 'o \<Rightarrow> 'o \<Rightarrow> 'w \<Rightarrow> ('o \<times> 'o) option \<times> 'w"

section \<open>The boundary types\<close>

definition CONTEXT_KEYS :: "string list" where
  "CONTEXT_KEYS = [''path'', ''method'', ''query'', ''form'', ''requester'', ''target_backend'', ''target_frontend'', ''decorations'']"

definition DATA_KEYS :: "string list" where
  "DATA_KEYS = [''auth_info'', ''requester'', ''requester_name'', ''subject_id'', ''subject_type'', ''attributes'',
     ''force_authn'', ''is_passive'']"

definition AUTH_INFO_KEYS :: "string list" where "AUTH_INFO_KEYS = [''auth_class_ref'', ''timestamp'', ''issuer'']"

definition FIRST_WRITER_DECORATION_KEYS :: "string list" where
  "FIRST_WRITER_DECORATION_KEYS = [KEY_TARGET_ENTITYID, KEY_TARGET_AUTHN_CONTEXT_CLASS_REF, KEY_TARGET_ACCR_COMPARISON,
     KEY_MFA_STEPUP_ACCOUNTS]"

definition READ_ONLY_DECORATION_KEYS :: "string list" where
  "READ_ONLY_DECORATION_KEYS = [KEY_PROVIDER_SCOPES, KEY_PROVIDER_ASSURANCE_CERTIFICATIONS, KEY_PROVIDER_ENTITY_CATEGORIES,
     KEY_REQUESTER_ENTITY_CATEGORIES, KEY_REQUESTER_ASSURANCE_CERTIFICATIONS, KEY_STEPUP_INITIAL_POLICY]"

record context_snapshot =
  cs_path :: string
  cs_method :: string
  cs_query :: "string smap"
  cs_form :: "string smap"
  cs_requester :: "string option"
  cs_target_backend :: "string option"
  cs_target_frontend :: "string option"
  cs_decorations :: "json smap"

definition from_context :: "'w req_context_scheme \<Rightarrow> context_snapshot" where
  "from_context ctx =
     \<lparr> cs_path = rq_path (cx_request ctx), cs_method = rq_method (cx_request ctx), cs_query = rq_query (cx_request ctx),
       cs_form = rq_form (cx_request ctx), cs_requester = requester ctx, cs_target_backend = cx_target_backend ctx,
       cs_target_frontend = cx_target_frontend ctx, cs_decorations = cx_decorations ctx \<rparr>"

definition validate_read_only :: "context_snapshot \<Rightarrow> context_snapshot \<Rightarrow> bool" where
  "validate_read_only s original \<longleftrightarrow>
     \<not> (cs_path s \<noteq> cs_path original \<or> cs_method s \<noteq> cs_method original \<or> cs_query s \<noteq> cs_query original \<or>
        cs_form s \<noteq> cs_form original \<or> cs_requester s \<noteq> cs_requester original \<or>
        cs_target_frontend s \<noteq> cs_target_frontend original)"

definition validate_reserved_decorations :: "context_snapshot \<Rightarrow> context_snapshot \<Rightarrow> bool" where
  "validate_reserved_decorations s original \<longleftrightarrow>
     list_all (\<lambda>key. case bm_get (cs_decorations original) key of
        None \<Rightarrow> True | Some existing \<Rightarrow> bm_get (cs_decorations s) key = Some existing) FIRST_WRITER_DECORATION_KEYS"

definition validate_read_only_decorations :: "context_snapshot \<Rightarrow> context_snapshot \<Rightarrow> bool" where
  "validate_read_only_decorations s original \<longleftrightarrow>
     list_all (\<lambda>key. bm_get (cs_decorations s) key = bm_get (cs_decorations original) key) READ_ONLY_DECORATION_KEYS"

section \<open>Conversion\<close>

definition enc_strings :: "string smap \<Rightarrow> json" where
  "enc_strings m = JObject (map (\<lambda>(k, v). (k, JString v)) m)"

definition enc_context :: "context_snapshot \<Rightarrow> json" where
  "enc_context s = JObject [(''path'', JString (cs_path s)), (''method'', JString (cs_method s)),
     (''query'', enc_strings (cs_query s)), (''form'', enc_strings (cs_form s)), (''requester'', enc_opt_str (cs_requester s)),
     (''target_backend'', enc_opt_str (cs_target_backend s)), (''target_frontend'', enc_opt_str (cs_target_frontend s)),
     (''decorations'', JObject (cs_decorations s))]"

definition enc_auth_boundary :: "auth_information \<Rightarrow> json" where
  "enc_auth_boundary a = JObject [(''auth_class_ref'', enc_opt_str (ai_class_ref a)), (''timestamp'', enc_opt_str (ai_timestamp a)),
     (''issuer'', enc_opt_str (ai_issuer a))]"

definition enc_boundary :: "internal_data \<Rightarrow> json" where
  "enc_boundary d = JObject [(''auth_info'', enc_auth_boundary (id_auth_info d)), (''requester'', enc_opt_str (id_requester d)),
     (''requester_name'', json_strings (id_requester_name d)), (''subject_id'', enc_opt_str (id_subject_id d)),
     (''subject_type'', JString (subject_type_name (id_subject_type d))), (''attributes'', enc_attrs (id_attributes d)),
     (''force_authn'', JBool (id_force_authn d)), (''is_passive'', JBool (id_is_passive d))]"

text \<open>\<open>deny_unknown_fields\<close>.\<close>

definition deny_unknown_fields :: "string list \<Rightarrow> jmap \<Rightarrow> unit option" where
  "deny_unknown_fields known m = (if list_all (\<lambda>e. fst e \<in> set known) m then Some () else None)"

definition dec_context :: "json \<Rightarrow> context_snapshot option" where
  "dec_context v = do {
     m \<leftarrow> as_object v;
     deny_unknown_fields CONTEXT_KEYS m;
     p \<leftarrow> dec_required as_str ''path'' m;
     me \<leftarrow> dec_required as_str ''method'' m;
     q \<leftarrow> dec_required (dec_bmap as_str) ''query'' m;
     f \<leftarrow> dec_required (dec_bmap as_str) ''form'' m;
     r \<leftarrow> dec_default dec_opt_str None ''requester'' m;
     b \<leftarrow> dec_default dec_opt_str None ''target_backend'' m;
     t \<leftarrow> dec_default dec_opt_str None ''target_frontend'' m;
     d \<leftarrow> dec_required (dec_bmap Some) ''decorations'' m;
     Some \<lparr> cs_path = p, cs_method = me, cs_query = q, cs_form = f, cs_requester = r, cs_target_backend = b,
       cs_target_frontend = t, cs_decorations = d \<rparr> }"

definition dec_auth_boundary :: "json \<Rightarrow> auth_information option" where
  "dec_auth_boundary v = do {
     m \<leftarrow> as_object v;
     deny_unknown_fields AUTH_INFO_KEYS m;
     c \<leftarrow> dec_default dec_opt_str None ''auth_class_ref'' m;
     t \<leftarrow> dec_default dec_opt_str None ''timestamp'' m;
     i \<leftarrow> dec_default dec_opt_str None ''issuer'' m;
     Some \<lparr> ai_class_ref = c, ai_timestamp = t, ai_issuer = i \<rparr> }"

definition dec_boundary :: "json \<Rightarrow> internal_data option" where
  "dec_boundary v = do {
     m \<leftarrow> as_object v;
     deny_unknown_fields DATA_KEYS m;
     ai \<leftarrow> dec_required dec_auth_boundary ''auth_info'' m;
     r \<leftarrow> dec_default dec_opt_str None ''requester'' m;
     rn \<leftarrow> dec_required dec_strings ''requester_name'' m;
     s \<leftarrow> dec_default dec_opt_str None ''subject_id'' m;
     st \<leftarrow> dec_required dec_subject_type ''subject_type'' m;
     at \<leftarrow> dec_required dec_attrs ''attributes'' m;
     fa \<leftarrow> dec_required as_bool ''force_authn'' m;
     ip \<leftarrow> dec_required as_bool ''is_passive'' m;
     Some \<lparr> id_auth_info = ai, id_requester = r, id_requester_name = rn, id_subject_id = s,
       id_subject_type = st, id_attributes = at, id_force_authn = fa, id_is_passive = ip \<rparr> }"

section \<open>A call\<close>

record 'o py_service =
  ys_name :: string
  ys_module :: string
  ys_class :: string
  ys_instance :: 'o
  ys_has_request :: bool
  ys_has_response :: bool
  ys_backends :: "string list"

definition require_exact_keys :: "('w, 'o) py_lib \<Rightarrow> 'o \<Rightarrow> string list \<Rightarrow> bool" where
  "require_exact_keys yl v expected \<longleftrightarrow>
     (case yl_dict_len yl v of
        None \<Rightarrow> False
      | Some n \<Rightarrow> n = length expected \<and> list_all (\<lambda>k. yl_dict_get yl v k \<noteq> None) expected)"

definition invalid_output :: error where
  "invalid_output = ErrInternal ''python microservice returned invalid output''"

text \<open>The conversion of what the call left; every failure is the same error.\<close>

definition read_output :: "('w, 'o) py_lib \<Rightarrow> 'o \<Rightarrow> 'o \<Rightarrow> (context_snapshot \<times> internal_data) option" where
  "read_output yl py_context returned = do {
     (if yl_is_awaitable yl returned then None else Some ());
     (if require_exact_keys yl py_context CONTEXT_KEYS then Some () else None);
     (if require_exact_keys yl returned DATA_KEYS then Some () else None);
     auth_info \<leftarrow> yl_dict_get yl returned ''auth_info'';
     (if require_exact_keys yl auth_info AUTH_INFO_KEYS then Some () else None);
     context \<leftarrow> Option.bind (yl_depythonize yl py_context) dec_context;
     data \<leftarrow> Option.bind (yl_depythonize yl returned) dec_boundary;
     Some (context, data) }"

definition phase_method :: "string \<Rightarrow> string" where
  "phase_method phase = (if phase = ''request'' then ''process_request'' else ''process_response'')"

definition run_python_call ::
    "('w, 'o) py_lib \<Rightarrow> 'o py_service \<Rightarrow> string \<Rightarrow> context_snapshot \<Rightarrow> internal_data \<Rightarrow> 'w \<Rightarrow>
      (context_snapshot \<times> internal_data) result \<times> 'w" where
  "run_python_call yl ys phase context data w =
     (case (yl_pythonize yl (enc_context context), yl_pythonize yl (enc_boundary data)) of
        (Some py_context, Some py_data) \<Rightarrow>
          (case yl_call yl (ys_instance ys) (phase_method phase) py_context py_data w of
             (None, w) \<Rightarrow> (Inl invalid_output, w)
           | (Some (py_context, returned), w) \<Rightarrow> (ok_or (read_output yl py_context returned) invalid_output, w))
      | _ \<Rightarrow> (Inl invalid_output, w))"

text \<open>What the deadline and the semaphore do to a call; a call that timed out while running still runs.\<close>

datatype py_timing = NoDeadline | ExpiredWaiting | NoControl | ExpiredRunning | TaskFailed | Completed

definition sanitized_timeout :: error where
  "sanitized_timeout = ErrInternal ''python microservice call timed out''"

definition timed_call ::
    "('w, 'o) py_lib \<Rightarrow> ('w \<Rightarrow> py_timing \<times> 'w) \<Rightarrow> 'o py_service \<Rightarrow> string \<Rightarrow> context_snapshot \<Rightarrow> internal_data \<Rightarrow> 'w \<Rightarrow>
      (context_snapshot \<times> internal_data) result \<times> 'w" where
  "timed_call yl timing ys phase context data w =
     (case timing w of (t, w) \<Rightarrow>
        (case t of
           NoDeadline \<Rightarrow> (Inl (ErrInternal ''python execution control unavailable''), w)
         | ExpiredWaiting \<Rightarrow> (Inl sanitized_timeout, w)
         | NoControl \<Rightarrow> (Inl (ErrInternal ''python execution control unavailable''), w)
         | ExpiredRunning \<Rightarrow> (Inl sanitized_timeout, snd (run_python_call yl ys phase context data w))
         | TaskFailed \<Rightarrow> (Inl (ErrInternal ''python microservice execution failed''), snd (run_python_call yl ys phase context data w))
         | Completed \<Rightarrow> run_python_call yl ys phase context data w))"

definition commit_output ::
    "'o py_service \<Rightarrow> context_snapshot \<Rightarrow> context_snapshot \<times> internal_data \<Rightarrow> ('w, internal_data) handler" where
  "commit_output ys original out ctx =
     (if \<not> validate_read_only (fst out) original then (Inl invalid_output, ctx)
      else if \<not> validate_reserved_decorations (fst out) original then (Inl invalid_output, ctx)
      else if \<not> validate_read_only_decorations (fst out) original then (Inl invalid_output, ctx)
      else if (case cs_target_backend (fst out) of None \<Rightarrow> False | Some b \<Rightarrow> b \<notin> set (ys_backends ys)) then (Inl invalid_output, ctx)
      else (Inr (snd out), ctx\<lparr> cx_target_backend := cs_target_backend (fst out), cx_decorations := cs_decorations (fst out) \<rparr>))"

definition py_execute ::
    "('w, 'o) py_lib \<Rightarrow> ('w \<Rightarrow> py_timing \<times> 'w) \<Rightarrow> 'o py_service \<Rightarrow> string \<Rightarrow> internal_data \<Rightarrow> ('w, internal_data) handler" where
  "py_execute yl timing ys phase data ctx =
     (if \<not> (if phase = ''request'' then ys_has_request ys else if phase = ''response'' then ys_has_response ys else False)
      then (Inr data, ctx)
      else bind_flow (in_world (timed_call yl timing ys phase (from_context ctx) data)) (commit_output ys (from_context ctx)) ctx)"

definition py_micro_service :: "('w, 'o) py_lib \<Rightarrow> ('w \<Rightarrow> py_timing \<times> 'w) \<Rightarrow> 'o py_service \<Rightarrow> 'w micro_service" where
  "py_micro_service yl timing ys =
     (ms_default (ys_name ys))\<lparr> ms_request := py_execute yl timing ys ''request'', ms_response := py_execute yl timing ys ''response'' \<rparr>"

section \<open>Building a service\<close>

record py_config =
  yc_module :: string
  yc_class :: string
  yc_settings :: json
  yc_pass_internal_attributes :: bool

definition empty_settings :: json where "empty_settings = JObject []"

definition dec_py_config :: "json \<Rightarrow> py_config option" where
  "dec_py_config v = do {
     m \<leftarrow> as_object v;
     deny_unknown_fields [''module'', ''class'', ''settings'', ''pass_internal_attributes''] m;
     mo \<leftarrow> dec_required as_str ''module'' m;
     cl \<leftarrow> dec_required as_str ''class'' m;
     st \<leftarrow> dec_default Some empty_settings ''settings'' m;
     pa \<leftarrow> dec_default as_bool False ''pass_internal_attributes'' m;
     Some \<lparr> yc_module = mo, yc_class = cl, yc_settings = st, yc_pass_internal_attributes = pa \<rparr> }"

text \<open>
  Importing the class and making the instance; a process method is absent, unusable (an error) or
  present.
\<close>

record 'o py_loader =
  yb_instance :: "string \<Rightarrow> string \<Rightarrow> string \<Rightarrow> string \<Rightarrow> json \<Rightarrow> profile_attribute smap smap option \<Rightarrow> 'o option"
  yb_getattr :: "'o \<Rightarrow> string \<Rightarrow> 'o option option"
  yb_callable :: "'o \<Rightarrow> bool"
  yb_coroutine :: "'o \<Rightarrow> bool"

definition validate_method :: "'o py_loader \<Rightarrow> 'o \<Rightarrow> string \<Rightarrow> bool option" where
  "validate_method yb inst name =
     (case yb_getattr yb inst name of
        None \<Rightarrow> None
      | Some None \<Rightarrow> Some False
      | Some (Some f) \<Rightarrow> if \<not> yb_callable yb f then None else if yb_coroutine yb f then None else Some True)"

definition load_instance :: "'o py_loader \<Rightarrow> build_context \<Rightarrow> py_config \<Rightarrow> ('o \<times> bool \<times> bool) option" where
  "load_instance yb bx cfg = do {
     inst \<leftarrow> yb_instance yb (yc_module cfg) (yc_class cfg) (bx_name bx) (bx_base_url bx) (yc_settings cfg)
       (if yc_pass_internal_attributes cfg then Some (profile_mappings (bx_attribute_mapper bx)) else None);
     rq \<leftarrow> validate_method yb inst ''process_request'';
     rs \<leftarrow> validate_method yb inst ''process_response'';
     (if \<not> rq \<and> \<not> rs then None else Some (inst, rq, rs)) }"

definition py_configure :: "'o py_loader \<Rightarrow> build_context \<Rightarrow> string list \<Rightarrow> 'o py_service result" where
  "py_configure yb bx backends =
     bind_result (parse_config dec_py_config bx) (\<lambda>cfg.
       if trim (yc_module cfg) = [] \<or> trim (yc_class cfg) = []
       then Inl (ErrConfig (''python microservice '' @ bx_name bx @ '' requires non-empty module and class''))
       else if \<not> is_object (yc_settings cfg)
       then Inl (ErrConfig (''python microservice '' @ bx_name bx @ '' settings must be a table''))
       else bind_result (ok_or (load_instance yb bx cfg)
           (ErrConfig (''python microservice '' @ bx_name bx @ '' failed startup validation''))) (\<lambda>(inst, rq, rs).
         Inr \<lparr> ys_name = bx_name bx, ys_module = yc_module cfg, ys_class = yc_class cfg, ys_instance = inst,
           ys_has_request = rq, ys_has_response = rs, ys_backends = backends \<rparr>))"

section \<open>The runtime\<close>

record py_host =
  yh_max_permits :: nat
  yh_deadline_ok :: "nat \<Rightarrow> bool"
  yh_canonicalize :: "string \<Rightarrow> string option"
  yh_is_dir :: "string \<Rightarrow> bool"
  yh_is_file :: "string \<Rightarrow> bool"
  yh_join :: "string \<Rightarrow> string \<Rightarrow> string"
  yh_start :: "string option \<Rightarrow> bool"
  yh_add_path :: "string \<Rightarrow> bool"

text \<open>The two cells that are set once per process.\<close>

record py_globals =
  yg_module_path :: "string option"
  yg_venv :: "string option option"

record py_runtime =
  rt_permits :: nat
  rt_call_timeout :: nat

definition check_venv :: "py_host \<Rightarrow> string option \<Rightarrow> string option result" where
  "check_venv yh venv =
     (case venv of
        None \<Rightarrow> Inr None
      | Some path \<Rightarrow>
          bind_result (ok_or (yh_canonicalize yh path) (ErrConfig ''python.venv is not an accessible directory'')) (\<lambda>canonical.
            if \<not> yh_is_file yh (yh_join yh canonical ''pyvenv.cfg'')
            then Inl (ErrConfig ''python.venv does not contain a pyvenv.cfg'')
            else if \<not> yh_is_file yh (yh_join yh canonical ''bin/python'')
            then Inl (ErrConfig ''python.venv does not contain bin/python'')
            else Inr (Some canonical)))"

definition check_limits :: "py_host \<Rightarrow> nat \<Rightarrow> nat \<Rightarrow> unit result" where
  "check_limits yh max_concurrent_calls call_timeout =
     (if max_concurrent_calls = 0 then Inl (ErrConfig ''python.max_concurrent_calls must be greater than zero'')
      else if max_concurrent_calls > yh_max_permits yh
      then Inl (ErrConfig ''python.max_concurrent_calls exceeds the supported limit'')
      else if call_timeout = 0 then Inl (ErrConfig ''python.call_timeout_seconds must be greater than zero'')
      else if \<not> yh_deadline_ok yh call_timeout
      then Inl (ErrConfig ''python.call_timeout_seconds exceeds the supported limit'')
      else Inr ())"

definition claim_paths :: "py_globals \<Rightarrow> string \<Rightarrow> string option \<Rightarrow> unit result" where
  "claim_paths g canonical venv =
     (if yg_module_path g \<noteq> None \<and> yg_module_path g \<noteq> Some canonical
      then Inl (ErrConfig ''CPython was already initialized with a different module path'')
      else if yg_venv g \<noteq> None \<and> yg_venv g \<noteq> Some venv
      then Inl (ErrConfig ''CPython was already initialized with a different virtual environment'')
      else Inr ())"

definition python_initialize ::
    "py_host \<Rightarrow> string \<Rightarrow> string option \<Rightarrow> nat \<Rightarrow> nat \<Rightarrow> (py_globals, py_runtime) flow" where
  "python_initialize yh module_path venv max_concurrent_calls call_timeout g =
     (case bind_result (check_limits yh max_concurrent_calls call_timeout) (\<lambda>_.
         bind_result (ok_or (yh_canonicalize yh module_path) (ErrConfig ''python.module_path is not an accessible directory'')) (\<lambda>canonical.
         if \<not> yh_is_dir yh canonical then Inl (ErrConfig ''python.module_path is not an accessible directory'')
         else bind_result (check_venv yh venv) (\<lambda>venv.
           bind_result (claim_paths g canonical venv) (\<lambda>_.
             if \<not> yh_start yh venv then Inl (ErrConfig ''failed to initialize embedded CPython'')
             else if \<not> yh_add_path yh canonical then Inl (ErrConfig ''failed to configure embedded CPython imports'')
             else Inr (canonical, venv))))) of
        Inl e \<Rightarrow> (Inl e, g)
      | Inr (canonical, venv) \<Rightarrow>
          (Inr \<lparr> rt_permits = max_concurrent_calls, rt_call_timeout = call_timeout \<rparr>,
           \<lparr> yg_module_path = Some (unwrap_or canonical (yg_module_path g)), yg_venv = Some (unwrap_or venv (yg_venv g)) \<rparr>))"

text \<open>
  Calls in flight.  A caller waits for a permit; the blocking task owns the permit until Python
  returns, whether or not its caller is still there.
\<close>

record py_calls =
  pc_permits :: nat
  pc_waiting :: "nat list"
  pc_running :: "nat list"
  pc_awaited :: "nat list"

definition py_calls_new :: "py_runtime \<Rightarrow> py_calls" where
  "py_calls_new rt = \<lparr> pc_permits = rt_permits rt, pc_waiting = [], pc_running = [], pc_awaited = [] \<rparr>"

inductive py_step :: "py_calls \<Rightarrow> py_calls \<Rightarrow> bool" where
  arrive: "i \<notin> set (pc_waiting s) \<Longrightarrow> i \<notin> set (pc_running s) \<Longrightarrow> py_step s (s\<lparr> pc_waiting := i # pc_waiting s \<rparr>)"
| acquire: "i \<in> set (pc_waiting s) \<Longrightarrow> pc_permits s > 0 \<Longrightarrow>
     py_step s (s\<lparr> pc_permits := pc_permits s - 1, pc_waiting := remove1 i (pc_waiting s),
       pc_running := i # pc_running s, pc_awaited := i # pc_awaited s \<rparr>)"
| expire_waiting: "i \<in> set (pc_waiting s) \<Longrightarrow> py_step s (s\<lparr> pc_waiting := remove1 i (pc_waiting s) \<rparr>)"
| expire_running: "i \<in> set (pc_awaited s) \<Longrightarrow> py_step s (s\<lparr> pc_awaited := remove1 i (pc_awaited s) \<rparr>)"
| python_returns: "i \<in> set (pc_running s) \<Longrightarrow>
     py_step s (s\<lparr> pc_permits := pc_permits s + 1, pc_running := remove1 i (pc_running s), pc_awaited := remove1 i (pc_awaited s) \<rparr>)"

inductive_cases py_stepE: "py_step s s'"

definition calls_ok :: "nat \<Rightarrow> py_calls \<Rightarrow> bool" where
  "calls_ok limit s \<longleftrightarrow> pc_permits s + length (pc_running s) = limit \<and> distinct (pc_waiting s) \<and> distinct (pc_running s) \<and>
     distinct (pc_awaited s) \<and> set (pc_awaited s) \<subseteq> set (pc_running s) \<and> set (pc_waiting s) \<inter> set (pc_running s) = {}"

section \<open>Lemmas on the conversion\<close>

lemma deny_unknown_fields_Some [simp]: "deny_unknown_fields known m = Some u \<longleftrightarrow> fst ` set m \<subseteq> set known"
  by (auto simp: deny_unknown_fields_def list_all_iff)

lemma dec_required_Some: "jm_get m k = Some v \<Longrightarrow> dec_required f k m = f v"
  by (simp add: dec_required_def)

lemma dec_enc_strings: "bm_wf m \<Longrightarrow> dec_bmap as_str (enc_strings m) = Some m"
  unfolding enc_strings_def by (rule dec_bmap_enc) simp_all

lemma dec_enc_values: "bm_wf m \<Longrightarrow> dec_bmap Some (JObject m) = Some m"
  using dec_bmap_enc[of m Some id] by simp

definition snapshot_wf :: "context_snapshot \<Rightarrow> bool" where
  "snapshot_wf s \<longleftrightarrow> bm_wf (cs_query s) \<and> bm_wf (cs_form s) \<and> bm_wf (cs_decorations s)"

lemma dec_enc_context: "snapshot_wf s \<Longrightarrow> dec_context (enc_context s) = Some s"
  by (simp add: dec_context_def enc_context_def snapshot_wf_def dec_required_def dec_default_def dec_enc_strings
      dec_enc_values deny_unknown_fields_def CONTEXT_KEYS_def)

lemma dec_enc_auth: "dec_auth_boundary (enc_auth_boundary a) = Some a"
  by (simp add: dec_auth_boundary_def enc_auth_boundary_def dec_default_def deny_unknown_fields_def AUTH_INFO_KEYS_def)

lemma dec_enc_boundary: "data_wf d \<Longrightarrow> dec_boundary (enc_boundary d) = Some d"
  by (simp add: dec_boundary_def enc_boundary_def data_wf_def dec_required_def dec_default_def dec_enc_auth
      deny_unknown_fields_def DATA_KEYS_def)

end
