(* ===== verification/Python_Bridge_Props.thy ===== *)
theory Python_Bridge_Props
  imports Python_Bridge
begin

text \<open>
  What holds of the embedded Python micro-services: a call commits a whole checked result or nothing,
  an echoing service is the identity, the calls that run (abandoned ones included) never exceed the
  configured number, and the interpreter keeps the paths it was first given.
\<close>

section \<open>Committing a call\<close>

lemma run_python_call_Inl: "run_python_call yl ys phase c d w = (Inl e, w') \<Longrightarrow> e = invalid_output"
  by (auto simp: run_python_call_def ok_or_def split: option.splits prod.splits)

lemma timed_call_Inl: "timed_call yl timing ys phase c d w = (Inl e, w') \<Longrightarrow>
    e \<in> {invalid_output, sanitized_timeout, ErrInternal ''python execution control unavailable'',
      ErrInternal ''python microservice execution failed''}"
  by (auto simp: timed_call_def dest: run_python_call_Inl split: prod.splits py_timing.splits)

lemma commit_output_if:
  "commit_output ys s out c =
    (if validate_read_only (fst out) s \<and> validate_reserved_decorations (fst out) s \<and> validate_read_only_decorations (fst out) s \<and>
        cs_target_backend (fst out) \<in> insert None (Some ` set (ys_backends ys))
     then (Inr (snd out), c\<lparr> cx_target_backend := cs_target_backend (fst out), cx_decorations := cs_decorations (fst out) \<rparr>)
     else (Inl invalid_output, c))"
  by (cases "cs_target_backend (fst out)") (auto simp: commit_output_def)

lemma commit_checks:
  "validate_read_only s (from_context ctx) \<longleftrightarrow> cs_path s = rq_path (cx_request ctx) \<and>
      cs_method s = rq_method (cx_request ctx) \<and> cs_query s = rq_query (cx_request ctx) \<and>
      cs_form s = rq_form (cx_request ctx) \<and> cs_requester s = requester ctx \<and> cs_target_frontend s = cx_target_frontend ctx"
  "validate_reserved_decorations s (from_context ctx) \<longleftrightarrow>
      (\<forall>k \<in> set FIRST_WRITER_DECORATION_KEYS. decoration ctx k \<in> {None, bm_get (cs_decorations s) k})"
  "validate_read_only_decorations s (from_context ctx) \<longleftrightarrow>
      (\<forall>k \<in> set READ_ONLY_DECORATION_KEYS. bm_get (cs_decorations s) k = decoration ctx k)"
proof -
  have "(case x of None \<Rightarrow> True | Some v \<Rightarrow> y = Some v) \<longleftrightarrow> x \<in> {None, y}" for x y :: "json option"
    by (cases x) auto
  then show "validate_reserved_decorations s (from_context ctx) \<longleftrightarrow>
      (\<forall>k \<in> set FIRST_WRITER_DECORATION_KEYS. decoration ctx k \<in> {None, bm_get (cs_decorations s) k})"
    unfolding validate_reserved_decorations_def list_all_iff by (simp add: from_context_def decoration_def)
qed (auto simp: validate_read_only_def validate_read_only_decorations_def list_all_iff from_context_def decoration_def)

lemma commit_output_Inl: "commit_output ys s out c = (Inl e, c') \<Longrightarrow> e = invalid_output \<and> c' = c"
  by (auto simp: commit_output_def split: if_splits)

lemma commit_output_Inr:
  assumes "commit_output ys (from_context c) out c = (Inr d, c')"
  shows "d = snd out" "c' = c\<lparr> cx_target_backend := cs_target_backend (fst out), cx_decorations := cs_decorations (fst out) \<rparr>"
    "requester c' = requester c"
    "\<And>k. k \<in> set READ_ONLY_DECORATION_KEYS \<Longrightarrow> decoration c' k = decoration c k"
    "\<And>k v. k \<in> set FIRST_WRITER_DECORATION_KEYS \<Longrightarrow> decoration c k = Some v \<Longrightarrow> decoration c' k = Some v"
    "\<And>b. cx_target_backend c' = Some b \<Longrightarrow> b \<in> set (ys_backends ys)"
  using assms
  by (auto simp: commit_output_def validate_read_only_decorations_def validate_reserved_decorations_def list_all_iff
      from_context_def decoration_def requester_def split: if_split_asm option.splits)

lemma py_execute_outcome:
  assumes "py_execute yl timing ys phase data ctx = (r, ctx')" "phase = ''request'' \<and> ys_has_request ys \<or> phase = ''response'' \<and> ys_has_response ys"
  shows "case r of
      Inl e \<Rightarrow> (\<exists>w. ctx' = with_world w ctx) \<and>
        e \<in> ErrInternal ` {''python microservice returned invalid output'', ''python microservice call timed out'',
          ''python execution control unavailable'', ''python microservice execution failed''}
    | Inr _ \<Rightarrow> cx_request ctx' = cx_request ctx \<and> cx_state ctx' = cx_state ctx \<and> requester ctx' = requester ctx \<and>
        cx_target_frontend ctx' = cx_target_frontend ctx \<and>
        (\<forall>k \<in> set READ_ONLY_DECORATION_KEYS. decoration ctx' k = decoration ctx k) \<and>
        (\<forall>k \<in> set FIRST_WRITER_DECORATION_KEYS. \<forall>v. decoration ctx k = Some v \<longrightarrow> decoration ctx' k = Some v) \<and>
        cx_target_backend ctx' \<in> insert None (Some ` set (ys_backends ys))"
proof -
  obtain t w where t: "timed_call yl timing ys phase (from_context ctx) data (req_context.more ctx) = (t, w)" by fastforce
  have same: "from_context (with_world w ctx) = from_context ctx" "requester (with_world w ctx) = requester ctx"
    by (simp_all add: from_context_def requester_def)
  from assms have e: "bind_flow (in_world (timed_call yl timing ys phase (from_context ctx) data)) (commit_output ys (from_context ctx)) ctx = (r, ctx')"
    by (auto simp: py_execute_def)
  show ?thesis
  proof (cases t)
    case (Inl e)
    with e t timed_call_Inl[of yl timing ys phase _ data] show ?thesis
      by (auto simp: bind_flow_def in_world_def invalid_output_def sanitized_timeout_def)
  next
    case (Inr out)
    with e t have c: "commit_output ys (from_context (with_world w ctx)) out (with_world w ctx) = (r, ctx')"
      by (simp add: bind_flow_def in_world_def same(1))
    show ?thesis
    proof (cases r)
      case (Inl e)
      with commit_output_Inl c show ?thesis by (fastforce simp: invalid_output_def)
    next
      case d: (Inr d)
      note out = commit_output_Inr[OF c[unfolded d]]
      have "decoration (with_world w ctx) = decoration ctx" by (simp add: fun_eq_iff decoration_def)
      with out(3-6) same(2) have "requester ctx' = requester ctx"
          "\<forall>k \<in> set READ_ONLY_DECORATION_KEYS. decoration ctx' k = decoration ctx k"
          "\<forall>k \<in> set FIRST_WRITER_DECORATION_KEYS. \<forall>v. decoration ctx k = Some v \<longrightarrow> decoration ctx' k = Some v"
        by simp_all
      moreover have "cx_target_backend ctx' \<in> insert None (Some ` set (ys_backends ys))"
        using out(6) by (cases "cx_target_backend ctx'") auto
      moreover have "cx_request ctx' = cx_request ctx" "cx_state ctx' = cx_state ctx" "cx_target_frontend ctx' = cx_target_frontend ctx"
        by (simp_all add: out(2))
      ultimately show ?thesis by (simp add: d)
    qed
  qed
qed

lemma py_execute_backend:
  assumes "py_execute yl timing ys phase data ctx = (r, ctx')" "phase = ''request'' \<and> ys_has_request ys \<or> phase = ''response'' \<and> ys_has_response ys"
  shows "cx_target_backend ctx' \<in> insert (cx_target_backend ctx) (insert None (Some ` set (ys_backends ys)))"
  using py_execute_outcome[OF assms] by (auto split: sum.splits)

text \<open>
  C4. A Python call is atomic and confined.  When it fails, nothing of the context changes and the
  error is one of four fixed texts, so nothing of the Python exception reaches the caller; when it
  succeeds, the request, the session, the requester and the frontend are untouched, the decorations
  that native code validated are those from before, a reserved decoration another component
  published is still there, and the chosen backend is a configured one (or none).
\<close>

theorem python_call_atomic:
  assumes "py_execute yl timing ys phase data ctx = (r, ctx')" "phase = ''request'' \<and> ys_has_request ys \<or> phase = ''response'' \<and> ys_has_response ys"
  shows "case r of
      Inl e \<Rightarrow> (\<exists>w. ctx' = with_world w ctx) \<and>
        e \<in> ErrInternal ` {''python microservice returned invalid output'', ''python microservice call timed out'',
          ''python execution control unavailable'', ''python microservice execution failed''}
    | Inr _ \<Rightarrow> cx_request ctx' = cx_request ctx \<and> cx_state ctx' = cx_state ctx \<and> requester ctx' = requester ctx \<and>
        cx_target_frontend ctx' = cx_target_frontend ctx \<and>
        (\<forall>k \<in> set READ_ONLY_DECORATION_KEYS. decoration ctx' k = decoration ctx k) \<and>
        (\<forall>k \<in> set FIRST_WRITER_DECORATION_KEYS. \<forall>v. decoration ctx k = Some v \<longrightarrow> decoration ctx' k = Some v) \<and>
        cx_target_backend ctx' \<in> insert None (Some ` set (ys_backends ys))"
  by (rule py_execute_outcome[OF assms])

section \<open>A service as a function on values\<close>

text \<open>
  The documented behaviour of \<open>pythonize\<close>: it is total on JSON values, gives plain dictionaries with the
  keys of the value, and \<open>depythonize\<close> inverts it.
\<close>

definition pythonize_laws :: "('w, 'o) py_lib \<Rightarrow> bool" where
  "pythonize_laws yl \<longleftrightarrow> (\<forall>v. yl_pythonize yl v \<noteq> None) \<and>
     (\<forall>v ob. yl_pythonize yl v = Some ob \<longrightarrow> yl_depythonize yl ob = Some v \<and> \<not> yl_is_awaitable yl ob) \<and>
     (\<forall>m ob. distinct (map fst m) \<longrightarrow> yl_pythonize yl (JObject m) = Some ob \<longrightarrow>
       yl_dict_len yl ob = Some (length m) \<and> (\<forall>k. yl_dict_get yl ob k = Option.bind (jm_get m k) (yl_pythonize yl)))"

lemma pythonize_total: "pythonize_laws yl \<Longrightarrow> \<exists>ob. yl_pythonize yl v = Some ob"
  unfolding pythonize_laws_def by blast

lemma depythonize_pythonize:
  "pythonize_laws yl \<Longrightarrow> yl_pythonize yl v = Some ob \<Longrightarrow> yl_depythonize yl ob = Some v \<and> \<not> yl_is_awaitable yl ob"
  unfolding pythonize_laws_def by blast

lemma exact_keys_pythonized:
  assumes laws: "pythonize_laws yl" and o: "yl_pythonize yl (JObject m) = Some ob" "distinct (map fst m)"
  shows "require_exact_keys yl ob (map fst m)" "\<And>k v. jm_get m k = Some v \<Longrightarrow> yl_dict_get yl ob k = yl_pythonize yl v"
proof -
  have law: "yl_dict_len yl ob = Some (length m)" "\<And>k. yl_dict_get yl ob k = Option.bind (jm_get m k) (yl_pythonize yl)"
    using laws o unfolding pythonize_laws_def by blast+
  have "yl_dict_get yl ob k \<noteq> None" if "k \<in> fst ` set m" for k
    using that pythonize_total[OF laws] by (cases "jm_get m k") (auto simp: law(2) map_of_eq_None_iff)
  then show "require_exact_keys yl ob (map fst m)"
    by (auto simp: require_exact_keys_def list_all_iff law(1))
  show "\<And>k v. jm_get m k = Some v \<Longrightarrow> yl_dict_get yl ob k = yl_pythonize yl v"
    by (simp add: law(2))
qed

lemma read_output_pythonized:
  assumes laws: "pythonize_laws yl"
    and c: "yl_pythonize yl (enc_context s) = Some oc" "snapshot_wf s"
    and d: "yl_pythonize yl (enc_boundary d) = Some od" "data_wf d"
  shows "read_output yl oc od = Some (s, d)"
proof -
  obtain cm where cm: "enc_context s = JObject cm" "map fst cm = CONTEXT_KEYS" "distinct (map fst cm)"
    by (simp add: enc_context_def CONTEXT_KEYS_def)
  obtain dm where dm: "enc_boundary d = JObject dm" "map fst dm = DATA_KEYS" "distinct (map fst dm)"
      "jm_get dm ''auth_info'' = Some (enc_auth_boundary (id_auth_info d))"
    by (simp add: enc_boundary_def DATA_KEYS_def)
  obtain am where am: "enc_auth_boundary (id_auth_info d) = JObject am" "map fst am = AUTH_INFO_KEYS" "distinct (map fst am)"
    by (simp add: enc_auth_boundary_def AUTH_INFO_KEYS_def)
  obtain oa where oa: "yl_pythonize yl (JObject am) = Some oa" using pythonize_total[OF laws] by blast
  note keys = exact_keys_pythonized[OF laws]
  have "require_exact_keys yl oc CONTEXT_KEYS" using keys(1)[of cm oc] c(1) cm by simp
  moreover have "require_exact_keys yl od DATA_KEYS" using keys(1)[of dm od] d(1) dm by simp
  moreover have "yl_dict_get yl od ''auth_info'' = Some oa" using keys(2)[of dm od] d(1) dm am(1) oa by simp
  moreover have "require_exact_keys yl oa AUTH_INFO_KEYS" using keys(1)[of am oa] oa am by simp
  ultimately show ?thesis
    using depythonize_pythonize[OF laws c(1)] depythonize_pythonize[OF laws d(1)] dec_enc_context[OF c(2)] dec_enc_boundary[OF d(2)]
    by (simp add: read_output_def)
qed

text \<open>
  C23. A service is the function it computes on plain values.  If the call turns the context and the
  data it was handed into (the Python form of) \<open>s\<close> and \<open>d\<close>, the step delivers \<open>d\<close> and takes the
  backend and the decorations of \<open>s\<close> and nothing else of it, exactly when \<open>s\<close> leaves the read-only
  fields and decorations as they were, keeps the reserved ones and names a configured backend;
  otherwise it is refused.  A service that returns what it was given is therefore the identity.
\<close>

theorem python_call_applies_function:
  assumes laws: "pythonize_laws yl"
    and on: "phase = ''request'' \<and> ys_has_request ys \<or> phase = ''response'' \<and> ys_has_response ys"
    and time: "timing (req_context.more ctx) = (Completed, w)"
    and call: "\<And>oc od. yl_pythonize yl (enc_context (from_context ctx)) = Some oc \<Longrightarrow> yl_pythonize yl (enc_boundary data) = Some od \<Longrightarrow>
      \<exists>oc' od'. yl_pythonize yl (enc_context s) = Some oc' \<and> yl_pythonize yl (enc_boundary d) = Some od' \<and>
        yl_call yl (ys_instance ys) (phase_method phase) oc od w = (Some (oc', od'), w')"
    and wf: "snapshot_wf s" "data_wf d"
  shows "py_execute yl timing ys phase data ctx =
    (if cs_path s = rq_path (cx_request ctx) \<and> cs_method s = rq_method (cx_request ctx) \<and>
        cs_query s = rq_query (cx_request ctx) \<and> cs_form s = rq_form (cx_request ctx) \<and>
        cs_requester s = requester ctx \<and> cs_target_frontend s = cx_target_frontend ctx \<and>
        (\<forall>k \<in> set FIRST_WRITER_DECORATION_KEYS. decoration ctx k \<in> {None, bm_get (cs_decorations s) k}) \<and>
        (\<forall>k \<in> set READ_ONLY_DECORATION_KEYS. bm_get (cs_decorations s) k = decoration ctx k) \<and>
        cs_target_backend s \<in> insert None (Some ` set (ys_backends ys))
     then (Inr d, (with_world w' ctx)\<lparr> cx_target_backend := cs_target_backend s, cx_decorations := cs_decorations s \<rparr>)
     else (Inl (ErrInternal ''python microservice returned invalid output''), with_world w' ctx))"
proof -
  obtain oc od where o: "yl_pythonize yl (enc_context (from_context ctx)) = Some oc" "yl_pythonize yl (enc_boundary data) = Some od"
    using pythonize_total[OF laws] by blast
  obtain oc' od' where o': "yl_pythonize yl (enc_context s) = Some oc'" "yl_pythonize yl (enc_boundary d) = Some od'"
      "yl_call yl (ys_instance ys) (phase_method phase) oc od w = (Some (oc', od'), w')" using call[OF o] by blast
  have "read_output yl oc' od' = Some (s, d)" by (rule read_output_pythonized[OF laws o'(1) wf(1) o'(2) wf(2)])
  then have "timed_call yl timing ys phase (from_context ctx) data (req_context.more ctx) = (Inr (s, d), w')"
    by (simp add: timed_call_def run_python_call_def o o'(3) time)
  then have "in_world (timed_call yl timing ys phase (from_context ctx) data) ctx = (Inr (s, d), with_world w' ctx)"
    by (simp add: in_world_def)
  from bind_flow_Inr[where m = "in_world _", OF this] on
  have "py_execute yl timing ys phase data ctx = commit_output ys (from_context ctx) (s, d) (with_world w' ctx)"
    by (auto simp: py_execute_def)
  then show ?thesis by (simp only: commit_output_if commit_checks fst_conv snd_conv conj_assoc invalid_output_def)
qed

section \<open>Capacity\<close>

lemma py_step_calls_ok: "py_step s s' \<Longrightarrow> calls_ok n s \<Longrightarrow> calls_ok n s'"
  by (erule py_stepE) (auto simp: calls_ok_def length_remove1 dest: notin_set_remove1 length_pos_if_in_set)

lemma calls_ok_reachable: "py_step\<^sup>*\<^sup>* (py_calls_new rt) s \<Longrightarrow> calls_ok (rt_permits rt) s"
proof (induction rule: rtranclp_induct)
  case base show ?case by (simp add: py_calls_new_def calls_ok_def)
qed (rule py_step_calls_ok)

text \<open>
  C21. Python never runs more calls than configured.  In every reachable state the running calls,
  those whose caller has given up included, and the free permits add up to the limit, every caller
  still waiting for an answer waits for a running call, and a waiting call can start exactly when
  fewer than the limit run: abandoned calls keep their capacity until Python returns.
\<close>

theorem python_calls_bounded:
  assumes "py_step\<^sup>*\<^sup>* (py_calls_new rt) s"
  shows "pc_permits s + length (pc_running s) = rt_permits rt \<and> set (pc_awaited s) \<subseteq> set (pc_running s) \<and>
    distinct (pc_running s) \<and>
    ((\<exists>i \<in> set (pc_waiting s). \<exists>s'. py_step s s' \<and> i \<in> set (pc_running s')) \<longleftrightarrow>
      pc_waiting s \<noteq> [] \<and> length (pc_running s) < rt_permits rt)"
proof -
  have ok: "calls_ok (rt_permits rt) s" by (rule calls_ok_reachable[OF assms])
  have "pc_permits s > 0" if "py_step s s'" "i \<in> set (pc_waiting s)" "i \<in> set (pc_running s')" for i s'
    using that(1) by (cases) (use ok that(2,3) in \<open>auto simp: calls_ok_def dest: notin_set_remove1\<close>)
  moreover have "\<exists>i \<in> set (pc_waiting s). \<exists>s'. py_step s s' \<and> i \<in> set (pc_running s')"
    if "pc_permits s > 0" "pc_waiting s \<noteq> []"
  proof -
    from that(2) have i: "hd (pc_waiting s) \<in> set (pc_waiting s)" by simp
    from py_step.acquire[OF this that(1)] show ?thesis by (intro bexI[OF _ i] exI conjI) auto
  qed
  moreover have "pc_permits s > 0 \<longleftrightarrow> length (pc_running s) < rt_permits rt" using ok by (auto simp: calls_ok_def)
  ultimately have "(\<exists>i \<in> set (pc_waiting s). \<exists>s'. py_step s s' \<and> i \<in> set (pc_running s')) \<longleftrightarrow>
      pc_waiting s \<noteq> [] \<and> length (pc_running s) < rt_permits rt" by fastforce
  with ok show ?thesis by (simp add: calls_ok_def)
qed

section \<open>The process-wide interpreter\<close>

text \<open>A history of initializations, each with the host as it was then.\<close>

primrec py_initializations :: "(py_host \<times> string \<times> string option \<times> nat \<times> nat) list \<Rightarrow> py_globals \<Rightarrow> py_globals" where
  "py_initializations [] g = g"
| "py_initializations (x # xs) g =
     (case x of (yh, p, v, n, t) \<Rightarrow> py_initializations xs (snd (python_initialize yh p v n t g)))"

lemma check_venv_canonical: "check_venv yh v = Inr v' \<Longrightarrow> v' = Option.bind v (yh_canonicalize yh) \<and> (v' = None \<longleftrightarrow> v = None)"
proof (cases v)
  case (Some path)
  then show "check_venv yh v = Inr v' \<Longrightarrow> ?thesis"
    by (auto simp: check_venv_def bind_result_eq_Inr split: if_split_asm)
qed (simp add: check_venv_def)

lemma claim_paths_Inr: "claim_paths g c v = Inr u \<longleftrightarrow> yg_module_path g \<in> {None, Some c} \<and> yg_venv g \<in> {None, Some v}"
  by (auto simp: claim_paths_def)

lemma check_limits_Inr: "check_limits yh n t = Inr u \<Longrightarrow> 0 < n \<and> n \<le> yh_max_permits yh"
  by (simp add: check_limits_def split: if_splits)

lemma python_initialize_Inr:
  assumes "python_initialize yh p v n t g = (Inr rt, g')"
  obtains c v' where "yh_canonicalize yh p = Some c" "v' = Option.bind v (yh_canonicalize yh)" "v' = None \<longleftrightarrow> v = None"
    "yg_module_path g' = Some c" "yg_venv g' = Some v'" "yg_module_path g \<in> {None, Some c}" "yg_venv g \<in> {None, Some v'}"
    "0 < rt_permits rt"
proof -
  from assms obtain c w u u' where h: "check_limits yh n t = Inr u" "yh_canonicalize yh p = Some c" "check_venv yh v = Inr w"
      "claim_paths g c w = Inr u'" "rt_permits rt = n" "g' = \<lparr> yg_module_path = Some (unwrap_or c (yg_module_path g)), yg_venv = Some (unwrap_or w (yg_venv g)) \<rparr>"
    unfolding python_initialize_def
    by (auto simp: bind_result_eq_Inr split: sum.split_asm if_split_asm)
  have g: "yg_module_path g' = Some c" "yg_venv g' = Some w"
    using h(4,6) by (auto simp: claim_paths_Inr)
  have p: "0 < rt_permits rt" using check_limits_Inr[OF h(1)] h(5) by simp
  show ?thesis
    by (rule that[OF h(2) conjunct1[OF check_venv_canonical[OF h(3)]] conjunct2[OF check_venv_canonical[OF h(3)]] g
          conjunct1[OF h(4)[unfolded claim_paths_Inr]] conjunct2[OF h(4)[unfolded claim_paths_Inr]] p])
qed

lemma python_initialize_keeps:
  "yg_module_path g = Some c \<Longrightarrow> yg_venv g = Some v \<Longrightarrow>
    yg_module_path (snd (python_initialize yh p v' n t g)) = Some c \<and> yg_venv (snd (python_initialize yh p v' n t g)) = Some v"
  by (simp add: python_initialize_def unwrap_or_def split: sum.split)

lemma py_initializations_keep:
  "yg_module_path g = Some c \<Longrightarrow> yg_venv g = Some v \<Longrightarrow>
    yg_module_path (py_initializations xs g) = Some c \<and> yg_venv (py_initializations xs g) = Some v"
  by (induction xs arbitrary: g) (auto split: prod.splits simp: python_initialize_keeps)

text \<open>
  The interpreter belongs to the first configuration: after a successful initialization every
  later successful one, whatever was tried in between, names the same canonical module directory and
  the same virtual environment, and no runtime is handed out without a positive call limit.
\<close>

theorem python_paths_set_once:
  assumes "python_initialize yh p v n t g = (Inr rt, g1)"
    and "python_initialize yh' p' v' n' t' (py_initializations xs g1) = (Inr rt', g2)"
  shows "yh_canonicalize yh' p' = yh_canonicalize yh p \<and>
    Option.bind v' (yh_canonicalize yh') = Option.bind v (yh_canonicalize yh) \<and> (v' = None \<longleftrightarrow> v = None) \<and> rt_permits rt' > 0"
proof -
  from assms(1) obtain c w where
    1: "yh_canonicalize yh p = Some c" "w = Option.bind v (yh_canonicalize yh)" "w = None \<longleftrightarrow> v = None"
      "yg_module_path g1 = Some c" "yg_venv g1 = Some w" by (rule python_initialize_Inr)
  from assms(2) obtain c' w' where
    2: "yh_canonicalize yh' p' = Some c'" "w' = Option.bind v' (yh_canonicalize yh')" "w' = None \<longleftrightarrow> v' = None" "rt_permits rt' > 0"
      "yg_module_path (py_initializations xs g1) \<in> {None, Some c'}" "yg_venv (py_initializations xs g1) \<in> {None, Some w'}"
    by (rule python_initialize_Inr)
  from py_initializations_keep[OF 1(4,5)] 2(5,6) have "c' = c" "w' = w" by simp_all
  with 1(1-3) 2(1-4) show ?thesis by metis
qed

section \<open>A service that adds an attribute\<close>

definition toy_py :: "(int, json) py_lib" where
  "toy_py = \<lparr> yl_pythonize = Some, yl_depythonize = Some,
     yl_dict_len = (\<lambda>v. map_option length (as_object v)), yl_dict_get = (\<lambda>v k. Option.bind (as_object v) (\<lambda>m. jm_get m k)),
     yl_is_awaitable = (\<lambda>_. False),
     yl_call = (\<lambda>_ _ c d w. (map_option (\<lambda>d. (c, enc_boundary (d\<lparr> id_attributes := [(''role'', [''staff''])] \<rparr>))) (dec_boundary d), w + 1)) \<rparr>"

definition toy_py_service :: "json py_service" where
  "toy_py_service = \<lparr> ys_name = ''py'', ys_module = ''ops'', ys_class = ''AddRole'', ys_instance = JNull, ys_has_request = False,
     ys_has_response = True, ys_backends = [''saml''] \<rparr>"

definition toy_py_timing :: "int \<Rightarrow> py_timing \<times> int" where "toy_py_timing w = (if w < 0 then ExpiredRunning else Completed, w)"

definition toy_py_context :: "int req_context_scheme" where
  "toy_py_context = decorate KEY_PROVIDER_SCOPES (JString ''example.org'')
     (context_new (toy_request ''acs'' []) state_new 7)"

lemma toy_py_laws: "pythonize_laws toy_py"
  by (auto simp: pythonize_laws_def toy_py_def)

theorem python_call_atomic_witness:
  "\<exists>d c'. py_execute toy_py toy_py_timing toy_py_service ''response'' toy_login toy_py_context = (Inr d, c') \<and>
     id_attributes d = [(''role'', [''staff''])] \<and> decoration c' KEY_PROVIDER_SCOPES = decoration toy_py_context KEY_PROVIDER_SCOPES"
proof -
  obtain r c' where e: "py_execute toy_py toy_py_timing toy_py_service ''response'' toy_login toy_py_context = (r, c')" by fastforce
  have "map_sum id id_attributes (fst (py_execute toy_py toy_py_timing toy_py_service ''response'' toy_login toy_py_context)) =
      Inr [(''role'', [''staff''])]"
    by code_simp
  with e obtain d where d: "r = Inr d" "id_attributes d = [(''role'', [''staff''])]" by (cases r) auto
  have "KEY_PROVIDER_SCOPES \<in> set READ_ONLY_DECORATION_KEYS" by (simp add: READ_ONLY_DECORATION_KEYS_def)
  with python_call_atomic[OF e] d e show ?thesis by (auto simp: toy_py_service_def)
qed

theorem python_call_applies_function_witness:
  "py_execute toy_py toy_py_timing toy_py_service ''response'' toy_login toy_py_context =
     (Inr (toy_login\<lparr> id_attributes := [(''role'', [''staff''])] \<rparr>),
      (with_world 8 toy_py_context)\<lparr> cx_target_backend := None, cx_decorations := [(KEY_PROVIDER_SCOPES, JString ''example.org'')] \<rparr>)"
proof -
  have wf: "data_wf toy_login" "data_wf (toy_login\<lparr> id_attributes := [(''role'', [''staff''])] \<rparr>)"
    by (simp_all add: data_wf_def toy_login_def internal_default_def bm_wf_Cons)
  have ctx: "req_context.more toy_py_context = 7" "cx_decorations toy_py_context = [(KEY_PROVIDER_SCOPES, JString ''example.org'')]"
      "cx_target_backend toy_py_context = None" "snapshot_wf (from_context toy_py_context)"
    by (simp_all add: toy_py_context_def decorate_def context_new_def req_context.defs from_context_def snapshot_wf_def toy_request_def bm_wf_Cons)
  let ?d = "toy_login\<lparr> id_attributes := [(''role'', [''staff''])] \<rparr>"
  have on: "''response'' = ''request'' \<and> ys_has_request toy_py_service \<or> ''response'' = ''response'' \<and> ys_has_response toy_py_service"
    by (simp add: toy_py_service_def)
  have time: "toy_py_timing (req_context.more toy_py_context) = (Completed, 7)" by (simp add: toy_py_timing_def ctx)
  have call: "\<exists>oc' od'. yl_pythonize toy_py (enc_context (from_context toy_py_context)) = Some oc' \<and>
      yl_pythonize toy_py (enc_boundary ?d) = Some od' \<and>
      yl_call toy_py (ys_instance toy_py_service) (phase_method ''response'') oc od 7 = (Some (oc', od'), 8)"
    if "yl_pythonize toy_py (enc_context (from_context toy_py_context)) = Some oc" "yl_pythonize toy_py (enc_boundary toy_login) = Some od" for oc od
    using that dec_enc_boundary[OF wf(1)] by (auto simp: toy_py_def)
  from python_call_applies_function[where phase = "''response''" and s = "from_context toy_py_context" and d = ?d and w' = 8 and
      ys = toy_py_service and timing = toy_py_timing and data = toy_login and ctx = toy_py_context and w = 7,
      OF toy_py_laws on time call ctx(4) wf(2)] show ?thesis
    using ctx by (simp add: from_context_def decoration_def)
qed

theorem python_calls_bounded_witness:
  "py_step\<^sup>*\<^sup>* (py_calls_new \<lparr> rt_permits = 1, rt_call_timeout = 5 \<rparr>)
     \<lparr> pc_permits = 0, pc_waiting = [2], pc_running = [1], pc_awaited = [] \<rparr> \<and>
   \<not> (\<exists>s'. py_step \<lparr> pc_permits = 0, pc_waiting = [2], pc_running = [1], pc_awaited = [] \<rparr> s' \<and> 2 \<in> set (pc_running s'))"
proof -
  let ?rt = "\<lparr> rt_permits = 1, rt_call_timeout = 5 \<rparr>"
  let ?s = "\<lambda>p w r a. \<lparr> pc_permits = p, pc_waiting = w, pc_running = r, pc_awaited = a \<rparr>"
  have "py_step (?s 1 [] [] []) (?s 1 [1] [] [])" using py_step.arrive[of 1 "?s 1 [] [] []"] by simp
  moreover have "py_step (?s 1 [1] [] []) (?s 0 [] [1] [1])" using py_step.acquire[of 1 "?s 1 [1] [] []"] by simp
  moreover have "py_step (?s 0 [] [1] [1]) (?s 0 [] [1] [])" using py_step.expire_running[of 1 "?s 0 [] [1] [1]"] by simp
  moreover have "py_step (?s 0 [] [1] []) (?s 0 [2] [1] [])" using py_step.arrive[of 2 "?s 0 [] [1] []"] by simp
  ultimately have r: "py_step\<^sup>*\<^sup>* (py_calls_new ?rt) (?s 0 [2] [1] [])"
    by (simp add: py_calls_new_def)
  show ?thesis using r python_calls_bounded[OF r] by simp
qed

definition toy_py_host :: "string \<Rightarrow> py_host" where
  "toy_py_host cwd = \<lparr> yh_max_permits = 100, yh_deadline_ok = (\<lambda>t. t < 1000),
     yh_canonicalize = (\<lambda>p. Some (if take 1 p = ''/'' then p else cwd @ ''/'' @ p)), yh_is_dir = (\<lambda>_. True), yh_is_file = (\<lambda>_. True),
     yh_join = (\<lambda>a b. a @ ''/'' @ b), yh_start = (\<lambda>_. True), yh_add_path = (\<lambda>_. True) \<rparr>"

theorem python_paths_set_once_witness:
  "\<exists>rt g1 rt' g2. python_initialize (toy_py_host ''/srv'') ''ops'' None 4 30 \<lparr> yg_module_path = None, yg_venv = None \<rparr> = (Inr rt, g1) \<and>
     python_initialize (toy_py_host ''/'') ''/srv/ops'' None 2 30
       (py_initializations [(toy_py_host ''/'', ''/other'', None, 4, 30)] g1) = (Inr rt', g2) \<and>
     yh_canonicalize (toy_py_host ''/'') ''/srv/ops'' = yh_canonicalize (toy_py_host ''/srv'') ''ops'' \<and> rt_permits rt' > 0"
proof -
  let ?g = "\<lparr> yg_module_path = Some ''/srv/ops'', yg_venv = Some None \<rparr>"
  have 1: "python_initialize (toy_py_host ''/srv'') ''ops'' None 4 30 \<lparr> yg_module_path = None, yg_venv = None \<rparr> =
      (Inr \<lparr> rt_permits = 4, rt_call_timeout = 30 \<rparr>, ?g)"
    by code_simp
  have 2: "python_initialize (toy_py_host ''/'') ''/srv/ops'' None 2 30
       (py_initializations [(toy_py_host ''/'', ''/other'', None, 4, 30)] ?g) = (Inr \<lparr> rt_permits = 2, rt_call_timeout = 30 \<rparr>, ?g)"
    by code_simp
  from python_paths_set_once[OF 1 2] 1 2 show ?thesis by blast
qed

end
