(* ===== verification/Assembly.thy ===== *)
theory Assembly
  imports Server Identifier_Services Discovery Accr Routing_Services Shaping_Services Stepup Oidc_Frontend Oidc_Backend
    Saml_Frontend Saml_Backend Federation_Frontend Federation_Backend Python_Bridge_Props
begin

text \<open>
  The assembly of the program: \<open>register_all\<close> of the plugin crate installs the constructor of every
  built-in kind, and the binary adds the Python kind, reads the configuration and builds the proxy.
  Shown: each configured type selects its own constructor and every module answers to the name it is
  configured under, so the started proxy holds the configured modules; and a backend a Python service chooses is one the assembled proxy holds.
\<close>

section \<open>The registry\<close>

text \<open>
  The libraries behind the plugins come in the order the plugins are registered: the OpenID provider
  and its federation, the SAML libraries of the two sides, the relying party libraries, and those of
  the micro-services.  \<open>custom_logging\<close> opens its target when it is built, in the world \<open>w\<close> of the
  start.
\<close>

definition register_frontends where
  "register_frontends pb fb fl rr sl sb r =
     register_frontend ''saml2'' (saml_frontend_build sl sb)
       (register_frontend ''oidc_federation'' (federation_frontend_build fb fl rr)
         (register_frontend ''oidc'' (oidc_frontend_build pb) r))"

definition register_backends where
  "register_backends bl rl frl fbl fr xl xb r =
     register_backend ''saml2'' (saml_backend_build xl xb)
       (register_backend ''oidc_federation'' (federation_backend_build bl frl fbl fr)
         (register_backend ''oidc'' (oidc_backend_build bl rl) r))"

definition builtin_microservices where
  "builtin_microservices hs rx nf form_encode te os print deflate w xl xb =
     [(''static_attributes'', static_build), (''filter_attributes'', filter_build), (''custom_routing'', routing_build),
      (''attribute_processor'', processor_build hs rx), (''attribute_authorization'', authz_build rx),
      (''filter_attribute_values'', values_build rx), (''rename_attributes'', rename_build),
      (''attribute_generation'', generation_build te), (''hasher'', hasher_build hs), (''legacy_eptid'', eptid_build hs),
      (''primary_identifier'', pid_build form_encode), (''idp_hinting'', hinting_build),
      (''disco_to_target_issuer'', disco_build print), (''custom_logging'', (\<lambda>bx. fst (logging_build os print bx w))),
      (''pairwiseid'', pairwise_build hs), (''static_attributes_for_virtual_idp'', vidp_build),
      (''nameid'', nameid_build nf), (''accr'', accr_build),
      (''stepup'', stepup_build print deflate (build_stepup_saml xl xb))]"

definition register_microservices :: "(string \<times> 'w micro_service ctor) list \<Rightarrow> 'w registry \<Rightarrow> 'w registry" where
  "register_microservices ctors r = foldl (\<lambda>r (kind, c). register_microservice kind c r) r ctors"

definition register_all where
  "register_all pb fb fl rr sl sb bl rl frl fbl fr xl xb hs rx nf form_encode te os print deflate w r =
     register_microservices (builtin_microservices hs rx nf form_encode te os print deflate w xl xb)
       (register_backends bl rl frl fbl fr xl xb (register_frontends pb fb fl rr sl sb r))"

section \<open>Starting\<close>

text \<open>
  The Python runtime starts first, when it is configured, and its constructor captures it together
  with the names of the configured backends.
\<close>

definition python_ctor ::
    "('w, 'o) py_lib \<Rightarrow> 'o py_loader \<Rightarrow> (py_runtime \<Rightarrow> 'w \<Rightarrow> py_timing \<times> 'w) \<Rightarrow> py_runtime \<Rightarrow> string list \<Rightarrow> 'w micro_service ctor" where
  "python_ctor yl yb timing rt backends bx = map_sum id (py_micro_service yl (timing rt)) (py_configure yb bx backends)"

definition start_proxy ::
    "crypto_lib \<Rightarrow> py_host \<Rightarrow> ('w, 'o) py_lib \<Rightarrow> 'o py_loader \<Rightarrow> (py_runtime \<Rightarrow> 'w \<Rightarrow> py_timing \<times> 'w) \<Rightarrow> 'w registry \<Rightarrow>
      attribute_mapper result \<Rightarrow> string \<Rightarrow> proxy_config \<Rightarrow> (py_globals, 'w proxy) flow" where
  "start_proxy lib yh yl yb timing registry mapper config_path cfg g =
     (case cf_python cfg of
        None \<Rightarrow> (build_proxy lib registry mapper cfg, g)
      | Some py \<Rightarrow>
          bind_flow (python_initialize yh (resolve_sibling config_path (py_module_path py))
            (map_option (resolve_sibling config_path) (py_venv py)) (py_max_concurrent_calls py) (py_call_timeout_seconds py))
            (\<lambda>rt. lift_result (build_proxy lib
               (register_microservice ''python'' (python_ctor yl yb timing rt (map pc_name (cf_backends cfg))) registry) mapper cfg)) g)"

section \<open>Modules keep their names\<close>

definition keeps_name :: "('p \<Rightarrow> string) \<Rightarrow> 'p ctor \<Rightarrow> bool" where
  "keeps_name name_of c \<longleftrightarrow> (\<forall>bx p. c bx = Inr p \<longrightarrow> name_of p = bx_name bx)"

definition names_kept :: "'w registry \<Rightarrow> bool" where
  "names_kept r \<longleftrightarrow> registry_wf r \<and>
     (\<forall>k c. bm_get (rg_frontends r) k = Some c \<longrightarrow> keeps_name fe_name c) \<and>
     (\<forall>k c. bm_get (rg_backends r) k = Some c \<longrightarrow> keeps_name be_name c) \<and>
     (\<forall>k c. bm_get (rg_microservices r) k = Some c \<longrightarrow> keeps_name ms_name c)"

lemma names_kept_wf: "names_kept r \<Longrightarrow> registry_wf r"
  unfolding names_kept_def by blast

lemma names_kept_new: "names_kept registry_new"
  by (simp add: names_kept_def) (simp add: registry_new_def)

lemma names_kept_register:
  "names_kept r \<Longrightarrow> keeps_name fe_name f \<Longrightarrow> names_kept (register_frontend k f r)"
  "names_kept r \<Longrightarrow> keeps_name be_name b \<Longrightarrow> names_kept (register_backend k b r)"
  "names_kept r \<Longrightarrow> keeps_name ms_name m \<Longrightarrow> names_kept (register_microservice k m r)"
  by (auto simp: names_kept_def registry_wf_def register_frontend_def register_backend_def register_microservice_def bm_get_insert
      split: if_split_asm)

lemma names_kept_microservices:
  "list_all (\<lambda>e. keeps_name ms_name (snd e)) ctors \<Longrightarrow> names_kept r \<Longrightarrow> names_kept (register_microservices ctors r)"
  unfolding register_microservices_def
  by (induction ctors arbitrary: r) (auto simp: names_kept_register(3) split: prod.splits)

lemma default_name [simp]: "ms_name (ms_default n) = n" "ms_name (response_service n f) = n" "ms_name (request_service n g) = n"
    "ms_name (attribute_ms n h) = n"
  by (simp_all add: ms_default_def response_service_def request_service_def attribute_ms_def)

text \<open>What every value of a fallible construction satisfies.\<close>

definition gives :: "('a \<Rightarrow> bool) \<Rightarrow> 'a result \<Rightarrow> bool" where
  "gives p r \<longleftrightarrow> (case r of Inl _ \<Rightarrow> True | Inr x \<Rightarrow> p x)"

lemma gives_simps [simp]: "gives p (Inl e)" "gives p (Inr x) \<longleftrightarrow> p x"
  by (simp_all add: gives_def)

lemma givesD: "gives p r \<Longrightarrow> r = Inr x \<Longrightarrow> p x"
  by simp

lemma gives_bind: "(\<And>v. gives p (k v)) \<Longrightarrow> gives p (bind_result r k)"
  by (cases r) simp_all

lemma gives_bind_of: "gives q r \<Longrightarrow> (\<And>v. q v \<Longrightarrow> gives p (k v)) \<Longrightarrow> gives p (bind_result r k)"
  by (cases r) simp_all

lemma gives_if: "gives p x \<Longrightarrow> gives p y \<Longrightarrow> gives p (if b then x else y)"
  by simp

lemma gives_prod: "(\<And>a b. gives p (f a b)) \<Longrightarrow> gives p (case x of (a, b) \<Rightarrow> f a b)"
  by (cases x) simp

lemma gives_option: "gives p x \<Longrightarrow> (\<And>a. gives p (f a)) \<Longrightarrow> gives p (case o' of None \<Rightarrow> x | Some a \<Rightarrow> f a)"
  by (cases o') simp_all

lemmas gives_intros = gives_bind gives_if gives_prod gives_option

lemma keeps_name_gives: "keeps_name name_of c \<longleftrightarrow> (\<forall>bx. gives (\<lambda>p. name_of p = bx_name bx) (c bx))"
  by (auto simp: keeps_name_def gives_def split: sum.splits)

lemma release_names:
  "keeps_name ms_name static_build" "keeps_name ms_name filter_build" "keeps_name ms_name (values_build rx)"
  "keeps_name ms_name rename_build" "keeps_name ms_name (authz_build rx)"
  unfolding keeps_name_gives static_build_def filter_build_def values_build_def rename_build_def authz_build_def
  by (intro allI gives_intros; simp)+

lemma identifier_names:
  "keeps_name ms_name (nameid_build nf)" "keeps_name ms_name (pairwise_build hs)" "keeps_name ms_name (pid_build form_encode)"
  "keeps_name ms_name (hasher_build hs)" "keeps_name ms_name (eptid_build hs)"
  unfolding keeps_name_gives nameid_build_def pairwise_build_def pid_build_def hasher_build_def eptid_build_def
  by ((intro allI gives_intros)?; simp)+

lemma configured_names:
  "gives (\<lambda>ru. ru_name ru = bx_name bx) (routing_configure bx)"
  "gives (\<lambda>ge. ge_name ge = bx_name bx) (generation_configure te bx)"
  "gives (\<lambda>ac. ac_name ac = bx_name bx) (accr_configure bx)"
  "gives (\<lambda>di. di_name di = bx_name bx) (disco_configure bx)"
  "gives (\<lambda>su. su_name su = bx_name bx) (stepup_configure print deflate build_saml bx)"
  unfolding routing_configure_def generation_configure_def accr_configure_def disco_configure_def stepup_configure_def
  by (intro gives_intros; simp)+

lemma configured_plugin_names:
  "gives (\<lambda>fe. ofe_name fe = bx_name bx) (oidc_frontend_configure pb bx)"
  "gives (\<lambda>fe. ffe_name fe = bx_name bx) (federation_frontend_configure fb fl bx)"
  "gives (\<lambda>sf. sf_name sf = bx_name bx) (saml_frontend_configure sl sb bx)"
  "gives (\<lambda>ob. ob_name ob = bx_name bx) (oidc_backend_configure bl bx)"
  "gives (\<lambda>fk. fbk_name fk = bx_name bx) (federation_backend_configure bl fbl fr bx)"
  "gives (\<lambda>sx. sx_name sx = bx_name bx) (build_concrete xl xb bx rs ns)"
  unfolding oidc_frontend_configure_def federation_frontend_configure_def saml_frontend_configure_def
    oidc_backend_configure_def federation_backend_configure_def build_concrete_def Let_def
  by (intro gives_intros; simp)+

lemma shaping_names:
  "keeps_name ms_name (processor_build hs rx)" "keeps_name ms_name vidp_build" "keeps_name ms_name hinting_build"
  "keeps_name ms_name (\<lambda>bx. fst (logging_build os print bx w))"
proof -
  show "keeps_name ms_name (processor_build hs rx)" "keeps_name ms_name vidp_build" "keeps_name ms_name hinting_build"
    unfolding keeps_name_gives processor_build_def vidp_build_def hinting_build_def
    by (intro allI gives_intros; simp)+
  show "keeps_name ms_name (\<lambda>bx. fst (logging_build os print bx w))"
    unfolding keeps_name_gives logging_build_def by (auto split: sum.split prod.split option.split)
qed

lemma routing_names: "keeps_name ms_name (generation_build te)" "keeps_name ms_name routing_build"
  unfolding keeps_name_gives generation_build_def routing_build_def
  by (rule allI, rule gives_bind_of, rule configured_names, simp)+

lemma flow_service_names:
  "keeps_name ms_name (disco_build print)" "keeps_name ms_name accr_build"
  "keeps_name ms_name (stepup_build print deflate build_saml)"
  unfolding keeps_name_gives disco_build_def accr_build_def stepup_build_def
  by (rule allI, rule gives_bind_of, rule configured_names, simp add: disco_ms_def accr_ms_def stepup_ms_def)+

lemma plugin_names:
  "keeps_name fe_name (oidc_frontend_build pb)" "keeps_name fe_name (federation_frontend_build fb fl rr)"
  "keeps_name fe_name (saml_frontend_build sl sb)" "keeps_name be_name (oidc_backend_build bl rl)"
  "keeps_name be_name (federation_backend_build bl frl fbl fr)" "keeps_name be_name (saml_backend_build xl xb)"
  unfolding keeps_name_gives oidc_frontend_build_def federation_frontend_build_def saml_frontend_build_def
    oidc_backend_build_def federation_backend_build_def saml_backend_build_def
  by (rule allI, rule gives_bind_of, rule configured_plugin_names, simp add: oidc_frontend_fe_def federation_frontend_fe_def
    saml_frontend_fe_def oidc_backend_be_def federation_backend_be_def saml_backend_be_def)+

lemma python_names: "keeps_name ms_name (python_ctor yl yb timing rt bs)"
proof -
  have "gives (\<lambda>ys. ys_name ys = bx_name bx) (py_configure yb bx bs)" for bx
    unfolding py_configure_def by (intro gives_intros; simp)
  from givesD[OF this] show ?thesis
    by (auto simp: keeps_name_def python_ctor_def py_micro_service_def map_sum_def split: sum.splits)
qed

lemma names_kept_builtin:
  "names_kept r \<Longrightarrow> names_kept (register_all pb fb fl rr sl sb bl rl frl fbl fr xl xb hs rx nf form_encode te os print deflate w r)"
  unfolding register_all_def register_backends_def register_frontends_def
  by (rule names_kept_microservices) (simp_all add: builtin_microservices_def release_names identifier_names shaping_names routing_names
      flow_service_names plugin_names names_kept_register)

section \<open>The assembled proxy\<close>

lemma traverse_names:
  "traverse f xs = Inr ys \<Longrightarrow> (\<And>x. x \<in> set xs \<Longrightarrow> gives (\<lambda>y. n y = m x) (f x)) \<Longrightarrow> map n ys = map m xs"
proof (induction xs arbitrary: ys)
  case (Cons x xs)
  from Cons.prems(1) obtain y zs where y: "f x = Inr y" "traverse f xs = Inr zs" "ys = y # zs"
    by (auto simp: bind_result_eq_Inr)
  from givesD[OF Cons.prems(2) y(1)] Cons.IH[OF y(2)] Cons.prems(2) y(3) show ?case by simp
qed simp

lemma traverse_nth: "traverse f xs = Inr ys \<Longrightarrow> i < length xs \<Longrightarrow> f (xs ! i) = Inr (ys ! i)"
proof (induction xs arbitrary: ys i)
  case (Cons x xs)
  then show ?case by (cases i) (auto simp: bind_result_eq_Inr)
qed simp

lemma built_name:
  assumes "names_kept r"
  shows "gives (\<lambda>f. fe_name f = bx_name bx) (build_frontend r kind bx)" "gives (\<lambda>b. be_name b = bx_name bx) (build_backend r kind bx)"
    "gives (\<lambda>m. ms_name m = bx_name bx) (build_microservice r kind bx)"
  using assms
  by (auto simp: names_kept_def keeps_name_def build_frontend_def build_backend_def build_microservice_def bind_result_def ok_or_def
      gives_def split: option.splits sum.splits)

lemma build_proxy_parts:
  assumes "build_proxy lib r mapper cfg = Inr px"
  obtains mp fs bs ms where "mapper = Inr mp" "px = proxy_new fs bs ms (config_sealer lib cfg)"
    "traverse (\<lambda>p. build_frontend r (pc_kind p) (make_ctx cfg mp p)) (cf_frontends cfg) = Inr fs"
    "traverse (\<lambda>p. build_backend r (pc_kind p) (make_ctx cfg mp p)) (cf_backends cfg) = Inr bs"
    "traverse (\<lambda>p. build_microservice r (pc_kind p) (make_ctx cfg mp p)) (cf_microservices cfg) = Inr ms"
  using assms unfolding build_proxy_def bind_result_eq_Inr by blast

lemma build_proxy_names:
  assumes "build_proxy lib r mapper cfg = Inr px" "names_kept r"
  shows "map ms_name (px_microservices px) = map pc_name (cf_microservices cfg)"
    "bm_get (px_backends px) n \<noteq> None \<longleftrightarrow> n \<in> pc_name ` set (cf_backends cfg)"
    "bm_get (px_frontends px) n \<noteq> None \<longleftrightarrow> n \<in> pc_name ` set (cf_frontends cfg)"
proof -
  from assms(1) obtain mp fs bs ms where px: "px = proxy_new fs bs ms (config_sealer lib cfg)"
    and t: "traverse (\<lambda>p. build_frontend r (pc_kind p) (make_ctx cfg mp p)) (cf_frontends cfg) = Inr fs"
      "traverse (\<lambda>p. build_backend r (pc_kind p) (make_ctx cfg mp p)) (cf_backends cfg) = Inr bs"
      "traverse (\<lambda>p. build_microservice r (pc_kind p) (make_ctx cfg mp p)) (cf_microservices cfg) = Inr ms"
    by (rule build_proxy_parts)
  have ctx: "bx_name (make_ctx cfg mp p) = pc_name p" for p by (simp add: make_ctx_def)
  note built = built_name[OF assms(2), of "make_ctx cfg mp _", unfolded ctx]
  from traverse_names[OF t(1) built(1)] traverse_names[OF t(2) built(2)] traverse_names[OF t(3) built(3)]
  have n: "map fe_name fs = map pc_name (cf_frontends cfg)" "map be_name bs = map pc_name (cf_backends cfg)"
      "map ms_name ms = map pc_name (cf_microservices cfg)" .
  have held: "bm_get (bm_of_list (map (\<lambda>x. (f x, x)) xs)) n \<noteq> None \<longleftrightarrow> n \<in> set (map f xs)" for f :: "'b \<Rightarrow> string" and xs
    by (auto simp: bm_get_of_list map_of_eq_None_iff image_image)
  show "map ms_name (px_microservices px) = map pc_name (cf_microservices cfg)" by (simp add: px proxy_new_def n)
  show "bm_get (px_backends px) n \<noteq> None \<longleftrightarrow> n \<in> pc_name ` set (cf_backends cfg)"
    unfolding px proxy_new_def proxy.simps held n by simp
  show "bm_get (px_frontends px) n \<noteq> None \<longleftrightarrow> n \<in> pc_name ` set (cf_frontends cfg)"
    unfolding px proxy_new_def proxy.simps held n by simp
qed

section \<open>Kinds\<close>

lemma build_microservices:
  "registry_wf r \<Longrightarrow> registry_wf (register_microservices ctors r) \<and>
    build_microservice (register_microservices ctors r) kind bx =
      (case map_of (rev ctors) kind of Some c \<Rightarrow> c bx | None \<Rightarrow> build_microservice r kind bx) \<and>
    build_frontend (register_microservices ctors r) kind bx = build_frontend r kind bx \<and>
    build_backend (register_microservices ctors r) kind bx = build_backend r kind bx"
proof (induction ctors rule: rev_induct)
  case (snoc x xs)
  moreover obtain k c where "x = (k, c)" by fastforce
  ultimately show ?case
    by (auto simp: register_microservices_def register_microservice_def build_microservice_def build_frontend_def
        build_backend_def registry_wf_def bm_get_insert)
qed (simp add: register_microservices_def)

lemma build_plugins:
  "registry_wf r \<Longrightarrow> build_frontend (register_frontends pb fb fl rr sl sb r) kind bx =
    (if kind = ''saml2'' then saml_frontend_build sl sb bx else if kind = ''oidc_federation'' then federation_frontend_build fb fl rr bx
     else if kind = ''oidc'' then oidc_frontend_build pb bx else build_frontend r kind bx)"
  "registry_wf r \<Longrightarrow> build_backend (register_backends bl rl frl fbl fr xl xb r) kind bx =
    (if kind = ''saml2'' then saml_backend_build xl xb bx else if kind = ''oidc_federation'' then federation_backend_build bl frl fbl fr bx
     else if kind = ''oidc'' then oidc_backend_build bl rl bx else build_backend r kind bx)"
  "build_backend (register_frontends pb fb fl rr sl sb r) = build_backend r"
  "build_frontend (register_backends bl rl frl fbl fr xl xb r) = build_frontend r"
  "registry_wf r \<Longrightarrow> registry_wf (register_frontends pb fb fl rr sl sb r)"
  "registry_wf r \<Longrightarrow> registry_wf (register_backends bl rl frl fbl fr xl xb r)"
  "build_microservice (register_frontends pb fb fl rr sl sb r) = build_microservice r"
  "build_microservice (register_backends bl rl frl fbl fr xl xb r) = build_microservice r"
  by (simp_all add: register_frontends_def register_frontend_def register_backends_def register_backend_def build_frontend_def
      build_backend_def registry_wf_def bm_get_insert build_microservice_def fun_eq_iff)

lemma build_new: "build_frontend registry_new k bx = Inl (ErrUnknownModule (''frontend type '' @ k))"
  "build_backend registry_new k bx = Inl (ErrUnknownModule (''backend type '' @ k))"
  "build_microservice registry_new k bx = Inl (ErrUnknownModule (''microservice type '' @ k))"
  by (simp_all add: registry_new_def build_frontend_def build_backend_def build_microservice_def)

text \<open>
  What a configured type stands for, type by type and without the registry: the module of that type
  (\<open>stepup\<close> with the SAML backend embedded), and an error that names the type for any other.
\<close>

definition frontend_of_kind where
  "frontend_of_kind pb fb fl rr sl sb kind bx =
     (if kind = ''oidc'' then oidc_frontend_build pb bx
      else if kind = ''oidc_federation'' then federation_frontend_build fb fl rr bx
      else if kind = ''saml2'' then saml_frontend_build sl sb bx
      else Inl (ErrUnknownModule (''frontend type '' @ kind)))"

definition backend_of_kind where
  "backend_of_kind bl rl frl fbl fr xl xb kind bx =
     (if kind = ''oidc'' then oidc_backend_build bl rl bx
      else if kind = ''oidc_federation'' then federation_backend_build bl frl fbl fr bx
      else if kind = ''saml2'' then saml_backend_build xl xb bx
      else Inl (ErrUnknownModule (''backend type '' @ kind)))"

definition service_of_kind where
  "service_of_kind hs rx nf form_encode te os print deflate w xl xb kind bx =
     (if kind = ''static_attributes'' then static_build bx
      else if kind = ''filter_attributes'' then filter_build bx
      else if kind = ''filter_attribute_values'' then values_build rx bx
      else if kind = ''rename_attributes'' then rename_build bx
      else if kind = ''attribute_authorization'' then authz_build rx bx
      else if kind = ''attribute_processor'' then processor_build hs rx bx
      else if kind = ''attribute_generation'' then generation_build te bx
      else if kind = ''hasher'' then hasher_build hs bx
      else if kind = ''legacy_eptid'' then eptid_build hs bx
      else if kind = ''pairwiseid'' then pairwise_build hs bx
      else if kind = ''primary_identifier'' then pid_build form_encode bx
      else if kind = ''nameid'' then nameid_build nf bx
      else if kind = ''custom_routing'' then routing_build bx
      else if kind = ''idp_hinting'' then hinting_build bx
      else if kind = ''disco_to_target_issuer'' then disco_build print bx
      else if kind = ''custom_logging'' then fst (logging_build os print bx w)
      else if kind = ''static_attributes_for_virtual_idp'' then vidp_build bx
      else if kind = ''accr'' then accr_build bx
      else if kind = ''stepup'' then stepup_build print deflate (build_stepup_saml xl xb) bx
      else Inl (ErrUnknownModule (''microservice type '' @ kind)))"

lemma builtin_service:
  "(case map_of (builtin_microservices hs rx nf form_encode te os print deflate w xl xb) kind of
      Some c \<Rightarrow> c bx | None \<Rightarrow> Inl (ErrUnknownModule (''microservice type '' @ kind))) =
   service_of_kind hs rx nf form_encode te os print deflate w xl xb kind bx"
  by (auto simp: builtin_microservices_def service_of_kind_def)

text \<open>
  The registry of the program knows exactly the built-in kinds, and a configured type selects its own
  constructor.
\<close>

lemma registry_kinds:
  "build_frontend (register_all pb fb fl rr sl sb bl rl frl fbl fr xl xb hs rx nf form_encode te os print deflate w registry_new) kind bx = frontend_of_kind pb fb fl rr sl sb kind bx"
  "build_backend (register_all pb fb fl rr sl sb bl rl frl fbl fr xl xb hs rx nf form_encode te os print deflate w registry_new) kind bx = backend_of_kind bl rl frl fbl fr xl xb kind bx"
  "build_microservice (register_all pb fb fl rr sl sb bl rl frl fbl fr xl xb hs rx nf form_encode te os print deflate w registry_new) kind bx =
     service_of_kind hs rx nf form_encode te os print deflate w xl xb kind bx"
proof -
  have "distinct (map fst (builtin_microservices hs rx nf form_encode te os print deflate w xl xb))"
    by (simp add: builtin_microservices_def)
  then have rev: "map_of (rev (builtin_microservices hs rx nf form_encode te os print deflate w xl xb)) =
      map_of (builtin_microservices hs rx nf form_encode te os print deflate w xl xb)"
    by (subst map_of_inject_set) (simp_all add: rev_map[symmetric])
  let ?base = "register_backends bl rl frl fbl fr xl xb (register_frontends pb fb fl rr sl sb registry_new)"
  have "registry_wf ?base" by (simp add: build_plugins)
  note services = build_microservices[OF this, of "builtin_microservices hs rx nf form_encode te os print deflate w xl xb" kind bx]
  have f: "build_frontend ?base kind bx = frontend_of_kind pb fb fl rr sl sb kind bx"
    by (simp add: build_plugins build_new frontend_of_kind_def)
  have b: "build_backend ?base kind bx = backend_of_kind bl rl frl fbl fr xl xb kind bx"
    by (simp add: build_plugins build_new backend_of_kind_def)
  have m: "build_microservice ?base kind bx = Inl (ErrUnknownModule (''microservice type '' @ kind))"
    by (simp add: build_plugins build_new)
  note parts = conjunct1[OF conjunct2[OF services]] conjunct1[OF conjunct2[OF conjunct2[OF services]]]
    conjunct2[OF conjunct2[OF conjunct2[OF services]]]
  show "build_frontend (register_all pb fb fl rr sl sb bl rl frl fbl fr xl xb hs rx nf form_encode te os print deflate w registry_new) kind bx = frontend_of_kind pb fb fl rr sl sb kind bx"
    unfolding register_all_def parts f by (rule refl)
  show "build_backend (register_all pb fb fl rr sl sb bl rl frl fbl fr xl xb hs rx nf form_encode te os print deflate w registry_new) kind bx = backend_of_kind bl rl frl fbl fr xl xb kind bx"
    unfolding register_all_def parts b by (rule refl)
  show "build_microservice (register_all pb fb fl rr sl sb bl rl frl fbl fr xl xb hs rx nf form_encode te os print deflate w registry_new) kind bx =
     service_of_kind hs rx nf form_encode te os print deflate w xl xb kind bx"
    unfolding register_all_def parts m rev by (rule builtin_service)
qed

section \<open>The started proxy\<close>

lemma validate_services: "validate cfg = Inr u \<Longrightarrow> distinct (map pc_name (cf_microservices cfg)) \<and>
    ((\<exists>p \<in> set (cf_microservices cfg). pc_kind p = ''python'') \<longrightarrow> cf_python cfg \<noteq> None)"
  unfolding validate_def by (auto simp: bind_result_eq_Inr check_def list_ex_iff check_names_ok split: if_split_asm)

lemma start_proxy_registry:
  assumes "start_proxy lib yh yl yb timing r mapper path cfg g = (Inr px, g')" "names_kept r"
  obtains r' rt where "build_proxy lib r' mapper cfg = Inr px" "names_kept r'"
    "build_frontend r' = build_frontend r" "build_backend r' = build_backend r"
    "\<forall>kind. kind \<noteq> ''python'' \<longrightarrow> build_microservice r' kind = build_microservice r kind"
    "\<forall>py. cf_python cfg = Some py \<longrightarrow>
       rt = \<lparr> rt_permits = py_max_concurrent_calls py, rt_call_timeout = py_call_timeout_seconds py \<rparr> \<and>
       build_microservice r' ''python'' = python_ctor yl yb timing rt (map pc_name (cf_backends cfg))"
proof (cases "cf_python cfg")
  case None
  with assms have "build_proxy lib r mapper cfg = Inr px" by (simp add: start_proxy_def)
  then show ?thesis by (rule that) (use assms(2) None in simp_all)
next
  case (Some py)
  with assms(1) obtain rt g1 where i: "python_initialize yh (resolve_sibling path (py_module_path py))
      (map_option (resolve_sibling path) (py_venv py)) (py_max_concurrent_calls py) (py_call_timeout_seconds py) g = (Inr rt, g1)"
    and b: "build_proxy lib (register_microservice ''python''
      (python_ctor yl yb timing rt (map pc_name (cf_backends cfg))) r) mapper cfg = Inr px"
    by (auto simp: start_proxy_def bind_flow_eq_Inr lift_result_def)
  have rt: "rt = \<lparr> rt_permits = py_max_concurrent_calls py, rt_call_timeout = py_call_timeout_seconds py \<rparr>"
    using i by (auto simp: python_initialize_def split: sum.splits prod.splits)
  let ?r = "register_microservice ''python'' (python_ctor yl yb timing rt (map pc_name (cf_backends cfg))) r"
  have wf: "registry_wf r" by (rule names_kept_wf[OF assms(2)])
  show ?thesis
  proof (rule that[OF b])
    show "names_kept ?r" by (rule names_kept_register(3)[OF assms(2) python_names])
    show "build_frontend ?r = build_frontend r" "build_backend ?r = build_backend r"
      by (simp_all add: fun_eq_iff build_frontend_def build_backend_def register_microservice_def)
    show "\<forall>kind. kind \<noteq> ''python'' \<longrightarrow> build_microservice ?r kind = build_microservice r kind"
      using wf by (simp add: fun_eq_iff build_microservice_def register_microservice_def registry_wf_def bm_get_insert)
    show "\<forall>py. cf_python cfg = Some py \<longrightarrow>
       rt = \<lparr> rt_permits = py_max_concurrent_calls py, rt_call_timeout = py_call_timeout_seconds py \<rparr> \<and>
       build_microservice ?r ''python'' = python_ctor yl yb timing rt (map pc_name (cf_backends cfg))"
      using Some rt wf by (simp add: fun_eq_iff build_registered)
  qed
qed

lemma traverse_snoc:
  "traverse f (xs @ [x]) = bind_result (traverse f xs) (\<lambda>ys. bind_result (f x) (\<lambda>y. Inr (ys @ [y])))"
  by (induction xs) (auto simp: bind_result_def split: sum.splits)

lemma traverse_find_last:
  "traverse f xs = Inr ys \<Longrightarrow> map n ys = map m xs \<Longrightarrow>
     map_of (rev (map (\<lambda>y. (n y, y)) ys)) k =
       (case List.find (\<lambda>x. m x = k) (rev xs) of None \<Rightarrow> None | Some x \<Rightarrow> Some (projr (f x)))"
proof (induction xs arbitrary: ys rule: rev_induct)
  case (snoc x xs)
  from snoc.prems(1) obtain zs z where t: "traverse f xs = Inr zs" "f x = Inr z" "ys = zs @ [z]"
    by (auto simp: traverse_snoc bind_result_eq_Inr)
  with snoc.prems(2) have "map n zs = map m xs" "n z = m x" by simp_all
  with snoc.IH[OF t(1)] t(2,3) show ?case by simp
qed simp

text \<open>Under a name a map of built modules holds the last one configured for it.\<close>

lemma held_last:
  assumes "traverse f xs = Inr ys" "map n ys = map m xs" "\<And>x. gives (\<lambda>y. n y = m x) (f x)"
    and "h = map_of (rev (map (\<lambda>y. (n y, y)) ys)) k"
  shows "case List.find (\<lambda>x. m x = k) (rev xs) of None \<Rightarrow> h = None | Some x \<Rightarrow> (\<exists>y. h = Some y \<and> n y = k \<and> f x = Inr y)"
proof (cases "List.find (\<lambda>x. m x = k) (rev xs)")
  case (Some x)
  then have x: "x \<in> set xs" "m x = k" by (auto simp: find_Some_iff rev_nth)
  from traverse_member[OF assms(1) x(1)] obtain y where y: "f x = Inr y" by blast
  with givesD[OF assms(3) y] x(2) Some show ?thesis by (simp add: assms(4) traverse_find_last[OF assms(1,2)])
qed (simp add: assms(4) traverse_find_last[OF assms(1,2)])

text \<open>
  C11. The proxy that starts holds the configured modules.  Its micro-services are, in the configured
  order and with no name twice, the modules of the configured types built from their own settings; a
  Python service is the runtime's, with the configured limits and the names of the configured
  backends.  Under a name there is a backend or frontend exactly when one is configured for it, and it
  is the module of its configured type built from its settings; where several share a name, the last.
  The default backend is the first configured one.
\<close>

theorem started_proxy_holds_configured:
  assumes "start_proxy lib yh yl yb timing
      (register_all pb fb fl rr sl sb bl rl frl fbl fr xl xb hs rx nf form_encode te os print deflate w registry_new)
      mapper path cfg g = (Inr px, g')"
    and "validate cfg = Inr u"
  shows "\<exists>mp. mapper = Inr mp \<and>
    map ms_name (px_microservices px) = map pc_name (cf_microservices cfg) \<and> distinct (map ms_name (px_microservices px)) \<and>
    (\<forall>i < length (cf_microservices cfg). let p = cf_microservices cfg ! i in
       if pc_kind p = ''python'' then (\<exists>py. cf_python cfg = Some py \<and>
         python_ctor yl yb timing \<lparr> rt_permits = py_max_concurrent_calls py, rt_call_timeout = py_call_timeout_seconds py \<rparr>
           (map pc_name (cf_backends cfg)) (make_ctx cfg mp p) = Inr (px_microservices px ! i))
       else service_of_kind hs rx nf form_encode te os print deflate w xl xb (pc_kind p) (make_ctx cfg mp p) =
         Inr (px_microservices px ! i)) \<and>
    (\<forall>n. case List.find (\<lambda>p. pc_name p = n) (rev (cf_backends cfg)) of
         None \<Rightarrow> bm_get (px_backends px) n = None
       | Some p \<Rightarrow> (\<exists>b. bm_get (px_backends px) n = Some b \<and> be_name b = n \<and>
           backend_of_kind bl rl frl fbl fr xl xb (pc_kind p) (make_ctx cfg mp p) = Inr b)) \<and>
    (\<forall>n. case List.find (\<lambda>p. pc_name p = n) (rev (cf_frontends cfg)) of
         None \<Rightarrow> bm_get (px_frontends px) n = None
       | Some p \<Rightarrow> (\<exists>f. bm_get (px_frontends px) n = Some f \<and> fe_name f = n \<and>
           frontend_of_kind pb fb fl rr sl sb (pc_kind p) (make_ctx cfg mp p) = Inr f)) \<and>
    px_default_backend px = (case cf_backends cfg of [] \<Rightarrow> None | p # _ \<Rightarrow> Some (pc_name p))"
proof -
  let ?r = "register_all pb fb fl rr sl sb bl rl frl fbl fr xl xb hs rx nf form_encode te os print deflate w registry_new"
  from assms(1) names_kept_builtin[OF names_kept_new] obtain r' rt where b: "build_proxy lib r' mapper cfg = Inr px" "names_kept r'"
    and same: "build_frontend r' = build_frontend ?r" "build_backend r' = build_backend ?r"
      "\<forall>kind. kind \<noteq> ''python'' \<longrightarrow> build_microservice r' kind = build_microservice ?r kind"
    and python: "\<forall>py. cf_python cfg = Some py \<longrightarrow>
       rt = \<lparr> rt_permits = py_max_concurrent_calls py, rt_call_timeout = py_call_timeout_seconds py \<rparr> \<and>
       build_microservice r' ''python'' = python_ctor yl yb timing rt (map pc_name (cf_backends cfg))"
    by (rule start_proxy_registry)
  have kinds: "build_frontend r' k bx = frontend_of_kind pb fb fl rr sl sb k bx"
      "build_backend r' k bx = backend_of_kind bl rl frl fbl fr xl xb k bx"
      "k \<noteq> ''python'' \<Longrightarrow> build_microservice r' k bx = service_of_kind hs rx nf form_encode te os print deflate w xl xb k bx" for k bx
    using same by (simp_all add: registry_kinds)
  from b(1) obtain mp fs bs ms where mp: "mapper = Inr mp" and px: "px = proxy_new fs bs ms (config_sealer lib cfg)"
    and t: "traverse (\<lambda>p. build_frontend r' (pc_kind p) (make_ctx cfg mp p)) (cf_frontends cfg) = Inr fs"
      "traverse (\<lambda>p. build_backend r' (pc_kind p) (make_ctx cfg mp p)) (cf_backends cfg) = Inr bs"
      "traverse (\<lambda>p. build_microservice r' (pc_kind p) (make_ctx cfg mp p)) (cf_microservices cfg) = Inr ms"
    by (rule build_proxy_parts)
  have ctx: "bx_name (make_ctx cfg mp p) = pc_name p" for p by (simp add: make_ctx_def)
  note built = built_name[OF b(2), of "make_ctx cfg mp _", unfolded ctx]
  have n: "map fe_name fs = map pc_name (cf_frontends cfg)" "map be_name bs = map pc_name (cf_backends cfg)"
    by (rule traverse_names[OF t(1) built(1)], rule traverse_names[OF t(2) built(2)])
  have "px_default_backend px = (case cf_backends cfg of [] \<Rightarrow> None | p # _ \<Rightarrow> Some (pc_name p))"
    using n(2) by (cases "cf_backends cfg"; cases bs) (auto simp: px proxy_new_def)
  moreover have "case List.find (\<lambda>p. pc_name p = k) (rev (cf_backends cfg)) of
         None \<Rightarrow> bm_get (px_backends px) k = None
       | Some p \<Rightarrow> (\<exists>b. bm_get (px_backends px) k = Some b \<and> be_name b = k \<and>
           backend_of_kind bl rl frl fbl fr xl xb (pc_kind p) (make_ctx cfg mp p) = Inr b)" for k
    by (rule held_last[OF t(2) n(2) built(2), unfolded kinds]) (simp add: px proxy_new_def bm_get_of_list)
  moreover have "case List.find (\<lambda>p. pc_name p = k) (rev (cf_frontends cfg)) of
         None \<Rightarrow> bm_get (px_frontends px) k = None
       | Some p \<Rightarrow> (\<exists>f. bm_get (px_frontends px) k = Some f \<and> fe_name f = k \<and>
           frontend_of_kind pb fb fl rr sl sb (pc_kind p) (make_ctx cfg mp p) = Inr f)" for k
    by (rule held_last[OF t(1) n(1) built(1), unfolded kinds]) (simp add: px proxy_new_def bm_get_of_list)
  moreover have "let p = cf_microservices cfg ! i in
       if pc_kind p = ''python'' then (\<exists>py. cf_python cfg = Some py \<and>
         python_ctor yl yb timing \<lparr> rt_permits = py_max_concurrent_calls py, rt_call_timeout = py_call_timeout_seconds py \<rparr>
           (map pc_name (cf_backends cfg)) (make_ctx cfg mp p) = Inr (px_microservices px ! i))
       else service_of_kind hs rx nf form_encode te os print deflate w xl xb (pc_kind p) (make_ctx cfg mp p) =
         Inr (px_microservices px ! i)" if i: "i < length (cf_microservices cfg)" for i
  proof (cases "pc_kind (cf_microservices cfg ! i) = ''python''")
    case True
    then obtain py where "cf_python cfg = Some py" using validate_services[OF assms(2)] i nth_mem by blast
    with python traverse_nth[OF t(3) i] True show ?thesis by (auto simp: px proxy_new_def Let_def)
  next
    case False
    with traverse_nth[OF t(3) i] kinds(3)[OF False] show ?thesis by (simp add: px proxy_new_def Let_def)
  qed
  ultimately show ?thesis
    using mp build_proxy_names(1)[OF b] validate_services[OF assms(2)] by (intro exI[of _ mp] conjI allI impI) simp_all
qed

lemma python_ctor_Inr:
  assumes "python_ctor yl yb timing rt bs bx = Inr m"
  obtains ys where "m = py_micro_service yl (timing rt) ys" "ys_backends ys = bs"
proof -
  from assms obtain ys where ys: "py_configure yb bx bs = Inr ys" "m = py_micro_service yl (timing rt) ys"
    by (auto simp: python_ctor_def map_sum_def split: sum.splits)
  have "gives (\<lambda>ys. ys_backends ys = bs) (py_configure yb bx bs)"
    unfolding py_configure_def by (intro gives_intros; simp)
  from that[OF ys(2) givesD[OF this ys(1)]] show ?thesis .
qed

lemma py_service_backend:
  assumes "ms_request (py_micro_service yl t ys) data ctx = (a, ctx') \<or> ms_response (py_micro_service yl t ys) data ctx = (a, ctx')"
  shows "cx_target_backend ctx' \<in> insert (cx_target_backend ctx) (insert None (Some ` set (ys_backends ys)))"
proof -
  have "cx_target_backend ctx' \<in> insert (cx_target_backend ctx) (insert None (Some ` set (ys_backends ys)))"
    if e: "py_execute yl t ys phase data ctx = (a, ctx')" for phase
  proof (cases "phase = ''request'' \<and> ys_has_request ys \<or> phase = ''response'' \<and> ys_has_response ys")
    case True
    from py_execute_backend[OF e True] show ?thesis .
  next
    case False
    then have "\<not> (if phase = ''request'' then ys_has_request ys else if phase = ''response'' then ys_has_response ys else False)"
      by (simp split: if_split)
    with e have "ctx' = ctx" unfolding py_execute_def by (metis prod.inject)
    then show ?thesis by simp
  qed
  with assms show ?thesis by (auto simp: py_micro_service_def)
qed

text \<open>
  C22. Embedded Python cannot send a login to a backend that does not exist: whatever a configured
  Python service returns, on either path, afterwards the selected backend is the one selected before,
  or none, or a backend the started proxy holds.
\<close>

theorem python_backend_choice_exists:
  assumes "start_proxy lib yh yl yb timing
      (register_all pb fb fl rr sl sb bl rl frl fbl fr xl xb hs rx nf form_encode te os print deflate w registry_new)
      mapper path cfg g = (Inr px, g')"
    and "validate cfg = Inr u" "i < length (cf_microservices cfg)" "pc_kind (cf_microservices cfg ! i) = ''python''"
    and call: "ms_request (px_microservices px ! i) data ctx = (a, ctx') \<or> ms_response (px_microservices px ! i) data ctx = (a, ctx')"
  shows "cx_target_backend ctx' = cx_target_backend ctx \<or> cx_target_backend ctx' = None \<or>
    (\<exists>b. cx_target_backend ctx' = Some b \<and> bm_get (px_backends px) b \<noteq> None)"
proof -
  have python: "cf_python cfg \<noteq> None" using validate_services[OF assms(2)] assms(3,4) nth_mem by blast
  let ?r = "register_all pb fb fl rr sl sb bl rl frl fbl fr xl xb hs rx nf form_encode te os print deflate w registry_new"
  from assms(1) names_kept_builtin[OF names_kept_new] obtain r' rt where b: "build_proxy lib r' mapper cfg = Inr px" "names_kept r'"
    and same: "build_frontend r' = build_frontend ?r" "build_backend r' = build_backend ?r"
      "\<forall>kind. kind \<noteq> ''python'' \<longrightarrow> build_microservice r' kind = build_microservice ?r kind"
    and ctors: "\<forall>py. cf_python cfg = Some py \<longrightarrow>
       rt = \<lparr> rt_permits = py_max_concurrent_calls py, rt_call_timeout = py_call_timeout_seconds py \<rparr> \<and>
       build_microservice r' ''python'' = python_ctor yl yb timing rt (map pc_name (cf_backends cfg))"
    by (rule start_proxy_registry)
  from ctors python have ctor: "build_microservice r' ''python'' = python_ctor yl yb timing rt (map pc_name (cf_backends cfg))" by blast
  from b(1) obtain mp fs bs ms where px: "px = proxy_new fs bs ms (config_sealer lib cfg)"
    "traverse (\<lambda>p. build_microservice r' (pc_kind p) (make_ctx cfg mp p)) (cf_microservices cfg) = Inr ms"
    by (rule build_proxy_parts)
  let ?bx = "make_ctx cfg mp (cf_microservices cfg ! i)"
  have "build_microservice r' ''python'' ?bx = Inr (ms ! i)"
    using traverse_nth[OF px(2) assms(3)] by (simp only: assms(4))
  then have "python_ctor yl yb timing rt (map pc_name (cf_backends cfg)) ?bx = Inr (ms ! i)" by (simp only: ctor)
  then obtain ys where ys: "ms ! i = py_micro_service yl (timing rt) ys" "ys_backends ys = map pc_name (cf_backends cfg)"
    by (rule python_ctor_Inr)
  have "px_microservices px ! i = py_micro_service yl (timing rt) ys" by (simp add: px(1) proxy_new_def ys(1))
  from py_service_backend[OF call[unfolded this]] build_proxy_names(2)[OF b(1,2)] show ?thesis
    by (auto simp: ys(2))
qed

section \<open>A started proxy\<close>

definition toy_loader :: "json py_loader" where
  "toy_loader = \<lparr> yb_instance = (\<lambda>_ _ _ _ _ _. Some JNull),
     yb_getattr = (\<lambda>_ name. Some (if name = ''process_response'' then Some JNull else None)),
     yb_callable = (\<lambda>_. True), yb_coroutine = (\<lambda>_. False) \<rparr>"

definition toy_service_config :: "string \<Rightarrow> string \<Rightarrow> ttable \<Rightarrow> plugin_config" where
  "toy_service_config kind name t = \<lparr> pc_kind = kind, pc_name = name, pc_config = TTable t, pc_include = None \<rparr>"

definition toy_start_config :: proxy_config where
  "toy_start_config = toy_config\<lparr>
     cf_python := Some \<lparr> py_module_path = ''ops'', py_venv = None, py_max_concurrent_calls = 4, py_call_timeout_seconds = 30 \<rparr>,
     cf_backends := [toy_service_config ''oidc'' ''op'' [(''client_id'', TString ''me''), (''issuer'', TString ''https://op'')]],
     cf_microservices := [toy_service_config ''static_attributes'' ''static'' [],
       toy_service_config ''python'' ''py'' [(''module'', TString ''ops''), (''class'', TString ''AddRole'')]] \<rparr>"

definition toy_start_mapper :: attribute_mapper where
  "toy_start_mapper = \<lparr> mp_attributes = [], mp_user_id_from_attrs = [], mp_user_id_to_attr = None \<rparr>"

definition toy_start_globals :: py_globals where "toy_start_globals = \<lparr> yg_module_path = None, yg_venv = None \<rparr>"

abbreviation toy_bx :: "plugin_config \<Rightarrow> build_context" where "toy_bx \<equiv> make_ctx toy_start_config toy_start_mapper"

lemma toy_start_parts:
  "validate toy_start_config = Inr ()"
  "python_initialize (toy_py_host ''/srv'') (resolve_sibling ''conf/proxy.toml'' ''ops'') None 4 30 toy_start_globals =
    (Inr \<lparr> rt_permits = 4, rt_call_timeout = 30 \<rparr>, \<lparr> yg_module_path = Some ''/srv/conf/ops'', yg_venv = Some None \<rparr>)"
  "is_ok (oidc_backend_configure toy_build_lib (toy_bx (cf_backends toy_start_config ! 0)))"
  "is_ok (parse_config dec_static (toy_bx (cf_microservices toy_start_config ! 0)))"
  "is_ok (py_configure toy_loader (toy_bx (cf_microservices toy_start_config ! 1)) [''op''])"
  by code_simp+

lemma toy_proxy_starts:
  "\<exists>px g'. start_proxy (toy_crypto []) (toy_py_host ''/srv'') toy_py toy_loader timing
     (register_all pb fb fl rr sl sb toy_build_lib rl frl fbl fr xl xb hs rx nf form_encode te os print deflate w registry_new)
     (Inr toy_start_mapper) ''conf/proxy.toml'' toy_start_config toy_start_globals = (Inr px, g')"
proof -
  let ?r = "register_all pb fb fl rr sl sb toy_build_lib rl frl fbl fr xl xb hs rx nf form_encode te os print deflate w registry_new"
  let ?rt = "\<lparr> rt_permits = 4, rt_call_timeout = 30 \<rparr>"
  let ?p = "register_microservice ''python'' (python_ctor toy_py toy_loader timing ?rt [''op'']) ?r"
  note kinds = registry_kinds[of pb fb fl rr sl sb toy_build_lib rl frl fbl fr xl xb hs rx nf form_encode te os print deflate w]
  have wf: "registry_wf ?r" by (rule names_kept_wf[OF names_kept_builtin[OF names_kept_new]])
  from toy_start_parts(3) obtain ob where "oidc_backend_configure toy_build_lib (toy_bx (cf_backends toy_start_config ! 0)) = Inr ob"
    by (auto simp: is_ok_iff)
  then have be: "build_backend ?p ''oidc'' (toy_bx (cf_backends toy_start_config ! 0)) = Inr (oidc_backend_be rl ob)"
    using kinds(2)[of "''oidc''"]
    by (simp add: register_microservice_def build_backend_def oidc_backend_build_def backend_of_kind_def)
  from toy_start_parts(4) obtain sa where "parse_config dec_static (toy_bx (cf_microservices toy_start_config ! 0)) = Inr sa"
    by (auto simp: is_ok_iff)
  then have st: "\<exists>m. build_microservice ?p ''static_attributes'' (toy_bx (cf_microservices toy_start_config ! 0)) = Inr m"
    using kinds(3)[of "''static_attributes''"] wf
    by (simp add: register_microservice_def build_microservice_def registry_wf_def bm_get_insert static_build_def service_of_kind_def)
  from toy_start_parts(5) obtain ys where "py_configure toy_loader (toy_bx (cf_microservices toy_start_config ! 1)) [''op''] = Inr ys"
    by (auto simp: is_ok_iff)
  then have py: "\<exists>m. build_microservice ?p ''python'' (toy_bx (cf_microservices toy_start_config ! 1)) = Inr m"
    by (simp only: build_registered(3)[OF wf] python_ctor_def) simp
  have "\<exists>px. build_proxy (toy_crypto []) ?p (Inr toy_start_mapper) toy_start_config = Inr px"
    using be st py unfolding build_proxy_def
    by (auto simp: toy_start_config_def toy_service_config_def toy_config_def bind_result_eq_Inr)
  moreover have "cf_python toy_start_config =
      Some \<lparr> py_module_path = ''ops'', py_venv = None, py_max_concurrent_calls = 4, py_call_timeout_seconds = 30 \<rparr>"
    "map pc_name (cf_backends toy_start_config) = [''op'']"
    by (simp_all add: toy_start_config_def toy_service_config_def)
  ultimately show ?thesis
    by (simp add: start_proxy_def bind_flow_def toy_start_parts(2) lift_result_def)
qed

theorem started_proxy_holds_configured_witness:
  "\<forall>timing pb fb fl rr sl sb rl frl fbl fr xl xb hs rx nf form_encode te os print deflate w. \<exists>px g' b.
    start_proxy (toy_crypto []) (toy_py_host ''/srv'') toy_py toy_loader timing
     (register_all pb fb fl rr sl sb toy_build_lib rl frl fbl fr xl xb hs rx nf form_encode te os print deflate w registry_new)
     (Inr toy_start_mapper) ''conf/proxy.toml'' toy_start_config toy_start_globals = (Inr px, g') \<and>
    map ms_name (px_microservices px) = [''static'', ''py''] \<and> px_default_backend px = Some ''op'' \<and>
    static_build (toy_bx (cf_microservices toy_start_config ! 0)) = Inr (px_microservices px ! 0) \<and>
    bm_get (px_backends px) ''op'' = Some b \<and> oidc_backend_build toy_build_lib rl (toy_bx (cf_backends toy_start_config ! 0)) = Inr b"
proof (intro allI)
  fix timing pb fb fl rr sl sb rl frl fbl fr xl xb hs rx nf form_encode te os print deflate w
  obtain px g' where h: "start_proxy (toy_crypto []) (toy_py_host ''/srv'') toy_py toy_loader timing
     (register_all pb fb fl rr sl sb toy_build_lib rl frl fbl fr xl xb hs rx nf form_encode te os print deflate w registry_new)
     (Inr toy_start_mapper) ''conf/proxy.toml'' toy_start_config toy_start_globals = (Inr px, g')"
    using toy_proxy_starts[of timing pb fb fl rr sl sb rl frl fbl fr xl xb hs rx nf form_encode te os print deflate w] by (elim exE)
  let ?s = "cf_microservices toy_start_config ! 0" and ?b = "cf_backends toy_start_config ! 0"
  have cfg: "pc_kind ?s = ''static_attributes''" "0 < length (cf_microservices toy_start_config)"
    "List.find (\<lambda>p. pc_name p = ''op'') (rev (cf_backends toy_start_config)) = Some ?b" "pc_kind ?b = ''oidc''"
    "map pc_name (cf_microservices toy_start_config) = [''static'', ''py'']"
    "(case cf_backends toy_start_config of [] \<Rightarrow> None | p # _ \<Rightarrow> Some (pc_name p)) = Some ''op''"
    by (simp_all add: toy_start_config_def toy_service_config_def)
  from started_proxy_holds_configured[OF h toy_start_parts(1)] obtain mp where
    e: "Inr toy_start_mapper = (Inr mp :: attribute_mapper result)" "map ms_name (px_microservices px) = map pc_name (cf_microservices toy_start_config)"
      "px_default_backend px = (case cf_backends toy_start_config of [] \<Rightarrow> None | p # _ \<Rightarrow> Some (pc_name p))"
    and services: "\<forall>i < length (cf_microservices toy_start_config). let p = cf_microservices toy_start_config ! i in
       if pc_kind p = ''python'' then (\<exists>py. cf_python toy_start_config = Some py \<and>
         python_ctor toy_py toy_loader timing \<lparr> rt_permits = py_max_concurrent_calls py, rt_call_timeout = py_call_timeout_seconds py \<rparr>
           (map pc_name (cf_backends toy_start_config)) (make_ctx toy_start_config mp p) = Inr (px_microservices px ! i))
       else service_of_kind hs rx nf form_encode te os print deflate w xl xb (pc_kind p) (make_ctx toy_start_config mp p) =
         Inr (px_microservices px ! i)"
    and backends: "\<forall>n. case List.find (\<lambda>p. pc_name p = n) (rev (cf_backends toy_start_config)) of
         None \<Rightarrow> bm_get (px_backends px) n = None
       | Some p \<Rightarrow> (\<exists>b. bm_get (px_backends px) n = Some b \<and> be_name b = n \<and>
           backend_of_kind toy_build_lib rl frl fbl fr xl xb (pc_kind p) (make_ctx toy_start_config mp p) = Inr b)"
    by (elim exE conjE)
  have mp: "mp = toy_start_mapper" using e(1) by simp
  have "static_build (toy_bx ?s) = Inr (px_microservices px ! 0)"
    using services[rule_format, OF cfg(2), unfolded Let_def cfg(1) mp] by (simp add: service_of_kind_def)
  moreover obtain b where "bm_get (px_backends px) ''op'' = Some b" "oidc_backend_build toy_build_lib rl (toy_bx ?b) = Inr b"
    using spec[OF backends, of "''op''", unfolded cfg(3) option.case cfg(4) mp] by (auto simp: backend_of_kind_def)
  ultimately show "\<exists>px g' b. start_proxy (toy_crypto []) (toy_py_host ''/srv'') toy_py toy_loader timing
     (register_all pb fb fl rr sl sb toy_build_lib rl frl fbl fr xl xb hs rx nf form_encode te os print deflate w registry_new)
     (Inr toy_start_mapper) ''conf/proxy.toml'' toy_start_config toy_start_globals = (Inr px, g') \<and>
    map ms_name (px_microservices px) = [''static'', ''py''] \<and> px_default_backend px = Some ''op'' \<and>
    static_build (toy_bx ?s) = Inr (px_microservices px ! 0) \<and>
    bm_get (px_backends px) ''op'' = Some b \<and> oidc_backend_build toy_build_lib rl (toy_bx ?b) = Inr b"
    using h e(2,3)[unfolded cfg(5,6)] by (intro exI conjI)
qed

theorem python_backend_choice_exists_witness:
  "\<forall>timing pb fb fl rr sl sb rl frl fbl fr xl xb hs rx nf form_encode te os print deflate w. \<exists>px g' a ctx'.
    start_proxy (toy_crypto []) (toy_py_host ''/srv'') toy_py toy_loader timing
     (register_all pb fb fl rr sl sb toy_build_lib rl frl fbl fr xl xb hs rx nf form_encode te os print deflate w registry_new)
     (Inr toy_start_mapper) ''conf/proxy.toml'' toy_start_config toy_start_globals = (Inr px, g') \<and>
    ms_response (px_microservices px ! 1) toy_login toy_py_context = (a, ctx') \<and>
    (cx_target_backend ctx' = None \<or> (\<exists>b. cx_target_backend ctx' = Some b \<and> bm_get (px_backends px) b \<noteq> None))"
proof (intro allI)
  fix timing pb fb fl rr sl sb rl frl fbl fr xl xb hs rx nf form_encode te os print deflate w
  obtain px g' where px: "start_proxy (toy_crypto []) (toy_py_host ''/srv'') toy_py toy_loader timing
     (register_all pb fb fl rr sl sb toy_build_lib rl frl fbl fr xl xb hs rx nf form_encode te os print deflate w registry_new)
     (Inr toy_start_mapper) ''conf/proxy.toml'' toy_start_config toy_start_globals = (Inr px, g')"
    using toy_proxy_starts[of timing pb fb fl rr sl sb rl frl fbl fr xl xb hs rx nf form_encode te os print deflate w] by (elim exE)
  obtain a ctx' where c: "ms_response (px_microservices px ! 1) toy_login toy_py_context = (a, ctx')" by fastforce
  have "1 < length (cf_microservices toy_start_config)" "pc_kind (cf_microservices toy_start_config ! 1) = ''python''"
    by (simp_all add: toy_start_config_def toy_service_config_def)
  from python_backend_choice_exists[OF px toy_start_parts(1) this disjI2[OF c]]
  have "cx_target_backend ctx' = None \<or> (\<exists>b. cx_target_backend ctx' = Some b \<and> bm_get (px_backends px) b \<noteq> None)"
    by (auto simp: toy_py_context_def context_new_def)
  with px c show "\<exists>px g' a ctx'.
    start_proxy (toy_crypto []) (toy_py_host ''/srv'') toy_py toy_loader timing
     (register_all pb fb fl rr sl sb toy_build_lib rl frl fbl fr xl xb hs rx nf form_encode te os print deflate w registry_new)
     (Inr toy_start_mapper) ''conf/proxy.toml'' toy_start_config toy_start_globals = (Inr px, g') \<and>
    ms_response (px_microservices px ! 1) toy_login toy_py_context = (a, ctx') \<and>
    (cx_target_backend ctx' = None \<or> (\<exists>b. cx_target_backend ctx' = Some b \<and> bm_get (px_backends px) b \<noteq> None))"
    by (intro exI conjI)
qed

end
