(* ===== verification/Backend_Isolation.thy ===== *)
theory Backend_Isolation
  imports Assembly Oidc_Flow Saml_Frontend_Props Saml_Backend_Props Federation_Backend_Props
begin

text \<open>
  What the orchestrator and the frontends may rely on of every backend, as the locale
  \<open>session_backend\<close>: its handlers keep the context well formed and change no session entry outside
  the namespace of its own name.  The three backends of the program are instances; shown inside the
  locale is that a whole login through the backend keeps what a frontend stored, and from it that a
  login through any backend the registry builds ends at the endpoint its request was validated for.
\<close>

section \<open>The contract\<close>

locale session_backend =
  fixes b :: "'w backend"
  assumes start_confined: "preserves (confined False (be_name b)) (be_start_auth b d)"
    and handle_confined: "preserves (confined False (be_name b)) (be_handle b i)"
begin

lemma handlers_confined:
  assumes "be_start_auth b d c = (r, c') \<or> be_handle b i c = (a, c')"
  shows "confined False (be_name b) c c'"
  using assms preservesD[OF start_confined] preservesD[OF handle_confined] by blast

lemma login_keeps_session:
  assumes "context_wf c1" "be_start_auth b d c1 = (r, c2)" "cx_state c3 = cx_state c2" "bm_wf (cx_decorations c3)"
    and "be_handle b i c3 = (a, c4)"
  shows "context_wf c4" "n \<noteq> be_name b \<Longrightarrow> get_value (cx_state c4) n k = get_value (cx_state c1) n k"
proof -
  from preservesD[OF start_confined assms(2)] assms(1)
  have 2: "context_wf c2" "\<And>n k. n \<noteq> be_name b \<Longrightarrow> get_value (cx_state c2) n k = get_value (cx_state c1) n k"
    by (simp_all add: confined_def)
  then have "context_wf c3" using assms(3,4) by (simp add: context_wf_def)
  with preservesD[OF handle_confined assms(5)] 2(2) assms(3)
  show "context_wf c4" "n \<noteq> be_name b \<Longrightarrow> get_value (cx_state c4) n k = get_value (cx_state c1) n k"
    by (simp_all add: confined_def)
qed

end

section \<open>The OpenID Connect backend\<close>

lemma confined_remember:
  "confined False ns c (with_state (remember_login ns state nonce verifier p) c)"
  "confined False ns c (with_state (remember_op_login ns state nonce verifier e) c)"
  by (auto simp: confined_def context_wf_def remember_login_def remember_op_login_def set_str_def get_value_other_namespace Let_def
      split: if_splits)

lemma confined_oidc_start: "preserves (confined False (ob_name ob)) (oidc_start_auth rl ob d)"
  unfolding oidc_start_auth_def
proof (intro confined_bind confined_basic, rule preservesI)
  fix provider prompt c r c'
  assume h: "(case in_world (draw_tokens rl) c of ((state, nonce, verifier), ctx) \<Rightarrow>
     (let challenge = rl_s256_challenge rl verifier;
          ctx = with_state (remember_login (ob_name ob) state nonce verifier (id_is_passive d)) ctx;
          extra = (case prompt of Some p \<Rightarrow> [(''prompt'', p)] | None \<Rightarrow> [])
      in case rl_authorization_url rl provider (ob_client ob) state nonce (Some challenge) extra of
           Inl e \<Rightarrow> (Inl e, ctx) | Inr url \<Rightarrow> (Inr (rl_redirect rl url), ctx))) = (r, c')"
  obtain state nonce verifier w where t: "draw_tokens rl (req_context.more c) = ((state, nonce, verifier), w)"
    by (metis prod.exhaust)
  with h have "c' = with_state (remember_login (ob_name ob) state nonce verifier (id_is_passive d)) (with_world w c)"
    by (auto simp: in_world_def Let_def split: sum.splits)
  then show "confined False (ob_name ob) c c'" by (simp add: confined_trans[OF confined_steps(1) confined_remember(1)])
qed

lemma confined_merged: "preserves (confined b ns) (merged_claims rl p tokens claims sub)"
  unfolding merged_claims_def
  by (cases "pi_userinfo_endpoint p") (auto intro!: confined_bind confined_basic)

lemma confined_clear: "preserves (confined False ns) (\<lambda>ctx. (g ctx, with_state (clear_namespace ns) ctx))"
  by (auto simp: preserves_def)

lemma confined_redeem: "preserves (confined False (ob_name ob)) (redeem_code rl ob code nonce verifier)"
  unfolding redeem_code_def by (intro confined_bind confined_basic confined_merged confined_clear)

lemma confined_oidc_handle: "preserves (confined False (ob_name ob)) (oidc_backend_handle rl ob i)"
proof (rule preservesI)
  fix c r c' assume h: "oidc_backend_handle rl ob i c = (r, c')"
  from h show "confined False (ob_name ob) c c'"
    using preservesD[OF confined_redeem]
    by (auto simp: oidc_backend_handle_def split: if_split_asm option.splits)
qed

interpretation oidc: session_backend "oidc_backend_be rl ob" for rl ob
  by unfold_locales (simp_all add: oidc_backend_be_def confined_oidc_start confined_oidc_handle)

section \<open>The federation backend\<close>

lemma confined_start_op: "preserves (confined False (fbk_name fb)) (start_auth_with_op rl fl fr fb e)"
  unfolding start_auth_with_op_def
proof (intro confined_bind confined_basic, rule preservesI)
  fix op c r c'
  assume h: "(case in_world (draw_tokens rl) c of ((state, nonce, verifier), ctx) \<Rightarrow>
     (op_redirect rl fr fb (ro_provider op) state nonce (rl_s256_challenge rl verifier) (req_context.more ctx),
      with_state (remember_op_login (fbk_name fb) state nonce verifier e) ctx)) = (r, c')"
  obtain state nonce verifier w where t: "draw_tokens rl (req_context.more c) = ((state, nonce, verifier), w)"
    by (metis prod.exhaust)
  with h have "c' = with_state (remember_op_login (fbk_name fb) state nonce verifier e) (with_world w c)"
    by (auto simp: in_world_def)
  then show "confined False (fbk_name fb) c c'" by (simp add: confined_trans[OF confined_steps(1) confined_remember(2)])
qed

lemma confined_start_discovery: "preserves (confined False (fbk_name fb)) (start_discovery rl fr fb d)"
proof (rule preservesI)
  fix c r c' assume "start_discovery rl fr fb d c = (r, c')"
  then obtain verifier w where "c' = with_state (set_str (fbk_name fb) DISCOVERY_VERIFIER_KEY verifier) (with_world w c)"
    by (auto simp: start_discovery_def in_world_def Let_def split: prod.splits)
  then show "confined False (fbk_name fb) c c'" by (simp add: confined_trans[OF confined_steps(1) confined_steps(5)])
qed

lemma confined_federation_start: "preserves (confined False (fbk_name fb)) (federation_start_auth rl fl fr fb d)"
  using preservesD[OF confined_start_op] preservesD[OF confined_start_discovery]
  by (auto simp: federation_start_auth_def intro!: preservesI split: if_split_asm option.splits)

lemma confined_initiate: "preserves (confined False (fbk_name fb)) (handle_initiate rl fl fr fb)"
proof (rule preservesI)
  fix c r c' assume h: "handle_initiate rl fl fr fb c = (r, c')"
  have "preserves (confined False (fbk_name fb)) (bind_flow (start_auth_with_op rl fl fr fb e)
      (\<lambda>redirect ctx. (Inr (BRespond redirect), with_state (set_value (fbk_name fb) DISCOVERY_VERIFIER_KEY JNull) ctx)))" for e
    by (intro confined_bind confined_start_op) (auto simp: preserves_def)
  from preservesD[OF this] h show "confined False (fbk_name fb) c c'"
    by (auto simp: handle_initiate_def split: if_split_asm option.splits sum.splits)
qed

lemma confined_redeem_federated:
  "preserves (confined False (fbk_name fb)) (redeem_federated_code rl fl fr fb code nonce verifier e)"
  unfolding redeem_federated_code_def by (intro confined_bind confined_basic confined_merged confined_clear)

lemma confined_federation_handle: "preserves (confined False (fbk_name fb)) (federation_backend_handle rl fl fr fb i)"
proof (rule preservesI)
  fix c r c' assume h: "federation_backend_handle rl fl fr fb i c = (r, c')"
  have "confined False (fbk_name fb) c c'" if "federation_callback rl fl fr fb c = (r, c')"
    using that preservesD[OF confined_redeem_federated]
    by (auto simp: federation_callback_def split: if_split_asm option.splits)
  with h preservesD[OF confined_initiate] show "confined False (fbk_name fb) c c'"
    by (auto simp: federation_backend_handle_def split: if_split_asm)
qed

interpretation federation: session_backend "federation_backend_be rl fl fr fb" for rl fl fr fb
  by unfold_locales (simp_all add: federation_backend_be_def confined_federation_start confined_federation_handle)

section \<open>The SAML backend\<close>

text \<open>A backend the registry builds keeps its entries under its own name.\<close>

definition own_namespace :: "('k, 'key, 'f, 't) saml_backend \<Rightarrow> ('k, 'key, 'f, 't) saml_backend" where
  "own_namespace sx = sx\<lparr> sx_state_namespace := sx_name sx \<rparr>"

interpretation saml: session_backend "saml_backend_be xl (own_namespace sx)" for xl sx
proof
  have n: "be_name (saml_backend_be xl (own_namespace sx)) = sx_state_namespace (own_namespace sx)"
    by (simp add: saml_backend_be_def own_namespace_def)
  show "preserves (confined False (be_name (saml_backend_be xl (own_namespace sx)))) (be_start_auth (saml_backend_be xl (own_namespace sx)) d)" for d
    unfolding n by (simp add: saml_backend_be_def confined_start)
  show "preserves (confined False (be_name (saml_backend_be xl (own_namespace sx)))) (be_handle (saml_backend_be xl (own_namespace sx)) i)" for i
    unfolding n by (simp add: saml_backend_be_def confined_handle)
qed

section \<open>Every backend the registry builds\<close>

lemma saml_backend_build_own:
  assumes "saml_backend_build xl xb bx = Inr b"
  shows "\<exists>sx. b = saml_backend_be xl (own_namespace sx)"
proof -
  from assms obtain sx where sx: "build_concrete xl xb bx False (bx_name bx) = Inr sx" "b = saml_backend_be xl sx"
    by (auto simp: saml_backend_build_def bind_result_eq_Inr)
  have "sx_name sx = bx_name bx" by (rule givesD[OF configured_plugin_names(6) sx(1)])
  with build_concrete_namespace[OF sx(1)] have "sx = own_namespace sx" by (simp add: own_namespace_def)
  with sx(2) show ?thesis by metis
qed

lemma built_backend_contract:
  assumes "build_backend (register_all pb fb fl rr sl sb bl rl frl fbl fr xl xb hs rx nf form_encode te os print deflate w registry_new) kind bx = Inr b"
  shows "session_backend b" "be_name b = bx_name bx"
proof -
  from assms consider "oidc_backend_build bl rl bx = Inr b" | "federation_backend_build bl frl fbl fr bx = Inr b" | "saml_backend_build xl xb bx = Inr b"
    by (auto simp: registry_kinds backend_of_kind_def split: if_split_asm)
  then show "session_backend b"
  proof cases
    case 1
    then show ?thesis by (auto simp: oidc_backend_build_def bind_result_eq_Inr oidc.session_backend_axioms)
  next
    case 2
    then show ?thesis by (auto simp: federation_backend_build_def bind_result_eq_Inr federation.session_backend_axioms)
  next
    case 3
    from saml_backend_build_own[OF this] show ?thesis by (auto simp: saml.session_backend_axioms)
  qed
  show "be_name b = bx_name bx"
    using assms by (rule givesD[OF built_name(2)[OF names_kept_builtin[OF names_kept_new]]])
qed

text \<open>
  C28. Plugins cannot interfere.  Every backend the program can be configured with keeps to its own
  name, whatever the request, the endpoint and the result (errors included): the context stays well
  formed, the request and both targets are left alone, and no session entry outside the namespace of
  the configured name changes.
\<close>

theorem every_backend_isolated:
  assumes "build_backend (register_all pb fb fl rr sl sb bl rl frl fbl fr xl xb hs rx nf form_encode te os print deflate w registry_new) kind bx = Inr b"
    and "be_start_auth b d c = (r, c') \<or> be_handle b i c = (a, c')"
  shows "cx_request c' = cx_request c \<and> cx_target_backend c' = cx_target_backend c \<and> cx_target_frontend c' = cx_target_frontend c \<and>
    (context_wf c \<longrightarrow> context_wf c' \<and>
      (\<forall>n k. n \<noteq> bx_name bx \<longrightarrow> get_value (cx_state c') n k = get_value (cx_state c) n k))"
proof -
  note b = built_backend_contract[OF assms(1)]
  from session_backend.handlers_confined[OF b(1) assms(2)] show ?thesis by (simp add: confined_def b(2))
qed

text \<open>
  C29. A SAML login through any backend ends where its request was validated.  After the frontend
  accepted a request, whichever configured backend of another name runs the login, in whatever
  requests the session comes back, the answer is posted to the validated endpoint of the requesting
  provider, with the relay state of the session.
\<close>

theorem saml_login_through_any_backend:
  assumes built: "build_backend (register_all pb fb fl rr sl sb bl rl frl fbl fr xl xb hs rx nf form_encode te os print deflate w registry_new) kind bx = Inr b"
    and names: "sf_name sf \<noteq> bx_name bx" "sf_name sf \<noteq> STATE_KEY_BASE" and wf: "context_wf c" "bm_wf (cx_decorations c1')" "bm_wf (cx_decorations c3)"
    and start: "accept_request sl sf entry processed relay c = (Inr (StartAuth d back_end), c1)"
    and out: "cx_state c1' = cx_state c1" "be_start_auth b d' c1' = (Inr r, c2)"
    and ret: "cx_state c3 = cx_state c2" "be_handle b i c3 = (Inr (AuthResponse answer), c4)"
    and rendered: "saml_render sl sf answer' c4 = (Inr page, c5)"
  shows "\<exists>signed. page = sl_with_header sl ''cache-control'' ''no-cache, no-store'' (sl_html sl (sl_post_encode sl signed False
      (pr_acs_url processed) (or_else relay (get_str (cx_state c) (sf_name sf) ''relay_state''))))"
proof -
  note b = built_backend_contract[OF built]
  have wf0: "state_wf (cx_state c)" using wf(1) by (simp add: context_wf_def)
  from accept_request_StartD[OF start] obtain format where
    c1: "cx_state c1 = stash_request (sf_name sf) processed format relay (cx_state c)" by auto
  have "context_wf c1'" using wf(2) by (simp add: context_wf_def out(1) c1 stash_request_get(6)[OF wf0 names(2)])
  from session_backend.login_keeps_session(2)[OF b(1) this out(2) ret(1) wf(3) ret(2)] names(1)
  have k: "get_str (cx_state c4) (sf_name sf) k = get_str (cx_state c1) (sf_name sf) k" for k
    by (simp add: b(2) get_str_value out(1))
  from saml_renderD[OF rendered] obtain request_id sp acs format' where
    i: "get_str (cx_state c4) (sf_name sf) ''acs_url'' = Some acs"
      "issue_response sl sf answer' request_id sp acs (get_str (cx_state c4) (sf_name sf) ''relay_state'') format' c4 = (Inr page, c5)"
    by blast
  have "acs = pr_acs_url processed"
    "get_str (cx_state c4) (sf_name sf) ''relay_state'' = or_else relay (get_str (cx_state c) (sf_name sf) ''relay_state'')"
    using i(1) by (simp_all add: k c1 stash_request_get[OF wf0 names(2)])
  with issue_responseD[OF i(2)] show ?thesis by metis
qed

section \<open>A SAML login through the OpenID Connect backend\<close>

definition toy_login_cfg :: json where
  "toy_login_cfg = JObject [(''client_id'', JString ''c''), (''issuer'', JString ''https://op'')]"

definition toy_login_ob :: "unit oidc_backend" where
  "toy_login_ob = (case oidc_backend_configure toy_build_lib (toy_build toy_login_cfg) of Inr ob \<Rightarrow> ob | Inl _ \<Rightarrow> toy_ob)"

definition toy_login_out :: "int req_context_scheme" where
  "toy_login_out = snd (oidc_start_auth toy_rp toy_login_ob toy_sso_login toy_accepted)"

definition toy_login_back :: "int req_context_scheme" where
  "toy_login_back = context_new (toy_rq1\<lparr> rq_query := [(''code'', ''xyz''), (''state'', ''100'')] \<rparr>) (cx_state toy_login_out) 200"

definition toy_login_done :: "int req_context_scheme" where
  "toy_login_done = snd (oidc_backend_handle toy_rp toy_login_ob ''callback'' toy_login_back)"

lemma toy_login_steps:
  "is_ok (oidc_backend_configure toy_build_lib (toy_build toy_login_cfg))"
  "is_ok (fst (oidc_start_auth toy_rp toy_login_ob toy_sso_login toy_accepted))"
  "(case fst (oidc_backend_handle toy_rp toy_login_ob ''callback'' toy_login_back) of Inr (AuthResponse _) \<Rightarrow> True | _ \<Rightarrow> False)"
  "is_ok (fst (saml_render toy_idp toy_sf toy_answer toy_login_done))"
  "bm_wf (cx_decorations toy_accepted)" "bm_wf (cx_decorations toy_sso)" "bm_wf (cx_decorations toy_login_back)"
  "bx_name (toy_build toy_login_cfg) = ''svc''" "pr_acs_url toy_processed = ''https://sp/acs''"
  "get_str (cx_state toy_sso) ''idp'' ''relay_state'' = None"
  by code_simp+

lemma toy_backend_built:
  "build_backend (register_all pb fb fl rr sl sb toy_build_lib toy_rp frl fbl fr xl xb hs rx nf form_encode te os print deflate w registry_new)
     ''oidc'' (toy_build toy_login_cfg) = Inr (oidc_backend_be toy_rp toy_login_ob)"
  using toy_login_steps(1) by (auto simp: registry_kinds backend_of_kind_def oidc_backend_build_def toy_login_ob_def is_ok_iff)

theorem every_backend_isolated_witness:
  "\<forall>pb fb fl rr sl sb frl fbl fr xl xb hs rx nf form_encode te os print deflate w.
    build_backend (register_all pb fb fl rr sl sb toy_build_lib toy_rp frl fbl fr xl xb hs rx nf form_encode te os print deflate w registry_new)
     ''oidc'' (toy_build toy_login_cfg) = Inr (oidc_backend_be toy_rp toy_login_ob) \<and>
    get_value (cx_state toy_login_done) ''idp'' ''acs_url'' = get_value (cx_state toy_login_back) ''idp'' ''acs_url''"
proof (intro allI conjI toy_backend_built)
  have h: "be_handle (oidc_backend_be toy_rp toy_login_ob) ''callback'' toy_login_back =
      (fst (oidc_backend_handle toy_rp toy_login_ob ''callback'' toy_login_back), toy_login_done)"
    by (simp add: oidc_backend_be_def toy_login_done_def)
  have "context_wf toy_login_back"
    using oidc.handlers_confined[of toy_rp toy_login_ob toy_sso_login toy_accepted "fst (oidc_start_auth toy_rp toy_login_ob toy_sso_login toy_accepted)"
        toy_login_out] toy_sso_steps(5) toy_login_steps(5,7)
    by (simp add: oidc_backend_be_def toy_login_out_def confined_def context_wf_def toy_login_back_def)
  with every_backend_isolated[OF toy_backend_built disjI2[OF h], unfolded toy_login_steps(8)]
  show "get_value (cx_state toy_login_done) ''idp'' ''acs_url'' = get_value (cx_state toy_login_back) ''idp'' ''acs_url''"
    by simp
qed

theorem saml_login_through_any_backend_witness:
  "\<exists>page c5 signed. saml_render toy_idp toy_sf toy_answer toy_login_done = (Inr page, c5) \<and>
    page = sl_with_header toy_idp ''cache-control'' ''no-cache, no-store''
      (sl_html toy_idp (sl_post_encode toy_idp signed False ''https://sp/acs'' None))"
proof -
  have s: "accept_request toy_idp toy_sf (Some toy_sp_entry) toy_processed None toy_sso = (Inr (StartAuth toy_sso_login None), toy_accepted)"
    unfolding toy_accepted_def toy_sso_steps(2)[symmetric] by simp
  from toy_login_steps(2) obtain r where o: "be_start_auth (oidc_backend_be toy_rp toy_login_ob) toy_sso_login toy_accepted = (Inr r, toy_login_out)"
    by (auto simp: oidc_backend_be_def toy_login_out_def is_ok_iff prod_eq_iff)
  from toy_login_steps(3) obtain answer where
    h: "be_handle (oidc_backend_be toy_rp toy_login_ob) ''callback'' toy_login_back = (Inr (AuthResponse answer), toy_login_done)"
    by (auto simp: oidc_backend_be_def toy_login_done_def prod_eq_iff split: sum.splits backend_action.splits)
  from toy_login_steps(4) obtain page where p: "saml_render toy_idp toy_sf toy_answer toy_login_done =
      (Inr page, snd (saml_render toy_idp toy_sf toy_answer toy_login_done))"
    by (auto simp: is_ok_iff prod_eq_iff)
  have n: "sf_name toy_sf \<noteq> bx_name (toy_build toy_login_cfg)" "sf_name toy_sf \<noteq> STATE_KEY_BASE"
    unfolding toy_sso_steps(8) toy_login_steps(8) using toy_sso_steps(10) by simp_all
  have w: "context_wf toy_sso" using toy_sso_steps(4) toy_login_steps(6) by (simp add: context_wf_def)
  have b: "cx_state toy_login_back = cx_state toy_login_out" by (simp add: toy_login_back_def)
  from saml_login_through_any_backend[OF toy_backend_built n w toy_login_steps(5,7) s refl o b h p]
  show ?thesis using p unfolding toy_sso_steps(8) toy_login_steps(9,10) by (auto simp: or_else_def)
qed

end
