(* ===== verification/Spec2Isabelle.thy ===== *)
theory Spec2Isabelle
  imports Server Dpop_Replay Identifier_Services Discovery Accr Routing_Services Shaping_Services Oidc_Flow
    Saml_Frontend_Props Saml_Backend_Props Federation_Frontend_Props Federation_Backend_Props Assembly Backend_Isolation
begin

text \<open>
  Tunnelbana: a verification library of the identity proxy.

  THE PROGRAM.  Tunnelbana is an identity proxy between service providers and identity providers.  A
  browser arrives at a frontend (OpenID provider, SAML identity provider or OpenID Federation provider),
  which turns its request into protocol-independent data and asks for a login.  The orchestrator runs
  the configured micro-services over the request, picks a backend (OpenID client, SAML service provider
  or federation relying party) and sends the browser there.  When the browser comes back the backend
  returns an identity, the micro-services run over the response and the frontend that started the flow
  renders the answer.  Between two requests everything the flow needs is in one encrypted cookie; the
  server keeps only caches.

  HOW THE THEORIES FOLLOW THE CODE (paths below src/crates).

  Base.  Prelude: the error values, results (\<open>error + 'a\<close>), state passing (\<open>flow\<close>), the lemma
  collections.  Rust_Str: the \<open>str\<close> operations on UTF-8 byte lists.  Ordered_Map: \<open>BTreeMap\<close> as a sorted
  association list, with the locale \<open>key_map\<close>.  Json: \<open>serde_json\<close> values and the typed decoding that
  \<open>Deserialize\<close> derives.  Fixtures: concrete parameters for the witnesses.

  Core (tunnelbana-core/src).  Internal_Data: internal.rs.  State_Store and Sealer: the two-level session
  and the cookie sealer of state.rs (\<open>seal\<close>, \<open>unseal\<close>, \<open>with_previous_secrets\<close>).  Request_Context:
  context.rs.  Plugin: the traits, \<open>BuildContext\<close> and the registry of plugin.rs, a trait as a record of
  handlers.  Router: router.rs.  Proxy (with Proxy_Flow and Login_Flow for its lemmas): \<open>Proxy::run\<close> with
  dispatch, both chains, suspension, resumption, error rendering and the cookie of every response.
  Ttl_Cache: cache.rs.  Attributes: attributes.rs.  Config: config.rs.

  Plugins (tunnelbana-plugins/src).  Oidc_Common, Oidc_Frontend, Oidc_Backend: the OpenID plugins with
  client_loader.rs, keyload.rs, url_check.rs; Oidc_Flow: both in one session.  Saml_Common, Scope_Cache,
  Saml_Frontend, Saml_Backend: the SAML plugins with saml_common.rs and saml_metadata.rs, their properties
  in Saml_Frontend_Props and Saml_Backend_Props.  Federation_Common, Federation_Frontend,
  Federation_Backend (properties in the theories ending in Props): the OpenID Federation plugins; the
  backend's own copies of \<open>merge_json\<close> and \<open>require_matching_userinfo_subject\<close> are the definitions of
  Oidc_Backend, whose code is the same.  Dpop_Replay: dpop.rs.

  Micro-services (tunnelbana-plugins/src/microservices).  Release_Services: policy.rs, values.rs,
  authorization.rs and the rule lookup of mod.rs.  Identifier_Services: nameid.rs, pairwiseid.rs,
  primary_identifier.rs, hasher.rs, legacy_eptid.rs.  Shaping_Services: processor.rs, generation.rs,
  static_virtual_idp.rs, logging.rs.  Routing_Services: routing.rs.  Discovery: disco.rs.  Accr: accr.rs.
  Stepup_Policy and Stepup: stepup_policy.rs and stepup.rs.  Python_Bridge and Python_Bridge_Props: the
  crate tunnelbana-python.

  Binary and assembly.  Server: main.rs, reqwest_client.rs and tls.rs of the binary.  Assembly:
  \<open>register_all\<close> of the plugin crate and the start of the proxy with its Python runtime.
  Backend_Isolation: the contract every backend keeps, and logins composed of a frontend and any backend.

  HOW STATE AND EFFECTS ARE REPRESENTED.  A Rust struct is a record, an enum a datatype, a \<open>u64\<close> or
  \<open>u16\<close> a word with its wrap-around, a \<open>String\<close> the list of its bytes.  A handler takes the request
  context (\<open>req_context\<close>: request, targets, session, decorations) and returns a result with the context
  after it, errors included.  The world outside (clock, network, files, random numbers, shared caches)
  is the extension field \<open>more\<close> of the context, of any type: a library call is a function of the world
  that returns the next one.  Concurrency is modelled where the code is about it: the interleaved
  metadata lookups (\<open>lookup_step\<close> in Scope_Cache) and the Python calls in flight (\<open>py_step\<close>) are step
  relations with invariants by rule induction; the cache runs under one lock.

  PARAMETERS.  Code that is not in the repository is an argument of the definitions that use it, a record
  of functions: encryption, key derivation, compression and JSON printing (\<open>crypto_lib\<close>), HTTP responses
  (\<open>http_lib\<close>), regular expressions, hashes, the template engine, the OpenID provider (\<open>provider_lib\<close>,
  \<open>op_lib\<close>) and relying party (\<open>rp_lib\<close>), the SAML library (\<open>saml_idp_lib\<close>, \<open>saml_sp_lib\<close>), federation
  (\<open>fed_lib\<close>, \<open>federation_rp\<close>), CPython with pyo3 (\<open>py_lib\<close>, \<open>py_loader\<close>, \<open>py_host\<close>) and rustls.  What a
  theorem relies on of them is a hypothesis it names, documented behaviour such as: decryption inverts
  encryption, \<open>depythonize\<close> inverts \<open>pythonize\<close>, a cache slot reads back what was put in it.

  WHAT IS SHOWN.
  - The orchestrator: a login survives the round trip over the browser with its requester and frontend;
    every response ends in a set-cookie header; the lifetime of a flow is absolute; a resumed request
    runs only the services after the one that resumes it; errors disclose nothing; no route dangles.
  - The sealer: what is unsealed was authenticated, is of this version and unexpired; key rotation keeps
    sessions.
  - The plugins: a login is bound to the request that was sent and the session that started it (state,
    nonce, verifier, request id, provider), consumed once, and answered only to the endpoint and client it
    was validated for; a code is issued only while the registration is the one the login started under; a
    SAML identity comes from a response whose transport, document or every assertion the library verified;
    metadata scopes match the accepted document under every interleaving; federation trust is never used
    after it expires.
  - The micro-services: step-up is not skipped, resumes only its linked subject and gives the response
    back; negotiation never inflates a level; discovery, authorization, release and identifiers do what
    their configuration says.
  - Composition: the started proxy holds the configured modules, each built by the constructor of its type
    (of several backends with one name the last); every backend it can be built
    with keeps to its own namespace, so a login through any of them ends where it started; embedded Python
    commits whole checked results only, within its call limit, and cannot select a missing backend.
  - Contracts as locales: \<open>key_map\<close>, \<open>namespaced_store\<close> and \<open>flow_slot\<close>, \<open>cookie_store\<close>, \<open>check_and_set\<close>,
    \<open>context_frame\<close>, \<open>response_transform\<close> and \<open>attribute_service\<close>, \<open>session_backend\<close>, each interpreted on
    the definitions of the program that provide it.

  BOUNDS AND TERMINATION.  No definition uses fuel: the loops of the code run over lists (the services,
  the configuration entries, the chunks of a body, the candidates of an identifier) or consume their
  input (interpolation, trimming, splitting) and are total functions here.  That a Python call returns is
  not shown and cannot be: a call that hangs keeps its permit, and what is shown is that calls in flight,
  given-up ones included, never exceed the limit.  The sizes the code bounds
  (cookie, cache, key length, response body, failure keys, call limit) are the code's constants.

  NOT MODELLED.  Logging and tracing (their text reaches no client), the routes, response builder and
  signals of the HTTP framework, the byte-level FFI that starts CPython (the parameter \<open>yh_start\<close>), the
  sanitized traceback, the panics on a poisoned lock other than the cache's, the texts that foreign
  libraries put behind a colon in error messages, the module declarations and re-exports, and the tests.
  A Python call whose caller gave up is run to its end before the next step of that caller, since only
  its effect on the world outside can be seen later.
\<close>

end
